(* ===== verification/Prelude.thy ===== *)
theory Prelude
  imports "HOL-Library.Word" "HOL-Library.Monad_Syntax"
begin

text \<open>
  Prelude of the development: machine integers as lists of bytes in memory order (the target
  is x64, so the lowest byte comes first), and generic facts on words, lists and options which
  the components share. Machine integers are \<^typ>\<open>'a word\<close> at their C++ width, and a
  computation that may run into undefined behaviour, a failed CHECK or a point declared UNREACHABLE
  (an empty statement in a release build, so that what follows is undefined) returns an option,
  where \<^const>\<open>None\<close> stands for all of these.
\<close>

unbundle bit_operations_syntax

type_synonym byte = "8 word"
type_synonym int32 = "32 word"
type_synonym uint32 = "32 word"
type_synonym size_t = "64 word"
type_synonym uintptr = "64 word"
type_synonym double = "64 word"

named_theorems transmits_intros \<open>composition rules for saver and loader pairs\<close>
named_theorems bit_simps' \<open>facts on single bits of words\<close>

section \<open>Words as bytes in memory order\<close>

primrec le_bytes :: "nat \<Rightarrow> 'a::len word \<Rightarrow> byte list" where
  "le_bytes 0 w = []"
| "le_bytes (Suc n) w = ucast w # le_bytes n (drop_bit 8 w)"

primrec of_le :: "byte list \<Rightarrow> 'a::len word" where
  "of_le [] = 0"
| "of_le (b # bs) = ucast b OR push_bit 8 (of_le bs)"

lemma length_le_bytes [simp]: "length (le_bytes n w) = n"
  by (induction n arbitrary: w) auto

lemma le_bytes_step:
  "ucast (ucast w :: byte) OR push_bit 8 (take_bit m (drop_bit 8 w)) = take_bit (8 + m) (w :: 'a::len word)"
  by (rule bit_word_eqI) (auto simp: bit_simps)

lemma of_le_le_bytes: "of_le (le_bytes n w) = take_bit (8 * n) (w :: 'a::len word)"
proof (induction n arbitrary: w)
  case (Suc n)
  then show ?case by (simp add: le_bytes_step)
qed simp

lemma of_le_le_bytes_full [simp]:
  "LENGTH('a) \<le> 8 * n \<Longrightarrow> of_le (le_bytes n w) = (w :: 'a::len word)"
  by (simp add: of_le_le_bytes take_bit_word_eq_self)

lemma bit_of_le_high:
  "8 * length bs \<le> i \<Longrightarrow> \<not> bit (of_le bs :: 'a::len word) i"
  by (induction bs arbitrary: i) (auto simp: bit_simps dest: bit_imp_le_length)

lemma bit_of_leD: "bit (of_le bs :: 'a::len word) i \<Longrightarrow> i < 8 * length bs"
  using bit_of_le_high [of bs i, where 'a = 'a] by (auto simp: not_le [symmetric])

lemma le_bytes_of_le:
  "8 * length bs \<le> LENGTH('a) \<Longrightarrow> le_bytes (length bs) (of_le bs :: 'a::len word) = bs"
proof (induction bs)
  case (Cons b bs)
  have lo: "ucast (of_le (b # bs) :: 'a word) = b"
    using Cons.prems by (intro bit_word_eqI) (auto simp: bit_simps)
  have hi: "drop_bit 8 (of_le (b # bs) :: 'a word) = of_le bs"
    using Cons.prems
    by (intro bit_word_eqI) (use Cons.prems in \<open>auto simp: bit_simps dest: bit_of_leD bit_imp_le_length\<close>)
  from Cons show ?case by (simp only: length_Cons le_bytes.simps lo hi) simp
qed simp

lemma le_bytes_inject:
  "LENGTH('a) \<le> 8 * n \<Longrightarrow> le_bytes n v = le_bytes n w \<longleftrightarrow> v = (w :: 'a::len word)"
  by (metis of_le_le_bytes_full)

section \<open>Small integers inside words\<close>

lemma unat_of_nat32 [simp]: "n < 2 ^ 32 \<Longrightarrow> unat (word_of_nat n :: 32 word) = n"
  by (simp add: unat_of_nat take_bit_nat_eq_self)

lemma unat_of_nat64 [simp]: "n < 2 ^ 64 \<Longrightarrow> unat (word_of_nat n :: 64 word) = n"
  by (simp add: unat_of_nat take_bit_nat_eq_self)

lemma sint_of_nat32: "n < 2 ^ 31 \<Longrightarrow> sint (word_of_nat n :: 32 word) = int n"
  by (simp add: signed_of_nat signed_take_bit_int_eq_self)

lemma sint_word_of_int32: "- (2 ^ 31) \<le> i \<Longrightarrow> i < 2 ^ 31 \<Longrightarrow> sint (word_of_int i :: 32 word) = i"
  by (simp add: signed_of_int signed_take_bit_int_eq_self)

lemma nat_sint_of_nat32 [simp]: "n < 2 ^ 31 \<Longrightarrow> nat (sint (word_of_nat n :: 32 word)) = n"
  by (simp add: sint_of_nat32)

section \<open>Lists and options\<close>

lemma bind_Some_iff [simp]:
  "Option.bind x f = Some y \<longleftrightarrow> (\<exists>z. x = Some z \<and> f z = Some y)"
  by (cases x) auto

lemma find_eq_map_of:
  "map_option g (find (\<lambda>x. f x = k) xs) = map_of (map (\<lambda>x. (f x, g x)) xs) k"
  by (induction xs) auto

end
