(* ===== verification/Saveload.thy ===== *)
theory Saveload
  imports Prelude
begin

text \<open>
  The free functions of \<^verbatim>\<open>src/saveload.h\<close>, which write values to a list of chars and read them
  back through a pointer into it. A pointer \<^verbatim>\<open>const char** bytes\<close> is the list of the bytes from
  the pointer to the end of the buffer; reading past that end is undefined behaviour in C++ and
  \<^const>\<open>None\<close> here. A type parameter \<^verbatim>\<open>T\<close> is the word type of its width: \<^verbatim>\<open>sizeof(T)\<close> is
  \<^verbatim>\<open>LENGTH('a) div 8\<close>.
\<close>

definition sizeof :: "'a::len itself \<Rightarrow> nat" where
  "sizeof t = LENGTH('a) div 8"

definition raw_bytes :: "'a::len word list \<Rightarrow> byte list" where
  "raw_bytes array = concat (map (le_bytes (sizeof TYPE('a))) array)"

definition SavePrimitive_bytes :: "byte list \<Rightarrow> 'a::len word \<Rightarrow> byte list" where
  "SavePrimitive_bytes bytes value = bytes @ raw_bytes [value]"

definition LoadPrimitive_bytes :: "byte list \<Rightarrow> ('a::len word \<times> byte list) option" where
  "LoadPrimitive_bytes bytes =
     (let n = sizeof TYPE('a) in
      if length bytes < n then None else Some (of_le (take n bytes), drop n bytes))"

definition SavePrimitiveArray_bytes :: "byte list \<Rightarrow> 'a::len word list \<Rightarrow> bool \<Rightarrow> byte list" where
  "SavePrimitiveArray_bytes bytes array with_length =
     (if with_length then SavePrimitive_bytes bytes (word_of_nat (length array) :: size_t) else bytes)
       @ raw_bytes array"

text \<open>The elements which \<^verbatim>\<open>length\<close> values of the type take from the bytes at the pointer. A
  length beyond the \<^verbatim>\<open>int\<close> that a \<^verbatim>\<open>Vector\<close> holds is out of the model's range.\<close>

primrec array_at :: "nat \<Rightarrow> byte list \<Rightarrow> 'a::len word list" where
  "array_at 0 bytes = []"
| "array_at (Suc n) bytes =
     of_le (take (sizeof TYPE('a)) bytes) # array_at n (drop (sizeof TYPE('a)) bytes)"

definition LoadPrimitiveArray_bytes :: "byte list \<Rightarrow> ('a::len word list \<times> byte list) option" where
  "LoadPrimitiveArray_bytes bytes = do {
     (length, bytes) \<leftarrow> LoadPrimitive_bytes bytes;
     let n = sizeof TYPE('a) * unat (length :: size_t);
     if unat length < 2 ^ 31 \<and> n \<le> List.length bytes
     then Some (array_at (unat length) bytes, drop n bytes)
     else None
   }"

definition SaveTrue_bytes :: "byte list \<Rightarrow> byte list" where
  "SaveTrue_bytes bytes = bytes @ [1]"

definition SaveFalse_bytes :: "byte list \<Rightarrow> byte list" where
  "SaveFalse_bytes bytes = bytes @ [0]"

definition LoadBool_bytes :: "byte list \<Rightarrow> (bool \<times> byte list) option" where
  "LoadBool_bytes bytes = do {
     (c, bytes) \<leftarrow> LoadPrimitive_bytes bytes;
     Some ((c :: byte) \<noteq> 0, bytes)
   }"

section \<open>Reading back what was written\<close>

text \<open>The types the program saves: their width is a whole number of bytes.\<close>

definition whole_bytes :: "'a::len itself \<Rightarrow> bool" where
  "whole_bytes t \<longleftrightarrow> LENGTH('a) = 8 * (LENGTH('a) div 8)"

lemma whole_bytes_words [simp]:
  "whole_bytes TYPE(8)" "whole_bytes TYPE(16)" "whole_bytes TYPE(32)" "whole_bytes TYPE(64)"
  by (simp_all add: whole_bytes_def)

lemma sizeof_words [simp]:
  "sizeof TYPE(8) = 1" "sizeof TYPE(16) = 2" "sizeof TYPE(32) = 4" "sizeof TYPE(64) = 8"
  by (simp_all add: sizeof_def)

lemma of_le_sizeof [simp]:
  "whole_bytes TYPE('a) \<Longrightarrow> of_le (le_bytes (sizeof TYPE('a)) w) = (w :: 'a::len word)"
  by (simp add: whole_bytes_def sizeof_def)

lemma raw_bytes_simps [simp]:
  "raw_bytes [] = []"
  "raw_bytes (w # ws) = le_bytes (sizeof TYPE('a)) (w :: 'a::len word) @ raw_bytes ws"
  by (simp_all add: raw_bytes_def)

lemma length_raw_bytes [simp]:
  "length (raw_bytes (ws :: 'a::len word list)) = sizeof TYPE('a) * length ws"
  by (induction ws) auto

lemma SavePrimitive_bytes_append:
  "SavePrimitive_bytes bytes w = bytes @ SavePrimitive_bytes [] w"
  by (simp add: SavePrimitive_bytes_def)

lemma SavePrimitiveArray_bytes_append:
  "SavePrimitiveArray_bytes bytes ws b = bytes @ SavePrimitiveArray_bytes [] ws b"
  by (simp add: SavePrimitiveArray_bytes_def SavePrimitive_bytes_def)

lemma LoadPrimitive_bytes_le [simp]:
  "whole_bytes TYPE('a) \<Longrightarrow>
   LoadPrimitive_bytes (le_bytes (sizeof TYPE('a)) (w :: 'a::len word) @ rest) = Some (w, rest)"
  by (simp add: LoadPrimitive_bytes_def Let_def)

lemma LoadPrimitive_SavePrimitive:
  "whole_bytes TYPE('a) \<Longrightarrow>
   LoadPrimitive_bytes (SavePrimitive_bytes [] (w :: 'a::len word) @ rest) = Some (w, rest)"
  by (simp add: SavePrimitive_bytes_def)

lemma array_at_raw_bytes:
  "whole_bytes TYPE('a) \<Longrightarrow>
   array_at (length ws) (raw_bytes (ws :: 'a::len word list) @ rest) = ws"
  by (induction ws) auto

lemma LoadPrimitiveArray_SavePrimitiveArray:
  assumes "whole_bytes TYPE('a)" and "length ws < 2 ^ 31"
  shows "LoadPrimitiveArray_bytes (SavePrimitiveArray_bytes [] (ws :: 'a::len word list) True @ rest)
         = Some (ws, rest)"
proof -
  have "LoadPrimitive_bytes (le_bytes 8 (word_of_nat (length ws) :: size_t) @ raw_bytes ws @ rest)
        = Some (word_of_nat (length ws) :: size_t, raw_bytes ws @ rest)"
    using LoadPrimitive_bytes_le [of "word_of_nat (length ws) :: size_t"] by simp
  with assms show ?thesis
    by (simp add: LoadPrimitiveArray_bytes_def SavePrimitiveArray_bytes_def SavePrimitive_bytes_def
        array_at_raw_bytes)
qed

lemma LoadBool_bytes_simps [simp]:
  "LoadBool_bytes (0 # rest) = Some (False, rest)"
  "c \<noteq> 0 \<Longrightarrow> LoadBool_bytes (c # rest) = Some (True, rest)"
  by (simp_all add: LoadBool_bytes_def LoadPrimitive_bytes_def Let_def)

lemma LoadPrimitive_bytes_consumes:
  assumes "LoadPrimitive_bytes bytes = Some (w :: 'a::len word, rest)"
  shows "length rest + sizeof TYPE('a) = length bytes"
  using assms by (auto simp: LoadPrimitive_bytes_def Let_def split: if_splits)

end
