(* ===== verification/CodeBlockDatabase.thy ===== *)
theory CodeBlockDatabase
  imports Saveload "HOL-Library.Multiset"
begin

text \<open>
  \<^verbatim>\<open>src/code-block-database.{h,cc}\<close>: the database of saved code, a list of blocks each with the
  start position of its function. A \<^verbatim>\<open>Vector<const char>\<close> is its start address with its
  contents, and \<^verbatim>\<open>db_disposed\<close> logs the addresses given back by \<^verbatim>\<open>Vector::Dispose\<close>, so that
  the ownership of the memory can be stated. The file which \<^verbatim>\<open>Read\<close> opens and \<^verbatim>\<open>Write\<close> makes is
  its contents; the address at which \<^verbatim>\<open>ReadFile\<close> allocates its buffer is an argument.
\<close>

record char_vector =
  v_start :: nat
  v_chars :: "byte list"

record CodeBlock =
  block_managed :: bool
  block_start_position :: int32
  block_code :: char_vector

record CodeBlockDatabase =
  db_source :: "string option"
  db_code_blocks :: "CodeBlock list"
  db_buffer :: char_vector
  db_disposed :: "nat list"

definition empty_vector :: char_vector where
  "empty_vector = \<lparr>v_start = 0, v_chars = []\<rparr>"

definition new_CodeBlockDatabase :: CodeBlockDatabase where
  "new_CodeBlockDatabase =
     \<lparr>db_source = None, db_code_blocks = [], db_buffer = empty_vector, db_disposed = []\<rparr>"

definition Dispose :: "char_vector \<Rightarrow> nat list \<Rightarrow> nat list" where
  "Dispose v disposed = disposed @ [v_start v]"

definition DisposeIfNeeded :: "CodeBlock \<Rightarrow> nat list \<Rightarrow> nat list" where
  "DisposeIfNeeded b disposed = (if block_managed b then Dispose (block_code b) disposed else disposed)"

definition CodeBlock_SetCode ::
  "char_vector \<Rightarrow> bool \<Rightarrow> CodeBlock \<Rightarrow> nat list \<Rightarrow> CodeBlock \<times> nat list" where
  "CodeBlock_SetCode code managed b disposed =
     (b\<lparr>block_managed := managed, block_code := code\<rparr>, DisposeIfNeeded b disposed)"

text \<open>The destructor: every managed block and then the buffer are given back.\<close>

definition delete_CodeBlockDatabase :: "CodeBlockDatabase \<Rightarrow> nat list" where
  "delete_CodeBlockDatabase db =
     Dispose (db_buffer db) (fold DisposeIfNeeded (db_code_blocks db) (db_disposed db))"

section \<open>Reading and writing the file\<close>

text \<open>One iteration reads a block at \<^verbatim>\<open>read_pointer\<close>, of which \<^verbatim>\<open>offset\<close> is the distance from
  the start of the buffer. \<^verbatim>\<open>SubVector\<close> does not copy: the block points into the buffer.\<close>

definition read_block :: "nat \<Rightarrow> byte list \<Rightarrow> (CodeBlock \<times> byte list) option" where
  "read_block buffer_end bytes = do {
     (start_position, bytes) \<leftarrow> LoadPrimitive_bytes bytes;
     (size, bytes) \<leftarrow> LoadPrimitive_bytes bytes;
     if unat (size :: size_t) \<le> length bytes
     then Some (\<lparr>block_managed = False, block_start_position = start_position,
                 block_code = \<lparr>v_start = buffer_end - length bytes, v_chars = take (unat size) bytes\<rparr>\<rparr>,
                drop (unat size) bytes)
     else None
   }"

primrec read_blocks :: "nat \<Rightarrow> nat \<Rightarrow> byte list \<Rightarrow> (CodeBlock list \<times> byte list) option" where
  "read_blocks buffer_end 0 bytes = Some ([], bytes)"
| "read_blocks buffer_end (Suc n) bytes = do {
     (b, bytes) \<leftarrow> read_block buffer_end bytes;
     (bs, bytes) \<leftarrow> read_blocks buffer_end n bytes;
     Some (b # bs, bytes)
   }"

text \<open>\<^verbatim>\<open>contents\<close> is \<^const>\<open>None\<close> when the file does not exist, which fails the CHECK. The number
  of blocks becomes the \<^verbatim>\<open>int\<close> argument of \<^verbatim>\<open>List::Allocate\<close>.\<close>

definition Read ::
  "string \<Rightarrow> byte list option \<Rightarrow> nat \<Rightarrow> CodeBlockDatabase \<Rightarrow> CodeBlockDatabase option" where
  "Read filename contents addr db = do {
     file \<leftarrow> contents;
     (number_of_blocks, bytes) \<leftarrow> LoadPrimitive_bytes file;
     if unat (number_of_blocks :: size_t) < 2 ^ 31 then do {
       (blocks, _) \<leftarrow> read_blocks (addr + length file) (unat number_of_blocks) bytes;
       Some (db\<lparr>db_source := Some filename, db_buffer := \<lparr>v_start = addr, v_chars = file\<rparr>,
               db_code_blocks := blocks\<rparr>)
     } else None
   }"

definition write_block :: "byte list \<Rightarrow> CodeBlock \<Rightarrow> byte list" where
  "write_block data b =
     (let data = SavePrimitive_bytes data (block_start_position b);
          data = SavePrimitive_bytes data (word_of_nat (length (v_chars (block_code b))) :: size_t)
      in data @ v_chars (block_code b))"

definition Write :: "CodeBlockDatabase \<Rightarrow> byte list" where
  "Write db =
     foldl write_block
       (SavePrimitive_bytes [] (word_of_nat (length (db_code_blocks db)) :: size_t)) (db_code_blocks db)"

section \<open>The operations on blocks\<close>

fun set_in_blocks ::
  "int32 \<Rightarrow> char_vector \<Rightarrow> CodeBlock list \<Rightarrow> nat list \<Rightarrow> (CodeBlock list \<times> nat list) option" where
  "set_in_blocks p code [] disposed = None"
| "set_in_blocks p code (b # bs) disposed =
     (if block_start_position b = p
      then let (b', disposed') = CodeBlock_SetCode code True b disposed in Some (b' # bs, disposed')
      else map_option (\<lambda>(bs', disposed'). (b # bs', disposed')) (set_in_blocks p code bs disposed))"

definition SetCode :: "int32 \<Rightarrow> char_vector \<Rightarrow> CodeBlockDatabase \<Rightarrow> CodeBlockDatabase" where
  "SetCode p code db =
     (case set_in_blocks p code (db_code_blocks db) (db_disposed db) of
        Some (bs, disposed) \<Rightarrow> db\<lparr>db_code_blocks := bs, db_disposed := disposed\<rparr>
      | None \<Rightarrow> db\<lparr>db_code_blocks := db_code_blocks db @
                   [\<lparr>block_managed = True, block_start_position = p, block_code = code\<rparr>]\<rparr>)"

definition HasCode :: "int32 \<Rightarrow> CodeBlockDatabase \<Rightarrow> bool" where
  "HasCode p db = list_ex (\<lambda>b. block_start_position b = p) (db_code_blocks db)"

text \<open>\<^const>\<open>None\<close> is the point declared UNREACHABLE, after which a release build runs off the end of the function.\<close>

definition GetCode :: "int32 \<Rightarrow> CodeBlockDatabase \<Rightarrow> char_vector option" where
  "GetCode p db = map_option block_code (find (\<lambda>b. block_start_position b = p) (db_code_blocks db))"

fun remove_from_blocks :: "int32 \<Rightarrow> CodeBlock list \<Rightarrow> CodeBlock list option" where
  "remove_from_blocks p [] = None"
| "remove_from_blocks p (b # bs) =
     (if block_start_position b = p then Some bs
      else map_option (\<lambda>bs'. b # bs') (remove_from_blocks p bs))"

definition RemoveCode :: "int32 \<Rightarrow> CodeBlockDatabase \<Rightarrow> bool \<times> CodeBlockDatabase" where
  "RemoveCode p db =
     (case remove_from_blocks p (db_code_blocks db) of
        Some bs \<Rightarrow> (True, db\<lparr>db_code_blocks := bs\<rparr>)
      | None \<Rightarrow> (False, db))"

section \<open>The interface of a code store and its clients\<close>

text \<open>What the compiler expects of the database: a finite map from start positions to code.
  \<open>invar\<close> is what every operation keeps, \<open>lookup\<close> the contents.\<close>

datatype code_op = Set int32 char_vector | Remove int32

fun map_step :: "code_op \<Rightarrow> (int32 \<rightharpoonup> byte list) \<Rightarrow> (int32 \<rightharpoonup> byte list)" where
  "map_step (Set p v) m = m(p \<mapsto> v_chars v)"
| "map_step (Remove p) m = m(p := None)"

locale code_store =
  fixes invar :: "'db \<Rightarrow> bool"
    and lookup :: "'db \<Rightarrow> int32 \<rightharpoonup> byte list"
    and set_code :: "int32 \<Rightarrow> char_vector \<Rightarrow> 'db \<Rightarrow> 'db"
    and remove_code :: "int32 \<Rightarrow> 'db \<Rightarrow> bool \<times> 'db"
    and has_code :: "int32 \<Rightarrow> 'db \<Rightarrow> bool"
    and get_code :: "int32 \<Rightarrow> 'db \<Rightarrow> char_vector option"
  assumes invar_set: "invar db \<Longrightarrow> invar (set_code p v db)"
    and invar_remove: "invar db \<Longrightarrow> invar (snd (remove_code p db))"
    and lookup_set: "invar db \<Longrightarrow> lookup (set_code p v db) = (lookup db)(p \<mapsto> v_chars v)"
    and lookup_remove: "invar db \<Longrightarrow> lookup (snd (remove_code p db)) = (lookup db)(p := None)"
    and remove_found: "fst (remove_code p db) \<longleftrightarrow> lookup db p \<noteq> None"
    and has_lookup: "has_code p db \<longleftrightarrow> lookup db p \<noteq> None"
    and get_lookup: "map_option v_chars (get_code p db) = lookup db p"
begin

fun step :: "code_op \<Rightarrow> 'db \<Rightarrow> 'db" where
  "step (Set p v) db = set_code p v db"
| "step (Remove p) db = snd (remove_code p db)"

lemma invar_step: "invar db \<Longrightarrow> invar (step op db)"
  by (cases op) (simp_all add: invar_set invar_remove)

lemma invar_steps: "invar db \<Longrightarrow> invar (fold step ops db)"
  by (induction ops arbitrary: db) (simp_all add: invar_step)

lemma lookup_step: "invar db \<Longrightarrow> lookup (step op db) = map_step op (lookup db)"
  by (cases op) (simp_all add: lookup_set lookup_remove)

lemma lookup_steps: "invar db \<Longrightarrow> lookup (fold step ops db) = fold map_step ops (lookup db)"
  by (induction ops arbitrary: db) (simp_all add: invar_step lookup_step)

lemma get_after_steps:
  "invar db \<Longrightarrow>
   map_option v_chars (get_code p (fold step ops db)) = fold map_step ops (lookup db) p"
  by (simp add: get_lookup lookup_steps)

lemma get_iff_has: "get_code p db \<noteq> None \<longleftrightarrow> has_code p db"
  by (simp add: has_lookup get_lookup [symmetric])

lemma has_after_set: "invar db \<Longrightarrow> has_code p (set_code p v db)"
  by (simp add: has_lookup lookup_set)

lemma remove_twice: "invar db \<Longrightarrow> \<not> fst (remove_code p (snd (remove_code p db)))"
  by (simp add: remove_found lookup_remove)

end

section \<open>The database implements the code store\<close>

text \<open>Start positions are distinct: a function is saved once. \<^verbatim>\<open>Read\<close> does not check it, so it is
  a condition on the file.\<close>

definition db_distinct :: "CodeBlockDatabase \<Rightarrow> bool" where
  "db_distinct db \<longleftrightarrow> distinct (map block_start_position (db_code_blocks db))"

definition db_lookup :: "CodeBlockDatabase \<Rightarrow> int32 \<rightharpoonup> byte list" where
  "db_lookup db p = map_option v_chars (GetCode p db)"

lemma find_map_of:
  "map_option (v_chars \<circ> block_code) (find (\<lambda>b. block_start_position b = p) bs)
   = map_of (map (\<lambda>b. (block_start_position b, v_chars (block_code b))) bs) p"
  by (induction bs) auto

abbreviation blocks_map :: "CodeBlock list \<Rightarrow> int32 \<rightharpoonup> byte list" where
  "blocks_map bs \<equiv> map_of (map (\<lambda>b. (block_start_position b, v_chars (block_code b))) bs)"

lemma db_lookup_map_of: "db_lookup db = blocks_map (db_code_blocks db)"
  by (rule ext) (simp add: db_lookup_def GetCode_def option.map_comp find_map_of)

lemma set_in_blocks_None:
  "set_in_blocks p v bs d = None \<longleftrightarrow> p \<notin> block_start_position ` set bs"
  by (induction bs) (auto simp: CodeBlock_SetCode_def)

lemma set_in_blocks_Some:
  assumes "set_in_blocks p v bs d = Some (bs', d')"
  shows "map block_start_position bs' = map block_start_position bs"
    and "blocks_map bs' = (blocks_map bs)(p \<mapsto> v_chars v)"
  using assms
  by (induction bs arbitrary: bs' d') (auto simp: CodeBlock_SetCode_def fun_eq_iff split: if_splits)

lemma blocks_map_dom: "dom (blocks_map bs) = block_start_position ` set bs"
  by (simp add: dom_map_of_conv_image_fst image_image)

lemma blocks_map_None: "blocks_map bs p = None \<longleftrightarrow> p \<notin> block_start_position ` set bs"
  by (simp add: map_of_eq_None_iff image_image)

lemma blocks_map_append:
  "p \<notin> block_start_position ` set bs \<Longrightarrow>
   blocks_map (bs @ [\<lparr>block_managed = m, block_start_position = p, block_code = v\<rparr>])
   = (blocks_map bs)(p \<mapsto> v_chars v)"
  by (induction bs) (auto simp: fun_eq_iff)

lemma remove_from_blocks_None:
  "remove_from_blocks p bs = None \<longleftrightarrow> p \<notin> block_start_position ` set bs"
  by (induction bs) auto

lemma remove_from_blocks_Some:
  assumes "remove_from_blocks p bs = Some bs'" and "distinct (map block_start_position bs)"
  shows "map block_start_position bs' = filter (\<lambda>q. q \<noteq> p) (map block_start_position bs)"
    and "blocks_map bs' = (blocks_map bs)(p := None)"
proof -
  have out: "blocks_map cs p = None" if "p \<notin> block_start_position ` set cs" for cs
    using that by (simp add: blocks_map_None)
  show "map block_start_position bs' = filter (\<lambda>q. q \<noteq> p) (map block_start_position bs)"
    using assms
  proof (induction bs arbitrary: bs')
    case (Cons b bs)
    show ?case
    proof (cases "block_start_position b = p")
      case True
      with Cons.prems have "p \<notin> set (map block_start_position bs)" "bs' = bs" by auto
      then have "filter (\<lambda>q. q \<noteq> p) (map block_start_position bs) = map block_start_position bs"
        by (intro filter_True) auto
      with True \<open>bs' = bs\<close> show ?thesis by simp
    next
      case False
      with Cons show ?thesis by auto
    qed
  qed simp
  show "blocks_map bs' = (blocks_map bs)(p := None)"
    using assms
  proof (induction bs arbitrary: bs')
    case (Cons b bs)
    show ?case
    proof (cases "block_start_position b = p")
      case True
      with Cons.prems have "p \<notin> block_start_position ` set bs" "bs' = bs" by auto
      with True out show ?thesis by (auto simp: fun_eq_iff)
    next
      case False
      with Cons show ?thesis by (auto simp: fun_upd_twist)
    qed
  qed simp
qed

lemma db_distinct_SetCode: "db_distinct db \<Longrightarrow> db_distinct (SetCode p v db)"
  by (auto simp: db_distinct_def SetCode_def set_in_blocks_None set_in_blocks_Some(1)
      split: option.splits)

lemma db_distinct_RemoveCode: "db_distinct db \<Longrightarrow> db_distinct (snd (RemoveCode p db))"
  by (auto simp: db_distinct_def RemoveCode_def remove_from_blocks_Some(1) split: option.splits)

lemma db_lookup_SetCode: "db_lookup (SetCode p v db) = (db_lookup db)(p \<mapsto> v_chars v)"
  by (auto simp: db_lookup_map_of SetCode_def set_in_blocks_None set_in_blocks_Some(2)
      blocks_map_append simp del: map_append split: option.splits)

lemma db_lookup_RemoveCode:
  assumes "db_distinct db"
  shows "db_lookup (snd (RemoveCode p db)) = (db_lookup db)(p := None)"
proof (cases "remove_from_blocks p (db_code_blocks db)")
  case None
  then have "db_lookup db p = None"
    by (simp add: db_lookup_map_of blocks_map_None remove_from_blocks_None)
  with None show ?thesis by (simp add: RemoveCode_def fun_upd_idem)
next
  case (Some bs)
  with assms show ?thesis
    by (simp add: RemoveCode_def db_lookup_map_of db_distinct_def remove_from_blocks_Some(2))
qed

lemma HasCode_lookup: "HasCode p db \<longleftrightarrow> db_lookup db p \<noteq> None"
proof -
  have "HasCode p db \<longleftrightarrow> p \<in> dom (blocks_map (db_code_blocks db))"
    by (auto simp: HasCode_def blocks_map_dom list_ex_iff)
  then show ?thesis by (simp add: db_lookup_map_of domIff)
qed

lemma RemoveCode_found: "fst (RemoveCode p db) \<longleftrightarrow> db_lookup db p \<noteq> None"
proof -
  have "fst (RemoveCode p db) \<longleftrightarrow> remove_from_blocks p (db_code_blocks db) \<noteq> None"
    by (simp add: RemoveCode_def split: option.split)
  also have "\<dots> \<longleftrightarrow> p \<in> dom (blocks_map (db_code_blocks db))"
    by (simp only: remove_from_blocks_None blocks_map_dom not_not)
  finally show ?thesis by (simp add: db_lookup_map_of domIff)
qed

interpretation db: code_store db_distinct db_lookup SetCode RemoveCode HasCode GetCode
  by unfold_locales
    (simp_all add: db_distinct_SetCode db_distinct_RemoveCode db_lookup_SetCode
      db_lookup_RemoveCode RemoveCode_found HasCode_lookup, simp add: db_lookup_def)


section \<open>Reading back what was written\<close>

text \<open>What fits the file format: the counts and sizes are \<^verbatim>\<open>int\<close> lengths.\<close>

definition db_small :: "CodeBlockDatabase \<Rightarrow> bool" where
  "db_small db \<longleftrightarrow> length (db_code_blocks db) < 2 ^ 31 \<and>
     list_all (\<lambda>b. length (v_chars (block_code b)) < 2 ^ 31) (db_code_blocks db)"

abbreviation block_view :: "CodeBlock \<Rightarrow> int32 \<times> byte list" where
  "block_view b \<equiv> (block_start_position b, v_chars (block_code b))"

lemma write_block_append: "write_block data b = data @ write_block [] b"
  by (simp add: write_block_def SavePrimitive_bytes_def)

lemma foldl_write_block:
  "foldl write_block data bs = data @ concat (map (write_block []) bs)"
proof (induction bs arbitrary: data)
  case (Cons b bs)
  show ?case by (simp add: Cons write_block_append [of data])
qed simp

lemma read_block_write_block:
  assumes "length (v_chars (block_code b)) < 2 ^ 31"
  shows "read_block e (write_block [] b @ rest) =
    Some (\<lparr>block_managed = False, block_start_position = block_start_position b,
           block_code = \<lparr>v_start = e - length (v_chars (block_code b) @ rest),
                         v_chars = v_chars (block_code b)\<rparr>\<rparr>, rest)"
  using assms
    LoadPrimitive_SavePrimitive [of "block_start_position b"]
    LoadPrimitive_SavePrimitive [of "word_of_nat (length (v_chars (block_code b))) :: size_t"]
  by (simp add: read_block_def write_block_def SavePrimitive_bytes_def)

text \<open>Every block that is read is an unmanaged slice of the buffer, which ends at address \<open>e\<close>.\<close>

definition slice_of :: "nat \<Rightarrow> byte list \<Rightarrow> CodeBlock \<Rightarrow> bool" where
  "slice_of addr file b \<longleftrightarrow> \<not> block_managed b \<and> addr \<le> v_start (block_code b) \<and>
     take (length (v_chars (block_code b))) (drop (v_start (block_code b) - addr) file)
       = v_chars (block_code b)"

lemma read_blocks_write_blocks:
  assumes "list_all (\<lambda>b. length (v_chars (block_code b)) < 2 ^ 31) bs"
    and "file = front @ concat (map (write_block []) bs) @ rest"
  shows "\<exists>cs. read_blocks (addr + length file) (length bs)
                (concat (map (write_block []) bs) @ rest) = Some (cs, rest)
            \<and> map block_view cs = map block_view bs \<and> list_all (slice_of addr file) cs"
  using assms
proof (induction bs arbitrary: front)
  case (Cons b bs)
  let ?tail = "concat (map (write_block []) bs) @ rest"
  let ?c = "\<lparr>block_managed = False, block_start_position = block_start_position b,
           block_code = \<lparr>v_start = (addr + length file) - length (v_chars (block_code b) @ ?tail),
                         v_chars = v_chars (block_code b)\<rparr>\<rparr>"
  from Cons.prems have
    small: "length (v_chars (block_code b)) < 2 ^ 31"
           "list_all (\<lambda>b. length (v_chars (block_code b)) < 2 ^ 31) bs"
    and whole: "file = (front @ write_block [] b) @ ?tail" by simp_all
  obtain pre where pre: "write_block [] b = pre @ v_chars (block_code b)"
    by (simp add: write_block_def)
  have "slice_of addr file ?c"
    by (simp add: slice_of_def whole pre)
  moreover from Cons.IH [OF small(2) whole] obtain cs where
    "read_blocks (addr + length file) (length bs) ?tail = Some (cs, rest)"
    "map block_view cs = map block_view bs" "list_all (slice_of addr file) cs" by auto
  ultimately show ?case
    using read_block_write_block [OF small(1), of "addr + length file" ?tail]
    by (intro exI [of _ "?c # cs"]) simp
qed simp

lemma Write_eq:
  "Write db = le_bytes 8 (word_of_nat (length (db_code_blocks db)) :: size_t)
              @ concat (map (write_block []) (db_code_blocks db))"
  by (simp add: Write_def foldl_write_block SavePrimitive_bytes_def)

lemma Read_Write_blocks:
  assumes "db_small db"
  shows "\<exists>cs. Read f (Some (Write db)) addr old =
      Some (old\<lparr>db_source := Some f, db_buffer := \<lparr>v_start = addr, v_chars = Write db\<rparr>,
               db_code_blocks := cs\<rparr>)
    \<and> map block_view cs = map block_view (db_code_blocks db)
    \<and> list_all (slice_of addr (Write db)) cs"
proof -
  let ?n = "word_of_nat (length (db_code_blocks db)) :: size_t"
  let ?body = "concat (map (write_block []) (db_code_blocks db))"
  from assms have small: "length (db_code_blocks db) < 2 ^ 31"
    and each: "list_all (\<lambda>b. length (v_chars (block_code b)) < 2 ^ 31) (db_code_blocks db)"
    by (simp_all add: db_small_def)
  from read_blocks_write_blocks [OF each, of "Write db" "le_bytes 8 ?n" "[]" addr]
  obtain cs where
    "read_blocks (addr + length (Write db)) (length (db_code_blocks db)) ?body = Some (cs, [])"
    "map block_view cs = map block_view (db_code_blocks db)"
    "list_all (slice_of addr (Write db)) cs"
    by (auto simp: Write_eq)
  moreover have "LoadPrimitive_bytes (Write db) = Some (?n, ?body)"
    using LoadPrimitive_SavePrimitive [of ?n ?body]
    by (simp add: Write_eq SavePrimitive_bytes_def)
  ultimately show ?thesis using small by (intro exI [of _ cs]) (simp add: Read_def)
qed


section \<open>Ownership of the code vectors\<close>

text \<open>The vectors the database has to give back, counted with multiplicity: a vector that occurs
  twice would be freed twice, one that disappears is leaked.\<close>

definition owned :: "CodeBlock list \<Rightarrow> nat multiset" where
  "owned bs = mset (map (\<lambda>b. v_start (block_code b)) (filter block_managed bs))"

definition accounted :: "CodeBlockDatabase \<Rightarrow> nat multiset" where
  "accounted db = owned (db_code_blocks db) + mset (db_disposed db)"

lemma owned_simps [simp]:
  "owned [] = {#}"
  "owned (b # bs) = (if block_managed b then {#v_start (block_code b)#} else {#}) + owned bs"
  by (simp_all add: owned_def)

lemma owned_append [simp]: "owned (bs @ cs) = owned bs + owned cs"
  by (simp add: owned_def)

lemma set_in_blocks_accounted:
  "set_in_blocks p v bs d = Some (bs', d') \<Longrightarrow>
   owned bs' + mset d' = add_mset (v_start v) (owned bs + mset d)"
  by (induction bs arbitrary: bs')
    (auto simp: CodeBlock_SetCode_def DisposeIfNeeded_def Dispose_def split: if_splits)

lemma accounted_SetCode: "accounted (SetCode p v db) = add_mset (v_start v) (accounted db)"
  by (auto simp: SetCode_def accounted_def dest: set_in_blocks_accounted split: option.split)

lemma mset_fold_DisposeIfNeeded: "mset (fold DisposeIfNeeded bs d) = owned bs + mset d"
  by (induction bs arbitrary: d) (auto simp: DisposeIfNeeded_def Dispose_def)

lemma delete_accounted:
  "mset (delete_CodeBlockDatabase db) = add_mset (v_start (db_buffer db)) (accounted db)"
  by (simp add: delete_CodeBlockDatabase_def Dispose_def mset_fold_DisposeIfNeeded accounted_def)

lemma db_buffer_SetCode [simp]: "db_buffer (SetCode p v db) = db_buffer db"
  by (simp add: SetCode_def split: option.split)

lemma remove_from_blocks_find:
  "remove_from_blocks p bs = None \<longleftrightarrow> find (\<lambda>b. block_start_position b = p) bs = None"
  by (induction bs) auto

lemma remove_from_blocks_owned:
  "remove_from_blocks p bs = Some bs' \<Longrightarrow>
   \<exists>b \<in> set bs. block_start_position b = p \<and> find (\<lambda>b. block_start_position b = p) bs = Some b \<and>
     owned bs = owned bs' + (if block_managed b then {#v_start (block_code b)#} else {#})"
  by (induction bs arbitrary: bs') (fastforce split: if_splits)+

text \<open>The vectors handed to \<^verbatim>\<open>SetCode\<close> by a sequence of calls.\<close>

definition set_all :: "(int32 \<times> char_vector) list \<Rightarrow> CodeBlockDatabase \<Rightarrow> CodeBlockDatabase" where
  "set_all calls db = fold (\<lambda>(p, v). SetCode p v) calls db"

lemma accounted_set_all:
  "accounted (set_all calls db) = mset (map (\<lambda>(p, v). v_start v) calls) + accounted db"
  by (induction calls arbitrary: db) (auto simp: set_all_def accounted_SetCode)

lemma db_buffer_set_all [simp]: "db_buffer (set_all calls db) = db_buffer db"
  by (induction calls arbitrary: db) (auto simp: set_all_def)

section \<open>Properties\<close>


definition sample_db :: CodeBlockDatabase where
  "sample_db = set_all [(7, \<lparr>v_start = 100, v_chars = [1, 2, 3]\<rparr>), (9, \<lparr>v_start = 200, v_chars = []\<rparr>)]
     new_CodeBlockDatabase"


text \<open>C5 The database refines a finite map: after any sequence of \<^verbatim>\<open>SetCode\<close> and \<^verbatim>\<open>RemoveCode\<close> calls
  on a database without duplicate positions, \<^verbatim>\<open>GetCode\<close> returns the code which the abstract map
  holds at that position, it comes to the point declared UNREACHABLE exactly where the map is undefined, and \<^verbatim>\<open>HasCode\<close>
  tells the two cases apart.\<close>
theorem database_refines_map:
  assumes "db_distinct db"
  shows "map_option v_chars (GetCode p (fold db.step ops db)) = fold map_step ops (db_lookup db) p \<and>
    (HasCode p (fold db.step ops db) \<longleftrightarrow> fold map_step ops (db_lookup db) p \<noteq> None) \<and>
    db_distinct (fold db.step ops db)"
  using assms db.get_after_steps [OF assms] db.lookup_steps [OF assms] db.invar_steps [OF assms]
  by (simp add: db.has_lookup)

theorem database_refines_map_witness:
  "map_option v_chars (GetCode 7 (fold db.step
      [Set 7 \<lparr>v_start = 300, v_chars = [4]\<rparr>, Remove 9, Set 7 \<lparr>v_start = 400, v_chars = [5]\<rparr>] sample_db))
   = Some [5]"
  using database_refines_map [of sample_db 7 "[Set 7 \<lparr>v_start = 300, v_chars = [4]\<rparr>, Remove 9,
      Set 7 \<lparr>v_start = 400, v_chars = [5]\<rparr>]"]
  by (simp add: sample_db_def db_distinct_def set_all_def SetCode_def new_CodeBlockDatabase_def
      CodeBlock_SetCode_def)

text \<open>C12 Memory of a database that is only set: destroying the database after any sequence of
  \<^verbatim>\<open>SetCode\<close> calls gives back the vectors it was handed, each exactly once, besides what the
  database before the calls would have given back. So code that is replaced is neither leaked nor
  freed twice.\<close>
theorem destructor_frees_each_once:
  "mset (delete_CodeBlockDatabase (set_all calls db)) =
   mset (map (\<lambda>(p, v). v_start v) calls) + mset (delete_CodeBlockDatabase db)"
  by (simp add: delete_accounted accounted_set_all)

text \<open>C13 \<^verbatim>\<open>RemoveCode\<close> takes a managed block out of the list without disposing of it: when a call
  removes a block whose code the database owns, that vector is missing from what the destructor
  gives back.\<close>
theorem RemoveCode_leaks:
  assumes "find (\<lambda>b. block_start_position b = p) (db_code_blocks db) = Some b" "block_managed b"
  shows "mset (delete_CodeBlockDatabase db) =
    add_mset (v_start (block_code b)) (mset (delete_CodeBlockDatabase (snd (RemoveCode p db))))"
proof -
  from assms have "remove_from_blocks p (db_code_blocks db) \<noteq> None"
    by (simp add: remove_from_blocks_find)
  then obtain bs where "remove_from_blocks p (db_code_blocks db) = Some bs" by blast
  with remove_from_blocks_owned [OF this] assms show ?thesis
    by (auto simp: delete_accounted accounted_def RemoveCode_def)
qed

theorem RemoveCode_leaks_witness:
  "delete_CodeBlockDatabase (snd (RemoveCode 7 sample_db)) = [200, 0] \<and>
   mset (delete_CodeBlockDatabase sample_db) =
     add_mset 100 (mset (delete_CodeBlockDatabase (snd (RemoveCode 7 sample_db))))"
  using RemoveCode_leaks [of 7 sample_db
      "\<lparr>block_managed = True, block_start_position = 7, block_code = \<lparr>v_start = 100, v_chars = [1, 2, 3]\<rparr>\<rparr>"]
  by (simp add: sample_db_def set_all_def SetCode_def new_CodeBlockDatabase_def RemoveCode_def
      CodeBlock_SetCode_def delete_CodeBlockDatabase_def DisposeIfNeeded_def Dispose_def
      empty_vector_def)

end
