(* ===== verification/SaveloadBase.thy ===== *)
theory SaveloadBase
  imports Saveload
begin

text \<open>
  The bases of saver and loader in \<^verbatim>\<open>src/lithium-saveload.h\<close>: the status both keep, the bytes the
  saver appends to and the loader reads from, and the members every other save or load function
  is built of. A saver function maps a saver state to the next one, a loader function returns its
  value with the next state; \<^const>\<open>None\<close> is a crash or undefined behaviour (a point declared
  UNREACHABLE or UNIMPLEMENTED, a failed CHECK, a null or out of range access), while a reported failure is a state whose status is \<open>FAILED\<close>.
  \<^verbatim>\<open>Synchronize\<close> is empty in a release build, which is what is modelled.

  The second half states what it means that a load function understands a save function
  (\<open>transmits\<close>), with the composition rules that the later theories use.
\<close>

section \<open>The classes\<close>

datatype Status = FAILED | SUCCEEDED

record saveload_base =
  status :: Status
  reason :: "string option"

text \<open>The saver: its bytes and the stack of the maps that are being saved, by address.\<close>

record saver_base = saveload_base +
  bytes :: "byte list"
  map_cache :: "nat list"

text \<open>The loader: the bytes from its read pointer to the end of its storage, and what the loaders
  change in the \<^verbatim>\<open>CompilationInfo\<close>.\<close>

record loader_base = saveload_base +
  input :: "byte list"
  info_requires_frame :: bool
  info_deferred_calling :: bool

definition LChunkSaverBase :: saver_base where
  "LChunkSaverBase = \<lparr>status = SUCCEEDED, reason = None, bytes = [], map_cache = []\<rparr>"

definition LChunkLoaderBase :: "byte list \<Rightarrow> loader_base" where
  "LChunkLoaderBase storage =
     \<lparr>status = SUCCEEDED, reason = None, input = storage, info_requires_frame = False,
      info_deferred_calling = False\<rparr>"

definition Fail :: "string \<Rightarrow> 'a saveload_base_scheme \<Rightarrow> 'a saveload_base_scheme" where
  "Fail r s = s\<lparr>status := FAILED, reason := Some r\<rparr>"

text \<open>The macros: go on with the continuation only while the status is good.\<close>

definition RETURN_ON_FAIL ::
  "'a saveload_base_scheme \<Rightarrow> 'a saveload_base_scheme option \<Rightarrow> 'a saveload_base_scheme option" where
  "RETURN_ON_FAIL s k = (if status s \<noteq> SUCCEEDED then Some s else k)"

definition RETURN_VALUE_ON_FAIL ::
  "'v \<Rightarrow> 'a saveload_base_scheme \<Rightarrow> ('v \<times> 'a saveload_base_scheme) option
   \<Rightarrow> ('v \<times> 'a saveload_base_scheme) option" where
  "RETURN_VALUE_ON_FAIL v s k = (if status s \<noteq> SUCCEEDED then Some (v, s) else k)"

definition SavePrimitive ::
  "'w::len word \<Rightarrow> 'a saver_base_scheme \<Rightarrow> 'a saver_base_scheme option" where
  "SavePrimitive value s = Some (s\<lparr>bytes := SavePrimitive_bytes (bytes s) value\<rparr>)"

definition SavePrimitiveArray ::
  "'w::len word list \<Rightarrow> 'a saver_base_scheme \<Rightarrow> 'a saver_base_scheme option" where
  "SavePrimitiveArray array s = Some (s\<lparr>bytes := SavePrimitiveArray_bytes (bytes s) array True\<rparr>)"

definition SaveTrue :: "'a saver_base_scheme \<Rightarrow> 'a saver_base_scheme option" where
  "SaveTrue s = Some (s\<lparr>bytes := SaveTrue_bytes (bytes s)\<rparr>)"

definition SaveFalse :: "'a saver_base_scheme \<Rightarrow> 'a saver_base_scheme option" where
  "SaveFalse s = Some (s\<lparr>bytes := SaveFalse_bytes (bytes s)\<rparr>)"

text \<open>\<^verbatim>\<open>SavePrimitive<bool>\<close>: a \<^verbatim>\<open>bool\<close> is the byte 1 or 0.\<close>

definition SavePrimitive_bool :: "bool \<Rightarrow> 'a saver_base_scheme \<Rightarrow> 'a saver_base_scheme option" where
  "SavePrimitive_bool b = SavePrimitive (if b then 1 else 0 :: byte)"

definition LoadPrimitive ::
  "'a loader_base_scheme \<Rightarrow> ('w::len word \<times> 'a loader_base_scheme) option" where
  "LoadPrimitive l = do {
     (value, rest) \<leftarrow> LoadPrimitive_bytes (input l);
     Some (value, l\<lparr>input := rest\<rparr>)
   }"

definition LoadPrimitiveArray ::
  "'a loader_base_scheme \<Rightarrow> ('w::len word list \<times> 'a loader_base_scheme) option" where
  "LoadPrimitiveArray l = do {
     (value, rest) \<leftarrow> LoadPrimitiveArray_bytes (input l);
     Some (value, l\<lparr>input := rest\<rparr>)
   }"

definition LoadBool :: "'a loader_base_scheme \<Rightarrow> (bool \<times> 'a loader_base_scheme) option" where
  "LoadBool l = do {
     (value, rest) \<leftarrow> LoadBool_bytes (input l);
     Some (value, l\<lparr>input := rest\<rparr>)
   }"

text \<open>\<^verbatim>\<open>LoadPrimitive<bool>\<close> reads an object of type \<^verbatim>\<open>bool\<close>, which is undefined unless the byte is
  0 or 1.\<close>

definition LoadPrimitive_bool ::
  "'a loader_base_scheme \<Rightarrow> (bool \<times> 'a loader_base_scheme) option" where
  "LoadPrimitive_bool l = do {
     (c, l) \<leftarrow> LoadPrimitive l;
     if (c :: byte) = 1 then Some (True, l) else if c = 0 then Some (False, l) else None
   }"

text \<open>The \<^verbatim>\<open>for\<close> loops that save the elements of a list and load a number of elements.\<close>

primrec save_each :: "('x \<Rightarrow> 's \<Rightarrow> 's option) \<Rightarrow> 'x list \<Rightarrow> 's \<Rightarrow> 's option" where
  "save_each sv [] s = Some s"
| "save_each sv (x # xs) s = do { s \<leftarrow> sv x s; save_each sv xs s }"

primrec load_each :: "('l \<Rightarrow> ('y \<times> 'l) option) \<Rightarrow> nat \<Rightarrow> 'l \<Rightarrow> ('y list \<times> 'l) option" where
  "load_each ld 0 l = Some ([], l)"
| "load_each ld (Suc n) l = do {
     (y, l) \<leftarrow> ld l;
     (ys, l) \<leftarrow> load_each ld n l;
     Some (y # ys, l)
   }"

lemma save_each_cong [fundef_cong]:
  "xs = ys \<Longrightarrow> (\<And>x s. x \<in> set ys \<Longrightarrow> f x s = g x s) \<Longrightarrow> s = t \<Longrightarrow> save_each f xs s = save_each g ys t"
  by (induction xs arbitrary: ys s t) (auto intro!: Option.bind_cong)

text \<open>The number of iterations of \<^verbatim>\<open>for (int i = 0; i < n; ++i)\<close>, and a list's length as an
  \<^verbatim>\<open>int\<close>.\<close>

abbreviation iterations :: "int32 \<Rightarrow> nat" where
  "iterations n \<equiv> nat (sint n)"

abbreviation int_length :: "'x list \<Rightarrow> int32" where
  "int_length xs \<equiv> word_of_nat (length xs)"

section \<open>Savers and loaders that understand each other\<close>

text \<open>In a good state with the maps \<open>C\<close> being saved, the saver appends \<open>bs\<close> and changes nothing
  else; in a good state with \<open>bs\<close> at its read pointer, the loader returns \<open>y\<close>, reads exactly
  \<open>bs\<close> and changes nothing else.\<close>

definition saves ::
  "nat list \<Rightarrow> ('a saver_base_scheme \<Rightarrow> 'a saver_base_scheme option) \<Rightarrow> byte list \<Rightarrow> bool" where
  "saves C sv bs \<longleftrightarrow> (\<forall>s. status s = SUCCEEDED \<longrightarrow> map_cache s = C \<longrightarrow>
     sv s = Some (s\<lparr>bytes := bytes s @ bs\<rparr>))"

definition loads ::
  "('b loader_base_scheme \<Rightarrow> ('y \<times> 'b loader_base_scheme) option) \<Rightarrow> byte list \<Rightarrow> 'y \<Rightarrow> bool" where
  "loads ld bs y \<longleftrightarrow> (\<forall>l rest. status l = SUCCEEDED \<longrightarrow> input l = bs @ rest \<longrightarrow>
     ld l = Some (y, l\<lparr>input := rest\<rparr>))"

definition transmits ::
  "nat list \<Rightarrow> ('a saver_base_scheme \<Rightarrow> 'a saver_base_scheme option)
   \<Rightarrow> ('b loader_base_scheme \<Rightarrow> ('y \<times> 'b loader_base_scheme) option) \<Rightarrow> 'y \<Rightarrow> bool" where
  "transmits C sv ld y \<longleftrightarrow> (\<exists>bs. saves C sv bs \<and> loads ld bs y)"

lemma transmitsE:
  assumes "transmits C sv ld y"
  obtains bs where "saves C sv bs" "loads ld bs y"
  using assms by (auto simp: transmits_def)

lemma transmits_run:
  assumes "transmits C sv ld y" and "status s = SUCCEEDED" "map_cache s = C"
  obtains bs where "sv s = Some (s\<lparr>bytes := bytes s @ bs\<rparr>)"
    and "\<And>l rest. status l = SUCCEEDED \<Longrightarrow> input l = bs @ rest \<Longrightarrow> ld l = Some (y, l\<lparr>input := rest\<rparr>)"
  using assms by (auto simp: transmits_def saves_def loads_def)

lemma savesD: "saves C sv bs \<Longrightarrow> status s = SUCCEEDED \<Longrightarrow> map_cache s = C \<Longrightarrow>
  sv s = Some (s\<lparr>bytes := bytes s @ bs\<rparr>)"
  by (simp add: saves_def)

lemma loadsD: "loads ld bs y \<Longrightarrow> status l = SUCCEEDED \<Longrightarrow> input l = bs @ rest \<Longrightarrow>
  ld l = Some (y, l\<lparr>input := rest\<rparr>)"
  by (simp add: loads_def)

lemma saves_Some: "saves C Some []"
  by (simp add: saves_def)

lemma saves_bind: "saves C f b1 \<Longrightarrow> saves C g b2 \<Longrightarrow> saves C (\<lambda>s. f s \<bind> g) (b1 @ b2)"
  by (simp add: saves_def)

lemma saves_return: "saves C k bs \<Longrightarrow> saves C (\<lambda>s. RETURN_ON_FAIL s (k s)) bs"
  by (simp add: saves_def RETURN_ON_FAIL_def)

lemma loads_Some: "loads (\<lambda>l. Some (y, l)) [] y"
  by (simp add: loads_def)

lemma loads_bind:
  "loads f b1 x \<Longrightarrow> loads (k x) b2 y \<Longrightarrow> loads (\<lambda>l. f l \<bind> (\<lambda>(x, l). k x l)) (b1 @ b2) y"
  by (simp add: loads_def)

lemma loads_return: "loads k bs y \<Longrightarrow> loads (\<lambda>l. RETURN_VALUE_ON_FAIL v l (k l)) bs y"
  by (simp add: loads_def RETURN_VALUE_ON_FAIL_def)

lemma transmits_done [transmits_intros]: "transmits C Some (\<lambda>l. Some (y, l)) y"
  unfolding transmits_def by (rule exI, rule conjI, rule saves_Some, rule loads_Some)

lemma transmits_bind [transmits_intros]:
  "transmits C f ld x \<Longrightarrow> transmits C g (k x) y \<Longrightarrow>
   transmits C (\<lambda>s. f s \<bind> g) (\<lambda>l. ld l \<bind> (\<lambda>(x, l). k x l)) y"
  unfolding transmits_def by (blast intro: saves_bind loads_bind)

lemma transmits_save_return [transmits_intros]:
  "transmits C k ld y \<Longrightarrow> transmits C (\<lambda>s. RETURN_ON_FAIL s (k s)) ld y"
  unfolding transmits_def by (blast intro: saves_return)

lemma transmits_load_return [transmits_intros]:
  "transmits C sv k y \<Longrightarrow> transmits C sv (\<lambda>l. RETURN_VALUE_ON_FAIL v l (k l)) y"
  unfolding transmits_def by (blast intro: loads_return)

text \<open>A saver's tail call, when the loader still builds its value.\<close>

lemma transmits_map [transmits_intros]:
  "transmits C f ld x \<Longrightarrow> transmits C f (\<lambda>l. ld l \<bind> (\<lambda>(x, l). Some (h x, l))) (h x)"
  unfolding transmits_def by (metis append_Nil2 loads_bind loads_Some)

text \<open>A saver's tail call, when the loader goes on with what it read to a value without reading.\<close>

lemma transmits_save_last:
  assumes "transmits C f ld x" "\<And>l. status l = SUCCEEDED \<Longrightarrow> k x l = Some (y, l)"
  shows "transmits C f (\<lambda>l. ld l \<bind> (\<lambda>(x, l). k x l)) y"
proof -
  from assms(1) obtain bs where bs: "saves C f bs" "loads ld bs x" by (rule transmitsE)
  have "loads (k x) [] y" using assms(2) by (auto simp: loads_def)
  with loads_bind [where f = ld and k = k and x = x] bs have
    "loads (\<lambda>l. ld l \<bind> (\<lambda>(x, l). k x l)) (bs @ []) y" by blast
  with bs(1) show ?thesis by (auto simp: transmits_def)
qed

lemma transmits_cong:
  "transmits C f ld x \<Longrightarrow> x = y \<Longrightarrow> transmits C f ld y"
  by simp

subsection \<open>Primitives\<close>

lemma transmits_primitive:
  "whole_bytes TYPE('w) \<Longrightarrow> transmits C (SavePrimitive (w :: 'w::len word)) LoadPrimitive w"
  unfolding transmits_def saves_def loads_def
  by (intro exI [of _ "SavePrimitive_bytes [] w"])
    (simp add: SavePrimitive_def LoadPrimitive_def SavePrimitive_bytes_append [of "bytes _"]
      LoadPrimitive_SavePrimitive)

lemma transmits_primitives [transmits_intros]:
  "transmits C (SavePrimitive (w8 :: 8 word)) LoadPrimitive w8"
  "transmits C (SavePrimitive (w16 :: 16 word)) LoadPrimitive w16"
  "transmits C (SavePrimitive (w32 :: 32 word)) LoadPrimitive w32"
  "transmits C (SavePrimitive (w64 :: 64 word)) LoadPrimitive w64"
  by (simp_all add: transmits_primitive)

lemma transmits_array [transmits_intros]:
  "length (ws :: 8 word list) < 2 ^ 31 \<Longrightarrow>
   transmits C (SavePrimitiveArray ws) LoadPrimitiveArray ws"
  unfolding transmits_def saves_def loads_def
  by (intro exI [of _ "SavePrimitiveArray_bytes [] ws True"])
    (simp add: SavePrimitiveArray_def LoadPrimitiveArray_def
      SavePrimitiveArray_bytes_append [of "bytes _"] LoadPrimitiveArray_SavePrimitiveArray)

lemma transmits_true [transmits_intros]: "transmits C SaveTrue LoadBool True"
  unfolding transmits_def saves_def loads_def
  by (intro exI [of _ "[1]"]) (simp add: SaveTrue_def SaveTrue_bytes_def LoadBool_def)

lemma transmits_false [transmits_intros]: "transmits C SaveFalse LoadBool False"
  unfolding transmits_def saves_def loads_def
  by (intro exI [of _ "[0]"]) (simp add: SaveFalse_def SaveFalse_bytes_def LoadBool_def)

lemma saves_primitive_bool: "saves C (SavePrimitive_bool b) [if b then 1 else 0]"
  by (simp add: saves_def SavePrimitive_bool_def SavePrimitive_def SavePrimitive_bytes_def)

lemma transmits_bool [transmits_intros]: "transmits C (SavePrimitive_bool b) LoadPrimitive_bool b"
  unfolding transmits_def
  by (rule exI, rule conjI, rule saves_primitive_bool)
    (auto simp: loads_def LoadPrimitive_bool_def LoadPrimitive_def LoadPrimitive_bytes_def)

lemma transmits_bool_LoadBool [transmits_intros]: "transmits C (SavePrimitive_bool b) LoadBool b"
  unfolding transmits_def
  by (rule exI, rule conjI, rule saves_primitive_bool) (simp add: loads_def LoadBool_def)

subsection \<open>Loops\<close>

lemma transmits_each:
  assumes "\<And>x. x \<in> set xs \<Longrightarrow> transmits C (sv x) ld (f x)"
  shows "transmits C (save_each sv xs) (load_each ld (length xs)) (map f xs)"
  using assms
proof (induction xs)
  case Nil
  show ?case using transmits_done [of C "[]"] by (simp add: transmits_def saves_def loads_def)
next
  case (Cons x xs)
  have "transmits C (\<lambda>s. sv x s \<bind> save_each sv xs)
      (\<lambda>l. ld l \<bind> (\<lambda>(y, l). load_each ld (length xs) l \<bind> (\<lambda>(ys, l). Some (y # ys, l))))
      (f x # map f xs)"
    using Cons by (intro transmits_bind [of C "sv x" ld "f x"] transmits_map) auto
  then show ?case by simp
qed

lemma transmits_list [transmits_intros]:
  assumes "\<And>x. x \<in> set xs \<Longrightarrow> transmits C (sv x) ld (f x)" and "length xs < 2 ^ 31"
  shows "transmits C (save_each sv xs) (load_each ld (iterations (int_length xs))) (map f xs)"
  using transmits_each [OF assms(1)] assms(2) by simp

section \<open>The contract of a save and load pair\<close>

text \<open>\<open>dom x\<close> says that the format can carry \<open>x\<close>, and \<open>received x\<close> is what the loader makes of it.\<close>

locale codec =
  fixes save :: "'x \<Rightarrow> 'a saver_base_scheme \<Rightarrow> 'a saver_base_scheme option"
    and load :: "'b loader_base_scheme \<Rightarrow> ('y \<times> 'b loader_base_scheme) option"
    and valid :: "'x \<Rightarrow> bool"
    and received :: "'x \<Rightarrow> 'y"
  assumes transmits: "valid x \<Longrightarrow> transmits [] (save x) load (received x)"
begin

text \<open>Loading from a buffer returns the value and the bytes behind it.\<close>

lemma load_save:
  assumes "valid x" "status s = SUCCEEDED" "map_cache s = []"
  obtains bs where "save x s = Some (s\<lparr>bytes := bytes s @ bs\<rparr>)"
    and "\<And>l rest. status l = SUCCEEDED \<Longrightarrow> input l = bs @ rest \<Longrightarrow>
           load l = Some (received x, l\<lparr>input := rest\<rparr>)"
  using transmits_run [OF transmits [OF assms(1)] assms(2,3)] by blast

text \<open>Two values that are written alike are read alike: the format is unambiguous.\<close>

lemma save_determines:
  assumes "valid x" "valid y" "status s = SUCCEEDED" "map_cache s = []" "save x s = save y s"
  shows "received x = received y"
proof -
  obtain bs where bs: "save x s = Some (s\<lparr>bytes := bytes s @ bs\<rparr>)"
    "\<And>l rest. status l = SUCCEEDED \<Longrightarrow> input l = bs @ rest \<Longrightarrow> load l = Some (received x, l\<lparr>input := rest\<rparr>)"
    using load_save assms by metis
  obtain cs where cs: "save y s = Some (s\<lparr>bytes := bytes s @ cs\<rparr>)"
    "\<And>l rest. status l = SUCCEEDED \<Longrightarrow> input l = cs @ rest \<Longrightarrow> load l = Some (received y, l\<lparr>input := rest\<rparr>)"
    using load_save assms by metis
  from bs(1) cs(1) assms(5) have "bytes (s\<lparr>bytes := bytes s @ bs\<rparr>) = bytes (s\<lparr>bytes := bytes s @ cs\<rparr>)"
    by simp
  then have "bs = cs" by simp
  let ?l = "\<lparr>status = SUCCEEDED, reason = None, input = bs, info_requires_frame = False,
             info_deferred_calling = False, \<dots> = undefined\<rparr>"
  from bs(2) [of ?l "[]"] cs(2) [of ?l "[]"] \<open>bs = cs\<close> show ?thesis by simp
qed

text \<open>A sequence of values is read back as the sequence, which is how the list of instructions,
  operands or closures is transmitted.\<close>

lemma transmits_sequence:
  assumes "list_all valid xs" "length xs < 2 ^ 31"
  shows "transmits [] (\<lambda>s. SavePrimitive (int_length xs) s \<bind> save_each save xs)
    (\<lambda>l. LoadPrimitive l \<bind> (\<lambda>(n, l). load_each load (iterations n) l)) (map received xs)"
  using assms
  by (intro transmits_bind [where x = "int_length xs"] transmits_primitives transmits_list transmits)
    (auto simp: list_all_iff)

end

end
