(* ===== verification/BitVector.thy ===== *)
theory BitVector
  imports SaveloadBase "HOL-Library.Signed_Division"
begin

text \<open>
  \<^verbatim>\<open>src/bit-vector.{h,cc}\<close>: sets of small integers as arrays of 64-bit words, the growable
  variant, the iterator over the elements, and \<^verbatim>\<open>SaveBitVector\<close>/\<^verbatim>\<open>LoadBitVector\<close> of
  \<^verbatim>\<open>src/lithium-saveload.cc\<close>. Indices are natural numbers (the code checks \<^verbatim>\<open>i >= 0\<close> in debug builds
  only); an access outside the array is \<^const>\<open>None\<close>, and so is a loop that does not end.
  \<open>bv_set\<close> is the set which a vector stands for.
\<close>

record BitVector =
  bv_length :: int32
  bv_data :: "uintptr list"

definition kDataBits :: nat where
  "kDataBits = 64"

definition SizeFor :: "int \<Rightarrow> int" where
  "SizeFor n = 1 + ((n - 1) sdiv int kDataBits)"

definition new_BitVector :: "int32 \<Rightarrow> BitVector" where
  "new_BitVector n = \<lparr>bv_length = n, bv_data = replicate (nat (SizeFor (sint n))) 0\<rparr>"

definition bv_block :: "nat \<Rightarrow> BitVector \<Rightarrow> uintptr option" where
  "bv_block i v =
     (if i div kDataBits < length (bv_data v) then Some (bv_data v ! (i div kDataBits)) else None)"

definition Contains :: "nat \<Rightarrow> BitVector \<Rightarrow> bool option" where
  "Contains i v = do {
     block \<leftarrow> bv_block i v;
     Some (block AND push_bit (i mod kDataBits) 1 \<noteq> 0)
   }"

definition bv_update :: "nat \<Rightarrow> uintptr \<Rightarrow> BitVector \<Rightarrow> BitVector" where
  "bv_update i w v = v\<lparr>bv_data := (bv_data v)[i div kDataBits := w]\<rparr>"

definition Add :: "nat \<Rightarrow> BitVector \<Rightarrow> BitVector option" where
  "Add i v = do {
     block \<leftarrow> bv_block i v;
     Some (bv_update i (block OR push_bit (i mod kDataBits) 1) v)
   }"

definition Remove :: "nat \<Rightarrow> BitVector \<Rightarrow> BitVector option" where
  "Remove i v = do {
     block \<leftarrow> bv_block i v;
     Some (bv_update i (block AND NOT (push_bit (i mod kDataBits) 1)) v)
   }"

text \<open>The operations on two vectors go over the words of this one and read the same word of the
  other, which is shorter only when the lengths differ.\<close>

definition bv_zip :: "(uintptr \<Rightarrow> uintptr \<Rightarrow> uintptr) \<Rightarrow> BitVector \<Rightarrow> BitVector \<Rightarrow> BitVector option" where
  "bv_zip f other v =
     (if length (bv_data v) \<le> length (bv_data other)
      then Some (v\<lparr>bv_data := map2 f (bv_data v) (bv_data other)\<rparr>) else None)"

definition Union :: "BitVector \<Rightarrow> BitVector \<Rightarrow> BitVector option" where
  "Union other v = bv_zip (\<lambda>x y. x OR y) other v"

definition UnionIsChanged :: "BitVector \<Rightarrow> BitVector \<Rightarrow> (bool \<times> BitVector) option" where
  "UnionIsChanged other v = do {
     v' \<leftarrow> bv_zip (\<lambda>x y. x OR y) other v;
     Some (list_ex (\<lambda>(x, y). x \<noteq> y) (zip (bv_data v') (bv_data v)), v')
   }"

definition Intersect :: "BitVector \<Rightarrow> BitVector \<Rightarrow> BitVector option" where
  "Intersect other v = bv_zip (\<lambda>x y. x AND y) other v"

definition IntersectIsChanged :: "BitVector \<Rightarrow> BitVector \<Rightarrow> (bool \<times> BitVector) option" where
  "IntersectIsChanged other v = do {
     v' \<leftarrow> bv_zip (\<lambda>x y. x AND y) other v;
     Some (list_ex (\<lambda>(x, y). x \<noteq> y) (zip (bv_data v') (bv_data v)), v')
   }"

definition Subtract :: "BitVector \<Rightarrow> BitVector \<Rightarrow> BitVector option" where
  "Subtract other v = bv_zip (\<lambda>x y. x AND NOT y) other v"

definition Clear :: "BitVector \<Rightarrow> BitVector" where
  "Clear v = v\<lparr>bv_data := replicate (length (bv_data v)) 0\<rparr>"

definition IsEmpty :: "BitVector \<Rightarrow> bool" where
  "IsEmpty v = list_all (\<lambda>w. w = 0) (bv_data v)"

definition Equals :: "BitVector \<Rightarrow> BitVector \<Rightarrow> bool option" where
  "Equals other v =
     (if length (bv_data v) \<le> length (bv_data other)
      then Some (list_all (\<lambda>(x, y). x = y) (zip (bv_data v) (bv_data other))) else None)"

text \<open>Copying from a vector that is not longer; the rest is cleared.\<close>

definition CopyFrom :: "BitVector \<Rightarrow> BitVector \<Rightarrow> BitVector option" where
  "CopyFrom other v =
     (if length (bv_data other) \<le> length (bv_data v)
      then Some (v\<lparr>bv_data := bv_data other @
                     replicate (length (bv_data v) - length (bv_data other)) 0\<rparr>)
      else None)"

text \<open>The population count instruction which the compilers' builtin stands for.\<close>

definition CountPopulation64 :: "64 word \<Rightarrow> nat" where
  "CountPopulation64 w = length (filter (bit w) [0..<64])"

definition Count :: "BitVector \<Rightarrow> nat" where
  "Count v = foldl (\<lambda>count w. count + CountPopulation64 w) 0 (bv_data v)"

section \<open>The iterator\<close>

record BVIterator =
  it_index :: nat
  it_value :: uintptr
  it_current :: int

text \<open>Both loops run forever on the value 0.\<close>

function SkipZeroBytes :: "uintptr \<Rightarrow> int \<Rightarrow> (uintptr \<times> int) option" where
  "SkipZeroBytes val cur =
     (if val = 0 then None
      else if val AND 0xFF = 0 then SkipZeroBytes (drop_bit 8 val) (cur + 8)
      else Some (val, cur))"
  by pat_completeness auto

function SkipZeroBits :: "uintptr \<Rightarrow> int \<Rightarrow> (uintptr \<times> int) option" where
  "SkipZeroBits val cur =
     (if val = 0 then None
      else if val AND 1 = 0 then SkipZeroBits (drop_bit 1 val) (cur + 1)
      else Some (val, cur))"
  by pat_completeness auto

lemma unat_drop_bit_less: "0 < n \<Longrightarrow> (w :: 'a::len word) \<noteq> 0 \<Longrightarrow> unat (drop_bit n w) < unat w"
  unfolding unat_drop_bit_eq drop_bit_eq_div [where 'a = nat]
  by (intro div_less_dividend) (auto simp: unat_gt_0 one_less_power simp del: One_nat_def)

termination SkipZeroBytes
  by (relation "measure (\<lambda>(val, cur). unat val)") (auto intro: unat_drop_bit_less)

termination SkipZeroBits
  by (relation "measure (\<lambda>(val, cur). unat val)") (auto intro: unat_drop_bit_less)

declare SkipZeroBytes.simps [simp del] SkipZeroBits.simps [simp del]

definition it_Done :: "BitVector \<Rightarrow> BVIterator \<Rightarrow> bool" where
  "it_Done v it = (length (bv_data v) \<le> it_index it)"

text \<open>The loop of \<^verbatim>\<open>Advance\<close> which looks for a word that is not 0; it returns before anything else
  is set when there is none.\<close>

function next_word :: "BitVector \<Rightarrow> BVIterator \<Rightarrow> uintptr \<Rightarrow> BVIterator \<times> uintptr" where
  "next_word v it val =
     (if val = 0 then
        let it = it\<lparr>it_index := it_index it + 1\<rparr> in
        if it_Done v it then (it, val)
        else next_word v (it\<lparr>it_current := int (it_index it) * 2 ^ 6\<rparr>) (bv_data v ! it_index it)
      else (it, val))"
  by pat_completeness auto
termination
  by (relation "measure (\<lambda>(v, it, val). length (bv_data v) - it_index it)") (auto simp: it_Done_def)

declare next_word.simps [simp del]

definition it_Advance :: "BitVector \<Rightarrow> BVIterator \<Rightarrow> BVIterator option" where
  "it_Advance v it =
     (let it = it\<lparr>it_current := it_current it + 1\<rparr>;
          (it, val) = next_word v it (it_value it)
      in if val = 0 then Some it
         else do {
           (val, cur) \<leftarrow> SkipZeroBytes val (it_current it);
           (val, cur) \<leftarrow> SkipZeroBits val cur;
           Some (it\<lparr>it_value := drop_bit 1 val, it_current := cur\<rparr>)
         })"

definition new_Iterator :: "BitVector \<Rightarrow> BVIterator option" where
  "new_Iterator v =
     (case bv_data v of
        [] \<Rightarrow> None
      | w # _ \<Rightarrow> it_Advance v \<lparr>it_index = 0, it_value = w, it_current = -1\<rparr>)"

text \<open>The elements which \<^verbatim>\<open>for (Iterator it(v); !it.Done(); it.Advance())\<close> visits. The fuel bounds
  the number of iterations; a vector has no more elements than bits.\<close>

fun it_elements :: "nat \<Rightarrow> BitVector \<Rightarrow> BVIterator \<Rightarrow> int list option" where
  "it_elements 0 v it = None"
| "it_elements (Suc fuel) v it =
     (if it_Done v it then Some []
      else do {
        it' \<leftarrow> it_Advance v it;
        rest \<leftarrow> it_elements fuel v it';
        Some (it_current it # rest)
      })"

definition elements :: "BitVector \<Rightarrow> int list option" where
  "elements v = do {
     it \<leftarrow> new_Iterator v;
     it_elements (kDataBits * length (bv_data v) + 1) v it
   }"

section \<open>Growable bit vectors\<close>

type_synonym GrowableBitVector = "BitVector option"

definition kInitialLength :: int where
  "kInitialLength = 1024"

definition new_GrowableBitVector :: "int32 \<Rightarrow> GrowableBitVector" where
  "new_GrowableBitVector n = Some (new_BitVector n)"

definition InBitsRange :: "nat \<Rightarrow> GrowableBitVector \<Rightarrow> bool" where
  "InBitsRange i g = (case g of None \<Rightarrow> False | Some v \<Rightarrow> int i < sint (bv_length v))"

definition growable_Contains :: "nat \<Rightarrow> GrowableBitVector \<Rightarrow> bool option" where
  "growable_Contains i g =
     (if \<not> InBitsRange i g then Some False
      else case g of None \<Rightarrow> None | Some v \<Rightarrow> Contains i v)"

text \<open>\<^verbatim>\<open>while (new_length <= value) new_length *= 2\<close>: without end when the length is not positive
  (a negative length doubles until it overflows, which is undefined), and undefined when the
  doubling overflows \<^verbatim>\<open>int\<close>.\<close>

function grow_length :: "int \<Rightarrow> int \<Rightarrow> int option" where
  "grow_length new_length i =
     (if new_length \<le> i
      then if new_length \<le> 0 \<or> 2 ^ 30 \<le> new_length then None else grow_length (new_length * 2) i
      else Some new_length)"
  by pat_completeness auto
termination
  by (relation "measure (\<lambda>(n, i). nat (i + 1 - n))") auto

declare grow_length.simps [simp del]

definition EnsureCapacity :: "nat \<Rightarrow> GrowableBitVector \<Rightarrow> GrowableBitVector option" where
  "EnsureCapacity i g =
     (if InBitsRange i g then Some g
      else do {
        new_length \<leftarrow> grow_length (case g of None \<Rightarrow> kInitialLength | Some v \<Rightarrow> sint (bv_length v)) (int i);
        let new_bits = new_BitVector (word_of_int new_length);
        case g of
          None \<Rightarrow> Some (Some new_bits)
        | Some v \<Rightarrow> map_option Some (CopyFrom v new_bits)
      })"

definition growable_Add :: "nat \<Rightarrow> GrowableBitVector \<Rightarrow> GrowableBitVector option" where
  "growable_Add i g = do {
     g \<leftarrow> EnsureCapacity i g;
     case g of None \<Rightarrow> None | Some v \<Rightarrow> map_option Some (Add i v)
   }"

definition growable_Clear :: "GrowableBitVector \<Rightarrow> GrowableBitVector" where
  "growable_Clear g = map_option Clear g"

section \<open>Saving and loading\<close>

definition SaveBitVector :: "BitVector \<Rightarrow> 'a saver_base_scheme \<Rightarrow> 'a saver_base_scheme option" where
  "SaveBitVector v s = do {
     s \<leftarrow> SavePrimitive (bv_length v) s;
     s \<leftarrow> SavePrimitive (int_length (bv_data v)) s;
     save_each SavePrimitive (bv_data v) s
   }"

definition LoadBitVector :: "'a loader_base_scheme \<Rightarrow> (BitVector \<times> 'a loader_base_scheme) option" where
  "LoadBitVector l = do {
     (length, l) \<leftarrow> LoadPrimitive l;
     (data_length, l) \<leftarrow> LoadPrimitive l;
     (data, l) \<leftarrow> load_each LoadPrimitive (iterations data_length) l;
     Some (\<lparr>bv_length = length, bv_data = data\<rparr>, l)
   }"


section \<open>Bit vectors are sets\<close>

definition bv_set :: "BitVector \<Rightarrow> nat set" where
  "bv_set v = {i. i div 64 < length (bv_data v) \<and> bit (bv_data v ! (i div 64)) (i mod 64)}"

text \<open>A vector as its constructor makes it: the array has the words which the length needs.\<close>

definition bv_wf :: "BitVector \<Rightarrow> bool" where
  "bv_wf v \<longleftrightarrow> 0 < sint (bv_length v) \<and> int (length (bv_data v)) = SizeFor (sint (bv_length v))"

abbreviation bv_in_range :: "BitVector \<Rightarrow> nat \<Rightarrow> bool" where
  "bv_in_range v i \<equiv> int i < sint (bv_length v)"

lemma SizeFor_pos: "0 < n \<Longrightarrow> SizeFor n = 1 + (n - 1) div 64"
  by (cases "n = 1") (auto simp: SizeFor_def kDataBits_def signed_divide_int_def sgn_if)

lemma bv_block_in_range:
  assumes "bv_wf v" "bv_in_range v i"
  shows "i div 64 < length (bv_data v)"
proof -
  from assms have "int (length (bv_data v)) = 1 + (sint (bv_length v) - 1) div 64"
    by (simp add: bv_wf_def SizeFor_pos)
  moreover from assms have "int i div 64 \<le> (sint (bv_length v) - 1) div 64"
    by (intro zdiv_mono1) auto
  ultimately have "int (i div 64) < int (length (bv_data v))"
    by (simp add: zdiv_int)
  then show ?thesis by simp
qed

lemma bv_wf_new: "0 < sint n \<Longrightarrow> bv_wf (new_BitVector n)"
  by (simp add: bv_wf_def new_BitVector_def SizeFor_pos)

lemma bv_set_new [simp]: "bv_set (new_BitVector n) = {}"
  by (auto simp: bv_set_def new_BitVector_def)

lemma finite_bv_set [simp]: "finite (bv_set v)"
proof -
  have "bv_set v \<subseteq> {..< 64 * length (bv_data v)}" by (auto simp: bv_set_def)
  then show ?thesis by (rule finite_subset) simp
qed

lemma Contains_bv_set:
  "i div 64 < length (bv_data v) \<Longrightarrow> Contains i v = Some (i \<in> bv_set v)"
  by (simp add: Contains_def bv_block_def bv_set_def kDataBits_def bit_iff_and_push_bit_not_eq_0)

lemma Contains_range [simp]: "i div 64 \<ge> length (bv_data v) \<Longrightarrow> Contains i v = None"
  by (simp add: Contains_def bv_block_def kDataBits_def)

lemma bv_set_update:
  assumes "i div 64 < length (bv_data v)"
    and "\<And>n. n < 64 \<Longrightarrow> bit w n \<longleftrightarrow> (if n = i mod 64 then b else bit (bv_data v ! (i div 64)) n)"
  shows "bv_set (bv_update i w v) = (if b then insert i (bv_set v) else bv_set v - {i})"
proof -
  have "j \<in> bv_set (bv_update i w v) \<longleftrightarrow> (if j = i then b else j \<in> bv_set v)" for j
  proof (cases "j div 64 = i div 64")
    case True
    then have "j = i \<longleftrightarrow> j mod 64 = i mod 64" by (metis mult_div_mod_eq)
    with True assms(1) assms(2) [of "j mod 64"] show ?thesis
      by (simp add: bv_set_def bv_update_def kDataBits_def)
  next
    case False
    then show ?thesis by (auto simp: bv_set_def bv_update_def kDataBits_def)
  qed
  then show ?thesis by (intro set_eqI) simp
qed

lemma Add_bv_set:
  assumes "i div 64 < length (bv_data v)"
  shows "\<exists>v'. Add i v = Some v' \<and> bv_set v' = insert i (bv_set v) \<and>
    bv_length v' = bv_length v \<and> length (bv_data v') = length (bv_data v)"
proof -
  let ?w = "bv_data v ! (i div 64) OR push_bit (i mod 64) 1"
  have "bv_set (bv_update i ?w v) = insert i (bv_set v)"
    using bv_set_update [OF assms, of ?w True] by (auto simp: bit_simps)
  with assms show ?thesis
    by (simp add: Add_def bv_block_def kDataBits_def) (simp add: bv_update_def)
qed

lemma Remove_bv_set:
  assumes "i div 64 < length (bv_data v)"
  shows "\<exists>v'. Remove i v = Some v' \<and> bv_set v' = bv_set v - {i} \<and>
    bv_length v' = bv_length v \<and> length (bv_data v') = length (bv_data v)"
proof -
  let ?w = "bv_data v ! (i div 64) AND NOT (push_bit (i mod 64) 1)"
  have "bv_set (bv_update i ?w v) = bv_set v - {i}"
    using bv_set_update [OF assms, of ?w False] by (auto simp: bit_simps)
  with assms show ?thesis
    by (simp add: Remove_def bv_block_def kDataBits_def) (simp add: bv_update_def)
qed

lemma bv_zip_bv_set:
  assumes "length (bv_data other) = length (bv_data v)"
    and "\<And>x y n. n < 64 \<Longrightarrow> bit (f x y) n \<longleftrightarrow> b (bit x n) (bit y n)" "\<not> b False False"
  shows "\<exists>v'. bv_zip f other v = Some v' \<and> bv_set v' = {i. b (i \<in> bv_set v) (i \<in> bv_set other)} \<and>
    bv_length v' = bv_length v \<and> length (bv_data v') = length (bv_data v)"
proof -
  have "i \<in> bv_set (v\<lparr>bv_data := map2 f (bv_data v) (bv_data other)\<rparr>) \<longleftrightarrow>
    b (i \<in> bv_set v) (i \<in> bv_set other)" for i
    using assms by (cases "i div 64 < length (bv_data v)") (simp_all add: bv_set_def)
  with assms(1) show ?thesis by (auto simp: bv_zip_def)
qed

lemma Union_bv_set:
  "length (bv_data other) = length (bv_data v) \<Longrightarrow>
   \<exists>v'. Union other v = Some v' \<and> bv_set v' = bv_set v \<union> bv_set other \<and>
     bv_length v' = bv_length v \<and> length (bv_data v') = length (bv_data v)"
  using bv_zip_bv_set [of other v "\<lambda>x y. x OR y" "(\<or>)"]
  by (auto simp: Union_def bit_simps Un_def)

lemma Intersect_bv_set:
  "length (bv_data other) = length (bv_data v) \<Longrightarrow>
   \<exists>v'. Intersect other v = Some v' \<and> bv_set v' = bv_set v \<inter> bv_set other \<and>
     bv_length v' = bv_length v \<and> length (bv_data v') = length (bv_data v)"
  using bv_zip_bv_set [of other v "\<lambda>x y. x AND y" "(\<and>)"]
  by (auto simp: Intersect_def bit_simps Int_def)

lemma Subtract_bv_set:
  "length (bv_data other) = length (bv_data v) \<Longrightarrow>
   \<exists>v'. Subtract other v = Some v' \<and> bv_set v' = bv_set v - bv_set other \<and>
     bv_length v' = bv_length v \<and> length (bv_data v') = length (bv_data v)"
  using bv_zip_bv_set [of other v "\<lambda>x y. x AND NOT y" "\<lambda>p q. p \<and> \<not> q"]
  by (auto simp: Subtract_def bit_simps set_diff_eq)

lemma bv_set_Clear [simp]: "bv_set (Clear v) = {}"
  by (auto simp: Clear_def bv_set_def)

text \<open>Words are equal when their 64 bits are, so arrays of the same size stand for the same set only
  when they are equal.\<close>

lemma bv_set_block:
  "n < 64 \<Longrightarrow> k < length (bv_data v) \<Longrightarrow> 64 * k + n \<in> bv_set v \<longleftrightarrow> bit (bv_data v ! k) n"
  by (simp add: bv_set_def)

lemma bv_set_eq_iff:
  assumes "length (bv_data u) = length (bv_data v)"
  shows "bv_set u = bv_set v \<longleftrightarrow> bv_data u = bv_data v"
proof
  assume eq: "bv_set u = bv_set v"
  show "bv_data u = bv_data v"
  proof (rule nth_equalityI [OF assms])
    fix k assume "k < length (bv_data u)"
    with assms eq bv_set_block [of _ k u] bv_set_block [of _ k v]
    show "bv_data u ! k = bv_data v ! k" by (intro bit_word_eqI) simp
  qed
qed (simp add: bv_set_def)

lemma IsEmpty_bv_set: "IsEmpty v \<longleftrightarrow> bv_set v = {}"
proof -
  have "IsEmpty v \<longleftrightarrow> bv_data v = bv_data (Clear v)"
    by (auto simp: IsEmpty_def Clear_def list_all_length list_eq_iff_nth_eq)
  also have "\<dots> \<longleftrightarrow> bv_set v = bv_set (Clear v)"
    by (rule bv_set_eq_iff [symmetric]) (simp add: Clear_def)
  finally show ?thesis by simp
qed

lemma Equals_bv_set:
  "length (bv_data other) = length (bv_data v) \<Longrightarrow>
   Equals other v = Some (bv_set v = bv_set other)"
  by (auto simp: Equals_def bv_set_eq_iff list_all_iff list_eq_iff_nth_eq set_zip)

lemma CopyFrom_bv_set:
  assumes "length (bv_data other) \<le> length (bv_data v)"
  shows "\<exists>v'. CopyFrom other v = Some v' \<and> bv_set v' = bv_set other \<and>
    bv_length v' = bv_length v \<and> length (bv_data v') = length (bv_data v)"
proof -
  let ?v = "v\<lparr>bv_data := bv_data other @ replicate (length (bv_data v) - length (bv_data other)) 0\<rparr>"
  have "i \<in> bv_set ?v \<longleftrightarrow> i \<in> bv_set other" for i
    using assms
    by (cases "i div 64 < length (bv_data other)"; cases "i div 64 < length (bv_data v)")
      (simp_all add: bv_set_def nth_append)
  then have "bv_set ?v = bv_set other" by blast
  with assms show ?thesis by (simp add: CopyFrom_def)
qed


section \<open>Counting\<close>

definition word_bits :: "uintptr \<Rightarrow> nat set" where
  "word_bits w = {n. n < 64 \<and> bit w n}"

lemma card_word_bits: "card (word_bits w) = CountPopulation64 w"
proof -
  have "word_bits w = set (filter (bit w) [0..<64])" by (auto simp: word_bits_def)
  moreover have "distinct (filter (bit w) [0..<64])" by simp
  ultimately show ?thesis by (simp only: CountPopulation64_def distinct_card)
qed

lemma finite_word_bits [simp]: "finite (word_bits w)"
  by (simp add: word_bits_def)

lemma bv_set_snoc:
  "bv_set (v\<lparr>bv_data := ws @ [w]\<rparr>) =
   bv_set (v\<lparr>bv_data := ws\<rparr>) \<union> (\<lambda>n. 64 * length ws + n) ` word_bits w"
proof (intro set_eqI)
  fix i
  have "i \<in> (\<lambda>n. 64 * length ws + n) ` word_bits w \<longleftrightarrow> i div 64 = length ws \<and> bit w (i mod 64)"
    by (auto simp: word_bits_def image_iff intro!: exI [of _ "i mod 64"]; metis mult_div_mod_eq)
  then show "i \<in> bv_set (v\<lparr>bv_data := ws @ [w]\<rparr>) \<longleftrightarrow>
      i \<in> bv_set (v\<lparr>bv_data := ws\<rparr>) \<union> (\<lambda>n. 64 * length ws + n) ` word_bits w"
    by (auto simp: bv_set_def nth_append less_Suc_eq)
qed

lemma card_bv_set_words:
  "card (bv_set (v\<lparr>bv_data := ws\<rparr>)) = foldl (\<lambda>count w. count + CountPopulation64 w) 0 ws"
proof (induction ws rule: rev_induct)
  case Nil
  show ?case by (simp add: bv_set_def)
next
  case (snoc w ws)
  have "bv_set (v\<lparr>bv_data := ws\<rparr>) \<inter> (\<lambda>n. 64 * length ws + n) ` word_bits w = {}"
    by (auto simp: bv_set_def)
  moreover have "card ((\<lambda>n. 64 * length ws + n) ` word_bits w) = CountPopulation64 w"
    by (simp add: card_image inj_on_def card_word_bits)
  ultimately show ?case using snoc by (simp add: bv_set_snoc card_Un_disjoint)
qed

lemma Count_card: "Count v = card (bv_set v)"
  using card_bv_set_words [where v = v and ws = "bv_data v"] by (simp add: Count_def)

lemma card_bv_set_le: "card (bv_set v) \<le> 64 * length (bv_data v)"
proof -
  have "bv_set v \<subseteq> {..< 64 * length (bv_data v)}" by (auto simp: bv_set_def)
  then have "card (bv_set v) \<le> card {..< 64 * length (bv_data v)}" by (rule card_mono [rotated]) simp
  then show ?thesis by simp
qed

section \<open>The iterator visits the elements in increasing order\<close>

lemma SkipZeroBytes_skips:
  "val \<noteq> 0 \<Longrightarrow> \<exists>n. SkipZeroBytes val cur = Some (drop_bit n val, cur + int n) \<and>
     (\<forall>m < n. \<not> bit val m) \<and> drop_bit n val \<noteq> 0"
proof (induction val cur rule: SkipZeroBytes.induct)
  case (1 val cur)
  show ?case
  proof (cases "val AND 0xFF = 0")
    case True
    have low: "\<not> bit val m" if "m < 8" for m
    proof -
      have "bit (val AND 0xFF) m \<longleftrightarrow> bit val m"
        using that bit_take_bit_iff [of 8 val m] by (simp add: take_bit_eq_mask mask_numeral)
      with True show ?thesis by simp
    qed
    have "drop_bit 8 val \<noteq> 0"
    proof
      assume zero: "drop_bit 8 val = 0"
      have "\<not> bit val m" for m
        using low [of m] arg_cong [OF zero, of "\<lambda>w. bit w (m - 8)"]
        by (cases "m < 8") (simp_all add: bit_drop_bit_eq)
      with \<open>val \<noteq> 0\<close> show False by (simp add: bit_eq_iff)
    qed
    with 1 True obtain n where n: "SkipZeroBytes (drop_bit 8 val) (cur + 8) =
        Some (drop_bit n (drop_bit 8 val), cur + 8 + int n)"
      "\<forall>m < n. \<not> bit (drop_bit 8 val) m" "drop_bit n (drop_bit 8 val) \<noteq> 0" by blast
    have "\<not> bit val m" if "m < n + 8" for m
      using that low [of m] n(2) [rule_format, of "m - 8"]
      by (cases "m < 8") (auto simp: bit_drop_bit_eq)
    with n True \<open>val \<noteq> 0\<close> show ?thesis
      by (intro exI [of _ "n + 8"]) (simp add: SkipZeroBytes.simps [of val] algebra_simps)
  next
    case False
    with \<open>val \<noteq> 0\<close> show ?thesis
      by (intro exI [of _ 0]) (simp add: SkipZeroBytes.simps [of val])
  qed
qed

lemma SkipZeroBits_skips:
  "val \<noteq> 0 \<Longrightarrow> \<exists>n. SkipZeroBits val cur = Some (drop_bit n val, cur + int n) \<and>
     (\<forall>m < n. \<not> bit val m) \<and> bit val n"
proof (induction val cur rule: SkipZeroBits.induct)
  case (1 val cur)
  have bit0: "val AND 1 = 0 \<longleftrightarrow> \<not> bit val 0"
    by (simp add: and_one_eq even_iff_mod_2_eq_zero bit_0)
  show ?case
  proof (cases "bit val 0")
    case False
    have "drop_bit 1 val \<noteq> 0"
    proof
      assume zero: "drop_bit 1 val = 0"
      have "\<not> bit val m" for m
        using False arg_cong [OF zero, of "\<lambda>w. bit w (m - 1)"]
        by (cases m) (simp_all add: bit_drop_bit_eq)
      with \<open>val \<noteq> 0\<close> show False by (simp add: bit_eq_iff)
    qed
    with 1 False bit0 obtain n where n: "SkipZeroBits (drop_bit 1 val) (cur + 1) =
        Some (drop_bit n (drop_bit 1 val), cur + 1 + int n)"
      "\<forall>m < n. \<not> bit (drop_bit 1 val) m" "bit (drop_bit 1 val) n" by blast
    have "\<not> bit val m" if "m < n + 1" for m
      using that False n(2) [rule_format, of "m - 1"] by (cases m) (auto simp: bit_drop_bit_eq)
    with n False bit0 \<open>val \<noteq> 0\<close> show ?thesis
      by (intro exI [of _ "n + 1"])
        (simp add: SkipZeroBits.simps [of val] bit_drop_bit_eq algebra_simps)
  next
    case True
    with bit0 \<open>val \<noteq> 0\<close> show ?thesis
      by (intro exI [of _ 0]) (simp add: SkipZeroBits.simps [of val])
  qed
qed

text \<open>Between two steps the iterator stands at a position of a word: \<open>p\<close> bits of word \<open>k\<close> are behind
  it, and its value has the rest of the word.\<close>

definition it_at :: "BitVector \<Rightarrow> nat \<Rightarrow> nat \<Rightarrow> BVIterator \<Rightarrow> uintptr \<Rightarrow> bool" where
  "it_at v k p it val \<longleftrightarrow> k < length (bv_data v) \<and> p \<le> 64 \<and> it_index it = k \<and>
     it_current it = int (64 * k + p) \<and> val = drop_bit p (bv_data v ! k)"

definition none_between :: "BitVector \<Rightarrow> nat \<Rightarrow> nat \<Rightarrow> bool" where
  "none_between v a b \<longleftrightarrow> (\<forall>m. a \<le> m \<longrightarrow> m < b \<longrightarrow> m \<notin> bv_set v)"

lemma none_between_trans:
  "none_between v a b \<Longrightarrow> none_between v b c \<Longrightarrow> none_between v a c"
  unfolding none_between_def by (meson linorder_not_less)

lemma none_between_word:
  assumes "k < length (bv_data v)" "\<forall>m < n. \<not> bit (drop_bit p (bv_data v ! k)) m" "p + n \<le> 64"
  shows "none_between v (64 * k + p) (64 * k + p + n)"
  unfolding none_between_def
proof (intro allI impI)
  fix m assume m: "64 * k + p \<le> m" "m < 64 * k + p + n"
  then have "m = 64 * k + (m - 64 * k)" "m - 64 * k < 64" using assms(3) by auto
  then have "m div 64 = k" "m mod 64 = m - 64 * k" by (metis div_mult_self4 div_less add.right_neutral
        mod_mult_self4 mod_less mult.commute zero_neq_numeral add.commute)+
  with m assms(2) [rule_format, of "m - 64 * k - p"] show "m \<notin> bv_set v"
    by (simp add: bv_set_def bit_drop_bit_eq)
qed


lemma next_word_finds:
  "it_at v k p it val \<Longrightarrow> next_word v it val = (it', val') \<Longrightarrow>
   (val' = 0 \<and> it_Done v it' \<and> none_between v (64 * k + p) (64 * length (bv_data v))) \<or>
   (val' \<noteq> 0 \<and> (\<exists>k' p'. 64 * k + p \<le> 64 * k' + p' \<and>
     it_at v k' p' it' val' \<and> none_between v (64 * k + p) (64 * k' + p')))"
proof (induction v it val arbitrary: k p rule: next_word.induct)
  case (1 v it val)
  show ?case
  proof (cases "val = 0")
    case False
    with "1.prems" show ?thesis
      by (simp add: next_word.simps [of v it val] none_between_def)
        (intro exI [of _ k] exI [of _ p], auto)
  next
    case True
    let ?it = "it\<lparr>it_index := it_index it + 1\<rparr>"
    from "1.prems"(1) have k: "it_index it = k" "k < length (bv_data v)" "p \<le> 64"
      and zero: "drop_bit p (bv_data v ! k) = 0" using True by (auto simp: it_at_def)
    have rest: "none_between v (64 * k + p) (64 * (k + 1))"
      using none_between_word [OF k(2), of "64 - p" p] k(3) zero by (simp add: add.commute)
    show ?thesis
    proof (cases "it_Done v ?it")
      case fin: True
      with k have "length (bv_data v) = k + 1" by (simp add: it_Done_def)
      moreover from fin True "1.prems"(2) have "it' = ?it" "val' = 0"
        by (simp_all add: next_word.simps [of v it 0])
      ultimately show ?thesis using fin rest by (auto simp: it_Done_def)
    next
      case more: False
      let ?jt = "?it\<lparr>it_current := int (it_index ?it) * 2 ^ 6\<rparr>"
      have "it_at v (k + 1) 0 ?jt (bv_data v ! (k + 1))"
        using more k by (simp add: it_at_def it_Done_def)
      moreover from more True "1.prems"(2) k
      have "next_word v ?jt (bv_data v ! (k + 1)) = (it', val')"
        by (simp add: next_word.simps [of v it 0])
      moreover note "1.IH" [OF True refl more, of "k + 1" 0]
      ultimately have "(val' = 0 \<and> it_Done v it' \<and> none_between v (64 * (k + 1) + 0) (64 * length (bv_data v))) \<or>
        (val' \<noteq> 0 \<and> (\<exists>k' p'. 64 * (k + 1) + 0 \<le> 64 * k' + p' \<and> it_at v k' p' it' val' \<and>
          none_between v (64 * (k + 1) + 0) (64 * k' + p')))"
        using k(1) by simp
      then show ?thesis
      proof (elim disjE conjE exE)
        fix k' p' assume "val' \<noteq> 0" "64 * (k + 1) + 0 \<le> 64 * k' + p'" "it_at v k' p' it' val'"
          "none_between v (64 * (k + 1) + 0) (64 * k' + p')"
        moreover from this k(3) have "64 * k + p \<le> 64 * k' + p'" by simp
        ultimately show ?thesis
          using none_between_trans [OF rest, of "64 * k' + p'"] by auto
      next
        assume "val' = 0" "it_Done v it'"
          "none_between v (64 * (k + 1) + 0) (64 * length (bv_data v))"
        then show ?thesis
          using none_between_trans [OF rest, of "64 * length (bv_data v)"] by auto
      qed
    qed
  qed
qed

text \<open>A visit of element \<open>m\<close>: the bits up to it are behind the iterator.\<close>

definition it_visits :: "BitVector \<Rightarrow> nat \<Rightarrow> BVIterator \<Rightarrow> bool" where
  "it_visits v m it \<longleftrightarrow> m \<in> bv_set v \<and>
     it_at v (m div 64) (m mod 64 + 1) (it\<lparr>it_current := it_current it + 1\<rparr>) (it_value it)"

lemma bit_drop_bit_lt: "bit (drop_bit p (w :: uintptr)) n \<Longrightarrow> p + n < 64"
  using bit_imp_le_length [of w "p + n"] by (simp add: bit_drop_bit_eq)

lemma it_Advance_finds:
  assumes at: "it_at v k p (it\<lparr>it_current := it_current it + 1\<rparr>) (it_value it)"
  shows "\<exists>it'. it_Advance v it = Some it' \<and>
    ((it_Done v it' \<and> none_between v (64 * k + p) (64 * length (bv_data v))) \<or>
     (\<exists>m \<ge> 64 * k + p. it_visits v m it' \<and> none_between v (64 * k + p) m))"
proof -
  let ?jt = "it\<lparr>it_current := it_current it + 1\<rparr>"
  obtain jt val where nw: "next_word v ?jt (it_value it) = (jt, val)" by fastforce
  from next_word_finds [OF at this] consider
      (stop) "val = 0" "it_Done v jt" "none_between v (64 * k + p) (64 * length (bv_data v))"
    | (word) k' p' where "val \<noteq> 0" "it_at v k' p' jt val" "none_between v (64 * k + p) (64 * k' + p')"
        "64 * k + p \<le> 64 * k' + p'"
    by blast
  then show ?thesis
  proof cases
    case stop
    with nw show ?thesis by (simp add: it_Advance_def)
  next
    case word
    obtain n1 where n1: "SkipZeroBytes val (it_current jt) = Some (drop_bit n1 val, it_current jt + int n1)"
      "\<forall>m < n1. \<not> bit val m" "drop_bit n1 val \<noteq> 0"
      using SkipZeroBytes_skips [OF word(1)] by blast
    obtain n2 where n2: "SkipZeroBits (drop_bit n1 val) (it_current jt + int n1) =
        Some (drop_bit n2 (drop_bit n1 val), it_current jt + int n1 + int n2)"
      "\<forall>m < n2. \<not> bit (drop_bit n1 val) m" "bit (drop_bit n1 val) n2"
      using SkipZeroBits_skips [OF n1(3)] by blast
    let ?n = "n1 + n2"
    let ?it = "jt\<lparr>it_value := drop_bit 1 (drop_bit n2 (drop_bit n1 val)),
                  it_current := it_current jt + int n1 + int n2\<rparr>"
    from word(2) have k': "k' < length (bv_data v)" "it_index jt = k'"
      "it_current jt = int (64 * k' + p')" "val = drop_bit p' (bv_data v ! k')"
      by (auto simp: it_at_def)
    have here: "bit val ?n" using n2(3) by (simp add: bit_drop_bit_eq)
    with bit_drop_bit_lt [of p' "bv_data v ! k'" ?n] k' have lt: "p' + ?n < 64" by simp
    have skipped: "\<forall>m < ?n. \<not> bit val m"
    proof (intro allI impI)
      fix m assume "m < ?n"
      then show "\<not> bit val m"
        using n1(2) n2(2) [rule_format, of "m - n1"] by (cases "m < n1") (auto simp: bit_drop_bit_eq)
    qed
    have gap: "none_between v (64 * k' + p') (64 * k' + p' + ?n)"
      using none_between_word [OF k'(1), of ?n p'] skipped k'(4) lt by simp
    let ?m = "64 * k' + (p' + ?n)"
    have div: "?m div 64 = k'" "?m mod 64 = p' + ?n" using lt by simp_all
    have "?m \<in> bv_set v"
      using here k' div by (simp add: bv_set_def bit_drop_bit_eq)
    moreover have "it_at v k' (p' + ?n + 1) (?it\<lparr>it_current := it_current ?it + 1\<rparr>) (it_value ?it)"
      using k' lt by (simp add: it_at_def algebra_simps)
    ultimately have "it_visits v ?m ?it" by (simp only: it_visits_def div)
    moreover have "none_between v (64 * k + p) ?m"
      using none_between_trans [OF word(3) gap] by (simp add: add.assoc)
    moreover have "64 * k + p \<le> ?m"
      using word(4) by simp
    moreover have "it_Advance v it = Some ?it"
      using nw word(1) n1(1) n2(1) by (simp add: it_Advance_def)
    ultimately show ?thesis by blast
  qed
qed


abbreviation elements_from :: "BitVector \<Rightarrow> nat \<Rightarrow> nat set" where
  "elements_from v a \<equiv> {m \<in> bv_set v. a \<le> m}"

lemma elements_from_none:
  assumes "none_between v a b" shows "elements_from v a = elements_from v (max a b)"
  using assms by (auto simp: none_between_def max_def not_less)

lemma sorted_elements_from:
  assumes "m \<in> bv_set v"
  shows "sorted_list_of_set (elements_from v m) = m # sorted_list_of_set (elements_from v (m + 1))"
proof -
  have "elements_from v m = insert m (elements_from v (m + 1))" using assms by auto
  moreover have "sorted_list_of_set (insert m (elements_from v (m + 1))) =
      insort m (sorted_list_of_set (elements_from v (m + 1)))"
    by (rule sorted_list_of_set_insert_remove [THEN trans]) auto
  moreover have "insort m xs = m # xs" if "\<forall>x \<in> set xs. m \<le> x" for xs
    using that by (cases xs) auto
  ultimately show ?thesis by simp
qed

text \<open>From a visit of \<open>m\<close> on, the loop sees \<open>m\<close> and then the larger elements in order.\<close>

lemma it_elements_sorted:
  "it_visits v m it \<Longrightarrow> card (elements_from v m) < fuel \<Longrightarrow>
   it_elements fuel v it = Some (map int (sorted_list_of_set (elements_from v m)))"
proof (induction fuel arbitrary: m it)
  case (Suc fuel)
  let ?k = "m div 64" and ?p = "m mod 64 + 1"
  from Suc.prems(1) have m: "m \<in> bv_set v"
    and at: "it_at v ?k ?p (it\<lparr>it_current := it_current it + 1\<rparr>) (it_value it)"
    by (simp_all add: it_visits_def)
  from at have cur: "it_current it = int m" "\<not> it_Done v it"
    by (auto simp: it_at_def it_Done_def)
  have sum: "64 * ?k + ?p = m + 1" by simp
  have "elements_from v m = insert m (elements_from v (m + 1))" using m by auto
  then have less: "card (elements_from v (m + 1)) < card (elements_from v m)" by simp
  from it_Advance_finds [OF at] obtain it' where adv: "it_Advance v it = Some it'"
    and cases: "(it_Done v it' \<and> none_between v (m + 1) (64 * length (bv_data v))) \<or>
      (\<exists>m' \<ge> m + 1. it_visits v m' it' \<and> none_between v (m + 1) m')"
    unfolding sum by blast
  have "it_elements fuel v it' = Some (map int (sorted_list_of_set (elements_from v (m + 1))))"
    using cases
  proof (elim disjE conjE exE)
    assume fin: "it_Done v it'" and none: "none_between v (m + 1) (64 * length (bv_data v))"
    have "elements_from v (m + 1) = {}"
      using none by (auto simp: none_between_def bv_set_def)
    moreover from less Suc.prems(2) obtain f where "fuel = Suc f" by (cases fuel) auto
    ultimately show ?thesis using fin by simp
  next
    fix m' assume m': "m + 1 \<le> m'" "it_visits v m' it'" "none_between v (m + 1) m'"
    then have "elements_from v (m + 1) = elements_from v m'"
      using elements_from_none [OF m'(3)] by (simp add: max_def)
    with Suc.IH [OF m'(2)] less Suc.prems(2) show ?thesis by simp
  qed
  with cur adv sorted_elements_from [OF m] show ?case by simp
qed simp

lemma elements_sorted:
  assumes "bv_data v \<noteq> []"
  shows "elements v = Some (map int (sorted_list_of_set (bv_set v)))"
proof -
  from assms obtain w ws where ws: "bv_data v = w # ws" by (cases "bv_data v") auto
  let ?it = "\<lparr>it_index = 0, it_value = w, it_current = -1\<rparr>"
  let ?fuel = "kDataBits * length (bv_data v) + 1"
  have "it_at v 0 0 (?it\<lparr>it_current := it_current ?it + 1\<rparr>) (it_value ?it)"
    using ws by (simp add: it_at_def)
  from it_Advance_finds [OF this] obtain it where adv: "it_Advance v ?it = Some it"
    and cases: "(it_Done v it \<and> none_between v 0 (64 * length (bv_data v))) \<or>
      (\<exists>m. it_visits v m it \<and> none_between v 0 m)" by auto
  have all: "bv_set v = elements_from v 0" by simp
  have "it_elements ?fuel v it = Some (map int (sorted_list_of_set (bv_set v)))"
    using cases
  proof (elim disjE conjE exE)
    assume fin: "it_Done v it" and none: "none_between v 0 (64 * length (bv_data v))"
    have "bv_set v = {}" using none by (auto simp: none_between_def bv_set_def)
    with fin show ?thesis by simp
  next
    fix m assume m: "it_visits v m it" "none_between v 0 m"
    have same: "bv_set v = elements_from v m" using m(2) by (auto simp: none_between_def not_less)
    have "card (elements_from v m) < ?fuel"
      using card_bv_set_le [of v] by (simp add: same [symmetric] kDataBits_def)
    from it_elements_sorted [OF m(1) this] same show ?thesis by simp
  qed
  with adv ws show ?thesis by (simp add: elements_def new_Iterator_def)
qed

section \<open>Growing\<close>

lemma grow_length_enough:
  "0 < n \<Longrightarrow> n < 2 ^ 31 \<Longrightarrow> i < 2 ^ 30 \<Longrightarrow>
   \<exists>m. grow_length n i = Some m \<and> i < m \<and> n \<le> m \<and> m < 2 ^ 31"
proof (induction n i rule: grow_length.induct)
  case (1 n i)
  show ?case
  proof (cases "n \<le> i")
    case True
    with 1 obtain m where "grow_length (n * 2) i = Some m" "i < m" "n * 2 \<le> m" "m < 2 ^ 31"
      by fastforce
    with 1 True show ?thesis by (auto simp: grow_length.simps [of n])
  qed (use "1.prems" in \<open>simp add: grow_length.simps [of n]\<close>)
qed

lemma grow_length_diverges: "n \<le> 0 \<Longrightarrow> n \<le> i \<Longrightarrow> grow_length n i = None"
  by (simp add: grow_length.simps [of n])


section \<open>The contract of a set of indices\<close>

text \<open>What the users of bit vectors rely on, the environments above all: inside the range of a vector,
  \<open>contains\<close> decides membership and \<open>add\<close> succeeds, adds exactly its element and keeps the range.\<close>

locale index_set =
  fixes invar :: "'v \<Rightarrow> bool"
    and in_range :: "'v \<Rightarrow> nat \<Rightarrow> bool"
    and elems :: "'v \<Rightarrow> nat set"
    and contains :: "nat \<Rightarrow> 'v \<Rightarrow> bool option"
    and add :: "nat \<Rightarrow> 'v \<Rightarrow> 'v option"
  assumes contains: "invar v \<Longrightarrow> in_range v i \<Longrightarrow> contains i v = Some (i \<in> elems v)"
    and add: "invar v \<Longrightarrow> in_range v i \<Longrightarrow>
      \<exists>v'. add i v = Some v' \<and> invar v' \<and> elems v' = insert i (elems v) \<and> in_range v' = in_range v"
begin

fun add_all :: "nat list \<Rightarrow> 'v \<Rightarrow> 'v option" where
  "add_all [] v = Some v"
| "add_all (i # is) v = do { v \<leftarrow> add i v; add_all is v }"

lemma add_all:
  "invar v \<Longrightarrow> list_all (in_range v) is \<Longrightarrow>
   \<exists>v'. add_all is v = Some v' \<and> invar v' \<and> elems v' = set is \<union> elems v \<and> in_range v' = in_range v"
proof (induction "is" arbitrary: v)
  case (Cons i "is")
  from Cons.prems add obtain v1 where "add i v = Some v1" "invar v1"
    "elems v1 = insert i (elems v)" "in_range v1 = in_range v" by auto blast
  with Cons.IH [of v1] Cons.prems show ?case by auto
qed simp

lemma contains_add_all:
  assumes "invar v" "list_all (in_range v) is" "in_range v j"
  shows "do { v \<leftarrow> add_all is v; contains j v } = Some (j \<in> set is \<or> j \<in> elems v)"
  using add_all [OF assms(1,2)] contains assms(3) by fastforce

end

lemma bv_in_range_add:
  assumes "bv_wf v" "bv_in_range v i"
  shows "\<exists>v'. Add i v = Some v' \<and> bv_wf v' \<and> bv_set v' = insert i (bv_set v) \<and>
    bv_in_range v' = bv_in_range v"
  using Add_bv_set [OF bv_block_in_range [OF assms]] assms by (auto simp: bv_wf_def)

interpretation bv: index_set bv_wf bv_in_range bv_set Contains Add
  by unfold_locales (simp_all add: Contains_bv_set bv_block_in_range bv_in_range_add)

text \<open>A growable vector has all indices in its range for which the doubling of its length stays
  an \<^verbatim>\<open>int\<close>, once its length is positive; below its length all of its elements lie.\<close>

definition growable_wf :: "GrowableBitVector \<Rightarrow> bool" where
  "growable_wf g = (case g of None \<Rightarrow> True | Some v \<Rightarrow> bv_wf v \<and> (\<forall>i \<in> bv_set v. bv_in_range v i))"

definition growable_set :: "GrowableBitVector \<Rightarrow> nat set" where
  "growable_set g = (case g of None \<Rightarrow> {} | Some v \<Rightarrow> bv_set v)"

definition growable_in_range :: "GrowableBitVector \<Rightarrow> nat \<Rightarrow> bool" where
  "growable_in_range g i \<longleftrightarrow> i < 2 ^ 30"

lemma growable_Contains_set:
  "growable_wf g \<Longrightarrow> growable_Contains i g = Some (i \<in> growable_set g)"
  by (cases g) (auto simp: growable_Contains_def InBitsRange_def growable_wf_def growable_set_def
      bv.contains)

lemma sint_lt32: "sint (w :: int32) < 2 ^ 31"
  using sint_lt [of w] by simp

lemma SizeFor_mono: "0 < m \<Longrightarrow> m \<le> n \<Longrightarrow> SizeFor m \<le> SizeFor n"
  by (simp add: SizeFor_pos zdiv_mono1)

lemma EnsureCapacity_set:
  assumes "growable_wf g" "i < 2 ^ 30"
  shows "\<exists>v. EnsureCapacity i g = Some (Some v) \<and> growable_wf (Some v) \<and>
    bv_set v = growable_set g \<and> bv_in_range v i"
proof (cases "InBitsRange i g")
  case True
  with assms show ?thesis
    by (auto simp: EnsureCapacity_def InBitsRange_def growable_set_def split: option.splits)
next
  case False
  let ?n = "case g of None \<Rightarrow> kInitialLength | Some v \<Rightarrow> sint (bv_length v)"
  have "0 < ?n" "?n < 2 ^ 31"
    using assms(1) sint_lt32
    by (auto simp: kInitialLength_def growable_wf_def bv_wf_def split: option.split)
  from grow_length_enough [OF this, of "int i"] assms(2) obtain m
    where m: "grow_length ?n (int i) = Some m" "int i < m" "?n \<le> m" "m < 2 ^ 31" by auto
  let ?new = "new_BitVector (word_of_int m)"
  have len: "sint (bv_length ?new) = m"
    using m(2,4) by (simp add: new_BitVector_def sint_word_of_int32)
  then have wf: "bv_wf ?new" using m(2) by (intro bv_wf_new) (simp add: new_BitVector_def)
  show ?thesis
  proof (cases g)
    case None
    with False m len wf show ?thesis
      by (auto simp: EnsureCapacity_def growable_wf_def growable_set_def)
  next
    case (Some v)
    with assms(1) have v: "bv_wf v" "\<forall>j \<in> bv_set v. bv_in_range v j" by (auto simp: growable_wf_def)
    have "int (length (bv_data v)) \<le> int (length (bv_data ?new))"
      using v(1) wf m(3) Some len SizeFor_mono [of "sint (bv_length v)" m] by (simp add: bv_wf_def)
    then obtain v' where v': "CopyFrom v ?new = Some v'" "bv_set v' = bv_set v"
      "bv_length v' = bv_length ?new" "length (bv_data v') = length (bv_data ?new)"
      using CopyFrom_bv_set [of v ?new] by auto
    with wf have "bv_wf v'" by (simp add: bv_wf_def)
    moreover have "\<forall>j \<in> bv_set v'. bv_in_range v' j"
      using v(2) v'(2,3) len m(3) Some by fastforce
    ultimately show ?thesis
      using v' len m False Some by (simp add: EnsureCapacity_def growable_wf_def growable_set_def)
  qed
qed

lemma growable_Add_set:
  assumes "growable_wf g" "i < 2 ^ 30"
  shows "\<exists>g'. growable_Add i g = Some g' \<and> growable_wf g' \<and> growable_set g' = insert i (growable_set g)"
proof -
  obtain v where v: "EnsureCapacity i g = Some (Some v)" "growable_wf (Some v)"
    "bv_set v = growable_set g" "bv_in_range v i" using EnsureCapacity_set [OF assms] by blast
  then have wf: "bv_wf v" by (simp add: growable_wf_def)
  obtain v' where v': "Add i v = Some v'" "bv_set v' = insert i (bv_set v)"
    "bv_length v' = bv_length v" "length (bv_data v') = length (bv_data v)"
    using Add_bv_set [OF bv_block_in_range [OF wf v(4)]] by blast
  with v wf have "growable_wf (Some v')" by (auto simp: growable_wf_def bv_wf_def)
  with v v' show ?thesis by (simp add: growable_Add_def growable_set_def)
qed

interpretation growable: index_set growable_wf growable_in_range growable_set growable_Contains growable_Add
  by unfold_locales
    (auto simp: growable_Contains_set growable_in_range_def fun_eq_iff dest: growable_Add_set)

text \<open>A growable vector that was made with length 0 cannot grow: the loop does not end.\<close>

lemma growable_Add_zero_length: "growable_Add i (new_GrowableBitVector 0) = None"
  by (simp add: growable_Add_def EnsureCapacity_def new_GrowableBitVector_def InBitsRange_def
      new_BitVector_def grow_length_diverges)

text \<open>The changed flags tell whether the set changed.\<close>

lemma bv_changed:
  assumes "length (bv_data u) = length (bv_data v)"
  shows "list_ex (\<lambda>(x, y). x \<noteq> y) (zip (bv_data u) (bv_data v)) \<longleftrightarrow> bv_set u \<noteq> bv_set v"
  using assms by (auto simp: bv_set_eq_iff list_ex_iff list_eq_iff_nth_eq set_zip)

lemma UnionIsChanged_bv_set:
  assumes "length (bv_data other) = length (bv_data v)"
  shows "\<exists>v'. UnionIsChanged other v = Some (\<not> bv_set other \<subseteq> bv_set v, v') \<and>
    bv_set v' = bv_set v \<union> bv_set other"
proof -
  obtain v' where v': "Union other v = Some v'" "bv_set v' = bv_set v \<union> bv_set other"
    "length (bv_data v') = length (bv_data v)" using Union_bv_set [OF assms] by blast
  with bv_changed [OF v'(3)] show ?thesis
    by (auto simp: UnionIsChanged_def Union_def)
qed

lemma IntersectIsChanged_bv_set:
  assumes "length (bv_data other) = length (bv_data v)"
  shows "\<exists>v'. IntersectIsChanged other v = Some (\<not> bv_set v \<subseteq> bv_set other, v') \<and>
    bv_set v' = bv_set v \<inter> bv_set other"
proof -
  obtain v' where v': "Intersect other v = Some v'" "bv_set v' = bv_set v \<inter> bv_set other"
    "length (bv_data v') = length (bv_data v)" using Intersect_bv_set [OF assms] by blast
  with bv_changed [OF v'(3)] show ?thesis
    by (auto simp: IntersectIsChanged_def Intersect_def)
qed

section \<open>Saving and loading a bit vector\<close>

lemma transmits_BitVector [transmits_intros]:
  assumes "length (bv_data v) < 2 ^ 31"
  shows "transmits C (SaveBitVector v) LoadBitVector v"
  unfolding SaveBitVector_def LoadBitVector_def
  by (rule transmits_cong, (rule transmits_intros assms | assumption)+, simp)

interpretation bv_codec: codec SaveBitVector LoadBitVector "\<lambda>v. length (bv_data v) < 2 ^ 31" "\<lambda>v. v"
  by unfold_locales (rule transmits_BitVector)


section \<open>Properties\<close>

text \<open>C10 The iterator visits exactly the elements of the set, each once and in increasing order, it
  never runs past the array and always ends, and \<^verbatim>\<open>Count\<close> is the number of its visits. This is what
  \<^verbatim>\<open>SaveConstants\<close> relies on when it writes the count before the loop.\<close>
theorem iterator_visits_elements:
  assumes "bv_data v \<noteq> []"
  shows "elements v = Some (map int (sorted_list_of_set (bv_set v))) \<and>
    Count v = length (sorted_list_of_set (bv_set v))"
  using elements_sorted [OF assms] by (simp add: Count_card)

theorem iterator_visits_elements_witness:
  "elements \<lparr>bv_length = 128, bv_data = [0, 5]\<rparr>
   = Some (map int (sorted_list_of_set (bv_set \<lparr>bv_length = 128, bv_data = [0, 5]\<rparr>)))"
  using iterator_visits_elements [of "\<lparr>bv_length = 128, bv_data = [0, 5]\<rparr>"] by simp

text \<open>C11 On vectors with arrays of one size the operations are those of the sets they stand for:
  union, intersection, difference, their changed flags, the emptiness test and equality.\<close>
theorem bit_vector_operations:
  assumes "length (bv_data other) = length (bv_data v)"
  shows "(\<exists>v'. Union other v = Some v' \<and> bv_set v' = bv_set v \<union> bv_set other) \<and>
    (\<exists>v'. Intersect other v = Some v' \<and> bv_set v' = bv_set v \<inter> bv_set other) \<and>
    (\<exists>v'. Subtract other v = Some v' \<and> bv_set v' = bv_set v - bv_set other) \<and>
    (\<exists>v'. UnionIsChanged other v = Some (\<not> bv_set other \<subseteq> bv_set v, v') \<and>
       bv_set v' = bv_set v \<union> bv_set other) \<and>
    (\<exists>v'. IntersectIsChanged other v = Some (\<not> bv_set v \<subseteq> bv_set other, v') \<and>
       bv_set v' = bv_set v \<inter> bv_set other) \<and>
    (IsEmpty v \<longleftrightarrow> bv_set v = {}) \<and> Equals other v = Some (bv_set v = bv_set other)"
  using Union_bv_set [OF assms] Intersect_bv_set [OF assms] Subtract_bv_set [OF assms]
    UnionIsChanged_bv_set [OF assms] IntersectIsChanged_bv_set [OF assms] Equals_bv_set [OF assms]
  by (auto simp: IsEmpty_bv_set)

theorem bit_vector_operations_witness:
  "\<exists>v'. Subtract \<lparr>bv_length = 64, bv_data = [6]\<rparr> \<lparr>bv_length = 64, bv_data = [3]\<rparr> = Some v' \<and>
     bv_set v' = bv_set \<lparr>bv_length = 64, bv_data = [3]\<rparr> - bv_set \<lparr>bv_length = 64, bv_data = [6]\<rparr>"
  using bit_vector_operations [of "\<lparr>bv_length = 64, bv_data = [6]\<rparr>" "\<lparr>bv_length = 64, bv_data = [3]\<rparr>"]
  by simp

text \<open>A growable vector made with a positive length takes any indices below 2^30: adding them all
  ends, also where the vector has to double its length several times, afterwards exactly the
  indices added before or now are contained, and asking about any other index is safe.\<close>
theorem growable_add_all:
  assumes "growable_wf g" "list_all (\<lambda>i. i < 2 ^ 30) is"
  shows "\<exists>g'. growable.add_all is g = Some g' \<and> growable_wf g' \<and>
    growable_set g' = set is \<union> growable_set g \<and>
    (\<forall>j. growable_Contains j g' = Some (j \<in> set is \<or> j \<in> growable_set g))"
  using growable.add_all [OF assms(1), of "is"] assms(2)
  by (auto simp: growable_in_range_def growable_Contains_set list_all_iff)

theorem growable_add_all_witness:
  "\<exists>g'. growable.add_all [5, 5000, 70] (new_GrowableBitVector 3) = Some g' \<and>
     growable_set g' = {5, 70, 5000}"
proof -
  have "growable_wf (new_GrowableBitVector 3)"
    by (simp add: growable_wf_def new_GrowableBitVector_def bv_wf_new)
  from growable_add_all [OF this, of "[5, 5000, 70]"] show ?thesis
    by (auto simp: growable_set_def new_GrowableBitVector_def)
qed

text \<open>A growable vector whose length is 0, as \<^verbatim>\<open>LEnvironment\<close> makes it for a value count of 0,
  cannot take any index: the loop which doubles the length never ends.\<close>
theorem growable_zero_length_diverges:
  "growable_Add i (new_GrowableBitVector 0) = None"
  by (rule growable_Add_zero_length)

end
