(* ===== verification/LithiumOperands.thy ===== *)
theory LithiumOperands
  imports SaveloadBase
begin

text \<open>
  \<^verbatim>\<open>src/utils.h\<close> (\<^verbatim>\<open>BitField\<close>) and the operands of \<^verbatim>\<open>src/lithium.{h,cc}\<close>: \<^verbatim>\<open>LOperand\<close>,
  \<^verbatim>\<open>LUnallocated\<close>, moves and pointer maps, with their save and load functions of
  \<^verbatim>\<open>src/lithium-saveload.cc\<close>. An operand is the 32-bit word \<^verbatim>\<open>value_\<close> which packs its kind and its
  index or policy; a pointer to one which may be null is an option.
\<close>

section \<open>Bit fields\<close>

definition BitField_kMask :: "nat \<Rightarrow> nat \<Rightarrow> uint32" where
  "BitField_kMask shift width = push_bit width (push_bit shift 1) - push_bit shift 1"

definition BitField_kMax :: "nat \<Rightarrow> uint32" where
  "BitField_kMax width = push_bit width 1 - 1"

definition BitField_is_valid :: "nat \<Rightarrow> uint32 \<Rightarrow> bool" where
  "BitField_is_valid width value \<longleftrightarrow> value AND NOT (BitField_kMax width) = 0"

definition BitField_encode :: "nat \<Rightarrow> uint32 \<Rightarrow> uint32" where
  "BitField_encode shift value = push_bit shift value"

definition BitField_update :: "nat \<Rightarrow> nat \<Rightarrow> uint32 \<Rightarrow> uint32 \<Rightarrow> uint32" where
  "BitField_update shift width previous value =
     (previous AND NOT (BitField_kMask shift width)) OR BitField_encode shift value"

definition BitField_decode :: "nat \<Rightarrow> nat \<Rightarrow> uint32 \<Rightarrow> uint32" where
  "BitField_decode shift width value = drop_bit shift (value AND BitField_kMask shift width)"

lemma BitField_kMask_mask: "BitField_kMask shift width = push_bit shift (mask width)"
proof -
  have "push_bit width (push_bit shift 1) - push_bit shift 1 = push_bit shift (2 ^ width - (1 :: uint32))"
    by (simp add: push_bit_eq_mult algebra_simps)
  then show ?thesis by (simp add: BitField_kMask_def mask_eq_exp_minus_1)
qed

lemma BitField_kMax_mask: "BitField_kMax width = mask width"
  by (simp add: BitField_kMax_def mask_eq_exp_minus_1 push_bit_eq_mult)

lemma BitField_decode_bits: "BitField_decode shift width w = take_bit width (drop_bit shift w)"
  by (rule bit_word_eqI) (auto simp: BitField_decode_def BitField_kMask_mask bit_simps dest: bit_imp_le_length)

lemma BitField_is_valid_iff: "BitField_is_valid width w \<longleftrightarrow> take_bit width w = w"
proof -
  have "w AND NOT (mask width) = 0 \<longleftrightarrow> w AND mask width = w"
    by (auto simp: bit_eq_iff bit_simps)
  then show ?thesis by (simp add: BitField_is_valid_def BitField_kMax_mask take_bit_eq_mask)
qed

lemma BitField_validD: "BitField_is_valid width v \<Longrightarrow> bit v n \<Longrightarrow> n < width"
  unfolding BitField_is_valid_iff by (metis bit_take_bit_iff)

text \<open>What the users of a bit field rely on: a valid value is read back, and writing one field keeps
  the bits outside of it.\<close>

locale bit_field =
  fixes shift width :: nat
  assumes fits: "shift + width \<le> 32"
begin

lemma decode_update: "BitField_is_valid width v \<Longrightarrow>
  BitField_decode shift width (BitField_update shift width previous v) = v"
  unfolding BitField_is_valid_iff BitField_decode_bits BitField_update_def BitField_encode_def
    BitField_kMask_mask
  by (rule bit_word_eqI) (use fits in \<open>auto simp: bit_simps bit_eq_iff\<close>)

lemma decode_encode: "BitField_is_valid width v \<Longrightarrow>
  BitField_decode shift width (BitField_encode shift v) = v"
  unfolding BitField_is_valid_iff BitField_decode_bits BitField_encode_def
  by (rule bit_word_eqI) (use fits in \<open>auto simp: bit_simps bit_eq_iff\<close>)

text \<open>The other field lies below or above this one.\<close>

lemma decode_other:
  assumes "BitField_is_valid width v" "shift' + width' \<le> shift \<or> shift + width \<le> shift'"
  shows "BitField_decode shift' width' (BitField_update shift width previous v)
         = BitField_decode shift' width' previous"
  using assms(2) BitField_validD [OF assms(1)]
  unfolding BitField_decode_bits BitField_update_def BitField_encode_def BitField_kMask_mask
  by (intro bit_word_eqI) (fastforce simp: bit_simps dest: bit_imp_le_length)

lemma decode_or_other:
  assumes "BitField_is_valid width v" "shift' + width' \<le> shift \<or> shift + width \<le> shift'"
  shows "BitField_decode shift' width' (previous OR BitField_encode shift v)
         = BitField_decode shift' width' previous"
  using assms(2) BitField_validD [OF assms(1)]
  unfolding BitField_decode_bits BitField_encode_def
  by (intro bit_word_eqI) (fastforce simp: bit_simps)

lemma decode_or: "BitField_is_valid width v \<Longrightarrow> BitField_decode shift width previous = 0 \<Longrightarrow>
  BitField_decode shift width (previous OR BitField_encode shift v) = v"
  unfolding BitField_is_valid_iff BitField_decode_bits BitField_encode_def
  by (rule bit_word_eqI) (use fits in \<open>auto simp: bit_simps bit_eq_iff\<close>)

end

section \<open>LOperand\<close>

datatype Kind =
    INVALID | UNALLOCATED | CONSTANT_OPERAND | STACK_SLOT | DOUBLE_STACK_SLOT | REGISTER
  | DOUBLE_REGISTER

primrec kind_code :: "Kind \<Rightarrow> uint32" where
  "kind_code INVALID = 0"
| "kind_code UNALLOCATED = 1"
| "kind_code CONSTANT_OPERAND = 2"
| "kind_code STACK_SLOT = 3"
| "kind_code DOUBLE_STACK_SLOT = 4"
| "kind_code REGISTER = 5"
| "kind_code DOUBLE_REGISTER = 6"

type_synonym LOperand = uint32

definition kKindFieldWidth :: nat where
  "kKindFieldWidth = 3"

definition KindField_decode :: "LOperand \<Rightarrow> uint32" where
  "KindField_decode w = BitField_decode 0 kKindFieldWidth w"

definition new_LOperand :: LOperand where
  "new_LOperand = BitField_encode 0 (kind_code INVALID)"

definition has_kind :: "Kind \<Rightarrow> LOperand \<Rightarrow> bool" where
  "has_kind k op \<longleftrightarrow> KindField_decode op = kind_code k"

abbreviation IsConstantOperand :: "LOperand \<Rightarrow> bool" where
  "IsConstantOperand \<equiv> has_kind CONSTANT_OPERAND"

abbreviation IsStackSlot :: "LOperand \<Rightarrow> bool" where
  "IsStackSlot \<equiv> has_kind STACK_SLOT"

abbreviation IsIgnored :: "LOperand \<Rightarrow> bool" where
  "IsIgnored \<equiv> has_kind INVALID"

definition op_index :: "LOperand \<Rightarrow> int" where
  "op_index op = sint (signed_drop_bit kKindFieldWidth op)"

definition ConvertTo :: "Kind \<Rightarrow> int \<Rightarrow> LOperand" where
  "ConvertTo k i = BitField_encode 0 (kind_code k) OR push_bit kKindFieldWidth (word_of_int i)"

definition op_Equals :: "LOperand \<Rightarrow> LOperand \<Rightarrow> bool" where
  "op_Equals a b \<longleftrightarrow> a = b"

section \<open>LUnallocated\<close>

datatype BasicPolicy = FIXED_SLOT | EXTENDED_POLICY

primrec basic_policy_code :: "BasicPolicy \<Rightarrow> uint32" where
  "basic_policy_code FIXED_SLOT = 0"
| "basic_policy_code EXTENDED_POLICY = 1"

datatype ExtendedPolicy =
    NONE | ANY | FIXED_REGISTER | FIXED_DOUBLE_REGISTER | MUST_HAVE_REGISTER
  | MUST_HAVE_DOUBLE_REGISTER | WRITABLE_REGISTER | SAME_AS_FIRST_INPUT

primrec extended_policy_code :: "ExtendedPolicy \<Rightarrow> uint32" where
  "extended_policy_code NONE = 0"
| "extended_policy_code ANY = 1"
| "extended_policy_code FIXED_REGISTER = 2"
| "extended_policy_code FIXED_DOUBLE_REGISTER = 3"
| "extended_policy_code MUST_HAVE_REGISTER = 4"
| "extended_policy_code MUST_HAVE_DOUBLE_REGISTER = 5"
| "extended_policy_code WRITABLE_REGISTER = 6"
| "extended_policy_code SAME_AS_FIRST_INPUT = 7"

datatype Lifetime = USED_AT_START | USED_AT_END

primrec lifetime_code :: "Lifetime \<Rightarrow> uint32" where
  "lifetime_code USED_AT_START = 0"
| "lifetime_code USED_AT_END = 1"

text \<open>Shift and width of the fields.\<close>

definition BasicPolicyField :: "nat \<times> nat" where "BasicPolicyField = (3, 1)"
definition VirtualRegisterField :: "nat \<times> nat" where "VirtualRegisterField = (4, 18)"
definition FixedSlotIndexField :: "nat \<times> nat" where "FixedSlotIndexField = (22, 10)"
definition ExtendedPolicyField :: "nat \<times> nat" where "ExtendedPolicyField = (22, 3)"
definition LifetimeField :: "nat \<times> nat" where "LifetimeField = (25, 1)"
definition FixedRegisterField :: "nat \<times> nat" where "FixedRegisterField = (26, 6)"

definition field_encode :: "nat \<times> nat \<Rightarrow> uint32 \<Rightarrow> uint32" where
  "field_encode f v = BitField_encode (fst f) v"

definition field_decode :: "nat \<times> nat \<Rightarrow> uint32 \<Rightarrow> uint32" where
  "field_decode f w = BitField_decode (fst f) (snd f) w"

definition field_update :: "nat \<times> nat \<Rightarrow> uint32 \<Rightarrow> uint32 \<Rightarrow> uint32" where
  "field_update f w v = BitField_update (fst f) (snd f) w v"

text \<open>The four constructors.\<close>

definition LUnallocated_policy :: "ExtendedPolicy \<Rightarrow> LOperand" where
  "LUnallocated_policy policy =
     ConvertTo UNALLOCATED 0 OR field_encode BasicPolicyField (basic_policy_code EXTENDED_POLICY)
       OR field_encode ExtendedPolicyField (extended_policy_code policy)
       OR field_encode LifetimeField (lifetime_code USED_AT_END)"

definition LUnallocated_slot :: "BasicPolicy \<Rightarrow> int \<Rightarrow> LOperand" where
  "LUnallocated_slot policy index =
     ConvertTo UNALLOCATED 0 OR field_encode BasicPolicyField (basic_policy_code policy)
       OR push_bit (fst FixedSlotIndexField) (word_of_int index)"

definition LUnallocated_fixed :: "ExtendedPolicy \<Rightarrow> int \<Rightarrow> LOperand" where
  "LUnallocated_fixed policy index =
     ConvertTo UNALLOCATED 0 OR field_encode BasicPolicyField (basic_policy_code EXTENDED_POLICY)
       OR field_encode ExtendedPolicyField (extended_policy_code policy)
       OR field_encode LifetimeField (lifetime_code USED_AT_END)
       OR field_encode FixedRegisterField (word_of_int index)"

definition LUnallocated_lifetime :: "ExtendedPolicy \<Rightarrow> Lifetime \<Rightarrow> LOperand" where
  "LUnallocated_lifetime policy lifetime =
     ConvertTo UNALLOCATED 0 OR field_encode BasicPolicyField (basic_policy_code EXTENDED_POLICY)
       OR field_encode ExtendedPolicyField (extended_policy_code policy)
       OR field_encode LifetimeField (lifetime_code lifetime)"

definition basic_policy :: "LOperand \<Rightarrow> uint32" where
  "basic_policy op = field_decode BasicPolicyField op"

definition extended_policy :: "LOperand \<Rightarrow> uint32" where
  "extended_policy op = field_decode ExtendedPolicyField op"

definition fixed_slot_index :: "LOperand \<Rightarrow> int" where
  "fixed_slot_index op = sint (signed_drop_bit (fst FixedSlotIndexField) op)"

definition fixed_register_index :: "LOperand \<Rightarrow> int" where
  "fixed_register_index op = sint (field_decode FixedRegisterField op)"

definition virtual_register :: "LOperand \<Rightarrow> int" where
  "virtual_register op = sint (field_decode VirtualRegisterField op)"

definition set_virtual_register :: "uint32 \<Rightarrow> LOperand \<Rightarrow> LOperand" where
  "set_virtual_register vreg op = field_update VirtualRegisterField op vreg"

definition IsUsedAtStart :: "LOperand \<Rightarrow> bool" where
  "IsUsedAtStart op \<longleftrightarrow> field_decode LifetimeField op = lifetime_code USED_AT_START"

definition CopyUnconstrained :: "LOperand \<Rightarrow> LOperand" where
  "CopyUnconstrained op =
     set_virtual_register (word_of_int (virtual_register op)) (LUnallocated_policy ANY)"

definition has_extended_policy :: "ExtendedPolicy \<Rightarrow> LOperand \<Rightarrow> bool" where
  "has_extended_policy p op \<longleftrightarrow>
     basic_policy op = basic_policy_code EXTENDED_POLICY \<and> extended_policy op = extended_policy_code p"

definition HasFixedSlotPolicy :: "LOperand \<Rightarrow> bool" where
  "HasFixedSlotPolicy op \<longleftrightarrow> basic_policy op = basic_policy_code FIXED_SLOT"

definition HasFixedPolicy :: "LOperand \<Rightarrow> bool" where
  "HasFixedPolicy op \<longleftrightarrow> basic_policy op = basic_policy_code FIXED_SLOT
     \<or> extended_policy op = extended_policy_code FIXED_REGISTER
     \<or> extended_policy op = extended_policy_code FIXED_DOUBLE_REGISTER"

definition HasRegisterPolicy :: "LOperand \<Rightarrow> bool" where
  "HasRegisterPolicy op \<longleftrightarrow> basic_policy op = basic_policy_code EXTENDED_POLICY \<and>
     (extended_policy op = extended_policy_code WRITABLE_REGISTER
      \<or> extended_policy op = extended_policy_code MUST_HAVE_REGISTER)"


section \<open>Moves\<close>

record LMoveOperands =
  mv_source :: "LOperand option"
  mv_destination :: "LOperand option"

definition IsPending :: "LMoveOperands \<Rightarrow> bool" where
  "IsPending m \<longleftrightarrow> mv_destination m = None \<and> mv_source m \<noteq> None"

definition IsEliminated :: "LMoveOperands \<Rightarrow> bool" where
  "IsEliminated m \<longleftrightarrow> mv_source m = None"

definition Eliminate :: "LMoveOperands \<Rightarrow> LMoveOperands" where
  "Eliminate m = m\<lparr>mv_source := None, mv_destination := None\<rparr>"

definition Blocks :: "LOperand \<Rightarrow> LMoveOperands \<Rightarrow> bool" where
  "Blocks op m = (case mv_source m of None \<Rightarrow> False | Some src \<Rightarrow> op_Equals src op)"

text \<open>\<^verbatim>\<open>source_->Equals(destination_)\<close> reads the destination, which a pending move does not have.\<close>

definition IsRedundant :: "LMoveOperands \<Rightarrow> bool option" where
  "IsRedundant m =
     (case mv_source m of
        None \<Rightarrow> Some True
      | Some src \<Rightarrow>
          (case mv_destination m of
             None \<Rightarrow> None
           | Some dst \<Rightarrow> Some (op_Equals src dst \<or> IsIgnored dst \<or> IsConstantOperand dst)))"

type_synonym LParallelMove = "LMoveOperands list"

definition AddMove :: "LOperand option \<Rightarrow> LOperand option \<Rightarrow> LParallelMove \<Rightarrow> LParallelMove" where
  "AddMove src dst moves = moves @ [\<lparr>mv_source = src, mv_destination = dst\<rparr>]"

fun parallel_IsRedundant :: "LParallelMove \<Rightarrow> bool option" where
  "parallel_IsRedundant [] = Some True"
| "parallel_IsRedundant (m # ms) = do {
     r \<leftarrow> IsRedundant m;
     if \<not> r then Some False else parallel_IsRedundant ms
   }"

section \<open>Pointer maps\<close>

record LPointerMap =
  pointer_operands :: "LOperand option list"
  untagged_operands :: "LOperand option list"
  lithium_position :: int32

definition new_LPointerMap :: LPointerMap where
  "new_LPointerMap = \<lparr>pointer_operands = [], untagged_operands = [], lithium_position = -1\<rparr>"

text \<open>A stack slot of an argument has a negative index.\<close>

definition is_argument :: "LOperand \<Rightarrow> bool" where
  "is_argument op \<longleftrightarrow> IsStackSlot op \<and> op_index op < 0"

definition RecordPointer :: "LOperand \<Rightarrow> LPointerMap \<Rightarrow> LPointerMap" where
  "RecordPointer op m =
     (if is_argument op then m else m\<lparr>pointer_operands := pointer_operands m @ [Some op]\<rparr>)"

text \<open>The loop of \<^verbatim>\<open>RemovePointer\<close>: removing an element moves the next one to its index, which is
  visited next.\<close>

fun remove_operand :: "LOperand \<Rightarrow> LOperand option list \<Rightarrow> LOperand option list option" where
  "remove_operand op [] = Some []"
| "remove_operand op (None # ps) = None"
| "remove_operand op (Some p # ps) =
     (if op_Equals p op then remove_operand op ps
      else map_option (\<lambda>qs. Some p # qs) (remove_operand op ps))"

definition RemovePointer :: "LOperand \<Rightarrow> LPointerMap \<Rightarrow> LPointerMap option" where
  "RemovePointer op m =
     (if is_argument op then Some m
      else map_option (\<lambda>ps. m\<lparr>pointer_operands := ps\<rparr>) (remove_operand op (pointer_operands m)))"

definition RecordUntagged :: "LOperand \<Rightarrow> LPointerMap \<Rightarrow> LPointerMap" where
  "RecordUntagged op m =
     (if is_argument op then m else m\<lparr>untagged_operands := untagged_operands m @ [Some op]\<rparr>)"

fun remove_all :: "LOperand option list \<Rightarrow> LPointerMap \<Rightarrow> LPointerMap option" where
  "remove_all [] m = Some m"
| "remove_all (None # ops) m = None"
| "remove_all (Some op # ops) m = do { m \<leftarrow> RemovePointer op m; remove_all ops m }"

definition GetNormalizedOperands :: "LPointerMap \<Rightarrow> (LOperand option list \<times> LPointerMap) option" where
  "GetNormalizedOperands m = do {
     m \<leftarrow> remove_all (untagged_operands m) m;
     Some (pointer_operands m, m\<lparr>untagged_operands := []\<rparr>)
   }"

section \<open>Saving and loading\<close>

definition SaveLOperand :: "LOperand \<Rightarrow> 'a saver_base_scheme \<Rightarrow> 'a saver_base_scheme option" where
  "SaveLOperand op s = SavePrimitive op s"

definition LoadLOperand :: "'a loader_base_scheme \<Rightarrow> (LOperand \<times> 'a loader_base_scheme) option" where
  "LoadLOperand l = LoadPrimitive l"

definition ConditionallySaveLOperand ::
  "LOperand option \<Rightarrow> 'a saver_base_scheme \<Rightarrow> 'a saver_base_scheme option" where
  "ConditionallySaveLOperand x s =
     (case x of
        Some op \<Rightarrow> do { s \<leftarrow> SaveTrue s; SaveLOperand op s }
      | None \<Rightarrow> SaveFalse s)"

definition ConditionallyLoadLOperand ::
  "'a loader_base_scheme \<Rightarrow> (LOperand option \<times> 'a loader_base_scheme) option" where
  "ConditionallyLoadLOperand l = do {
     (present, l) \<leftarrow> LoadBool l;
     if present then do { (op, l) \<leftarrow> LoadLOperand l; Some (Some op, l) } else Some (None, l)
   }"

definition SavePointerMap :: "LPointerMap \<Rightarrow> 'a saver_base_scheme \<Rightarrow> 'a saver_base_scheme option" where
  "SavePointerMap m s = do {
     s \<leftarrow> SavePrimitive (int_length (pointer_operands m)) s;
     s \<leftarrow> save_each ConditionallySaveLOperand (pointer_operands m) s;
     s \<leftarrow> SavePrimitive (int_length (untagged_operands m)) s;
     s \<leftarrow> save_each ConditionallySaveLOperand (untagged_operands m) s;
     SavePrimitive (lithium_position m) s
   }"

definition LoadPointerMap :: "'a loader_base_scheme \<Rightarrow> (LPointerMap \<times> 'a loader_base_scheme) option" where
  "LoadPointerMap l = do {
     (number_of_pointer_operands, l) \<leftarrow> LoadPrimitive l;
     (pointers, l) \<leftarrow> load_each ConditionallyLoadLOperand (iterations number_of_pointer_operands) l;
     (number_of_untagged_operands, l) \<leftarrow> LoadPrimitive l;
     (untagged, l) \<leftarrow> load_each ConditionallyLoadLOperand (iterations number_of_untagged_operands) l;
     (position, l) \<leftarrow> LoadPrimitive l;
     Some (new_LPointerMap\<lparr>pointer_operands := pointers, untagged_operands := untagged,
                           lithium_position := position\<rparr>, l)
   }"

section \<open>Fields of packed operands\<close>

lemma decode_OR [simp]:
  "BitField_decode s w (x OR y) = BitField_decode s w x OR BitField_decode s w y"
  unfolding BitField_decode_bits by (rule bit_word_eqI) (auto simp: bit_simps dest: bit_imp_le_length)

lemma decode_push_same:
  "s + w \<le> 32 \<Longrightarrow> take_bit w v = v \<Longrightarrow> BitField_decode s w (push_bit s v) = v"
  unfolding BitField_decode_bits by (rule bit_word_eqI) (auto simp: bit_simps bit_eq_iff)

lemma decode_push_below: "s + w \<le> s' \<Longrightarrow> BitField_decode s w (push_bit s' v) = 0"
  unfolding BitField_decode_bits by (rule bit_word_eqI) (auto simp: bit_simps)

lemma decode_push_above:
  assumes "take_bit w' v = v" "s' + w' \<le> s"
  shows "BitField_decode s w (push_bit s' v) = 0"
proof -
  have "bit v n \<Longrightarrow> n < w'" for n using assms(1) by (metis bit_take_bit_iff)
  with assms(2) show ?thesis
    unfolding BitField_decode_bits by (intro bit_word_eqI) (fastforce simp: bit_simps)
qed

lemma signed_index:
  assumes "n < 32" "take_bit n low = (low :: int32)" "- (2 ^ (31 - n)) \<le> i" "i < 2 ^ (31 - n)"
  shows "sint (signed_drop_bit n (low OR push_bit n (word_of_int i))) = i"
proof -
  have self: "signed_take_bit (31 - n) i = i"
    using assms(3,4) by (simp add: signed_take_bit_int_eq_self)
  have high: "bit i m \<longleftrightarrow> bit i (min m (31 - n))" for m
    using bit_signed_take_bit_iff [of "31 - n" i m] by (simp add: self min.commute)
  have low: "bit low m \<Longrightarrow> m < n" for m using assms(2) by (metis bit_take_bit_iff)
  let ?w = "low OR push_bit n (word_of_int i) :: int32"
  have wbit: "bit ?w k \<longleftrightarrow> bit i (k - n)" if "n \<le> k" "k < 32" for k
    using that low [of k] by (auto simp: bit_or_iff bit_push_bit_iff bit_word_of_int_iff)
  have "bit (drop_bit n (sint ?w)) m \<longleftrightarrow> bit i m" for m
  proof (cases "n + m < 32")
    case True
    then show ?thesis using wbit [of "n + m"] by (simp add: bit_drop_bit_eq bit_sint_iff)
  next
    case False
    then have "min m (31 - n) = 31 - n" using assms(1) by simp
    then have "bit i m \<longleftrightarrow> bit i (31 - n)" using high [of m] by simp
    moreover have "\<not> bit ?w (n + m)" using False by (auto dest: bit_imp_le_length)
    ultimately show ?thesis
      using False wbit [of 31] assms(1) by (simp add: bit_drop_bit_eq bit_sint_iff)
  qed
  then show ?thesis by (simp add: sint_signed_drop_bit_eq bit_eq_iff)
qed


interpretation BasicPolicyField: bit_field "fst BasicPolicyField" "snd BasicPolicyField"
  by unfold_locales (simp add: BasicPolicyField_def)

interpretation VirtualRegisterField: bit_field "fst VirtualRegisterField" "snd VirtualRegisterField"
  by unfold_locales (simp add: VirtualRegisterField_def)

interpretation FixedSlotIndexField: bit_field "fst FixedSlotIndexField" "snd FixedSlotIndexField"
  by unfold_locales (simp add: FixedSlotIndexField_def)

interpretation ExtendedPolicyField: bit_field "fst ExtendedPolicyField" "snd ExtendedPolicyField"
  by unfold_locales (simp add: ExtendedPolicyField_def)

interpretation LifetimeField: bit_field "fst LifetimeField" "snd LifetimeField"
  by unfold_locales (simp add: LifetimeField_def)

interpretation FixedRegisterField: bit_field "fst FixedRegisterField" "snd FixedRegisterField"
  by unfold_locales (simp add: FixedRegisterField_def)

lemmas field_defs = BasicPolicyField_def VirtualRegisterField_def FixedSlotIndexField_def
  ExtendedPolicyField_def LifetimeField_def FixedRegisterField_def

lemma kind_code_bound [simp]: "take_bit 3 (kind_code k) = kind_code k"
  by (cases k) simp_all

lemma kind_code_inject [simp]: "kind_code j = kind_code k \<longleftrightarrow> j = k"
  by (cases j; cases k) simp_all

lemma policy_code_bounds [simp]:
  "take_bit 1 (basic_policy_code b) = basic_policy_code b"
  "take_bit 3 (extended_policy_code p) = extended_policy_code p"
  "take_bit 1 (lifetime_code t) = lifetime_code t"
    apply (cases b; simp)
   apply (cases p; simp)
  apply (cases t; simp)
  done

lemma policy_code_inject [simp]:
  "basic_policy_code a = basic_policy_code b \<longleftrightarrow> a = b"
  "extended_policy_code p = extended_policy_code q \<longleftrightarrow> p = q"
  "lifetime_code t = lifetime_code u \<longleftrightarrow> t = u"
    apply (cases a; cases b; simp)
   apply (cases p; cases q; simp)
  apply (cases t; cases u; simp)
  done

lemma KindField_ConvertTo [simp]: "BitField_decode 0 3 (ConvertTo k i) = kind_code k"
  using decode_push_same [of 0 3 "kind_code k"]
  by (simp add: ConvertTo_def BitField_encode_def kKindFieldWidth_def decode_push_below)

lemma has_kind_ConvertTo [simp]: "has_kind j (ConvertTo k i) \<longleftrightarrow> j = k"
  by (auto simp: has_kind_def KindField_decode_def kKindFieldWidth_def)

lemma op_index_ConvertTo:
  "- (2 ^ 28) \<le> i \<Longrightarrow> i < 2 ^ 28 \<Longrightarrow> op_index (ConvertTo k i) = i"
  using signed_index [of 3 "kind_code k" i]
  by (simp add: op_index_def ConvertTo_def BitField_encode_def kKindFieldWidth_def)

text \<open>The fields of an unallocated operand above its kind start out empty.\<close>

lemma decode_ConvertTo_0: "3 \<le> s \<Longrightarrow> BitField_decode s w (ConvertTo k 0) = 0"
  using decode_push_above [of 3 "kind_code k" 0 s w]
  by (simp add: ConvertTo_def BitField_encode_def)

lemma decode_codes_above:
  "s' + 1 \<le> s \<Longrightarrow> BitField_decode s w (push_bit s' (basic_policy_code b)) = 0"
  "s' + 3 \<le> s \<Longrightarrow> BitField_decode s w (push_bit s' (extended_policy_code p)) = 0"
  "s' + 1 \<le> s \<Longrightarrow> BitField_decode s w (push_bit s' (lifetime_code t)) = 0"
  using decode_push_above policy_code_bounds by blast+

lemmas unallocated_simps = field_encode_def field_decode_def field_defs BitField_encode_def
  decode_ConvertTo_0 decode_push_same decode_push_below decode_codes_above

lemma decode_update_other:
  "BitField_is_valid w v \<Longrightarrow> s' + w' \<le> s \<or> s + w \<le> s' \<Longrightarrow> s + w \<le> 32 \<Longrightarrow>
   BitField_decode s' w' (BitField_update s w x v) = BitField_decode s' w' x"
  by (rule bit_field.decode_other) (simp_all add: bit_field_def)

lemma signed_drop_update:
  assumes "BitField_is_valid w v" "s + w \<le> n" "n < 32"
  shows "signed_drop_bit n (BitField_update s w x v) = signed_drop_bit n x"
proof -
  have "bit (BitField_update s w x v) k \<longleftrightarrow> bit x k" if "n \<le> k" for k
    using that assms(2) BitField_validD [OF assms(1), of "k - s"]
    by (auto simp: BitField_update_def BitField_encode_def BitField_kMask_mask bit_simps
        dest: bit_imp_le_length)
  then show ?thesis using assms(3) by (intro bit_word_eqI) (simp add: bit_signed_drop_bit_iff)
qed

section \<open>Loops over operands\<close>

lemma remove_operand_filter:
  "None \<notin> set ps \<Longrightarrow> remove_operand op ps = Some (filter (\<lambda>p. p \<noteq> Some op) ps)"
  by (induction op ps rule: remove_operand.induct) (auto simp: op_Equals_def)

lemma remove_all_filter:
  "None \<notin> set ops \<Longrightarrow> None \<notin> set (pointer_operands m) \<Longrightarrow>
   remove_all ops m = Some (m\<lparr>pointer_operands :=
     filter (\<lambda>p. p \<notin> {Some op | op. Some op \<in> set ops \<and> \<not> is_argument op}) (pointer_operands m)\<rparr>)"
proof (induction ops m rule: remove_all.induct)
  case (3 op ops m)
  show ?case
  proof (cases "is_argument op")
    case True
    with 3 have "remove_all (Some op # ops) m = remove_all ops m"
      by (simp add: RemovePointer_def)
    with 3 True show ?thesis
      by (auto simp: RemovePointer_def intro!: arg_cong [where f = "\<lambda>ps. m\<lparr>pointer_operands := ps\<rparr>"] filter_cong)
  next
    case False
    let ?m = "m\<lparr>pointer_operands := filter (\<lambda>p. p \<noteq> Some op) (pointer_operands m)\<rparr>"
    from 3 False have "RemovePointer op m = Some ?m"
      by (simp add: RemovePointer_def remove_operand_filter)
    with 3 False show ?thesis
      by (auto intro!: arg_cong [where f = "\<lambda>ps. m\<lparr>pointer_operands := ps\<rparr>"] filter_cong)
  qed
qed simp_all

lemma transmits_LOperand [transmits_intros]: "transmits C (SaveLOperand op) LoadLOperand op"
  unfolding SaveLOperand_def LoadLOperand_def by (rule transmits_intros)

lemma transmits_ConditionallyLOperand [transmits_intros]:
  "transmits C (ConditionallySaveLOperand x) ConditionallyLoadLOperand x"
proof (cases x)
  case None
  show ?thesis unfolding None ConditionallySaveLOperand_def ConditionallyLoadLOperand_def option.case
    by (rule transmits_save_last, rule transmits_intros, simp)
next
  case (Some op)
  show ?thesis unfolding Some ConditionallySaveLOperand_def ConditionallyLoadLOperand_def option.case
    by (rule transmits_intros, rule transmits_intros, simp, rule transmits_map, rule transmits_intros)
qed

lemma transmits_PointerMap [transmits_intros]:
  assumes "length (pointer_operands m) < 2 ^ 31" "length (untagged_operands m) < 2 ^ 31"
  shows "transmits C (SavePointerMap m) LoadPointerMap m"
  unfolding SavePointerMap_def LoadPointerMap_def
  by (rule transmits_cong, (rule transmits_intros assms | assumption)+, simp add: new_LPointerMap_def)

interpretation operand_codec: codec ConditionallySaveLOperand ConditionallyLoadLOperand "\<lambda>x. True" "\<lambda>x. x"
  by unfold_locales (rule transmits_intros)

interpretation pointer_map_codec: codec SavePointerMap LoadPointerMap
  "\<lambda>m. length (pointer_operands m) < 2 ^ 31 \<and> length (untagged_operands m) < 2 ^ 31" "\<lambda>m. m"
  by unfold_locales (simp add: transmits_PointerMap)


section \<open>Properties\<close>

text \<open>An operand packs any kind and any index of 29 signed bits without loss: after
  \<^verbatim>\<open>ConvertTo\<close>, the kind and the index, sign included, are read back.\<close>
theorem ConvertTo_faithful:
  assumes "- (2 ^ 28) \<le> i" "i < 2 ^ 28"
  shows "KindField_decode (ConvertTo k i) = kind_code k \<and> op_index (ConvertTo k i) = i"
  using op_index_ConvertTo [OF assms] by (simp add: KindField_decode_def kKindFieldWidth_def)

theorem ConvertTo_faithful_witness:
  "KindField_decode (ConvertTo STACK_SLOT (-3)) = 3 \<and> op_index (ConvertTo STACK_SLOT (-3)) = -3"
  using ConvertTo_faithful [of "-3" STACK_SLOT] by simp

text \<open>The encoding of unallocated operands: with a virtual register of 18 bits set, an operand made
  for a policy with a lifetime, for a fixed register or for a fixed slot of 10 signed bits gives
  back its kind, its policy, its register number and whatever else it was made with; the slot
  index survives although it shares its bits with the policy of the other form.\<close>
theorem unallocated_faithful:
  assumes "BitField_is_valid 18 v" "- 512 \<le> slot" "slot < 512" "0 \<le> reg" "reg < 64"
  shows "(let op = set_virtual_register v (LUnallocated_lifetime p t) in
      has_kind UNALLOCATED op \<and> has_extended_policy p op \<and> virtual_register op = sint v \<and>
      (IsUsedAtStart op \<longleftrightarrow> t = USED_AT_START)) \<and>
    (let op = set_virtual_register v (LUnallocated_fixed p reg) in
      has_kind UNALLOCATED op \<and> has_extended_policy p op \<and> virtual_register op = sint v \<and>
      fixed_register_index op = reg) \<and>
    (let op = set_virtual_register v (LUnallocated_slot FIXED_SLOT slot) in
      has_kind UNALLOCATED op \<and> HasFixedSlotPolicy op \<and> virtual_register op = sint v \<and>
      fixed_slot_index op = slot)"
proof (intro conjI)
  note upd = decode_update_other [OF assms(1)]
  have own: "BitField_decode 4 18 (BitField_update 4 18 x v) = v" for x
    using VirtualRegisterField.decode_update assms(1) by (simp add: VirtualRegisterField_def)
  have kind: "BitField_decode 0 3 (BitField_update 4 18 x v) = BitField_decode 0 3 x" for x
    by (rule upd) simp_all
  have kind0: "BitField_decode 0 3 (push_bit n w) = 0" if "3 \<le> n" for n w
    using that by (simp add: decode_push_below)
  have reg: "take_bit 6 (word_of_int reg :: uint32) = word_of_int reg"
    "sint (word_of_int reg :: uint32) = reg"
    using assms(4,5) by (simp_all add: take_bit_of_int take_bit_int_eq_self sint_word_of_int32)
  show "let op = set_virtual_register v (LUnallocated_lifetime p t) in
      has_kind UNALLOCATED op \<and> has_extended_policy p op \<and> virtual_register op = sint v \<and>
      (IsUsedAtStart op \<longleftrightarrow> t = USED_AT_START)"
    by (auto simp: Let_def set_virtual_register_def field_update_def LUnallocated_lifetime_def
        has_kind_def KindField_decode_def kKindFieldWidth_def kind kind0 has_extended_policy_def
        basic_policy_def extended_policy_def virtual_register_def IsUsedAtStart_def own upd
        unallocated_simps simp del: One_nat_def basic_policy_code.simps extended_policy_code.simps
        lifetime_code.simps kind_code.simps)
  show "let op = set_virtual_register v (LUnallocated_fixed p reg) in
      has_kind UNALLOCATED op \<and> has_extended_policy p op \<and> virtual_register op = sint v \<and>
      fixed_register_index op = reg"
    by (auto simp: Let_def set_virtual_register_def field_update_def LUnallocated_fixed_def
        has_kind_def KindField_decode_def kKindFieldWidth_def kind kind0 has_extended_policy_def
        basic_policy_def extended_policy_def virtual_register_def fixed_register_index_def own upd
        unallocated_simps reg simp del: One_nat_def basic_policy_code.simps extended_policy_code.simps
        lifetime_code.simps kind_code.simps)
  let ?low = "ConvertTo UNALLOCATED 0 OR push_bit 3 (basic_policy_code FIXED_SLOT)"
  have "take_bit 22 ?low = ?low"
    by (simp add: ConvertTo_def BitField_encode_def)
  from signed_index [OF _ this, of slot] assms(2,3)
  have "sint (signed_drop_bit 22 (?low OR push_bit 22 (word_of_int slot))) = slot" by simp
  then show "let op = set_virtual_register v (LUnallocated_slot FIXED_SLOT slot) in
      has_kind UNALLOCATED op \<and> HasFixedSlotPolicy op \<and> virtual_register op = sint v \<and>
      fixed_slot_index op = slot"
    by (auto simp: Let_def set_virtual_register_def field_update_def LUnallocated_slot_def
        has_kind_def KindField_decode_def kKindFieldWidth_def kind kind0 HasFixedSlotPolicy_def
        basic_policy_def virtual_register_def fixed_slot_index_def own upd
        signed_drop_update [OF assms(1)] unallocated_simps)
qed

theorem unallocated_faithful_witness:
  "fixed_slot_index (set_virtual_register 7 (LUnallocated_slot FIXED_SLOT (-5))) = -5 \<and>
   virtual_register (set_virtual_register 7 (LUnallocated_slot FIXED_SLOT (-5))) = 7"
  using unallocated_faithful [of 7 "-5" 3 ANY USED_AT_END]
  by (simp add: Let_def BitField_is_valid_def BitField_kMax_def)

text \<open>Normalising a pointer map removes from the pointer operands every operand that was recorded as
  untagged, all of its occurrences and whatever their order, keeps the others in order, and never
  removes the stack slots of arguments; the loop which deletes while it goes over the list skips
  nothing.\<close>
theorem GetNormalizedOperands_removes:
  assumes "None \<notin> set (pointer_operands m)" "None \<notin> set (untagged_operands m)"
  shows "GetNormalizedOperands m =
    (let ps = filter (\<lambda>p. \<not> (p \<in> set (untagged_operands m) \<and> (\<forall>op. p = Some op \<longrightarrow> \<not> is_argument op)))
                (pointer_operands m)
     in Some (ps, m\<lparr>pointer_operands := ps, untagged_operands := []\<rparr>))"
proof -
  have "filter (\<lambda>p. p \<notin> {Some op | op. Some op \<in> set (untagged_operands m) \<and> \<not> is_argument op}) (pointer_operands m)
      = filter (\<lambda>p. \<not> (p \<in> set (untagged_operands m) \<and> (\<forall>op. p = Some op \<longrightarrow> \<not> is_argument op))) (pointer_operands m)"
    using assms(1) by (intro filter_cong refl) (auto, metis option.exhaust)
  with remove_all_filter [OF assms(2,1)] show ?thesis
    by (simp add: GetNormalizedOperands_def Let_def)
qed

theorem GetNormalizedOperands_removes_witness:
  "GetNormalizedOperands
     \<lparr>pointer_operands = [Some (ConvertTo REGISTER 1), Some (ConvertTo REGISTER 2), Some (ConvertTo REGISTER 1)],
      untagged_operands = [Some (ConvertTo REGISTER 1)], lithium_position = 4\<rparr>
   = Some ([Some (ConvertTo REGISTER 2)],
      \<lparr>pointer_operands = [Some (ConvertTo REGISTER 2)], untagged_operands = [], lithium_position = 4\<rparr>)"
  using GetNormalizedOperands_removes [of "\<lparr>pointer_operands = [Some (ConvertTo REGISTER 1),
      Some (ConvertTo REGISTER 2), Some (ConvertTo REGISTER 1)],
      untagged_operands = [Some (ConvertTo REGISTER 1)], lithium_position = 4\<rparr>"]
  by (simp add: is_argument_def) (simp add: ConvertTo_def BitField_encode_def kKindFieldWidth_def Let_def)

end
