(* ===== verification/Unicode.thy ===== *)
theory Unicode
  imports Prelude
begin

text \<open>
  UTF-8 as V8 writes and reads it: \<^verbatim>\<open>Utf16\<close> and \<^verbatim>\<open>Utf8\<close> of \<^verbatim>\<open>src/unicode.h\<close> and
  \<^verbatim>\<open>src/unicode-inl.h\<close>, \<^verbatim>\<open>Utf8::CalculateValue\<close> of \<^verbatim>\<open>src/unicode.cc\<close>, the decoder of
  \<^verbatim>\<open>src/unicode-decoder.{h,cc}\<close>, \<^verbatim>\<open>String::ToCString\<close> of \<^verbatim>\<open>src/objects.cc\<close> and
  \<^verbatim>\<open>Factory::NewStringFromUtf8\<close> of \<^verbatim>\<open>src/factory.cc\<close>. A string is the list of its UTF-16 code
  units; a \<^verbatim>\<open>uchar\<close> is a 32-bit word and \<open>previous\<close> an \<^verbatim>\<open>int\<close> where -1 is no character. Reading a
  byte behind the stream is \<^const>\<open>None\<close>.

  The main result is that every string, lone surrogates included, survives the way through its
  UTF-8 form.
\<close>

type_synonym uchar = "32 word"
type_synonym uint16 = "16 word"

definition kNoPreviousCharacter :: int where
  "kNoPreviousCharacter = -1"

definition kMaxNonSurrogateCharCode :: uchar where
  "kMaxNonSurrogateCharCode = 0xffff"

definition IsLeadSurrogate :: "int \<Rightarrow> bool" where
  "IsLeadSurrogate code \<longleftrightarrow> code \<noteq> kNoPreviousCharacter \<and> code AND 0xfc00 = 0xd800"

definition IsTrailSurrogate :: "int \<Rightarrow> bool" where
  "IsTrailSurrogate code \<longleftrightarrow> code \<noteq> kNoPreviousCharacter \<and> code AND 0xfc00 = 0xdc00"

definition IsSurrogatePair :: "int \<Rightarrow> int \<Rightarrow> bool" where
  "IsSurrogatePair lead trail \<longleftrightarrow> IsLeadSurrogate lead \<and> IsTrailSurrogate trail"

definition CombineSurrogatePair :: "uchar \<Rightarrow> uchar \<Rightarrow> uchar" where
  "CombineSurrogatePair lead trail = 0x10000 + push_bit 10 (lead AND 0x3ff) + (trail AND 0x3ff)"

definition LeadSurrogate :: "uchar \<Rightarrow> uint16" where
  "LeadSurrogate code = ucast (0xd800 + (drop_bit 10 (code - 0x10000) AND 0x3ff))"

definition TrailSurrogate :: "uchar \<Rightarrow> uint16" where
  "TrailSurrogate code = ucast (0xdc00 + (code AND 0x3ff))"

definition kBadChar :: uchar where "kBadChar = 0xFFFD"
definition kMaxEncodedSize :: nat where "kMaxEncodedSize = 4"
definition kMaxOneByteChar :: uchar where "kMaxOneByteChar = 0x7f"
definition kMaxTwoByteChar :: uchar where "kMaxTwoByteChar = 0x7ff"
definition kMaxThreeByteChar :: uchar where "kMaxThreeByteChar = 0xffff"
definition kMaxFourByteChar :: uchar where "kMaxFourByteChar = 0x1fffff"
definition kSizeOfUnmatchedSurrogate :: nat where "kSizeOfUnmatchedSurrogate = 3"
definition kBytesSavedByCombiningSurrogates :: nat where "kBytesSavedByCombiningSurrogates = 2"

section \<open>Encoding\<close>

definition utf8_kMask :: "uchar" where
  "utf8_kMask = NOT (push_bit 6 1)"

text \<open>\<^verbatim>\<open>Encode\<close> appends to what has been written so far; for the second half of a surrogate pair it
  starts three bytes earlier, over the first half, and recurs on the combined character.\<close>

function Encode :: "byte list \<Rightarrow> uchar \<Rightarrow> int \<Rightarrow> bool \<Rightarrow> byte list" where
  "Encode str c previous replace_invalid =
     (if c \<le> kMaxOneByteChar then str @ [ucast c]
      else if c \<le> kMaxTwoByteChar then
        str @ [ucast (0xC0 OR drop_bit 6 c), ucast (0x80 OR (c AND utf8_kMask))]
      else if c \<le> kMaxThreeByteChar then
        (if IsSurrogatePair previous (sint c)
         then Encode (take (length str - kSizeOfUnmatchedSurrogate) str)
                (CombineSurrogatePair (word_of_int previous) c) kNoPreviousCharacter replace_invalid
         else let c = (if replace_invalid \<and> (IsLeadSurrogate (sint c) \<or> IsTrailSurrogate (sint c))
                       then kBadChar else c)
              in str @ [ucast (0xE0 OR drop_bit 12 c), ucast (0x80 OR (drop_bit 6 c AND utf8_kMask)),
                        ucast (0x80 OR (c AND utf8_kMask))])
      else str @ [ucast (0xF0 OR drop_bit 18 c), ucast (0x80 OR (drop_bit 12 c AND utf8_kMask)),
                  ucast (0x80 OR (drop_bit 6 c AND utf8_kMask)), ucast (0x80 OR (c AND utf8_kMask))])"
  by pat_completeness auto
termination
  by (relation "measure (\<lambda>(str, c, previous, r). if IsSurrogatePair previous (sint c) then 1 else 0)")
    (simp_all add: IsSurrogatePair_def IsLeadSurrogate_def kNoPreviousCharacter_def)

declare Encode.simps [simp del]

definition Length :: "uchar \<Rightarrow> int \<Rightarrow> nat" where
  "Length c previous =
     (if c \<le> kMaxOneByteChar then 1
      else if c \<le> kMaxTwoByteChar then 2
      else if c \<le> kMaxThreeByteChar then
        (if IsTrailSurrogate (sint c) \<and> IsLeadSurrogate previous
         then kSizeOfUnmatchedSurrogate - kBytesSavedByCombiningSurrogates else 3)
      else 4)"

text \<open>The two loops of \<^verbatim>\<open>ToCString\<close> with \<^verbatim>\<open>ALLOW_NULLS\<close>: the size of the buffer, and its contents.\<close>

fun utf8_length :: "uint16 list \<Rightarrow> int \<Rightarrow> nat" where
  "utf8_length [] previous = 0"
| "utf8_length (c # cs) previous = Length (ucast c) previous + utf8_length cs (uint c)"

fun utf8_encode :: "byte list \<Rightarrow> uint16 list \<Rightarrow> int \<Rightarrow> byte list" where
  "utf8_encode str [] previous = str"
| "utf8_encode str (c # cs) previous = utf8_encode (Encode str (ucast c) previous False) cs (uint c)"

text \<open>A negative length stands for the rest of the string.\<close>

definition ToCString :: "uint16 list \<Rightarrow> nat \<Rightarrow> int \<Rightarrow> byte list \<times> nat" where
  "ToCString units offset len =
     (let part = (if len < 0 then drop offset units else take (nat len) (drop offset units))
      in (utf8_encode [] part kNoPreviousCharacter, utf8_length part kNoPreviousCharacter))"

section \<open>Decoding\<close>

definition byte_at :: "byte list \<Rightarrow> nat \<Rightarrow> uchar option" where
  "byte_at str i = (if i < length str then Some (ucast (str ! i)) else None)"

definition continuation :: "byte list \<Rightarrow> nat \<Rightarrow> uchar option" where
  "continuation str i = map_option (\<lambda>b. b XOR 0x80) (byte_at str i)"

text \<open>The value and how far the cursor moves. The bytes \<^verbatim>\<open>second\<close>, \<^verbatim>\<open>third\<close> and \<^verbatim>\<open>fourth\<close> are read
  when the code reads them.\<close>

definition CalculateValue :: "byte list \<Rightarrow> nat \<Rightarrow> (uchar \<times> nat) option" where
  "CalculateValue str len =
     (if len = 1 then Some (kBadChar, 1) else do {
        first \<leftarrow> byte_at str 0;
        second \<leftarrow> continuation str 1;
        if second AND 0xC0 \<noteq> 0 then Some (kBadChar, 1)
        else if first < 0xE0 then
          (if first < 0xC0 then Some (kBadChar, 1)
           else let code_point = (push_bit 6 first OR second) AND kMaxTwoByteChar
                in if code_point \<le> kMaxOneByteChar then Some (kBadChar, 1) else Some (code_point, 2))
        else if len = 2 then Some (kBadChar, 1)
        else do {
          third \<leftarrow> continuation str 2;
          if third AND 0xC0 \<noteq> 0 then Some (kBadChar, 1)
          else if first < 0xF0 then
            (let code_point = (push_bit 6 (push_bit 6 first OR second) OR third) AND kMaxThreeByteChar
             in if code_point \<le> kMaxTwoByteChar then Some (kBadChar, 1) else Some (code_point, 3))
          else if len = 3 then Some (kBadChar, 1)
          else do {
            fourth \<leftarrow> continuation str 3;
            if fourth AND 0xC0 \<noteq> 0 then Some (kBadChar, 1)
            else if first < 0xF8 then
              (let code_point = (push_bit 6 (push_bit 6 (push_bit 6 first OR second) OR third) OR fourth)
                                  AND kMaxFourByteChar
               in if code_point \<le> kMaxThreeByteChar then Some (kBadChar, 1) else Some (code_point, 4))
            else Some (kBadChar, 1)
          }
        }
      })"

definition ValueOf :: "byte list \<Rightarrow> nat \<Rightarrow> (uchar \<times> nat) option" where
  "ValueOf str len =
     (if len = 0 then Some (kBadChar, 0) else do {
        first \<leftarrow> byte_at str 0;
        if first \<le> kMaxOneByteChar then Some (first, 1) else CalculateValue str len
      })"

definition units_of :: "uchar \<Rightarrow> uint16 list" where
  "units_of c =
     (if c > kMaxNonSurrogateCharCode then [LeadSurrogate c, TrailSurrogate c] else [ucast c])"

record Utf8Decoder =
  buffer :: "uint16 list"
  unbuffered_start :: "byte list option"
  utf16_length :: nat
  last_byte_of_buffer_unused :: bool

text \<open>The loop of \<^verbatim>\<open>Reset\<close>, over the rest of the stream. A cursor that does not move would be an
  endless loop.\<close>

function reset_loop :: "nat \<Rightarrow> byte list \<Rightarrow> bool \<Rightarrow> Utf8Decoder \<Rightarrow> Utf8Decoder option" where
  "reset_loop buffer_length stream writing d =
     (if stream = [] then Some d
      else case ValueOf stream (length stream) of
        None \<Rightarrow> None
      | Some (character, cursor) \<Rightarrow>
          let rest = drop cursor stream;
              d = d\<lparr>utf16_length := utf16_length d + length (units_of character)\<rparr>
          in if cursor = 0 then None
             else if \<not> writing then reset_loop buffer_length rest False d
             else if utf16_length d \<le> buffer_length then
               let d = d\<lparr>buffer := buffer d @ units_of character\<rparr>
               in if utf16_length d = buffer_length
                  then reset_loop buffer_length rest False (d\<lparr>unbuffered_start := Some rest\<rparr>)
                  else reset_loop buffer_length rest True d
             else reset_loop buffer_length rest False
                    (d\<lparr>last_byte_of_buffer_unused := True, unbuffered_start := Some stream\<rparr>))"
  by pat_completeness auto
termination
  by (relation "measure (\<lambda>(b, stream, w, d). length stream)") auto

declare reset_loop.simps [simp del]

definition Utf8Decoder_Reset :: "nat \<Rightarrow> byte list \<Rightarrow> Utf8Decoder option" where
  "Utf8Decoder_Reset buffer_length stream =
     reset_loop buffer_length stream True
       \<lparr>buffer = [], unbuffered_start = None, utf16_length = 0, last_byte_of_buffer_unused = False\<rparr>"

text \<open>The slow way reads up to four bytes for each character without looking for the end of the
  stream. The length is unsigned: a character of two units where one is left wraps it around, after
  which the loop writes out of bounds.\<close>

function WriteUtf16Slow :: "byte list \<Rightarrow> nat \<Rightarrow> uint16 list option" where
  "WriteUtf16Slow stream data_length =
     (if data_length = 0 then Some []
      else case ValueOf stream kMaxEncodedSize of
        None \<Rightarrow> None
      | Some (character, cursor) \<Rightarrow>
          let us = units_of character
          in if length us \<le> data_length
             then map_option (\<lambda>rest. us @ rest)
                    (WriteUtf16Slow (drop cursor stream) (data_length - length us))
             else None)"
  by pat_completeness auto
termination
  by (relation "measure (\<lambda>(s, n). n)") (auto simp: units_of_def split: if_splits)

declare WriteUtf16Slow.simps [simp del]

definition WriteUtf16 :: "nat \<Rightarrow> nat \<Rightarrow> Utf8Decoder \<Rightarrow> uint16 list option" where
  "WriteUtf16 kBufferSize len d =
     (let len = min len (utf16_length d);
          buffer_length = (if last_byte_of_buffer_unused d then kBufferSize - 1 else kBufferSize);
          fast = take (min len buffer_length) (buffer d)
      in if len \<le> buffer_length then Some fast
         else case unbuffered_start d of
           None \<Rightarrow> None
         | Some stream \<Rightarrow> map_option (\<lambda>slow. fast @ slow) (WriteUtf16Slow stream (len - buffer_length)))"

definition kUtf8BufferSize :: nat where
  "kUtf8BufferSize = 512"

text \<open>\<^verbatim>\<open>NewStringFromUtf8\<close>: the ASCII start of the string is copied, the rest is decoded. The code
  finds the start by whole words, which may stop earlier, at the word with the first other byte;
  what is copied there is decoded to the same here.\<close>

definition NonAsciiStart :: "byte list \<Rightarrow> nat" where
  "NonAsciiStart chars = length (takeWhile (\<lambda>c. c \<le> 0x7F) chars)"

definition NewStringFromUtf8 :: "byte list \<Rightarrow> uint16 list option" where
  "NewStringFromUtf8 string =
     (let non_ascii_start = NonAsciiStart string
      in if non_ascii_start \<ge> length string then Some (map ucast string)
         else do {
           decoder \<leftarrow> Utf8Decoder_Reset kUtf8BufferSize (drop non_ascii_start string);
           rest \<leftarrow> WriteUtf16 kUtf8BufferSize (utf16_length decoder) decoder;
           Some (map ucast (take non_ascii_start string) @ rest)
         })"


section \<open>Code points\<close>

definition is_pair :: "uint16 \<Rightarrow> uint16 \<Rightarrow> bool" where
  "is_pair c d \<longleftrightarrow> IsSurrogatePair (uint c) (uint d)"

fun code_points :: "uint16 list \<Rightarrow> uchar list" where
  "code_points [] = []"
| "code_points [c] = [ucast c]"
| "code_points (c # d # cs) =
     (if is_pair c d then CombineSurrogatePair (ucast c) (ucast d) # code_points cs
      else ucast c # code_points (d # cs))"

definition enc :: "uchar \<Rightarrow> byte list" where
  "enc c = Encode [] c kNoPreviousCharacter False"

lemma sint_ucast16 [simp]: "sint (ucast (c :: uint16) :: 32 word) = uint c"
proof -
  have c: "0 \<le> uint c" "uint c < 2 ^ 16" using uint_lt2p [of c] by simp_all
  then have "uint (ucast c :: 32 word) = uint c"
    by (simp add: unsigned_ucast_eq take_bit_int_eq_self)
  moreover have "signed_take_bit 31 (uint c) = uint c"
    by (rule signed_take_bit_int_eq_self) (rule order_trans [OF _ c(1)], use c(2) in simp_all)
  ultimately show ?thesis by (simp add: sint_uint)
qed

lemma no_pair_none [simp]: "\<not> IsSurrogatePair kNoPreviousCharacter c"
  by (simp add: IsSurrogatePair_def IsLeadSurrogate_def)

lemma Encode_append:
  "\<not> IsSurrogatePair previous (sint c) \<Longrightarrow> Encode str c previous False = str @ enc c"
  unfolding enc_def by (simp add: Encode.simps [of _ c])

lemma ucast16_le: "ucast (c :: uint16) \<le> (0xffff :: 32 word)"
proof -
  have "unat c < 2 ^ LENGTH(16)" by (rule unsigned_less)
  then show ?thesis
    by (simp add: word_le_nat_alt unsigned_ucast_eq take_bit_nat_eq_self)
qed

text \<open>A surrogate of either kind is its tag with ten bits of its own.\<close>

lemma surrogate_bits:
  fixes c :: uint16
  assumes "uint c AND 0xfc00 = tag"
  shows "c AND 0xfc00 = word_of_int tag"
proof -
  have "word_of_int (uint c AND 0xfc00) = (c AND word_of_int 0xfc00 :: uint16)"
    by (simp add: of_int_and_eq)
  with assms show ?thesis by simp
qed

lemma tag_split: "(c :: uint16) = (c AND 0xfc00) OR (c AND 0x3ff)"
proof -
  have "(c AND 0xfc00) OR (c AND 0x3ff) = c AND (0xfc00 OR 0x3ff)"
    by (simp only: bit.conj_disj_distrib)
  also have "0xfc00 OR 0x3ff = (- 1 :: uint16)" by simp
  finally show ?thesis by simp
qed

lemma lead_split: "IsLeadSurrogate (uint (c :: uint16)) \<Longrightarrow> c = 0xd800 OR (c AND 0x3ff)"
  using surrogate_bits [where c = c and tag = "0xd800"] tag_split [where c = c] by (simp add: IsLeadSurrogate_def)

lemma trail_split: "IsTrailSurrogate (uint (c :: uint16)) \<Longrightarrow> c = 0xdc00 OR (c AND 0x3ff)"
  using surrogate_bits [where c = c and tag = "0xdc00"] tag_split [where c = c] by (simp add: IsTrailSurrogate_def)

lemma and_3ff: "w AND 0x3ff = take_bit 10 (w :: 'a::len word)"
  by (simp add: take_bit_eq_mask mask_numeral)

lemma plus_or: "take_bit n y = y \<Longrightarrow> push_bit n x + y = push_bit n x OR (y :: 'a::len word)"
  by (rule disjunctive_add) (metis bit_push_bit_iff bit_take_bit_iff linorder_not_less)

lemma units_of_pair:
  assumes "is_pair c d"
  shows "units_of (CombineSurrogatePair (ucast c) (ucast d)) = [c, d]"
proof -
  let ?c = "take_bit 10 (ucast c) :: 32 word" and ?d = "take_bit 10 (ucast d) :: 32 word"
  let ?low = "push_bit 10 ?c OR ?d"
  let ?cp = "CombineSurrogatePair (ucast c) (ucast d)"
  have sum: "push_bit 10 ?c + ?d = ?low" by (rule plus_or) simp
  have cp: "?cp = 0x10000 + ?low"
    by (simp add: CombineSurrogatePair_def and_3ff sum [symmetric] add.assoc)
  have "take_bit 20 ?low = ?low" by (rule bit_word_eqI) (auto simp: bit_simps)
  then have "unat (take_bit 20 ?low) = unat ?low" by (rule arg_cong)
  then have "take_bit 20 (unat ?low) = unat ?low" by (simp only: unsigned_take_bit_eq)
  with take_bit_nat_less_exp [of 20 "unat ?low"] have lt: "unat ?low < 2 ^ 20" by (simp only:)
  then have big: "kMaxNonSurrogateCharCode < ?cp"
    unfolding cp kMaxNonSurrogateCharCode_def word_less_nat_alt
    by (subst unat_add_lem [THEN iffD1]) simp_all
  have "drop_bit 10 ?low AND 0x3ff = ?c"
    unfolding and_3ff by (rule bit_word_eqI) (auto simp: bit_simps)
  then have lead: "LeadSurrogate ?cp = ucast (0xd800 + ?c)" by (simp add: LeadSurrogate_def cp)
  have "(0x10000 + ?low) AND 0x3ff = ?d"
  proof -
    have "0x10000 + ?low = 0x10000 + (push_bit 10 ?c + ?d)" by (simp only: sum)
    also have "\<dots> = push_bit 10 (0x40 + ?c) + ?d" by (simp add: push_bit_eq_mult algebra_simps)
    also have "\<dots> = push_bit 10 (0x40 + ?c) OR ?d" by (rule plus_or) simp
    finally show ?thesis unfolding and_3ff by (intro bit_word_eqI) (auto simp: bit_simps)
  qed
  then have trail: "TrailSurrogate ?cp = ucast (0xdc00 + ?d)" by (simp add: TrailSurrogate_def cp)
  have tag: "ucast (tag + take_bit 10 (ucast e) :: 32 word) = ((ucast tag :: uint16) OR (e AND 0x3ff))"
    if "tag = push_bit 10 t" "take_bit 6 t = t" for tag t :: "32 word" and e :: uint16
    unfolding that(1) and_3ff using plus_or [of 10 "take_bit 10 (ucast e)" t]
    by (simp, intro bit_word_eqI) (auto simp: bit_simps)
  have "ucast (0xd800 + ?c) = c" "ucast (0xdc00 + ?d) = d"
    using assms tag [of "0xd800" "0x36" c] tag [of "0xdc00" "0x37" d] lead_split [of c] trail_split [of d]
    by (simp_all add: is_pair_def IsSurrogatePair_def)
  with big lead trail show ?thesis by (simp add: units_of_def)
qed

lemma units_of_single [simp]: "units_of (ucast (c :: uint16)) = [c]"
proof -
  have "ucast (ucast c :: 32 word) = c" by (rule bit_word_eqI) (simp add: bit_simps)
  then show ?thesis
    using ucast16_le [of c] by (simp add: units_of_def kMaxNonSurrogateCharCode_def not_less)
qed

lemma units_of_code_points: "concat (map units_of (code_points us)) = us"
  by (induction us rule: code_points.induct) (simp_all add: units_of_pair)


section \<open>The encoder writes the code points\<close>

lemma trail_not_lead: "IsTrailSurrogate c \<Longrightarrow> \<not> IsLeadSurrogate c"
  by (simp add: IsTrailSurrogate_def IsLeadSurrogate_def)

lemma surrogate_range:
  assumes "uint (c :: uint16) AND 0xfc00 = tag" "0xd800 \<le> tag"
  shows "kMaxTwoByteChar < (ucast c :: 32 word)"
proof -
  have "0xd800 \<le> uint c"
    using assms and_nonnegative_int_iff [of "uint c" "0xfc00"] AND_upper2 [of "0xfc00" "uint c"]
      AND_upper1 [of "uint c" "0xfc00"] by simp
  then have "nat 0xd800 \<le> nat (uint c)" by (rule nat_mono)
  then have "0xd800 \<le> unat c" by simp
  then show ?thesis
    using unsigned_less [of c, where ?'a = nat]
    by (simp add: kMaxTwoByteChar_def word_less_nat_alt unsigned_ucast_eq take_bit_nat_eq_self)
qed

lemma length_enc:
  "length (enc c) = (if c \<le> kMaxOneByteChar then 1 else if c \<le> kMaxTwoByteChar then 2
                     else if c \<le> kMaxThreeByteChar then 3 else 4)"
  by (simp add: enc_def Encode.simps [of "[]"] Let_def)

lemma char_limits:
  "kMaxOneByteChar < kMaxTwoByteChar" "kMaxTwoByteChar < kMaxThreeByteChar"
  "kMaxThreeByteChar < kMaxFourByteChar" "kMaxThreeByteChar = kMaxNonSurrogateCharCode"
  by (simp_all add: kMaxOneByteChar_def kMaxTwoByteChar_def kMaxThreeByteChar_def
      kMaxFourByteChar_def kMaxNonSurrogateCharCode_def)

lemma enc_surrogate:
  assumes "IsLeadSurrogate (uint c) \<or> IsTrailSurrogate (uint c)"
  shows "length (enc (ucast (c :: uint16))) = 3"
proof -
  have "kMaxTwoByteChar < (ucast c :: 32 word)"
    using assms surrogate_range [of c "0xd800"] surrogate_range [of c "0xdc00"]
    by (auto simp: IsLeadSurrogate_def IsTrailSurrogate_def)
  then show ?thesis
    using ucast16_le [of c] char_limits by (auto simp: length_enc kMaxThreeByteChar_def [symmetric])
qed

lemma Encode_pair:
  assumes "is_pair c d"
  shows "Encode (str @ enc (ucast c)) (ucast d) (uint c) False
    = str @ enc (CombineSurrogatePair (ucast c) (ucast d))"
proof -
  from assms have lead: "IsLeadSurrogate (uint c)" and trail: "IsTrailSurrogate (uint d)"
    by (simp_all add: is_pair_def IsSurrogatePair_def)
  have d: "kMaxTwoByteChar < (ucast d :: 32 word)" "(ucast d :: 32 word) \<le> kMaxThreeByteChar"
    using surrogate_range [of d "0xdc00"] trail ucast16_le [of d]
    by (auto simp: IsTrailSurrogate_def kMaxThreeByteChar_def)
  then have "\<not> (ucast d :: 32 word) \<le> kMaxOneByteChar" "\<not> (ucast d :: 32 word) \<le> kMaxTwoByteChar"
    by (auto simp: kMaxOneByteChar_def kMaxTwoByteChar_def not_le intro: less_trans [rotated])
  moreover have "take (length (str @ enc (ucast c)) - kSizeOfUnmatchedSurrogate) (str @ enc (ucast c)) = str"
    using enc_surrogate [of c] lead by (simp add: kSizeOfUnmatchedSurrogate_def)
  moreover have "word_of_int (uint c) = (ucast c :: 32 word)" by simp
  ultimately show ?thesis
    using d(2) assms Encode_append [of kNoPreviousCharacter "CombineSurrogatePair (ucast c) (ucast d)" str]
    by (subst Encode.simps) (simp only: is_pair_def sint_ucast16 if_True if_False no_pair_none not_False_eq_True)
qed

lemma utf8_encode_code_points:
  "\<not> IsSurrogatePair previous (case us of [] \<Rightarrow> 0 | c # _ \<Rightarrow> uint c) \<Longrightarrow>
   utf8_encode str us previous = str @ concat (map enc (code_points us))"
proof (induction us arbitrary: str previous rule: code_points.induct)
  case (3 c d cs)
  have first: "Encode str (ucast c) previous False = str @ enc (ucast c)"
    using 3(3) by (intro Encode_append) simp
  show ?case
  proof (cases "is_pair c d")
    case True
    then have "\<not> IsSurrogatePair (uint d) e" for e
      using trail_not_lead by (auto simp: is_pair_def IsSurrogatePair_def)
    with 3(1) [OF True] True show ?thesis by (simp add: first Encode_pair)
  next
    case False
    with 3(2) [OF False, of "uint c"] show ?thesis by (simp add: first is_pair_def)
  qed
qed (simp_all add: Encode_append)

text \<open>The size which the first loop computes is the number of bytes which the second one writes.\<close>

lemma Length_enc:
  assumes "\<not> IsSurrogatePair previous (uint c)"
  shows "Length (ucast (c :: uint16)) previous = length (enc (ucast c))"
  using ucast16_le [of c] assms unfolding Length_def length_enc sint_ucast16
  by (auto simp: IsSurrogatePair_def kMaxThreeByteChar_def)

lemma length_enc_pair:
  assumes "is_pair c d"
  shows "length (enc (CombineSurrogatePair (ucast c) (ucast d))) = 3 + Length (ucast d) (uint c)"
    and "length (enc (ucast c)) = 3"
proof -
  have "units_of (CombineSurrogatePair (ucast c) (ucast d)) = [c, d]" by (rule units_of_pair [OF assms])
  then have "kMaxThreeByteChar < CombineSurrogatePair (ucast c) (ucast d)"
    by (simp add: units_of_def char_limits split: if_splits)
  then have "length (enc (CombineSurrogatePair (ucast c) (ucast d))) = 4"
    using char_limits by (auto simp: length_enc)
  moreover from assms have s: "IsLeadSurrogate (uint c)" "IsTrailSurrogate (uint d)"
    by (simp_all add: is_pair_def IsSurrogatePair_def)
  then have "kMaxTwoByteChar < (ucast d :: 32 word)" "(ucast d :: 32 word) \<le> kMaxThreeByteChar"
    using surrogate_range [of d "0xdc00"] ucast16_le [of d]
    by (auto simp: IsTrailSurrogate_def kMaxThreeByteChar_def)
  then have "Length (ucast d) (uint c) = 1"
    using s char_limits
    by (auto simp: Length_def kSizeOfUnmatchedSurrogate_def kBytesSavedByCombiningSurrogates_def)
  ultimately show "length (enc (CombineSurrogatePair (ucast c) (ucast d))) = 3 + Length (ucast d) (uint c)"
    by simp
  show "length (enc (ucast c)) = 3" using enc_surrogate s by blast
qed

lemma utf8_length_code_points:
  "\<not> IsSurrogatePair previous (case us of [] \<Rightarrow> 0 | c # _ \<Rightarrow> uint c) \<Longrightarrow>
   utf8_length us previous = length (concat (map enc (code_points us)))"
proof (induction us arbitrary: previous rule: code_points.induct)
  case (3 c d cs)
  have first: "Length (ucast c) previous = length (enc (ucast c))"
    using 3(3) by (intro Length_enc) simp
  show ?case
  proof (cases "is_pair c d")
    case True
    then have "\<not> IsSurrogatePair (uint d) e" for e
      using trail_not_lead by (auto simp: is_pair_def IsSurrogatePair_def)
    with 3(1) [OF True] True show ?thesis by (simp add: first length_enc_pair)
  next
    case False
    with 3(2) [OF False, of "uint c"] show ?thesis by (simp add: first is_pair_def)
  qed
qed (simp_all add: Length_enc)

section \<open>The decoder reads the code points\<close>

lemma ucast_byte: "ucast (ucast (w :: 32 word) :: byte) = take_bit 8 w"
  by (rule bit_word_eqI) (auto simp: bit_simps)

lemma bit_mask7: "bit (0x80 :: 32 word) n \<longleftrightarrow> n = 7"
proof -
  have "(0x80 :: 32 word) = push_bit 7 1" by simp
  then show ?thesis by (simp only: bit_push_bit_iff bit_1_iff) auto
qed

lemma bit_kMask: "bit utf8_kMask n \<longleftrightarrow> n < 32 \<and> n \<noteq> 6"
  unfolding utf8_kMask_def by (simp only: bit_not_iff bit_push_bit_iff bit_1_iff) auto

lemma continuation_byte: "ucast (ucast (0x80 OR (w AND utf8_kMask)) :: byte) XOR 0x80 = take_bit 6 (w :: 32 word)"
  unfolding ucast_byte
  by (rule bit_word_eqI)
    (simp only: bit_xor_iff bit_take_bit_iff bit_or_iff bit_and_iff bit_mask7 bit_kMask, auto)

lemma six_bits_C0: "take_bit 6 w AND 0xC0 = (0 :: 32 word)"
proof -
  have "take_bit 6 w AND push_bit 6 3 = (0 :: 32 word)"
    by (rule bit_word_eqI) (simp only: bit_and_iff bit_take_bit_iff bit_push_bit_iff bit_0_eq, auto)
  then show ?thesis by simp
qed

text \<open>The first byte of a sequence: its tag above the bits of the character.\<close>

lemma first_byte:
  fixes x t :: "32 word"
  assumes "take_bit n x = x" "take_bit (8 - n) t = t" "n \<le> 8"
  shows "ucast (ucast (push_bit n t OR x) :: byte) = push_bit n t OR x"
    and "unat (push_bit n t OR x) = unat t * 2 ^ n + unat x" and "unat x < 2 ^ n"
proof -
  have bits: "bit x m \<Longrightarrow> m < n" "bit t m \<Longrightarrow> m < 8 - n" for m
    using assms(1,2) by (metis bit_take_bit_iff)+
  show "ucast (ucast (push_bit n t OR x) :: byte) = push_bit n t OR x"
    unfolding ucast_byte using bits(1) bits(2) assms(3)
    by (intro bit_word_eqI) (fastforce simp: bit_simps)
  have "unat (take_bit n x) = unat x" "unat (take_bit (8 - n) t) = unat t"
    using assms(1,2) by simp_all
  then have lt: "take_bit n (unat x) = unat x" "take_bit (8 - n) (unat t) = unat t"
    by (simp_all only: unsigned_take_bit_eq)
  with take_bit_nat_less_exp [of n "unat x"] show x: "unat x < 2 ^ n" by simp
  have t: "unat t < 2 ^ (8 - n)" using take_bit_nat_less_exp [of "8 - n" "unat t"] lt by simp
  have "(unat t + 1) * 2 ^ n \<le> 2 ^ (8 - n) * 2 ^ n" using t by (intro mult_le_mono1) simp
  then have "unat t * 2 ^ n + unat x < 2 ^ 8"
    using x assms(3) by (simp add: power_add [symmetric])
  moreover have "push_bit n t OR x = push_bit n t + x" by (rule plus_or [OF assms(1), symmetric])
  ultimately show "unat (push_bit n t OR x) = unat t * 2 ^ n + unat x"
    by (simp add: unat_word_ariths unsigned_push_bit_eq take_bit_nat_eq_self push_bit_eq_mult [where 'a = nat])
qed


lemma take_bit_self: "unat c < 2 ^ n \<Longrightarrow> take_bit n c = (c :: 32 word)"
  by (simp add: word_unat_eq_iff unsigned_take_bit_eq take_bit_nat_eq_self)

lemma limit_bits:
  "c \<le> kMaxOneByteChar \<Longrightarrow> take_bit 7 c = c"
  "c \<le> kMaxTwoByteChar \<Longrightarrow> take_bit 11 c = c"
  "c \<le> kMaxThreeByteChar \<Longrightarrow> take_bit 16 c = c"
  "c \<le> kMaxFourByteChar \<Longrightarrow> take_bit 21 c = c"
  by (rule take_bit_self, simp add: word_le_nat_alt kMaxOneByteChar_def kMaxTwoByteChar_def
      kMaxThreeByteChar_def kMaxFourByteChar_def)+

lemma take_bit_drop_self: "take_bit (m + n) c = c \<Longrightarrow> take_bit m (drop_bit n c) = drop_bit n (c :: 32 word)"
  by (metis drop_bit_take_bit add_diff_cancel_right')

lemma take_bit_mono_self: "take_bit m c = c \<Longrightarrow> m \<le> n \<Longrightarrow> take_bit n c = (c :: 32 word)"
  by (metis min.absorb2 take_bit_take_bit)

lemma and_limits:
  "w AND kMaxTwoByteChar = take_bit 11 w" "w AND kMaxThreeByteChar = take_bit 16 w"
  "w AND kMaxFourByteChar = take_bit 21 w"
  by (simp_all add: take_bit_eq_mask mask_numeral kMaxTwoByteChar_def kMaxThreeByteChar_def
      kMaxFourByteChar_def)

lemma ValueOf_one:
  assumes "c \<le> kMaxOneByteChar" "0 < len"
  shows "ValueOf (enc c @ rest) len = Some (c, 1)"
proof -
  have "take_bit 8 c = c" using take_bit_mono_self [OF limit_bits(1) [OF assms(1)]] by simp
  with assms show ?thesis
    by (simp add: enc_def Encode.simps [of "[]"] ValueOf_def byte_at_def ucast_byte)
qed

lemma ValueOf_two:
  assumes "kMaxOneByteChar < c" "c \<le> kMaxTwoByteChar" "2 \<le> len"
  shows "ValueOf (enc c @ rest) len = Some (c, 2)"
proof -
  let ?x = "drop_bit 6 c"
  have c: "take_bit 11 c = c" by (rule limit_bits(2) [OF assms(2)])
  have x: "take_bit 5 ?x = ?x" using take_bit_drop_self [of 5 6 c] c by simp
  have tag: "push_bit 5 6 = (0xC0 :: 32 word)" by simp
  note first = first_byte [of 5 ?x 6, OF x, unfolded tag]
  have range: "\<not> 0xC0 OR ?x \<le> kMaxOneByteChar" "0xC0 OR ?x < 0xE0" "\<not> 0xC0 OR ?x < 0xC0"
    using first(2,3) by (simp_all add: kMaxOneByteChar_def word_le_nat_alt word_less_nat_alt)
  have "(push_bit 6 (push_bit 5 6 OR ?x) OR take_bit 6 c) AND kMaxTwoByteChar = take_bit 11 c"
    unfolding and_limits
    by (rule bit_word_eqI)
      (simp only: bit_take_bit_iff bit_or_iff bit_push_bit_iff bit_drop_bit_eq o_def, auto)
  then have code_point: "(push_bit 6 (0xC0 OR ?x) OR take_bit 6 c) AND kMaxTwoByteChar = c"
    using c tag by simp
  have "enc c = [ucast (0xC0 OR ?x), ucast (0x80 OR (c AND utf8_kMask))]"
    using assms by (simp add: enc_def Encode.simps [of "[]"])
  with assms first(1) range code_point show ?thesis
    by (simp add: ValueOf_def CalculateValue_def byte_at_def continuation_def continuation_byte
        six_bits_C0 Let_def)
qed

lemma ValueOf_three:
  assumes "kMaxTwoByteChar < c" "c \<le> kMaxThreeByteChar" "3 \<le> len"
  shows "ValueOf (enc c @ rest) len = Some (c, 3)"
proof -
  let ?x = "drop_bit 12 c"
  have c: "take_bit 16 c = c" by (rule limit_bits(3) [OF assms(2)])
  have x: "take_bit 4 ?x = ?x" using take_bit_drop_self [of 4 12 c] c by simp
  have tag: "push_bit 4 14 = (0xE0 :: 32 word)" by simp
  note first = first_byte [of 4 ?x 14, OF x, unfolded tag]
  have range: "\<not> 0xE0 OR ?x \<le> kMaxOneByteChar" "\<not> 0xE0 OR ?x < 0xE0" "0xE0 OR ?x < 0xF0"
    using first(2,3) by (simp_all add: kMaxOneByteChar_def word_le_nat_alt word_less_nat_alt)
  have "(push_bit 6 (push_bit 6 (push_bit 4 14 OR ?x) OR take_bit 6 (drop_bit 6 c)) OR take_bit 6 c)
      AND kMaxThreeByteChar = take_bit 16 c"
    unfolding and_limits
    by (rule bit_word_eqI)
      (simp only: bit_take_bit_iff bit_or_iff bit_push_bit_iff bit_drop_bit_eq o_def, auto)
  then have code_point: "(push_bit 6 (push_bit 6 (0xE0 OR ?x) OR take_bit 6 (drop_bit 6 c)) OR take_bit 6 c)
      AND kMaxThreeByteChar = c"
    using c tag by simp
  have "\<not> c \<le> kMaxOneByteChar" using assms(1) char_limits(1) by auto
  then have "enc c = [ucast (0xE0 OR ?x), ucast (0x80 OR (drop_bit 6 c AND utf8_kMask)),
      ucast (0x80 OR (c AND utf8_kMask))]"
    using assms by (simp add: enc_def Encode.simps [of "[]"] Let_def)
  with assms first(1) range code_point show ?thesis
    by (simp add: ValueOf_def CalculateValue_def byte_at_def continuation_def continuation_byte
        six_bits_C0 Let_def)
qed

lemma ValueOf_four:
  assumes "kMaxThreeByteChar < c" "c \<le> kMaxFourByteChar" "4 \<le> len"
  shows "ValueOf (enc c @ rest) len = Some (c, 4)"
proof -
  let ?x = "drop_bit 18 c"
  have c: "take_bit 21 c = c" by (rule limit_bits(4) [OF assms(2)])
  have x: "take_bit 3 ?x = ?x" using take_bit_drop_self [of 3 18 c] c by simp
  have tag: "push_bit 3 30 = (0xF0 :: 32 word)" by simp
  note first = first_byte [of 3 ?x 30, OF x, unfolded tag]
  have range: "\<not> 0xF0 OR ?x \<le> kMaxOneByteChar" "\<not> 0xF0 OR ?x < 0xE0" "\<not> 0xF0 OR ?x < 0xF0"
    "0xF0 OR ?x < 0xF8"
    using first(2,3) by (simp_all add: kMaxOneByteChar_def word_le_nat_alt word_less_nat_alt)
  have "(push_bit 6 (push_bit 6 (push_bit 6 (push_bit 3 30 OR ?x) OR take_bit 6 (drop_bit 12 c))
        OR take_bit 6 (drop_bit 6 c)) OR take_bit 6 c) AND kMaxFourByteChar = take_bit 21 c"
    unfolding and_limits
    by (rule bit_word_eqI)
      (simp only: bit_take_bit_iff bit_or_iff bit_push_bit_iff bit_drop_bit_eq o_def, auto)
  then have code_point: "(push_bit 6 (push_bit 6 (push_bit 6 (0xF0 OR ?x) OR take_bit 6 (drop_bit 12 c))
        OR take_bit 6 (drop_bit 6 c)) OR take_bit 6 c) AND kMaxFourByteChar = c"
    using c tag by simp
  have "\<not> c \<le> kMaxOneByteChar" "\<not> c \<le> kMaxTwoByteChar" using assms(1) char_limits(1,2) by auto
  then have "enc c = [ucast (0xF0 OR ?x), ucast (0x80 OR (drop_bit 12 c AND utf8_kMask)),
      ucast (0x80 OR (drop_bit 6 c AND utf8_kMask)), ucast (0x80 OR (c AND utf8_kMask))]"
    using assms by (simp add: enc_def Encode.simps [of "[]"] Let_def)
  with assms first(1) range code_point show ?thesis
    by (simp add: ValueOf_def CalculateValue_def byte_at_def continuation_def continuation_byte
        six_bits_C0 Let_def)
qed

lemma ValueOf_enc:
  assumes "c \<le> kMaxFourByteChar" "length (enc c) \<le> len"
  shows "ValueOf (enc c @ rest) len = Some (c, length (enc c))"
proof -
  consider "c \<le> kMaxOneByteChar" | "kMaxOneByteChar < c" "c \<le> kMaxTwoByteChar"
    | "kMaxTwoByteChar < c" "c \<le> kMaxThreeByteChar" | "kMaxThreeByteChar < c"
    by (meson not_le)
  then show ?thesis
  proof cases
    case 1
    with assms(2) show ?thesis by (simp add: length_enc ValueOf_one)
  next
    case 2
    then have "\<not> c \<le> kMaxOneByteChar" by auto
    with assms(2) 2 show ?thesis by (simp add: length_enc ValueOf_two)
  next
    case 3
    then have "\<not> c \<le> kMaxTwoByteChar" "\<not> c \<le> kMaxOneByteChar" using char_limits(1) by auto
    with assms(2) 3 show ?thesis by (simp add: length_enc ValueOf_three)
  next
    case 4
    then have "\<not> c \<le> kMaxThreeByteChar" "\<not> c \<le> kMaxTwoByteChar" "\<not> c \<le> kMaxOneByteChar"
      using char_limits(1,2) by auto
    with assms 4 show ?thesis by (simp add: length_enc ValueOf_four)
  qed
qed


section \<open>The buffered decoder\<close>

abbreviation encs :: "uchar list \<Rightarrow> byte list" where
  "encs cs \<equiv> concat (map enc cs)"

abbreviation units :: "uchar list \<Rightarrow> uint16 list" where
  "units cs \<equiv> concat (map units_of cs)"

definition small_chars :: "uchar list \<Rightarrow> bool" where
  "small_chars cs \<longleftrightarrow> list_all (\<lambda>c. c \<le> kMaxFourByteChar) cs"

lemma small_chars_simps [simp]:
  "small_chars []"
  "small_chars (c # cs) \<longleftrightarrow> c \<le> kMaxFourByteChar \<and> small_chars cs"
  "small_chars (cs @ ds) \<longleftrightarrow> small_chars cs \<and> small_chars ds"
  by (simp_all add: small_chars_def)

lemma enc_nonempty [simp]: "enc c \<noteq> []"
  using length_enc [of c] by (auto split: if_splits)

lemma units_of_length: "0 < length (units_of c)" "length (units_of c) \<le> 2"
  by (simp_all add: units_of_def)

lemma reset_loop_step:
  assumes "c \<le> kMaxFourByteChar"
  shows "reset_loop b (enc c @ rest) w d =
    (let d = d\<lparr>utf16_length := utf16_length d + length (units_of c)\<rparr>
     in if \<not> w then reset_loop b rest False d
        else if utf16_length d \<le> b then
          let d = d\<lparr>buffer := buffer d @ units_of c\<rparr>
          in if utf16_length d = b
             then reset_loop b rest False (d\<lparr>unbuffered_start := Some rest\<rparr>)
             else reset_loop b rest True d
        else reset_loop b rest False
               (d\<lparr>last_byte_of_buffer_unused := True, unbuffered_start := Some (enc c @ rest)\<rparr>))"
  using ValueOf_enc [OF assms, of "length (enc c @ rest)" rest]
  by (subst reset_loop.simps) (simp add: Let_def)

lemma reset_loop_rest:
  "small_chars cs \<Longrightarrow>
   reset_loop b (encs cs) False d = Some (d\<lparr>utf16_length := utf16_length d + length (units cs)\<rparr>)"
proof (induction cs arbitrary: d)
  case Nil
  show ?case by (simp add: reset_loop.simps [of _ "[]"])
next
  case (Cons c cs)
  then show ?case by (simp add: reset_loop_step Let_def add.assoc)
qed

text \<open>What the loop leaves behind for the characters \<open>cs1\<close> in the buffer and the others \<open>cs2\<close>.\<close>

definition reset_result ::
  "nat \<Rightarrow> Utf8Decoder \<Rightarrow> Utf8Decoder \<Rightarrow> uchar list \<Rightarrow> uchar list \<Rightarrow> bool" where
  "reset_result b d d' cs1 cs2 \<longleftrightarrow>
     buffer d' = buffer d @ units cs1 \<and>
     utf16_length d' = length (buffer d) + length (units cs1) + length (units cs2) \<and>
     (cs2 = [] \<and> length (buffer d') < b \<and> \<not> last_byte_of_buffer_unused d' \<or>
      unbuffered_start d' = Some (encs cs2) \<and>
        length (buffer d') = (if last_byte_of_buffer_unused d' then b - 1 else b) \<and>
        (last_byte_of_buffer_unused d' \<longrightarrow> b < utf16_length d'))"

lemma reset_loop_writing:
  "small_chars cs \<Longrightarrow> utf16_length d = length (buffer d) \<Longrightarrow> length (buffer d) < b \<Longrightarrow>
   \<not> last_byte_of_buffer_unused d \<Longrightarrow>
   \<exists>cs1 cs2 d'. reset_loop b (encs cs) True d = Some d' \<and> cs = cs1 @ cs2 \<and> reset_result b d d' cs1 cs2"
proof (induction cs arbitrary: d)
  case Nil
  then show ?case by (simp add: reset_loop.simps [of _ "[]"] reset_result_def)
next
  case (Cons c cs)
  let ?n = "utf16_length d + length (units_of c)"
  let ?d = "d\<lparr>utf16_length := ?n, buffer := buffer d @ units_of c\<rparr>"
  from Cons.prems have c: "c \<le> kMaxFourByteChar" and cs: "small_chars cs" by simp_all
  consider "?n < b" | "?n = b" | "b < ?n" by linarith
  then show ?case
  proof cases
    case 1
    with Cons.prems have "utf16_length ?d = length (buffer ?d)" "length (buffer ?d) < b"
      "\<not> last_byte_of_buffer_unused ?d" by simp_all
    from Cons.IH [OF cs this] obtain cs1 cs2 d' where IH:
      "reset_loop b (encs cs) True ?d = Some d'" "cs = cs1 @ cs2" "reset_result b ?d d' cs1 cs2"
      by blast
    from 1 have "reset_loop b (encs (c # cs)) True d = reset_loop b (encs cs) True ?d"
      by (simp add: reset_loop_step [OF c] Let_def)
    moreover from IH(3) have "reset_result b d d' (c # cs1) cs2"
      by (auto simp: reset_result_def split: if_splits)
    ultimately show ?thesis
      using IH(1,2) by (intro exI [of _ "c # cs1"] exI [of _ cs2] exI [of _ d']) simp
  next
    case 2
    let ?e = "?d\<lparr>unbuffered_start := Some (encs cs)\<rparr>"
    have "reset_loop b (encs (c # cs)) True d = reset_loop b (encs cs) False ?e"
      using 2 by (simp add: reset_loop_step [OF c] Let_def)
    also have "\<dots> = Some (?e\<lparr>utf16_length := ?n + length (units cs)\<rparr>)"
      by (simp add: reset_loop_rest [OF cs])
    finally show ?thesis using 2 Cons.prems
      by (intro exI [of _ "[c]"] exI [of _ cs]) (simp add: reset_result_def)
  next
    case 3
    let ?e = "d\<lparr>utf16_length := ?n, last_byte_of_buffer_unused := True,
                unbuffered_start := Some (enc c @ encs cs)\<rparr>"
    have "reset_loop b (encs (c # cs)) True d = reset_loop b (encs cs) False ?e"
      using 3 by (simp add: reset_loop_step [OF c] Let_def)
    also have "\<dots> = Some (?e\<lparr>utf16_length := ?n + length (units cs)\<rparr>)"
      by (simp add: reset_loop_rest [OF cs])
    finally show ?thesis using 3 Cons.prems units_of_length [of c]
      by (intro exI [of _ "[]"] exI [of _ "c # cs"]) (auto simp: reset_result_def)
  qed
qed

lemma WriteUtf16Slow_encs:
  "small_chars cs \<Longrightarrow> WriteUtf16Slow (encs cs @ rest) (length (units cs)) = Some (units cs)"
proof (induction cs)
  case Nil
  show ?case by (simp add: WriteUtf16Slow.simps [of _ 0])
next
  case (Cons c cs)
  then have "ValueOf (enc c @ encs cs @ rest) kMaxEncodedSize = Some (c, length (enc c))"
    by (intro ValueOf_enc) (simp_all add: length_enc kMaxEncodedSize_def)
  with Cons units_of_length [of c] show ?case
    by (subst WriteUtf16Slow.simps) (simp add: Let_def)
qed

lemma decoder_encs:
  assumes "small_chars cs" "0 < b"
  shows "\<exists>d. Utf8Decoder_Reset b (encs cs) = Some d \<and> WriteUtf16 b (utf16_length d) d = Some (units cs)"
proof -
  let ?d = "\<lparr>buffer = [], unbuffered_start = None, utf16_length = 0, last_byte_of_buffer_unused = False\<rparr>"
  have "utf16_length ?d = length (buffer ?d)" "length (buffer ?d) < b" "\<not> last_byte_of_buffer_unused ?d"
    using assms(2) by simp_all
  from reset_loop_writing [OF assms(1) this] obtain cs1 cs2 d where
    d: "reset_loop b (encs cs) True ?d = Some d" "cs = cs1 @ cs2" "reset_result b ?d d cs1 cs2" by blast
  then have parts: "buffer d = units cs1" "utf16_length d = length (units cs1) + length (units cs2)"
    and cases: "cs2 = [] \<and> length (units cs1) < b \<and> \<not> last_byte_of_buffer_unused d \<or>
      unbuffered_start d = Some (encs cs2) \<and>
        length (units cs1) = (if last_byte_of_buffer_unused d then b - 1 else b) \<and>
        (last_byte_of_buffer_unused d \<longrightarrow> b < utf16_length d)"
    by (auto simp: reset_result_def)
  from assms(1) d(2) have cs2: "small_chars cs2" by simp
  note slow = WriteUtf16Slow_encs [OF cs2, of "[]", simplified]
  from cases have "WriteUtf16 b (utf16_length d) d = Some (units cs)"
  proof (elim disjE conjE)
    assume "cs2 = []" "length (units cs1) < b" "\<not> last_byte_of_buffer_unused d"
    with parts d(2) show ?thesis by (simp add: WriteUtf16_def Let_def)
  next
    assume "unbuffered_start d = Some (encs cs2)"
      "length (units cs1) = (if last_byte_of_buffer_unused d then b - 1 else b)"
    with parts d(2) slow show ?thesis
      by (cases "length (units cs2) = 0") (simp_all add: WriteUtf16_def Let_def)
  qed
  with d(1) show ?thesis by (simp add: Utf8Decoder_Reset_def)
qed

section \<open>Strings\<close>

lemma byte_bit7: "bit (b :: byte) 7 \<Longrightarrow> \<not> b \<le> 0x7F"
proof
  assume "bit b 7" "b \<le> 0x7F"
  then have "unat b < 2 ^ 7" by (simp add: word_le_nat_alt)
  then have "take_bit 7 b = b"
    by (simp add: word_unat_eq_iff unsigned_take_bit_eq take_bit_nat_eq_self)
  with \<open>bit b 7\<close> show False by (metis bit_take_bit_iff less_irrefl)
qed

lemma bit7_tags:
  "bit (0xC0 :: 32 word) 7" "bit (0xE0 :: 32 word) 7" "bit (0xF0 :: 32 word) 7"
  by (simp_all add: bit_numeral_rec)

lemma enc_ascii: "c \<le> kMaxOneByteChar \<Longrightarrow> enc c = [ucast c]"
  by (simp add: enc_def Encode.simps [of "[]"])

lemma enc_hd:
  assumes "\<not> c \<le> kMaxOneByteChar" shows "\<not> hd (enc c) \<le> 0x7F"
proof (rule byte_bit7)
  have "bit (ucast w :: byte) 7 \<longleftrightarrow> bit w 7" for w :: "32 word" by (simp add: bit_simps)
  with assms bit7_tags show "bit (hd (enc c)) 7"
    by (simp add: enc_def Encode.simps [of "[]"] Let_def bit_or_iff)
qed

lemma ascii_byte: "c \<le> kMaxOneByteChar \<Longrightarrow> (ucast c :: byte) \<le> 0x7F"
  by (simp add: word_le_nat_alt kMaxOneByteChar_def unsigned_ucast_eq take_bit_nat_eq_self)

lemma split_ascii:
  "\<exists>ps qs. cs = ps @ qs \<and> list_all (\<lambda>c. c \<le> kMaxOneByteChar) ps \<and> encs ps = map ucast ps \<and>
     NonAsciiStart (encs cs) = length ps"
proof (induction cs)
  case Nil
  show ?case by (simp add: NonAsciiStart_def)
next
  case (Cons c cs)
  show ?case
  proof (cases "c \<le> kMaxOneByteChar")
    case True
    from Cons obtain ps qs where IH: "cs = ps @ qs" "list_all (\<lambda>c. c \<le> kMaxOneByteChar) ps"
      "encs ps = map ucast ps" "NonAsciiStart (encs cs) = length ps" by blast
    from True IH(4) have "NonAsciiStart (encs (c # cs)) = Suc (length ps)"
      by (simp add: NonAsciiStart_def enc_ascii ascii_byte)
    with True IH show ?thesis
      by (intro exI [of _ "c # ps"] exI [of _ qs]) (simp add: enc_ascii)
  next
    case False
    then have "NonAsciiStart (encs (c # cs)) = 0"
      using enc_hd [OF False] by (cases "enc c") (simp_all add: NonAsciiStart_def)
    then show ?thesis by (intro exI [of _ "[]"] exI [of _ "c # cs"]) simp
  qed
qed

lemma units_ascii:
  "list_all (\<lambda>c. c \<le> kMaxOneByteChar) ps \<Longrightarrow> units ps = map (ucast \<circ> (ucast :: uchar \<Rightarrow> byte)) ps"
proof (induction ps)
  case (Cons c ps)
  then have c: "c \<le> kMaxOneByteChar" by simp
  then have "c \<le> kMaxThreeByteChar" using char_limits(1,2) by (meson less_imp_le order_trans)
  then have "\<not> kMaxNonSurrogateCharCode < c" by (simp add: char_limits(4))
  moreover have "bit c n \<Longrightarrow> n < 7" for n
    using limit_bits(1) [OF c] by (metis bit_take_bit_iff)
  then have "ucast (ucast c :: byte) = (ucast c :: uint16)"
    by (intro bit_word_eqI) (fastforce simp: bit_simps)
  ultimately show ?case using Cons by (simp add: units_of_def)
qed simp

lemma unat_take_bit_less: "take_bit n w = w \<Longrightarrow> unat (w :: 32 word) < 2 ^ n"
  using take_bit_nat_less_exp [of n "unat w"] by (metis unsigned_take_bit_eq)

lemma Combine_small: "CombineSurrogatePair x y \<le> kMaxFourByteChar"
proof -
  have "unat (push_bit 10 (take_bit 10 x)) < 2 ^ 20"
    by (rule unat_take_bit_less, rule bit_word_eqI) (auto simp: bit_simps)
  moreover have "unat (take_bit 10 y) < 2 ^ 10" by (rule unat_take_bit_less) simp
  ultimately have "unat (0x10000 + push_bit 10 (take_bit 10 x) + take_bit 10 y) \<le> 0x1fffff"
    by (simp add: unat_word_ariths)
  then show ?thesis
    unfolding CombineSurrogatePair_def and_3ff kMaxFourByteChar_def word_le_nat_alt by simp
qed

lemma code_points_small: "small_chars (code_points us)"
proof (induction us rule: code_points.induct)
  case (2 c)
  show ?case using ucast16_le [of c]
    by (simp add: kMaxFourByteChar_def word_le_nat_alt)
next
  case (3 c d cs)
  have "CombineSurrogatePair (ucast c) (ucast d) \<le> kMaxFourByteChar" by (rule Combine_small)
  then show ?case using 3 ucast16_le [of c]
    by (auto simp: kMaxFourByteChar_def word_le_nat_alt)
qed simp

lemma NewStringFromUtf8_encs:
  assumes "small_chars cs"
  shows "NewStringFromUtf8 (encs cs) = Some (units cs)"
proof -
  obtain ps qs where split: "cs = ps @ qs" "list_all (\<lambda>c. c \<le> kMaxOneByteChar) ps"
    "encs ps = map ucast ps" "NonAsciiStart (encs cs) = length ps"
    using split_ascii [of cs] by blast
  from split(3) have len: "length (encs ps) = length ps" by simp
  have ps: "map ucast (encs ps) = units ps" using split(2,3) by (simp add: units_ascii)
  show ?thesis
  proof (cases "qs = []")
    case True
    with split len ps show ?thesis by (simp add: NewStringFromUtf8_def Let_def)
  next
    case False
    then have more: "0 < length (encs qs)" by (cases qs) simp_all
    from assms split(1) have "small_chars qs" by simp
    then obtain d where "Utf8Decoder_Reset kUtf8BufferSize (encs qs) = Some d"
      "WriteUtf16 kUtf8BufferSize (utf16_length d) d = Some (units qs)"
      using decoder_encs [of qs kUtf8BufferSize] by (auto simp: kUtf8BufferSize_def)
    with split len ps more show ?thesis by (simp add: NewStringFromUtf8_def Let_def)
  qed
qed


lemma ToCString_all: "ToCString us 0 (-1) = (encs (code_points us), length (encs (code_points us)))"
  using utf8_encode_code_points [of kNoPreviousCharacter us "[]"]
    utf8_length_code_points [of kNoPreviousCharacter us]
  by (simp add: ToCString_def Let_def)

lemma NewStringFromUtf8_ToCString: "NewStringFromUtf8 (fst (ToCString us 0 (-1))) = Some us"
  using NewStringFromUtf8_encs [OF code_points_small [of us]]
  by (simp add: ToCString_all units_of_code_points)

lemma length_encs_le: "length (encs (code_points us)) \<le> 3 * length us"
proof (induction us rule: code_points.induct)
  case (3 c d cs)
  have "length (enc (CombineSurrogatePair (ucast c) (ucast d))) \<le> 4"
    "length (enc (ucast c :: uchar)) \<le> 3"
    using ucast16_le [of c] by (simp_all add: length_enc kMaxThreeByteChar_def)
  with 3 show ?case by (cases "is_pair c d") simp_all
next
  case (2 c)
  then show ?case using ucast16_le [of c] by (simp add: length_enc kMaxThreeByteChar_def)
qed simp

section \<open>Properties\<close>


text \<open>The buffer that \<^verbatim>\<open>ToCString\<close> allocates is exactly large enough for any part of any string: the
  length computed by the first loop, which counts one byte for the second half of a surrogate
  pair, is the number of bytes that the second loop writes, although that loop goes back over
  bytes which it has written.\<close>
theorem ToCString_fits:
  "snd (ToCString us offset len) = length (fst (ToCString us offset len))"
  using utf8_encode_code_points [of kNoPreviousCharacter _ "[]"]
    utf8_length_code_points [of kNoPreviousCharacter]
  by (simp add: ToCString_def Let_def)

end
