(* ===== verification/Functions.thy ===== *)
theory Functions
  imports SaveloadBase Unicode "HOL-Library.AList"
begin

text \<open>
  Names, symbols and functions: \<^verbatim>\<open>SaveString\<close>, \<^verbatim>\<open>SaveName\<close>, \<^verbatim>\<open>SaveSymbol\<close>,
  \<^verbatim>\<open>SaveSharedFunctionInfo\<close> and \<^verbatim>\<open>SaveJSFunction\<close> of \<^verbatim>\<open>src/lithium-saveload.cc\<close> with their
  loaders. These objects are not copied but found again in the isolate that loads: by a root index,
  a registry key, a path in the tree of functions, a name or a position. What the isolate answers
  is the record \<open>world\<close>; its objects are known by their address (a natural number), and the parts
  of them that the code looks at are fields of records.
\<close>

section \<open>The isolate\<close>

record js_string =
  str_units :: "uint16 list"
  str_internalized :: bool

type_synonym addr = nat

text \<open>A function's shared info; \<^verbatim>\<open>outer_info\<close> is a null pointer for the root of the tree, and an
  inner info is undefined until its function literal has been compiled.\<close>

record SharedFunctionInfo =
  sfi_native :: bool
  sfi_builtin_function_id :: "uint32 option"
  sfi_start_position :: int32
  sfi_outer_info :: "addr option"
  sfi_inner_infos :: "addr option list"
  sfi_name :: "js_string option"
  sfi_source :: js_string

text \<open>A function; the descriptors of its map and of its prototype's map are what
  \<^verbatim>\<open>GetValue\<close> gives for each index, as far as it is a function.\<close>

record JSFunction =
  jsf_shared :: addr
  jsf_IsBuiltin :: bool
  jsf_context_IsNativeContext :: bool
  jsf_map_descriptors :: "addr option list"
  jsf_prototype_descriptors :: "addr option list option"

text \<open>What \<^verbatim>\<open>Context::Lookup\<close> finds: nothing, a context slot (with the function in it, if it is
  one), or an object that is not a context.\<close>

datatype lookup_result = LookupNull | LookupContext "addr option" | LookupObject

record dictionary_entry =
  entry_IsKey :: bool
  entry_IsSymbol :: bool
  entry_key :: js_string
  entry_IsDeleted :: bool

text \<open>An entry of a table of the symbol registry, and of the registry itself.\<close>

record registry_symbol =
  rs_name :: js_string
  rs_IsKey :: bool
  rs_IsSymbol :: bool
  rs_IsDeleted :: bool
  rs_IsDontEnum :: bool
  rs_symbol :: addr

record registry_table =
  rt_key :: js_string
  rt_IsDontEnum :: bool
  rt_IsSymbol :: bool
  rt_names :: "registry_symbol list"

record world =
  w_roots :: "addr list"
  w_symbol_registry :: "registry_table list"
  w_sfi :: "addr \<Rightarrow> SharedFunctionInfo"
  w_function :: "addr \<Rightarrow> JSFunction"
  w_info_shared_info :: addr
  w_info_closure :: addr
  w_context_Lookup :: "uint16 list \<Rightarrow> lookup_result"
  w_global_GetProperty :: "uint16 list \<Rightarrow> addr option"
  w_global_dictionary :: "dictionary_entry list"
  w_ResolveBuiltinFunction :: "uint32 \<Rightarrow> addr"
  w_jsfunctions_by_start_position :: "(int32 \<times> addr) list"
  w_builtins_property :: "uint16 list \<Rightarrow> addr option"

section \<open>Strings\<close>

definition SaveString_part ::
  "js_string \<Rightarrow> nat \<Rightarrow> int \<Rightarrow> 'a saver_base_scheme \<Rightarrow> 'a saver_base_scheme option" where
  "SaveString_part string offset len s = do {
     let (str, byte_length) = ToCString (str_units string) offset len;
     s \<leftarrow> SavePrimitiveArray (take byte_length str) s;
     s \<leftarrow> SavePrimitive_bool (str_internalized string) s;
     Some s
   }"

definition SaveString :: "js_string \<Rightarrow> 'a saver_base_scheme \<Rightarrow> 'a saver_base_scheme option" where
  "SaveString string = SaveString_part string 0 (-1)"

text \<open>\<^verbatim>\<open>NewStringFromUtf8\<close> looks a single ASCII character up in the single character string cache,
  whose strings are internalized.\<close>

definition InternalizeUtf8String :: "byte list \<Rightarrow> js_string option" where
  "InternalizeUtf8String str =
     map_option (\<lambda>us. \<lparr>str_units = us, str_internalized = True\<rparr>) (NewStringFromUtf8 str)"

definition string_from_utf8 :: "byte list \<Rightarrow> js_string option" where
  "string_from_utf8 str =
     map_option (\<lambda>us. \<lparr>str_units = us,
         str_internalized = (length str = 1 \<and> NonAsciiStart str \<ge> length str)\<rparr>) (NewStringFromUtf8 str)"

definition LoadString :: "'a loader_base_scheme \<Rightarrow> (js_string \<times> 'a loader_base_scheme) option" where
  "LoadString l = do {
     (str, l) \<leftarrow> LoadPrimitiveArray l;
     (internalize, l) \<leftarrow> LoadBool l;
     string \<leftarrow> if internalize then InternalizeUtf8String str else string_from_utf8 str;
     Some (string, l)
   }"

text \<open>What comes back: the same characters, and the same flag unless the string is one ASCII
  character.\<close>

definition reloaded_string :: "js_string \<Rightarrow> js_string" where
  "reloaded_string string =
     string\<lparr>str_internalized := str_internalized string \<or>
              length (str_units string) = 1 \<and> str_units string ! 0 \<le> 0x7F\<rparr>"

definition string_fits :: "js_string \<Rightarrow> bool" where
  "string_fits string \<longleftrightarrow> 3 * length (str_units string) < 2 ^ 31"

lemma string_from_utf8_back:
  assumes "string_fits string"
  shows "string_from_utf8 (fst (ToCString (str_units string) 0 (-1))) =
    Some (reloaded_string (string\<lparr>str_internalized := False\<rparr>))"
proof -
  let ?us = "str_units string"
  let ?str = "encs (code_points ?us)"
  have dec: "NewStringFromUtf8 ?str = Some ?us"
    using NewStringFromUtf8_ToCString [of ?us] by (simp add: ToCString_all)
  have "length ?str = 1 \<and> NonAsciiStart ?str \<ge> length ?str \<longleftrightarrow> length ?us = 1 \<and> ?us ! 0 \<le> 0x7F"
  proof
    assume one: "length ?str = 1 \<and> NonAsciiStart ?str \<ge> length ?str"
    with dec have us: "?us = map ucast ?str" by (simp add: NewStringFromUtf8_def)
    from one obtain b where b: "?str = [b]" by (auto simp: length_Suc_conv)
    with one have "b \<le> 0x7F" by (simp add: NonAsciiStart_def split: if_splits)
    then have "(ucast b :: uint16) \<le> 0x7F"
      by (simp add: word_le_nat_alt unsigned_ucast_eq take_bit_nat_eq_self)
    with us b show "length ?us = 1 \<and> ?us ! 0 \<le> 0x7F" by simp
  next
    assume one: "length ?us = 1 \<and> ?us ! 0 \<le> 0x7F"
    then obtain u where u: "?us = [u]" by (cases ?us) auto
    with one have "(ucast u :: uchar) \<le> kMaxOneByteChar"
      by (simp add: kMaxOneByteChar_def word_le_nat_alt unsigned_ucast_eq take_bit_nat_eq_self)
    then have "enc (ucast u) = [ucast (ucast u :: uchar)]" "(ucast (ucast u :: uchar) :: byte) \<le> 0x7F"
      by (rule enc_ascii, rule ascii_byte)
    with u show "length ?str = 1 \<and> NonAsciiStart ?str \<ge> length ?str"
      by (simp add: NonAsciiStart_def)
  qed
  with dec show ?thesis
    by (simp add: string_from_utf8_def ToCString_all reloaded_string_def)
qed

lemma SaveString_eq:
  "SaveString string = (\<lambda>s. SavePrimitiveArray (fst (ToCString (str_units string) 0 (-1))) s \<bind>
     (\<lambda>s. SavePrimitive_bool (str_internalized string) s \<bind> Some))"
  by (rule ext) (simp add: SaveString_def SaveString_part_def ToCString_all)

lemma transmits_String [transmits_intros]:
  assumes "string_fits string"
  shows "transmits C (SaveString string) LoadString (reloaded_string string)"
  unfolding SaveString_eq LoadString_def
proof (rule transmits_bind [OF transmits_array], goal_cases)
  case 1
  then show ?case
    using assms length_encs_le [of "str_units string"] by (simp add: ToCString_all string_fits_def)
next
  case 2
  let ?str = "fst (ToCString (str_units string) 0 (-1))"
  have "(if str_internalized string then InternalizeUtf8String ?str else string_from_utf8 ?str)
      = Some (reloaded_string string)"
    using string_from_utf8_back [OF assms] NewStringFromUtf8_ToCString [of "str_units string"]
    by (auto simp: InternalizeUtf8String_def reloaded_string_def)
  then show ?case
    by (intro transmits_bind [OF transmits_bool_LoadBool]) (simp add: transmits_done)
qed


section \<open>Symbols and names\<close>

fun index_of :: "'x \<Rightarrow> 'x list \<Rightarrow> nat" where
  "index_of x [] = 0"
| "index_of x (y # ys) = (if y = x then 0 else Suc (index_of x ys))"

text \<open>\<^verbatim>\<open>kNotFound\<close> is the number of roots.\<close>

definition kNotFound :: "'w world_scheme \<Rightarrow> uint32" where
  "kNotFound w = word_of_nat (length (w_roots w))"

definition RootIndex :: "'w world_scheme \<Rightarrow> addr \<Rightarrow> uint32" where
  "RootIndex w a = word_of_nat (index_of a (w_roots w))"

definition heap_root :: "'w world_scheme \<Rightarrow> uint32 \<Rightarrow> addr option" where
  "heap_root w i = (if unat i < length (w_roots w) then Some (w_roots w ! unat i) else None)"

text \<open>The search through the enumerable keys of the tables of the registry.\<close>

fun search_names :: "addr \<Rightarrow> registry_symbol list \<Rightarrow> js_string option" where
  "search_names symbol [] = None"
| "search_names symbol (n # ns) =
     (if \<not> rs_IsKey n \<or> rs_IsSymbol n then search_names symbol ns
      else if rs_IsDeleted n \<or> rs_IsDontEnum n then search_names symbol ns
      else if rs_symbol n = symbol then Some (rs_name n)
      else search_names symbol ns)"

fun search_registry :: "addr \<Rightarrow> registry_table list \<Rightarrow> (js_string \<times> js_string) option" where
  "search_registry symbol [] = None"
| "search_registry symbol (t # ts) =
     (if rt_IsDontEnum t \<or> rt_IsSymbol t then search_registry symbol ts
      else case search_names symbol (rt_names t) of
        Some name \<Rightarrow> Some (rt_key t, name)
      | None \<Rightarrow> search_registry symbol ts)"

definition SaveSymbol ::
  "'w world_scheme \<Rightarrow> addr \<Rightarrow> 'a saver_base_scheme \<Rightarrow> 'a saver_base_scheme option" where
  "SaveSymbol w symbol s = do {
     s \<leftarrow> SavePrimitive (RootIndex w symbol) s;
     if RootIndex w symbol \<noteq> kNotFound w then Some s
     else case search_registry symbol (w_symbol_registry w) of
       None \<Rightarrow> None
     | Some (key, name) \<Rightarrow> do { s \<leftarrow> SaveString key s; s \<leftarrow> SaveString name s; Some s }
   }"

text \<open>\<^verbatim>\<open>Object::GetProperty\<close> on the registry and on a table of it.\<close>

definition registry_GetProperty :: "'w world_scheme \<Rightarrow> js_string \<Rightarrow> registry_table option" where
  "registry_GetProperty w key =
     find (\<lambda>t. \<not> rt_IsSymbol t \<and> str_units (rt_key t) = str_units key) (w_symbol_registry w)"

definition table_GetProperty :: "registry_table \<Rightarrow> js_string \<Rightarrow> addr option" where
  "table_GetProperty t name =
     map_option rs_symbol
       (find (\<lambda>n. rs_IsKey n \<and> \<not> rs_IsSymbol n \<and> \<not> rs_IsDeleted n \<and>
                  str_units (rs_name n) = str_units name) (rt_names t))"

definition LoadSymbol ::
  "'w world_scheme \<Rightarrow> 'a loader_base_scheme \<Rightarrow> (addr \<times> 'a loader_base_scheme) option" where
  "LoadSymbol w l = do {
     (root_index, l) \<leftarrow> LoadPrimitive l;
     if root_index \<noteq> kNotFound w then do { root \<leftarrow> heap_root w root_index; Some (root, l) }
     else do {
       (registry_key, l) \<leftarrow> LoadString l;
       (symbol_name, l) \<leftarrow> LoadString l;
       table \<leftarrow> registry_GetProperty w registry_key;
       symbol \<leftarrow> table_GetProperty table symbol_name;
       Some (symbol, l)
     }
   }"

datatype js_name = NameString js_string | NameSymbol addr

definition SaveName ::
  "'w world_scheme \<Rightarrow> js_name \<Rightarrow> 'a saver_base_scheme \<Rightarrow> 'a saver_base_scheme option" where
  "SaveName w name s =
     (case name of
        NameString string \<Rightarrow> do { s \<leftarrow> SavePrimitive_bool True s; s \<leftarrow> SaveString string s; Some s }
      | NameSymbol symbol \<Rightarrow> do { s \<leftarrow> SavePrimitive_bool False s; s \<leftarrow> SaveSymbol w symbol s; Some s })"

definition LoadName ::
  "'w world_scheme \<Rightarrow> 'a loader_base_scheme \<Rightarrow> (js_name \<times> 'a loader_base_scheme) option" where
  "LoadName w l = do {
     (is_string, l) \<leftarrow> LoadBool l;
     if is_string then do { (string, l) \<leftarrow> LoadString l; Some (NameString string, l) }
     else do { (symbol, l) \<leftarrow> LoadSymbol w l; Some (NameSymbol symbol, l) }
   }"

section \<open>Shared function infos\<close>

datatype FunctionRelocationType =
    kByBuiltinFunctionId | kByPathFromRoot | kByNameInContextChain | kByNameInGlobalObject
  | kByStartPosition | kByOriginalName | kByGlobalConstructor | kByGlobalPrototype

primrec relocation_code :: "FunctionRelocationType \<Rightarrow> uint32" where
  "relocation_code kByBuiltinFunctionId = 0"
| "relocation_code kByPathFromRoot = 1"
| "relocation_code kByNameInContextChain = 2"
| "relocation_code kByNameInGlobalObject = 3"
| "relocation_code kByStartPosition = 4"
| "relocation_code kByOriginalName = 5"
| "relocation_code kByGlobalConstructor = 6"
| "relocation_code kByGlobalPrototype = 7"

text \<open>The number of entries of \<^verbatim>\<open>FUNCTIONS_WITH_ID_LIST\<close> in \<^verbatim>\<open>src/objects.h\<close>, whose ids start at 1.\<close>

definition numberOfIds :: int where
  "numberOfIds = 40"

definition HasIndexedBuiltinFunctionId :: "SharedFunctionInfo \<Rightarrow> bool" where
  "HasIndexedBuiltinFunctionId info =
     (case sfi_builtin_function_id info of
        None \<Rightarrow> False
      | Some i \<Rightarrow> 1 \<le> sint i \<and> sint i < 1 + numberOfIds)"

text \<open>The inner loop looks for the first child at the start position; an undefined child has none,
  and its field is read behind the end of the undefined object.\<close>

fun child_index :: "'w world_scheme \<Rightarrow> int32 \<Rightarrow> nat \<Rightarrow> addr option list \<Rightarrow> nat option option" where
  "child_index w pos i [] = Some None"
| "child_index w pos i (None # cs) = None"
| "child_index w pos i (Some c # cs) =
     (if sfi_start_position (w_sfi w c) = pos then Some (Some i) else child_index w pos (i + 1) cs)"

partial_function (option) sfi_path :: "'w world_scheme \<Rightarrow> addr \<Rightarrow> nat list \<Rightarrow> nat list option" where
  "sfi_path w info path =
     (case sfi_outer_info (w_sfi w info) of
        None \<Rightarrow> Some path
      | Some parent \<Rightarrow>
          Option.bind (child_index w (sfi_start_position (w_sfi w info)) 0 (sfi_inner_infos (w_sfi w parent)))
            (\<lambda>found. sfi_path w parent (case found of None \<Rightarrow> path | Some i \<Rightarrow> path @ [i])))"

definition SaveSharedFunctionInfo ::
  "'w world_scheme \<Rightarrow> addr \<Rightarrow> 'a saver_base_scheme \<Rightarrow> 'a saver_base_scheme option" where
  "SaveSharedFunctionInfo w info s =
     (if sfi_native (w_sfi w info) then do {
        s \<leftarrow> SavePrimitive (relocation_code kByBuiltinFunctionId) s;
        id \<leftarrow> sfi_builtin_function_id (w_sfi w info);
        s \<leftarrow> SavePrimitive id s;
        Some s
      } else do {
        s \<leftarrow> SavePrimitive (relocation_code kByPathFromRoot) s;
        path \<leftarrow> sfi_path w info [];
        s \<leftarrow> save_each (\<lambda>i. SavePrimitive (word_of_nat i :: int32)) (rev path) s;
        s \<leftarrow> SavePrimitive (-1 :: int32) s;
        Some s
      })"

partial_function (option) sfi_root :: "'w world_scheme \<Rightarrow> addr \<Rightarrow> addr option" where
  "sfi_root w info =
     (case sfi_outer_info (w_sfi w info) of None \<Rightarrow> Some info | Some parent \<Rightarrow> sfi_root w parent)"

lemma LoadPrimitive_shrinks:
  "LoadPrimitive l = Some (v :: int32, l') \<Longrightarrow> length (input l') < length (input l)"
  by (auto simp: LoadPrimitive_def dest!: LoadPrimitive_bytes_consumes)

text \<open>The loop which goes down the tree; a null handle is returned where the tree ends early.\<close>

function walk_path ::
  "'w world_scheme \<Rightarrow> addr \<Rightarrow> 'a loader_base_scheme \<Rightarrow> (addr option \<times> 'a loader_base_scheme) option" where
  "walk_path w info l =
     Option.bind (LoadPrimitive l) (\<lambda>(index, l).
       if 0 \<le> sint (index :: int32) then
         (if nat (sint index) < length (sfi_inner_infos (w_sfi w info)) then
            (case sfi_inner_infos (w_sfi w info) ! nat (sint index) of
               None \<Rightarrow> Some (None, Fail ''could not reach SharedFunctionInfo - may not be compiled yet'' l)
             | Some inner \<Rightarrow> walk_path w inner l)
          else None)
       else Some (Some info, l))"
  by pat_completeness auto
termination
  by (relation "measure (\<lambda>(w, info, l). length (input l))") (auto dest: LoadPrimitive_shrinks)

declare walk_path.simps [simp del]

definition LoadSharedFunctionInfo ::
  "'w world_scheme \<Rightarrow> 'a loader_base_scheme \<Rightarrow> (addr option \<times> 'a loader_base_scheme) option" where
  "LoadSharedFunctionInfo w l = do {
     (relocation, l) \<leftarrow> LoadPrimitive l;
     if relocation = relocation_code kByBuiltinFunctionId then do {
       (id, l) \<leftarrow> LoadPrimitive l;
       if 1 \<le> sint id \<and> sint id < 1 + numberOfIds
       then Some (Some (jsf_shared (w_function w (w_ResolveBuiltinFunction w id))), l)
       else None
     } else if relocation = relocation_code kByPathFromRoot then do {
       root \<leftarrow> sfi_root w (w_info_shared_info w);
       walk_path w root l
     } else None
   }"


section \<open>Functions\<close>

text \<open>First try: by name, when the context chain of the closure being compiled, or else the global
  object, has exactly this function under it.\<close>

definition relocation_by_name ::
  "'w world_scheme \<Rightarrow> addr \<Rightarrow> (FunctionRelocationType \<times> js_string) option" where
  "relocation_by_name w f =
     (case sfi_name (w_sfi w (jsf_shared (w_function w f))) of
        None \<Rightarrow> None
      | Some name \<Rightarrow>
          let name = name\<lparr>str_internalized := True\<rparr>
          in if str_units name = [] then None
             else case w_context_Lookup w (str_units name) of
               LookupContext slot \<Rightarrow>
                 if slot = Some f then Some (kByNameInContextChain, name) else None
             | _ \<Rightarrow>
                 if w_global_GetProperty w (str_units name) = Some f
                 then Some (kByNameInGlobalObject, name) else None)"

text \<open>Last but one: among the properties of the global constructors and of their prototypes, by the
  shared info.\<close>

definition has_shared :: "'w world_scheme \<Rightarrow> addr \<Rightarrow> addr option \<Rightarrow> bool" where
  "has_shared w shared func =
     (case func of None \<Rightarrow> False | Some g \<Rightarrow> jsf_shared (w_function w g) = shared)"

fun find_index :: "('x \<Rightarrow> bool) \<Rightarrow> 'x list \<Rightarrow> nat option" where
  "find_index p [] = None"
| "find_index p (x # xs) = (if p x then Some 0 else map_option Suc (find_index p xs))"

fun search_globals ::
  "'w world_scheme \<Rightarrow> addr \<Rightarrow> dictionary_entry list \<Rightarrow> (FunctionRelocationType \<times> js_string \<times> nat) option" where
  "search_globals w shared [] = None"
| "search_globals w shared (e # es) =
     (if \<not> entry_IsKey e \<or> entry_IsSymbol e then search_globals w shared es
      else if entry_IsDeleted e then search_globals w shared es
      else case w_global_GetProperty w (str_units (entry_key e)) of
        None \<Rightarrow> search_globals w shared es
      | Some constructor \<Rightarrow>
          (case find_index (has_shared w shared) (jsf_map_descriptors (w_function w constructor)) of
             Some index \<Rightarrow> Some (kByGlobalConstructor, entry_key e, index)
           | None \<Rightarrow>
               (case jsf_prototype_descriptors (w_function w constructor) of
                  None \<Rightarrow> search_globals w shared es
                | Some ds \<Rightarrow>
                    (case find_index (has_shared w shared) ds of
                       Some index \<Rightarrow> Some (kByGlobalPrototype, entry_key e, index)
                     | None \<Rightarrow> search_globals w shared es))))"

text \<open>At last: the word in front of the function in its source, unless that is \<^verbatim>\<open>function\<close>. The
  character predicates of C take values up to 255, and the loops stop at the first character that
  fails, or run out of the source.\<close>

definition c_isspace :: "uint16 \<Rightarrow> bool option" where
  "c_isspace c = (if c > 0xFF then None else Some (c = 32 \<or> 9 \<le> c \<and> c \<le> 13))"

definition c_isalnum :: "uint16 \<Rightarrow> bool option" where
  "c_isalnum c =
     (if c > 0xFF then None
      else Some (48 \<le> c \<and> c \<le> 57 \<or> 65 \<le> c \<and> c \<le> 90 \<or> 97 \<le> c \<and> c \<le> 122))"

definition is_name_char :: "uint16 \<Rightarrow> bool option" where
  "is_name_char c = do { alnum \<leftarrow> c_isalnum c; Some (alnum \<or> c = 95) }"

fun skip_back :: "(uint16 \<Rightarrow> bool option) \<Rightarrow> uint16 list \<Rightarrow> nat \<Rightarrow> nat option" where
  "skip_back p source 0 = None"
| "skip_back p source (Suc n) =
     (if n < length source then do {
        more \<leftarrow> p (source ! n);
        if more then skip_back p source n else Some (Suc n)
      } else None)"

definition function_token :: "uint16 list" where
  "function_token = [102, 117, 110, 99, 116, 105, 111, 110]"

definition SaveJSFunction ::
  "'w world_scheme \<Rightarrow> addr \<Rightarrow> 'a saver_base_scheme \<Rightarrow> 'a saver_base_scheme option" where
  "SaveJSFunction w f s =
     (let fn = w_function w f; shared = w_sfi w (jsf_shared fn) in
      if HasIndexedBuiltinFunctionId shared then do {
        s \<leftarrow> SavePrimitive (relocation_code kByBuiltinFunctionId) s;
        id \<leftarrow> sfi_builtin_function_id shared;
        s \<leftarrow> SavePrimitive id s;
        Some s
      }
      else case relocation_by_name w f of
        Some (t, name) \<Rightarrow> do {
          s \<leftarrow> SavePrimitive (relocation_code t) s;
          s \<leftarrow> SaveString name s;
          Some s
        }
      | None \<Rightarrow>
          if \<not> sfi_native shared \<and> \<not> jsf_IsBuiltin fn then
            if \<not> jsf_context_IsNativeContext fn then Some (Fail ''refs to inner JSFs'' s)
            else do {
              s \<leftarrow> SavePrimitive (relocation_code kByStartPosition) s;
              s \<leftarrow> SavePrimitive (sfi_start_position shared) s;
              Some s
            }
          else case search_globals w (jsf_shared fn) (w_global_dictionary w) of
            Some (t, key, index) \<Rightarrow> do {
              s \<leftarrow> SavePrimitive (relocation_code t) s;
              s \<leftarrow> SaveString key s;
              s \<leftarrow> SavePrimitive (word_of_nat index :: int32) s;
              Some s
            }
          | None \<Rightarrow> do {
              end_position \<leftarrow> skip_back c_isspace (str_units (sfi_source shared)) (iterations (sfi_start_position shared));
              start_position \<leftarrow> skip_back is_name_char (str_units (sfi_source shared)) end_position;
              let word = take (end_position - start_position) (drop start_position (str_units (sfi_source shared)));
              if word \<noteq> function_token then do {
                s \<leftarrow> SavePrimitive (relocation_code kByOriginalName) s;
                s \<leftarrow> SaveString_part (sfi_source shared) start_position
                       (int (end_position - start_position)) s;
                Some s
              } else Some (Fail ''could not save a JSF'' s)
            })"

definition GetJSFunctionByStartPosition :: "'w world_scheme \<Rightarrow> int32 \<Rightarrow> addr option" where
  "GetJSFunctionByStartPosition w pos = map_of (w_jsfunctions_by_start_position w) pos"

definition AddForStartPosition :: "int32 \<Rightarrow> addr \<Rightarrow> (int32 \<times> addr) list \<Rightarrow> (int32 \<times> addr) list" where
  "AddForStartPosition pos f recs = AList.update pos f recs"

definition descriptor_value :: "addr option list \<Rightarrow> nat \<Rightarrow> addr option" where
  "descriptor_value ds i = (if i < length ds then ds ! i else None)"

text \<open>A null handle is returned with a failure only, when no function is known at the position.\<close>

definition LoadJSFunction ::
  "'w world_scheme \<Rightarrow> 'a loader_base_scheme \<Rightarrow> (addr option \<times> 'a loader_base_scheme) option" where
  "LoadJSFunction w l = do {
     (relocation, l) \<leftarrow> LoadPrimitive l;
     if relocation = relocation_code kByNameInContextChain then do {
       (name, l) \<leftarrow> LoadString l;
       case w_context_Lookup w (str_units name) of
         LookupContext (Some f) \<Rightarrow> Some (Some f, l)
       | _ \<Rightarrow> None
     } else if relocation = relocation_code kByNameInGlobalObject then do {
       (name, l) \<leftarrow> LoadString l;
       f \<leftarrow> w_global_GetProperty w (str_units name);
       Some (Some f, l)
     } else if relocation = relocation_code kByStartPosition then do {
       (start_position, l) \<leftarrow> LoadPrimitive l;
       case GetJSFunctionByStartPosition w start_position of
         None \<Rightarrow> Some (None, Fail ''function not found by start position'' l)
       | Some f \<Rightarrow> Some (Some f, l)
     } else if relocation = relocation_code kByBuiltinFunctionId then do {
       (id, l) \<leftarrow> LoadPrimitive l;
       if 1 \<le> sint id \<and> sint id < 1 + numberOfIds
       then Some (Some (w_ResolveBuiltinFunction w id), l)
       else None
     } else if relocation = relocation_code kByGlobalConstructor
               \<or> relocation = relocation_code kByGlobalPrototype then do {
       (key, l) \<leftarrow> LoadString l;
       (index, l) \<leftarrow> LoadPrimitive l;
       constructor \<leftarrow> w_global_GetProperty w (str_units key);
       descriptors \<leftarrow> if relocation = relocation_code kByGlobalConstructor
         then Some (jsf_map_descriptors (w_function w constructor))
         else jsf_prototype_descriptors (w_function w constructor);
       f \<leftarrow> descriptor_value descriptors (iterations index);
       Some (Some f, l)
     } else if relocation = relocation_code kByOriginalName then do {
       (name, l) \<leftarrow> LoadString l;
       f \<leftarrow> w_builtins_property w (str_units name);
       Some (Some f, l)
     } else None
   }"


section \<open>Symbols are found again\<close>

text \<open>Property names are unique, in the registry and in its tables.\<close>

definition registry_wf :: "'w world_scheme \<Rightarrow> bool" where
  "registry_wf w \<longleftrightarrow> length (w_roots w) < 2 ^ 32 \<and>
     distinct (map (str_units \<circ> rt_key) (filter (\<lambda>t. \<not> rt_IsSymbol t) (w_symbol_registry w))) \<and>
     list_all (\<lambda>t. string_fits (rt_key t) \<and>
         list_all (\<lambda>n. string_fits (rs_name n)) (rt_names t) \<and>
         distinct (map (str_units \<circ> rs_name)
           (filter (\<lambda>n. rs_IsKey n \<and> \<not> rs_IsSymbol n \<and> \<not> rs_IsDeleted n) (rt_names t))))
       (w_symbol_registry w)"

definition symbol_known :: "'w world_scheme \<Rightarrow> addr \<Rightarrow> bool" where
  "symbol_known w a \<longleftrightarrow> a \<in> set (w_roots w) \<or> search_registry a (w_symbol_registry w) \<noteq> None"

lemma find_unique:
  "distinct (map f (filter p xs)) \<Longrightarrow> x \<in> set xs \<Longrightarrow> p x \<Longrightarrow> find (\<lambda>y. p y \<and> f y = f x) xs = Some x"
proof (induction xs)
  case (Cons y ys)
  show ?case
  proof (cases "y = x")
    case False
    with Cons.prems have x: "x \<in> set ys" by simp
    with Cons.prems have "p y \<Longrightarrow> f y \<noteq> f x" by auto
    moreover from Cons x have "find (\<lambda>y. p y \<and> f y = f x) ys = Some x" by (auto split: if_splits)
    ultimately show ?thesis by auto
  qed (use Cons.prems in simp)
qed simp

lemma search_names_Some:
  "search_names a ns = Some name \<Longrightarrow>
   \<exists>n \<in> set ns. rs_IsKey n \<and> \<not> rs_IsSymbol n \<and> \<not> rs_IsDeleted n \<and> rs_symbol n = a \<and> rs_name n = name"
  by (induction ns) (auto split: if_splits)

lemma search_registry_Some:
  "search_registry a ts = Some (key, name) \<Longrightarrow>
   \<exists>t \<in> set ts. \<not> rt_IsSymbol t \<and> rt_key t = key \<and> search_names a (rt_names t) = Some name"
  by (induction ts) (auto split: if_splits option.splits)

lemma registry_finds:
  assumes "registry_wf w" "search_registry a (w_symbol_registry w) = Some (key, name)"
  shows "string_fits key" "string_fits name"
    and "\<exists>t. registry_GetProperty w (reloaded_string key) = Some t \<and>
             table_GetProperty t (reloaded_string name) = Some a"
proof -
  obtain t where t: "t \<in> set (w_symbol_registry w)" "\<not> rt_IsSymbol t" "rt_key t = key"
    and names: "search_names a (rt_names t) = Some name"
    using search_registry_Some [OF assms(2)] by blast
  obtain n where n: "n \<in> set (rt_names t)" "rs_IsKey n \<and> \<not> rs_IsSymbol n \<and> \<not> rs_IsDeleted n"
    "rs_symbol n = a" "rs_name n = name"
    using search_names_Some [OF names] by blast
  from assms(1) t n show "string_fits key" "string_fits name"
    by (auto simp: registry_wf_def list_all_iff)
  from assms(1) have "distinct (map (str_units \<circ> rt_key) (filter (\<lambda>t. \<not> rt_IsSymbol t) (w_symbol_registry w)))"
    by (simp add: registry_wf_def)
  from find_unique [OF this t(1)] t have "registry_GetProperty w (reloaded_string key) = Some t"
    by (simp add: registry_GetProperty_def reloaded_string_def)
  moreover from assms(1) t(1) have "distinct (map (str_units \<circ> rs_name)
      (filter (\<lambda>n. rs_IsKey n \<and> \<not> rs_IsSymbol n \<and> \<not> rs_IsDeleted n) (rt_names t)))"
    by (auto simp: registry_wf_def list_all_iff)
  from find_unique [OF this n(1,2)] n have "table_GetProperty t (reloaded_string name) = Some a"
    by (simp add: table_GetProperty_def reloaded_string_def conj_assoc)
  ultimately show "\<exists>t. registry_GetProperty w (reloaded_string key) = Some t \<and>
      table_GetProperty t (reloaded_string name) = Some a" by blast
qed

lemma index_of_found: "a \<in> set xs \<Longrightarrow> index_of a xs < length xs \<and> xs ! index_of a xs = a"
  by (induction xs) auto

lemma index_of_missing: "a \<notin> set xs \<Longrightarrow> index_of a xs = length xs"
  by (induction xs) auto

lemma RootIndex_found:
  assumes "length (w_roots w) < 2 ^ 32" "a \<in> set (w_roots w)"
  shows "RootIndex w a \<noteq> kNotFound w" "heap_root w (RootIndex w a) = Some a"
proof -
  from index_of_found [OF assms(2)] have i: "index_of a (w_roots w) < length (w_roots w)"
    "w_roots w ! index_of a (w_roots w) = a" by simp_all
  with assms(1) have u: "unat (RootIndex w a) = index_of a (w_roots w)"
    "unat (kNotFound w) = length (w_roots w)"
    unfolding RootIndex_def kNotFound_def by (simp_all del: unat_of_nat32 add: unat_of_nat32 [simplified])
  with i show "RootIndex w a \<noteq> kNotFound w" by force
  from u i show "heap_root w (RootIndex w a) = Some a" by (simp add: heap_root_def)
qed

lemma RootIndex_missing: "a \<notin> set (w_roots w) \<Longrightarrow> RootIndex w a = kNotFound w"
  by (simp add: RootIndex_def kNotFound_def index_of_missing)

lemma transmits_Symbol [transmits_intros]:
  assumes "registry_wf w" "symbol_known w a"
  shows "transmits C (SaveSymbol w a) (LoadSymbol w) a"
proof (cases "a \<in> set (w_roots w)")
  case True
  with assms(1) have "length (w_roots w) < 2 ^ 32" by (simp add: registry_wf_def)
  note found = RootIndex_found [OF this True]
  show ?thesis unfolding SaveSymbol_def LoadSymbol_def
    by (rule transmits_bind, rule transmits_intros, simp add: found, rule transmits_done)
next
  case False
  with assms(2) obtain key name where kn: "search_registry a (w_symbol_registry w) = Some (key, name)"
    by (auto simp: symbol_known_def)
  note found = registry_finds [OF assms(1) kn]
  then obtain t where t: "registry_GetProperty w (reloaded_string key) = Some t"
    "table_GetProperty t (reloaded_string name) = Some a" by blast
  have idx: "RootIndex w a = kNotFound w" by (rule RootIndex_missing [OF False])
  show ?thesis unfolding SaveSymbol_def LoadSymbol_def
    apply (rule transmits_bind [OF transmits_primitives(3)])
    apply (simp add: idx kn)
    apply (rule transmits_bind [OF transmits_String [OF found(1)]])
    apply (rule transmits_save_last [OF transmits_String [OF found(2)]])
    apply (simp add: t)
    done
qed

text \<open>What the loader makes of a name.\<close>

definition name_ok :: "'w world_scheme \<Rightarrow> js_name \<Rightarrow> bool" where
  "name_ok w name \<longleftrightarrow> registry_wf w \<and>
     (case name of NameString s \<Rightarrow> string_fits s | NameSymbol a \<Rightarrow> symbol_known w a)"

definition reloaded_name :: "js_name \<Rightarrow> js_name" where
  "reloaded_name name =
     (case name of NameString s \<Rightarrow> NameString (reloaded_string s) | NameSymbol a \<Rightarrow> NameSymbol a)"

lemma transmits_Name [transmits_intros]:
  assumes "name_ok w name"
  shows "transmits C (SaveName w name) (LoadName w) (reloaded_name name)"
proof (cases name)
  case (NameString string)
  with assms have fits: "string_fits string" by (simp add: name_ok_def)
  show ?thesis unfolding NameString SaveName_def LoadName_def reloaded_name_def js_name.case
    apply (rule transmits_bind [OF transmits_bool_LoadBool])
    apply simp
    apply (rule transmits_map [OF transmits_String [OF fits]])
    done
next
  case (NameSymbol a)
  with assms have known: "registry_wf w" "symbol_known w a" by (simp_all add: name_ok_def)
  show ?thesis unfolding NameSymbol SaveName_def LoadName_def reloaded_name_def js_name.case
    apply (rule transmits_bind [OF transmits_bool_LoadBool])
    apply simp
    apply (rule transmits_map [OF transmits_Symbol [OF known]])
    done
qed

section \<open>Shared function infos are found again\<close>

text \<open>\<open>reaches w r info path\<close>: the outer infos of \<open>info\<close> lead up to the root \<open>r\<close>, and the path is what
  leads down again, by the first child with the right start position each time.\<close>

inductive reaches :: "'w world_scheme \<Rightarrow> addr \<Rightarrow> addr \<Rightarrow> nat list \<Rightarrow> bool" for w r where
  root: "sfi_outer_info (w_sfi w r) = None \<Longrightarrow> reaches w r r []"
| child: "reaches w r p path \<Longrightarrow> sfi_outer_info (w_sfi w c) = Some p \<Longrightarrow>
    child_index w (sfi_start_position (w_sfi w c)) 0 (sfi_inner_infos (w_sfi w p)) = Some (Some i) \<Longrightarrow>
    i < 2 ^ 31 \<Longrightarrow> reaches w r c (path @ [i])"

inductive_cases reaches_rootE: "reaches w r info []"

lemma sfi_path_reaches:
  "reaches w r info path \<Longrightarrow> sfi_path w info acc = Some (acc @ rev path)"
proof (induction arbitrary: acc rule: reaches.induct)
  case root
  then show ?case by (simp add: sfi_path.simps)
next
  case (child p path c i)
  then show ?case by (simp add: sfi_path.simps [of w c])
qed

lemma sfi_root_reaches: "reaches w r info path \<Longrightarrow> sfi_root w info = Some r"
  by (induction rule: reaches.induct) (simp_all add: sfi_root.simps)

text \<open>Going down a path in the isolate that loads.\<close>

datatype descent = Found addr | NotCompiled | OutOfRange

fun descend :: "'w world_scheme \<Rightarrow> addr \<Rightarrow> nat list \<Rightarrow> descent" where
  "descend w info [] = Found info"
| "descend w info (i # is) =
     (if i < length (sfi_inner_infos (w_sfi w info)) then
        (case sfi_inner_infos (w_sfi w info) ! i of None \<Rightarrow> NotCompiled | Some c \<Rightarrow> descend w c is)
      else OutOfRange)"

lemma saves_ints:
  "saves C (save_each (\<lambda>i. SavePrimitive (word_of_nat i :: int32)) is)
     (raw_bytes (map (word_of_nat :: nat \<Rightarrow> int32) is))"
proof (induction "is")
  case (Cons i "is")
  then show ?case
    by (simp add: saves_def SavePrimitive_def SavePrimitive_bytes_def)
qed (simp add: saves_def)

lemma LoadPrimitive_int:
  "input l = le_bytes 4 (v :: int32) @ rest \<Longrightarrow> LoadPrimitive l = Some (v, l\<lparr>input := rest\<rparr>)"
  using LoadPrimitive_bytes_le [of v rest] by (simp add: LoadPrimitive_def)

lemma walk_path_found:
  "descend w root path = Found info \<Longrightarrow> list_all (\<lambda>i. i < 2 ^ 31) path \<Longrightarrow>
   input l = raw_bytes (map (word_of_nat :: nat \<Rightarrow> int32) path) @ le_bytes 4 (-1 :: int32) @ rest \<Longrightarrow>
   walk_path w root l = Some (Some info, l\<lparr>input := rest\<rparr>)"
proof (induction path arbitrary: root l)
  case Nil
  then have "LoadPrimitive l = Some (-1 :: int32, l\<lparr>input := rest\<rparr>)"
    by (intro LoadPrimitive_int) simp
  with Nil show ?case by (subst walk_path.simps) simp
next
  case (Cons i path)
  let ?rest = "raw_bytes (map (word_of_nat :: nat \<Rightarrow> int32) path) @ le_bytes 4 (-1 :: int32) @ rest"
  from Cons.prems have load: "LoadPrimitive l = Some (word_of_nat i :: int32, l\<lparr>input := ?rest\<rparr>)"
    by (intro LoadPrimitive_int) simp
  from Cons.prems(1) obtain c where c: "i < length (sfi_inner_infos (w_sfi w root))"
    "sfi_inner_infos (w_sfi w root) ! i = Some c" "descend w c path = Found info"
    by (auto split: if_splits option.splits)
  from Cons.prems(2) have i: "sint (word_of_nat i :: int32) = int i" by (simp add: sint_of_nat32)
  have "walk_path w c (l\<lparr>input := ?rest\<rparr>) = Some (Some info, l\<lparr>input := rest\<rparr>)"
    using Cons.IH [OF c(3), of "l\<lparr>input := ?rest\<rparr>"] Cons.prems(2) by simp
  with load c i show ?case by (subst walk_path.simps) simp
qed

lemma walk_path_not_compiled:
  "descend w root path = NotCompiled \<Longrightarrow> list_all (\<lambda>i. i < 2 ^ 31) path \<Longrightarrow>
   input l = raw_bytes (map (word_of_nat :: nat \<Rightarrow> int32) path) @ rest \<Longrightarrow>
   \<exists>rest'. walk_path w root l =
     Some (None, Fail ''could not reach SharedFunctionInfo - may not be compiled yet'' (l\<lparr>input := rest'\<rparr>))"
proof (induction path arbitrary: root l)
  case (Cons i path)
  let ?rest = "raw_bytes (map (word_of_nat :: nat \<Rightarrow> int32) path) @ rest"
  from Cons.prems have load: "LoadPrimitive l = Some (word_of_nat i :: int32, l\<lparr>input := ?rest\<rparr>)"
    by (intro LoadPrimitive_int) simp
  from Cons.prems(2) have i: "sint (word_of_nat i :: int32) = int i" by (simp add: sint_of_nat32)
  from Cons.prems(1) have len: "i < length (sfi_inner_infos (w_sfi w root))"
    by (auto split: if_splits)
  show ?case
  proof (cases "sfi_inner_infos (w_sfi w root) ! i")
    case None
    with load len i show ?thesis by (subst walk_path.simps) auto
  next
    case (Some c)
    with Cons.prems(1) len have "descend w c path = NotCompiled" by simp
    from Cons.IH [OF this, of "l\<lparr>input := ?rest\<rparr>"] Cons.prems(2)
    have "\<exists>rest'. walk_path w c (l\<lparr>input := ?rest\<rparr>) =
      Some (None, Fail ''could not reach SharedFunctionInfo - may not be compiled yet'' (l\<lparr>input := rest'\<rparr>))"
      by simp
    with load len i Some show ?thesis by (subst walk_path.simps) simp
  qed
qed simp

lemma reaches_small: "reaches w r info path \<Longrightarrow> list_all (\<lambda>i. i < 2 ^ 31) path"
  by (induction rule: reaches.induct) simp_all

text \<open>The bytes of a path, which do not depend on the isolate.\<close>

definition path_bytes :: "nat list \<Rightarrow> byte list" where
  "path_bytes path = le_bytes 4 (relocation_code kByPathFromRoot) @
     raw_bytes (map (word_of_nat :: nat \<Rightarrow> int32) path) @ le_bytes 4 (-1 :: int32)"

lemma saves_primitive: "saves C (SavePrimitive (w :: int32)) (le_bytes 4 w)"
  by (simp add: saves_def SavePrimitive_def SavePrimitive_bytes_def)

lemma saves_SharedFunctionInfo:
  assumes "\<not> sfi_native (w_sfi w info)" "sfi_path w info [] = Some (rev path)"
  shows "saves C (SaveSharedFunctionInfo w info) (path_bytes path)"
proof -
  have eq: "SaveSharedFunctionInfo w info s =
      SavePrimitive (relocation_code kByPathFromRoot) s \<bind>
        (\<lambda>s. save_each (\<lambda>i. SavePrimitive (word_of_nat i :: int32)) path s \<bind> SavePrimitive (-1 :: int32))"
    for s using assms by (simp add: SaveSharedFunctionInfo_def)
  show ?thesis unfolding path_bytes_def
    by (subst eq [abs_def]) (intro saves_bind saves_ints saves_primitive)
qed

lemma saves_SharedFunctionInfo_path:
  assumes "\<not> sfi_native (w_sfi w info)" "reaches w r info path"
  shows "saves C (SaveSharedFunctionInfo w info) (path_bytes path)"
  by (rule saves_SharedFunctionInfo [OF assms(1)]) (simp add: sfi_path_reaches [OF assms(2)])

lemma loads_SharedFunctionInfo_path:
  assumes "sfi_root w (w_info_shared_info w) = Some root" "descend w root path = Found info"
    "list_all (\<lambda>i. i < 2 ^ 31) path"
  shows "loads (LoadSharedFunctionInfo w) (path_bytes path) (Some info)"
  unfolding loads_def
proof (intro allI impI)
  fix l :: "'b loader_base_scheme" and rest
  let ?path = "raw_bytes (map (word_of_nat :: nat \<Rightarrow> int32) path) @ le_bytes 4 (-1 :: int32) @ rest"
  assume "input l = path_bytes path @ rest"
  then have "LoadPrimitive l = Some (relocation_code kByPathFromRoot, l\<lparr>input := ?path\<rparr>)"
    by (intro LoadPrimitive_int) (simp add: path_bytes_def)
  with walk_path_found [OF assms(2,3), of "l\<lparr>input := ?path\<rparr>"] assms(1)
  show "LoadSharedFunctionInfo w l = Some (Some info, l\<lparr>input := rest\<rparr>)"
    by (simp add: LoadSharedFunctionInfo_def)
qed


text \<open>The shared info that the isolate that saves finds again itself.\<close>

definition resolved_shared_info :: "'w world_scheme \<Rightarrow> addr \<Rightarrow> addr option" where
  "resolved_shared_info w info =
     (if sfi_native (w_sfi w info) then
        case sfi_builtin_function_id (w_sfi w info) of
          None \<Rightarrow> None
        | Some i \<Rightarrow> if 1 \<le> sint i \<and> sint i < 1 + numberOfIds
            then Some (jsf_shared (w_function w (w_ResolveBuiltinFunction w i))) else None
      else do {
        path \<leftarrow> sfi_path w info [];
        root \<leftarrow> sfi_root w (w_info_shared_info w);
        case descend w root (rev path) of Found i \<Rightarrow> Some i | _ \<Rightarrow> None
      })"

definition shared_info_ok :: "'w world_scheme \<Rightarrow> addr \<Rightarrow> bool" where
  "shared_info_ok w info \<longleftrightarrow> resolved_shared_info w info \<noteq> None \<and>
     (\<forall>path. sfi_path w info [] = Some path \<longrightarrow> list_all (\<lambda>i. i < 2 ^ 31) path)"

lemma transmits_SharedFunctionInfo [transmits_intros]:
  assumes "shared_info_ok w info"
  shows "transmits C (SaveSharedFunctionInfo w info) (LoadSharedFunctionInfo w) (resolved_shared_info w info)"
proof (cases "sfi_native (w_sfi w info)")
  case True
  with assms obtain i where i: "sfi_builtin_function_id (w_sfi w info) = Some i"
    "1 \<le> sint i" "sint i < 1 + numberOfIds"
    by (auto simp: shared_info_ok_def resolved_shared_info_def split: option.splits if_splits)
  have res: "resolved_shared_info w info = Some (jsf_shared (w_function w (w_ResolveBuiltinFunction w i)))"
    using True i by (simp add: resolved_shared_info_def)
  show ?thesis unfolding SaveSharedFunctionInfo_def LoadSharedFunctionInfo_def if_P [OF True] res
    by (rule transmits_bind [OF transmits_primitives(3)])
      (simp add: i, rule transmits_save_last [OF transmits_primitives(3)], simp add: i)
next
  case False
  with assms obtain path root i where path: "sfi_path w info [] = Some path"
    "sfi_root w (w_info_shared_info w) = Some root" "descend w root (rev path) = Found i"
    unfolding shared_info_ok_def resolved_shared_info_def if_not_P [OF False]
    by (cases "sfi_path w info []"; cases "sfi_root w (w_info_shared_info w)")
      (auto split: descent.splits)
  with assms have small: "list_all (\<lambda>i. i < 2 ^ 31) (rev path)" by (simp add: shared_info_ok_def)
  from False path have res: "resolved_shared_info w info = Some i"
    by (simp add: resolved_shared_info_def)
  from path have "sfi_path w info [] = Some (rev (rev path))" by simp
  from saves_SharedFunctionInfo [OF False this]
    loads_SharedFunctionInfo_path [OF path(2,3) small]
  show ?thesis unfolding res transmits_def by blast
qed


section \<open>Functions are found again\<close>

lemma SaveString_part_eq:
  "SaveString_part string offset len = SaveString (string\<lparr>str_units :=
     (if len < 0 then drop offset (str_units string)
      else take (nat len) (drop offset (str_units string)))\<rparr>)"
  by (rule ext) (simp add: SaveString_def SaveString_part_def ToCString_def Let_def)

text \<open>The word in front of a function in its source, and the function that it names among the
  builtins.\<close>

definition original_name :: "SharedFunctionInfo \<Rightarrow> js_string option" where
  "original_name shared = do {
     end_position \<leftarrow> skip_back c_isspace (str_units (sfi_source shared)) (iterations (sfi_start_position shared));
     start_position \<leftarrow> skip_back is_name_char (str_units (sfi_source shared)) end_position;
     Some ((sfi_source shared)\<lparr>str_units :=
       take (end_position - start_position) (drop start_position (str_units (sfi_source shared)))\<rparr>)
   }"

definition found_in_globals ::
  "'w world_scheme \<Rightarrow> FunctionRelocationType \<times> js_string \<times> nat \<Rightarrow> addr option" where
  "found_in_globals w r = (case r of (t, key, index) \<Rightarrow> do {
     constructor \<leftarrow> w_global_GetProperty w (str_units key);
     descriptors \<leftarrow> if t = kByGlobalConstructor then Some (jsf_map_descriptors (w_function w constructor))
       else jsf_prototype_descriptors (w_function w constructor);
     descriptor_value descriptors index
   })"

text \<open>The function which an isolate with the same answers finds for one that was saved;
  \<^const>\<open>None\<close> where the saver or the loader gives up.\<close>

definition resolved_function :: "'w world_scheme \<Rightarrow> addr \<Rightarrow> addr option" where
  "resolved_function w f =
     (let fn = w_function w f; shared = w_sfi w (jsf_shared fn) in
      if HasIndexedBuiltinFunctionId shared
      then map_option (w_ResolveBuiltinFunction w) (sfi_builtin_function_id shared)
      else if relocation_by_name w f \<noteq> None then Some f
      else if \<not> sfi_native shared \<and> \<not> jsf_IsBuiltin fn then
        if \<not> jsf_context_IsNativeContext fn then None
        else GetJSFunctionByStartPosition w (sfi_start_position shared)
      else case search_globals w (jsf_shared fn) (w_global_dictionary w) of
        Some r \<Rightarrow> found_in_globals w r
      | None \<Rightarrow> do {
          name \<leftarrow> original_name shared;
          if str_units name = function_token then None else w_builtins_property w (str_units name)
        })"

text \<open>The strings and indices that are written fit the format.\<close>

definition function_ok :: "'w world_scheme \<Rightarrow> addr \<Rightarrow> bool" where
  "function_ok w f \<longleftrightarrow> resolved_function w f \<noteq> None \<and>
     (\<forall>name. sfi_name (w_sfi w (jsf_shared (w_function w f))) = Some name \<longrightarrow> string_fits name) \<and>
     string_fits (sfi_source (w_sfi w (jsf_shared (w_function w f)))) \<and>
     list_all (\<lambda>e. string_fits (entry_key e)) (w_global_dictionary w) \<and>
     (\<forall>t key index. search_globals w (jsf_shared (w_function w f)) (w_global_dictionary w)
        = Some (t, key, index) \<longrightarrow> index < 2 ^ 31)"

lemma relocation_by_name_Some:
  assumes "relocation_by_name w f = Some (t, name)"
  shows "t = kByNameInContextChain \<and> w_context_Lookup w (str_units name) = LookupContext (Some f) \<or>
    t = kByNameInGlobalObject \<and> w_global_GetProperty w (str_units name) = Some f"
    and "\<exists>n. sfi_name (w_sfi w (jsf_shared (w_function w f))) = Some n \<and> str_units n = str_units name"
  using assms
  by (auto simp: relocation_by_name_def Let_def split: option.splits if_splits lookup_result.splits)

lemma find_index_Some: "find_index p xs = Some i \<Longrightarrow> i < length xs \<and> p (xs ! i)"
  by (induction xs arbitrary: i) (auto split: if_splits)

lemma descriptor_found:
  "find_index (has_shared w shared) ds = Some i \<Longrightarrow>
   \<exists>g. descriptor_value ds i = Some g \<and> jsf_shared (w_function w g) = shared"
  by (auto simp: descriptor_value_def has_shared_def dest!: find_index_Some split: option.splits)

lemma found_by_constructor:
  "w_global_GetProperty w (str_units key) = Some c \<Longrightarrow>
   found_in_globals w (kByGlobalConstructor, key, i) = descriptor_value (jsf_map_descriptors (w_function w c)) i"
  by (simp add: found_in_globals_def)

lemma found_by_prototype:
  "w_global_GetProperty w (str_units key) = Some c \<Longrightarrow>
   jsf_prototype_descriptors (w_function w c) = Some ds \<Longrightarrow>
   found_in_globals w (kByGlobalPrototype, key, i) = descriptor_value ds i"
  by (simp add: found_in_globals_def)

lemma search_globals_Some:
  assumes "search_globals w shared es = Some (t, key, index)"
  shows "(t = kByGlobalConstructor \<or> t = kByGlobalPrototype) \<and> key \<in> entry_key ` set es \<and>
    (\<exists>g. found_in_globals w (t, key, index) = Some g \<and> jsf_shared (w_function w g) = shared)"
  using assms
proof (induction es)
  case (Cons e es)
  show ?case
  proof (cases "search_globals w shared es = Some (t, key, index)")
    case True
    from Cons.IH [OF this] show ?thesis by auto
  next
    case False
    with Cons.prems obtain c where c: "w_global_GetProperty w (str_units (entry_key e)) = Some c"
      by (auto split: if_splits option.splits)
    show ?thesis
    proof (cases "find_index (has_shared w shared) (jsf_map_descriptors (w_function w c))")
      case None
      with Cons.prems False c obtain ds where ds: "jsf_prototype_descriptors (w_function w c) = Some ds"
        "find_index (has_shared w shared) ds = Some index" "t = kByGlobalPrototype" "key = entry_key e"
        by (auto split: if_splits option.splits)
      with descriptor_found [OF ds(2)] found_by_prototype [OF c ds(1)] show ?thesis by auto
    next
      case (Some i)
      with Cons.prems False c have "t = kByGlobalConstructor" "key = entry_key e" "i = index"
        by (auto split: if_splits)
      with descriptor_found [OF Some] found_by_constructor [OF c] show ?thesis by auto
    qed
  qed
qed simp

lemma relocation_code_inject [simp]: "relocation_code a = relocation_code b \<longleftrightarrow> a = b"
  by (cases a; cases b) simp_all

lemma string_fits_reloaded [simp]: "str_units (reloaded_string s) = str_units s"
  by (simp add: reloaded_string_def)

lemmas load_function_simps = relocation_code_inject FunctionRelocationType.distinct string_fits_reloaded

lemma transmits_JSFunction_builtin:
  assumes "HasIndexedBuiltinFunctionId (w_sfi w (jsf_shared (w_function w f)))"
  shows "transmits C (SaveJSFunction w f) (LoadJSFunction w) (resolved_function w f)"
proof -
  let ?shared = "w_sfi w (jsf_shared (w_function w f))"
  from assms obtain i where i: "sfi_builtin_function_id ?shared = Some i" "1 \<le> sint i \<and> sint i < 1 + numberOfIds"
    by (auto simp: HasIndexedBuiltinFunctionId_def split: option.splits)
  have "resolved_function w f = Some (w_ResolveBuiltinFunction w i)"
    using assms i by (simp add: resolved_function_def)
  moreover have "transmits C (SaveJSFunction w f) (LoadJSFunction w) (Some (w_ResolveBuiltinFunction w i))"
    unfolding SaveJSFunction_def LoadJSFunction_def Let_def if_P [OF assms]
    by (rule transmits_bind [OF transmits_primitives(3)])
      (simp add: i load_function_simps, rule transmits_save_last [OF transmits_primitives(3)], simp add: i)
  ultimately show ?thesis by simp
qed

lemma transmits_JSFunction_by_name:
  assumes "function_ok w f" "\<not> HasIndexedBuiltinFunctionId (w_sfi w (jsf_shared (w_function w f)))"
    "relocation_by_name w f = Some (t, n)"
  shows "transmits C (SaveJSFunction w f) (LoadJSFunction w) (resolved_function w f)"
proof -
  from relocation_by_name_Some [OF assms(3)] assms(1) have fits: "string_fits n"
    by (auto simp: function_ok_def string_fits_def)
  have "resolved_function w f = Some f" using assms by (simp add: resolved_function_def)
  moreover have "transmits C (SaveJSFunction w f) (LoadJSFunction w) (Some f)"
    unfolding SaveJSFunction_def LoadJSFunction_def Let_def if_not_P [OF assms(2)] assms(3) option.case prod.case
    apply (rule transmits_bind [OF transmits_primitives(3)])
    using relocation_by_name_Some(1) [OF assms(3)]
    apply (elim disjE conjE)
     apply (simp add: load_function_simps)
     apply (rule transmits_save_last [OF transmits_String [OF fits]], simp)
    apply (simp add: load_function_simps)
    apply (rule transmits_save_last [OF transmits_String [OF fits]], simp)
    done
  ultimately show ?thesis by simp
qed

lemma transmits_JSFunction_by_position:
  assumes "function_ok w f" "\<not> HasIndexedBuiltinFunctionId (w_sfi w (jsf_shared (w_function w f)))"
    "relocation_by_name w f = None"
    "\<not> sfi_native (w_sfi w (jsf_shared (w_function w f))) \<and> \<not> jsf_IsBuiltin (w_function w f)"
  shows "transmits C (SaveJSFunction w f) (LoadJSFunction w) (resolved_function w f)"
proof -
  let ?fn = "w_function w f"
  let ?shared = "w_sfi w (jsf_shared ?fn)"
  from assms have native: "jsf_context_IsNativeContext ?fn" and
    res: "resolved_function w f = GetJSFunctionByStartPosition w (sfi_start_position ?shared)"
    by (auto simp: function_ok_def resolved_function_def Let_def split: if_splits)
  with assms obtain g where g: "GetJSFunctionByStartPosition w (sfi_start_position ?shared) = Some g"
    by (auto simp: function_ok_def)
  have "transmits C (SaveJSFunction w f) (LoadJSFunction w) (Some g)"
    unfolding SaveJSFunction_def LoadJSFunction_def Let_def if_not_P [OF assms(2)] assms(3) option.case
    apply (simp only: assms(4) native if_True if_False not_True_eq_False not_False_eq_True simp_thms)
    apply (rule transmits_bind [OF transmits_primitives(3)])
    apply (simp add: load_function_simps)
    apply (rule transmits_save_last [OF transmits_primitives(3)], simp add: g)
    done
  with res g show ?thesis by simp
qed

lemma transmits_JSFunction_by_global:
  assumes "function_ok w f" "\<not> HasIndexedBuiltinFunctionId (w_sfi w (jsf_shared (w_function w f)))"
    "relocation_by_name w f = None"
    "\<not> (\<not> sfi_native (w_sfi w (jsf_shared (w_function w f))) \<and> \<not> jsf_IsBuiltin (w_function w f))"
    "search_globals w (jsf_shared (w_function w f)) (w_global_dictionary w) = Some (t, key, index)"
  shows "transmits C (SaveJSFunction w f) (LoadJSFunction w) (resolved_function w f)"
proof -
  note found = search_globals_Some [OF assms(5)]
  from found assms(1) have fits: "string_fits key" by (auto simp: function_ok_def list_all_iff)
  have "iterations (word_of_nat index) = index"
    using assms(1,5) by (auto simp: function_ok_def)
  obtain g where g: "found_in_globals w (t, key, index) = Some g" using found by blast
  have res: "resolved_function w f = Some g"
    using assms g by (auto simp: resolved_function_def Let_def)
  have "transmits C (SaveJSFunction w f) (LoadJSFunction w) (Some g)"
    unfolding SaveJSFunction_def LoadJSFunction_def Let_def if_not_P [OF assms(2)] assms(3) option.case
      if_not_P [OF assms(4)] assms(5) prod.case
    apply (rule transmits_bind [OF transmits_primitives(3)])
    using found
    apply (elim conjE disjE)
     apply (simp add: load_function_simps)
     apply (rule transmits_bind [OF transmits_String [OF fits]])
     apply (rule transmits_save_last [OF transmits_primitives(3)])
    using g \<open>iterations (word_of_nat index) = index\<close>
     apply (auto simp: found_in_globals_def bind_eq_Some_conv) [1]
    apply (simp add: load_function_simps)
    apply (rule transmits_bind [OF transmits_String [OF fits]])
    apply (rule transmits_save_last [OF transmits_primitives(3)])
    using g \<open>iterations (word_of_nat index) = index\<close>
    apply (auto simp: found_in_globals_def bind_eq_Some_conv) [1]
    done
  with res show ?thesis by simp
qed

lemma transmits_JSFunction_by_source:
  assumes "function_ok w f" "\<not> HasIndexedBuiltinFunctionId (w_sfi w (jsf_shared (w_function w f)))"
    "relocation_by_name w f = None"
    "\<not> (\<not> sfi_native (w_sfi w (jsf_shared (w_function w f))) \<and> \<not> jsf_IsBuiltin (w_function w f))"
    "search_globals w (jsf_shared (w_function w f)) (w_global_dictionary w) = None"
  shows "transmits C (SaveJSFunction w f) (LoadJSFunction w) (resolved_function w f)"
proof -
  let ?shared = "w_sfi w (jsf_shared (w_function w f))"
  let ?src = "sfi_source ?shared"
  have res: "resolved_function w f = do {
      n \<leftarrow> original_name ?shared;
      if str_units n = function_token then None else w_builtins_property w (str_units n) }"
    unfolding resolved_function_def Let_def if_not_P [OF assms(2)] if_not_P [OF assms(4)] assms(3,5)
    by simp
  with assms(1) obtain n g where n: "original_name ?shared = Some n" "str_units n \<noteq> function_token"
    and g: "w_builtins_property w (str_units n) = Some g"
    by (auto simp: function_ok_def bind_eq_Some_conv split: if_splits)
  then obtain e b where e: "skip_back c_isspace (str_units ?src) (iterations (sfi_start_position ?shared)) = Some e"
    and b: "skip_back is_name_char (str_units ?src) e = Some b"
    and n_eq: "n = ?src\<lparr>str_units := take (e - b) (drop b (str_units ?src))\<rparr>"
    by (auto simp: original_name_def bind_eq_Some_conv)
  have fits: "string_fits n" using assms(1) by (auto simp: n_eq function_ok_def string_fits_def)
  have part: "SaveString_part ?src b (int (e - b)) = SaveString n"
    by (simp add: SaveString_part_eq n_eq)
  have word: "take (e - b) (drop b (str_units ?src)) \<noteq> function_token" using n(2) n_eq by simp
  have "transmits C (SaveJSFunction w f) (LoadJSFunction w) (Some g)"
    unfolding SaveJSFunction_def LoadJSFunction_def Let_def if_not_P [OF assms(2)] assms(3) option.case
      if_not_P [OF assms(4)] assms(5) e b bind.bind_lunit part if_P [OF word]
    apply (rule transmits_bind [OF transmits_primitives(3)])
    apply (simp add: load_function_simps)
    apply (rule transmits_save_last [OF transmits_String [OF fits]], simp add: g)
    done
  with res n g show ?thesis by simp
qed

lemma transmits_JSFunction [transmits_intros]:
  assumes "function_ok w f"
  shows "transmits C (SaveJSFunction w f) (LoadJSFunction w) (resolved_function w f)"
proof (cases "HasIndexedBuiltinFunctionId (w_sfi w (jsf_shared (w_function w f)))")
  case True
  then show ?thesis by (rule transmits_JSFunction_builtin)
next
  case builtin: False
  show ?thesis
  proof (cases "relocation_by_name w f")
    case None
    show ?thesis
    proof (cases "\<not> sfi_native (w_sfi w (jsf_shared (w_function w f))) \<and> \<not> jsf_IsBuiltin (w_function w f)")
      case True
      then show ?thesis by (rule transmits_JSFunction_by_position [OF assms builtin None])
    next
      case native: False
      show ?thesis
      proof (cases "search_globals w (jsf_shared (w_function w f)) (w_global_dictionary w)")
        case unknown: None
        show ?thesis by (rule transmits_JSFunction_by_source [OF assms builtin None native unknown])
      next
        case (Some r)
        then obtain t key index where
          "search_globals w (jsf_shared (w_function w f)) (w_global_dictionary w) = Some (t, key, index)"
          by (cases r) simp
        then show ?thesis by (rule transmits_JSFunction_by_global [OF assms builtin None native])
      qed
    qed
  next
    case (Some r)
    then obtain t n where "relocation_by_name w f = Some (t, n)" by (cases r) simp
    then show ?thesis by (rule transmits_JSFunction_by_name [OF assms builtin])
  qed
qed

section \<open>Properties\<close>

text \<open>The tables of an isolate fit its functions: a builtin function id resolves to the function
  that has it, the functions recorded by start position are at that position, which no other user
  function has, and a property of the builtins object is the function that is defined under its
  name.\<close>

definition world_coherent :: "'w world_scheme \<Rightarrow> bool" where
  "world_coherent w \<longleftrightarrow>
     (\<forall>f i. sfi_builtin_function_id (w_sfi w (jsf_shared (w_function w f))) = Some i \<longrightarrow>
        jsf_shared (w_function w (w_ResolveBuiltinFunction w i)) = jsf_shared (w_function w f)) \<and>
     (\<forall>f g pos. GetJSFunctionByStartPosition w pos = Some g \<longrightarrow>
        sfi_start_position (w_sfi w (jsf_shared (w_function w f))) = pos \<longrightarrow>
        \<not> sfi_native (w_sfi w (jsf_shared (w_function w f))) \<longrightarrow>
        jsf_shared (w_function w g) = jsf_shared (w_function w f)) \<and>
     (\<forall>f n g. original_name (w_sfi w (jsf_shared (w_function w f))) = Some n \<longrightarrow>
        w_builtins_property w (str_units n) = Some g \<longrightarrow>
        jsf_shared (w_function w g) = jsf_shared (w_function w f))"

lemma coherent_builtin:
  "world_coherent w \<Longrightarrow> sfi_builtin_function_id (w_sfi w (jsf_shared (w_function w f))) = Some i \<Longrightarrow>
   jsf_shared (w_function w (w_ResolveBuiltinFunction w i)) = jsf_shared (w_function w f)"
  unfolding world_coherent_def by blast

lemma coherent_position:
  "world_coherent w \<Longrightarrow> \<not> sfi_native (w_sfi w (jsf_shared (w_function w f))) \<Longrightarrow>
   GetJSFunctionByStartPosition w (sfi_start_position (w_sfi w (jsf_shared (w_function w f)))) = Some g \<Longrightarrow>
   jsf_shared (w_function w g) = jsf_shared (w_function w f)"
  unfolding world_coherent_def by blast

lemma coherent_original_name:
  "world_coherent w \<Longrightarrow> original_name (w_sfi w (jsf_shared (w_function w f))) = Some n \<Longrightarrow>
   w_builtins_property w (str_units n) = Some g \<Longrightarrow> jsf_shared (w_function w g) = jsf_shared (w_function w f)"
  unfolding world_coherent_def by blast

lemma resolved_same_code:
  assumes "world_coherent w" "resolved_function w f = Some g"
  shows "jsf_shared (w_function w g) = jsf_shared (w_function w f)"
proof -
  let ?fn = "w_function w f"
  let ?shared = "w_sfi w (jsf_shared ?fn)"
  note res = assms(2) [unfolded resolved_function_def Let_def]
  show ?thesis
  proof (cases "HasIndexedBuiltinFunctionId ?shared")
    case True
    from res [unfolded if_P [OF True]] obtain i where
      i: "sfi_builtin_function_id ?shared = Some i" "g = w_ResolveBuiltinFunction w i" by auto
    from coherent_builtin [OF assms(1) i(1)] i(2) show ?thesis by simp
  next
    case False
    note res = res [unfolded if_not_P [OF False]]
    show ?thesis
    proof (cases "relocation_by_name w f = None")
      case True
      note res = res [unfolded True, simplified]
      show ?thesis
      proof (cases "\<not> sfi_native ?shared \<and> \<not> jsf_IsBuiltin ?fn")
        case True
        with res have "GetJSFunctionByStartPosition w (sfi_start_position ?shared) = Some g"
          by (simp split: if_splits)
        from coherent_position [OF assms(1) _ this] True show ?thesis by simp
      next
        case False
        note res = res [unfolded if_not_P [OF False]]
        show ?thesis
        proof (cases "search_globals w (jsf_shared ?fn) (w_global_dictionary w)")
          case None
          note res = res [unfolded None option.case]
          from res obtain n where n: "original_name ?shared = Some n" "w_builtins_property w (str_units n) = Some g"
            by (auto simp: bind_eq_Some_conv split: if_splits)
          from coherent_original_name [OF assms(1) n] show ?thesis .
        next
          case (Some r)
          obtain t key i where r: "r = (t, key, i)" by (cases r)
          from search_globals_Some [OF Some [unfolded r]] res [unfolded Some option.case] r
          show ?thesis by auto
        qed
      qed
    next
      case False
      then have "g = f" using res by simp
      then show ?thesis by simp
    qed
  qed
qed


text \<open>An isolate of one script: its function at position 0 with two inner functions, of which the
  second is not compiled yet, and the string \<open>f\<close> as the name of the first.\<close>

definition sample_string :: js_string where
  "sample_string = \<lparr>str_units = [102], str_internalized = True\<rparr>"

definition sample_sfi :: "addr \<Rightarrow> SharedFunctionInfo" where
  "sample_sfi a =
     \<lparr>sfi_native = False, sfi_builtin_function_id = None,
      sfi_start_position = if a = 0 then 0 else 10,
      sfi_outer_info = if a = 0 then None else Some 0,
      sfi_inner_infos = if a = 0 then [Some 1, None] else [],
      sfi_name = if a = 1 then Some sample_string else None, sfi_source = sample_string\<rparr>"

definition sample_world :: world where
  "sample_world =
     \<lparr>w_roots = [5], w_symbol_registry = [], w_sfi = sample_sfi,
      w_function = (\<lambda>a. \<lparr>jsf_shared = if a = 7 then 1 else 0, jsf_IsBuiltin = False,
        jsf_context_IsNativeContext = True, jsf_map_descriptors = [],
        jsf_prototype_descriptors = None\<rparr>),
      w_info_shared_info = 1, w_info_closure = 7,
      w_context_Lookup = (\<lambda>name. if name = [102] then LookupContext (Some 7) else LookupNull),
      w_global_GetProperty = (\<lambda>_. None), w_global_dictionary = [],
      w_ResolveBuiltinFunction = (\<lambda>i. 0), w_jsfunctions_by_start_position = [(0, 6), (10, 7)],
      w_builtins_property = (\<lambda>_. None)\<rparr>"

lemma sample_world_simps [simp]:
  "jsf_shared (w_function sample_world a) = (if a = 7 then 1 else 0)"
  "w_sfi sample_world = sample_sfi"
  "sfi_builtin_function_id (sample_sfi a) = None"
  "sfi_start_position (sample_sfi a) = (if a = 0 then 0 else 10)"
  "w_builtins_property sample_world n = None"
  "w_jsfunctions_by_start_position sample_world = [(0, 6), (10, 7)]"
  "w_info_shared_info sample_world = 1"
  "sfi_native (sample_sfi a) = False"
  "sfi_outer_info (sample_sfi a) = (if a = 0 then None else Some 0)"
  "sfi_inner_infos (sample_sfi a) = (if a = 0 then [Some 1, None] else [])"
  "sfi_name (sample_sfi a) = (if a = 1 then Some sample_string else None)"
  by (simp_all add: sample_world_def sample_sfi_def)

lemma sample_coherent: "world_coherent sample_world"
  by (simp add: world_coherent_def GetJSFunctionByStartPosition_def)

lemma sample_function_ok: "function_ok sample_world 7"
proof -
  have "HasIndexedBuiltinFunctionId (sample_sfi a) = False" for a
    by (simp add: HasIndexedBuiltinFunctionId_def)
  moreover have "relocation_by_name sample_world 7 = Some (kByNameInContextChain, sample_string)"
    by (simp add: relocation_by_name_def sample_string_def sample_world_def [THEN arg_cong [of _ _ w_context_Lookup]])
  moreover have "string_fits sample_string" "string_fits (sfi_source (sample_sfi a))" for a
    by (simp_all add: string_fits_def sample_string_def sample_sfi_def)
  moreover have "w_global_dictionary sample_world = []" by (simp add: sample_world_def)
  ultimately show ?thesis by (simp add: function_ok_def resolved_function_def Let_def)
qed



text \<open>The same isolate before any inner function of the script is compiled.\<close>

definition fresh_world :: world where
  "fresh_world = sample_world\<lparr>w_info_shared_info := 0,
     w_sfi := (\<lambda>a. (sample_sfi a)\<lparr>sfi_inner_infos := [None, None]\<rparr>)\<rparr>"


end
