(* ===== verification/Objects.thy ===== *)
theory Objects
  imports Functions LithiumOperands
begin

text \<open>
  Heap objects and maps: \<^verbatim>\<open>SaveObject\<close>, \<^verbatim>\<open>SaveHeapObject\<close>, \<^verbatim>\<open>SaveMap\<close> and what they call in
  \<^verbatim>\<open>src/lithium-saveload.cc\<close>, with their loaders. An object is the tree that the saver walks: what an
  object refers to is part of it, a shared object occurs once for each reference (which is also how
  it is reloaded), and a map is listed with the maps that its back pointers lead to. Only functions,
  shared infos and symbols are references, to the \<open>world\<close> of the theory Functions. A null pointer
  and the small integer 0 are the same tagged word. A handle is an option.

  The loaders of this file that can call \<^verbatim>\<open>LoadObject\<close> take it as an argument; \<open>LoadObject_fuel\<close>
  closes the recursion. Each round reads a type tag, so the number of bytes of the input bounds the
  depth of the recursion, and this bound is the fuel that \<open>LoadObject\<close> starts with.
\<close>

section \<open>Objects\<close>

record map_properties =
  mp_instance_type :: int32
  mp_instance_size :: int32
  mp_inobject_properties :: int32
  mp_unused_property_fields :: int32
  mp_bit_field :: byte
  mp_bit_field2 :: byte
  mp_bit_field3 :: uint32

record regexp_flags =
  re_global :: bool
  re_ignore_case :: bool
  re_multiline :: bool
  re_sticky :: bool

datatype well_known = JS_GLOBAL_OBJECT | JS_GLOBAL_PROXY | JS_BUILTINS_OBJECT | NATIVE_CONTEXT

text \<open>A map that exists already has an address, and none that the loader makes. The descriptors are
  the keys, details and values of its descriptor array; the map's own ones come first and their
  number is a field of \<^verbatim>\<open>bit_field3\<close>. The key is the one in the parent's transition array that
  leads to this map, if there is one.\<close>

datatype obj = OSmi int32 | OHeap heap_obj
and heap_obj =
    HOddball byte
  | HHeapNumber double
  | HSymbol addr
  | HString js_string
  | HJSRegExp js_string regexp_flags
  | HFixedArray "obj list"
  | HFixedDoubleArray "double list"
  | HJSArray int32 obj heap_obj
  | HJSArrayBuffer "byte list"
  | HJSTypedArray int32 "byte list" int32 int32
  | HJSFunction addr
  | HSharedFunctionInfo addr
  | HMap "map_node list"
  | HJSObject "map_node list" heap_obj "obj list"
  | HJSValue "map_node list" heap_obj "obj list" obj
  | HExecutableAccessorInfo obj obj obj
  | HForeign "int32 option"
  | HWellKnown well_known
  | HAllocationSite
  | HAccessorPair
  | HOther int32
and map_node =
    MapNode (mn_address: "addr option") (mn_properties: map_properties)
      (mn_descriptors: "(js_name \<times> uint32 \<times> obj) list")
      (mn_constructor: "addr option") (mn_is_constructors_prototype: bool) (mn_prototype: obj)
      (mn_transition_key: "js_name option")

type_synonym heap_map = "map_node list"

text \<open>What the isolate answers about maps: the map at a root's address, which roots are caches, the
  symbols of special transitions, the child that such a transition already has, whether there is
  room for another transition, the prototype of a function (none, if it has none), whether two maps
  have the same constructor and prototype, and the maps of the heap objects among the properties
  of the global object.\<close>

record heap_world = world +
  w_root_map :: "addr \<Rightarrow> map_node"
  w_is_cache_root :: "uint32 \<Rightarrow> bool"
  w_special_symbols :: "addr list"
  w_special_transition :: "heap_map \<Rightarrow> addr \<Rightarrow> map_node option"
  w_CanHaveMoreTransitions :: "heap_map \<Rightarrow> bool"
  w_function_prototype :: "addr \<Rightarrow> heap_obj option"
  w_same_constructor_and_prototype :: "heap_map \<Rightarrow> heap_map \<Rightarrow> bool"
  w_global_property_maps :: "heap_map list"
  w_harmony_regexps :: bool

subsection \<open>Instance types\<close>

definition SYMBOL_TYPE :: int32 where "SYMBOL_TYPE = 128"
definition STRING_TYPE :: int32 where "STRING_TYPE = 64"
definition MAP_TYPE :: int32 where "MAP_TYPE = 129"
definition ODDBALL_TYPE :: int32 where "ODDBALL_TYPE = 131"
definition HEAP_NUMBER_TYPE :: int32 where "HEAP_NUMBER_TYPE = 134"
definition FOREIGN_TYPE :: int32 where "FOREIGN_TYPE = 136"
definition FIXED_DOUBLE_ARRAY_TYPE :: int32 where "FIXED_DOUBLE_ARRAY_TYPE = 157"
definition EXECUTABLE_ACCESSOR_INFO_TYPE :: int32 where "EXECUTABLE_ACCESSOR_INFO_TYPE = 161"
definition ACCESSOR_PAIR_TYPE :: int32 where "ACCESSOR_PAIR_TYPE = 162"
definition ALLOCATION_SITE_TYPE :: int32 where "ALLOCATION_SITE_TYPE = 170"
definition FIXED_ARRAY_TYPE :: int32 where "FIXED_ARRAY_TYPE = 180"
definition SHARED_FUNCTION_INFO_TYPE :: int32 where "SHARED_FUNCTION_INFO_TYPE = 182"
definition JS_VALUE_TYPE :: int32 where "JS_VALUE_TYPE = 186"
definition JS_OBJECT_TYPE :: int32 where "JS_OBJECT_TYPE = 189"
definition JS_GLOBAL_OBJECT_TYPE :: int32 where "JS_GLOBAL_OBJECT_TYPE = 193"
definition JS_BUILTINS_OBJECT_TYPE :: int32 where "JS_BUILTINS_OBJECT_TYPE = 194"
definition JS_GLOBAL_PROXY_TYPE :: int32 where "JS_GLOBAL_PROXY_TYPE = 195"
definition JS_ARRAY_TYPE :: int32 where "JS_ARRAY_TYPE = 196"
definition JS_ARRAY_BUFFER_TYPE :: int32 where "JS_ARRAY_BUFFER_TYPE = 197"
definition JS_TYPED_ARRAY_TYPE :: int32 where "JS_TYPED_ARRAY_TYPE = 198"
definition JS_REGEXP_TYPE :: int32 where "JS_REGEXP_TYPE = 206"
definition JS_FUNCTION_TYPE :: int32 where "JS_FUNCTION_TYPE = 207"
definition NATIVE_CONTEXT_TYPE :: int32 where "NATIVE_CONTEXT_TYPE = JS_FUNCTION_TYPE + 1"

lemmas instance_type_defs = SYMBOL_TYPE_def STRING_TYPE_def MAP_TYPE_def ODDBALL_TYPE_def
  HEAP_NUMBER_TYPE_def FOREIGN_TYPE_def FIXED_DOUBLE_ARRAY_TYPE_def
  EXECUTABLE_ACCESSOR_INFO_TYPE_def ACCESSOR_PAIR_TYPE_def ALLOCATION_SITE_TYPE_def
  FIXED_ARRAY_TYPE_def SHARED_FUNCTION_INFO_TYPE_def JS_VALUE_TYPE_def JS_OBJECT_TYPE_def
  JS_GLOBAL_OBJECT_TYPE_def JS_BUILTINS_OBJECT_TYPE_def JS_GLOBAL_PROXY_TYPE_def
  JS_ARRAY_TYPE_def JS_ARRAY_BUFFER_TYPE_def JS_TYPED_ARRAY_TYPE_def JS_REGEXP_TYPE_def
  JS_FUNCTION_TYPE_def NATIVE_CONTEXT_TYPE_def

text \<open>\<^verbatim>\<open>DetailedInstanceType\<close>, normalized; an object of another type is \<open>HOther\<close>.\<close>

fun detailed_type :: "heap_obj \<Rightarrow> int32" where
  "detailed_type (HOddball _) = ODDBALL_TYPE"
| "detailed_type (HHeapNumber _) = HEAP_NUMBER_TYPE"
| "detailed_type (HSymbol _) = SYMBOL_TYPE"
| "detailed_type (HString _) = STRING_TYPE"
| "detailed_type (HJSRegExp _ _) = JS_REGEXP_TYPE"
| "detailed_type (HFixedArray _) = FIXED_ARRAY_TYPE"
| "detailed_type (HFixedDoubleArray _) = FIXED_DOUBLE_ARRAY_TYPE"
| "detailed_type (HJSArray _ _ _) = JS_ARRAY_TYPE"
| "detailed_type (HJSArrayBuffer _) = JS_ARRAY_BUFFER_TYPE"
| "detailed_type (HJSTypedArray _ _ _ _) = JS_TYPED_ARRAY_TYPE"
| "detailed_type (HJSFunction _) = JS_FUNCTION_TYPE"
| "detailed_type (HSharedFunctionInfo _) = SHARED_FUNCTION_INFO_TYPE"
| "detailed_type (HMap _) = MAP_TYPE"
| "detailed_type (HJSObject _ _ _) = JS_OBJECT_TYPE"
| "detailed_type (HJSValue _ _ _ _) = JS_VALUE_TYPE"
| "detailed_type (HExecutableAccessorInfo _ _ _) = EXECUTABLE_ACCESSOR_INFO_TYPE"
| "detailed_type (HForeign _) = FOREIGN_TYPE"
| "detailed_type (HWellKnown JS_GLOBAL_OBJECT) = JS_GLOBAL_OBJECT_TYPE"
| "detailed_type (HWellKnown JS_GLOBAL_PROXY) = JS_GLOBAL_PROXY_TYPE"
| "detailed_type (HWellKnown JS_BUILTINS_OBJECT) = JS_BUILTINS_OBJECT_TYPE"
| "detailed_type (HWellKnown NATIVE_CONTEXT) = NATIVE_CONTEXT_TYPE"
| "detailed_type HAllocationSite = ALLOCATION_SITE_TYPE"
| "detailed_type HAccessorPair = ACCESSOR_PAIR_TYPE"
| "detailed_type (HOther t) = t"

definition HEAP_OBJECT_TYPE :: uint32 where "HEAP_OBJECT_TYPE = 0"
definition SMI_TYPE :: uint32 where "SMI_TYPE = 1"
definition NULL_TYPE :: uint32 where "NULL_TYPE = 2"

definition kTrue :: byte where "kTrue = 1"
definition kFalse :: byte where "kFalse = 0"
definition kTheHole :: byte where "kTheHole = 2"
definition kNull :: byte where "kNull = 3"
definition kUndefined :: byte where "kUndefined = 5"
definition kUninitialized :: byte where "kUninitialized = 6"
definition kException :: byte where "kException = 8"

definition undefined_value :: obj where "undefined_value = OHeap (HOddball kUndefined)"
definition null_value :: obj where "null_value = OHeap (HOddball kNull)"

section \<open>Leaves\<close>

definition SaveOddball :: "byte \<Rightarrow> 'a saver_base_scheme \<Rightarrow> 'a saver_base_scheme option" where
  "SaveOddball kind = SavePrimitive kind"

definition LoadOddball :: "'a loader_base_scheme \<Rightarrow> (heap_obj \<times> 'a loader_base_scheme) option" where
  "LoadOddball l = do {
     (kind, l) \<leftarrow> LoadPrimitive l;
     if kind \<in> {kUndefined, kTheHole, kNull, kTrue, kFalse, kUninitialized, kException}
     then Some (HOddball kind, l) else None
   }"

definition SaveHeapNumber :: "double \<Rightarrow> 'a saver_base_scheme \<Rightarrow> 'a saver_base_scheme option" where
  "SaveHeapNumber v = SavePrimitive v"

definition LoadHeapNumber :: "'a loader_base_scheme \<Rightarrow> (heap_obj \<times> 'a loader_base_scheme) option" where
  "LoadHeapNumber l = do { (v, l) \<leftarrow> LoadPrimitive l; Some (HHeapNumber v, l) }"

text \<open>The flags of a regular expression are written as a string that is not internalized.\<close>

definition regexp_flag_chars :: "regexp_flags \<Rightarrow> byte list" where
  "regexp_flag_chars f =
     (if re_global f then [103] else []) @ (if re_ignore_case f then [105] else []) @
     (if re_multiline f then [109] else []) @ (if re_sticky f then [121] else [])"

definition SaveJSRegExp ::
  "js_string \<Rightarrow> regexp_flags \<Rightarrow> 'a saver_base_scheme \<Rightarrow> 'a saver_base_scheme option" where
  "SaveJSRegExp pattern f s = do {
     s \<leftarrow> SaveString pattern s;
     s \<leftarrow> SavePrimitive (of_bool (re_global f) + of_bool (re_ignore_case f) +
                        of_bool (re_multiline f) + of_bool (re_sticky f) :: size_t) s;
     s \<leftarrow> if re_global f then SavePrimitive (103 :: byte) s else Some s;
     s \<leftarrow> if re_ignore_case f then SavePrimitive (105 :: byte) s else Some s;
     s \<leftarrow> if re_multiline f then SavePrimitive (109 :: byte) s else Some s;
     s \<leftarrow> if re_sticky f then SavePrimitive (121 :: byte) s else Some s;
     s \<leftarrow> SaveFalse s;
     Some s
   }"

text \<open>The constructor of \<^verbatim>\<open>src/regexp.js\<close> goes through the flags and throws at an unknown or repeated
  one, which \<^verbatim>\<open>ToHandleChecked\<close> turns into a crash.\<close>

fun regexp_flags_of :: "bool \<Rightarrow> uint16 list \<Rightarrow> regexp_flags \<Rightarrow> regexp_flags option" where
  "regexp_flags_of harmony [] f = Some f"
| "regexp_flags_of harmony (c # cs) f =
     (if c = 103 then if re_global f then None else regexp_flags_of harmony cs (f\<lparr>re_global := True\<rparr>)
      else if c = 105 then if re_ignore_case f then None
        else regexp_flags_of harmony cs (f\<lparr>re_ignore_case := True\<rparr>)
      else if c = 109 then if re_multiline f then None
        else regexp_flags_of harmony cs (f\<lparr>re_multiline := True\<rparr>)
      else if c = 121 then if \<not> harmony \<or> re_sticky f then None
        else regexp_flags_of harmony cs (f\<lparr>re_sticky := True\<rparr>)
      else None)"

definition NewJSRegExp :: "'w heap_world_scheme \<Rightarrow> js_string \<Rightarrow> js_string \<Rightarrow> heap_obj option" where
  "NewJSRegExp w pattern flags =
     map_option (HJSRegExp pattern) (regexp_flags_of (w_harmony_regexps w) (str_units flags)
       \<lparr>re_global = False, re_ignore_case = False, re_multiline = False, re_sticky = False\<rparr>)"

definition LoadJSRegExp ::
  "'w heap_world_scheme \<Rightarrow> 'a loader_base_scheme \<Rightarrow> (heap_obj \<times> 'a loader_base_scheme) option" where
  "LoadJSRegExp w l = do {
     (pattern, l) \<leftarrow> LoadString l;
     (flags, l) \<leftarrow> LoadString l;
     regexp \<leftarrow> NewJSRegExp w pattern flags;
     Some (regexp, l)
   }"

definition SaveFixedDoubleArray ::
  "double list \<Rightarrow> 'a saver_base_scheme \<Rightarrow> 'a saver_base_scheme option" where
  "SaveFixedDoubleArray ds s = do {
     s \<leftarrow> SavePrimitive (int_length ds) s;
     s \<leftarrow> save_each SavePrimitive ds s;
     Some s
   }"

text \<open>\<^verbatim>\<open>NewFixedDoubleArray\<close> gives the empty fixed array for the length 0, and the cast is undefined
  only for an array with elements. A negative length crashes in the allocator. \<^verbatim>\<open>set\<close> stores the
  canonical NaN for every NaN, also for the one that marks a hole.\<close>

definition is_nan :: "double \<Rightarrow> bool" where
  "is_nan d \<longleftrightarrow> d AND 0x7FF0000000000000 = 0x7FF0000000000000 \<and> d AND 0x000FFFFFFFFFFFFF \<noteq> 0"

definition canonical_not_the_hole_nan :: double where
  "canonical_not_the_hole_nan = 0x7FF8000000000000"

definition kHoleNanInt64 :: double where
  "kHoleNanInt64 = 0x7FFFFFFFFFFFFFFF"

definition FixedDoubleArray_set :: "double \<Rightarrow> double" where
  "FixedDoubleArray_set d = (if is_nan d then canonical_not_the_hole_nan else d)"

definition LoadFixedDoubleArray ::
  "'a loader_base_scheme \<Rightarrow> (heap_obj \<times> 'a loader_base_scheme) option" where
  "LoadFixedDoubleArray l = do {
     (len, l) \<leftarrow> LoadPrimitive l;
     if sint (len :: int32) < 0 then None
     else do {
       (ds, l) \<leftarrow> load_each LoadPrimitive (iterations len) l;
       Some (if ds = [] then HFixedArray [] else HFixedDoubleArray (map FixedDoubleArray_set ds), l)
     }
   }"

definition SaveJSArrayBuffer :: "byte list \<Rightarrow> 'a saver_base_scheme \<Rightarrow> 'a saver_base_scheme option" where
  "SaveJSArrayBuffer content = SavePrimitiveArray content"

definition LoadJSArrayBuffer ::
  "'a loader_base_scheme \<Rightarrow> (byte list \<times> 'a loader_base_scheme) option" where
  "LoadJSArrayBuffer l = LoadPrimitiveArray l"

definition SaveJSTypedArray ::
  "int32 \<Rightarrow> byte list \<Rightarrow> int32 \<Rightarrow> int32 \<Rightarrow> 'a saver_base_scheme \<Rightarrow> 'a saver_base_scheme option" where
  "SaveJSTypedArray t content byte_offset len s = do {
     s \<leftarrow> SavePrimitive t s;
     s \<leftarrow> SaveJSArrayBuffer content s;
     RETURN_ON_FAIL s (do {
       s \<leftarrow> SavePrimitive (scast byte_offset :: size_t) s;
       s \<leftarrow> SavePrimitive (scast len :: size_t) s;
       Some s
     })
   }"

definition LoadJSTypedArray ::
  "'a loader_base_scheme \<Rightarrow> (heap_obj \<times> 'a loader_base_scheme) option" where
  "LoadJSTypedArray l = do {
     (t, l) \<leftarrow> LoadPrimitive l;
     (content, l) \<leftarrow> LoadJSArrayBuffer l;
     (byte_offset, l) \<leftarrow> LoadPrimitive l;
     (len, l) \<leftarrow> LoadPrimitive l;
     Some (HJSTypedArray t content (ucast (byte_offset :: size_t)) (ucast (len :: size_t)), l)
   }"

text \<open>\<^verbatim>\<open>SaveForeign\<close> finds out which predefined accessor a foreign address is, if any, and saves its
  number among \<open>descriptorCount\<close> many.\<close>

definition descriptorCount :: int32 where
  "descriptorCount = 44"

definition SaveForeign :: "int32 option \<Rightarrow> 'a saver_base_scheme \<Rightarrow> 'a saver_base_scheme option" where
  "SaveForeign accessor s = (case accessor of None \<Rightarrow> None | Some accessor_id \<Rightarrow> SavePrimitive accessor_id s)"

definition LoadForeign :: "'a loader_base_scheme \<Rightarrow> (heap_obj \<times> 'a loader_base_scheme) option" where
  "LoadForeign l = do {
     (accessor_id, l) \<leftarrow> LoadPrimitive l;
     if unat accessor_id < unat descriptorCount then Some (HForeign (Some accessor_id), l) else None
   }"

definition SaveTypeFeedbackVector ::
  "int32 \<Rightarrow> int32 \<Rightarrow> 'a saver_base_scheme \<Rightarrow> 'a saver_base_scheme option" where
  "SaveTypeFeedbackVector slots ic_slots s = do {
     s \<leftarrow> SavePrimitive slots s;
     s \<leftarrow> SavePrimitive ic_slots s;
     Some s
   }"

definition LoadTypeFeedbackVector ::
  "'a loader_base_scheme \<Rightarrow> ((int32 \<times> int32) \<times> 'a loader_base_scheme) option" where
  "LoadTypeFeedbackVector l = do {
     (slots, l) \<leftarrow> LoadPrimitive l;
     (ic_slots, l) \<leftarrow> LoadPrimitive l;
     Some ((slots, ic_slots), l)
   }"


section \<open>Saving maps\<close>

text \<open>\<^verbatim>\<open>GetStableRootIndex\<close>; a map without an address is not a root.\<close>

definition GetStableRootIndex :: "'w heap_world_scheme \<Rightarrow> map_node \<Rightarrow> uint32" where
  "GetStableRootIndex w m =
     (case mn_address m of
        None \<Rightarrow> kNotFound w
      | Some a \<Rightarrow>
          let index = RootIndex w a
          in if index \<noteq> kNotFound w \<and> w_is_cache_root w index then kNotFound w else index)"

definition NumberOfOwnDescriptors :: "map_properties \<Rightarrow> nat" where
  "NumberOfOwnDescriptors p = unat (BitField_decode 10 10 (mp_bit_field3 p))"

abbreviation own_count :: "map_node \<Rightarrow> nat" where
  "own_count m \<equiv> NumberOfOwnDescriptors (mn_properties m)"

definition own_descriptors :: "map_node \<Rightarrow> (js_name \<times> uint32 \<times> obj) list" where
  "own_descriptors m = take (own_count m) (mn_descriptors m)"

text \<open>Reading behind the end of the descriptor array is a crash.\<close>

definition SavePropertiesOnEnter ::
  "'w heap_world_scheme \<Rightarrow> map_node \<Rightarrow> 'a saver_base_scheme \<Rightarrow> 'a saver_base_scheme option" where
  "SavePropertiesOnEnter w m s = do {
     let p = mn_properties m;
     s \<leftarrow> SavePrimitive (mp_instance_type p) s;
     s \<leftarrow> SavePrimitive (mp_instance_size p) s;
     s \<leftarrow> SavePrimitive (mp_inobject_properties p) s;
     s \<leftarrow> SavePrimitive (mp_unused_property_fields p) s;
     s \<leftarrow> SavePrimitive (mp_bit_field p) s;
     s \<leftarrow> SavePrimitive (mp_bit_field2 p) s;
     s \<leftarrow> SavePrimitive (mp_bit_field3 p) s;
     s \<leftarrow> SavePrimitive (word_of_nat (own_count m) :: int32) s;
     if own_count m \<le> length (mn_descriptors m) then
       save_each (\<lambda>(key, details, v) s. do {
           s \<leftarrow> SaveName w key s;
           s \<leftarrow> SavePrimitive details s;
           Some s
         }) (own_descriptors m) s
     else None
   }"

definition EnterMap ::
  "'w heap_world_scheme \<Rightarrow> map_node \<Rightarrow> 'a saver_base_scheme \<Rightarrow> 'a saver_base_scheme option" where
  "EnterMap w m s =
     SavePropertiesOnEnter w m (s\<lparr>map_cache := map_cache s @ (case mn_address m of None \<Rightarrow> [] | Some a \<Rightarrow> [a])\<rparr>)"

definition SavePropertiesOnExit ::
  "(obj \<Rightarrow> 'a saver_base_scheme \<Rightarrow> 'a saver_base_scheme option) \<Rightarrow> 'w heap_world_scheme \<Rightarrow> map_node
   \<Rightarrow> 'a saver_base_scheme \<Rightarrow> 'a saver_base_scheme option" where
  "SavePropertiesOnExit sv w m s = do {
     s \<leftarrow> save_each (\<lambda>(key, details, v). sv v) (own_descriptors m) s;
     case mn_constructor m of
       Some f \<Rightarrow>
         if mn_is_constructors_prototype m then do {
           s \<leftarrow> SaveTrue s;
           SaveJSFunction w f s
         } else do {
           s \<leftarrow> SaveFalse s;
           sv (mn_prototype m) s
         }
     | None \<Rightarrow> do {
         s \<leftarrow> SaveFalse s;
         sv (mn_prototype m) s
       }
   }"

definition ExitMap ::
  "(obj \<Rightarrow> 'a saver_base_scheme \<Rightarrow> 'a saver_base_scheme option) \<Rightarrow> 'w heap_world_scheme \<Rightarrow> map_node
   \<Rightarrow> 'a saver_base_scheme \<Rightarrow> 'a saver_base_scheme option" where
  "ExitMap sv w m s = do {
     s \<leftarrow> SavePropertiesOnExit sv w m s;
     Some (s\<lparr>map_cache := (if mn_address m = None then map_cache s else butlast (map_cache s))\<rparr>)
   }"

definition CreateMapChain ::
  "heap_map \<Rightarrow> 'a saver_base_scheme \<Rightarrow> bool \<times> 'a saver_base_scheme" where
  "CreateMapChain chain s =
     (if list_ex (\<lambda>m. case mn_address m of None \<Rightarrow> False | Some a \<Rightarrow> a \<in> set (map_cache s)) chain
      then (False, Fail ''cyclic map chains'' s) else (True, s))"

definition IsSpecialTransition :: "'w heap_world_scheme \<Rightarrow> js_name \<Rightarrow> bool" where
  "IsSpecialTransition w key =
     (case key of NameString _ \<Rightarrow> False | NameSymbol a \<Rightarrow> a \<in> set (w_special_symbols w))"

definition transition_key :: "map_node \<Rightarrow> map_node \<Rightarrow> js_name option" where
  "transition_key parent m =
     (if own_count parent + 1 = own_count m then
        if own_count parent < length (mn_descriptors m)
        then Some (fst (mn_descriptors m ! own_count parent)) else None
      else mn_transition_key m)"

text \<open>\<^verbatim>\<open>Search\<close> gives the number of the descriptor with the key among the map's own, or -1.\<close>

definition descriptor_Search :: "js_name \<Rightarrow> map_node \<Rightarrow> int32" where
  "descriptor_Search key m =
     (case find_index (\<lambda>d. fst d = key) (own_descriptors m) of None \<Rightarrow> -1 | Some i \<Rightarrow> word_of_nat i)"

definition save_transition ::
  "(obj \<Rightarrow> 'a saver_base_scheme \<Rightarrow> 'a saver_base_scheme option) \<Rightarrow> 'w heap_world_scheme
   \<Rightarrow> map_node \<Rightarrow> map_node \<Rightarrow> 'a saver_base_scheme \<Rightarrow> 'a saver_base_scheme option" where
  "save_transition sv w parent m s = do {
     s \<leftarrow> EnterMap w m s;
     if own_count m = 0 then do {
       s \<leftarrow> SaveTrue s;
       ExitMap sv w m s
     } else do {
       s \<leftarrow> SaveFalse s;
       key \<leftarrow> transition_key parent m;
       if IsSpecialTransition w key then do {
         s \<leftarrow> SaveTrue s;
         s \<leftarrow> SaveName w key s;
         ExitMap sv w m s
       } else do {
         s \<leftarrow> SaveFalse s;
         s \<leftarrow> SavePrimitive (descriptor_Search key m) s;
         ExitMap sv w m s
       }
     }
   }"

text \<open>The loop goes from the root of the chain to its leaf; here the chain is given in that order.\<close>

fun save_transitions ::
  "(obj \<Rightarrow> 'a saver_base_scheme \<Rightarrow> 'a saver_base_scheme option) \<Rightarrow> 'w heap_world_scheme
   \<Rightarrow> map_node \<Rightarrow> map_node list \<Rightarrow> 'a saver_base_scheme \<Rightarrow> 'a saver_base_scheme option" where
  "save_transitions sv w parent [] s = Some s"
| "save_transitions sv w parent (m # ms) s =
     RETURN_ON_FAIL s (do {
       s \<leftarrow> save_transition sv w parent m s;
       save_transitions sv w m ms s
     })"

definition SaveMap_with ::
  "(obj \<Rightarrow> 'a saver_base_scheme \<Rightarrow> 'a saver_base_scheme option) \<Rightarrow> 'w heap_world_scheme
   \<Rightarrow> heap_map \<Rightarrow> 'a saver_base_scheme \<Rightarrow> 'a saver_base_scheme option" where
  "SaveMap_with sv w chain s =
     (case CreateMapChain chain s of
        (False, s) \<Rightarrow> Some s
      | (True, s) \<Rightarrow>
          (case rev chain of
             [] \<Rightarrow> None
           | root_map # ms \<Rightarrow> do {
               let root_index = GetStableRootIndex w root_map;
               s \<leftarrow> SavePrimitive root_index s;
               s \<leftarrow> if root_index = kNotFound w then do {
                      s \<leftarrow> EnterMap w root_map s;
                      ExitMap sv w root_map s
                    } else Some s;
               s \<leftarrow> SavePrimitive (int_length chain - 1) s;
               save_transitions sv w root_map ms s
             }))"

text \<open>What a map's own save function is applied to, for the termination of the recursion.\<close>

definition node_values :: "map_node \<Rightarrow> obj set" where
  "node_values m = insert (mn_prototype m) ((\<lambda>d. snd (snd d)) ` set (mn_descriptors m))"

lemma own_descriptor_value:
  "(key, details, v) \<in> set (own_descriptors m) \<Longrightarrow> v \<in> node_values m"
  unfolding node_values_def own_descriptors_def by (force dest: in_set_takeD)

lemma ExitMap_cong:
  assumes "\<And>v s. v \<in> node_values m \<Longrightarrow> f v s = g v s"
  shows "ExitMap f w m = ExitMap g w m"
proof -
  have "save_each (\<lambda>(key, details, v). f v) (own_descriptors m) s
      = save_each (\<lambda>(key, details, v). g v) (own_descriptors m) s" for s
    by (rule save_each_cong) (auto intro!: assms dest: own_descriptor_value)
  moreover have "f (mn_prototype m) = g (mn_prototype m)"
    by (rule ext) (simp add: assms node_values_def)
  ultimately have "SavePropertiesOnExit f w m = SavePropertiesOnExit g w m"
    by (intro ext) (simp add: SavePropertiesOnExit_def cong: if_cong option.case_cong)
  then show ?thesis by (intro ext) (simp add: ExitMap_def)
qed

lemma save_transitions_cong:
  assumes "\<And>m v s. m \<in> set ms \<Longrightarrow> v \<in> node_values m \<Longrightarrow> f v s = g v s"
  shows "save_transitions f w parent ms = save_transitions g w parent ms"
  using assms
proof (induction ms arbitrary: parent)
  case (Cons m ms)
  have "save_transitions f w m ms = save_transitions g w m ms"
    by (rule Cons.IH) (rule Cons.prems, auto)
  moreover have "ExitMap f w m = ExitMap g w m"
    by (rule ExitMap_cong) (rule Cons.prems, auto)
  ultimately show ?case by (intro ext) (simp add: save_transition_def cong: if_cong)
qed (simp add: fun_eq_iff)

lemma SaveMap_with_cong [fundef_cong]:
  assumes "w = w'" "chain = chain'" "s = s'"
    and vals: "\<And>m v s. m \<in> set chain' \<Longrightarrow> v \<in> node_values m \<Longrightarrow> f v s = g v s"
  shows "SaveMap_with f w chain s = SaveMap_with g w' chain' s'"
proof -
  have "save_transitions f w' r ms = save_transitions g w' r ms \<and> ExitMap f w' r = ExitMap g w' r"
    if "rev chain' = r # ms" for r ms
  proof -
    from that have chain: "set chain' = insert r (set ms)" by (metis list.simps(15) set_rev)
    have "save_transitions f w' r ms = save_transitions g w' r ms"
      by (rule save_transitions_cong) (rule vals, simp_all add: chain)
    moreover have "ExitMap f w' r = ExitMap g w' r"
      by (rule ExitMap_cong) (rule vals, simp_all add: chain)
    ultimately show ?thesis by simp
  qed
  then show ?thesis
    unfolding SaveMap_with_def assms(1-3)
    by (auto simp: Let_def split: prod.splits bool.splits list.splits cong: if_cong)
qed

section \<open>Saving objects\<close>

lemma descriptor_value_size:
  "d \<in> set ds \<Longrightarrow> size (snd (snd d)) \<le> size_list (size_prod (\<lambda>x. 0) (size_prod (\<lambda>x. 0) size)) ds"
  by (induction ds) (auto simp: prod.size_gen_o_map)

lemma node_values_size: "v \<in> node_values m \<Longrightarrow> size v < size m"
  by (cases m) (auto simp: node_values_def dest!: descriptor_value_size)

lemma map_values_size [termination_simp]:
  "m \<in> set chain \<Longrightarrow> v \<in> node_values m \<Longrightarrow> size v < size_list size chain"
  using node_values_size [of v m] by (induction chain) auto

definition SaveFixedArrayData ::
  "(obj \<Rightarrow> 'a saver_base_scheme \<Rightarrow> 'a saver_base_scheme option) \<Rightarrow> obj list
   \<Rightarrow> 'a saver_base_scheme \<Rightarrow> 'a saver_base_scheme option" where
  "SaveFixedArrayData sv xs = foldr (\<lambda>x k s. do { s \<leftarrow> sv x s; RETURN_ON_FAIL s (k s) }) xs Some"

lemma SaveFixedArrayData_simps [simp]:
  "SaveFixedArrayData sv [] s = Some s"
  "SaveFixedArrayData sv (x # xs) s =
     Option.bind (sv x s) (\<lambda>s. RETURN_ON_FAIL s (SaveFixedArrayData sv xs s))"
  by (simp_all add: SaveFixedArrayData_def)

definition SaveFixedArray_with ::
  "(obj \<Rightarrow> 'a saver_base_scheme \<Rightarrow> 'a saver_base_scheme option) \<Rightarrow> obj list
   \<Rightarrow> 'a saver_base_scheme \<Rightarrow> 'a saver_base_scheme option" where
  "SaveFixedArray_with sv xs s = do {
     s \<leftarrow> SavePrimitive (int_length xs) s;
     SaveFixedArrayData sv xs s
   }"

definition SaveFixedArrayBase_with ::
  "(obj \<Rightarrow> 'a saver_base_scheme \<Rightarrow> 'a saver_base_scheme option) \<Rightarrow> heap_obj
   \<Rightarrow> 'a saver_base_scheme \<Rightarrow> 'a saver_base_scheme option" where
  "SaveFixedArrayBase_with sv array s =
     (case array of
        HFixedArray xs \<Rightarrow> do {
          s \<leftarrow> SavePrimitive FIXED_ARRAY_TYPE s;
          SaveFixedArray_with sv xs s
        }
      | HFixedDoubleArray ds \<Rightarrow> do {
          s \<leftarrow> SavePrimitive FIXED_DOUBLE_ARRAY_TYPE s;
          SaveFixedDoubleArray ds s
        }
      | _ \<Rightarrow> None)"

definition SaveJSArray_with ::
  "(obj \<Rightarrow> 'a saver_base_scheme \<Rightarrow> 'a saver_base_scheme option) \<Rightarrow> int32 \<Rightarrow> obj \<Rightarrow> heap_obj
   \<Rightarrow> 'a saver_base_scheme \<Rightarrow> 'a saver_base_scheme option" where
  "SaveJSArray_with sv elements_kind len elements s = do {
     s \<leftarrow> SavePrimitive elements_kind s;
     s \<leftarrow> sv len s;
     RETURN_ON_FAIL s
       (if len \<noteq> OSmi 0 then SaveFixedArrayBase_with sv elements s else Some s)
   }"

definition SaveJSObject_with ::
  "(obj \<Rightarrow> 'a saver_base_scheme \<Rightarrow> 'a saver_base_scheme option) \<Rightarrow> 'w heap_world_scheme
   \<Rightarrow> heap_map \<Rightarrow> heap_obj \<Rightarrow> obj list \<Rightarrow> 'a saver_base_scheme \<Rightarrow> 'a saver_base_scheme option" where
  "SaveJSObject_with sv w m elements properties s = do {
     s \<leftarrow> SaveMap_with sv w m s;
     RETURN_ON_FAIL s (do {
       s \<leftarrow> SaveFixedArrayBase_with sv elements s;
       RETURN_ON_FAIL s (do {
         s \<leftarrow> SaveFixedArray_with sv properties s;
         RETURN_ON_FAIL s (Some s)
       })
     })
   }"

definition SaveJSValue_with ::
  "(obj \<Rightarrow> 'a saver_base_scheme \<Rightarrow> 'a saver_base_scheme option) \<Rightarrow> 'w heap_world_scheme
   \<Rightarrow> heap_map \<Rightarrow> heap_obj \<Rightarrow> obj list \<Rightarrow> obj \<Rightarrow> 'a saver_base_scheme \<Rightarrow> 'a saver_base_scheme option" where
  "SaveJSValue_with sv w m elements properties v s = do {
     s \<leftarrow> SaveJSObject_with sv w m elements properties s;
     sv v s
   }"

definition SaveExecutableAccessorInfo_with ::
  "(obj \<Rightarrow> 'a saver_base_scheme \<Rightarrow> 'a saver_base_scheme option) \<Rightarrow> obj \<Rightarrow> obj \<Rightarrow> obj
   \<Rightarrow> 'a saver_base_scheme \<Rightarrow> 'a saver_base_scheme option" where
  "SaveExecutableAccessorInfo_with sv getter setter data s = do {
     s \<leftarrow> sv getter s;
     s \<leftarrow> sv setter s;
     sv data s
   }"

lemma SaveFixedArrayData_cong:
  "(\<And>x s. x \<in> set xs \<Longrightarrow> f x s = g x s) \<Longrightarrow> SaveFixedArrayData f xs = SaveFixedArrayData g xs"
proof (induction xs)
  case (Cons x xs)
  then have "SaveFixedArrayData f xs = SaveFixedArrayData g xs" by simp
  with Cons.prems show ?case by (intro ext) simp
qed (simp add: fun_eq_iff)

lemma SaveFixedArray_with_cong [fundef_cong]:
  assumes "xs = ys" "s = t" "\<And>x s. x \<in> set ys \<Longrightarrow> f x s = g x s"
  shows "SaveFixedArray_with f xs s = SaveFixedArray_with g ys t"
  using SaveFixedArrayData_cong [of ys f g, OF assms(3)] assms(1,2) by (simp add: SaveFixedArray_with_def)

lemma SaveFixedArrayBase_with_cong [fundef_cong]:
  assumes "h = h'" "s = t" "\<And>xs x s. h' = HFixedArray xs \<Longrightarrow> x \<in> set xs \<Longrightarrow> f x s = g x s"
  shows "SaveFixedArrayBase_with f h s = SaveFixedArrayBase_with g h' t"
proof (cases h')
  case (HFixedArray xs)
  then have "SaveFixedArray_with f xs = SaveFixedArray_with g xs"
    using assms(3) by (intro ext SaveFixedArray_with_cong) auto
  with HFixedArray assms(1,2) show ?thesis by (simp add: SaveFixedArrayBase_with_def)
qed (simp_all add: SaveFixedArrayBase_with_def assms(1,2))

lemma SaveJSArray_with_cong [fundef_cong]:
  assumes "k = k'" "len = len'" "h = h'" "s = t" "\<And>s. f len' s = g len' s"
    "\<And>xs x s. h' = HFixedArray xs \<Longrightarrow> x \<in> set xs \<Longrightarrow> f x s = g x s"
  shows "SaveJSArray_with f k len h s = SaveJSArray_with g k' len' h' t"
proof -
  have "SaveFixedArrayBase_with f h' = SaveFixedArrayBase_with g h'"
    using assms(6) by (intro ext SaveFixedArrayBase_with_cong) auto
  with assms(1-5) show ?thesis by (simp add: SaveJSArray_with_def cong: if_cong)
qed

lemma SaveJSObject_with_cong [fundef_cong]:
  assumes "w = w'" "m = m'" "h = h'" "ps = ps'" "s = t"
    and vals: "\<And>n v s. n \<in> set m' \<Longrightarrow> v \<in> node_values n \<Longrightarrow> f v s = g v s"
    and els: "\<And>xs x s. h' = HFixedArray xs \<Longrightarrow> x \<in> set xs \<Longrightarrow> f x s = g x s"
    and props: "\<And>x s. x \<in> set ps' \<Longrightarrow> f x s = g x s"
  shows "SaveJSObject_with f w m h ps s = SaveJSObject_with g w' m' h' ps' t"
proof -
  have "SaveMap_with f w' m' = SaveMap_with g w' m'"
    by (intro ext SaveMap_with_cong) (auto intro: vals)
  moreover have "SaveFixedArrayBase_with f h' = SaveFixedArrayBase_with g h'"
    by (intro ext SaveFixedArrayBase_with_cong) (auto intro: els)
  moreover have "SaveFixedArray_with f ps' = SaveFixedArray_with g ps'"
    by (intro ext SaveFixedArray_with_cong) (auto intro: props)
  ultimately show ?thesis using assms(1-5) by (simp add: SaveJSObject_with_def)
qed

lemma SaveJSValue_with_cong [fundef_cong]:
  assumes "w = w'" "m = m'" "h = h'" "ps = ps'" "v = v'" "s = t"
    and vals: "\<And>n v s. n \<in> set m' \<Longrightarrow> v \<in> node_values n \<Longrightarrow> f v s = g v s"
    and els: "\<And>xs x s. h' = HFixedArray xs \<Longrightarrow> x \<in> set xs \<Longrightarrow> f x s = g x s"
    and props: "\<And>x s. x \<in> set ps' \<Longrightarrow> f x s = g x s"
    and v: "\<And>s. f v' s = g v' s"
  shows "SaveJSValue_with f w m h ps v s = SaveJSValue_with g w' m' h' ps' v' t"
proof -
  have "SaveJSObject_with f w' m' h' ps' t = SaveJSObject_with g w' m' h' ps' t"
    by (rule SaveJSObject_with_cong) (auto intro: vals els props)
  with assms(1-6) v show ?thesis by (simp add: SaveJSValue_with_def)
qed

lemma SaveExecutableAccessorInfo_with_cong [fundef_cong]:
  assumes "a = a'" "b = b'" "c = c'" "s = t" "\<And>s. f a' s = g a' s" "\<And>s. f b' s = g b' s" "\<And>s. f c' s = g c' s"
  shows "SaveExecutableAccessorInfo_with f a b c s = SaveExecutableAccessorInfo_with g a' b' c' t"
  using assms by (simp add: SaveExecutableAccessorInfo_with_def)

fun SaveObject ::
  "'w heap_world_scheme \<Rightarrow> obj \<Rightarrow> 'a saver_base_scheme \<Rightarrow> 'a saver_base_scheme option"
and SaveHeapObject ::
  "'w heap_world_scheme \<Rightarrow> heap_obj \<Rightarrow> 'a saver_base_scheme \<Rightarrow> 'a saver_base_scheme option"
and save_contents ::
  "'w heap_world_scheme \<Rightarrow> heap_obj \<Rightarrow> 'a saver_base_scheme \<Rightarrow> 'a saver_base_scheme option" where
  "SaveObject w (OSmi v) s =
     (if v = 0 then SavePrimitive NULL_TYPE s
      else do { s \<leftarrow> SavePrimitive SMI_TYPE s; SavePrimitive v s })"
| "SaveObject w (OHeap h) s =
     do { s \<leftarrow> SavePrimitive HEAP_OBJECT_TYPE s; SaveHeapObject w h s }"
| "SaveHeapObject w h s = do { s \<leftarrow> SavePrimitive (detailed_type h) s; save_contents w h s }"
| "save_contents w (HOddball kind) s = SaveOddball kind s"
| "save_contents w (HHeapNumber v) s = SaveHeapNumber v s"
| "save_contents w (HSymbol a) s = SaveSymbol w a s"
| "save_contents w (HString string) s = SaveString string s"
| "save_contents w (HJSRegExp pattern flags) s = SaveJSRegExp pattern flags s"
| "save_contents w (HFixedArray xs) s = SaveFixedArray_with (SaveObject w) xs s"
| "save_contents w (HFixedDoubleArray ds) s = SaveFixedDoubleArray ds s"
| "save_contents w (HJSArray kind len elements) s = SaveJSArray_with (SaveObject w) kind len elements s"
| "save_contents w (HJSArrayBuffer content) s = SaveJSArrayBuffer content s"
| "save_contents w (HJSTypedArray t content offset len) s = SaveJSTypedArray t content offset len s"
| "save_contents w (HJSFunction f) s = SaveJSFunction w f s"
| "save_contents w (HSharedFunctionInfo info) s = SaveSharedFunctionInfo w info s"
| "save_contents w (HMap m) s = SaveMap_with (SaveObject w) w m s"
| "save_contents w (HJSObject m elements properties) s =
     SaveJSObject_with (SaveObject w) w m elements properties s"
| "save_contents w (HJSValue m elements properties v) s =
     SaveJSValue_with (SaveObject w) w m elements properties v s"
| "save_contents w (HExecutableAccessorInfo getter setter data) s =
     SaveExecutableAccessorInfo_with (SaveObject w) getter setter data s"
| "save_contents w (HForeign accessor) s = SaveForeign accessor s"
| "save_contents w (HWellKnown _) s = Some s"
| "save_contents w HAllocationSite s = Some s"
| "save_contents w HAccessorPair s = Some s"
| "save_contents w (HOther _) s = None"

abbreviation "SaveMap w \<equiv> SaveMap_with (SaveObject w) w"
abbreviation "SaveFixedArray w \<equiv> SaveFixedArray_with (SaveObject w)"


section \<open>Loading arrays\<close>

text \<open>A type for what a loader of objects is: a handle and the loader's next state, or a crash. An
  element that is a null handle is stored as a null pointer; an array keeps \<^verbatim>\<open>undefined\<close> where a
  failure stops the loop.\<close>

type_synonym ('y, 'b) load_result = "('y \<times> 'b loader_base_scheme) option"

definition unhandle :: "obj option \<Rightarrow> obj" where
  "unhandle h = (case h of None \<Rightarrow> OSmi 0 | Some x \<Rightarrow> x)"

primrec LoadFixedArrayData ::
  "('b loader_base_scheme \<Rightarrow> (obj option, 'b) load_result) \<Rightarrow> nat \<Rightarrow> 'b loader_base_scheme
   \<Rightarrow> (obj list, 'b) load_result" where
  "LoadFixedArrayData ld 0 l = Some ([], l)"
| "LoadFixedArrayData ld (Suc n) l = do {
     (item, l) \<leftarrow> ld l;
     RETURN_VALUE_ON_FAIL (replicate (Suc n) undefined_value) l (do {
       (items, l) \<leftarrow> LoadFixedArrayData ld n l;
       Some (unhandle item # items, l)
     })
   }"

definition LoadFixedArray_with ::
  "('b loader_base_scheme \<Rightarrow> (obj option, 'b) load_result) \<Rightarrow> 'b loader_base_scheme
   \<Rightarrow> (obj list, 'b) load_result" where
  "LoadFixedArray_with ld l = do {
     (len, l) \<leftarrow> LoadPrimitive l;
     if sint (len :: int32) < 0 then None else LoadFixedArrayData ld (iterations len) l
   }"

definition LoadFixedArrayBase_with ::
  "('b loader_base_scheme \<Rightarrow> (obj option, 'b) load_result) \<Rightarrow> 'b loader_base_scheme
   \<Rightarrow> (heap_obj, 'b) load_result" where
  "LoadFixedArrayBase_with ld l = do {
     (t, l) \<leftarrow> LoadPrimitive l;
     if t = FIXED_ARRAY_TYPE then do { (xs, l) \<leftarrow> LoadFixedArray_with ld l; Some (HFixedArray xs, l) }
     else if t = FIXED_DOUBLE_ARRAY_TYPE then LoadFixedDoubleArray l
     else None
   }"

text \<open>A length that is an object is misread; \<^verbatim>\<open>NewJSArray\<close> makes an array of length 0 without elements.\<close>

definition LoadJSArray_with ::
  "('b loader_base_scheme \<Rightarrow> (obj option, 'b) load_result) \<Rightarrow> 'b loader_base_scheme
   \<Rightarrow> (heap_obj option, 'b) load_result" where
  "LoadJSArray_with ld l = do {
     (elements_kind, l) \<leftarrow> LoadPrimitive l;
     (maybe_length, l) \<leftarrow> ld l;
     RETURN_VALUE_ON_FAIL None l
       (case maybe_length of
          Some (OSmi len) \<Rightarrow> do {
            (elements, l) \<leftarrow> LoadFixedArrayBase_with ld l;
            RETURN_VALUE_ON_FAIL None l (Some (Some (HJSArray elements_kind (OSmi len) elements), l))
          }
        | Some _ \<Rightarrow> None
        | None \<Rightarrow> Some (Some (HJSArray elements_kind (OSmi 0) (HFixedArray [])), l))
   }"

section \<open>Loading maps\<close>

text \<open>\<^verbatim>\<open>CopyDropDescriptors\<close> and \<^verbatim>\<open>NewMap\<close> give a map whose properties and descriptors are all
  replaced by \<^verbatim>\<open>LoadPropertiesOnExit\<close>; what remains of them is the constructor and the
  prototype.\<close>

record map_base =
  mb_constructor :: "addr option"
  mb_is_constructors_prototype :: bool
  mb_prototype :: obj

definition map_base_of :: "map_node \<Rightarrow> map_base" where
  "map_base_of m = \<lparr>mb_constructor = mn_constructor m,
     mb_is_constructors_prototype = mn_is_constructors_prototype m, mb_prototype = mn_prototype m\<rparr>"

definition NewMap :: map_base where
  "NewMap = \<lparr>mb_constructor = None, mb_is_constructors_prototype = False, mb_prototype = null_value\<rparr>"

definition LoadPropertiesOnEnter ::
  "'w heap_world_scheme \<Rightarrow> 'b loader_base_scheme
   \<Rightarrow> (map_properties \<times> (js_name \<times> uint32) list, 'b) load_result" where
  "LoadPropertiesOnEnter w l = do {
     (instance_type, l) \<leftarrow> LoadPrimitive l;
     (instance_size, l) \<leftarrow> LoadPrimitive l;
     (inobject_properties, l) \<leftarrow> LoadPrimitive l;
     (unused_property_fields, l) \<leftarrow> LoadPrimitive l;
     (bit_field, l) \<leftarrow> LoadPrimitive l;
     (bit_field2, l) \<leftarrow> LoadPrimitive l;
     (bit_field3, l) \<leftarrow> LoadPrimitive l;
     (number_of_descriptors, l) \<leftarrow> LoadPrimitive l;
     if sint (number_of_descriptors :: int32) < 0 then None else do {
       (descriptors, l) \<leftarrow> load_each (\<lambda>l. do {
           (key, l) \<leftarrow> LoadName w l;
           (details, l) \<leftarrow> LoadPrimitive l;
           Some ((key, details), l)
         }) (iterations number_of_descriptors) l;
       Some ((\<lparr>mp_instance_type = instance_type, mp_instance_size = instance_size,
               mp_inobject_properties = inobject_properties,
               mp_unused_property_fields = unused_property_fields, mp_bit_field = bit_field,
               mp_bit_field2 = bit_field2, mp_bit_field3 = bit_field3\<rparr>, descriptors), l)
     }
   }"

text \<open>The values of the descriptors, as many as \<^verbatim>\<open>bit_field3\<close> says, or none after a failure; a
  value that is a null handle is dereferenced.\<close>

primrec load_values ::
  "('b loader_base_scheme \<Rightarrow> (obj option, 'b) load_result) \<Rightarrow> nat \<Rightarrow> 'b loader_base_scheme
   \<Rightarrow> (obj list option, 'b) load_result" where
  "load_values ld 0 l = Some (Some [], l)"
| "load_values ld (Suc n) l = do {
     (v, l) \<leftarrow> ld l;
     RETURN_VALUE_ON_FAIL None l (do {
       v \<leftarrow> v;
       (vs, l) \<leftarrow> load_values ld n l;
       Some (map_option (Cons v) vs, l)
     })
   }"

definition SetNumberOfOwnDescriptors :: "nat \<Rightarrow> map_properties \<Rightarrow> map_properties" where
  "SetNumberOfOwnDescriptors n p =
     p\<lparr>mp_bit_field3 := BitField_update 10 10 (mp_bit_field3 p) (word_of_nat n)\<rparr>"

text \<open>A descriptor that gets no value keeps the empty string it was made with.\<close>

definition empty_string :: obj where
  "empty_string = OHeap (HString \<lparr>str_units = [], str_internalized = True\<rparr>)"

definition descriptors_with_values ::
  "(js_name \<times> uint32) list \<Rightarrow> obj list \<Rightarrow> (js_name \<times> uint32 \<times> obj) list" where
  "descriptors_with_values descriptors vs =
     map (\<lambda>((key, details), v). (key, details, v))
       (zip descriptors (vs @ replicate (length descriptors - length vs) empty_string))"

text \<open>A constructor that has a prototype replaces both, a prototype that is not null replaces the
  prototype.\<close>

definition with_constructor ::
  "'w heap_world_scheme \<Rightarrow> map_base \<Rightarrow> map_properties \<Rightarrow> (js_name \<times> uint32 \<times> obj) list \<Rightarrow> addr option \<Rightarrow> map_node" where
  "with_constructor w base p ds constructor =
     (case Option.bind constructor (\<lambda>f. map_option (Pair f) (w_function_prototype w f)) of
        Some (f, prototype) \<Rightarrow> MapNode None p ds (Some f) True (OHeap prototype) None
      | None \<Rightarrow> MapNode None p ds (mb_constructor base) (mb_is_constructors_prototype base)
          (mb_prototype base) None)"

definition with_prototype ::
  "map_base \<Rightarrow> map_properties \<Rightarrow> (js_name \<times> uint32 \<times> obj) list \<Rightarrow> obj option \<Rightarrow> map_node" where
  "with_prototype base p ds prototype =
     (case prototype of
        Some prototype \<Rightarrow> MapNode None p ds (mb_constructor base) False prototype None
      | None \<Rightarrow> MapNode None p ds (mb_constructor base) (mb_is_constructors_prototype base)
          (mb_prototype base) None)"

definition LoadPropertiesOnExit ::
  "('b loader_base_scheme \<Rightarrow> (obj option, 'b) load_result) \<Rightarrow> 'w heap_world_scheme \<Rightarrow> map_base
   \<Rightarrow> map_properties \<Rightarrow> (js_name \<times> uint32) list \<Rightarrow> 'b loader_base_scheme
   \<Rightarrow> (map_node option, 'b) load_result" where
  "LoadPropertiesOnExit ld w base p descriptors l = do {
     (vs, l) \<leftarrow> load_values ld (NumberOfOwnDescriptors p) l;
     case vs of None \<Rightarrow> Some (None, l) | Some vs \<Rightarrow>
       if length descriptors < NumberOfOwnDescriptors p then None else do {
       let ds = descriptors_with_values descriptors vs;
       let p = SetNumberOfOwnDescriptors (length descriptors) p;
       (has_constructor, l) \<leftarrow> LoadBool l;
       if has_constructor then do {
         (constructor, l) \<leftarrow> LoadJSFunction w l;
         RETURN_VALUE_ON_FAIL None l (Some (Some (with_constructor w base p ds constructor), l))
       } else do {
         (prototype, l) \<leftarrow> ld l;
         RETURN_VALUE_ON_FAIL None l (Some (Some (with_prototype base p ds prototype), l))
       }
     }
   }"

text \<open>\<^verbatim>\<open>CopyReplaceDescriptors\<close> installs the descriptors as they are, unless there is no room for a
  transition to the new map: then they are generalized to tagged fields.\<close>

definition kTagged :: uint32 where "kTagged = 9"

definition is_prototype_map :: "map_properties \<Rightarrow> bool" where
  "is_prototype_map p \<longleftrightarrow> bit (mp_bit_field2 p) 2"

definition CopyReplaceDescriptors ::
  "'w heap_world_scheme \<Rightarrow> heap_map \<Rightarrow> map_node \<Rightarrow> (js_name \<times> uint32) list \<Rightarrow> (js_name \<times> uint32) list" where
  "CopyReplaceDescriptors w chain parent descriptors =
     (if \<not> is_prototype_map (mn_properties parent) \<and> \<not> w_CanHaveMoreTransitions w chain
      then map (\<lambda>(key, details). (key, BitField_update 5 4 details kTagged)) descriptors
      else descriptors)"

text \<open>The loop over the transitions; the chain that has been built is given from its leaf to its
  root, and the flag is \<^verbatim>\<open>has_branched_\<close>. A failure gives up.\<close>

definition load_transition ::
  "('b loader_base_scheme \<Rightarrow> (obj option, 'b) load_result) \<Rightarrow> 'w heap_world_scheme
   \<Rightarrow> map_node \<Rightarrow> heap_map \<Rightarrow> bool \<Rightarrow> 'b loader_base_scheme \<Rightarrow> (map_node option \<times> bool, 'b) load_result" where
  "load_transition ld w parent chain has_branched l = do {
     ((p, descriptors), l) \<leftarrow> LoadPropertiesOnEnter w l;
     (copy_and_drop, l) \<leftarrow> LoadBool l;
     if copy_and_drop then do {
       (m, l) \<leftarrow> LoadPropertiesOnExit ld w (map_base_of parent) p descriptors l;
       Some ((m, True), l)
     } else do {
       (is_special_transition, l) \<leftarrow> LoadBool l;
       if is_special_transition then do {
         (key, l) \<leftarrow> LoadName w l;
         symbol \<leftarrow> (case key of NameString _ \<Rightarrow> None | NameSymbol a \<Rightarrow> Some a);
         case w_special_transition w chain symbol of
           Some child \<Rightarrow> do {
             (m, l) \<leftarrow> LoadPropertiesOnExit ld w (map_base_of child) p descriptors l;
             Some ((m, has_branched), l)
           }
         | None \<Rightarrow> do {
             (m, l) \<leftarrow> LoadPropertiesOnExit ld w (map_base_of parent) p descriptors l;
             Some ((m, True), l)
           }
       } else do {
         (index, l) \<leftarrow> LoadPrimitive l;
         if nat (sint (index :: int32)) < length descriptors \<and> 0 \<le> sint index then do {
           (m, l) \<leftarrow> LoadPropertiesOnExit ld w (map_base_of parent) p
                     (CopyReplaceDescriptors w chain parent descriptors) l;
           Some ((m, has_branched), l)
         } else None
       }
     }
   }"

primrec load_transitions ::
  "('b loader_base_scheme \<Rightarrow> (obj option, 'b) load_result) \<Rightarrow> 'w heap_world_scheme
   \<Rightarrow> nat \<Rightarrow> heap_map \<Rightarrow> bool \<Rightarrow> 'b loader_base_scheme \<Rightarrow> ((heap_map \<times> bool) option, 'b) load_result" where
  "load_transitions ld w 0 chain has_branched l = Some (Some (chain, has_branched), l)"
| "load_transitions ld w (Suc n) chain has_branched l = do {
     ((m, has_branched), l) \<leftarrow> load_transition ld w (hd chain) chain has_branched l;
     case m of
       None \<Rightarrow> Some (None, l)
     | Some m \<Rightarrow> load_transitions ld w n (m # chain) has_branched l
   }"

text \<open>\<^verbatim>\<open>TryDeduplicate\<close> and the comparison it makes.\<close>

definition leaf_properties :: "heap_map \<Rightarrow> map_properties" where
  "leaf_properties chain = mn_properties (hd chain)"

definition CheckEquivalent :: "'w heap_world_scheme \<Rightarrow> heap_map \<Rightarrow> heap_map \<Rightarrow> bool" where
  "CheckEquivalent w first second \<longleftrightarrow>
     w_same_constructor_and_prototype w first second \<and>
     mp_instance_type (leaf_properties first) = mp_instance_type (leaf_properties second) \<and>
     mp_bit_field (leaf_properties first) = mp_bit_field (leaf_properties second) \<and>
     mp_bit_field2 (leaf_properties first) = mp_bit_field2 (leaf_properties second) \<and>
     bit (mp_bit_field3 (leaf_properties first)) 24 = bit (mp_bit_field3 (leaf_properties second)) 24 \<and>
     bit (mp_bit_field3 (leaf_properties first)) 22 = bit (mp_bit_field3 (leaf_properties second)) 22"

definition EquivalentToForDeduplication :: "'w heap_world_scheme \<Rightarrow> heap_map \<Rightarrow> heap_map \<Rightarrow> bool" where
  "EquivalentToForDeduplication w this other \<longleftrightarrow>
     CheckEquivalent w this other \<and>
     mp_instance_size (leaf_properties this) = mp_instance_size (leaf_properties other) \<and>
     mp_inobject_properties (leaf_properties this) = mp_inobject_properties (leaf_properties other) \<and>
     mp_unused_property_fields (leaf_properties this) = mp_unused_property_fields (leaf_properties other) \<and>
     mp_bit_field3 (leaf_properties this) = mp_bit_field3 (leaf_properties other) \<and>
     NumberOfOwnDescriptors (leaf_properties this) = NumberOfOwnDescriptors (leaf_properties other)"

definition TryDeduplicate :: "'w heap_world_scheme \<Rightarrow> bool \<Rightarrow> heap_map \<Rightarrow> heap_map option" where
  "TryDeduplicate w has_branched m =
     (if \<not> has_branched then Some m
      else find (EquivalentToForDeduplication w m) (w_global_property_maps w))"

definition deduplicated :: "'w heap_world_scheme \<Rightarrow> heap_map \<times> bool \<Rightarrow> heap_map" where
  "deduplicated w r =
     (case TryDeduplicate w (snd r) (fst r) of Some m \<Rightarrow> m | None \<Rightarrow> fst r)"

definition MapLoader_LoadMap ::
  "('b loader_base_scheme \<Rightarrow> (obj option, 'b) load_result) \<Rightarrow> 'w heap_world_scheme
   \<Rightarrow> 'b loader_base_scheme \<Rightarrow> (heap_map option, 'b) load_result" where
  "MapLoader_LoadMap ld w l = do {
     (root_index, l) \<leftarrow> LoadPrimitive l;
     ((root_map, has_branched), l) \<leftarrow>
       if root_index \<noteq> kNotFound w then do {
         root \<leftarrow> heap_root w root_index;
         Some ((Some (w_root_map w root), False), l)
       } else do {
         ((p, descriptors), l) \<leftarrow> LoadPropertiesOnEnter w l;
         (m, l) \<leftarrow> LoadPropertiesOnExit ld w NewMap p descriptors l;
         Some ((m, True), l)
       };
     case root_map of
       None \<Rightarrow> Some (None, l)
     | Some root_map \<Rightarrow> do {
         (number_of_map_transitions, l) \<leftarrow> LoadPrimitive l;
         (r, l) \<leftarrow> load_transitions ld w (iterations number_of_map_transitions) [root_map] has_branched l;
         Some (map_option (deduplicated w) r, l)
       }
   }"

definition LoadMap_with ::
  "('b loader_base_scheme \<Rightarrow> (obj option, 'b) load_result) \<Rightarrow> 'w heap_world_scheme
   \<Rightarrow> 'b loader_base_scheme \<Rightarrow> (heap_map option, 'b) load_result" where
  "LoadMap_with ld w l = do {
     (m, l) \<leftarrow> MapLoader_LoadMap ld w l;
     case m of Some m \<Rightarrow> Some (Some m, l) | None \<Rightarrow> Some (None, Fail ''deduplication failed'' l)
   }"


section \<open>Loading objects\<close>

definition LoadJSObject_with ::
  "('b loader_base_scheme \<Rightarrow> (obj option, 'b) load_result) \<Rightarrow> 'w heap_world_scheme
   \<Rightarrow> 'b loader_base_scheme \<Rightarrow> ((heap_map \<times> heap_obj \<times> obj list) option, 'b) load_result" where
  "LoadJSObject_with ld w l = do {
     (m, l) \<leftarrow> LoadMap_with ld w l;
     RETURN_VALUE_ON_FAIL None l (do {
       m \<leftarrow> m;
       (elements, l) \<leftarrow> LoadFixedArrayBase_with ld l;
       RETURN_VALUE_ON_FAIL None l (do {
         (properties, l) \<leftarrow> LoadFixedArray_with ld l;
         RETURN_VALUE_ON_FAIL None l (Some (Some (m, elements, properties), l))
       })
     })
   }"

definition LoadJSValue_with ::
  "('b loader_base_scheme \<Rightarrow> (obj option, 'b) load_result) \<Rightarrow> 'w heap_world_scheme
   \<Rightarrow> 'b loader_base_scheme \<Rightarrow> (heap_obj option, 'b) load_result" where
  "LoadJSValue_with ld w l = do {
     (object, l) \<leftarrow> LoadJSObject_with ld w l;
     RETURN_VALUE_ON_FAIL None l (do {
       (m, elements, properties) \<leftarrow> object;
       (v, l) \<leftarrow> ld l;
       RETURN_VALUE_ON_FAIL None l (do {
         v \<leftarrow> v;
         Some (Some (HJSValue m elements properties v), l)
       })
     })
   }"

definition LoadExecutableAccessorInfo_with ::
  "('b loader_base_scheme \<Rightarrow> (obj option, 'b) load_result) \<Rightarrow> 'b loader_base_scheme
   \<Rightarrow> (heap_obj option, 'b) load_result" where
  "LoadExecutableAccessorInfo_with ld l = do {
     (getter, l) \<leftarrow> ld l;
     RETURN_VALUE_ON_FAIL None l (do {
       getter \<leftarrow> getter;
       (setter, l) \<leftarrow> ld l;
       RETURN_VALUE_ON_FAIL None l (do {
         setter \<leftarrow> setter;
         (data, l) \<leftarrow> ld l;
         RETURN_VALUE_ON_FAIL None l (do {
           data \<leftarrow> data;
           Some (Some (HExecutableAccessorInfo getter setter data), l)
         })
       })
     })
   }"

definition heap_handle :: "(heap_obj option \<times> 'l) option \<Rightarrow> (obj option \<times> 'l) option" where
  "heap_handle r = map_option (\<lambda>(h, l). (map_option OHeap h, l)) r"

definition some_handle :: "('h \<Rightarrow> heap_obj) \<Rightarrow> ('h \<times> 'l) option \<Rightarrow> (obj option \<times> 'l) option" where
  "some_handle c r = map_option (\<lambda>(h, l). (Some (OHeap (c h)), l)) r"

text \<open>The \<^verbatim>\<open>switch\<close> of \<^verbatim>\<open>LoadHeapObject\<close>.\<close>

definition load_contents ::
  "('b loader_base_scheme \<Rightarrow> (obj option, 'b) load_result) \<Rightarrow> 'w heap_world_scheme \<Rightarrow> int32
   \<Rightarrow> 'b loader_base_scheme \<Rightarrow> (obj option, 'b) load_result" where
  "load_contents ld w t l =
    (if t = ODDBALL_TYPE then some_handle (\<lambda>h. h) (LoadOddball l)
     else if t = HEAP_NUMBER_TYPE then some_handle (\<lambda>h. h) (LoadHeapNumber l)
     else if t = SYMBOL_TYPE then some_handle HSymbol (LoadSymbol w l)
     else if t = STRING_TYPE then some_handle HString (LoadString l)
     else if t = JS_REGEXP_TYPE then some_handle (\<lambda>h. h) (LoadJSRegExp w l)
     else if t = FIXED_ARRAY_TYPE then some_handle HFixedArray (LoadFixedArray_with ld l)
     else if t = FIXED_DOUBLE_ARRAY_TYPE then some_handle (\<lambda>h. h) (LoadFixedDoubleArray l)
     else if t = JS_ARRAY_TYPE then heap_handle (LoadJSArray_with ld l)
     else if t = JS_ARRAY_BUFFER_TYPE then some_handle HJSArrayBuffer (LoadJSArrayBuffer l)
     else if t = JS_TYPED_ARRAY_TYPE then some_handle (\<lambda>h. h) (LoadJSTypedArray l)
     else if t = JS_FUNCTION_TYPE then
       heap_handle (map_option (\<lambda>(f, l). (map_option HJSFunction f, l)) (LoadJSFunction w l))
     else if t = SHARED_FUNCTION_INFO_TYPE then
       heap_handle (map_option (\<lambda>(i, l). (map_option HSharedFunctionInfo i, l)) (LoadSharedFunctionInfo w l))
     else if t = MAP_TYPE then
       heap_handle (map_option (\<lambda>(m, l). (map_option HMap m, l)) (LoadMap_with ld w l))
     else if t = JS_OBJECT_TYPE then
       heap_handle (map_option (\<lambda>(x, l). (map_option (\<lambda>(m, es, ps). HJSObject m es ps) x, l))
         (LoadJSObject_with ld w l))
     else if t = JS_VALUE_TYPE then heap_handle (LoadJSValue_with ld w l)
     else if t = EXECUTABLE_ACCESSOR_INFO_TYPE then heap_handle (LoadExecutableAccessorInfo_with ld l)
     else if t = FOREIGN_TYPE then some_handle (\<lambda>h. h) (LoadForeign l)
     else if t = JS_GLOBAL_OBJECT_TYPE then Some (Some (OHeap (HWellKnown JS_GLOBAL_OBJECT)), l)
     else if t = JS_GLOBAL_PROXY_TYPE then Some (Some (OHeap (HWellKnown JS_GLOBAL_PROXY)), l)
     else if t = JS_BUILTINS_OBJECT_TYPE then Some (Some (OHeap (HWellKnown JS_BUILTINS_OBJECT)), l)
     else if t = NATIVE_CONTEXT_TYPE then Some (Some (OHeap (HWellKnown NATIVE_CONTEXT)), l)
     else if t = ALLOCATION_SITE_TYPE then Some (Some undefined_value, l)
     else if t = ACCESSOR_PAIR_TYPE then Some (Some null_value, l)
     else None)"

definition LoadHeapObject_with ::
  "('b loader_base_scheme \<Rightarrow> (obj option, 'b) load_result) \<Rightarrow> 'w heap_world_scheme
   \<Rightarrow> 'b loader_base_scheme \<Rightarrow> (obj option, 'b) load_result" where
  "LoadHeapObject_with ld w l = do { (t, l) \<leftarrow> LoadPrimitive l; load_contents ld w t l }"

definition LoadObject_with ::
  "('b loader_base_scheme \<Rightarrow> (obj option, 'b) load_result) \<Rightarrow> 'w heap_world_scheme
   \<Rightarrow> 'b loader_base_scheme \<Rightarrow> (obj option, 'b) load_result" where
  "LoadObject_with ld w l = do {
     (t, l) \<leftarrow> LoadPrimitive l;
     if t = HEAP_OBJECT_TYPE then LoadHeapObject_with ld w l
     else if t = SMI_TYPE then do { (v, l) \<leftarrow> LoadPrimitive l; Some (Some (OSmi v), l) }
     else Some (None, l)
   }"

primrec LoadObject_fuel ::
  "nat \<Rightarrow> 'w heap_world_scheme \<Rightarrow> 'b loader_base_scheme \<Rightarrow> (obj option, 'b) load_result" where
  "LoadObject_fuel 0 w l = None"
| "LoadObject_fuel (Suc n) w l = LoadObject_with (LoadObject_fuel n w) w l"

abbreviation loading ::
  "(('b loader_base_scheme \<Rightarrow> (obj option, 'b) load_result) \<Rightarrow> 'b loader_base_scheme \<Rightarrow> ('y, 'b) load_result)
   \<Rightarrow> 'w heap_world_scheme \<Rightarrow> 'b loader_base_scheme \<Rightarrow> ('y, 'b) load_result" where
  "loading ld w l \<equiv> ld (LoadObject_fuel (length (input l)) w) l"

definition LoadObject where "LoadObject w l = LoadObject_fuel (length (input l)) w l"

definition LoadHeapObject ::
  "'w heap_world_scheme \<Rightarrow> 'b loader_base_scheme \<Rightarrow> (obj option, 'b) load_result" where
  "LoadHeapObject w = loading (\<lambda>ld. LoadHeapObject_with ld w) w"

definition LoadFixedArray ::
  "'w heap_world_scheme \<Rightarrow> 'b loader_base_scheme \<Rightarrow> (obj list, 'b) load_result" where
  "LoadFixedArray w = loading LoadFixedArray_with w"

definition LoadMap ::
  "'w heap_world_scheme \<Rightarrow> 'b loader_base_scheme \<Rightarrow> (heap_map option, 'b) load_result" where
  "LoadMap w = loading (\<lambda>ld. LoadMap_with ld w) w"

end
