(* ===== verification/ObjectsRoundtrip.thy ===== *)
theory ObjectsRoundtrip
  imports Objects
begin

text \<open>
  What becomes of a heap object that is saved and loaded again. The relation \<open>reloads\<close> gives the
  object that the loader makes of a saved one, rule by rule as the save functions go through it, and
  its rules are also the conditions under which the format carries the object. The main theorem
  says that the loader, from the bytes that the saver writes, builds exactly the related object.
\<close>

section \<open>Savers that push maps, loaders with fuel\<close>

text \<open>The saver takes the stack of maps from \<open>C\<close> to \<open>C'\<close>, and the loader understands it with as much
  fuel as there are bytes.\<close>

definition carries ::
  "nat list \<Rightarrow> nat list \<Rightarrow> ('a saver_base_scheme \<Rightarrow> 'a saver_base_scheme option)
   \<Rightarrow> (nat \<Rightarrow> 'b loader_base_scheme \<Rightarrow> ('y \<times> 'b loader_base_scheme) option) \<Rightarrow> 'y \<Rightarrow> bool" where
  "carries C C' sv ld y \<longleftrightarrow>
     (\<exists>bs. (\<forall>s. status s = SUCCEEDED \<longrightarrow> map_cache s = C \<longrightarrow>
              sv s = Some (s\<lparr>bytes := bytes s @ bs, map_cache := C'\<rparr>)) \<and>
           (\<forall>n \<ge> length bs. loads (ld n) bs y))"

lemma carriesI:
  assumes "\<And>s. status s = SUCCEEDED \<Longrightarrow> map_cache s = C \<Longrightarrow>
      sv s = Some (s\<lparr>bytes := bytes s @ bs, map_cache := C'\<rparr>)"
    and "\<And>n. length bs \<le> n \<Longrightarrow> loads (ld n) bs y"
  shows "carries C C' sv ld y"
  using assms unfolding carries_def by blast

lemma carriesE:
  assumes "carries C C' sv ld y"
  obtains bs where "\<And>s. status s = SUCCEEDED \<Longrightarrow> map_cache s = C \<Longrightarrow>
      sv s = Some (s\<lparr>bytes := bytes s @ bs, map_cache := C'\<rparr>)"
    and "\<And>n. length bs \<le> n \<Longrightarrow> loads (ld n) bs y"
  using assms unfolding carries_def by blast

text \<open>The loader that starts with the number of bytes of its input as fuel.\<close>

lemma carries_transmits:
  assumes "carries C C sv ld y"
  shows "transmits C sv (\<lambda>l. ld (length (input l)) l) y"
proof -
  from assms obtain bs where sv: "\<And>s. status s = SUCCEEDED \<Longrightarrow> map_cache s = C \<Longrightarrow>
      sv s = Some (s\<lparr>bytes := bytes s @ bs, map_cache := C\<rparr>)"
    and ld: "\<And>n. length bs \<le> n \<Longrightarrow> loads (ld n) bs y" by (rule carriesE) blast
  have "saves C sv bs" unfolding saves_def using sv by auto
  moreover have "loads (\<lambda>l. ld (length (input l)) l) bs y"
    unfolding loads_def using ld by (auto simp: loads_def)
  ultimately show ?thesis by (auto simp: transmits_def)
qed

lemma transmits_carries [transmits_intros]:
  assumes "transmits C sv ld y"
  shows "carries C C sv (\<lambda>n. ld) y"
proof -
  from assms obtain bs where "saves C sv bs" "loads ld bs y" by (rule transmitsE)
  then show ?thesis by (intro carriesI [where bs = bs]) (auto simp: saves_def)
qed

lemma carries_bind:
  assumes "carries C C1 f ld x" "carries C1 C2 g (\<lambda>n. k n x) y"
  shows "carries C C2 (\<lambda>s. f s \<bind> g) (\<lambda>n l. ld n l \<bind> (\<lambda>(x, l). k n x l)) y"
proof -
  from assms(1) obtain bs where f: "\<And>s. status s = SUCCEEDED \<Longrightarrow> map_cache s = C \<Longrightarrow>
      f s = Some (s\<lparr>bytes := bytes s @ bs, map_cache := C1\<rparr>)"
    and ld: "\<And>n. length bs \<le> n \<Longrightarrow> loads (ld n) bs x" by (rule carriesE) blast
  from assms(2) obtain cs where g: "\<And>s. status s = SUCCEEDED \<Longrightarrow> map_cache s = C1 \<Longrightarrow>
      g s = Some (s\<lparr>bytes := bytes s @ cs, map_cache := C2\<rparr>)"
    and k: "\<And>n. length cs \<le> n \<Longrightarrow> loads (k n x) cs y" by (rule carriesE) blast
  show ?thesis
  proof (rule carriesI [where bs = "bs @ cs"], goal_cases)
    case (1 s)
    then show ?case by (simp add: f g)
  next
    case (2 n)
    then show ?case by (intro loads_bind [where x = x] ld k) simp_all
  qed
qed

lemma carries_done: "carries C C Some (\<lambda>n l. Some (y, l)) y"
  by (rule carriesI [where bs = "[]"]) (simp_all add: loads_def)

lemma carries_last:
  assumes "carries C C' f ld x" "\<And>n l. status l = SUCCEEDED \<Longrightarrow> k n x l = Some (y, l)"
  shows "carries C C' f (\<lambda>n l. ld n l \<bind> (\<lambda>(x, l). k n x l)) y"
proof -
  have "carries C' C' Some (\<lambda>n. k n x) y"
    by (rule carriesI [where bs = "[]"]) (simp_all add: loads_def assms(2))
  from carries_bind [where k = k and x = x, OF assms(1) this] show ?thesis by simp
qed

lemma carries_map: "carries C C' f ld x \<Longrightarrow> carries C C' f (\<lambda>n l. map_option (\<lambda>(x, l). (h x, l)) (ld n l)) (h x)"
  by (erule carriesE, rule carriesI, assumption) (auto simp: loads_def)

lemma carries_save_return:
  "carries C C' k ld y \<Longrightarrow> carries C C' (\<lambda>s. RETURN_ON_FAIL s (k s)) ld y"
  by (erule carriesE, rule carriesI) (simp_all add: RETURN_ON_FAIL_def)

lemma carries_load_return:
  "carries C C' sv k y \<Longrightarrow> carries C C' sv (\<lambda>n l. RETURN_VALUE_ON_FAIL v l (k n l)) y"
  by (erule carriesE, rule carriesI) (simp_all add: loads_def RETURN_VALUE_ON_FAIL_def)

text \<open>A primitive in front pays for one unit of fuel.\<close>

lemma carries_Suc:
  assumes "carries C C' g (\<lambda>n. k n t) y"
    and "\<And>n l. ld (Suc n) l = LoadPrimitive l \<bind> (\<lambda>(t, l). k n t l)"
  shows "carries C C' (\<lambda>s. SavePrimitive (t :: uint32) s \<bind> g) ld y"
proof -
  from assms(1) obtain bs where g: "\<And>s. status s = SUCCEEDED \<Longrightarrow> map_cache s = C \<Longrightarrow>
      g s = Some (s\<lparr>bytes := bytes s @ bs, map_cache := C'\<rparr>)"
    and k: "\<And>n. length bs \<le> n \<Longrightarrow> loads (k n t) bs y" by (rule carriesE) blast
  show ?thesis
  proof (rule carriesI [where bs = "le_bytes 4 t @ bs"])
    fix s :: "'a saver_base_scheme" assume "status s = SUCCEEDED" "map_cache s = C"
    then show "SavePrimitive t s \<bind> g =
        Some (s\<lparr>bytes := bytes s @ le_bytes 4 t @ bs, map_cache := C'\<rparr>)"
      by (simp add: SavePrimitive_def SavePrimitive_bytes_def g)
  next
    fix n assume n: "length (le_bytes 4 t @ bs) \<le> n"
    then obtain m where m: "n = Suc m" "length bs \<le> m" by (cases n) auto
    show "loads (ld n) (le_bytes 4 t @ bs) y"
      unfolding loads_def
    proof (intro allI impI)
      fix l :: "'b loader_base_scheme" and rest
      assume l: "status l = SUCCEEDED" "input l = (le_bytes 4 t @ bs) @ rest"
      then have "LoadPrimitive l = Some (t, l\<lparr>input := bs @ rest\<rparr>)"
        by (intro LoadPrimitive_int) simp
      with l k [OF m(2)] show "ld n l = Some (y, l\<lparr>input := rest\<rparr>)"
        by (simp add: m(1) assms(2) loads_def)
    qed
  qed
qed


section \<open>What is reloaded\<close>

definition node_stack :: "map_node \<Rightarrow> nat list" where
  "node_stack m = (case mn_address m of None \<Rightarrow> [] | Some a \<Rightarrow> [a])"

definition own_keys :: "map_node \<Rightarrow> (js_name \<times> uint32) list" where
  "own_keys m = map (\<lambda>(key, details, v). (reloaded_name key, details)) (own_descriptors m)"

definition descriptors_ok :: "'w heap_world_scheme \<Rightarrow> map_node \<Rightarrow> bool" where
  "descriptors_ok w m \<longleftrightarrow> own_count m \<le> length (mn_descriptors m) \<and>
     list_all (\<lambda>(key, details, v). name_ok w key) (own_descriptors m)"

text \<open>The transition from a parent that the saver finds, and that the loader then makes.\<close>

datatype transition = CopyAndDrop | Special js_name addr | Simple int32

definition saved_transition :: "'w heap_world_scheme \<Rightarrow> map_node \<Rightarrow> map_node \<Rightarrow> transition option" where
  "saved_transition w parent m =
     (if own_count m = 0 then Some CopyAndDrop
      else case transition_key parent m of
        None \<Rightarrow> None
      | Some key \<Rightarrow>
          (case key of
             NameSymbol a \<Rightarrow> if a \<in> set (w_special_symbols w) then Some (Special key a)
               else if descriptor_Search key m = -1 then None else Some (Simple (descriptor_Search key m))
           | NameString _ \<Rightarrow> if descriptor_Search key m = -1 then None
               else Some (Simple (descriptor_Search key m))))"

definition transition_base :: "'w heap_world_scheme \<Rightarrow> heap_map \<Rightarrow> transition \<Rightarrow> map_base" where
  "transition_base w chain t =
     (case t of
        Special key a \<Rightarrow>
          (case w_special_transition w chain a of Some child \<Rightarrow> map_base_of child
           | None \<Rightarrow> map_base_of (hd chain))
      | _ \<Rightarrow> map_base_of (hd chain))"

definition transition_keys ::
  "'w heap_world_scheme \<Rightarrow> heap_map \<Rightarrow> transition \<Rightarrow> (js_name \<times> uint32) list \<Rightarrow> (js_name \<times> uint32) list" where
  "transition_keys w chain t ds =
     (case t of Simple _ \<Rightarrow> CopyReplaceDescriptors w chain (hd chain) ds | _ \<Rightarrow> ds)"

definition transition_branches :: "'w heap_world_scheme \<Rightarrow> heap_map \<Rightarrow> transition \<Rightarrow> bool \<Rightarrow> bool" where
  "transition_branches w chain t has_branched =
     (case t of
        CopyAndDrop \<Rightarrow> True
      | Special key a \<Rightarrow> has_branched \<or> w_special_transition w chain a = None
      | Simple _ \<Rightarrow> has_branched)"

definition transition_ok :: "'w heap_world_scheme \<Rightarrow> transition \<Rightarrow> bool" where
  "transition_ok w t = (case t of Special key a \<Rightarrow> name_ok w key | _ \<Rightarrow> True)"

definition reloaded_doubles :: "double list \<Rightarrow> heap_obj" where
  "reloaded_doubles ds = (if ds = [] then HFixedArray [] else HFixedDoubleArray (map FixedDoubleArray_set ds))"

inductive reloads :: "'w heap_world_scheme \<Rightarrow> nat list \<Rightarrow> obj \<Rightarrow> obj option \<Rightarrow> bool"
  and reloads_heap :: "'w heap_world_scheme \<Rightarrow> nat list \<Rightarrow> heap_obj \<Rightarrow> obj \<Rightarrow> bool"
  and reloads_array :: "'w heap_world_scheme \<Rightarrow> nat list \<Rightarrow> heap_obj \<Rightarrow> heap_obj \<Rightarrow> bool"
  and reloads_map :: "'w heap_world_scheme \<Rightarrow> nat list \<Rightarrow> heap_map \<Rightarrow> heap_map \<Rightarrow> bool"
  and reloads_node :: "'w heap_world_scheme \<Rightarrow> nat list \<Rightarrow> map_base \<Rightarrow> (js_name \<times> uint32) list
    \<Rightarrow> map_node \<Rightarrow> map_node \<Rightarrow> bool"
  and reloads_transitions :: "'w heap_world_scheme \<Rightarrow> nat list \<Rightarrow> map_node \<Rightarrow> map_node list
    \<Rightarrow> heap_map \<times> bool \<Rightarrow> heap_map \<times> bool \<Rightarrow> bool"
  for w :: "'w heap_world_scheme"
  where
  null: "reloads w C (OSmi 0) None"
| smi: "v \<noteq> 0 \<Longrightarrow> reloads w C (OSmi v) (Some (OSmi v))"
| heap: "reloads_heap w C h y \<Longrightarrow> reloads w C (OHeap h) (Some y)"

| oddball: "kind \<in> {kUndefined, kTheHole, kNull, kTrue, kFalse, kUninitialized, kException} \<Longrightarrow>
    reloads_heap w C (HOddball kind) (OHeap (HOddball kind))"
| heap_number: "reloads_heap w C (HHeapNumber v) (OHeap (HHeapNumber v))"
| symbol: "registry_wf w \<Longrightarrow> symbol_known w a \<Longrightarrow> reloads_heap w C (HSymbol a) (OHeap (HSymbol a))"
| string: "string_fits string \<Longrightarrow>
    reloads_heap w C (HString string) (OHeap (HString (reloaded_string string)))"
| regexp: "string_fits pattern \<Longrightarrow> re_sticky flags \<longrightarrow> w_harmony_regexps w \<Longrightarrow>
    reloads_heap w C (HJSRegExp pattern flags) (OHeap (HJSRegExp (reloaded_string pattern) flags))"
| array: "reloads_array w C h h' \<Longrightarrow> reloads_heap w C h (OHeap h')"
| js_array_empty: "reloads_heap w C (HJSArray kind (OSmi 0) elements) (OHeap (HJSArray kind (OSmi 0) (HFixedArray [])))"
| js_array: "len \<noteq> 0 \<Longrightarrow> reloads_array w C elements elements' \<Longrightarrow>
    reloads_heap w C (HJSArray kind (OSmi len) elements) (OHeap (HJSArray kind (OSmi len) elements'))"
| array_buffer: "length content < 2 ^ 31 \<Longrightarrow>
    reloads_heap w C (HJSArrayBuffer content) (OHeap (HJSArrayBuffer content))"
| typed_array: "length content < 2 ^ 31 \<Longrightarrow>
    reloads_heap w C (HJSTypedArray t content offset len) (OHeap (HJSTypedArray t content offset len))"
| js_function: "function_ok w f \<Longrightarrow> resolved_function w f = Some g \<Longrightarrow>
    reloads_heap w C (HJSFunction f) (OHeap (HJSFunction g))"
| shared_info: "shared_info_ok w i \<Longrightarrow> resolved_shared_info w i = Some j \<Longrightarrow>
    reloads_heap w C (HSharedFunctionInfo i) (OHeap (HSharedFunctionInfo j))"
| map_object: "reloads_map w C m m' \<Longrightarrow> reloads_heap w C (HMap m) (OHeap (HMap m'))"
| js_object: "reloads_map w C m m' \<Longrightarrow> reloads_array w C elements elements' \<Longrightarrow>
    list_all2 (reloads w C) ps qs \<Longrightarrow> length ps < 2 ^ 31 \<Longrightarrow>
    reloads_heap w C (HJSObject m elements ps) (OHeap (HJSObject m' elements' (map unhandle qs)))"
| js_value: "reloads_map w C m m' \<Longrightarrow> reloads_array w C elements elements' \<Longrightarrow>
    list_all2 (reloads w C) ps qs \<Longrightarrow> length ps < 2 ^ 31 \<Longrightarrow> reloads w C v (Some v') \<Longrightarrow>
    reloads_heap w C (HJSValue m elements ps v) (OHeap (HJSValue m' elements' (map unhandle qs) v'))"
| accessor_info: "reloads w C getter (Some getter') \<Longrightarrow> reloads w C setter (Some setter') \<Longrightarrow>
    reloads w C data (Some data') \<Longrightarrow>
    reloads_heap w C (HExecutableAccessorInfo getter setter data)
      (OHeap (HExecutableAccessorInfo getter' setter' data'))"
| foreign: "unat i < unat descriptorCount \<Longrightarrow>
    reloads_heap w C (HForeign (Some i)) (OHeap (HForeign (Some i)))"
| well_known: "reloads_heap w C (HWellKnown k) (OHeap (HWellKnown k))"
| allocation_site: "reloads_heap w C HAllocationSite undefined_value"
| accessor_pair: "reloads_heap w C HAccessorPair null_value"

| fixed_array: "list_all2 (reloads w C) xs ys \<Longrightarrow> length xs < 2 ^ 31 \<Longrightarrow>
    reloads_array w C (HFixedArray xs) (HFixedArray (map unhandle ys))"
| fixed_double_array: "length ds < 2 ^ 31 \<Longrightarrow> reloads_array w C (HFixedDoubleArray ds) (reloaded_doubles ds)"

| map_of_root: "list_all (\<lambda>m. set (node_stack m) \<inter> set C = {}) chain \<Longrightarrow> length chain < 2 ^ 31 \<Longrightarrow>
    rev chain = r # ms \<Longrightarrow> registry_wf w \<Longrightarrow> mn_address r = Some a \<Longrightarrow>
    GetStableRootIndex w r \<noteq> kNotFound w \<Longrightarrow>
    reloads_transitions w C r ms ([w_root_map w a], False) res \<Longrightarrow>
    reloads_map w C chain (deduplicated w res)"
| map_of_new_root: "list_all (\<lambda>m. set (node_stack m) \<inter> set C = {}) chain \<Longrightarrow> length chain < 2 ^ 31 \<Longrightarrow>
    rev chain = r # ms \<Longrightarrow> GetStableRootIndex w r = kNotFound w \<Longrightarrow>
    reloads_node w C NewMap (own_keys r) r r' \<Longrightarrow>
    reloads_transitions w C r ms ([r'], True) res \<Longrightarrow>
    reloads_map w C chain (deduplicated w res)"

| node_constructor: "descriptors_ok w m \<Longrightarrow>
    list_all2 (\<lambda>d v. reloads w (C @ node_stack m) (snd (snd d)) (Some v)) (own_descriptors m) vs \<Longrightarrow>
    length keys = own_count m \<Longrightarrow>
    mn_constructor m = Some f \<Longrightarrow> mn_is_constructors_prototype m \<Longrightarrow> function_ok w f \<Longrightarrow>
    reloads_node w C base keys m (with_constructor w base (mn_properties m)
      (descriptors_with_values keys vs) (resolved_function w f))"
| node_prototype: "descriptors_ok w m \<Longrightarrow>
    list_all2 (\<lambda>d v. reloads w (C @ node_stack m) (snd (snd d)) (Some v)) (own_descriptors m) vs \<Longrightarrow>
    length keys = own_count m \<Longrightarrow>
    mn_constructor m = None \<or> \<not> mn_is_constructors_prototype m \<Longrightarrow>
    reloads w (C @ node_stack m) (mn_prototype m) prototype \<Longrightarrow>
    reloads_node w C base keys m (with_prototype base (mn_properties m)
      (descriptors_with_values keys vs) prototype)"

| no_transition: "reloads_transitions w C parent [] res res"
| transition: "saved_transition w parent m = Some t \<Longrightarrow> transition_ok w t \<Longrightarrow>
    reloads_node w C (transition_base w chain t) (transition_keys w chain t (own_keys m)) m m' \<Longrightarrow>
    reloads_transitions w C m ms (m' # chain, transition_branches w chain t has_branched) res \<Longrightarrow>
    reloads_transitions w C parent (m # ms) (chain, has_branched) res"

inductive_simps reloads_smi: "reloads w C (OSmi v) y"
inductive_cases reloads_heapE: "reloads w C (OHeap h) y"


section \<open>Leaves\<close>

lemma transmits_Oddball:
  assumes "kind \<in> {kUndefined, kTheHole, kNull, kTrue, kFalse, kUninitialized, kException}"
  shows "transmits C (SaveOddball kind) LoadOddball (HOddball kind)"
  unfolding SaveOddball_def LoadOddball_def
  by (rule transmits_save_last [OF transmits_primitives(1)]) (use assms in simp)

lemma transmits_HeapNumber: "transmits C (SaveHeapNumber v) LoadHeapNumber (HHeapNumber v)"
  unfolding SaveHeapNumber_def LoadHeapNumber_def by (rule transmits_map [OF transmits_primitives(4)])

lemma regexp_flags_of_chars:
  "re_sticky f \<longrightarrow> harmony \<Longrightarrow>
   regexp_flags_of harmony (map ucast (regexp_flag_chars f))
     \<lparr>re_global = False, re_ignore_case = False, re_multiline = False, re_sticky = False\<rparr> = Some f"
  by (cases f) (auto simp: regexp_flag_chars_def)

definition regexp_flags_string :: "regexp_flags \<Rightarrow> js_string" where
  "regexp_flags_string f = \<lparr>str_units = map ucast (regexp_flag_chars f), str_internalized = False\<rparr>"

lemma Encode_ascii: "c \<le> kMaxOneByteChar \<Longrightarrow> Encode str c previous r = str @ [ucast c]"
  by (subst Encode.simps) simp

text \<open>The flags are written like a string with these characters.\<close>

lemma save_regexp_flags:
  "Option.bind (SavePrimitive (of_bool (re_global f) + of_bool (re_ignore_case f) +
       of_bool (re_multiline f) + of_bool (re_sticky f) :: size_t) s) (\<lambda>s.
     Option.bind (if re_global f then SavePrimitive (103 :: byte) s else Some s) (\<lambda>s.
     Option.bind (if re_ignore_case f then SavePrimitive (105 :: byte) s else Some s) (\<lambda>s.
     Option.bind (if re_multiline f then SavePrimitive (109 :: byte) s else Some s) (\<lambda>s.
     Option.bind (if re_sticky f then SavePrimitive (121 :: byte) s else Some s) (\<lambda>s.
     SaveFalse s))))) = SaveString (regexp_flags_string f) s"
  by (cases f)
    (auto simp: SaveString_eq regexp_flags_string_def regexp_flag_chars_def ToCString_def
      SavePrimitive_def SavePrimitiveArray_def SavePrimitive_bool_def SaveFalse_def Encode_ascii
      kMaxOneByteChar_def SaveFalse_bytes_def SavePrimitive_bytes_def SavePrimitiveArray_bytes_def
      raw_bytes_def)

lemma regexp_flag_chars_length: "length (regexp_flag_chars f) \<le> 4"
  by (simp add: regexp_flag_chars_def)

lemma SaveJSRegExp_eq:
  "SaveJSRegExp pattern f = (\<lambda>s. SaveString pattern s \<bind> SaveString (regexp_flags_string f))"
proof
  fix s
  have "SaveJSRegExp pattern f s = Option.bind (SaveString pattern s) (\<lambda>s.
     Option.bind (SavePrimitive (of_bool (re_global f) + of_bool (re_ignore_case f) +
       of_bool (re_multiline f) + of_bool (re_sticky f) :: size_t) s) (\<lambda>s.
     Option.bind (if re_global f then SavePrimitive (103 :: byte) s else Some s) (\<lambda>s.
     Option.bind (if re_ignore_case f then SavePrimitive (105 :: byte) s else Some s) (\<lambda>s.
     Option.bind (if re_multiline f then SavePrimitive (109 :: byte) s else Some s) (\<lambda>s.
     Option.bind (if re_sticky f then SavePrimitive (121 :: byte) s else Some s) (\<lambda>s.
     SaveFalse s))))))"
    by (simp add: SaveJSRegExp_def)
  then show "SaveJSRegExp pattern f s = SaveString pattern s \<bind> SaveString (regexp_flags_string f)"
    by (simp only: save_regexp_flags)
qed

lemma transmits_JSRegExp:
  assumes "string_fits pattern" "re_sticky f \<longrightarrow> w_harmony_regexps w"
  shows "transmits C (SaveJSRegExp pattern f) (LoadJSRegExp w) (HJSRegExp (reloaded_string pattern) f)"
proof -
  have flags: "string_fits (regexp_flags_string f)"
    using regexp_flag_chars_length [of f] by (simp add: string_fits_def regexp_flags_string_def)
  have "NewJSRegExp w (reloaded_string pattern) (reloaded_string (regexp_flags_string f)) =
      Some (HJSRegExp (reloaded_string pattern) f)"
    using regexp_flags_of_chars [OF assms(2)]
    by (simp add: NewJSRegExp_def regexp_flags_string_def)
  then show ?thesis unfolding SaveJSRegExp_eq LoadJSRegExp_def
    by (intro transmits_bind [OF transmits_String [OF assms(1)]]
        transmits_save_last [OF transmits_String [OF flags]]) simp
qed

lemma SaveFixedDoubleArray_eq:
  "SaveFixedDoubleArray ds = (\<lambda>s. SavePrimitive (int_length ds) s \<bind> save_each SavePrimitive ds)"
  by (rule ext) (simp add: SaveFixedDoubleArray_def)

lemma transmits_FixedDoubleArray:
  assumes "length ds < 2 ^ 31"
  shows "transmits C (SaveFixedDoubleArray ds) LoadFixedDoubleArray (reloaded_doubles ds)"
  unfolding SaveFixedDoubleArray_eq LoadFixedDoubleArray_def
proof (rule transmits_bind [OF transmits_primitives(3)], goal_cases)
  case 1
  have "transmits C (save_each SavePrimitive ds)
      (load_each LoadPrimitive (iterations (int_length ds))) (map (\<lambda>d. d) ds)"
    using assms by (intro transmits_list transmits_primitives)
  then have "transmits C (save_each SavePrimitive ds)
      (load_each LoadPrimitive (iterations (int_length ds))) ds" by simp
  then have "transmits C (save_each SavePrimitive ds)
      (\<lambda>l. load_each LoadPrimitive (iterations (int_length ds)) l \<bind>
        (\<lambda>(ds, l). Some (if ds = [] then HFixedArray [] else HFixedDoubleArray (map FixedDoubleArray_set ds), l)))
      (reloaded_doubles ds)"
    by (rule transmits_save_last) (simp add: reloaded_doubles_def)
  with assms show ?case by (simp add: sint_of_nat32)
qed

lemma transmits_JSArrayBuffer:
  "length content < 2 ^ 31 \<Longrightarrow> transmits C (SaveJSArrayBuffer content) LoadJSArrayBuffer content"
  unfolding SaveJSArrayBuffer_def LoadJSArrayBuffer_def by (rule transmits_array)

lemma transmits_JSTypedArray:
  assumes "length content < 2 ^ 31"
  shows "transmits C (SaveJSTypedArray t content offset len) LoadJSTypedArray (HJSTypedArray t content offset len)"
proof -
  have casts: "ucast (scast x :: size_t) = (x :: int32)" for x
    by (rule bit_word_eqI) (simp add: bit_simps)
  have eq: "SaveJSTypedArray t content offset len = (\<lambda>s. SavePrimitive t s \<bind>
      (\<lambda>s. SaveJSArrayBuffer content s \<bind> (\<lambda>s. RETURN_ON_FAIL s
        (SavePrimitive (scast offset :: size_t) s \<bind> SavePrimitive (scast len :: size_t)))))"
    by (rule ext) (simp add: SaveJSTypedArray_def)
  show ?thesis unfolding eq LoadJSTypedArray_def SaveJSArrayBuffer_def LoadJSArrayBuffer_def
    by (rule transmits_bind [OF transmits_primitives(3)] transmits_bind [OF transmits_array [OF assms]]
        transmits_save_return transmits_bind [OF transmits_primitives(4)]
        transmits_save_last [OF transmits_primitives(4)])+ (simp add: casts)
qed

lemma transmits_Foreign:
  "unat i < unat descriptorCount \<Longrightarrow> transmits C (SaveForeign (Some i)) LoadForeign (HForeign (Some i))"
  unfolding SaveForeign_def LoadForeign_def option.case
  by (rule transmits_save_last [OF transmits_primitives(3)]) simp


section \<open>Lists of objects\<close>

lemma LoadFixedArrayData_Suc:
  "LoadFixedArrayData ld (Suc n) = (\<lambda>l. ld l \<bind> (\<lambda>(item, l).
     RETURN_VALUE_ON_FAIL (replicate (Suc n) undefined_value) l
       (LoadFixedArrayData ld n l \<bind> (\<lambda>(items, l). Some (unhandle item # items, l)))))"
  by (rule ext) simp

lemma load_values_Suc:
  "load_values ld (Suc n) = (\<lambda>l. ld l \<bind> (\<lambda>(v, l). RETURN_VALUE_ON_FAIL None l (v \<bind> (\<lambda>v.
     load_values ld n l \<bind> (\<lambda>(vs, l). Some (map_option (Cons v) vs, l))))))"
  by (rule ext) simp

lemma carries_data:
  assumes "list_all2 (\<lambda>x y. carries C C (sv x) ld y) xs ys"
  shows "carries C C (SaveFixedArrayData sv xs) (\<lambda>n. LoadFixedArrayData (ld n) (length xs)) (map unhandle ys)"
  using assms
proof (induction rule: list_all2_induct)
  case Nil
  have "carries C C Some (\<lambda>n l. Some ([], l)) []" by (rule carries_done)
  then show ?case by (simp add: SaveFixedArrayData_def fun_eq_iff cong: conj_cong)
next
  case (Cons x xs y ys)
  let ?rest = "\<lambda>n l. LoadFixedArrayData (ld n) (length xs) l \<bind> (\<lambda>(items, l). Some (unhandle y # items, l))"
  have "carries C C (SaveFixedArrayData sv xs) ?rest (unhandle y # map unhandle ys)"
    by (rule carries_last [OF Cons(3)]) simp
  then have "carries C C (\<lambda>s. RETURN_ON_FAIL s (SaveFixedArrayData sv xs s))
      (\<lambda>n l. RETURN_VALUE_ON_FAIL (replicate (Suc (length xs)) undefined_value) l (?rest n l))
      (unhandle y # map unhandle ys)"
    by (intro carries_save_return carries_load_return)
  from carries_bind [where k = "\<lambda>n item l. RETURN_VALUE_ON_FAIL (replicate (Suc (length xs)) undefined_value) l
      (LoadFixedArrayData (ld n) (length xs) l \<bind> (\<lambda>(items, l). Some (unhandle item # items, l)))"
      and x = y, OF Cons(1) this]
  have "carries C C (\<lambda>s. sv x s \<bind> (\<lambda>s. RETURN_ON_FAIL s (SaveFixedArrayData sv xs s)))
      (\<lambda>n. LoadFixedArrayData (ld n) (Suc (length xs))) (unhandle y # map unhandle ys)"
    unfolding LoadFixedArrayData_Suc .
  moreover have "(\<lambda>s. sv x s \<bind> (\<lambda>s. RETURN_ON_FAIL s (SaveFixedArrayData sv xs s))) = SaveFixedArrayData sv (x # xs)"
    by (rule ext) simp
  ultimately show ?case by (simp only: length_Cons list.map)
qed

lemma carries_FixedArray:
  assumes "list_all2 (\<lambda>x y. carries C C (sv x) ld y) xs ys" "length xs < 2 ^ 31"
  shows "carries C C (SaveFixedArray_with sv xs) (\<lambda>n. LoadFixedArray_with (ld n)) (map unhandle ys)"
proof -
  have "SaveFixedArray_with sv xs = (\<lambda>s. SavePrimitive (int_length xs) s \<bind> SaveFixedArrayData sv xs)"
    by (rule ext) (simp add: SaveFixedArray_with_def)
  moreover have "\<not> sint (int_length xs) < 0" "iterations (int_length xs) = length xs"
    using assms(2) by (simp_all add: sint_of_nat32)
  ultimately show ?thesis unfolding LoadFixedArray_with_def
    by (simp only:, intro carries_bind [OF transmits_carries [OF transmits_primitives(3)]])
      (simp add: carries_data [OF assms(1)])
qed

lemma carries_values:
  assumes "list_all2 (\<lambda>d v. carries C C (sv (snd (snd d))) ld (Some v)) ds vs"
  shows "carries C C (save_each (\<lambda>(key, details, v). sv v) ds) (\<lambda>n. load_values (ld n) (length ds)) (Some vs)"
  using assms
proof (induction rule: list_all2_induct)
  case Nil
  have "carries C C Some (\<lambda>n l. Some (Some [], l)) (Some [])" by (rule carries_done)
  moreover have "save_each (\<lambda>(key, details, v). sv v) [] = Some" by (rule ext) simp
  ultimately show ?case by simp
next
  case (Cons d ds v vs)
  let ?rest = "\<lambda>n l. load_values (ld n) (length ds) l \<bind> (\<lambda>(vs, l). Some (map_option (Cons v) vs, l))"
  have "carries C C (save_each (\<lambda>(key, details, v). sv v) ds) ?rest (Some (v # vs))"
    by (rule carries_last [OF Cons(3)]) simp
  then have "carries C C (save_each (\<lambda>(key, details, v). sv v) ds)
      (\<lambda>n l. RETURN_VALUE_ON_FAIL None l (?rest n l)) (Some (v # vs))"
    by (rule carries_load_return)
  from carries_bind [where k = "\<lambda>n v l. RETURN_VALUE_ON_FAIL None l (v \<bind> (\<lambda>v.
      load_values (ld n) (length ds) l \<bind> (\<lambda>(vs, l). Some (map_option (Cons v) vs, l))))"
      and x = "Some v", OF Cons(1)] this
  have "carries C C (\<lambda>s. sv (snd (snd d)) s \<bind> save_each (\<lambda>(key, details, v). sv v) ds)
      (\<lambda>n. load_values (ld n) (Suc (length ds))) (Some (v # vs))"
    unfolding load_values_Suc by simp
  moreover have "(\<lambda>s. sv (snd (snd d)) s \<bind> save_each (\<lambda>(key, details, v). sv v) ds)
      = save_each (\<lambda>(key, details, v). sv v) (d # ds)" by (rule ext) (simp split: prod.splits)
  ultimately show ?case by (simp only: length_Cons)
qed

section \<open>Maps\<close>

lemma transmits_key:
  assumes "name_ok w key"
  shows "transmits C (\<lambda>s. SaveName w key s \<bind> SavePrimitive (details :: uint32))
    (\<lambda>l. LoadName w l \<bind> (\<lambda>(key, l). LoadPrimitive l \<bind> (\<lambda>(details, l). Some ((key, details), l))))
    (reloaded_name key, details)"
  by (rule transmits_bind [OF transmits_Name [OF assms]]) (rule transmits_map [OF transmits_primitives(3)])

lemma own_count_less: "own_count m < 1024"
proof -
  have "unat (take_bit 10 w) < 2 ^ 10" for w :: uint32
    by (simp only: unsigned_take_bit_eq take_bit_nat_less_exp)
  then show ?thesis
    by (simp add: NumberOfOwnDescriptors_def BitField_decode_bits)
qed

lemma length_own_descriptors:
  "own_count m \<le> length (mn_descriptors m) \<Longrightarrow> length (own_descriptors m) = own_count m"
  by (simp add: own_descriptors_def)

lemma transmits_PropertiesOnEnter:
  assumes "descriptors_ok w m"
  shows "transmits C (SavePropertiesOnEnter w m) (LoadPropertiesOnEnter w) (mn_properties m, own_keys m)"
proof -
  let ?p = "mn_properties m"
  let ?key = "\<lambda>l. LoadName w l \<bind> (\<lambda>(key, l). LoadPrimitive l \<bind> (\<lambda>(details, l). Some ((key, details), l)))"
  have len: "length (own_descriptors m) = own_count m" and ok: "own_count m \<le> length (mn_descriptors m)"
    using assms by (simp_all add: descriptors_ok_def length_own_descriptors)
  have n: "sint (word_of_nat (own_count m) :: int32) = int (own_count m)"
    using own_count_less [of m] by (simp add: sint_of_nat32)
  have "transmits C (save_each (\<lambda>(key, details, v) s. SaveName w key s \<bind> SavePrimitive details) (own_descriptors m))
      (load_each ?key (length (own_descriptors m)))
      (map (\<lambda>(key, details, v). (reloaded_name key, details)) (own_descriptors m))"
  proof (rule transmits_each)
    fix d assume d: "d \<in> set (own_descriptors m)"
    obtain key details v where eq: "d = (key, details, v)" by (cases d)
    with d assms have "name_ok w key" by (auto simp: descriptors_ok_def list_all_iff)
    from transmits_key [OF this] show "transmits C ((\<lambda>(key, details, v) s. SaveName w key s \<bind> SavePrimitive details) d)
      ?key ((\<lambda>(key, details, v). (reloaded_name key, details)) d)" by (simp add: eq)
  qed
  then have keys: "transmits C (save_each (\<lambda>(key, details, v) s. SaveName w key s \<bind> SavePrimitive details) (own_descriptors m))
      (load_each ?key (own_count m)) (own_keys m)"
    by (simp add: len own_keys_def)
  have eq: "SavePropertiesOnEnter w m = (\<lambda>s. SavePrimitive (mp_instance_type ?p) s \<bind> (\<lambda>s.
      SavePrimitive (mp_instance_size ?p) s \<bind> (\<lambda>s. SavePrimitive (mp_inobject_properties ?p) s \<bind> (\<lambda>s.
      SavePrimitive (mp_unused_property_fields ?p) s \<bind> (\<lambda>s. SavePrimitive (mp_bit_field ?p) s \<bind> (\<lambda>s.
      SavePrimitive (mp_bit_field2 ?p) s \<bind> (\<lambda>s. SavePrimitive (mp_bit_field3 ?p) s \<bind> (\<lambda>s.
      SavePrimitive (word_of_nat (own_count m) :: int32) s \<bind>
      save_each (\<lambda>(key, details, v) s. SaveName w key s \<bind> SavePrimitive details) (own_descriptors m)))))))))"
    by (rule ext) (simp add: SavePropertiesOnEnter_def ok Let_def cong: prod.case_cong)
  show ?thesis unfolding eq LoadPropertiesOnEnter_def
    by (rule transmits_bind [OF transmits_primitives(1)] transmits_bind [OF transmits_primitives(3)])+
      (simp add: n, rule transmits_save_last [OF keys], simp)
qed

lemma carries_push:
  assumes "transmits (C @ node_stack m)
    (SavePropertiesOnEnter w m :: 'a saver_base_scheme \<Rightarrow> 'a saver_base_scheme option) ld y"
  shows "carries C (C @ node_stack m)
    (EnterMap w m :: 'a saver_base_scheme \<Rightarrow> 'a saver_base_scheme option) (\<lambda>n. ld) y"
proof -
  from assms obtain bs where ld: "loads ld bs y"
    and sv: "saves (C @ node_stack m) (SavePropertiesOnEnter w m :: 'a saver_base_scheme \<Rightarrow> 'a saver_base_scheme option) bs"
    by (rule transmitsE)
  show ?thesis
  proof (rule carriesI [where bs = bs], goal_cases)
    case (1 s)
    with savesD [OF sv, of "s\<lparr>map_cache := C @ node_stack m\<rparr>"] show ?case
      by (simp add: EnterMap_def node_stack_def cong: option.case_cong)
  qed (rule ld)
qed

lemmas carries_EnterMap = carries_push [OF transmits_PropertiesOnEnter]

lemma carries_pop:
  assumes "carries (C @ node_stack m) (C @ node_stack m) (SavePropertiesOnExit sv w m) ld y"
  shows "carries (C @ node_stack m) C (ExitMap sv w m) ld y"
proof -
  from assms obtain bs where f: "\<And>s. status s = SUCCEEDED \<Longrightarrow> map_cache s = C @ node_stack m \<Longrightarrow>
      SavePropertiesOnExit sv w m s = Some (s\<lparr>bytes := bytes s @ bs, map_cache := C @ node_stack m\<rparr>)"
    and ld: "\<And>n. length bs \<le> n \<Longrightarrow> loads (ld n) bs y" by (rule carriesE) blast
  show ?thesis
    by (rule carriesI [where bs = bs])
      (auto simp: ExitMap_def f ld node_stack_def split: option.splits)
qed

lemma SetNumberOfOwnDescriptors_same: "SetNumberOfOwnDescriptors (NumberOfOwnDescriptors p) p = p"
proof -
  have "BitField_update 10 10 w (BitField_decode 10 10 w) = w" for w
    unfolding BitField_decode_bits BitField_update_def BitField_encode_def BitField_kMask_mask
    by (rule bit_word_eqI) (auto simp: bit_simps)
  then show ?thesis
    by (simp add: SetNumberOfOwnDescriptors_def NumberOfOwnDescriptors_def)
qed

lemma load_exit_start:
  assumes "carries C C f (\<lambda>n. load_values (ld n) (own_count m)) (Some vs)"
    and "carries C C g (\<lambda>n l. LoadBool l \<bind> (\<lambda>(has_constructor, l).
        if has_constructor then LoadJSFunction w l \<bind> (\<lambda>(constructor, l). RETURN_VALUE_ON_FAIL None l
            (Some (Some (with_constructor w base (mn_properties m) (descriptors_with_values keys vs) constructor), l)))
        else ld n l \<bind> (\<lambda>(prototype, l). RETURN_VALUE_ON_FAIL None l
            (Some (Some (with_prototype base (mn_properties m) (descriptors_with_values keys vs) prototype), l))))) y"
    and "length keys = own_count m"
  shows "carries C C (\<lambda>s. f s \<bind> g) (\<lambda>n. LoadPropertiesOnExit (ld n) w base (mn_properties m) keys) y"
  unfolding LoadPropertiesOnExit_def
  by (rule carries_bind [OF assms(1)]) (use assms(2,3) in \<open>simp add: SetNumberOfOwnDescriptors_same Let_def\<close>)

lemma carries_exit_constructor:
  assumes "list_all2 (\<lambda>d v. carries C C (sv (snd (snd d))) ld (Some v)) (own_descriptors m) vs"
    and "own_count m \<le> length (mn_descriptors m)" "length keys = own_count m"
    and "mn_constructor m = Some f" "mn_is_constructors_prototype m" "function_ok w f"
  shows "carries C C (SavePropertiesOnExit sv w m)
    (\<lambda>n. LoadPropertiesOnExit (ld n) w base (mn_properties m) keys)
    (Some (with_constructor w base (mn_properties m) (descriptors_with_values keys vs) (resolved_function w f)))"
proof -
  have eq: "SavePropertiesOnExit sv w m = (\<lambda>s. save_each (\<lambda>(key, details, v). sv v) (own_descriptors m) s \<bind>
      (\<lambda>s. SaveTrue s \<bind> SaveJSFunction w f))"
    by (rule ext) (simp add: SavePropertiesOnExit_def assms)
  have "carries C C (\<lambda>s. SaveTrue s \<bind> SaveJSFunction w f)
      (\<lambda>n l. LoadBool l \<bind> (\<lambda>(has_constructor, l).
        if has_constructor then LoadJSFunction w l \<bind> (\<lambda>(constructor, l). RETURN_VALUE_ON_FAIL None l
            (Some (Some (with_constructor w base (mn_properties m) (descriptors_with_values keys vs) constructor), l)))
        else ld n l \<bind> (\<lambda>(prototype, l). RETURN_VALUE_ON_FAIL None l
            (Some (Some (with_prototype base (mn_properties m) (descriptors_with_values keys vs) prototype), l)))))
      (Some (with_constructor w base (mn_properties m) (descriptors_with_values keys vs) (resolved_function w f)))"
    by (rule carries_bind [OF transmits_carries [OF transmits_true]], simp only: if_True)
      (rule carries_last [OF transmits_carries [OF transmits_JSFunction [OF assms(6)]]],
        simp add: RETURN_VALUE_ON_FAIL_def)
  from load_exit_start [where f = "save_each (\<lambda>(key, details, v). sv v) (own_descriptors m)", OF _ this assms(3)]
  show ?thesis unfolding eq
    using carries_values [OF assms(1)] by (simp add: length_own_descriptors [OF assms(2)])
qed

lemma carries_exit_prototype:
  assumes "list_all2 (\<lambda>d v. carries C C (sv (snd (snd d))) ld (Some v)) (own_descriptors m) vs"
    and "own_count m \<le> length (mn_descriptors m)" "length keys = own_count m"
    and "mn_constructor m = None \<or> \<not> mn_is_constructors_prototype m"
    and "carries C C (sv (mn_prototype m)) ld prototype"
  shows "carries C C (SavePropertiesOnExit sv w m)
    (\<lambda>n. LoadPropertiesOnExit (ld n) w base (mn_properties m) keys)
    (Some (with_prototype base (mn_properties m) (descriptors_with_values keys vs) prototype))"
proof -
  have eq: "SavePropertiesOnExit sv w m = (\<lambda>s. save_each (\<lambda>(key, details, v). sv v) (own_descriptors m) s \<bind>
      (\<lambda>s. SaveFalse s \<bind> sv (mn_prototype m)))"
    by (rule ext, cases "mn_constructor m") (use assms(4) in \<open>simp_all add: SavePropertiesOnExit_def\<close>)
  have "carries C C (\<lambda>s. SaveFalse s \<bind> sv (mn_prototype m))
      (\<lambda>n l. LoadBool l \<bind> (\<lambda>(has_constructor, l).
        if has_constructor then LoadJSFunction w l \<bind> (\<lambda>(constructor, l). RETURN_VALUE_ON_FAIL None l
            (Some (Some (with_constructor w base (mn_properties m) (descriptors_with_values keys vs) constructor), l)))
        else ld n l \<bind> (\<lambda>(prototype, l). RETURN_VALUE_ON_FAIL None l
            (Some (Some (with_prototype base (mn_properties m) (descriptors_with_values keys vs) prototype), l)))))
      (Some (with_prototype base (mn_properties m) (descriptors_with_values keys vs) prototype))"
    by (rule carries_bind [OF transmits_carries [OF transmits_false]], simp only: if_False)
      (rule carries_last [OF assms(5)], simp add: RETURN_VALUE_ON_FAIL_def)
  from load_exit_start [where f = "save_each (\<lambda>(key, details, v). sv v) (own_descriptors m)", OF _ this assms(3)]
  show ?thesis unfolding eq
    using carries_values [OF assms(1)] by (simp add: length_own_descriptors [OF assms(2)])
qed


lemma descriptor_Search_found:
  assumes "descriptor_Search key m \<noteq> -1" "own_count m \<le> length (mn_descriptors m)"
  shows "0 \<le> sint (descriptor_Search key m)"
    and "nat (sint (descriptor_Search key m)) < own_count m"
proof -
  obtain i where i: "find_index (\<lambda>d. fst d = key) (own_descriptors m) = Some i"
    using assms(1) by (auto simp: descriptor_Search_def split: option.splits)
  then have "i < own_count m" using find_index_Some [OF i] assms(2) by (simp add: length_own_descriptors)
  then have "sint (descriptor_Search key m) = int i" "i < own_count m"
    using i own_count_less [of m] by (simp_all add: descriptor_Search_def sint_of_nat32)
  then show "0 \<le> sint (descriptor_Search key m)" "nat (sint (descriptor_Search key m)) < own_count m"
    by simp_all
qed

lemma saved_transition_cases:
  assumes "saved_transition w parent m = Some t"
  obtains (copy) "t = CopyAndDrop" "own_count m = 0"
  | (special) a where "t = Special (NameSymbol a) a" "own_count m \<noteq> 0"
      "transition_key parent m = Some (NameSymbol a)" "IsSpecialTransition w (NameSymbol a)"
  | (simple) key where "t = Simple (descriptor_Search key m)" "own_count m \<noteq> 0"
      "transition_key parent m = Some key" "\<not> IsSpecialTransition w key" "descriptor_Search key m \<noteq> -1"
  using assms
  by (auto simp: saved_transition_def IsSpecialTransition_def split: if_splits option.splits js_name.splits)

lemma length_transition_keys: "length (transition_keys w chain t ds) = length ds"
  by (simp add: transition_keys_def CopyReplaceDescriptors_def split: transition.splits)

lemma length_own_keys: "own_count m \<le> length (mn_descriptors m) \<Longrightarrow> length (own_keys m) = own_count m"
  by (simp add: own_keys_def length_own_descriptors)

lemma carries_transition:
  assumes t: "saved_transition w parent m = Some t" "transition_ok w t" and ok: "descriptors_ok w m"
    and exit: "carries (C @ node_stack m) C (ExitMap sv w m)
      (\<lambda>n. LoadPropertiesOnExit (ld n) w (transition_base w chain t) (mn_properties m)
        (transition_keys w chain t (own_keys m))) (Some m')"
  shows "carries C C (save_transition sv w parent m)
    (\<lambda>n. load_transition (ld n) w (hd chain) chain has_branched)
    (Some m', transition_branches w chain t has_branched)"
proof -
  have bound: "own_count m \<le> length (mn_descriptors m)" using ok by (simp add: descriptors_ok_def)
  show ?thesis using t(1)
  proof (cases rule: saved_transition_cases)
    case copy
    have "carries C C (\<lambda>s. EnterMap w m s \<bind> (\<lambda>s. SaveTrue s \<bind> ExitMap sv w m))
        (\<lambda>n. load_transition (ld n) w (hd chain) chain has_branched)
        (Some m', transition_branches w chain t has_branched)"
      unfolding load_transition_def
      apply (rule carries_bind [OF carries_EnterMap [OF ok]])
      apply (simp only: prod.case)
      apply (rule carries_bind [OF transmits_carries [OF transmits_true]])
      apply (simp only: if_True)
      apply (rule carries_last [OF exit [unfolded copy(1) transition_base_def transition_keys_def transition.case]])
      apply (simp add: transition_branches_def copy(1))
      done
    with copy(2) show ?thesis by (simp add: save_transition_def [abs_def])
  next
    case (special a)
    then have name: "name_ok w (NameSymbol a)" using t(2) by (simp add: transition_ok_def)
    have "carries C C (\<lambda>s. EnterMap w m s \<bind> (\<lambda>s. SaveFalse s \<bind> (\<lambda>s. SaveTrue s \<bind>
          (\<lambda>s. SaveName w (NameSymbol a) s \<bind> ExitMap sv w m))))
        (\<lambda>n. load_transition (ld n) w (hd chain) chain has_branched)
        (Some m', transition_branches w chain t has_branched)"
      unfolding load_transition_def
      apply (rule carries_bind [OF carries_EnterMap [OF ok]])
      apply (simp only: prod.case)
      apply (rule carries_bind [OF transmits_carries [OF transmits_false]])
      apply (simp only: if_False)
      apply (rule carries_bind [OF transmits_carries [OF transmits_true]])
      apply (simp only: if_True)
      apply (rule carries_bind [OF transmits_carries [OF transmits_Name [OF name]]])
      apply (simp only: reloaded_name_def js_name.case bind.bind_lunit)
      apply (cases "w_special_transition w chain a")
      subgoal premises child
        apply (simp only: child option.case)
        apply (rule carries_last [OF exit [unfolded special(1) transition_base_def transition_keys_def
            transition.case child option.case]])
        apply (simp add: transition_branches_def special(1) child)
        done
      subgoal premises child
        apply (simp only: child option.case)
        apply (rule carries_last [OF exit [unfolded special(1) transition_base_def transition_keys_def
            transition.case child option.case]])
        apply (simp add: transition_branches_def special(1) child)
        done
      done
    with special(2-) show ?thesis by (simp add: save_transition_def [abs_def])
  next
    case (simple key)
    note found = descriptor_Search_found [OF simple(5) bound]
    have "carries C C (\<lambda>s. EnterMap w m s \<bind> (\<lambda>s. SaveFalse s \<bind> (\<lambda>s. SaveFalse s \<bind>
          (\<lambda>s. SavePrimitive (descriptor_Search key m) s \<bind> ExitMap sv w m))))
        (\<lambda>n. load_transition (ld n) w (hd chain) chain has_branched)
        (Some m', transition_branches w chain t has_branched)"
      unfolding load_transition_def
      apply (rule carries_bind [OF carries_EnterMap [OF ok]])
      apply (simp only: prod.case)
      apply (rule carries_bind [OF transmits_carries [OF transmits_false]])
      apply (simp only: if_False)
      apply (rule carries_bind [OF transmits_carries [OF transmits_false]])
      apply (simp only: if_False)
      apply (rule carries_bind [OF transmits_carries [OF transmits_primitives(3)]])
      apply (simp only: found length_own_keys [OF bound] simp_thms if_True)
      apply (rule carries_last [OF exit [unfolded simple(1) transition_base_def transition_keys_def transition.case]])
      apply (simp add: transition_branches_def simple(1))
      done
    with simple(2-4) show ?thesis by (simp add: save_transition_def [abs_def])
  qed
qed


section \<open>The main induction\<close>

lemma load_contents_simps:
  "load_contents ld w ODDBALL_TYPE = (\<lambda>l. some_handle (\<lambda>h. h) (LoadOddball l))"
  "load_contents ld w HEAP_NUMBER_TYPE = (\<lambda>l. some_handle (\<lambda>h. h) (LoadHeapNumber l))"
  "load_contents ld w SYMBOL_TYPE = (\<lambda>l. some_handle HSymbol (LoadSymbol w l))"
  "load_contents ld w STRING_TYPE = (\<lambda>l. some_handle HString (LoadString l))"
  "load_contents ld w JS_REGEXP_TYPE = (\<lambda>l. some_handle (\<lambda>h. h) (LoadJSRegExp w l))"
  "load_contents ld w FIXED_ARRAY_TYPE = (\<lambda>l. some_handle HFixedArray (LoadFixedArray_with ld l))"
  "load_contents ld w FIXED_DOUBLE_ARRAY_TYPE = (\<lambda>l. some_handle (\<lambda>h. h) (LoadFixedDoubleArray l))"
  "load_contents ld w JS_ARRAY_TYPE = (\<lambda>l. heap_handle (LoadJSArray_with ld l))"
  "load_contents ld w JS_ARRAY_BUFFER_TYPE = (\<lambda>l. some_handle HJSArrayBuffer (LoadJSArrayBuffer l))"
  "load_contents ld w JS_TYPED_ARRAY_TYPE = (\<lambda>l. some_handle (\<lambda>h. h) (LoadJSTypedArray l))"
  "load_contents ld w JS_FUNCTION_TYPE =
     (\<lambda>l. heap_handle (map_option (\<lambda>(f, l). (map_option HJSFunction f, l)) (LoadJSFunction w l)))"
  "load_contents ld w SHARED_FUNCTION_INFO_TYPE =
     (\<lambda>l. heap_handle (map_option (\<lambda>(i, l). (map_option HSharedFunctionInfo i, l)) (LoadSharedFunctionInfo w l)))"
  "load_contents ld w MAP_TYPE =
     (\<lambda>l. heap_handle (map_option (\<lambda>(m, l). (map_option HMap m, l)) (LoadMap_with ld w l)))"
  "load_contents ld w JS_OBJECT_TYPE =
     (\<lambda>l. heap_handle (map_option (\<lambda>(x, l). (map_option (\<lambda>(m, es, ps). HJSObject m es ps) x, l))
       (LoadJSObject_with ld w l)))"
  "load_contents ld w JS_VALUE_TYPE = (\<lambda>l. heap_handle (LoadJSValue_with ld w l))"
  "load_contents ld w EXECUTABLE_ACCESSOR_INFO_TYPE = (\<lambda>l. heap_handle (LoadExecutableAccessorInfo_with ld l))"
  "load_contents ld w FOREIGN_TYPE = (\<lambda>l. some_handle (\<lambda>h. h) (LoadForeign l))"
  "load_contents ld w JS_GLOBAL_OBJECT_TYPE = (\<lambda>l. Some (Some (OHeap (HWellKnown JS_GLOBAL_OBJECT)), l))"
  "load_contents ld w JS_GLOBAL_PROXY_TYPE = (\<lambda>l. Some (Some (OHeap (HWellKnown JS_GLOBAL_PROXY)), l))"
  "load_contents ld w JS_BUILTINS_OBJECT_TYPE = (\<lambda>l. Some (Some (OHeap (HWellKnown JS_BUILTINS_OBJECT)), l))"
  "load_contents ld w NATIVE_CONTEXT_TYPE = (\<lambda>l. Some (Some (OHeap (HWellKnown NATIVE_CONTEXT)), l))"
  "load_contents ld w ALLOCATION_SITE_TYPE = (\<lambda>l. Some (Some undefined_value, l))"
  "load_contents ld w ACCESSOR_PAIR_TYPE = (\<lambda>l. Some (Some null_value, l))"
  by (rule ext, simp add: load_contents_def instance_type_defs)+

lemma carries_some_handle:
  "carries C C' sv ld y \<Longrightarrow> carries C C' sv (\<lambda>n l. some_handle c (ld n l)) (Some (OHeap (c y)))"
  unfolding some_handle_def by (rule carries_map)

lemma carries_heap_handle:
  "carries C C' sv ld (Some y) \<Longrightarrow> carries C C' sv (\<lambda>n l. heap_handle (ld n l)) (Some (OHeap y))"
  unfolding heap_handle_def
  using carries_map [of C C' sv ld "Some y" "map_option OHeap"] by simp

lemma carries_map_handle:
  "carries C C' sv ld (Some y) \<Longrightarrow>
   carries C C' sv (\<lambda>n l. heap_handle (map_option (\<lambda>(h, l). (map_option c h, l)) (ld n l))) (Some (OHeap (c y)))"
  using carries_heap_handle [of C C' sv "\<lambda>n l. map_option (\<lambda>(h, l). (map_option c h, l)) (ld n l)" "c y"]
    carries_map [of C C' sv ld "Some y" "map_option c"] by simp

text \<open>The types of savers, and of loaders with fuel.\<close>

type_synonym 'a sv = "'a saver_base_scheme \<Rightarrow> 'a saver_base_scheme option"
type_synonym ('b, 'y) ld = "nat \<Rightarrow> 'b loader_base_scheme \<Rightarrow> ('y \<times> 'b loader_base_scheme) option"

text \<open>The tag in front of an object.\<close>

lemma carries_heap_object:
  assumes "carries C C (save_contents w h :: 'a sv)
    ((\<lambda>n. load_contents (LoadObject_fuel n w) w (detailed_type h)) :: ('b, obj option) ld) y"
  shows "carries C C (SaveHeapObject w h :: 'a sv)
    ((\<lambda>n. LoadHeapObject_with (LoadObject_fuel n w) w) :: ('b, obj option) ld) y"
proof -
  have eq: "(SaveHeapObject w h :: 'a sv) = (\<lambda>s. SavePrimitive (detailed_type h) s \<bind> save_contents w h)"
    by (rule ext) simp
  show ?thesis unfolding eq LoadHeapObject_with_def
    by (rule carries_bind [OF transmits_carries [OF transmits_primitives(3)]]) (rule assms)
qed

lemma save_contents_eta:
  "save_contents w (HOddball kind) = SaveOddball kind"
  "save_contents w (HHeapNumber d) = SaveHeapNumber d"
  "save_contents w (HSymbol a) = SaveSymbol w a"
  "save_contents w (HString string) = SaveString string"
  "save_contents w (HJSRegExp pattern flags) = SaveJSRegExp pattern flags"
  "save_contents w (HFixedArray xs) = SaveFixedArray_with (SaveObject w) xs"
  "save_contents w (HFixedDoubleArray ds) = SaveFixedDoubleArray ds"
  "save_contents w (HJSArray elements_kind len elements) = SaveJSArray_with (SaveObject w) elements_kind len elements"
  "save_contents w (HJSArrayBuffer content) = SaveJSArrayBuffer content"
  "save_contents w (HJSTypedArray t content offset count) = SaveJSTypedArray t content offset count"
  "save_contents w (HJSFunction f) = SaveJSFunction w f"
  "save_contents w (HSharedFunctionInfo i) = SaveSharedFunctionInfo w i"
  "save_contents w (HMap m) = SaveMap w m"
  "save_contents w (HJSObject m elements ps) = SaveJSObject_with (SaveObject w) w m elements ps"
  "save_contents w (HJSValue m elements ps v) = SaveJSValue_with (SaveObject w) w m elements ps v"
  "save_contents w (HExecutableAccessorInfo getter setter data) =
     SaveExecutableAccessorInfo_with (SaveObject w) getter setter data"
  "save_contents w (HForeign accessor) = SaveForeign accessor"
  "save_contents w (HWellKnown k) = Some"
  "save_contents w HAllocationSite = Some"
  "save_contents w HAccessorPair = Some"
  by (rule ext, simp)+

text \<open>What the loader does after the type of an object.\<close>

definition load_typed ::
  "'w heap_world_scheme \<Rightarrow> nat \<Rightarrow> uint32 \<Rightarrow> 'b loader_base_scheme \<Rightarrow> (obj option \<times> 'b loader_base_scheme) option" where
  "load_typed w n t l =
     (if t = HEAP_OBJECT_TYPE then LoadHeapObject_with (LoadObject_fuel n w) w l
      else if t = SMI_TYPE then LoadPrimitive l \<bind> (\<lambda>(v, l). Some (Some (OSmi v), l))
      else Some (None, l))"

lemma LoadObject_typed: "LoadObject_fuel (Suc n) w l = LoadPrimitive l \<bind> (\<lambda>(t, l). load_typed w n t l)"
  by (simp add: LoadObject_with_def load_typed_def)

lemma load_typed_simps:
  "load_typed w n NULL_TYPE = (\<lambda>l. Some (None, l))"
  "load_typed w n SMI_TYPE = (\<lambda>l. LoadPrimitive l \<bind> (\<lambda>(v, l). Some (Some (OSmi v), l)))"
  "load_typed w n HEAP_OBJECT_TYPE = LoadHeapObject_with (LoadObject_fuel n w) w"
  by (rule ext, simp add: load_typed_def HEAP_OBJECT_TYPE_def SMI_TYPE_def NULL_TYPE_def)+

lemma carries_null:
  "carries C C (SaveObject w (OSmi 0) :: 'a sv) ((\<lambda>n. LoadObject_fuel n w) :: ('b, obj option) ld) None"
proof -
  have eq: "(SaveObject w (OSmi 0) :: 'a sv) = (\<lambda>s. SavePrimitive NULL_TYPE s \<bind> Some)" by (rule ext) simp
  show ?thesis unfolding eq
    by (rule carries_Suc [where k = "load_typed w" and ld = "\<lambda>n. LoadObject_fuel n w", OF _ LoadObject_typed]) (simp only: load_typed_simps carries_done)
qed

lemma carries_smi:
  assumes "v \<noteq> 0"
  shows "carries C C (SaveObject w (OSmi v) :: 'a sv) ((\<lambda>n. LoadObject_fuel n w) :: ('b, obj option) ld)
    (Some (OSmi v))"
proof -
  have eq: "(SaveObject w (OSmi v) :: 'a sv) = (\<lambda>s. SavePrimitive SMI_TYPE s \<bind> SavePrimitive v)"
    by (rule ext) (simp add: assms)
  show ?thesis unfolding eq
    by (rule carries_Suc [where k = "load_typed w" and ld = "\<lambda>n. LoadObject_fuel n w", OF _ LoadObject_typed])
      (simp only: load_typed_simps, rule transmits_carries, rule transmits_map [OF transmits_primitives(3)])
qed

lemma carries_heap:
  assumes "carries C C (SaveHeapObject w h :: 'a sv)
    ((\<lambda>n. LoadHeapObject_with (LoadObject_fuel n w) w) :: ('b, obj option) ld) (Some y)"
  shows "carries C C (SaveObject w (OHeap h) :: 'a sv) ((\<lambda>n. LoadObject_fuel n w) :: ('b, obj option) ld) (Some y)"
proof -
  have eq: "(SaveObject w (OHeap h) :: 'a sv) = (\<lambda>s. SavePrimitive HEAP_OBJECT_TYPE s \<bind> SaveHeapObject w h)"
    by (rule ext) (simp del: SaveHeapObject.simps)
  show ?thesis unfolding eq
    by (rule carries_Suc [where k = "load_typed w" and ld = "\<lambda>n. LoadObject_fuel n w", OF _ LoadObject_typed]) (simp only: load_typed_simps assms)
qed


lemma carries_JSArray:
  assumes "len \<noteq> 0" "carries C C (sv (OSmi len)) ld (Some (OSmi len))"
    "carries C C (SaveFixedArrayBase_with sv elements) (\<lambda>n. LoadFixedArrayBase_with (ld n)) elements'"
  shows "carries C C (SaveJSArray_with sv kind (OSmi len) elements) (\<lambda>n. LoadJSArray_with (ld n))
    (Some (HJSArray kind (OSmi len) elements'))"
proof -
  have "SaveJSArray_with sv kind (OSmi len) elements = (\<lambda>s. SavePrimitive kind s \<bind> (\<lambda>s. sv (OSmi len) s \<bind>
      (\<lambda>s. RETURN_ON_FAIL s (SaveFixedArrayBase_with sv elements s))))"
    by (rule ext) (simp add: SaveJSArray_with_def assms(1))
  moreover have "carries C C (\<lambda>s. SavePrimitive kind s \<bind> (\<lambda>s. sv (OSmi len) s \<bind>
      (\<lambda>s. RETURN_ON_FAIL s (SaveFixedArrayBase_with sv elements s)))) (\<lambda>n. LoadJSArray_with (ld n))
      (Some (HJSArray kind (OSmi len) elements'))"
    unfolding LoadJSArray_with_def
    apply (rule carries_bind [OF transmits_carries [OF transmits_primitives(3)]])
    apply (rule carries_bind [OF assms(2)])
    apply (simp only: option.case obj.case)
    apply (rule carries_save_return, rule carries_load_return)
    apply (rule carries_last [OF assms(3)])
    apply (simp add: RETURN_VALUE_ON_FAIL_def)
    done
  ultimately show ?thesis by (simp only:)
qed

lemma carries_JSArray_empty:
  assumes "carries C C (sv (OSmi 0)) ld None"
  shows "carries C C (SaveJSArray_with sv kind (OSmi 0) elements) (\<lambda>n. LoadJSArray_with (ld n))
    (Some (HJSArray kind (OSmi 0) (HFixedArray [])))"
proof -
  have "SaveJSArray_with sv kind (OSmi 0) elements = (\<lambda>s. SavePrimitive kind s \<bind> (\<lambda>s. sv (OSmi 0) s \<bind>
      (\<lambda>s. RETURN_ON_FAIL s (Some s))))"
    by (rule ext) (simp add: SaveJSArray_with_def)
  moreover have "carries C C (\<lambda>s. SavePrimitive kind s \<bind> (\<lambda>s. sv (OSmi 0) s \<bind>
      (\<lambda>s. RETURN_ON_FAIL s (Some s)))) (\<lambda>n. LoadJSArray_with (ld n))
      (Some (HJSArray kind (OSmi 0) (HFixedArray [])))"
    unfolding LoadJSArray_with_def
    apply (rule carries_bind [OF transmits_carries [OF transmits_primitives(3)]])
    apply (rule carries_bind [OF assms])
    apply (simp only: option.case)
    apply (rule carries_save_return, rule carries_load_return, rule carries_done)
    done
  ultimately show ?thesis by (simp only:)
qed

lemma carries_JSObject:
  assumes "carries C C (SaveMap_with sv w m) (\<lambda>n. LoadMap_with (ld n) w) (Some m')"
    "carries C C (SaveFixedArrayBase_with sv elements) (\<lambda>n. LoadFixedArrayBase_with (ld n)) elements'"
    "carries C C (SaveFixedArray_with sv ps) (\<lambda>n. LoadFixedArray_with (ld n)) ps'"
  shows "carries C C (SaveJSObject_with sv w m elements ps) (\<lambda>n. LoadJSObject_with (ld n) w)
    (Some (m', elements', ps'))"
  unfolding SaveJSObject_with_def [abs_def] LoadJSObject_with_def
  apply (rule carries_bind [OF assms(1)])
  apply (simp only: bind.bind_lunit)
  apply (rule carries_save_return, rule carries_load_return)
  apply (rule carries_bind [OF assms(2)])
  apply (rule carries_save_return, rule carries_load_return)
  apply (rule carries_bind [OF assms(3)])
  apply (rule carries_save_return, rule carries_load_return, rule carries_done)
  done

lemma carries_JSValue:
  assumes "carries C C (SaveJSObject_with sv w m elements ps) (\<lambda>n. LoadJSObject_with (ld n) w)
      (Some (m', elements', ps'))"
    "carries C C (sv v) ld (Some v')"
  shows "carries C C (SaveJSValue_with sv w m elements ps v) (\<lambda>n. LoadJSValue_with (ld n) w)
    (Some (HJSValue m' elements' ps' v'))"
  unfolding SaveJSValue_with_def [abs_def] LoadJSValue_with_def
  apply (rule carries_bind [OF assms(1)])
  apply (simp only: bind.bind_lunit prod.case)
  apply (rule carries_load_return)
  apply (rule carries_last [OF assms(2)])
  apply (simp add: RETURN_VALUE_ON_FAIL_def)
  done

lemma carries_ExecutableAccessorInfo:
  assumes "carries C C (sv a) ld (Some a')" "carries C C (sv b) ld (Some b')" "carries C C (sv c) ld (Some c')"
  shows "carries C C (SaveExecutableAccessorInfo_with sv a b c) (\<lambda>n. LoadExecutableAccessorInfo_with (ld n))
    (Some (HExecutableAccessorInfo a' b' c'))"
  unfolding SaveExecutableAccessorInfo_with_def [abs_def] LoadExecutableAccessorInfo_with_def
  apply (rule carries_bind [OF assms(1)])
  apply (simp only: bind.bind_lunit)
  apply (rule carries_load_return)
  apply (rule carries_bind [OF assms(2)])
  apply (simp only: bind.bind_lunit)
  apply (rule carries_load_return)
  apply (rule carries_last [OF assms(3)])
  apply (simp add: RETURN_VALUE_ON_FAIL_def)
  done

lemma carries_array_base:
  assumes "carries C C (SaveFixedArray_with sv xs) (\<lambda>n. LoadFixedArray_with (ld n)) ys"
  shows "carries C C (SaveFixedArrayBase_with sv (HFixedArray xs)) (\<lambda>n. LoadFixedArrayBase_with (ld n)) (HFixedArray ys)"
proof -
  have "SaveFixedArrayBase_with sv (HFixedArray xs) =
      (\<lambda>s. SavePrimitive FIXED_ARRAY_TYPE s \<bind> SaveFixedArray_with sv xs)"
    by (rule ext) (simp add: SaveFixedArrayBase_with_def)
  moreover have "carries C C (\<lambda>s. SavePrimitive FIXED_ARRAY_TYPE s \<bind> SaveFixedArray_with sv xs)
      (\<lambda>n. LoadFixedArrayBase_with (ld n)) (HFixedArray ys)"
    unfolding LoadFixedArrayBase_with_def
    apply (rule carries_bind [OF transmits_carries [OF transmits_primitives(3)]])
    apply (simp only: refl if_True)
    apply (rule carries_last [OF assms], simp)
    done
  ultimately show ?thesis by (simp only:)
qed

lemma carries_double_array_base:
  assumes "length ds < 2 ^ 31"
  shows "carries C C (SaveFixedArrayBase_with sv (HFixedDoubleArray ds)) (\<lambda>n. LoadFixedArrayBase_with (ld n))
    (reloaded_doubles ds)"
proof -
  have "SaveFixedArrayBase_with sv (HFixedDoubleArray ds) =
      (\<lambda>s. SavePrimitive FIXED_DOUBLE_ARRAY_TYPE s \<bind> SaveFixedDoubleArray ds)"
    by (rule ext) (simp add: SaveFixedArrayBase_with_def)
  moreover have "carries C C (\<lambda>s. SavePrimitive FIXED_DOUBLE_ARRAY_TYPE s \<bind> SaveFixedDoubleArray ds)
      (\<lambda>n. LoadFixedArrayBase_with (ld n)) (reloaded_doubles ds)"
    unfolding LoadFixedArrayBase_with_def
    apply (rule carries_bind [OF transmits_carries [OF transmits_primitives(3)]])
    apply (simp add: FIXED_ARRAY_TYPE_def FIXED_DOUBLE_ARRAY_TYPE_def)
    apply (rule transmits_carries [OF transmits_FixedDoubleArray [OF assms]])
    done
  ultimately show ?thesis by (simp only:)
qed

lemma carries_transitions_Cons:
  assumes "carries C C (save_transition sv w parent m) (\<lambda>n. load_transition (ld n) w (hd chain) chain has_branched)
      (Some m', branched)"
    "carries C C (save_transitions sv w m ms) (\<lambda>n. load_transitions (ld n) w (length ms) (m' # chain) branched) r"
  shows "carries C C (save_transitions sv w parent (m # ms))
    (\<lambda>n. load_transitions (ld n) w (length (m # ms)) chain has_branched) r"
proof -
  have "save_transitions sv w parent (m # ms) = (\<lambda>s. RETURN_ON_FAIL s
      (save_transition sv w parent m s \<bind> save_transitions sv w m ms))"
    by (rule ext) simp
  moreover have "(\<lambda>n. load_transitions (ld n) w (length (m # ms)) chain has_branched) = (\<lambda>n l.
      load_transition (ld n) w (hd chain) chain has_branched l \<bind> (\<lambda>((m, has_branched), l).
      case m of None \<Rightarrow> Some (None, l) | Some m \<Rightarrow> load_transitions (ld n) w (length ms) (m # chain) has_branched l))"
    by (intro ext) simp
  moreover have "carries C C (\<lambda>s. RETURN_ON_FAIL s (save_transition sv w parent m s \<bind> save_transitions sv w m ms))
      (\<lambda>n l. load_transition (ld n) w (hd chain) chain has_branched l \<bind> (\<lambda>((m, has_branched), l).
      case m of None \<Rightarrow> Some (None, l) | Some m \<Rightarrow> load_transitions (ld n) w (length ms) (m # chain) has_branched l)) r"
    apply (rule carries_save_return)
    apply (rule carries_bind [OF assms(1)])
    apply (simp only: prod.case option.case)
    apply (rule assms(2))
    done
  ultimately show ?thesis by (simp only:)
qed

lemma CreateMapChain_free:
  assumes "list_all (\<lambda>m. set (node_stack m) \<inter> set C = {}) chain" "map_cache s = C"
  shows "CreateMapChain chain s = (True, s)"
proof -
  have "\<not> list_ex (\<lambda>m. case mn_address m of None \<Rightarrow> False | Some a \<Rightarrow> a \<in> set (map_cache s)) chain"
    using assms by (auto simp: list_ex_iff list_all_iff node_stack_def split: option.splits)
  then show ?thesis by (simp add: CreateMapChain_def)
qed

lemma carries_Map:
  assumes free: "list_all (\<lambda>m. set (node_stack m) \<inter> set C = {}) chain"
    and chain: "length chain < 2 ^ 31" "rev chain = r # ms"
    and root: "carries C C (\<lambda>s. SavePrimitive (GetStableRootIndex w r) s \<bind> (\<lambda>s.
        if GetStableRootIndex w r = kNotFound w then EnterMap w r s \<bind> ExitMap sv w r else Some s))
      (\<lambda>n l. LoadPrimitive l \<bind> (\<lambda>(root_index, l).
        if root_index \<noteq> kNotFound w
        then heap_root w root_index \<bind> (\<lambda>root. Some ((Some (w_root_map w root), False), l))
        else LoadPropertiesOnEnter w l \<bind> (\<lambda>((p, descriptors), l).
          LoadPropertiesOnExit (ld n) w NewMap p descriptors l \<bind> (\<lambda>(m, l). Some ((m, True), l)))))
      (Some r', branched)"
    and transitions: "carries C C (save_transitions sv w r ms)
      (\<lambda>n. load_transitions (ld n) w (length ms) [r'] branched) (Some res)"
  shows "carries C C (SaveMap_with sv w chain) (\<lambda>n. LoadMap_with (ld n) w) (Some (deduplicated w res))"
proof -
  let ?body = "\<lambda>s. (SavePrimitive (GetStableRootIndex w r) s \<bind> (\<lambda>s.
        if GetStableRootIndex w r = kNotFound w then EnterMap w r s \<bind> ExitMap sv w r else Some s)) \<bind>
      (\<lambda>s. SavePrimitive (int_length ms) s \<bind> save_transitions sv w r ms)"
  have len: "length chain = Suc (length ms)" using chain(2) by (metis length_Cons length_rev)
  then have "int_length chain - 1 = (int_length ms :: int32)" by simp
  then have eq: "SaveMap_with sv w chain s = ?body s" if "map_cache s = C" for s
    using CreateMapChain_free [OF free that]
    by (simp add: SaveMap_with_def chain(2) Let_def cong: if_cong)
  have n: "iterations (int_length ms) = length ms" using chain(1) len by (simp add: sint_of_nat32)
  have load: "(\<lambda>n. MapLoader_LoadMap (ld n) w) = (\<lambda>n l.
      (LoadPrimitive l \<bind> (\<lambda>(root_index, l).
        if root_index \<noteq> kNotFound w
        then heap_root w root_index \<bind> (\<lambda>root. Some ((Some (w_root_map w root), False), l))
        else LoadPropertiesOnEnter w l \<bind> (\<lambda>((p, descriptors), l).
          LoadPropertiesOnExit (ld n) w NewMap p descriptors l \<bind> (\<lambda>(m, l). Some ((m, True), l))))) \<bind>
      (\<lambda>((root_map, has_branched), l). case root_map of None \<Rightarrow> Some (None, l)
       | Some root_map \<Rightarrow> LoadPrimitive l \<bind> (\<lambda>(number, l).
           load_transitions (ld n) w (iterations number) [root_map] has_branched l \<bind>
           (\<lambda>(r, l). Some (map_option (deduplicated w) r, l)))))"
    by (intro ext) (auto simp: MapLoader_LoadMap_def split_beta intro!: Option.bind_cong)
  have "carries C C ?body (\<lambda>n. MapLoader_LoadMap (ld n) w) (Some (deduplicated w res))"
    unfolding load
    apply (rule carries_bind [OF root])
    apply (simp only: prod.case option.case)
    apply (rule carries_bind [OF transmits_carries [OF transmits_primitives(3)]])
    apply (simp only: n)
    apply (rule carries_last [OF transitions], simp)
    done
  then have "carries C C ?body (\<lambda>n. LoadMap_with (ld n) w) (Some (deduplicated w res))"
    unfolding LoadMap_with_def by (rule carries_last) simp
  then obtain bs where sv: "\<And>s. status s = SUCCEEDED \<Longrightarrow> map_cache s = C \<Longrightarrow>
      ?body s = Some (s\<lparr>bytes := bytes s @ bs, map_cache := C\<rparr>)"
    and ld: "\<And>n. length bs \<le> n \<Longrightarrow> loads (LoadMap_with (ld n) w) bs (Some (deduplicated w res))"
    by (rule carriesE) blast
  show ?thesis
  proof (rule carriesI [where bs = bs], goal_cases)
    case (1 s)
    from sv [OF this] show ?case by (simp only: eq [OF 1(2)])
  qed (rule ld)
qed


text \<open>What the induction shows of each of the six relations.\<close>

abbreviation object_carried ::
  "'a itself \<Rightarrow> 'b itself \<Rightarrow> 'w heap_world_scheme \<Rightarrow> nat list \<Rightarrow> obj \<Rightarrow> obj option \<Rightarrow> bool" where
  "object_carried a b w C x y \<equiv>
     carries C C (SaveObject w x :: 'a sv) ((\<lambda>n. LoadObject_fuel n w) :: ('b, obj option) ld) y"

abbreviation heap_carried ::
  "'a itself \<Rightarrow> 'b itself \<Rightarrow> 'w heap_world_scheme \<Rightarrow> nat list \<Rightarrow> heap_obj \<Rightarrow> obj \<Rightarrow> bool" where
  "heap_carried a b w C h y \<equiv> carries C C (SaveHeapObject w h :: 'a sv)
     ((\<lambda>n. LoadHeapObject_with (LoadObject_fuel n w) w) :: ('b, obj option) ld) (Some y)"

abbreviation array_carried ::
  "'a itself \<Rightarrow> 'b itself \<Rightarrow> 'w heap_world_scheme \<Rightarrow> nat list \<Rightarrow> heap_obj \<Rightarrow> heap_obj \<Rightarrow> bool" where
  "array_carried a b w C h h' \<equiv> carries C C (SaveFixedArrayBase_with (SaveObject w) h :: 'a sv)
     ((\<lambda>n. LoadFixedArrayBase_with (LoadObject_fuel n w)) :: ('b, heap_obj) ld) h'"

abbreviation map_carried ::
  "'a itself \<Rightarrow> 'b itself \<Rightarrow> 'w heap_world_scheme \<Rightarrow> nat list \<Rightarrow> heap_map \<Rightarrow> heap_map \<Rightarrow> bool" where
  "map_carried a b w C m m' \<equiv> carries C C (SaveMap w m :: 'a sv)
     ((\<lambda>n. LoadMap_with (LoadObject_fuel n w) w) :: ('b, heap_map option) ld) (Some m')"

abbreviation node_carried ::
  "'a itself \<Rightarrow> 'b itself \<Rightarrow> 'w heap_world_scheme \<Rightarrow> nat list \<Rightarrow> map_base \<Rightarrow> (js_name \<times> uint32) list
   \<Rightarrow> map_node \<Rightarrow> map_node \<Rightarrow> bool" where
  "node_carried a b w C base keys m m' \<equiv> carries (C @ node_stack m) C (ExitMap (SaveObject w) w m :: 'a sv)
     ((\<lambda>n. LoadPropertiesOnExit (LoadObject_fuel n w) w base (mn_properties m) keys) :: ('b, map_node option) ld)
     (Some m')"

abbreviation transitions_carried ::
  "'a itself \<Rightarrow> 'b itself \<Rightarrow> 'w heap_world_scheme \<Rightarrow> nat list \<Rightarrow> map_node \<Rightarrow> map_node list
   \<Rightarrow> heap_map \<times> bool \<Rightarrow> heap_map \<times> bool \<Rightarrow> bool" where
  "transitions_carried a b w C parent ms p res \<equiv>
     carries C C (save_transitions (SaveObject w) w parent ms :: 'a sv)
     ((\<lambda>n. load_transitions (LoadObject_fuel n w) w (length ms) (fst p) (snd p)) :: ('b, (heap_map \<times> bool) option) ld)
     (Some res)"

text \<open>The cases of heap objects.\<close>

lemma heap_case:
  fixes ld :: "('b, obj option) ld"
  assumes "carries C C (save_contents w h :: 'a sv) ld (Some y)"
    and "\<And>n. load_contents (LoadObject_fuel n w) w (detailed_type h) = ld n"
  shows "heap_carried TYPE('a) TYPE('b) w C h y"
  by (rule carries_heap_object) (simp only: assms)

text \<open>The three ways in which the loader makes a handle of what it loads.\<close>

lemma heap_some:
  fixes ld :: "('b, 'y) ld"
  assumes "\<And>n. load_contents (LoadObject_fuel n w) w (detailed_type h) = (\<lambda>l. some_handle c (ld n l))"
    and "save_contents w h = (sv :: 'a sv)" and "carries C C sv ld x"
  shows "heap_carried TYPE('a) TYPE('b) w C h (OHeap (c x))"
  by (rule heap_case [OF _ assms(1)]) (simp only: assms(2) carries_some_handle [OF assms(3)])

lemma heap_map:
  fixes ld :: "('b, 'y option) ld"
  assumes "\<And>n. load_contents (LoadObject_fuel n w) w (detailed_type h) =
      (\<lambda>l. heap_handle (map_option (\<lambda>(h, l). (map_option c h, l)) (ld n l)))"
    and "save_contents w h = (sv :: 'a sv)" and "carries C C sv ld (Some x)"
  shows "heap_carried TYPE('a) TYPE('b) w C h (OHeap (c x))"
  by (rule heap_case [OF _ assms(1)]) (simp only: assms(2) carries_map_handle [OF assms(3)])

lemma heap_heap:
  fixes ld :: "('b, heap_obj option) ld"
  assumes "\<And>n. load_contents (LoadObject_fuel n w) w (detailed_type h) = (\<lambda>l. heap_handle (ld n l))"
    and "save_contents w h = (sv :: 'a sv)" and "carries C C sv ld (Some x)"
  shows "heap_carried TYPE('a) TYPE('b) w C h (OHeap x)"
  by (rule heap_case [OF _ assms(1)]) (simp only: assms(2) carries_heap_handle [OF assms(3)])

lemmas load_heap = detailed_type.simps load_contents_simps

lemma heap_oddball:
  "kind \<in> {kUndefined, kTheHole, kNull, kTrue, kFalse, kUninitialized, kException} \<Longrightarrow>
   heap_carried TYPE('a) TYPE('b) w C (HOddball kind) (OHeap (HOddball kind))"
  by (rule heap_some [where c = "\<lambda>h. h", OF _ save_contents_eta(1) transmits_carries [OF transmits_Oddball]])
    (simp only: load_heap)

lemma heap_heap_number: "heap_carried TYPE('a) TYPE('b) w C (HHeapNumber v) (OHeap (HHeapNumber v))"
  by (rule heap_some [where c = "\<lambda>h. h", OF _ save_contents_eta(2) transmits_carries [OF transmits_HeapNumber]])
    (simp only: load_heap)

lemma heap_symbol:
  "registry_wf w \<Longrightarrow> symbol_known w a \<Longrightarrow> heap_carried TYPE('a) TYPE('b) w C (HSymbol a) (OHeap (HSymbol a))"
  by (rule heap_some [OF _ save_contents_eta(3) transmits_carries [OF transmits_Symbol]]) (simp only: load_heap)

lemma heap_string:
  "string_fits string \<Longrightarrow>
   heap_carried TYPE('a) TYPE('b) w C (HString string) (OHeap (HString (reloaded_string string)))"
  by (rule heap_some [OF _ save_contents_eta(4) transmits_carries [OF transmits_String]]) (simp only: load_heap)

lemma heap_regexp:
  "string_fits pattern \<Longrightarrow> re_sticky flags \<longrightarrow> w_harmony_regexps w \<Longrightarrow>
   heap_carried TYPE('a) TYPE('b) w C (HJSRegExp pattern flags) (OHeap (HJSRegExp (reloaded_string pattern) flags))"
  by (rule heap_some [where c = "\<lambda>h. h", OF _ save_contents_eta(5) transmits_carries [OF transmits_JSRegExp]])
    (simp only: load_heap)

lemma heap_array_buffer:
  "length content < 2 ^ 31 \<Longrightarrow>
   heap_carried TYPE('a) TYPE('b) w C (HJSArrayBuffer content) (OHeap (HJSArrayBuffer content))"
  by (rule heap_some [OF _ save_contents_eta(9) transmits_carries [OF transmits_JSArrayBuffer]]) (simp only: load_heap)

lemma heap_typed_array:
  "length content < 2 ^ 31 \<Longrightarrow>
   heap_carried TYPE('a) TYPE('b) w C (HJSTypedArray t content offset len) (OHeap (HJSTypedArray t content offset len))"
  by (rule heap_some [where c = "\<lambda>h. h", OF _ save_contents_eta(10) transmits_carries [OF transmits_JSTypedArray]])
    (simp only: load_heap)

lemma heap_js_function:
  "function_ok w f \<Longrightarrow> resolved_function w f = Some g \<Longrightarrow>
   heap_carried TYPE('a) TYPE('b) w C (HJSFunction f) (OHeap (HJSFunction g))"
  by (rule heap_map [OF _ save_contents_eta(11)], simp only: load_heap, rule transmits_carries)
    (drule transmits_JSFunction, simp only:)

lemma heap_shared_info:
  "shared_info_ok w i \<Longrightarrow> resolved_shared_info w i = Some j \<Longrightarrow>
   heap_carried TYPE('a) TYPE('b) w C (HSharedFunctionInfo i) (OHeap (HSharedFunctionInfo j))"
  by (rule heap_map [OF _ save_contents_eta(12)], simp only: load_heap, rule transmits_carries)
    (drule transmits_SharedFunctionInfo, simp only:)

lemma heap_foreign:
  "unat i < unat descriptorCount \<Longrightarrow>
   heap_carried TYPE('a) TYPE('b) w C (HForeign (Some i)) (OHeap (HForeign (Some i)))"
  by (rule heap_some [where c = "\<lambda>h. h", OF _ save_contents_eta(17) transmits_carries [OF transmits_Foreign]])
    (simp only: load_heap)

lemma heap_well_known: "heap_carried TYPE('a) TYPE('b) w C (HWellKnown k) (OHeap (HWellKnown k))"
  by (rule heap_case [where ld = "\<lambda>n l. Some (Some (OHeap (HWellKnown k)), l)"])
    (simp only: save_contents_eta carries_done, cases k, simp_all only: load_heap)

lemma heap_allocation_site: "heap_carried TYPE('a) TYPE('b) w C HAllocationSite undefined_value"
  by (rule heap_case [where ld = "\<lambda>n l. Some (Some undefined_value, l)"])
    (simp_all only: save_contents_eta carries_done load_heap)

lemma heap_accessor_pair: "heap_carried TYPE('a) TYPE('b) w C HAccessorPair null_value"
  by (rule heap_case [where ld = "\<lambda>n l. Some (Some null_value, l)"])
    (simp_all only: save_contents_eta carries_done load_heap)

text \<open>The cases with objects inside.\<close>

lemma heap_fixed_array:
  assumes "list_all2 (object_carried TYPE('a) TYPE('b) w C) xs ys" "length xs < 2 ^ 31"
  shows "heap_carried TYPE('a) TYPE('b) w C (HFixedArray xs) (OHeap (HFixedArray (map unhandle ys)))"
  by (rule heap_some [OF _ save_contents_eta(6) carries_FixedArray [OF assms]]) (simp only: load_heap)

lemma array_fixed_array:
  assumes "list_all2 (object_carried TYPE('a) TYPE('b) w C) xs ys" "length xs < 2 ^ 31"
  shows "array_carried TYPE('a) TYPE('b) w C (HFixedArray xs) (HFixedArray (map unhandle ys))"
  by (rule carries_array_base [OF carries_FixedArray [OF assms]])

lemma heap_double_array:
  "length ds < 2 ^ 31 \<Longrightarrow>
   heap_carried TYPE('a) TYPE('b) w C (HFixedDoubleArray ds) (OHeap (reloaded_doubles ds))"
  by (rule heap_some [where c = "\<lambda>h. h", OF _ save_contents_eta(7) transmits_carries [OF transmits_FixedDoubleArray]])
    (simp only: load_heap)

lemma heap_js_array_empty:
  "heap_carried TYPE('a) TYPE('b) w C (HJSArray kind (OSmi 0) elements)
     (OHeap (HJSArray kind (OSmi 0) (HFixedArray [])))"
  by (rule heap_heap [OF _ save_contents_eta(8) carries_JSArray_empty [where sv = "SaveObject w" and ld = "\<lambda>n. LoadObject_fuel n w", OF carries_null]])
    (simp only: load_heap)

lemma heap_js_array:
  assumes "len \<noteq> 0" "array_carried TYPE('a) TYPE('b) w C elements elements'"
  shows "heap_carried TYPE('a) TYPE('b) w C (HJSArray kind (OSmi len) elements)
    (OHeap (HJSArray kind (OSmi len) elements'))"
  by (rule heap_heap [OF _ save_contents_eta(8) carries_JSArray [OF assms(1) carries_smi [OF assms(1)] assms(2)]])
    (simp only: load_heap)

lemma heap_map_object:
  "map_carried TYPE('a) TYPE('b) w C m m' \<Longrightarrow> heap_carried TYPE('a) TYPE('b) w C (HMap m) (OHeap (HMap m'))"
  by (rule heap_map [OF _ save_contents_eta(13)]) (simp only: load_heap)

lemma heap_js_object:
  assumes "map_carried TYPE('a) TYPE('b) w C m m'" "array_carried TYPE('a) TYPE('b) w C elements elements'"
    "list_all2 (object_carried TYPE('a) TYPE('b) w C) ps qs" "length ps < 2 ^ 31"
  shows "heap_carried TYPE('a) TYPE('b) w C (HJSObject m elements ps)
    (OHeap (HJSObject m' elements' (map unhandle qs)))"
  using heap_map [OF _ save_contents_eta(14) carries_JSObject [OF assms(1,2) carries_FixedArray [OF assms(3,4)]],
      where c = "\<lambda>(m, es, ps). HJSObject m es ps"]
  by (simp only: load_heap prod.case)

lemma heap_js_value:
  assumes "map_carried TYPE('a) TYPE('b) w C m m'" "array_carried TYPE('a) TYPE('b) w C elements elements'"
    "list_all2 (object_carried TYPE('a) TYPE('b) w C) ps qs" "length ps < 2 ^ 31"
    "object_carried TYPE('a) TYPE('b) w C v (Some v')"
  shows "heap_carried TYPE('a) TYPE('b) w C (HJSValue m elements ps v)
    (OHeap (HJSValue m' elements' (map unhandle qs) v'))"
  by (rule heap_heap [OF _ save_contents_eta(15)
        carries_JSValue [OF carries_JSObject [OF assms(1,2) carries_FixedArray [OF assms(3,4)]] assms(5)]])
    (simp only: load_heap)

lemma heap_accessor_info:
  assumes "object_carried TYPE('a) TYPE('b) w C getter (Some getter')"
    "object_carried TYPE('a) TYPE('b) w C setter (Some setter')" "object_carried TYPE('a) TYPE('b) w C data (Some data')"
  shows "heap_carried TYPE('a) TYPE('b) w C (HExecutableAccessorInfo getter setter data)
    (OHeap (HExecutableAccessorInfo getter' setter' data'))"
  by (rule heap_heap [OF _ save_contents_eta(16) carries_ExecutableAccessorInfo [OF assms]]) (simp only: load_heap)

text \<open>The cases of maps.\<close>

lemma map_root_stable:
  assumes "list_all (\<lambda>m. set (node_stack m) \<inter> set C = {}) chain" "length chain < 2 ^ 31" "rev chain = r # ms"
    "registry_wf w" "mn_address r = Some a" "GetStableRootIndex w r \<noteq> kNotFound w"
    "transitions_carried TYPE('a) TYPE('b) w C r ms ([w_root_map w a], False) res"
  shows "map_carried TYPE('a) TYPE('b) w C chain (deduplicated w res)"
proof (rule carries_Map [OF assms(1,2,3)])
  have eq: "GetStableRootIndex w r = RootIndex w a"
    using assms(5,6) by (auto simp: GetStableRootIndex_def Let_def split: if_splits)
  have "a \<in> set (w_roots w)"
    using assms(6) by (rule contrapos_np) (simp add: eq RootIndex_def kNotFound_def index_of_missing)
  then have root: "heap_root w (GetStableRootIndex w r) = Some a"
    using assms(4) unfolding eq by (intro RootIndex_found) (simp add: registry_wf_def)
  show "carries C C ((\<lambda>s. SavePrimitive (GetStableRootIndex w r) s \<bind> (\<lambda>s.
        if GetStableRootIndex w r = kNotFound w then EnterMap w r s \<bind> ExitMap (SaveObject w) w r else Some s)) :: 'a sv)
      ((\<lambda>n l. LoadPrimitive l \<bind> (\<lambda>(root_index, l).
        if root_index \<noteq> kNotFound w
        then heap_root w root_index \<bind> (\<lambda>root. Some ((Some (w_root_map w root), False), l))
        else LoadPropertiesOnEnter w l \<bind> (\<lambda>((p, descriptors), l).
          LoadPropertiesOnExit (LoadObject_fuel n w) w NewMap p descriptors l \<bind> (\<lambda>(m, l). Some ((m, True), l)))))
        :: ('b, map_node option \<times> bool) ld)
      (Some (w_root_map w a), False)"
    apply (simp only: assms(6) if_False)
    apply (rule carries_bind [OF transmits_carries [OF transmits_primitives(3)]])
    apply (simp only: assms(6) simp_thms if_True if_False root bind.bind_lunit)
    apply (rule carries_done)
    done
qed (use assms(7) in \<open>simp only: fst_conv snd_conv\<close>)

lemma map_root_new:
  assumes "list_all (\<lambda>m. set (node_stack m) \<inter> set C = {}) chain" "length chain < 2 ^ 31" "rev chain = r # ms"
    "GetStableRootIndex w r = kNotFound w" "descriptors_ok w r"
    "node_carried TYPE('a) TYPE('b) w C NewMap (own_keys r) r r'"
    "transitions_carried TYPE('a) TYPE('b) w C r ms ([r'], True) res"
  shows "map_carried TYPE('a) TYPE('b) w C chain (deduplicated w res)"
proof (rule carries_Map [OF assms(1,2,3)])
  show "carries C C ((\<lambda>s. SavePrimitive (GetStableRootIndex w r) s \<bind> (\<lambda>s.
        if GetStableRootIndex w r = kNotFound w then EnterMap w r s \<bind> ExitMap (SaveObject w) w r else Some s)) :: 'a sv)
      ((\<lambda>n l. LoadPrimitive l \<bind> (\<lambda>(root_index, l).
        if root_index \<noteq> kNotFound w
        then heap_root w root_index \<bind> (\<lambda>root. Some ((Some (w_root_map w root), False), l))
        else LoadPropertiesOnEnter w l \<bind> (\<lambda>((p, descriptors), l).
          LoadPropertiesOnExit (LoadObject_fuel n w) w NewMap p descriptors l \<bind> (\<lambda>(m, l). Some ((m, True), l)))))
        :: ('b, map_node option \<times> bool) ld)
      (Some r', True)"
    apply (rule carries_bind [OF transmits_carries [OF transmits_primitives(3)]])
    apply (simp only: assms(4) refl simp_thms if_True if_False)
    apply (rule carries_bind [OF carries_EnterMap [OF assms(5)]])
    apply (simp only: prod.case)
    apply (rule carries_last [OF assms(6)], simp)
    done
qed (use assms(7) in \<open>simp only: fst_conv snd_conv\<close>)


lemma transitions_none: "transitions_carried TYPE('a) TYPE('b) w C parent [] res res"
proof -
  have save: "(save_transitions (SaveObject w) w parent [] :: 'a sv) = Some" by (rule ext) simp
  have load: "((\<lambda>n. load_transitions (LoadObject_fuel n w) w (length []) (fst res) (snd res)) ::
      ('b, (heap_map \<times> bool) option) ld) = (\<lambda>n l. Some (Some res, l))"
    by (intro ext) simp
  show ?thesis unfolding save load by (rule carries_done)
qed

lemma transitions_more:
  assumes "saved_transition w parent m = Some t" "transition_ok w t" "descriptors_ok w m"
    "node_carried TYPE('a) TYPE('b) w C (transition_base w chain t) (transition_keys w chain t (own_keys m)) m m'"
    "transitions_carried TYPE('a) TYPE('b) w C m ms (m' # chain, transition_branches w chain t has_branched) res"
  shows "transitions_carried TYPE('a) TYPE('b) w C parent (m # ms) (chain, has_branched) res"
  unfolding fst_conv snd_conv
  by (rule carries_transitions_Cons [OF carries_transition [OF assms(1,2,3,4)]])
    (use assms(5) in \<open>simp only: fst_conv snd_conv\<close>)

lemma node_with_constructor:
  assumes "descriptors_ok w m"
    "list_all2 (\<lambda>d v. object_carried TYPE('a) TYPE('b) w (C @ node_stack m) (snd (snd d)) (Some v)) (own_descriptors m) vs"
    "length keys = own_count m" "mn_constructor m = Some f" "mn_is_constructors_prototype m" "function_ok w f"
  shows "node_carried TYPE('a) TYPE('b) w C base keys m (with_constructor w base (mn_properties m)
    (descriptors_with_values keys vs) (resolved_function w f))"
  by (rule carries_pop [OF carries_exit_constructor [OF assms(2) _ assms(3-6)]])
    (use assms(1) in \<open>simp add: descriptors_ok_def\<close>)

lemma node_with_prototype:
  assumes "descriptors_ok w m"
    "list_all2 (\<lambda>d v. object_carried TYPE('a) TYPE('b) w (C @ node_stack m) (snd (snd d)) (Some v)) (own_descriptors m) vs"
    "length keys = own_count m" "mn_constructor m = None \<or> \<not> mn_is_constructors_prototype m"
    "object_carried TYPE('a) TYPE('b) w (C @ node_stack m) (mn_prototype m) prototype"
  shows "node_carried TYPE('a) TYPE('b) w C base keys m (with_prototype base (mn_properties m)
    (descriptors_with_values keys vs) prototype)"
  by (rule carries_pop [OF carries_exit_prototype [OF assms(2) _ assms(3-5)]])
    (use assms(1) in \<open>simp add: descriptors_ok_def\<close>)

lemma reloads_carried:
  "reloads w C x y \<Longrightarrow> object_carried TYPE('a) TYPE('b) w C x y"
  "reloads_heap w C h y' \<Longrightarrow> heap_carried TYPE('a) TYPE('b) w C h y'"
  "reloads_array w C h h' \<Longrightarrow>
     array_carried TYPE('a) TYPE('b) w C h h' \<and> heap_carried TYPE('a) TYPE('b) w C h (OHeap h')"
  "reloads_map w C m m' \<Longrightarrow> map_carried TYPE('a) TYPE('b) w C m m'"
  "reloads_node w C base keys mn mn' \<Longrightarrow>
     descriptors_ok w mn \<and> node_carried TYPE('a) TYPE('b) w C base keys mn mn'"
  "reloads_transitions w C parent ms p res \<Longrightarrow> transitions_carried TYPE('a) TYPE('b) w C parent ms p res"
proof (induction rule: reloads_reloads_heap_reloads_array_reloads_map_reloads_node_reloads_transitions.inducts)
  case null show ?case by (rule carries_null)
next case smi then show ?case by (rule carries_smi)
next case heap then show ?case by (intro carries_heap)
next case oddball then show ?case by (rule heap_oddball)
next case heap_number show ?case by (rule heap_heap_number)
next case symbol then show ?case by (rule heap_symbol)
next case string then show ?case by (rule heap_string)
next case regexp then show ?case by (rule heap_regexp)
next case array then show ?case by simp
next case js_array_empty show ?case by (rule heap_js_array_empty)
next case js_array then show ?case by (intro heap_js_array) auto
next case array_buffer then show ?case by (rule heap_array_buffer)
next case typed_array then show ?case by (rule heap_typed_array)
next case js_function then show ?case by (rule heap_js_function)
next case shared_info then show ?case by (rule heap_shared_info)
next case map_object then show ?case by (intro heap_map_object)
next case (js_object C m m' elements elements' ps qs)
  then show ?case by (intro heap_js_object) (auto elim: list_all2_mono)
next case (js_value C m m' elements elements' ps qs v v')
  then show ?case by (intro heap_js_value) (auto elim: list_all2_mono)
next case accessor_info then show ?case by (intro heap_accessor_info)
next case foreign then show ?case by (rule heap_foreign)
next case well_known show ?case by (rule heap_well_known)
next case allocation_site show ?case by (rule heap_allocation_site)
next case accessor_pair show ?case by (rule heap_accessor_pair)
next case (fixed_array C xs ys)
  then have "list_all2 (object_carried TYPE('a) TYPE('b) w C) xs ys" by (auto elim: list_all2_mono)
  with fixed_array show ?case by (intro conjI array_fixed_array heap_fixed_array)
next case fixed_double_array
  then show ?case by (intro conjI carries_double_array_base heap_double_array)
next case map_of_root
  then show ?case by (intro map_root_stable)
next case map_of_new_root
  then show ?case by (intro map_root_new) auto
next case (node_constructor m C vs keys f base)
  then show ?case by (intro conjI node_with_constructor) (auto elim: list_all2_mono)
next case (node_prototype m C vs keys prototype base)
  then show ?case by (intro conjI node_with_prototype) (auto elim: list_all2_mono)
next case no_transition show ?case by (rule transitions_none)
next case transition
  then show ?case by (intro transitions_more) auto
qed

end
