(* ===== verification/ObjectsProperties.thy ===== *)
theory ObjectsProperties
  imports ObjectsRoundtrip
begin

text \<open>
  The properties of saving and loading heap objects: the round trip, the objects that come back
  as they were, the layout of reloaded maps, and the failures.
\<close>

section \<open>A world to try the properties in\<close>

definition sample_map :: map_node where
  "sample_map = MapNode (Some 9) \<lparr>mp_instance_type = 189, mp_instance_size = 32,
     mp_inobject_properties = 1, mp_unused_property_fields = 0, mp_bit_field = 0,
     mp_bit_field2 = 0, mp_bit_field3 = 0x400\<rparr>
     [(NameString \<lparr>str_units = [120], str_internalized = True\<rparr>, 0, OSmi 3)] None False null_value None"

definition sample_heap_world :: heap_world where
  "sample_heap_world = world.extend sample_world
     \<lparr>w_root_map = (\<lambda>_. sample_map),
      w_is_cache_root = (\<lambda>_. False), w_special_symbols = [],
      w_special_transition = (\<lambda>_ _. None), w_CanHaveMoreTransitions = (\<lambda>_. True),
      w_function_prototype = (\<lambda>_. None), w_same_constructor_and_prototype = (\<lambda>_ _. True),
      w_global_property_maps = [], w_harmony_regexps = False\<rparr>"

definition sample_object :: heap_obj where
  "sample_object = HJSObject [sample_map] (HFixedArray []) [OSmi 7, OSmi 0]"

lemma sample_map_simps:
  "mn_address sample_map = Some 9" "own_count sample_map = 1"
  "mn_prototype sample_map = null_value" "mn_constructor sample_map = None"
  "own_descriptors sample_map = [(NameString \<lparr>str_units = [120], str_internalized = True\<rparr>, 0, OSmi 3)]"
  "mn_descriptors sample_map = [(NameString \<lparr>str_units = [120], str_internalized = True\<rparr>, 0, OSmi 3)]"
  by (simp_all add: sample_map_def own_descriptors_def NumberOfOwnDescriptors_def
      BitField_decode_bits)


lemma sample_reloads_map_in:
  assumes "registry_wf w" "GetStableRootIndex w sample_map = kNotFound w" "w_global_property_maps w = []"
  shows "reloads_map w [] [sample_map]
     [with_prototype NewMap (mn_properties sample_map)
        (descriptors_with_values (own_keys sample_map) [OSmi 3]) (Some null_value)]"
proof -
  have ok: "descriptors_ok w sample_map"
    by (simp add: descriptors_ok_def sample_map_simps name_ok_def assms(1) string_fits_def)
  have "list_all2 (\<lambda>d v. reloads w ([] @ node_stack sample_map) (snd (snd d)) (Some v))
      (own_descriptors sample_map) [OSmi 3]"
    by (simp add: sample_map_simps reloads_smi)
  moreover have "reloads w ([] @ node_stack sample_map) (mn_prototype sample_map) (Some null_value)"
    unfolding sample_map_simps null_value_def by (rule heap, rule oddball) simp
  ultimately have node: "reloads_node w [] NewMap (own_keys sample_map) sample_map
      (with_prototype NewMap (mn_properties sample_map)
        (descriptors_with_values (own_keys sample_map) [OSmi 3]) (Some null_value))"
    by (intro node_prototype [OF ok]) (simp_all add: own_keys_def sample_map_simps)
  have "reloads_map w [] [sample_map] (deduplicated w
      ([with_prototype NewMap (mn_properties sample_map)
        (descriptors_with_values (own_keys sample_map) [OSmi 3]) (Some null_value)], True))"
    by (rule map_of_new_root [OF _ _ _ assms(2) node no_transition]) simp_all
  then show ?thesis
    by (simp add: deduplicated_def TryDeduplicate_def assms(3))
qed

lemma sample_reloads_map:
  "reloads_map sample_heap_world [] [sample_map]
     [with_prototype NewMap (mn_properties sample_map)
        (descriptors_with_values (own_keys sample_map) [OSmi 3]) (Some null_value)]"
  by (rule sample_reloads_map_in)
    (simp_all add: registry_wf_def GetStableRootIndex_def sample_map_simps RootIndex_def kNotFound_def
      sample_heap_world_def world.defs sample_world_def Let_def)

lemma sample_reloads:
  "reloads sample_heap_world [] (OHeap sample_object) (Some (OHeap (HJSObject
     [with_prototype NewMap (mn_properties sample_map)
        (descriptors_with_values (own_keys sample_map) [OSmi 3]) (Some null_value)]
     (HFixedArray []) [OSmi 7, OSmi 0])))"
proof -
  have "list_all2 (reloads sample_heap_world []) [OSmi 7, OSmi 0] [Some (OSmi 7), None]"
    by (simp add: reloads_smi)
  moreover have "reloads_array sample_heap_world [] (HFixedArray []) (HFixedArray (map unhandle []))"
    by (rule fixed_array) simp_all
  ultimately have "reloads_heap sample_heap_world [] sample_object (OHeap (HJSObject
     [with_prototype NewMap (mn_properties sample_map)
        (descriptors_with_values (own_keys sample_map) [OSmi 3]) (Some null_value)]
     (HFixedArray (map unhandle [])) (map unhandle [Some (OSmi 7), None])))"
    unfolding sample_object_def by (intro js_object [OF sample_reloads_map]) simp_all
  then show ?thesis by (intro heap) (simp add: unhandle_def)
qed


section \<open>The round trip\<close>

text \<open>C1 The snapshot carries heap objects: if \<open>reloads\<close> relates \<open>x\<close> to \<open>y\<close>, then \<^verbatim>\<open>SaveObject\<close>
  writes, whatever has been written before, the same bytes for \<open>x\<close>, leaves the stack of maps as it
  was, and \<^verbatim>\<open>LoadObject\<close> reads exactly these bytes, whatever follows them, and returns \<open>y\<close>. The
  loader returns: the length of its input is enough fuel.\<close>
theorem LoadObject_SaveObject:
  assumes "reloads w C x y"
  shows "transmits C (SaveObject w x) (LoadObject w) y"
  unfolding LoadObject_def using carries_transmits [OF reloads_carried(1) [OF assms]] by simp

lemma LoadObject_SaveObject_witness:
  "transmits [] (SaveObject sample_heap_world (OHeap sample_object)) (LoadObject sample_heap_world)
     (Some (OHeap (HJSObject [with_prototype NewMap (mn_properties sample_map)
        (descriptors_with_values (own_keys sample_map) [OSmi 3]) (Some null_value)]
     (HFixedArray []) [OSmi 7, OSmi 0])))"
  by (rule LoadObject_SaveObject [OF sample_reloads])

text \<open>The objects that the format carries without a change. An array may hold null pointers.\<close>

fun plain :: "obj \<Rightarrow> bool" and plain_heap :: "heap_obj \<Rightarrow> bool" where
  "plain (OSmi v) = (v \<noteq> 0)"
| "plain (OHeap h) = plain_heap h"
| "plain_heap (HOddball kind) =
     (kind \<in> {kUndefined, kTheHole, kNull, kTrue, kFalse, kUninitialized, kException})"
| "plain_heap (HHeapNumber v) = True"
| "plain_heap (HString s) = (string_fits s \<and> reloaded_string s = s)"
| "plain_heap (HJSRegExp pattern flags) =
     (string_fits pattern \<and> reloaded_string pattern = pattern \<and> \<not> re_sticky flags)"
| "plain_heap (HFixedArray xs) = (length xs < 2 ^ 31 \<and> list_all (\<lambda>x. x = OSmi 0 \<or> plain x) xs)"
| "plain_heap (HFixedDoubleArray ds) =
     (ds \<noteq> [] \<and> length ds < 2 ^ 31 \<and> list_all (\<lambda>d. FixedDoubleArray_set d = d) ds)"
| "plain_heap (HJSArray kind (OSmi len) (HFixedArray xs)) =
     (if len = 0 then xs = [] else plain_heap (HFixedArray xs))"
| "plain_heap (HJSArray kind (OSmi len) (HFixedDoubleArray ds)) =
     (len \<noteq> 0 \<and> plain_heap (HFixedDoubleArray ds))"
| "plain_heap (HJSArrayBuffer content) = (length content < 2 ^ 31)"
| "plain_heap (HJSTypedArray t content offset len) = (length content < 2 ^ 31)"
| "plain_heap (HWellKnown k) = True"
| "plain_heap _ = False"

lemma plain_reloads_array:
  assumes "\<And>x. x \<in> set xs \<Longrightarrow> x = OSmi 0 \<or> reloads w C x (Some x)" "length xs < 2 ^ 31"
  shows "reloads_array w C (HFixedArray xs) (HFixedArray xs)"
proof -
  let ?ys = "map (\<lambda>x. if x = OSmi 0 then None else Some x) xs"
  have "list_all2 (reloads w C) xs ?ys"
    using assms(1) by (auto simp: list_all2_conv_all_nth reloads_smi dest: nth_mem)
  from fixed_array [OF this assms(2)] show ?thesis
    by (simp add: unhandle_def comp_def if_distrib cong: if_cong map_cong)
qed

lemma plain_reloads_doubles:
  assumes "plain_heap (HFixedDoubleArray ds)"
  shows "reloads_array w C (HFixedDoubleArray ds) (HFixedDoubleArray ds)"
proof -
  have "map FixedDoubleArray_set ds = ds" using assms by (auto simp: list_all_iff intro: map_idI)
  with fixed_double_array [of ds w C] assms show ?thesis by (simp add: reloaded_doubles_def)
qed

lemma plain_reloads:
  "plain x \<Longrightarrow> reloads w C x (Some x)"
  "plain_heap h \<Longrightarrow> reloads_heap w C h (OHeap h)"
proof (induction x and h rule: plain_plain_heap.induct)
  case (7 xs)
  then have "reloads_array w C (HFixedArray xs) (HFixedArray xs)"
    by (intro plain_reloads_array) (auto simp: list_all_iff)
  then show ?case by (rule array)
next
  case (8 ds)
  then show ?case by (rule array [OF plain_reloads_doubles])
next
  case (9 kind len xs)
  show ?case
  proof (cases "len = 0")
    case True
    with 9 show ?thesis by (auto intro: js_array_empty)
  next
    case False
    with 9 have "reloads_heap w C (HFixedArray xs) (OHeap (HFixedArray xs))" by simp
    then have "reloads_array w C (HFixedArray xs) (HFixedArray xs)"
      by (cases rule: reloads_heap.cases) simp_all
    with False show ?thesis by (rule js_array)
  qed
next
  case (10 kind len ds)
  then show ?case by (auto intro: js_array plain_reloads_doubles simp del: plain_heap.simps(6))
next
  case (6 pattern flags)
  then show ?case using regexp [of pattern flags w C] by simp
qed (auto intro: reloads_reloads_heap_reloads_array_reloads_map_reloads_node_reloads_transitions.intros
  dest: string [where w = w and C = C])


text \<open>Values come back equal: Smis other than zero, heap numbers with any bits, the oddballs of the
  language, strings, regular expressions, array buffers, typed arrays, the context's own objects and
  arrays of any depth of those, of numbers that are not NaN, and of null pointers.\<close>
theorem plain_object_roundtrip:
  assumes "plain x"
  shows "transmits C (SaveObject w x) (LoadObject w) (Some x)"
  unfolding LoadObject_def
  using carries_transmits [OF reloads_carried(1) [OF plain_reloads(1) [where w = w and C = C, OF assms]]] by simp

lemma plain_object_roundtrip_witness:
  "transmits [4] (SaveObject sample_heap_world
      (OHeap (HJSArray 2 (OSmi 3) (HFixedArray [OSmi 7, OSmi 0, OHeap (HFixedDoubleArray [0x3FF0000000000000])]))))
    (LoadObject sample_heap_world)
    (Some (OHeap (HJSArray 2 (OSmi 3) (HFixedArray [OSmi 7, OSmi 0, OHeap (HFixedDoubleArray [0x3FF0000000000000])]))))"
  by (rule plain_object_roundtrip) (simp add: FixedDoubleArray_set_def is_nan_def)


section \<open>Maps\<close>

text \<open>The nodes that the loader makes have the properties of the saved ones.\<close>

lemma reloads_node_properties:
  assumes "reloads_node w C base keys m m'"
  shows "mn_properties m' = mn_properties m"
  using assms
  by (cases rule: reloads_node.cases) (auto simp: with_constructor_def with_prototype_def split: option.splits)

lemma reloads_transitions_properties:
  assumes "reloads_transitions w C parent ms p res"
  shows "(ms = [] \<and> res = p) \<or> (ms \<noteq> [] \<and> fst res \<noteq> [] \<and>
    mn_properties (hd (fst res)) = mn_properties (last ms))"
  using assms
proof (induction ms arbitrary: parent p)
  case Nil
  then show ?case by (cases rule: reloads_transitions.cases) simp_all
next
  case (Cons m ms)
  from Cons.prems show ?case
  proof (cases rule: reloads_transitions.cases)
    case (transition t chain m' has_branched)
    with Cons.IH [OF transition(5)] reloads_node_properties [OF transition(4)] show ?thesis by auto
  qed
qed

lemma deduplicated_properties:
  "mn_properties (hd (deduplicated w r)) = mn_properties (hd (fst r))"
proof (cases "TryDeduplicate w (snd r) (fst r)")
  case (Some m)
  then have "m = fst r \<or> EquivalentToForDeduplication w (fst r) m"
    by (auto simp: TryDeduplicate_def find_Some_iff split: if_splits)
  with Some show ?thesis
    by (auto simp: deduplicated_def EquivalentToForDeduplication_def CheckEquivalent_def leaf_properties_def
        intro!: map_properties.equality)
qed (simp add: deduplicated_def)

lemma reloads_map_properties:
  assumes "reloads_map w C chain m'"
    and "\<And>a. mn_address (last chain) = Some a \<Longrightarrow> mn_properties (w_root_map w a) = mn_properties (last chain)"
  shows "leaf_properties m' = leaf_properties chain"
  using assms(1)
proof (cases rule: reloads_map.cases)
  case (map_of_root r ms a res)
  have chain: "chain = rev ms @ [r]" using map_of_root(4) by (simp add: rev_swap)
  with assms(2) [of a] map_of_root have "mn_properties (w_root_map w a) = mn_properties r" by simp
  with reloads_transitions_properties [OF map_of_root(8)] chain show ?thesis
    unfolding map_of_root(1) leaf_properties_def deduplicated_properties
    by (cases ms rule: rev_cases) auto
next
  case (map_of_new_root r ms r' res)
  have chain: "chain = rev ms @ [r]" using map_of_new_root(4) by (simp add: rev_swap)
  with reloads_transitions_properties [OF map_of_new_root(7)] reloads_node_properties [OF map_of_new_root(6)]
  show ?thesis
    unfolding map_of_new_root(1) leaf_properties_def deduplicated_properties
    by (cases ms rule: rev_cases) auto
qed



text \<open>A map whose chain meets a map that is being saved already is not followed for ever:
  \<^verbatim>\<open>SaveMap\<close> writes nothing and reports the failure.\<close>
theorem SaveMap_cyclic:
  assumes "m \<in> set chain" "mn_address m = Some a" "a \<in> set (map_cache s)"
  shows "SaveMap w chain s = Some (Fail ''cyclic map chains'' s)"
proof -
  have "list_ex (\<lambda>m. case mn_address m of None \<Rightarrow> False | Some a \<Rightarrow> a \<in> set (map_cache s)) chain"
    using assms by (auto simp: list_ex_iff intro!: bexI [of _ m])
  then show ?thesis by (simp add: SaveMap_with_def CreateMapChain_def)
qed

lemma SaveMap_cyclic_witness:
  "SaveMap sample_heap_world [sample_map] ((LChunkSaverBase :: saver_base)\<lparr>map_cache := [9]\<rparr>) =
     Some (Fail ''cyclic map chains'' (LChunkSaverBase\<lparr>map_cache := [9]\<rparr>))"
  by (rule SaveMap_cyclic [where m = sample_map and a = 9]) (simp_all add: sample_map_simps)



section \<open>What the format does not carry\<close>

text \<open>A saver and a loader that fail to agree: the bytes are written and reading them crashes.\<close>

definition crashes ::
  "nat list \<Rightarrow> ('a saver_base_scheme \<Rightarrow> 'a saver_base_scheme option)
   \<Rightarrow> ('b loader_base_scheme \<Rightarrow> ('y \<times> 'b loader_base_scheme) option) \<Rightarrow> bool" where
  "crashes C sv ld \<longleftrightarrow> (\<exists>bs. saves C sv bs \<and>
     (\<forall>l rest. status l = SUCCEEDED \<longrightarrow> input l = bs @ rest \<longrightarrow> ld l = None))"

text \<open>The same of a loader with fuel, which crashes however much fuel there is.\<close>

definition stuck ::
  "nat list \<Rightarrow> ('a saver_base_scheme \<Rightarrow> 'a saver_base_scheme option)
   \<Rightarrow> (nat \<Rightarrow> 'b loader_base_scheme \<Rightarrow> ('y \<times> 'b loader_base_scheme) option) \<Rightarrow> bool" where
  "stuck C sv ld \<longleftrightarrow> (\<exists>bs. saves C sv bs \<and> (\<forall>n \<ge> length bs. \<forall>l rest.
     status l = SUCCEEDED \<longrightarrow> input l = bs @ rest \<longrightarrow> ld n l = None))"

lemma stuck_crashes: "stuck C sv ld \<Longrightarrow> crashes C sv (\<lambda>l. ld (length (input l)) l)"
  unfolding stuck_def crashes_def by (elim exE conjE, rule exI, rule conjI, assumption) auto

lemma stuck_bind:
  assumes "carries C C f ld x" "stuck C g (\<lambda>n. k n x)"
  shows "stuck C (\<lambda>s. f s \<bind> g) (\<lambda>n l. ld n l \<bind> (\<lambda>(x, l). k n x l))"
proof -
  from assms(1) obtain bs where f: "\<And>s. status s = SUCCEEDED \<Longrightarrow> map_cache s = C \<Longrightarrow>
      f s = Some (s\<lparr>bytes := bytes s @ bs, map_cache := C\<rparr>)"
    "\<And>n. length bs \<le> n \<Longrightarrow> loads (ld n) bs x" by (rule carriesE) blast
  from assms(2) obtain cs where g: "saves C g cs"
    "\<And>n l rest. length cs \<le> n \<Longrightarrow> status l = SUCCEEDED \<Longrightarrow> input l = cs @ rest \<Longrightarrow> k n x l = None"
    unfolding stuck_def by blast
  have "ld n l \<bind> (\<lambda>(x, l). k n x l) = None"
    if "length (bs @ cs) \<le> n" "status l = SUCCEEDED" "input l = (bs @ cs) @ rest" for n l rest
    using that f(2) [of n] g(2) [of n "l\<lparr>input := cs @ rest\<rparr>" rest] by (simp add: loads_def)
  moreover have "saves C (\<lambda>s. f s \<bind> g) (bs @ cs)"
    unfolding saves_def
  proof (intro allI impI)
    fix s :: "'a saver_base_scheme"
    assume "status s = SUCCEEDED" "map_cache s = C"
    with f(1) [of s] savesD [OF g(1), of "s\<lparr>bytes := bytes s @ bs, map_cache := C\<rparr>"]
    show "f s \<bind> g = Some (s\<lparr>bytes := bytes s @ bs @ cs\<rparr>)" by simp
  qed
  ultimately show ?thesis unfolding stuck_def by blast
qed

lemma stuck_done: "(\<And>n l. status l = SUCCEEDED \<Longrightarrow> k n l = None) \<Longrightarrow> stuck C Some k"
  unfolding stuck_def by (intro exI [of _ "[]"]) (simp add: saves_def)

lemma stuck_after:
  assumes "carries C C f ld x" "\<And>n l. status l = SUCCEEDED \<Longrightarrow> k n x l = None"
  shows "stuck C f (\<lambda>n l. ld n l \<bind> (\<lambda>(x, l). k n x l))"
  using stuck_bind [where k = k, OF assms(1) stuck_done [OF assms(2)]] by simp

lemma stuck_load_return: "stuck C sv k \<Longrightarrow> stuck C sv (\<lambda>n l. RETURN_VALUE_ON_FAIL v l (k n l))"
  by (auto simp: stuck_def RETURN_VALUE_ON_FAIL_def)

lemma stuck_heap_handle: "stuck C sv k \<Longrightarrow> stuck C sv (\<lambda>n l. heap_handle (k n l))"
  by (auto simp: stuck_def heap_handle_def)

lemma stuck_object:
  assumes "stuck C (save_contents w h :: 'a sv)
    ((\<lambda>n. load_contents (LoadObject_fuel n w) w (detailed_type h)) :: ('b, obj option) ld)"
  shows "stuck C (SaveHeapObject w h :: 'a sv)
    ((\<lambda>n. LoadHeapObject_with (LoadObject_fuel n w) w) :: ('b, obj option) ld)"
proof -
  have eq: "(SaveHeapObject w h :: 'a sv) = (\<lambda>s. SavePrimitive (detailed_type h) s \<bind> save_contents w h)"
    by (rule ext) simp
  show ?thesis unfolding eq LoadHeapObject_with_def
    by (rule stuck_bind [OF transmits_carries [OF transmits_primitives(3)]]) (rule assms)
qed

text \<open>The oddballs of the kinds \<^verbatim>\<open>kArgumentMarker\<close> (4) and \<^verbatim>\<open>kOther\<close> (7) are written by
  \<^verbatim>\<open>SaveOddball\<close>, but \<^verbatim>\<open>LoadOddball\<close> has no case for them: reading them back comes to a point declared UNREACHABLE.\<close>
theorem LoadOddball_unknown_kind:
  assumes "kind \<in> {4, 7}"
  shows "crashes C (SaveOddball kind) LoadOddball"
  unfolding SaveOddball_def LoadOddball_def
  by (rule stuck_crashes, rule stuck_after [OF transmits_carries [OF transmits_primitives(1)]])
    (use assms in \<open>auto simp: kUndefined_def kTheHole_def kNull_def kTrue_def kFalse_def kUninitialized_def kException_def\<close>)

lemma LoadOddball_unknown_kind_witness: "crashes [] (SaveOddball 4) LoadOddball"
  by (rule LoadOddball_unknown_kind) simp

text \<open>C14 A wrapper object (\<^verbatim>\<open>JSValue\<close>, as made by \<^verbatim>\<open>new Number(0)\<close>) whose value is the Smi 0 is
  written as if the value were a null pointer, and the loader dereferences the null handle that it
  gets back: reading it crashes, whatever its map, elements and properties are.\<close>
theorem JSValue_zero_crashes:
  assumes "reloads_map w C m m'" "reloads_array w C elements elements'"
    "list_all2 (reloads w C) ps qs" "length ps < 2 ^ 31"
  shows "crashes C (SaveHeapObject w (HJSValue m elements ps (OSmi 0)) :: 'a sv)
    (LoadHeapObject w :: 'b loader_base_scheme \<Rightarrow> (obj option \<times> 'b loader_base_scheme) option)"
  unfolding LoadHeapObject_def
proof (rule stuck_crashes, rule stuck_object, unfold load_heap save_contents_eta,
    rule stuck_heap_handle)
  from assms(3) have "list_all2 (object_carried TYPE('a) TYPE('b) w C) ps qs"
    by (rule list_all2_mono) (rule reloads_carried(1))
  then have object: "carries C C (SaveJSObject_with (SaveObject w) w m elements ps :: 'a sv)
      ((\<lambda>n. LoadJSObject_with (LoadObject_fuel n w) w) :: ('b, (heap_map \<times> heap_obj \<times> obj list) option) ld)
      (Some (m', elements', map unhandle qs))"
    using assms(4) by (intro carries_JSObject carries_FixedArray reloads_carried(4) [OF assms(1)]
        conjunct1 [OF reloads_carried(3) [OF assms(2)]])
  show "stuck C (SaveJSValue_with (SaveObject w) w m elements ps (OSmi 0) :: 'a sv)
      ((\<lambda>n. LoadJSValue_with (LoadObject_fuel n w) w) :: ('b, heap_obj option) ld)"
    unfolding SaveJSValue_with_def [abs_def] LoadJSValue_with_def
    apply (rule stuck_bind [OF object])
    apply (simp only: bind.bind_lunit prod.case)
    apply (rule stuck_load_return)
    apply (rule stuck_after [OF carries_null])
    apply (simp add: RETURN_VALUE_ON_FAIL_def)
    done
qed

lemma JSValue_zero_crashes_witness:
  "crashes [] (SaveHeapObject sample_heap_world (HJSValue [sample_map] (HFixedArray []) [] (OSmi 0)))
     (LoadHeapObject sample_heap_world)"
proof -
  have "reloads_array sample_heap_world [] (HFixedArray []) (HFixedArray (map unhandle []))"
    by (rule fixed_array) simp_all
  from JSValue_zero_crashes [OF sample_reloads_map this, of "[]" "[]"] show ?thesis by simp
qed

text \<open>C15 A hole in an array of doubles does not survive: the array comes back with the canonical NaN
  in its place, which is no hole, and with every other element as it was.\<close>
theorem double_array_hole_lost:
  assumes "length ds < 2 ^ 31" "i < length ds" "ds ! i = kHoleNanInt64"
  shows "\<exists>es. transmits C (SaveObject w (OHeap (HFixedDoubleArray ds))) (LoadObject w)
      (Some (OHeap (HFixedDoubleArray es))) \<and>
    length es = length ds \<and> es ! i = canonical_not_the_hole_nan \<and> es ! i \<noteq> kHoleNanInt64 \<and>
    (\<forall>j < length ds. \<not> is_nan (ds ! j) \<longrightarrow> es ! j = ds ! j)"
proof -
  have "ds \<noteq> []" using assms(2) by auto
  then have "reloads w C (OHeap (HFixedDoubleArray ds)) (Some (OHeap (HFixedDoubleArray (map FixedDoubleArray_set ds))))"
    using fixed_double_array [OF assms(1), of w C] by (intro heap array) (simp add: reloaded_doubles_def)
  then have "transmits C (SaveObject w (OHeap (HFixedDoubleArray ds))) (LoadObject w)
      (Some (OHeap (HFixedDoubleArray (map FixedDoubleArray_set ds))))"
    unfolding LoadObject_def using carries_transmits [OF reloads_carried(1)] by fast
  with assms(2,3) show ?thesis
    by (intro exI [of _ "map FixedDoubleArray_set ds"])
      (simp add: FixedDoubleArray_set_def is_nan_def kHoleNanInt64_def canonical_not_the_hole_nan_def)
qed

lemma double_array_hole_lost_witness:
  "\<exists>es. transmits [] (SaveObject sample_heap_world (OHeap (HFixedDoubleArray [0, kHoleNanInt64])))
      (LoadObject sample_heap_world) (Some (OHeap (HFixedDoubleArray es))) \<and>
    length es = 2 \<and> es ! 1 = canonical_not_the_hole_nan"
  using double_array_hole_lost [of "[0, kHoleNanInt64]" 1 "[]" sample_heap_world] by force

end
