(* ===== verification/Environment.thy ===== *)
theory Environment
  imports Functions LithiumOperands BitVector ObjectsRoundtrip
begin

text \<open>
  Deoptimization environments: \<^verbatim>\<open>LEnvironment\<close> of \<^verbatim>\<open>src/lithium.h\<close> with the iterators over its
  operands, and \<^verbatim>\<open>SaveEnvironment\<close>/\<^verbatim>\<open>LoadEnvironment\<close> of \<^verbatim>\<open>src/lithium-saveload.cc\<close>. An environment
  is the list of its frames from the innermost one to the outermost one, so that \<^verbatim>\<open>outer()\<close> is the
  tail and a null pointer is the empty list.
\<close>

section \<open>Environments\<close>

record LEnvironment_frame =
  env_closure :: "addr option"
  env_frame_type :: uint32
  env_arguments_stack_height :: int32
  env_deoptimization_index :: int32
  env_translation_index :: int32
  env_ast_id :: int32
  env_translation_size :: int32
  env_parameter_count :: int32
  env_pc_offset :: int32
  env_values :: "LOperand option list"
  env_is_tagged :: GrowableBitVector
  env_is_uint32 :: GrowableBitVector
  env_object_mapping :: "uint32 list"
  env_entry :: "nat option"
  env_has_been_used :: bool

type_synonym LEnvironment = "LEnvironment_frame list"

text \<open>\<^verbatim>\<open>Safepoint::kNoDeoptimizationIndex\<close>, all ones in the field that is left by the arguments and
  the flag for doubles.\<close>

definition kNoDeoptimizationIndex :: int32 where
  "kNoDeoptimizationIndex = 2 ^ (32 - 3 - 1) - 1"

definition new_LEnvironment ::
  "addr option \<Rightarrow> uint32 \<Rightarrow> int32 \<Rightarrow> int32 \<Rightarrow> int32 \<Rightarrow> int32 \<Rightarrow> nat option \<Rightarrow> LEnvironment_frame" where
  "new_LEnvironment closure frame_type ast_id parameter_count argument_count value_count entry =
     \<lparr>env_closure = closure, env_frame_type = frame_type, env_arguments_stack_height = argument_count,
      env_deoptimization_index = kNoDeoptimizationIndex, env_translation_index = -1,
      env_ast_id = ast_id, env_translation_size = value_count, env_parameter_count = parameter_count,
      env_pc_offset = -1, env_values = [], env_is_tagged = new_GrowableBitVector value_count,
      env_is_uint32 = new_GrowableBitVector value_count, env_object_mapping = [],
      env_entry = entry, env_has_been_used = False\<rparr>"

text \<open>\<^verbatim>\<open>AddValue\<close>; the second argument is \<^verbatim>\<open>representation.IsSmiOrTagged()\<close>.\<close>

definition AddValue ::
  "LOperand option \<Rightarrow> bool \<Rightarrow> bool \<Rightarrow> LEnvironment_frame \<Rightarrow> LEnvironment_frame option" where
  "AddValue operand is_smi_or_tagged is_uint env = do {
     let env = env\<lparr>env_values := env_values env @ [operand]\<rparr>;
     env \<leftarrow> if is_smi_or_tagged
           then map_option (\<lambda>g. env\<lparr>env_is_tagged := g\<rparr>)
                  (growable_Add (length (env_values env) - 1) (env_is_tagged env))
           else Some env;
     if is_uint
     then map_option (\<lambda>g. env\<lparr>env_is_uint32 := g\<rparr>)
            (growable_Add (length (env_values env) - 1) (env_is_uint32 env))
     else Some env
   }"

definition HasTaggedValueAt :: "nat \<Rightarrow> LEnvironment_frame \<Rightarrow> bool option" where
  "HasTaggedValueAt index env = growable_Contains index (env_is_tagged env)"

definition HasUint32ValueAt :: "nat \<Rightarrow> LEnvironment_frame \<Rightarrow> bool option" where
  "HasUint32ValueAt index env = growable_Contains index (env_is_uint32 env)"

definition HasBeenRegistered :: "LEnvironment_frame \<Rightarrow> bool" where
  "HasBeenRegistered env \<longleftrightarrow> env_deoptimization_index env \<noteq> kNoDeoptimizationIndex"

definition Register :: "int32 \<Rightarrow> int32 \<Rightarrow> int32 \<Rightarrow> LEnvironment_frame \<Rightarrow> LEnvironment_frame" where
  "Register deoptimization_index translation_index pc_offset env =
     env\<lparr>env_deoptimization_index := deoptimization_index, env_translation_index := translation_index,
         env_pc_offset := pc_offset\<rparr>"

text \<open>The object mapping, one packed entry for each materialized object.\<close>

definition AddNewObject :: "uint32 \<Rightarrow> bool \<Rightarrow> LEnvironment_frame \<Rightarrow> LEnvironment_frame" where
  "AddNewObject len is_arguments env =
     env\<lparr>env_object_mapping := env_object_mapping env @
       [BitField_encode 0 len OR BitField_encode 30 (of_bool is_arguments) OR
        BitField_encode 31 (of_bool False)]\<rparr>"

definition AddDuplicateObject :: "uint32 \<Rightarrow> LEnvironment_frame \<Rightarrow> LEnvironment_frame" where
  "AddDuplicateObject dupe_of env =
     env\<lparr>env_object_mapping := env_object_mapping env @
       [BitField_encode 0 dupe_of OR BitField_encode 31 (of_bool True)]\<rparr>"

definition object_at :: "nat \<Rightarrow> LEnvironment_frame \<Rightarrow> uint32 option" where
  "object_at index env =
     (if index < length (env_object_mapping env) then Some (env_object_mapping env ! index) else None)"

definition ObjectDuplicateOfAt :: "nat \<Rightarrow> LEnvironment_frame \<Rightarrow> uint32 option" where
  "ObjectDuplicateOfAt index env = map_option (BitField_decode 0 30) (object_at index env)"

definition ObjectLengthAt :: "nat \<Rightarrow> LEnvironment_frame \<Rightarrow> uint32 option" where
  "ObjectLengthAt index env = map_option (BitField_decode 0 30) (object_at index env)"

definition ObjectIsArgumentsAt :: "nat \<Rightarrow> LEnvironment_frame \<Rightarrow> bool option" where
  "ObjectIsArgumentsAt index env = map_option (\<lambda>w. BitField_decode 30 1 w \<noteq> 0) (object_at index env)"

definition ObjectIsDuplicateAt :: "nat \<Rightarrow> LEnvironment_frame \<Rightarrow> bool option" where
  "ObjectIsDuplicateAt index env = map_option (\<lambda>w. BitField_decode 31 1 w \<noteq> 0) (object_at index env)"


section \<open>The iterators\<close>

record ShallowIterator =
  si_env :: LEnvironment
  si_limit :: nat
  si_current :: nat

definition ShouldSkip :: "LOperand option \<Rightarrow> bool" where
  "ShouldSkip op = (case op of None \<Rightarrow> True | Some op \<Rightarrow> IsConstantOperand op)"

function shallow_SkipUninteresting :: "ShallowIterator \<Rightarrow> ShallowIterator" where
  "shallow_SkipUninteresting it =
     (case si_env it of
        [] \<Rightarrow> it
      | env # _ \<Rightarrow>
          if si_current it < si_limit it \<and> ShouldSkip (env_values env ! si_current it)
          then shallow_SkipUninteresting (it\<lparr>si_current := si_current it + 1\<rparr>) else it)"
  by pat_completeness auto
termination by (relation "measure (\<lambda>it. si_limit it - si_current it)") auto

declare shallow_SkipUninteresting.simps [simp del]

definition new_ShallowIterator :: "LEnvironment \<Rightarrow> ShallowIterator" where
  "new_ShallowIterator env = shallow_SkipUninteresting
     \<lparr>si_env = env, si_limit = (case env of [] \<Rightarrow> 0 | f # _ \<Rightarrow> length (env_values f)), si_current = 0\<rparr>"

definition shallow_Done :: "ShallowIterator \<Rightarrow> bool" where
  "shallow_Done it \<longleftrightarrow> si_limit it \<le> si_current it"

definition shallow_Current :: "ShallowIterator \<Rightarrow> LOperand option" where
  "shallow_Current it =
     (case si_env it of [] \<Rightarrow> None
      | env # _ \<Rightarrow> if si_current it < length (env_values env) then env_values env ! si_current it else None)"

definition shallow_Advance :: "ShallowIterator \<Rightarrow> ShallowIterator" where
  "shallow_Advance it = shallow_SkipUninteresting (it\<lparr>si_current := si_current it + 1\<rparr>)"

text \<open>The deep iterator goes on with the outer environment when it is done with one.\<close>

function deep_SkipUninteresting :: "ShallowIterator \<Rightarrow> ShallowIterator" where
  "deep_SkipUninteresting it =
     (case si_env it of
        [] \<Rightarrow> it
      | _ # outer \<Rightarrow>
          if shallow_Done it then deep_SkipUninteresting (new_ShallowIterator outer) else it)"
  by pat_completeness auto

lemma si_env_shallow_SkipUninteresting [simp]: "si_env (shallow_SkipUninteresting it) = si_env it"
  by (induction it rule: shallow_SkipUninteresting.induct)
    (subst shallow_SkipUninteresting.simps, auto split: list.split)

lemma si_env_new [simp]: "si_env (new_ShallowIterator env) = env"
  by (simp add: new_ShallowIterator_def)

termination deep_SkipUninteresting by (relation "measure (\<lambda>it. length (si_env it))") auto

declare deep_SkipUninteresting.simps [simp del]

definition new_DeepIterator :: "LEnvironment \<Rightarrow> ShallowIterator" where
  "new_DeepIterator env = deep_SkipUninteresting (new_ShallowIterator env)"

definition deep_Advance :: "ShallowIterator \<Rightarrow> ShallowIterator" where
  "deep_Advance it = deep_SkipUninteresting (shallow_Advance it)"

text \<open>What a loop over the iterator sees, with a bound on the number of its steps.\<close>

fun deep_visits :: "nat \<Rightarrow> ShallowIterator \<Rightarrow> LOperand list option" where
  "deep_visits 0 it = None"
| "deep_visits (Suc n) it =
     (if shallow_Done it then Some []
      else case shallow_Current it of None \<Rightarrow> None
       | Some op \<Rightarrow> map_option (Cons op) (deep_visits n (deep_Advance it)))"



section \<open>Saving and loading\<close>

definition SaveEnvironment_value ::
  "LEnvironment_frame \<Rightarrow> nat \<Rightarrow> 'a saver_base_scheme \<Rightarrow> 'a saver_base_scheme option" where
  "SaveEnvironment_value env i s = do {
     s \<leftarrow> ConditionallySaveLOperand (env_values env ! i) s;
     tagged \<leftarrow> HasTaggedValueAt i env;
     s \<leftarrow> SavePrimitive_bool tagged s;
     is_uint \<leftarrow> HasUint32ValueAt i env;
     SavePrimitive_bool is_uint s
   }"

definition SaveEnvironment_closure ::
  "'w world_scheme \<Rightarrow> LEnvironment_frame \<Rightarrow> 'a saver_base_scheme \<Rightarrow> 'a saver_base_scheme option" where
  "SaveEnvironment_closure w env s =
     (if env_closure env = Some (w_info_closure w) then SaveTrue s
      else do {
        s \<leftarrow> SaveFalse s;
        closure \<leftarrow> env_closure env;
        SaveJSFunction w closure s
      })"

definition SaveEnvironment_frame ::
  "'w world_scheme \<Rightarrow> LEnvironment_frame \<Rightarrow> 'a saver_base_scheme \<Rightarrow> 'a saver_base_scheme option" where
  "SaveEnvironment_frame w env s = do {
     s \<leftarrow> SavePrimitive (env_frame_type env) s;
     s \<leftarrow> SavePrimitive (env_arguments_stack_height env) s;
     s \<leftarrow> SavePrimitive (env_ast_id env) s;
     s \<leftarrow> SavePrimitive (env_translation_size env) s;
     s \<leftarrow> SavePrimitive (env_parameter_count env) s;
     s \<leftarrow> SavePrimitive_bool (env_has_been_used env) s;
     s \<leftarrow> SaveEnvironment_closure w env s;
     s \<leftarrow> SavePrimitive (int_length (env_values env)) s;
     s \<leftarrow> save_each (SaveEnvironment_value env) [0..<length (env_values env)] s;
     s \<leftarrow> SavePrimitive (int_length (env_object_mapping env)) s;
     save_each SavePrimitive (env_object_mapping env) s
   }"

fun SaveEnvironment ::
  "'w world_scheme \<Rightarrow> LEnvironment \<Rightarrow> 'a saver_base_scheme \<Rightarrow> 'a saver_base_scheme option" where
  "SaveEnvironment w [] s = None"
| "SaveEnvironment w (env # outer) s =
     (if outer \<noteq> [] then do {
        s \<leftarrow> SaveTrue s;
        s \<leftarrow> SaveEnvironment w outer s;
        RETURN_ON_FAIL s (SaveEnvironment_frame w env s)
      } else do {
        s \<leftarrow> SaveFalse s;
        SaveEnvironment_frame w env s
      })"

definition LoadEnvironment_value ::
  "'b loader_base_scheme \<Rightarrow> ((LOperand option \<times> bool \<times> bool) \<times> 'b loader_base_scheme) option" where
  "LoadEnvironment_value l = do {
     (operand, l) \<leftarrow> ConditionallyLoadLOperand l;
     (tagged, l) \<leftarrow> LoadPrimitive_bool l;
     (is_uint, l) \<leftarrow> LoadPrimitive_bool l;
     Some ((operand, tagged, is_uint), l)
   }"

primrec LoadEnvironment_values ::
  "nat \<Rightarrow> LEnvironment_frame \<Rightarrow> 'b loader_base_scheme \<Rightarrow> (LEnvironment_frame \<times> 'b loader_base_scheme) option" where
  "LoadEnvironment_values 0 env l = Some (env, l)"
| "LoadEnvironment_values (Suc n) env l = do {
     ((operand, tagged, is_uint), l) \<leftarrow> LoadEnvironment_value l;
     env \<leftarrow> AddValue operand tagged is_uint env;
     LoadEnvironment_values n env l
   }"

definition LoadEnvironment_closure ::
  "'w world_scheme \<Rightarrow> 'b loader_base_scheme \<Rightarrow> (addr option \<times> 'b loader_base_scheme) option" where
  "LoadEnvironment_closure w l = do {
     (own_closure, l) \<leftarrow> LoadBool l;
     if own_closure then Some (Some (w_info_closure w), l) else LoadJSFunction w l
   }"

text \<open>The rest of \<^verbatim>\<open>LoadEnvironment\<close> after the outer environment, which may be a null pointer.\<close>

definition LoadEnvironment_frame ::
  "'w world_scheme \<Rightarrow> LEnvironment \<Rightarrow> 'b loader_base_scheme \<Rightarrow> (LEnvironment \<times> 'b loader_base_scheme) option" where
  "LoadEnvironment_frame w outer l = do {
     (frame_type, l) \<leftarrow> LoadPrimitive l;
     (arguments_stack_height, l) \<leftarrow> LoadPrimitive l;
     (ast_id, l) \<leftarrow> LoadPrimitive l;
     (translation_size, l) \<leftarrow> LoadPrimitive l;
     (parameter_count, l) \<leftarrow> LoadPrimitive l;
     (has_been_used, l) \<leftarrow> LoadPrimitive_bool l;
     (closure, l) \<leftarrow> LoadEnvironment_closure w l;
     RETURN_VALUE_ON_FAIL [] l (do {
       let env = new_LEnvironment closure frame_type ast_id parameter_count arguments_stack_height
                   translation_size None;
       let env = (if has_been_used then env\<lparr>env_has_been_used := True\<rparr> else env);
       (number_of_values, l) \<leftarrow> LoadPrimitive l;
       (env, l) \<leftarrow> LoadEnvironment_values (iterations number_of_values) env l;
       (object_mapping_size, l) \<leftarrow> LoadPrimitive l;
       (mapping, l) \<leftarrow> load_each LoadPrimitive (iterations object_mapping_size) l;
       Some (env\<lparr>env_object_mapping := env_object_mapping env @ mapping\<rparr> # outer, l)
     })
   }"

text \<open>Each nested environment costs a byte, so the length of the input is enough fuel.\<close>

primrec LoadEnvironment_fuel ::
  "nat \<Rightarrow> 'w world_scheme \<Rightarrow> 'b loader_base_scheme \<Rightarrow> (LEnvironment \<times> 'b loader_base_scheme) option" where
  "LoadEnvironment_fuel 0 w l = None"
| "LoadEnvironment_fuel (Suc n) w l = do {
     (has_outer, l) \<leftarrow> LoadBool l;
     (outer, l) \<leftarrow> if has_outer then LoadEnvironment_fuel n w l else Some ([], l);
     LoadEnvironment_frame w outer l
   }"

definition LoadEnvironment ::
  "'w world_scheme \<Rightarrow> 'b loader_base_scheme \<Rightarrow> (LEnvironment \<times> 'b loader_base_scheme) option" where
  "LoadEnvironment w l = LoadEnvironment_fuel (length (input l)) w l"


section \<open>The iterators lose nothing\<close>

text \<open>What is left of an iteration; the iterators do not lose any of it.\<close>

definition interesting :: "LOperand option \<Rightarrow> LOperand option" where
  "interesting op = (if ShouldSkip op then None else op)"

definition shallow_rest :: "ShallowIterator \<Rightarrow> LOperand list" where
  "shallow_rest it =
     (case si_env it of [] \<Rightarrow> [] | env # _ \<Rightarrow> List.map_filter interesting (drop (si_current it) (env_values env)))"

definition deep_elements :: "LEnvironment \<Rightarrow> LOperand list" where
  "deep_elements env = concat (map (\<lambda>f. List.map_filter interesting (env_values f)) env)"

definition deep_rest :: "ShallowIterator \<Rightarrow> LOperand list" where
  "deep_rest it = shallow_rest it @ deep_elements (tl (si_env it))"

definition si_wf :: "ShallowIterator \<Rightarrow> bool" where
  "si_wf it \<longleftrightarrow> si_limit it = (case si_env it of [] \<Rightarrow> 0 | f # _ \<Rightarrow> length (env_values f))"

text \<open>A settled iterator is done or at something interesting.\<close>

definition shallow_settled :: "ShallowIterator \<Rightarrow> bool" where
  "shallow_settled it \<longleftrightarrow> shallow_Done it \<or>
     (\<exists>env outer. si_env it = env # outer \<and> \<not> ShouldSkip (env_values env ! si_current it))"

lemma shallow_SkipUninteresting_rest:
  assumes "si_wf it"
  shows "si_wf (shallow_SkipUninteresting it) \<and> shallow_settled (shallow_SkipUninteresting it) \<and>
    shallow_rest (shallow_SkipUninteresting it) = shallow_rest it"
  using assms
proof (induction it rule: shallow_SkipUninteresting.induct)
  case (1 it)
  show ?case
  proof (cases "si_env it")
    case Nil
    with "1.prems" show ?thesis
      by (subst (1 2 3) shallow_SkipUninteresting.simps)
        (simp add: si_wf_def shallow_settled_def shallow_Done_def)
  next
    case (Cons env outer)
    show ?thesis
    proof (cases "si_current it < si_limit it \<and> ShouldSkip (env_values env ! si_current it)")
      case True
      let ?next = "it\<lparr>si_current := si_current it + 1\<rparr>"
      have len: "si_current it < length (env_values env)"
        using True "1.prems" Cons by (simp add: si_wf_def)
      then have "shallow_rest ?next = shallow_rest it"
        using True Cons
        by (simp add: shallow_rest_def interesting_def Cons_nth_drop_Suc [symmetric] List.map_filter_simps)
      moreover have "si_wf ?next" using "1.prems" by (simp add: si_wf_def)
      moreover have "shallow_SkipUninteresting it = shallow_SkipUninteresting ?next"
        using Cons True by (subst shallow_SkipUninteresting.simps) simp
      ultimately show ?thesis using "1.IH" [OF Cons True] by simp
    next
      case False
      then have "shallow_SkipUninteresting it = it"
        using Cons by (subst shallow_SkipUninteresting.simps) auto
      with False Cons "1.prems" show ?thesis
        by (auto simp: shallow_settled_def shallow_Done_def)
    qed
  qed
qed

lemma new_ShallowIterator_rest:
  "si_wf (new_ShallowIterator env)" "shallow_settled (new_ShallowIterator env)"
  "deep_rest (new_ShallowIterator env) = deep_elements env"
proof -
  let ?it = "\<lparr>si_env = env, si_limit = (case env of [] \<Rightarrow> 0 | f # _ \<Rightarrow> length (env_values f)), si_current = 0\<rparr>"
  have "si_wf ?it" by (simp add: si_wf_def)
  from shallow_SkipUninteresting_rest [OF this]
  show "si_wf (new_ShallowIterator env)" "shallow_settled (new_ShallowIterator env)"
    "deep_rest (new_ShallowIterator env) = deep_elements env"
    by (simp_all add: new_ShallowIterator_def deep_rest_def)
      (simp add: shallow_rest_def deep_elements_def split: list.split)
qed

definition deep_settled :: "ShallowIterator \<Rightarrow> bool" where
  "deep_settled it \<longleftrightarrow> si_wf it \<and>
     (si_env it = [] \<or> (\<exists>env outer. si_env it = env # outer \<and> si_current it < length (env_values env) \<and>
        \<not> ShouldSkip (env_values env ! si_current it)))"

lemma deep_SkipUninteresting_rest:
  assumes "si_wf it" "shallow_settled it"
  shows "deep_settled (deep_SkipUninteresting it) \<and> deep_rest (deep_SkipUninteresting it) = deep_rest it"
  using assms
proof (induction it rule: deep_SkipUninteresting.induct)
  case (1 it)
  show ?case
  proof (cases "si_env it")
    case Nil
    with 1 show ?thesis by (subst (1 2) deep_SkipUninteresting.simps) (simp add: deep_settled_def)
  next
    case (Cons env outer)
    show ?thesis
    proof (cases "shallow_Done it")
      case True
      then have "deep_SkipUninteresting it = deep_SkipUninteresting (new_ShallowIterator outer)"
        using Cons by (subst deep_SkipUninteresting.simps) simp
      moreover have "deep_rest it = deep_elements outer"
        using True Cons "1.prems"(1)
        by (simp add: deep_rest_def shallow_rest_def shallow_Done_def si_wf_def List.map_filter_simps)
      ultimately show ?thesis
        using "1.IH" [OF Cons True] new_ShallowIterator_rest [of outer] by simp
    next
      case False
      with Cons have "deep_SkipUninteresting it = it"
        by (subst deep_SkipUninteresting.simps) simp
      with False Cons "1.prems" show ?thesis
        by (auto simp: deep_settled_def shallow_settled_def shallow_Done_def si_wf_def)
    qed
  qed
qed

lemma deep_visits_rest:
  assumes "deep_settled it" "length (deep_rest it) < n"
  shows "deep_visits n it = Some (deep_rest it)"
  using assms
proof (induction n arbitrary: it)
  case (Suc n)
  show ?case
  proof (cases "si_env it")
    case Nil
    with Suc.prems(1) show ?thesis
      by (simp add: deep_settled_def si_wf_def shallow_Done_def deep_rest_def shallow_rest_def deep_elements_def)
  next
    case (Cons env outer)
    with Suc.prems(1) have c: "si_current it < length (env_values env)" "si_wf it"
      "\<not> ShouldSkip (env_values env ! si_current it)" "si_limit it = length (env_values env)"
      by (auto simp: deep_settled_def si_wf_def)
    then obtain op where op: "env_values env ! si_current it = Some op"
      by (auto simp: ShouldSkip_def split: option.splits)
    let ?next = "it\<lparr>si_current := si_current it + 1\<rparr>"
    have wf: "si_wf ?next" using c(2) by (simp add: si_wf_def)
    note skip = shallow_SkipUninteresting_rest [OF wf]
    have "shallow_rest it = op # shallow_rest ?next"
      using Cons c op
      by (simp add: shallow_rest_def interesting_def Cons_nth_drop_Suc [symmetric] List.map_filter_simps)
    then have "deep_rest it = op # deep_rest (shallow_SkipUninteresting ?next)"
      using skip by (simp add: deep_rest_def)
    moreover note deep_SkipUninteresting_rest [OF skip [THEN conjunct1] skip [THEN conjunct2, THEN conjunct1]]
    ultimately have step: "deep_settled (deep_Advance it)" "deep_rest it = op # deep_rest (deep_Advance it)"
      by (simp_all add: deep_Advance_def shallow_Advance_def)
    with Suc.prems(2) have "deep_visits n (deep_Advance it) = Some (deep_rest (deep_Advance it))"
      by (intro Suc.IH) simp_all
    with step c op Cons show ?thesis
      by (simp add: shallow_Done_def shallow_Current_def)
  qed
qed simp

text \<open>C8 A loop over \<^verbatim>\<open>DeepIterator\<close> sees the operands of an environment and of all outer ones, from
  the inside out and each in its place, except the null markers of objects that are to be
  materialized and the constants; it dereferences nothing null and it ends, even where whole
  frames have nothing to show.\<close>
theorem DeepIterator_visits:
  "deep_visits (length (deep_elements env) + 1) (new_DeepIterator env) = Some (deep_elements env)"
proof -
  note new = new_ShallowIterator_rest [of env]
  note skip = deep_SkipUninteresting_rest [OF new(1,2)]
  then have "deep_settled (new_DeepIterator env)" "deep_rest (new_DeepIterator env) = deep_elements env"
    by (simp_all add: new_DeepIterator_def new(3))
  then show ?thesis using deep_visits_rest [of "new_DeepIterator env"] by (simp del: deep_visits.simps)
qed



section \<open>The round trip of environments\<close>

text \<open>What is kept of a frame. The registration with the deoptimizer and the Hydrogen instruction
  belong to the process that saved.\<close>

definition same_frame :: "LEnvironment_frame \<Rightarrow> LEnvironment_frame \<Rightarrow> bool" where
  "same_frame e f \<longleftrightarrow>
     env_frame_type f = env_frame_type e \<and> env_arguments_stack_height f = env_arguments_stack_height e \<and>
     env_ast_id f = env_ast_id e \<and> env_translation_size f = env_translation_size e \<and>
     env_parameter_count f = env_parameter_count e \<and> env_has_been_used f = env_has_been_used e \<and>
     env_values f = env_values e \<and> env_object_mapping f = env_object_mapping e \<and>
     (\<forall>i. HasTaggedValueAt i f = HasTaggedValueAt i e \<and> HasUint32ValueAt i f = HasUint32ValueAt i e) \<and>
     \<not> HasBeenRegistered f"

definition reloaded_closure :: "'w world_scheme \<Rightarrow> LEnvironment_frame \<Rightarrow> addr option" where
  "reloaded_closure w e =
     (if env_closure e = Some (w_info_closure w) then env_closure e
      else resolved_function w (the (env_closure e)))"

text \<open>The frames that the format carries: the flags are about the values only, and a frame with
  flags has a translation size to make its bit vectors from.\<close>

definition flags_ok :: "int32 \<Rightarrow> nat \<Rightarrow> GrowableBitVector \<Rightarrow> bool" where
  "flags_ok sz n g \<longleftrightarrow> growable_wf g \<and> (\<forall>i \<in> growable_set g. i < n) \<and>
     (0 < sint sz \<or> growable_set g = {})"

definition frame_ok :: "'w world_scheme \<Rightarrow> LEnvironment_frame \<Rightarrow> bool" where
  "frame_ok w e \<longleftrightarrow>
     (env_closure e = Some (w_info_closure w) \<or> (\<exists>f. env_closure e = Some f \<and> function_ok w f)) \<and>
     length (env_values e) < 2 ^ 30 \<and> length (env_object_mapping e) < 2 ^ 31 \<and>
     flags_ok (env_translation_size e) (length (env_values e)) (env_is_tagged e) \<and>
     flags_ok (env_translation_size e) (length (env_values e)) (env_is_uint32 e)"

text \<open>A vector that is being filled: it is well-formed or, for a sz that is not positive, new.\<close>

definition flags_filled :: "int32 \<Rightarrow> nat set \<Rightarrow> GrowableBitVector \<Rightarrow> bool" where
  "flags_filled sz I g \<longleftrightarrow> (\<forall>i. growable_Contains i g = Some (i \<in> I)) \<and>
     (0 < sint sz \<longrightarrow> growable_wf g \<and> growable_set g = I)"

lemma flags_filled_new: "flags_filled sz {} (new_GrowableBitVector sz)"
proof (cases "0 < sint sz")
  case True
  then have "growable_wf (new_GrowableBitVector sz)" "growable_set (new_GrowableBitVector sz) = {}"
    using bv_wf_new [of sz]
    by (auto simp: growable_wf_def growable_set_def new_GrowableBitVector_def)
  then show ?thesis by (auto simp: flags_filled_def growable_Contains_set)
next
  case False
  then show ?thesis
    by (auto simp: flags_filled_def growable_Contains_def InBitsRange_def new_GrowableBitVector_def
        new_BitVector_def)
qed

lemma flags_filled_add:
  assumes "flags_filled sz I g" "0 < sint sz" "i < 2 ^ 30"
  shows "\<exists>g'. growable_Add i g = Some g' \<and> flags_filled sz (insert i I) g'"
  using growable_Add_set [of g i] assms by (fastforce simp: flags_filled_def growable_Contains_set)


definition filled :: "nat \<Rightarrow> LEnvironment_frame \<Rightarrow> LEnvironment_frame \<Rightarrow> bool" where
  "filled k e f \<longleftrightarrow> env_values f = take k (env_values e) \<and>
     flags_filled (env_translation_size e) {i \<in> growable_set (env_is_tagged e). i < k} (env_is_tagged f) \<and>
     flags_filled (env_translation_size e) {i \<in> growable_set (env_is_uint32 e). i < k} (env_is_uint32 f)"

lemma flags_filled_step:
  assumes "flags_filled sz {i \<in> G. i < k} g" "k \<in> G \<Longrightarrow> 0 < sint sz" "k < 2 ^ 30"
  shows "\<exists>g'. (if k \<in> G then growable_Add k g else Some g) = Some g' \<and> flags_filled sz {i \<in> G. i < Suc k} g'"
proof (cases "k \<in> G")
  case True
  then have "{i \<in> G. i < Suc k} = insert k {i \<in> G. i < k}" by auto
  with flags_filled_add [OF assms(1) assms(2) [OF True] assms(3)] True show ?thesis by simp
next
  case False
  then have "{i \<in> G. i < Suc k} = {i \<in> G. i < k}" using less_Suc_eq by auto
  with assms(1) False show ?thesis by simp
qed

lemma AddValue_eq:
  "AddValue op t u f = do {
     g \<leftarrow> if t then growable_Add (length (env_values f)) (env_is_tagged f) else Some (env_is_tagged f);
     h \<leftarrow> if u then growable_Add (length (env_values f)) (env_is_uint32 f) else Some (env_is_uint32 f);
     Some (f\<lparr>env_values := env_values f @ [op], env_is_tagged := g, env_is_uint32 := h\<rparr>)
   }"
  by (cases t; cases u; cases f) (simp_all add: AddValue_def map_conv_bind_option comp_def Let_def)

lemma AddValue_filled:
  assumes "frame_ok w e" "filled k e f" "k < length (env_values e)"
  shows "\<exists>f'. AddValue (env_values e ! k) (k \<in> growable_set (env_is_tagged e))
      (k \<in> growable_set (env_is_uint32 e)) f = Some f' \<and> filled (Suc k) e f' \<and>
    f'\<lparr>env_values := [], env_is_tagged := None, env_is_uint32 := None\<rparr> =
    f\<lparr>env_values := [], env_is_tagged := None, env_is_uint32 := None\<rparr>"
proof -
  have len: "length (env_values f) = k" "env_values f @ [env_values e ! k] = take (Suc k) (env_values e)"
    using assms(2,3) by (auto simp: filled_def take_Suc_conv_app_nth)
  have k: "k < 2 ^ 30" using assms(1,3) by (simp add: frame_ok_def)
  have "\<exists>g. (if k \<in> growable_set (env_is_tagged e) then growable_Add k (env_is_tagged f) else Some (env_is_tagged f)) = Some g \<and>
      flags_filled (env_translation_size e) {i \<in> growable_set (env_is_tagged e). i < Suc k} g"
    by (rule flags_filled_step [OF _ _ k]) (use assms(1,2) in \<open>auto simp: filled_def frame_ok_def flags_ok_def\<close>)
  then obtain g where g: "(if k \<in> growable_set (env_is_tagged e) then growable_Add k (env_is_tagged f) else Some (env_is_tagged f)) = Some g"
    "flags_filled (env_translation_size e) {i \<in> growable_set (env_is_tagged e). i < Suc k} g" by blast
  have "\<exists>h. (if k \<in> growable_set (env_is_uint32 e) then growable_Add k (env_is_uint32 f) else Some (env_is_uint32 f)) = Some h \<and>
      flags_filled (env_translation_size e) {i \<in> growable_set (env_is_uint32 e). i < Suc k} h"
    by (rule flags_filled_step [OF _ _ k]) (use assms(1,2) in \<open>auto simp: filled_def frame_ok_def flags_ok_def\<close>)
  then obtain h where h: "(if k \<in> growable_set (env_is_uint32 e) then growable_Add k (env_is_uint32 f) else Some (env_is_uint32 f)) = Some h"
    "flags_filled (env_translation_size e) {i \<in> growable_set (env_is_uint32 e). i < Suc k} h" by blast
  let ?f = "f\<lparr>env_values := take (Suc k) (env_values e), env_is_tagged := g, env_is_uint32 := h\<rparr>"
  have "AddValue (env_values e ! k) (k \<in> growable_set (env_is_tagged e))
      (k \<in> growable_set (env_is_uint32 e)) f = Some ?f"
    unfolding AddValue_eq len g(1) h(1) by simp
  moreover have "filled (Suc k) e ?f" using g(2) h(2) by (simp add: filled_def)
  moreover have "?f\<lparr>env_values := [], env_is_tagged := None, env_is_uint32 := None\<rparr> =
    f\<lparr>env_values := [], env_is_tagged := None, env_is_uint32 := None\<rparr>" by simp
  ultimately show ?thesis by blast
qed

lemma transmits_value:
  assumes "frame_ok w e"
  shows "transmits C (SaveEnvironment_value e k) LoadEnvironment_value
    (env_values e ! k, k \<in> growable_set (env_is_tagged e), k \<in> growable_set (env_is_uint32 e))"
proof -
  have flags: "HasTaggedValueAt k e = Some (k \<in> growable_set (env_is_tagged e))"
    "HasUint32ValueAt k e = Some (k \<in> growable_set (env_is_uint32 e))"
    using assms by (simp_all add: HasTaggedValueAt_def HasUint32ValueAt_def frame_ok_def flags_ok_def growable_Contains_set)
  show ?thesis
    unfolding SaveEnvironment_value_def [abs_def] LoadEnvironment_value_def flags bind.bind_lunit
    by (rule transmits_bind [OF transmits_ConditionallyLOperand] transmits_bind [OF transmits_bool]
        transmits_save_last [OF transmits_bool])+ simp
qed

lemma transmits_environment_values:
  fixes e :: LEnvironment_frame
  assumes "frame_ok w e"
  shows "filled k e f \<Longrightarrow> length (env_values e) = k + m \<Longrightarrow>
    \<exists>f'. transmits C (save_each (SaveEnvironment_value e) [k..<k + m] :: 'a sv)
      (LoadEnvironment_values m f :: 'b loader_base_scheme \<Rightarrow> (LEnvironment_frame \<times> 'b loader_base_scheme) option) f' \<and>
    filled (length (env_values e)) e f' \<and>
    f'\<lparr>env_values := [], env_is_tagged := None, env_is_uint32 := None\<rparr> =
    f\<lparr>env_values := [], env_is_tagged := None, env_is_uint32 := None\<rparr>"
proof (induction m arbitrary: k f)
  case 0
  have "transmits C (Some :: 'a sv) (\<lambda>l. Some (f, l)) f" by (rule transmits_done)
  then show ?case using 0 by (intro exI [of _ f]) (simp add: transmits_def saves_def loads_def)
next
  case (Suc m)
  let ?T = "k \<in> growable_set (env_is_tagged e)" and ?U = "k \<in> growable_set (env_is_uint32 e)"
  obtain f1 where f1: "AddValue (env_values e ! k) ?T ?U f = Some f1" "filled (Suc k) e f1"
    "f1\<lparr>env_values := [], env_is_tagged := None, env_is_uint32 := None\<rparr> =
     f\<lparr>env_values := [], env_is_tagged := None, env_is_uint32 := None\<rparr>"
    using AddValue_filled [OF assms Suc.prems(1)] Suc.prems(2) by auto
  have len: "length (env_values e) = Suc k + m" using Suc.prems(2) by simp
  from Suc.IH [OF f1(2) len] obtain f' where f':
    "transmits C (save_each (SaveEnvironment_value e) [Suc k..<Suc k + m] :: 'a sv)
      (LoadEnvironment_values m f1 :: 'b loader_base_scheme \<Rightarrow> (LEnvironment_frame \<times> 'b loader_base_scheme) option) f'"
    "filled (length (env_values e)) e f'"
    "f'\<lparr>env_values := [], env_is_tagged := None, env_is_uint32 := None\<rparr> =
     f1\<lparr>env_values := [], env_is_tagged := None, env_is_uint32 := None\<rparr>"
    by blast
  have "transmits C ((\<lambda>s. SaveEnvironment_value e k s \<bind> save_each (SaveEnvironment_value e) [Suc k..<Suc k + m]) :: 'a sv)
      ((\<lambda>l. LoadEnvironment_value l \<bind> (\<lambda>((operand, tagged, is_uint), l).
        AddValue operand tagged is_uint f \<bind> (\<lambda>env. LoadEnvironment_values m env l))) ::
        'b loader_base_scheme \<Rightarrow> (LEnvironment_frame \<times> 'b loader_base_scheme) option) f'"
    apply (rule transmits_bind [OF transmits_value [OF assms]])
    apply (simp only: prod.case f1(1) bind.bind_lunit)
    apply (rule f'(1))
    done
  moreover have "(save_each (SaveEnvironment_value e) [k..<k + Suc m] :: 'a sv) = (\<lambda>s. SaveEnvironment_value e k s \<bind>
      save_each (SaveEnvironment_value e) [Suc k..<Suc k + m])"
    by (rule ext) (simp add: upt_conv_Cons del: upt_Suc)
  moreover have "(LoadEnvironment_values (Suc m) f :: 'b loader_base_scheme \<Rightarrow> (LEnvironment_frame \<times> 'b loader_base_scheme) option) =
      (\<lambda>l. LoadEnvironment_value l \<bind> (\<lambda>((operand, tagged, is_uint), l).
        AddValue operand tagged is_uint f \<bind> (\<lambda>env. LoadEnvironment_values m env l)))"
    by (rule ext) simp
  ultimately show ?case using f'(2,3) f1(3) by (intro exI [of _ f']) (simp only: simp_thms)
qed

lemma filled_0: "filled 0 e (new_LEnvironment c t a p n (env_translation_size e) entry)"
  by (simp add: filled_def new_LEnvironment_def flags_filled_new)

lemma transmits_closure:
  assumes "frame_ok w e"
  shows "transmits C (SaveEnvironment_closure w e) (LoadEnvironment_closure w) (reloaded_closure w e)"
proof (cases "env_closure e = Some (w_info_closure w)")
  case True
  then show ?thesis
    unfolding SaveEnvironment_closure_def [abs_def] LoadEnvironment_closure_def reloaded_closure_def
    by (simp only: simp_thms if_True) (rule transmits_save_last [OF transmits_true], simp)
next
  case False
  with assms obtain f where f: "env_closure e = Some f" "function_ok w f" by (auto simp: frame_ok_def)
  have "transmits C (\<lambda>s. SaveFalse s \<bind> SaveJSFunction w f) (LoadEnvironment_closure w) (resolved_function w f)"
    unfolding LoadEnvironment_closure_def
    by (rule transmits_bind [OF transmits_false]) (simp only: if_False, rule transmits_JSFunction [OF f(2)])
  with False f(1) show ?thesis
    by (simp add: SaveEnvironment_closure_def [abs_def] reloaded_closure_def)
qed

lemma transmits_frame:
  assumes ok: "frame_ok w e"
  shows "\<exists>f. transmits C (SaveEnvironment_frame w e :: 'a sv)
      (LoadEnvironment_frame w outer :: 'b loader_base_scheme \<Rightarrow> (LEnvironment \<times> 'b loader_base_scheme) option)
      (f # outer) \<and> same_frame e f \<and> env_closure f = reloaded_closure w e"
proof -
  let ?new = "new_LEnvironment (reloaded_closure w e) (env_frame_type e) (env_ast_id e)
    (env_parameter_count e) (env_arguments_stack_height e) (env_translation_size e) None"
  let ?start = "if env_has_been_used e then ?new\<lparr>env_has_been_used := True\<rparr> else ?new"
  have "filled 0 e ?start" using filled_0 [of e] by (simp add: filled_def)
  from transmits_environment_values [OF ok this, of "length (env_values e)" C] obtain f where f:
    "transmits C (save_each (SaveEnvironment_value e) [0..<length (env_values e)] :: 'a sv)
      (LoadEnvironment_values (length (env_values e)) ?start ::
        'b loader_base_scheme \<Rightarrow> (LEnvironment_frame \<times> 'b loader_base_scheme) option) f"
    "filled (length (env_values e)) e f"
    "f\<lparr>env_values := [], env_is_tagged := None, env_is_uint32 := None\<rparr> =
     ?start\<lparr>env_values := [], env_is_tagged := None, env_is_uint32 := None\<rparr>" by auto
  have len: "iterations (int_length (env_values e)) = length (env_values e)"
    "iterations (int_length (env_object_mapping e)) = length (env_object_mapping e)"
    using ok by (simp_all add: frame_ok_def)
  have mapping: "transmits C (save_each SavePrimitive (env_object_mapping e))
      (load_each LoadPrimitive (length (env_object_mapping e))) (env_object_mapping e)"
    using transmits_each [of "env_object_mapping e" C SavePrimitive LoadPrimitive "\<lambda>x. x",
        OF transmits_primitives(3)] by simp
  let ?f = "f\<lparr>env_object_mapping := env_object_mapping f @ env_object_mapping e\<rparr>"
  have main: "transmits C (SaveEnvironment_frame w e :: 'a sv)
      (LoadEnvironment_frame w outer :: 'b loader_base_scheme \<Rightarrow> (LEnvironment \<times> 'b loader_base_scheme) option)
      (?f # outer)"
    unfolding SaveEnvironment_frame_def [abs_def] LoadEnvironment_frame_def
    apply (rule transmits_bind [OF transmits_primitives(3)])+
    apply (rule transmits_bind [OF transmits_bool])
    apply (rule transmits_bind [OF transmits_closure [OF ok]])
    apply (rule transmits_load_return)
    apply (simp only: Let_def)
    apply (rule transmits_bind [OF transmits_primitives(3)])
    apply (simp only: len)
    apply (rule transmits_bind [OF f(1)])
    apply (rule transmits_bind [OF transmits_primitives(3)])
    apply (simp only: len)
    apply (rule transmits_save_last [OF mapping], simp)
    done
  have fields: "env_closure f = reloaded_closure w e"
    "env_frame_type f = env_frame_type e"
    "env_arguments_stack_height f = env_arguments_stack_height e"
    "env_deoptimization_index f = kNoDeoptimizationIndex"
    "env_ast_id f = env_ast_id e"
    "env_translation_size f = env_translation_size e"
    "env_parameter_count f = env_parameter_count e"
    "env_object_mapping f = []"
    "env_has_been_used f = env_has_been_used e"
    using arg_cong [OF f(3), of env_closure]
      arg_cong [OF f(3), of env_frame_type]
      arg_cong [OF f(3), of env_arguments_stack_height]
      arg_cong [OF f(3), of env_deoptimization_index]
      arg_cong [OF f(3), of env_ast_id]
      arg_cong [OF f(3), of env_translation_size]
      arg_cong [OF f(3), of env_parameter_count]
      arg_cong [OF f(3), of env_object_mapping]
      arg_cong [OF f(3), of env_has_been_used]
    by (simp_all add: new_LEnvironment_def split: if_splits)
  have sets: "{i \<in> growable_set (env_is_tagged e). i < length (env_values e)} = growable_set (env_is_tagged e)"
    "{i \<in> growable_set (env_is_uint32 e). i < length (env_values e)} = growable_set (env_is_uint32 e)"
    using ok by (auto simp: frame_ok_def flags_ok_def)
  from f(2) have filled: "env_values f = env_values e"
    "\<And>i. growable_Contains i (env_is_tagged f) = Some (i \<in> growable_set (env_is_tagged e))"
    "\<And>i. growable_Contains i (env_is_uint32 f) = Some (i \<in> growable_set (env_is_uint32 e))"
    by (simp_all add: filled_def flags_filled_def sets)
  have "growable_wf (env_is_tagged e)" "growable_wf (env_is_uint32 e)"
    using ok by (simp_all add: frame_ok_def flags_ok_def)
  with filled fields have "same_frame e ?f \<and> env_closure ?f = reloaded_closure w e"
    by (simp add: same_frame_def HasTaggedValueAt_def HasUint32ValueAt_def HasBeenRegistered_def growable_Contains_set)
  with main show ?thesis by blast
qed


text \<open>The chain of environments.\<close>

lemma carries_Suc_bool:
  assumes "carries C C' g (\<lambda>n. k n b) y"
    and "\<And>n l. ld (Suc n) l = LoadBool l \<bind> (\<lambda>(b, l). k n b l)"
    and "\<And>s. f s = Some (s\<lparr>bytes := bytes s @ [if b then 1 else 0]\<rparr>)"
  shows "carries C C' (\<lambda>s. f s \<bind> g) ld y"
proof -
  from assms(1) obtain bs where g: "\<And>s. status s = SUCCEEDED \<Longrightarrow> map_cache s = C \<Longrightarrow>
      g s = Some (s\<lparr>bytes := bytes s @ bs, map_cache := C'\<rparr>)"
    and k: "\<And>n. length bs \<le> n \<Longrightarrow> loads (k n b) bs y" by (rule carriesE) blast
  show ?thesis
  proof (rule carriesI [where bs = "(if b then 1 else 0) # bs"], goal_cases)
    case (1 s)
    then show ?case by (simp add: assms(3) g)
  next
    case (2 n)
    then obtain m where m: "n = Suc m" "length bs \<le> m" by (cases n) auto
    with k [OF m(2)] show ?case
      by (auto simp: loads_def assms(2) LoadBool_def)
  qed
qed

lemma SaveBool_bytes:
  "SaveTrue s = Some (s\<lparr>bytes := bytes s @ [if True then 1 else 0]\<rparr>)"
  "SaveFalse s = Some (s\<lparr>bytes := bytes s @ [if False then 1 else 0]\<rparr>)"
  by (simp_all add: SaveTrue_def SaveFalse_def SaveTrue_bytes_def SaveFalse_bytes_def)

lemma carries_environment:
  "env \<noteq> [] \<Longrightarrow> list_all (frame_ok w) env \<Longrightarrow>
   \<exists>env'. carries C C (SaveEnvironment w env :: 'a sv) ((\<lambda>n. LoadEnvironment_fuel n w) :: ('b, LEnvironment) ld) env' \<and>
     list_all2 same_frame env env' \<and> map env_closure env' = map (reloaded_closure w) env"
proof (induction env)
  case (Cons e outer)
  note frame = transmits_frame [of w e C, where 'a = 'a and 'b = 'b]
  have ok: "frame_ok w e" using Cons.prems by simp
  show ?case
  proof (cases "outer = []")
    case True
    obtain f where f: "transmits C (SaveEnvironment_frame w e :: 'a sv)
        (LoadEnvironment_frame w [] :: 'b loader_base_scheme \<Rightarrow> (LEnvironment \<times> 'b loader_base_scheme) option) [f]"
      "same_frame e f" "env_closure f = reloaded_closure w e" using frame [OF ok] by blast
    have "carries C C ((\<lambda>s. SaveFalse s \<bind> SaveEnvironment_frame w e) :: 'a sv)
        ((\<lambda>n. LoadEnvironment_fuel n w) :: ('b, LEnvironment) ld) [f]"
      by (rule carries_Suc_bool [where b = False and k = "\<lambda>n has_outer l.
          (if has_outer then LoadEnvironment_fuel n w l else Some ([], l)) \<bind> (\<lambda>(outer, l). LoadEnvironment_frame w outer l)"
          and ld = "\<lambda>n. LoadEnvironment_fuel n w", OF _ LoadEnvironment_fuel.simps(2) SaveBool_bytes(2)])
        (simp only: if_False bind.bind_lunit prod.case, rule transmits_carries [OF f(1)])
    moreover have "(SaveEnvironment w (e # outer) :: 'a sv) = (\<lambda>s. SaveFalse s \<bind> SaveEnvironment_frame w e)"
      by (rule ext) (simp add: True)
    ultimately show ?thesis using True f(2,3) by (intro exI [of _ "[f]"]) simp
  next
    case False
    with Cons obtain outer' where outer: "carries C C (SaveEnvironment w outer :: 'a sv)
        ((\<lambda>n. LoadEnvironment_fuel n w) :: ('b, LEnvironment) ld) outer'"
      "list_all2 same_frame outer outer'" "map env_closure outer' = map (reloaded_closure w) outer" by auto
    obtain f where f: "transmits C (SaveEnvironment_frame w e :: 'a sv)
        (LoadEnvironment_frame w outer' :: 'b loader_base_scheme \<Rightarrow> (LEnvironment \<times> 'b loader_base_scheme) option) (f # outer')"
      "same_frame e f" "env_closure f = reloaded_closure w e" using frame [OF ok] by blast
    have "carries C C ((\<lambda>s. SaveTrue s \<bind> (\<lambda>s. SaveEnvironment w outer s \<bind>
          (\<lambda>s. RETURN_ON_FAIL s (SaveEnvironment_frame w e s)))) :: 'a sv)
        ((\<lambda>n. LoadEnvironment_fuel n w) :: ('b, LEnvironment) ld) (f # outer')"
      apply (rule carries_Suc_bool [where b = True and k = "\<lambda>n has_outer l.
          (if has_outer then LoadEnvironment_fuel n w l else Some ([], l)) \<bind> (\<lambda>(outer, l). LoadEnvironment_frame w outer l)"
          and ld = "\<lambda>n. LoadEnvironment_fuel n w", OF _ LoadEnvironment_fuel.simps(2) SaveBool_bytes(1)])
      apply (simp only: if_True)
      apply (rule carries_bind [OF outer(1)])
      apply (rule carries_save_return, rule transmits_carries [OF f(1)])
      done
    moreover have "(SaveEnvironment w (e # outer) :: 'a sv) = (\<lambda>s. SaveTrue s \<bind> (\<lambda>s. SaveEnvironment w outer s \<bind>
          (\<lambda>s. RETURN_ON_FAIL s (SaveEnvironment_frame w e s))))"
      by (rule ext) (simp add: False)
    ultimately show ?thesis using outer f(2,3) by (intro exI [of _ "f # outer'"]) simp
  qed
qed simp



definition sample_frame :: LEnvironment_frame where
  "sample_frame = \<lparr>env_closure = Some 7, env_frame_type = 0, env_arguments_stack_height = 1,
     env_deoptimization_index = 3, env_translation_index = 4, env_ast_id = 21, env_translation_size = 2,
     env_parameter_count = 1, env_pc_offset = 99, env_values = [Some 12, None],
     env_is_tagged = Some \<lparr>bv_length = 2, bv_data = [1]\<rparr>, env_is_uint32 = Some \<lparr>bv_length = 2, bv_data = [0]\<rparr>,
     env_object_mapping = [7], env_entry = None, env_has_been_used = True\<rparr>"

lemma sample_frame_ok: "frame_ok sample_world sample_frame"
proof -
  have "bv_set \<lparr>bv_length = 2, bv_data = [1]\<rparr> = {0}"
    by (auto simp: bv_set_def bit_1_iff)
  moreover have "bv_set \<lparr>bv_length = 2, bv_data = [0]\<rparr> = {}" by (auto simp: bv_set_def)
  ultimately show ?thesis
    by (simp add: frame_ok_def sample_frame_def sample_world_def flags_ok_def growable_wf_def
        growable_set_def bv_wf_def SizeFor_def kDataBits_def signed_divide_int_def)
qed


text \<open>The packed entries for objects that are to be materialized: a length, or the index of the
  object that is duplicated, of 30 bits is read back with its flags, and the entries before are not
  touched.\<close>
theorem object_mapping_faithful:
  assumes "BitField_is_valid 30 len"
  shows "(let env' = AddNewObject len is_arguments env; n = length (env_object_mapping env) in
      ObjectLengthAt n env' = Some len \<and> ObjectIsArgumentsAt n env' = Some is_arguments \<and>
      ObjectIsDuplicateAt n env' = Some False) \<and>
    (let env' = AddDuplicateObject len env; n = length (env_object_mapping env) in
      ObjectDuplicateOfAt n env' = Some len \<and> ObjectIsDuplicateAt n env' = Some True)"
proof -
  have len: "take_bit 30 len = len" using assms by (simp add: BitField_is_valid_iff)
  have flag: "take_bit 1 (of_bool b :: uint32) = of_bool b" for b by (cases b) simp_all
  have low: "BitField_decode 0 30 len = len"
    using decode_push_same [of 0 30 len] len by simp
  have high: "BitField_decode 30 1 len = 0" "BitField_decode 31 1 len = 0"
    using decode_push_above [OF len, of 0] by simp_all
  have below: "BitField_decode 0 30 1073741824 = 0" "BitField_decode 0 30 2147483648 = 0"
    by (simp_all add: BitField_decode_bits)
  have flags: "BitField_decode 30 1 (push_bit 30 (of_bool b)) = of_bool b"
    "BitField_decode 31 1 (push_bit 31 (of_bool b)) = of_bool b"
    "BitField_decode 31 1 (push_bit 30 (of_bool b)) = 0" for b :: bool
    using decode_push_same [OF _ flag] decode_push_above [OF flag, of 30 31] by simp_all
  show ?thesis
    by (simp only: Let_def AddNewObject_def AddDuplicateObject_def ObjectLengthAt_def ObjectDuplicateOfAt_def
        ObjectIsArgumentsAt_def ObjectIsDuplicateAt_def object_at_def BitField_encode_def)
      (cases is_arguments; simp add: low high [simplified] flags(1) [of True, simplified]
        flags(2) [of True, simplified] flags(3) [of True, simplified] flags(1) [of False, simplified]
        flags(2) [of False, simplified] below)
qed


lemma object_mapping_faithful_witness:
  "(let env' = AddNewObject 5 True sample_frame in
      ObjectLengthAt 1 env' = Some 5 \<and> ObjectIsArgumentsAt 1 env' = Some True \<and>
      ObjectIsDuplicateAt 1 env' = Some False)"
proof -
  have "BitField_is_valid 30 5" by (simp add: BitField_is_valid_iff)
  from object_mapping_faithful [OF this, of True sample_frame] show ?thesis
    by (simp add: sample_frame_def Let_def)
qed

end
