(* ===== verification/Representations.thy ===== *)
theory Representations
  imports LithiumOperands
begin

text \<open>
  The small lattices and packed words that describe values to the optimizer and that the shims of
  the code cache carry: \<^verbatim>\<open>Representation\<close> and \<^verbatim>\<open>PropertyDetails\<close> of \<^verbatim>\<open>src/property-details.h\<close>,
  \<^verbatim>\<open>HType\<close> of \<^verbatim>\<open>src/hydrogen-types.h\<close>, \<^verbatim>\<open>ElementsKind\<close> of \<^verbatim>\<open>src/elements-kind.h\<close> and
  \<^verbatim>\<open>.cc\<close>, and the word of \<^verbatim>\<open>HObjectAccess\<close> in \<^verbatim>\<open>src/hydrogen-instructions.h\<close>. The theorems
  say that the orders are orders, that joins are upper bounds, that transitions of elements kinds
  only generalize and that searching the next one ends, and that packing loses nothing.
\<close>

section \<open>Representations\<close>

datatype Representation =
      kNone | kInteger8 | kUInteger8 | kInteger16 | kUInteger16 | kSmi | kInteger32 | kDouble
    | kHeapObject | kTagged | kExternal

primrec representation_kind :: "Representation \<Rightarrow> nat" where
  "representation_kind kNone = 0"
| "representation_kind kInteger8 = 1"
| "representation_kind kUInteger8 = 2"
| "representation_kind kInteger16 = 3"
| "representation_kind kUInteger16 = 4"
| "representation_kind kSmi = 5"
| "representation_kind kInteger32 = 6"
| "representation_kind kDouble = 7"
| "representation_kind kHeapObject = 8"
| "representation_kind kTagged = 9"
| "representation_kind kExternal = 10"

text \<open>\<^verbatim>\<open>FromKind\<close> of a number that is no enumerator is undefined.\<close>

definition FromKind :: "nat \<Rightarrow> Representation option" where
  "FromKind k = (if k \<le> 10
     then Some ([kNone, kInteger8, kUInteger8, kInteger16, kUInteger16, kSmi, kInteger32, kDouble,
       kHeapObject, kTagged, kExternal] ! k) else None)"

text \<open>In a release build, without the checks that exclude \<^verbatim>\<open>kExternal\<close> from the middle on.\<close>

definition is_more_general_than :: "Representation \<Rightarrow> Representation \<Rightarrow> bool" where
  "is_more_general_than this other =
     (if this = kExternal \<and> other = kNone then True
      else if this = kExternal \<and> other = kExternal then False
      else if this = kNone \<and> other = kExternal then False
      else if this = kHeapObject then other = kNone
      else if this = kUInteger8 \<and> other = kInteger8 then False
      else if this = kUInteger16 \<and> other = kInteger16 then False
      else representation_kind this > representation_kind other)"

definition fits_into :: "Representation \<Rightarrow> Representation \<Rightarrow> bool" where
  "fits_into this other \<longleftrightarrow> is_more_general_than other this \<or> other = this"

definition generalize :: "Representation \<Rightarrow> Representation \<Rightarrow> Representation" where
  "generalize this other =
     (if fits_into other this then this
      else if is_more_general_than other this then other
      else kTagged)"

definition IsCompatibleForLoad :: "Representation \<Rightarrow> Representation \<Rightarrow> bool" where
  "IsCompatibleForLoad this other \<longleftrightarrow>
     (this = kDouble \<and> other = kDouble) \<or> (this \<noteq> kDouble \<and> other \<noteq> kDouble)"

definition IsSmiOrTagged :: "Representation \<Rightarrow> bool" where
  "IsSmiOrTagged r \<longleftrightarrow> r = kSmi \<or> r = kTagged"

definition IsSmiOrInteger32 :: "Representation \<Rightarrow> bool" where
  "IsSmiOrInteger32 r \<longleftrightarrow> r = kSmi \<or> r = kInteger32"

definition IsSpecialization :: "Representation \<Rightarrow> bool" where
  "IsSpecialization r \<longleftrightarrow> r \<in> {kInteger8, kUInteger8, kInteger16, kUInteger16, kSmi, kInteger32, kDouble}"

definition representation_size :: "Representation \<Rightarrow> nat" where
  "representation_size r =
     (if r = kInteger8 \<or> r = kUInteger8 then 1
      else if r = kInteger16 \<or> r = kUInteger16 then 2
      else if r = kInteger32 then 4
      else 8)"

section \<open>Types\<close>

type_synonym HType = "16 word"

definition HType_Any :: HType where "HType_Any = 0x0"
definition HType_Tagged :: HType where "HType_Tagged = 0x1"
definition HType_TaggedPrimitive :: HType where "HType_TaggedPrimitive = 0x5"
definition HType_TaggedNumber :: HType where "HType_TaggedNumber = 0xd"
definition HType_Smi :: HType where "HType_Smi = 0x1d"
definition HType_HeapObject :: HType where "HType_HeapObject = 0x21"
definition HType_HeapPrimitive :: HType where "HType_HeapPrimitive = 0x25"
definition HType_Null :: HType where "HType_Null = 0x27"
definition HType_HeapNumber :: HType where "HType_HeapNumber = 0x2d"
definition HType_String :: HType where "HType_String = 0x65"
definition HType_Boolean :: HType where "HType_Boolean = 0xa5"
definition HType_Undefined :: HType where "HType_Undefined = 0x125"
definition HType_JSObject :: HType where "HType_JSObject = 0x221"
definition HType_JSArray :: HType where "HType_JSArray = 0x621"
definition HType_None :: HType where "HType_None = 0x7ff"
definition HTYPE_LIST :: "HType list" where
  "HTYPE_LIST =
    [HType_Any, HType_Tagged, HType_TaggedPrimitive, HType_TaggedNumber, HType_Smi,
     HType_HeapObject, HType_HeapPrimitive, HType_Null, HType_HeapNumber, HType_String,
     HType_Boolean, HType_Undefined, HType_JSObject, HType_JSArray, HType_None]"
lemmas HType_defs = HType_Any_def HType_Tagged_def HType_TaggedPrimitive_def HType_TaggedNumber_def HType_Smi_def HType_HeapObject_def HType_HeapPrimitive_def HType_Null_def HType_HeapNumber_def HType_String_def HType_Boolean_def HType_Undefined_def HType_JSObject_def HType_JSArray_def HType_None_def

definition HType_Combine :: "HType \<Rightarrow> HType \<Rightarrow> HType" where
  "HType_Combine this other = this AND other"

definition IsSubtypeOf :: "HType \<Rightarrow> HType \<Rightarrow> bool" where
  "IsSubtypeOf this other \<longleftrightarrow> HType_Combine this other = other"

section \<open>Elements kinds\<close>

datatype ElementsKind =
      FAST_SMI_ELEMENTS | FAST_HOLEY_SMI_ELEMENTS | FAST_ELEMENTS | FAST_HOLEY_ELEMENTS
    | FAST_DOUBLE_ELEMENTS | FAST_HOLEY_DOUBLE_ELEMENTS | DICTIONARY_ELEMENTS
    | SLOPPY_ARGUMENTS_ELEMENTS | EXTERNAL_INT8_ELEMENTS | EXTERNAL_UINT8_ELEMENTS
    | EXTERNAL_INT16_ELEMENTS | EXTERNAL_UINT16_ELEMENTS | EXTERNAL_INT32_ELEMENTS
    | EXTERNAL_UINT32_ELEMENTS | EXTERNAL_FLOAT32_ELEMENTS | EXTERNAL_FLOAT64_ELEMENTS
    | EXTERNAL_UINT8_CLAMPED_ELEMENTS | UINT8_ELEMENTS | INT8_ELEMENTS | UINT16_ELEMENTS
    | INT16_ELEMENTS | UINT32_ELEMENTS | INT32_ELEMENTS | FLOAT32_ELEMENTS | FLOAT64_ELEMENTS
    | UINT8_CLAMPED_ELEMENTS

primrec elements_kind_code :: "ElementsKind \<Rightarrow> nat" where
  "elements_kind_code FAST_SMI_ELEMENTS = 0"
| "elements_kind_code FAST_HOLEY_SMI_ELEMENTS = 1"
| "elements_kind_code FAST_ELEMENTS = 2"
| "elements_kind_code FAST_HOLEY_ELEMENTS = 3"
| "elements_kind_code FAST_DOUBLE_ELEMENTS = 4"
| "elements_kind_code FAST_HOLEY_DOUBLE_ELEMENTS = 5"
| "elements_kind_code DICTIONARY_ELEMENTS = 6"
| "elements_kind_code SLOPPY_ARGUMENTS_ELEMENTS = 7"
| "elements_kind_code EXTERNAL_INT8_ELEMENTS = 8"
| "elements_kind_code EXTERNAL_UINT8_ELEMENTS = 9"
| "elements_kind_code EXTERNAL_INT16_ELEMENTS = 10"
| "elements_kind_code EXTERNAL_UINT16_ELEMENTS = 11"
| "elements_kind_code EXTERNAL_INT32_ELEMENTS = 12"
| "elements_kind_code EXTERNAL_UINT32_ELEMENTS = 13"
| "elements_kind_code EXTERNAL_FLOAT32_ELEMENTS = 14"
| "elements_kind_code EXTERNAL_FLOAT64_ELEMENTS = 15"
| "elements_kind_code EXTERNAL_UINT8_CLAMPED_ELEMENTS = 16"
| "elements_kind_code UINT8_ELEMENTS = 17"
| "elements_kind_code INT8_ELEMENTS = 18"
| "elements_kind_code UINT16_ELEMENTS = 19"
| "elements_kind_code INT16_ELEMENTS = 20"
| "elements_kind_code UINT32_ELEMENTS = 21"
| "elements_kind_code INT32_ELEMENTS = 22"
| "elements_kind_code FLOAT32_ELEMENTS = 23"
| "elements_kind_code FLOAT64_ELEMENTS = 24"
| "elements_kind_code UINT8_CLAMPED_ELEMENTS = 25"

text \<open>The enumerators are compared by their numbers.\<close>

instantiation ElementsKind :: linorder
begin

definition less_eq_ElementsKind :: "ElementsKind \<Rightarrow> ElementsKind \<Rightarrow> bool" where
  "less_eq_ElementsKind a b \<longleftrightarrow> elements_kind_code a \<le> elements_kind_code b"

definition less_ElementsKind :: "ElementsKind \<Rightarrow> ElementsKind \<Rightarrow> bool" where
  "less_ElementsKind a b \<longleftrightarrow> elements_kind_code a < elements_kind_code b"

instance
proof
  have inj: "elements_kind_code a = elements_kind_code b \<Longrightarrow> a = b" for a b
    by (cases a; cases b) simp_all
  fix a b c :: ElementsKind
  show "a \<le> b \<Longrightarrow> b \<le> a \<Longrightarrow> a = b" by (simp add: less_eq_ElementsKind_def inj)
qed (auto simp: less_eq_ElementsKind_def less_ElementsKind_def)

end

primrec ElementsKindToShiftSize :: "ElementsKind \<Rightarrow> nat" where
  "ElementsKindToShiftSize FAST_SMI_ELEMENTS = 3"
| "ElementsKindToShiftSize FAST_HOLEY_SMI_ELEMENTS = 3"
| "ElementsKindToShiftSize FAST_ELEMENTS = 3"
| "ElementsKindToShiftSize FAST_HOLEY_ELEMENTS = 3"
| "ElementsKindToShiftSize FAST_DOUBLE_ELEMENTS = 3"
| "ElementsKindToShiftSize FAST_HOLEY_DOUBLE_ELEMENTS = 3"
| "ElementsKindToShiftSize DICTIONARY_ELEMENTS = 3"
| "ElementsKindToShiftSize SLOPPY_ARGUMENTS_ELEMENTS = 3"
| "ElementsKindToShiftSize EXTERNAL_INT8_ELEMENTS = 0"
| "ElementsKindToShiftSize EXTERNAL_UINT8_ELEMENTS = 0"
| "ElementsKindToShiftSize EXTERNAL_INT16_ELEMENTS = 1"
| "ElementsKindToShiftSize EXTERNAL_UINT16_ELEMENTS = 1"
| "ElementsKindToShiftSize EXTERNAL_INT32_ELEMENTS = 2"
| "ElementsKindToShiftSize EXTERNAL_UINT32_ELEMENTS = 2"
| "ElementsKindToShiftSize EXTERNAL_FLOAT32_ELEMENTS = 2"
| "ElementsKindToShiftSize EXTERNAL_FLOAT64_ELEMENTS = 3"
| "ElementsKindToShiftSize EXTERNAL_UINT8_CLAMPED_ELEMENTS = 0"
| "ElementsKindToShiftSize UINT8_ELEMENTS = 0"
| "ElementsKindToShiftSize INT8_ELEMENTS = 0"
| "ElementsKindToShiftSize UINT16_ELEMENTS = 1"
| "ElementsKindToShiftSize INT16_ELEMENTS = 1"
| "ElementsKindToShiftSize UINT32_ELEMENTS = 2"
| "ElementsKindToShiftSize INT32_ELEMENTS = 2"
| "ElementsKindToShiftSize FLOAT32_ELEMENTS = 2"
| "ElementsKindToShiftSize FLOAT64_ELEMENTS = 3"
| "ElementsKindToShiftSize UINT8_CLAMPED_ELEMENTS = 0"

definition IsExternalArrayElementsKind :: "ElementsKind \<Rightarrow> bool" where
  "IsExternalArrayElementsKind kind \<longleftrightarrow>
     EXTERNAL_INT8_ELEMENTS \<le> kind \<and> kind \<le> EXTERNAL_UINT8_CLAMPED_ELEMENTS"

definition IsFixedTypedArrayElementsKind :: "ElementsKind \<Rightarrow> bool" where
  "IsFixedTypedArrayElementsKind kind \<longleftrightarrow> UINT8_ELEMENTS \<le> kind \<and> kind \<le> UINT8_CLAMPED_ELEMENTS"

definition IsFastElementsKind :: "ElementsKind \<Rightarrow> bool" where
  "IsFastElementsKind kind \<longleftrightarrow> kind \<le> FAST_HOLEY_DOUBLE_ELEMENTS"

definition IsTransitionElementsKind :: "ElementsKind \<Rightarrow> bool" where
  "IsTransitionElementsKind kind \<longleftrightarrow> IsFastElementsKind kind \<or> IsFixedTypedArrayElementsKind kind"

definition IsTerminalElementsKind :: "ElementsKind \<Rightarrow> bool" where
  "IsTerminalElementsKind kind \<longleftrightarrow> kind = FAST_HOLEY_ELEMENTS \<or> IsExternalArrayElementsKind kind"

definition IsFastSmiElementsKind :: "ElementsKind \<Rightarrow> bool" where
  "IsFastSmiElementsKind kind \<longleftrightarrow> kind = FAST_SMI_ELEMENTS \<or> kind = FAST_HOLEY_SMI_ELEMENTS"

definition IsFastObjectElementsKind :: "ElementsKind \<Rightarrow> bool" where
  "IsFastObjectElementsKind kind \<longleftrightarrow> kind = FAST_ELEMENTS \<or> kind = FAST_HOLEY_ELEMENTS"

definition IsFastDoubleElementsKind :: "ElementsKind \<Rightarrow> bool" where
  "IsFastDoubleElementsKind kind \<longleftrightarrow> kind = FAST_DOUBLE_ELEMENTS \<or> kind = FAST_HOLEY_DOUBLE_ELEMENTS"

definition IsFastHoleyElementsKind :: "ElementsKind \<Rightarrow> bool" where
  "IsFastHoleyElementsKind kind \<longleftrightarrow>
     kind = FAST_HOLEY_SMI_ELEMENTS \<or> kind = FAST_HOLEY_DOUBLE_ELEMENTS \<or> kind = FAST_HOLEY_ELEMENTS"

definition IsFastPackedElementsKind :: "ElementsKind \<Rightarrow> bool" where
  "IsFastPackedElementsKind kind \<longleftrightarrow>
     kind = FAST_SMI_ELEMENTS \<or> kind = FAST_DOUBLE_ELEMENTS \<or> kind = FAST_ELEMENTS"

definition GetPackedElementsKind :: "ElementsKind \<Rightarrow> ElementsKind" where
  "GetPackedElementsKind holey_kind =
     (if holey_kind = FAST_HOLEY_SMI_ELEMENTS then FAST_SMI_ELEMENTS
      else if holey_kind = FAST_HOLEY_DOUBLE_ELEMENTS then FAST_DOUBLE_ELEMENTS
      else if holey_kind = FAST_HOLEY_ELEMENTS then FAST_ELEMENTS
      else holey_kind)"

definition GetHoleyElementsKind :: "ElementsKind \<Rightarrow> ElementsKind" where
  "GetHoleyElementsKind packed_kind =
     (if packed_kind = FAST_SMI_ELEMENTS then FAST_HOLEY_SMI_ELEMENTS
      else if packed_kind = FAST_DOUBLE_ELEMENTS then FAST_HOLEY_DOUBLE_ELEMENTS
      else if packed_kind = FAST_ELEMENTS then FAST_HOLEY_ELEMENTS
      else packed_kind)"

definition IsSimpleMapChangeTransition :: "ElementsKind \<Rightarrow> ElementsKind \<Rightarrow> bool" where
  "IsSimpleMapChangeTransition from_kind to_kind \<longleftrightarrow>
     GetHoleyElementsKind from_kind = to_kind \<or>
     (IsFastSmiElementsKind from_kind \<and> IsFastObjectElementsKind to_kind)"

definition IsFastTransitionTarget :: "ElementsKind \<Rightarrow> bool" where
  "IsFastTransitionTarget kind \<longleftrightarrow> IsFastElementsKind kind \<or> kind = DICTIONARY_ELEMENTS"

text \<open>The sequence of fast elements kinds; the index behind the last one is out of its bounds, and
  only fast elements kinds are in it.\<close>

definition fast_elements_kind_sequence :: "ElementsKind list" where
  "fast_elements_kind_sequence =
     [FAST_SMI_ELEMENTS, FAST_HOLEY_SMI_ELEMENTS, FAST_DOUBLE_ELEMENTS, FAST_HOLEY_DOUBLE_ELEMENTS,
      FAST_ELEMENTS, FAST_HOLEY_ELEMENTS]"

definition GetFastElementsKindFromSequenceIndex :: "nat \<Rightarrow> ElementsKind option" where
  "GetFastElementsKindFromSequenceIndex sequence_number =
     (if sequence_number < length fast_elements_kind_sequence
      then Some (fast_elements_kind_sequence ! sequence_number) else None)"

definition GetSequenceIndexFromFastElementsKind :: "ElementsKind \<Rightarrow> nat option" where
  "GetSequenceIndexFromFastElementsKind kind =
     find (\<lambda>i. fast_elements_kind_sequence ! i = kind) [0..<length fast_elements_kind_sequence]"

definition external_kind_of :: "ElementsKind \<Rightarrow> ElementsKind option" where
  "external_kind_of kind = map_of
     [(UINT8_ELEMENTS, EXTERNAL_UINT8_ELEMENTS), (INT8_ELEMENTS, EXTERNAL_INT8_ELEMENTS),
      (UINT16_ELEMENTS, EXTERNAL_UINT16_ELEMENTS), (INT16_ELEMENTS, EXTERNAL_INT16_ELEMENTS),
      (UINT32_ELEMENTS, EXTERNAL_UINT32_ELEMENTS), (INT32_ELEMENTS, EXTERNAL_INT32_ELEMENTS),
      (FLOAT32_ELEMENTS, EXTERNAL_FLOAT32_ELEMENTS), (FLOAT64_ELEMENTS, EXTERNAL_FLOAT64_ELEMENTS),
      (UINT8_CLAMPED_ELEMENTS, EXTERNAL_UINT8_CLAMPED_ELEMENTS)] kind"

definition GetNextTransitionElementsKind :: "ElementsKind \<Rightarrow> ElementsKind option" where
  "GetNextTransitionElementsKind kind =
     (case external_kind_of kind of
        Some k \<Rightarrow> Some k
      | None \<Rightarrow> do {
          index \<leftarrow> GetSequenceIndexFromFastElementsKind kind;
          GetFastElementsKindFromSequenceIndex (index + 1)
        })"

function GetNextMoreGeneralFastElementsKind :: "ElementsKind \<Rightarrow> bool \<Rightarrow> ElementsKind option" where
  "GetNextMoreGeneralFastElementsKind elements_kind allow_only_packed =
     (case GetNextTransitionElementsKind elements_kind of
        None \<Rightarrow> None
      | Some kind \<Rightarrow>
          if \<not> IsFastHoleyElementsKind kind \<or> \<not> allow_only_packed then Some kind
          else GetNextMoreGeneralFastElementsKind kind allow_only_packed)"
  by pat_completeness auto

lemma sequence_upt: "[0..<length fast_elements_kind_sequence] = [0, 1, 2, 3, 4, 5]"
  by (simp add: fast_elements_kind_sequence_def upt_rec)

text \<open>Evaluation of what is defined by the sequence.\<close>

lemmas kind_simps = less_eq_ElementsKind_def less_ElementsKind_def IsExternalArrayElementsKind_def
  IsFixedTypedArrayElementsKind_def IsFastElementsKind_def IsFastHoleyElementsKind_def
  IsFastTransitionTarget_def external_kind_of_def

lemma GetSequenceIndex_simps:
  "GetSequenceIndexFromFastElementsKind kind =
     (if kind = FAST_SMI_ELEMENTS then Some 0 else if kind = FAST_HOLEY_SMI_ELEMENTS then Some 1
      else if kind = FAST_DOUBLE_ELEMENTS then Some 2 else if kind = FAST_HOLEY_DOUBLE_ELEMENTS then Some 3
      else if kind = FAST_ELEMENTS then Some 4 else if kind = FAST_HOLEY_ELEMENTS then Some 5 else None)"
  unfolding GetSequenceIndexFromFastElementsKind_def sequence_upt
  by (auto simp: fast_elements_kind_sequence_def)

lemma GetNextTransition_index:
  "GetNextTransitionElementsKind k = Some k' \<Longrightarrow> IsFastHoleyElementsKind k' \<Longrightarrow>
   \<exists>i j. GetSequenceIndexFromFastElementsKind k = Some i \<and> GetSequenceIndexFromFastElementsKind k' = Some j \<and>
     i < j \<and> j < 6"
  by (cases k)
    (auto simp: GetNextTransitionElementsKind_def external_kind_of_def GetSequenceIndex_simps
      GetFastElementsKindFromSequenceIndex_def fast_elements_kind_sequence_def IsFastHoleyElementsKind_def)

termination GetNextMoreGeneralFastElementsKind
  by (relation "measure (\<lambda>(k, _). case GetSequenceIndexFromFastElementsKind k of None \<Rightarrow> 0 | Some i \<Rightarrow> 6 - i)")
    (auto dest!: GetNextTransition_index)

declare GetNextMoreGeneralFastElementsKind.simps [simp del]

definition IsMoreGeneralElementsKindTransition :: "ElementsKind \<Rightarrow> ElementsKind \<Rightarrow> bool" where
  "IsMoreGeneralElementsKindTransition from_kind to_kind =
     (if IsFixedTypedArrayElementsKind from_kind \<or> IsExternalArrayElementsKind from_kind \<or>
         IsFixedTypedArrayElementsKind to_kind \<or> IsExternalArrayElementsKind to_kind
      then external_kind_of from_kind = Some to_kind
      else if IsFastElementsKind from_kind \<and> IsFastTransitionTarget to_kind then
        (case from_kind of
           FAST_SMI_ELEMENTS \<Rightarrow> to_kind \<noteq> FAST_SMI_ELEMENTS
         | FAST_HOLEY_SMI_ELEMENTS \<Rightarrow> to_kind \<notin> {FAST_SMI_ELEMENTS, FAST_HOLEY_SMI_ELEMENTS}
         | FAST_DOUBLE_ELEMENTS \<Rightarrow>
             to_kind \<notin> {FAST_SMI_ELEMENTS, FAST_HOLEY_SMI_ELEMENTS, FAST_DOUBLE_ELEMENTS}
         | FAST_HOLEY_DOUBLE_ELEMENTS \<Rightarrow> to_kind = FAST_ELEMENTS \<or> to_kind = FAST_HOLEY_ELEMENTS
         | FAST_ELEMENTS \<Rightarrow> to_kind = FAST_HOLEY_ELEMENTS
         | _ \<Rightarrow> False)
      else False)"

definition CanTransitionToMoreGeneralFastElementsKind :: "ElementsKind \<Rightarrow> bool \<Rightarrow> bool" where
  "CanTransitionToMoreGeneralFastElementsKind elements_kind allow_only_packed \<longleftrightarrow>
     IsFastElementsKind elements_kind \<and> elements_kind \<noteq> FAST_HOLEY_ELEMENTS \<and>
     (\<not> allow_only_packed \<or> elements_kind \<noteq> FAST_ELEMENTS)"

section \<open>Property details\<close>

definition kDescriptorIndexBitCount :: nat where "kDescriptorIndexBitCount = 10"

text \<open>Of the number and the type only the low bits are used; attributes have three bits.\<close>

definition PropertyDetails_index :: "uint32 \<Rightarrow> uint32 \<Rightarrow> uint32 \<Rightarrow> uint32" where
  "PropertyDetails_index attributes type index =
     BitField_encode 0 type OR BitField_encode 2 attributes OR BitField_encode 6 index"

definition PropertyDetails_field :: "uint32 \<Rightarrow> uint32 \<Rightarrow> Representation \<Rightarrow> uint32 \<Rightarrow> uint32" where
  "PropertyDetails_field attributes type representation field_index =
     BitField_encode 0 type OR BitField_encode 2 attributes OR
     BitField_encode 5 (word_of_nat (representation_kind representation)) OR
     BitField_encode (9 + kDescriptorIndexBitCount) field_index"

definition pd_type :: "uint32 \<Rightarrow> uint32" where "pd_type = BitField_decode 0 2"
definition pd_attributes :: "uint32 \<Rightarrow> uint32" where "pd_attributes = BitField_decode 2 3"
definition dictionary_index :: "uint32 \<Rightarrow> uint32" where "dictionary_index = BitField_decode 6 24"
definition pd_pointer :: "uint32 \<Rightarrow> uint32" where
  "pd_pointer = BitField_decode 9 kDescriptorIndexBitCount"
definition field_index :: "uint32 \<Rightarrow> uint32" where
  "field_index = BitField_decode (9 + kDescriptorIndexBitCount) kDescriptorIndexBitCount"
definition pd_representation :: "uint32 \<Rightarrow> Representation option" where
  "pd_representation value = FromKind (unat (BitField_decode 5 4 value))"

definition set_pointer :: "uint32 \<Rightarrow> uint32 \<Rightarrow> uint32" where
  "set_pointer i value = BitField_update 9 kDescriptorIndexBitCount value i"
definition CopyWithRepresentation :: "Representation \<Rightarrow> uint32 \<Rightarrow> uint32" where
  "CopyWithRepresentation representation value =
     BitField_update 5 4 value (word_of_nat (representation_kind representation))"
definition CopyAddAttributes :: "uint32 \<Rightarrow> uint32 \<Rightarrow> uint32" where
  "CopyAddAttributes new_attributes value =
     BitField_update 2 3 value (pd_attributes value OR new_attributes)"

section \<open>Object accesses\<close>

datatype Portion =
    kMaps | kArrayLengths | kStringLengths | kElementsPointer | kBackingStore | kDoublePortion
  | kInobject | kExternalMemory

primrec portion_code :: "Portion \<Rightarrow> uint32" where
  "portion_code kMaps = 0"
| "portion_code kArrayLengths = 1"
| "portion_code kStringLengths = 2"
| "portion_code kElementsPointer = 3"
| "portion_code kBackingStore = 4"
| "portion_code kDoublePortion = 5"
| "portion_code kInobject = 6"
| "portion_code kExternalMemory = 7"

text \<open>The word of an access; its name is used by the optimizer only.\<close>

definition HObjectAccess :: "Portion \<Rightarrow> uint32 \<Rightarrow> Representation \<Rightarrow> bool \<Rightarrow> bool \<Rightarrow> uint32" where
  "HObjectAccess portion offset representation immutable existing_inobject_property =
     BitField_encode 0 (portion_code portion) OR
     BitField_encode 3 (word_of_nat (representation_kind representation)) OR
     BitField_encode 7 (of_bool immutable) OR
     BitField_encode 8 (of_bool existing_inobject_property) OR
     BitField_encode 9 offset"

definition access_portion :: "uint32 \<Rightarrow> uint32" where "access_portion = BitField_decode 0 3"
definition access_offset :: "uint32 \<Rightarrow> uint32" where "access_offset = BitField_decode 9 23"
definition access_representation :: "uint32 \<Rightarrow> Representation option" where
  "access_representation value = FromKind (unat (BitField_decode 3 4 value))"
definition access_immutable :: "uint32 \<Rightarrow> bool" where
  "access_immutable value \<longleftrightarrow> BitField_decode 7 1 value \<noteq> 0"
definition access_existing_inobject_property :: "uint32 \<Rightarrow> bool" where
  "access_existing_inobject_property value \<longleftrightarrow> BitField_decode 8 1 value \<noteq> 0"
definition access_IsInobject :: "uint32 \<Rightarrow> bool" where
  "access_IsInobject value \<longleftrightarrow>
     access_portion value \<noteq> portion_code kBackingStore \<and> access_portion value \<noteq> portion_code kExternalMemory"

section \<open>Orders with joins\<close>

text \<open>What the optimizer relies on when it joins the descriptions of several values: \<open>le x y\<close> says
  that \<open>y\<close> describes all that \<open>x\<close> describes.\<close>

locale generalization =
  fixes le :: "'d \<Rightarrow> 'd \<Rightarrow> bool" and join :: "'d \<Rightarrow> 'd \<Rightarrow> 'd"
  assumes le_refl: "le x x"
    and le_antisym: "le x y \<Longrightarrow> le y x \<Longrightarrow> x = y"
    and le_trans: "le x y \<Longrightarrow> le y z \<Longrightarrow> le x z"
    and join_left: "le x (join x y)"
    and join_right: "le y (join x y)"
begin

text \<open>The join of all inputs of a phi describes every one of them.\<close>

lemma fold_join: "le x (foldl join x xs) \<and> (\<forall>y \<in> set xs. le y (foldl join x xs))"
proof (induction xs arbitrary: x)
  case (Cons y xs)
  from Cons [of "join x y"] show ?case
    by (auto intro: le_trans [OF join_left] le_trans [OF join_right])
qed (simp add: le_refl)

end

lemma representation_cases: "r \<in> set [kNone, kInteger8, kUInteger8, kInteger16, kUInteger16, kSmi,
    kInteger32, kDouble, kHeapObject, kTagged, kExternal]"
  by (cases r) simp_all

interpretation representation: generalization fits_into generalize
proof
  fix x y z :: Representation
  show "fits_into x x" by (simp add: fits_into_def)
  show "fits_into x y \<Longrightarrow> fits_into y x \<Longrightarrow> x = y"
    by (cases x; cases y) (simp_all add: fits_into_def is_more_general_than_def)
  show "fits_into x y \<Longrightarrow> fits_into y z \<Longrightarrow> fits_into x z"
    unfolding fits_into_def is_more_general_than_def
    by (cases x; cases y; simp; cases z; simp)
  show "fits_into x (generalize x y)"
    by (cases x; cases y) (simp_all add: generalize_def fits_into_def is_more_general_than_def)
  show "fits_into y (generalize x y)"
    by (cases x; cases y) (simp_all add: generalize_def fits_into_def is_more_general_than_def)
qed

lemma IsSubtypeOf_bits: "IsSubtypeOf x y \<longleftrightarrow> (\<forall>n < 16. bit y n \<longrightarrow> bit x n)"
  by (auto simp: IsSubtypeOf_def HType_Combine_def bit_eq_iff bit_simps dest: bit_imp_le_length)

interpretation htype: generalization IsSubtypeOf HType_Combine
proof
  fix x y z :: HType
  show "IsSubtypeOf x y \<Longrightarrow> IsSubtypeOf y x \<Longrightarrow> x = y"
    by (auto simp: IsSubtypeOf_bits bit_eq_iff dest: bit_imp_le_length)
qed (auto simp: IsSubtypeOf_bits HType_Combine_def bit_simps)



text \<open>The types of values form a lattice in which joining is the bitwise and of the masks: the
  join of any two types of the list is one of the list again, and it is the least type above
  both.\<close>
theorem htype_lattice:
  assumes "x \<in> set HTYPE_LIST" "y \<in> set HTYPE_LIST"
  shows "HType_Combine x y \<in> set HTYPE_LIST \<and> IsSubtypeOf x (HType_Combine x y) \<and>
    IsSubtypeOf y (HType_Combine x y) \<and>
    (\<forall>z. IsSubtypeOf x z \<longrightarrow> IsSubtypeOf y z \<longrightarrow> IsSubtypeOf (HType_Combine x y) z)"
proof -
  have "list_all (\<lambda>x. list_all (\<lambda>y. HType_Combine x y \<in> set HTYPE_LIST) HTYPE_LIST) HTYPE_LIST"
    by (simp add: HTYPE_LIST_def HType_defs HType_Combine_def)
  with assms have "HType_Combine x y \<in> set HTYPE_LIST" by (simp add: list_all_iff)
  moreover have "IsSubtypeOf (HType_Combine x y) z" if "IsSubtypeOf x z" "IsSubtypeOf y z" for z
    using that by (auto simp: IsSubtypeOf_bits HType_Combine_def bit_simps)
  ultimately show ?thesis by (simp add: htype.join_left htype.join_right)
qed

lemma htype_lattice_witness:
  "HType_Combine HType_String HType_Boolean \<in> set HTYPE_LIST"
  using htype_lattice [of HType_String HType_Boolean] by (simp add: HTYPE_LIST_def)


section \<open>Ranges of integer representations\<close>

text \<open>The integers that a representation of a field of a typed memory access can hold.\<close>

fun integer_range :: "Representation \<Rightarrow> (int \<times> int) option" where
  "integer_range kInteger8 = Some (- (2 ^ 7), 2 ^ 7 - 1)"
| "integer_range kUInteger8 = Some (0, 2 ^ 8 - 1)"
| "integer_range kInteger16 = Some (- (2 ^ 15), 2 ^ 15 - 1)"
| "integer_range kUInteger16 = Some (0, 2 ^ 16 - 1)"
| "integer_range kInteger32 = Some (- (2 ^ 31), 2 ^ 31 - 1)"
| "integer_range _ = None"

definition range_contains :: "Representation \<Rightarrow> int \<Rightarrow> bool" where
  "range_contains r i = (case integer_range r of None \<Rightarrow> False | Some (lo, hi) \<Rightarrow> lo \<le> i \<and> i \<le> hi)"

text \<open>A representation that fits into another one has no integers that the other one lacks, with
  one exception: signed bytes are taken to fit into unsigned 16-bit integers, which do not hold
  their negative numbers.\<close>
theorem fits_into_ranges:
  assumes "fits_into r s" "integer_range r \<noteq> None" "integer_range s \<noteq> None"
  shows "(\<forall>i. range_contains r i \<longrightarrow> range_contains s i) \<longleftrightarrow> (r, s) \<noteq> (kInteger8, kUInteger16)"
proof -
  have bad: "range_contains kInteger8 (-1) \<and> \<not> range_contains kUInteger16 (-1)"
    by (simp add: range_contains_def)
  from assms show ?thesis
    using bad by (cases r; cases s)
      (auto simp: fits_into_def is_more_general_than_def range_contains_def)
qed

lemma fits_into_ranges_witness:
  "fits_into kInteger8 kUInteger16 \<and> \<not> (\<forall>i. range_contains kInteger8 i \<longrightarrow> range_contains kUInteger16 i)"
proof -
  have "fits_into kInteger8 kUInteger16" by (simp add: fits_into_def is_more_general_than_def)
  with fits_into_ranges [of kInteger8 kUInteger16] show ?thesis by simp
qed


section \<open>Transitions of elements kinds\<close>

text \<open>A number that every transition increases.\<close>

definition generality :: "ElementsKind \<Rightarrow> nat" where
  "generality kind =
     (case GetSequenceIndexFromFastElementsKind kind of
        Some i \<Rightarrow> i
      | None \<Rightarrow> if IsFixedTypedArrayElementsKind kind then 0 else 6)"

lemma transition_generality_external:
  "external_kind_of a = Some b \<Longrightarrow> generality a < generality b"
  by (cases a) (auto simp: external_kind_of_def generality_def GetSequenceIndex_simps kind_simps)

lemma transition_generality_fast:
  "IsFastTransitionTarget b \<Longrightarrow> IsFastElementsKind a \<Longrightarrow> IsMoreGeneralElementsKindTransition a b \<Longrightarrow>
   generality a < generality b"
  by (cases b; simp add: IsFastTransitionTarget_def kind_simps;
      cases a; simp add: IsMoreGeneralElementsKindTransition_def generality_def GetSequenceIndex_simps kind_simps)

lemma transition_generality:
  assumes "IsMoreGeneralElementsKindTransition a b"
  shows "generality a < generality b"
proof (cases "IsFastTransitionTarget b \<and> IsFastElementsKind a")
  case True
  with assms transition_generality_fast show ?thesis by blast
next
  case False
  with assms have "external_kind_of a = Some b"
    by (auto simp: IsMoreGeneralElementsKindTransition_def split: if_splits)
  then show ?thesis by (rule transition_generality_external)
qed

lemma transitions_acyclic: "acyclic {(a, b). IsMoreGeneralElementsKindTransition a b}"
proof (rule acyclicI_order [where f = "\<lambda>k. 6 - generality k"])
  fix a b assume "(a, b) \<in> {(a, b). IsMoreGeneralElementsKindTransition a b}"
  then have "generality a < generality b" by (auto dest: transition_generality)
  moreover have "generality b \<le> 6"
    by (auto simp: generality_def GetSequenceIndex_simps split: option.splits if_splits)
  ultimately show "6 - generality b < 6 - generality a" by simp
qed

lemma next_transition:
  "GetNextTransitionElementsKind FAST_SMI_ELEMENTS = Some FAST_HOLEY_SMI_ELEMENTS"
  "GetNextTransitionElementsKind FAST_HOLEY_SMI_ELEMENTS = Some FAST_DOUBLE_ELEMENTS"
  "GetNextTransitionElementsKind FAST_DOUBLE_ELEMENTS = Some FAST_HOLEY_DOUBLE_ELEMENTS"
  "GetNextTransitionElementsKind FAST_HOLEY_DOUBLE_ELEMENTS = Some FAST_ELEMENTS"
  "GetNextTransitionElementsKind FAST_ELEMENTS = Some FAST_HOLEY_ELEMENTS"
  by (simp_all add: GetNextTransitionElementsKind_def external_kind_of_def GetSequenceIndex_simps
      GetFastElementsKindFromSequenceIndex_def fast_elements_kind_sequence_def)

lemma next_more_general:
  "GetNextMoreGeneralFastElementsKind FAST_SMI_ELEMENTS p =
     Some (if p then FAST_DOUBLE_ELEMENTS else FAST_HOLEY_SMI_ELEMENTS)"
  "GetNextMoreGeneralFastElementsKind FAST_HOLEY_SMI_ELEMENTS p = Some FAST_DOUBLE_ELEMENTS"
  "GetNextMoreGeneralFastElementsKind FAST_DOUBLE_ELEMENTS p =
     Some (if p then FAST_ELEMENTS else FAST_HOLEY_DOUBLE_ELEMENTS)"
  "GetNextMoreGeneralFastElementsKind FAST_HOLEY_DOUBLE_ELEMENTS p = Some FAST_ELEMENTS"
  "GetNextMoreGeneralFastElementsKind FAST_ELEMENTS False = Some FAST_HOLEY_ELEMENTS"
  by (subst GetNextMoreGeneralFastElementsKind.simps, simp add: next_transition IsFastHoleyElementsKind_def,
      (subst GetNextMoreGeneralFastElementsKind.simps, simp add: next_transition IsFastHoleyElementsKind_def)?)+

text \<open>Transitions of elements kinds only generalize: there are no cycles of them, and where a more
  general fast kind can be searched, the search ends with a kind that the present one may become, a
  packed one if asked for.\<close>
theorem elements_kind_transitions:
  assumes "CanTransitionToMoreGeneralFastElementsKind k allow_only_packed"
  shows "(\<exists>k'. GetNextMoreGeneralFastElementsKind k allow_only_packed = Some k' \<and>
      IsMoreGeneralElementsKindTransition k k' \<and> (allow_only_packed \<longrightarrow> IsFastPackedElementsKind k')) \<and>
    acyclic {(a, b). IsMoreGeneralElementsKindTransition a b}"
  using assms transitions_acyclic
  by (cases k; cases allow_only_packed)
    (simp_all add: next_more_general IsMoreGeneralElementsKindTransition_def IsFastPackedElementsKind_def
      CanTransitionToMoreGeneralFastElementsKind_def kind_simps)

lemma elements_kind_transitions_witness:
  "\<exists>k'. GetNextMoreGeneralFastElementsKind FAST_SMI_ELEMENTS True = Some k' \<and> IsFastPackedElementsKind k'"
  using elements_kind_transitions [of FAST_SMI_ELEMENTS True]
  by (auto simp: CanTransitionToMoreGeneralFastElementsKind_def kind_simps)


section \<open>Packed words\<close>

lemma representation_kind_bound: "representation_kind r \<le> 10"
  by (cases r) simp_all

lemma FromKind_kind [simp]: "FromKind (representation_kind r) = Some r"
  by (cases r) (simp_all add: FromKind_def)

lemma representation_kind_word:
  "take_bit 4 (word_of_nat (representation_kind r) :: uint32) = word_of_nat (representation_kind r)"
  "unat (word_of_nat (representation_kind r) :: uint32) = representation_kind r"
  by (cases r; simp)+

lemma portion_code_bits: "take_bit 3 (portion_code p) = portion_code p"
  by (cases p) simp_all

lemma of_bool_bits: "take_bit 1 (of_bool b :: uint32) = of_bool b"
  by (cases b) simp_all

text \<open>An object access gives back the portion, the offset, the representation and the flags it was
  made with, if the offset has 23 bits.\<close>
theorem HObjectAccess_faithful:
  fixes offset :: uint32
  assumes "BitField_is_valid 23 offset"
  shows "let access = HObjectAccess portion offset representation immutable existing in
    access_portion access = portion_code portion \<and> access_offset access = offset \<and>
    access_representation access = Some representation \<and> access_immutable access = immutable \<and>
    access_existing_inobject_property access = existing"
proof -
  have offset: "take_bit 23 offset = offset" using assms by (simp add: BitField_is_valid_iff)
  note same = decode_push_same and below = decode_push_below
    and above = decode_push_above [OF portion_code_bits] decode_push_above [OF representation_kind_word(1)]
      decode_push_above [OF of_bool_bits]
  show ?thesis
    by (simp add: Let_def HObjectAccess_def BitField_encode_def access_portion_def access_offset_def
        access_representation_def access_immutable_def access_existing_inobject_property_def
        decode_push_same [of 0, simplified] below same above portion_code_bits representation_kind_word
        of_bool_bits offset decode_push_above [of 3 "portion_code portion" 0, simplified])
qed

lemma HObjectAccess_faithful_witness:
  "access_offset (HObjectAccess kInobject 24 kTagged False True) = 24"
proof -
  have "BitField_is_valid 23 (24 :: uint32)" by (simp add: BitField_is_valid_iff)
  from HObjectAccess_faithful [OF this, of kInobject kTagged False True] show ?thesis by (simp add: Let_def)
qed

text \<open>Property details of a field give back what they were made with, and the copies change one
  component only.\<close>

lemma PropertyDetails_field_faithful:
  fixes attributes type index :: uint32
  assumes "BitField_is_valid 3 attributes" "BitField_is_valid 2 type" "BitField_is_valid 10 index"
  shows "let details = PropertyDetails_field attributes type representation index in
    pd_attributes details = attributes \<and> pd_type details = type \<and> field_index details = index \<and>
    pd_representation details = Some representation \<and> pd_pointer details = 0"
proof -
  have bits: "take_bit 3 attributes = attributes" "take_bit 2 type = type" "take_bit 10 index = index"
    using assms by (simp_all add: BitField_is_valid_iff)
  show ?thesis
    by (simp add: Let_def PropertyDetails_field_def BitField_encode_def pd_attributes_def pd_type_def
        field_index_def pd_representation_def pd_pointer_def kDescriptorIndexBitCount_def
        decode_push_same [of 0, simplified] decode_push_same decode_push_below
        decode_push_above [OF bits(1)] decode_push_above [OF bits(2), of 0, simplified]
        decode_push_above [OF representation_kind_word(1)] bits representation_kind_word)
qed

interpretation RepresentationField: bit_field 5 4
  by unfold_locales simp

lemma CopyWithRepresentation_faithful:
  "pd_representation (CopyWithRepresentation r details) = Some r"
  "pd_type (CopyWithRepresentation r details) = pd_type details"
  "pd_attributes (CopyWithRepresentation r details) = pd_attributes details"
  "pd_pointer (CopyWithRepresentation r details) = pd_pointer details"
  "field_index (CopyWithRepresentation r details) = field_index details"
proof -
  have valid: "BitField_is_valid 4 (word_of_nat (representation_kind r))"
    by (simp add: BitField_is_valid_iff representation_kind_word)
  show "pd_representation (CopyWithRepresentation r details) = Some r"
    by (simp add: pd_representation_def CopyWithRepresentation_def RepresentationField.decode_update [OF valid] representation_kind_word)
  show "pd_type (CopyWithRepresentation r details) = pd_type details"
    "pd_attributes (CopyWithRepresentation r details) = pd_attributes details"
    "pd_pointer (CopyWithRepresentation r details) = pd_pointer details"
    "field_index (CopyWithRepresentation r details) = field_index details"
    by (simp_all add: pd_type_def pd_attributes_def pd_pointer_def field_index_def
        CopyWithRepresentation_def kDescriptorIndexBitCount_def RepresentationField.decode_other [OF valid])
qed

end
