(* ===== verification/Shims.thy ===== *)
theory Shims
  imports Environment Representations
begin

text \<open>
  The shims of \<^verbatim>\<open>src/hydrogen-shim.h\<close>, which keep what the code generator needs of the Hydrogen
  instruction behind a Lithium instruction, and their saving and loading in
  \<^verbatim>\<open>src/x64/lithium-saveload-x64.cc\<close>. A class is a datatype with one constructor, whose arguments
  are those of the constructor the loader calls, its base class first. Enumerations the code only
  stores are numbers of 4 bytes. The shims that refer to heap objects are in \<open>HeapShims\<close>.
\<close>

section \<open>Enumerations\<close>

type_synonym Token_Value = uint32
type_synonym SmiCheck = uint32
type_synonym StoreContextSlot_Mode = uint32
type_synonym LoadContextSlot_Mode = uint32
type_synonym StoreFieldOrKeyedMode = uint32
type_synonym PointersToHereCheck = uint32
type_synonym StrictMode = uint32
type_synonym BailoutType = uint32
type_synonym FunctionKind = uint32
type_synonym CallFunctionFlags = uint32
type_synonym SaveFPRegsMode = uint32
type_synonym FunctionId = uint32
type_synonym InstanceType = uint32
type_synonym RootListIndex = uint32
type_synonym StringAddFlags = uint32
type_synonym PretenureFlag = uint32
type_synonym DoubleBits_Bits = uint32
type_synonym MathMinMax_Operation = uint32
type_synonym Allocate_Flags = uint32
type_synonym StackCheck_Type = uint32

definition SavePrimitive_ElementsKind :: "ElementsKind \<Rightarrow> 'a sv" where
  "SavePrimitive_ElementsKind kind = SavePrimitive (word_of_nat (elements_kind_code kind) :: uint32)"

text \<open>A number that is no enumerator is undefined behaviour.\<close>

definition ElementsKind_of :: "nat \<Rightarrow> ElementsKind option" where
  "ElementsKind_of n = find (\<lambda>kind. elements_kind_code kind = n)
     [FAST_SMI_ELEMENTS, FAST_HOLEY_SMI_ELEMENTS, FAST_ELEMENTS, FAST_HOLEY_ELEMENTS,
      FAST_DOUBLE_ELEMENTS, FAST_HOLEY_DOUBLE_ELEMENTS, DICTIONARY_ELEMENTS,
      SLOPPY_ARGUMENTS_ELEMENTS, EXTERNAL_INT8_ELEMENTS, EXTERNAL_UINT8_ELEMENTS,
      EXTERNAL_INT16_ELEMENTS, EXTERNAL_UINT16_ELEMENTS, EXTERNAL_INT32_ELEMENTS,
      EXTERNAL_UINT32_ELEMENTS, EXTERNAL_FLOAT32_ELEMENTS, EXTERNAL_FLOAT64_ELEMENTS,
      EXTERNAL_UINT8_CLAMPED_ELEMENTS, UINT8_ELEMENTS, INT8_ELEMENTS, UINT16_ELEMENTS,
      INT16_ELEMENTS, UINT32_ELEMENTS, INT32_ELEMENTS, FLOAT32_ELEMENTS, FLOAT64_ELEMENTS,
      UINT8_CLAMPED_ELEMENTS]"

definition LoadPrimitive_ElementsKind ::
  "'b loader_base_scheme \<Rightarrow> (ElementsKind, 'b) load_result" where
  "LoadPrimitive_ElementsKind l = do {
     (n, l) \<leftarrow> LoadPrimitive l;
     kind \<leftarrow> ElementsKind_of (unat (n :: uint32));
     Some (kind, l)
   }"

lemma transmits_ElementsKind [transmits_intros]:
  "transmits C (SavePrimitive_ElementsKind kind) LoadPrimitive_ElementsKind kind"
proof -
  have "ElementsKind_of (unat (word_of_nat (elements_kind_code kind) :: uint32)) = Some kind"
    by (cases kind; simp add: ElementsKind_of_def)
  then show ?thesis unfolding SavePrimitive_ElementsKind_def LoadPrimitive_ElementsKind_def
    by (intro transmits_save_last [OF transmits_primitives(3)]) simp
qed


section \<open>Representations and types\<close>

definition SaveRepresentation :: "Representation \<Rightarrow> 'a sv" where
  "SaveRepresentation representation =
     SavePrimitive (word_of_nat (representation_kind representation) :: uint32)"

definition LoadRepresentation :: "'b loader_base_scheme \<Rightarrow> (Representation, 'b) load_result" where
  "LoadRepresentation l = do {
     (kind, l) \<leftarrow> LoadPrimitive l;
     representation \<leftarrow> FromKind (unat (kind :: uint32));
     Some (representation, l)
   }"

lemma transmits_Representation [transmits_intros]:
  "transmits C (SaveRepresentation r) LoadRepresentation r"
  unfolding SaveRepresentation_def LoadRepresentation_def
  by (intro transmits_save_last [OF transmits_primitives(3)]) (simp add: representation_kind_word)

text \<open>The mask has 16 bits with a sign; the enumeration has 32.\<close>

definition SaveHType :: "HType \<Rightarrow> 'a sv" where
  "SaveHType htype = SavePrimitive (scast htype :: int32)"

definition LoadHType :: "'b loader_base_scheme \<Rightarrow> (HType, 'b) load_result" where
  "LoadHType l = do { (kind, l) \<leftarrow> LoadPrimitive l; Some (ucast (kind :: int32), l) }"

lemma transmits_HType [transmits_intros]: "transmits C (SaveHType t) LoadHType t"
proof -
  have "ucast (scast t :: int32) = t" by (rule bit_word_eqI) (auto simp: bit_simps)
  with transmits_map [OF transmits_primitives(3) [of C "scast t"], where h = "ucast :: int32 \<Rightarrow> HType"]
  show ?thesis by (simp add: SaveHType_def LoadHType_def [abs_def])
qed


section \<open>The base class\<close>

datatype HValueShim =
    HValueShim (shim_id: int32) (shim_block_id: int32) (shim_position: int32)
      (shim_representation: Representation) (shim_type: HType) (shim_flags: int32)

definition CheckFlag :: "nat \<Rightarrow> HValueShim \<Rightarrow> bool" where
  "CheckFlag f shim \<longleftrightarrow> shim_flags shim AND push_bit f 1 \<noteq> 0"

abbreviation kBailoutOnMinusZero :: nat where "kBailoutOnMinusZero \<equiv> 5"
abbreviation kTruncatingToInt32 :: nat where "kTruncatingToInt32 \<equiv> 12"

datatype MinusZeroMode = TREAT_MINUS_ZERO_AS_ZERO | FAIL_ON_MINUS_ZERO

definition GetMinusZeroMode :: "HValueShim \<Rightarrow> MinusZeroMode" where
  "GetMinusZeroMode shim =
     (if CheckFlag kBailoutOnMinusZero shim then FAIL_ON_MINUS_ZERO else TREAT_MINUS_ZERO_AS_ZERO)"

primrec SaveHValueShim :: "HValueShim \<Rightarrow> 'a sv" where
  "SaveHValueShim (HValueShim value_id block_id position representation type flags) = (\<lambda>s. do {
     s \<leftarrow> SavePrimitive value_id s;
     s \<leftarrow> SavePrimitive block_id s;
     s \<leftarrow> SavePrimitive position s;
     s \<leftarrow> SaveRepresentation representation s;
     s \<leftarrow> SaveHType type s;
     SavePrimitive flags s
   })"

definition LoadHValueShim :: "'b loader_base_scheme \<Rightarrow> (HValueShim, 'b) load_result" where
  "LoadHValueShim l = do {
     (value_id, l) \<leftarrow> LoadPrimitive l;
     (block_id, l) \<leftarrow> LoadPrimitive l;
     (position, l) \<leftarrow> LoadPrimitive l;
     (representation, l) \<leftarrow> LoadRepresentation l;
     (type, l) \<leftarrow> LoadHType l;
     (flags, l) \<leftarrow> LoadPrimitive l;
     Some (HValueShim value_id block_id position representation type flags, l)
   }"

lemma transmits_HValueShim [transmits_intros]: "transmits C (SaveHValueShim shim) LoadHValueShim shim"
  by (cases shim) (simp only: SaveHValueShim.simps LoadHValueShim_def [abs_def], (rule transmits_intros)+)


section \<open>Shims of numbers and flags\<close>

text \<open>None of these can fail to load, and all come back as they were.\<close>

datatype HStoreContextSlotShim =
    HStoreContextSlotShim (StoreContextSlot_base: HValueShim) (StoreContextSlot_slot_index: int32)
      (StoreContextSlot_mode: StoreContextSlot_Mode) (StoreContextSlot_needs_write_barrier: bool)
      (StoreContextSlot_check_needed: SmiCheck)

primrec SaveHStoreContextSlotShim :: "HStoreContextSlotShim \<Rightarrow> 'a sv" where
  "SaveHStoreContextSlotShim (HStoreContextSlotShim base slot_index mode needs_write_barrier check_needed) = (\<lambda>s. do {
     s \<leftarrow> SaveHValueShim base s;
     s \<leftarrow> SavePrimitive slot_index s;
     s \<leftarrow> SavePrimitive mode s;
     s \<leftarrow> SavePrimitive_bool needs_write_barrier s;
     SavePrimitive check_needed s
   })"

definition LoadHStoreContextSlotShim :: "'b loader_base_scheme \<Rightarrow> (HStoreContextSlotShim, 'b) load_result" where
  "LoadHStoreContextSlotShim l = do {
     (base, l) \<leftarrow> LoadHValueShim l;
     (slot_index, l) \<leftarrow> LoadPrimitive l;
     (mode, l) \<leftarrow> LoadPrimitive l;
     (needs_write_barrier, l) \<leftarrow> LoadPrimitive_bool l;
     (check_needed, l) \<leftarrow> LoadPrimitive l;
     Some (HStoreContextSlotShim base slot_index mode needs_write_barrier check_needed, l)
   }"

lemma transmits_HStoreContextSlotShim [transmits_intros]: "transmits C (SaveHStoreContextSlotShim shim) LoadHStoreContextSlotShim shim"
  by (cases shim) (simp only: SaveHStoreContextSlotShim.simps LoadHStoreContextSlotShim_def [abs_def], (rule transmits_intros)+)

datatype HBinaryOperationShim =
    HBinaryOperationShim (BinaryOperation_base: HValueShim)
      (BinaryOperation_left_representation: Representation)
      (BinaryOperation_right_representation: Representation)

primrec SaveHBinaryOperationShim :: "HBinaryOperationShim \<Rightarrow> 'a sv" where
  "SaveHBinaryOperationShim (HBinaryOperationShim base left_representation right_representation) = (\<lambda>s. do {
     s \<leftarrow> SaveHValueShim base s;
     s \<leftarrow> SaveRepresentation left_representation s;
     SaveRepresentation right_representation s
   })"

definition LoadHBinaryOperationShim :: "'b loader_base_scheme \<Rightarrow> (HBinaryOperationShim, 'b) load_result" where
  "LoadHBinaryOperationShim l = do {
     (base, l) \<leftarrow> LoadHValueShim l;
     (left_representation, l) \<leftarrow> LoadRepresentation l;
     (right_representation, l) \<leftarrow> LoadRepresentation l;
     Some (HBinaryOperationShim base left_representation right_representation, l)
   }"

lemma transmits_HBinaryOperationShim [transmits_intros]: "transmits C (SaveHBinaryOperationShim shim) LoadHBinaryOperationShim shim"
  by (cases shim) (simp only: SaveHBinaryOperationShim.simps LoadHBinaryOperationShim_def [abs_def], (rule transmits_intros)+)

datatype HCompareGenericShim =
    HCompareGenericShim (CompareGeneric_base: HValueShim) (CompareGeneric_token: Token_Value)

primrec SaveHCompareGenericShim :: "HCompareGenericShim \<Rightarrow> 'a sv" where
  "SaveHCompareGenericShim (HCompareGenericShim base token) = (\<lambda>s. do {
     s \<leftarrow> SaveHValueShim base s;
     SavePrimitive token s
   })"

definition LoadHCompareGenericShim :: "'b loader_base_scheme \<Rightarrow> (HCompareGenericShim, 'b) load_result" where
  "LoadHCompareGenericShim l = do {
     (base, l) \<leftarrow> LoadHValueShim l;
     (token, l) \<leftarrow> LoadPrimitive l;
     Some (HCompareGenericShim base token, l)
   }"

lemma transmits_HCompareGenericShim [transmits_intros]: "transmits C (SaveHCompareGenericShim shim) LoadHCompareGenericShim shim"
  by (cases shim) (simp only: SaveHCompareGenericShim.simps LoadHCompareGenericShim_def [abs_def], (rule transmits_intros)+)

datatype HBitwiseShim =
    HBitwiseShim (Bitwise_base: HBinaryOperationShim) (Bitwise_op: Token_Value)
      (Bitwise_is_integer32: bool)

primrec SaveHBitwiseShim :: "HBitwiseShim \<Rightarrow> 'a sv" where
  "SaveHBitwiseShim (HBitwiseShim base op is_integer32) = (\<lambda>s. do {
     s \<leftarrow> SaveHBinaryOperationShim base s;
     s \<leftarrow> SavePrimitive op s;
     SavePrimitive_bool is_integer32 s
   })"

definition LoadHBitwiseShim :: "'b loader_base_scheme \<Rightarrow> (HBitwiseShim, 'b) load_result" where
  "LoadHBitwiseShim l = do {
     (base, l) \<leftarrow> LoadHBinaryOperationShim l;
     (op, l) \<leftarrow> LoadPrimitive l;
     (is_integer32, l) \<leftarrow> LoadPrimitive_bool l;
     Some (HBitwiseShim base op is_integer32, l)
   }"

lemma transmits_HBitwiseShim [transmits_intros]: "transmits C (SaveHBitwiseShim shim) LoadHBitwiseShim shim"
  by (cases shim) (simp only: SaveHBitwiseShim.simps LoadHBitwiseShim_def [abs_def], (rule transmits_intros)+)

datatype HControlInstructionShim =
    HControlInstructionShim (ControlInstruction_base: HValueShim)
      (ControlInstruction_true_block_id: int32) (ControlInstruction_false_block_id: int32)

primrec SaveHControlInstructionShim :: "HControlInstructionShim \<Rightarrow> 'a sv" where
  "SaveHControlInstructionShim (HControlInstructionShim base true_block_id false_block_id) = (\<lambda>s. do {
     s \<leftarrow> SaveHValueShim base s;
     s \<leftarrow> SavePrimitive true_block_id s;
     SavePrimitive false_block_id s
   })"

definition LoadHControlInstructionShim :: "'b loader_base_scheme \<Rightarrow> (HControlInstructionShim, 'b) load_result" where
  "LoadHControlInstructionShim l = do {
     (base, l) \<leftarrow> LoadHValueShim l;
     (true_block_id, l) \<leftarrow> LoadPrimitive l;
     (false_block_id, l) \<leftarrow> LoadPrimitive l;
     Some (HControlInstructionShim base true_block_id false_block_id, l)
   }"

lemma transmits_HControlInstructionShim [transmits_intros]: "transmits C (SaveHControlInstructionShim shim) LoadHControlInstructionShim shim"
  by (cases shim) (simp only: SaveHControlInstructionShim.simps LoadHControlInstructionShim_def [abs_def], (rule transmits_intros)+)

datatype HUnaryControlInstructionShim =
    HUnaryControlInstructionShim (UnaryControlInstruction_base: HControlInstructionShim)
      (UnaryControlInstruction_value: HValueShim)

primrec SaveHUnaryControlInstructionShim :: "HUnaryControlInstructionShim \<Rightarrow> 'a sv" where
  "SaveHUnaryControlInstructionShim (HUnaryControlInstructionShim base value_shim) = (\<lambda>s. do {
     s \<leftarrow> SaveHControlInstructionShim base s;
     SaveHValueShim value_shim s
   })"

definition LoadHUnaryControlInstructionShim :: "'b loader_base_scheme \<Rightarrow> (HUnaryControlInstructionShim, 'b) load_result" where
  "LoadHUnaryControlInstructionShim l = do {
     (base, l) \<leftarrow> LoadHControlInstructionShim l;
     (value_shim, l) \<leftarrow> LoadHValueShim l;
     Some (HUnaryControlInstructionShim base value_shim, l)
   }"

lemma transmits_HUnaryControlInstructionShim [transmits_intros]: "transmits C (SaveHUnaryControlInstructionShim shim) LoadHUnaryControlInstructionShim shim"
  by (cases shim) (simp only: SaveHUnaryControlInstructionShim.simps LoadHUnaryControlInstructionShim_def [abs_def], (rule transmits_intros)+)

datatype HBranchShim =
    HBranchShim (Branch_base: HUnaryControlInstructionShim) (Branch_expected_input_types: byte)

primrec SaveHBranchShim :: "HBranchShim \<Rightarrow> 'a sv" where
  "SaveHBranchShim (HBranchShim base expected_input_types) = (\<lambda>s. do {
     s \<leftarrow> SaveHUnaryControlInstructionShim base s;
     SavePrimitive expected_input_types s
   })"

definition LoadHBranchShim :: "'b loader_base_scheme \<Rightarrow> (HBranchShim, 'b) load_result" where
  "LoadHBranchShim l = do {
     (base, l) \<leftarrow> LoadHUnaryControlInstructionShim l;
     (expected_input_types, l) \<leftarrow> LoadPrimitive l;
     Some (HBranchShim base expected_input_types, l)
   }"

lemma transmits_HBranchShim [transmits_intros]: "transmits C (SaveHBranchShim shim) LoadHBranchShim shim"
  by (cases shim) (simp only: SaveHBranchShim.simps LoadHBranchShim_def [abs_def], (rule transmits_intros)+)

datatype HUnaryOperationShim =
    HUnaryOperationShim (UnaryOperation_base: HValueShim) (UnaryOperation_value: HValueShim)

primrec SaveHUnaryOperationShim :: "HUnaryOperationShim \<Rightarrow> 'a sv" where
  "SaveHUnaryOperationShim (HUnaryOperationShim base value_shim) = (\<lambda>s. do {
     s \<leftarrow> SaveHValueShim base s;
     SaveHValueShim value_shim s
   })"

definition LoadHUnaryOperationShim :: "'b loader_base_scheme \<Rightarrow> (HUnaryOperationShim, 'b) load_result" where
  "LoadHUnaryOperationShim l = do {
     (base, l) \<leftarrow> LoadHValueShim l;
     (value_shim, l) \<leftarrow> LoadHValueShim l;
     Some (HUnaryOperationShim base value_shim, l)
   }"

lemma transmits_HUnaryOperationShim [transmits_intros]: "transmits C (SaveHUnaryOperationShim shim) LoadHUnaryOperationShim shim"
  by (cases shim) (simp only: SaveHUnaryOperationShim.simps LoadHUnaryOperationShim_def [abs_def], (rule transmits_intros)+)

datatype HChangeShim =
    HChangeShim (Change_base: HUnaryOperationShim) (Change_can_convert_undefined_to_nan: bool)

primrec SaveHChangeShim :: "HChangeShim \<Rightarrow> 'a sv" where
  "SaveHChangeShim (HChangeShim base can_convert_undefined_to_nan) = (\<lambda>s. do {
     s \<leftarrow> SaveHUnaryOperationShim base s;
     SavePrimitive_bool can_convert_undefined_to_nan s
   })"

definition LoadHChangeShim :: "'b loader_base_scheme \<Rightarrow> (HChangeShim, 'b) load_result" where
  "LoadHChangeShim l = do {
     (base, l) \<leftarrow> LoadHUnaryOperationShim l;
     (can_convert_undefined_to_nan, l) \<leftarrow> LoadBool l;
     Some (HChangeShim base can_convert_undefined_to_nan, l)
   }"

lemma transmits_HChangeShim [transmits_intros]: "transmits C (SaveHChangeShim shim) LoadHChangeShim shim"
  by (cases shim) (simp only: SaveHChangeShim.simps LoadHChangeShim_def [abs_def], (rule transmits_intros)+)

datatype HUnaryMathOperationShim =
    HUnaryMathOperationShim (UnaryMathOperation_base: HValueShim)
      (UnaryMathOperation_value: HValueShim)

primrec SaveHUnaryMathOperationShim :: "HUnaryMathOperationShim \<Rightarrow> 'a sv" where
  "SaveHUnaryMathOperationShim (HUnaryMathOperationShim base value_shim) = (\<lambda>s. do {
     s \<leftarrow> SaveHValueShim base s;
     SaveHValueShim value_shim s
   })"

definition LoadHUnaryMathOperationShim :: "'b loader_base_scheme \<Rightarrow> (HUnaryMathOperationShim, 'b) load_result" where
  "LoadHUnaryMathOperationShim l = do {
     (base, l) \<leftarrow> LoadHValueShim l;
     (value_shim, l) \<leftarrow> LoadHValueShim l;
     Some (HUnaryMathOperationShim base value_shim, l)
   }"

lemma transmits_HUnaryMathOperationShim [transmits_intros]: "transmits C (SaveHUnaryMathOperationShim shim) LoadHUnaryMathOperationShim shim"
  by (cases shim) (simp only: SaveHUnaryMathOperationShim.simps LoadHUnaryMathOperationShim_def [abs_def], (rule transmits_intros)+)

datatype HKeyedShim =
    HKeyedShim (Keyed_base: HValueShim) (Keyed_key: HValueShim)
      (Keyed_elements_kind: ElementsKind) (Keyed_base_offset: uint32) (Keyed_is_dehoisted: bool)

primrec SaveHKeyedShim :: "HKeyedShim \<Rightarrow> 'a sv" where
  "SaveHKeyedShim (HKeyedShim base key elements_kind base_offset is_dehoisted) = (\<lambda>s. do {
     s \<leftarrow> SaveHValueShim base s;
     s \<leftarrow> SaveHValueShim key s;
     s \<leftarrow> SavePrimitive_ElementsKind elements_kind s;
     s \<leftarrow> SavePrimitive base_offset s;
     SavePrimitive_bool is_dehoisted s
   })"

definition LoadHKeyedShim :: "'b loader_base_scheme \<Rightarrow> (HKeyedShim, 'b) load_result" where
  "LoadHKeyedShim l = do {
     (base, l) \<leftarrow> LoadHValueShim l;
     (key, l) \<leftarrow> LoadHValueShim l;
     (elements_kind, l) \<leftarrow> LoadPrimitive_ElementsKind l;
     (base_offset, l) \<leftarrow> LoadPrimitive l;
     (is_dehoisted, l) \<leftarrow> LoadBool l;
     Some (HKeyedShim base key elements_kind base_offset is_dehoisted, l)
   }"

lemma transmits_HKeyedShim [transmits_intros]: "transmits C (SaveHKeyedShim shim) LoadHKeyedShim shim"
  by (cases shim) (simp only: SaveHKeyedShim.simps LoadHKeyedShim_def [abs_def], (rule transmits_intros)+)

datatype HStoreKeyedShim =
    HStoreKeyedShim (StoreKeyed_base: HKeyedShim) (StoreKeyed_value: HValueShim)
      (StoreKeyed_store_mode: StoreFieldOrKeyedMode) (StoreKeyed_needs_write_barrier: bool)
      (StoreKeyed_needs_canonicalization: bool)
      (StoreKeyed_pointers_to_here_check_for_value: PointersToHereCheck)

primrec SaveHStoreKeyedShim :: "HStoreKeyedShim \<Rightarrow> 'a sv" where
  "SaveHStoreKeyedShim (HStoreKeyedShim base value_shim store_mode needs_write_barrier needs_canonicalization pointers_to_here_check_for_value) = (\<lambda>s. do {
     s \<leftarrow> SaveHKeyedShim base s;
     s \<leftarrow> SaveHValueShim value_shim s;
     s \<leftarrow> SavePrimitive store_mode s;
     s \<leftarrow> SavePrimitive_bool needs_write_barrier s;
     s \<leftarrow> SavePrimitive_bool needs_canonicalization s;
     SavePrimitive pointers_to_here_check_for_value s
   })"

definition LoadHStoreKeyedShim :: "'b loader_base_scheme \<Rightarrow> (HStoreKeyedShim, 'b) load_result" where
  "LoadHStoreKeyedShim l = do {
     (base, l) \<leftarrow> LoadHKeyedShim l;
     (value_shim, l) \<leftarrow> LoadHValueShim l;
     (store_mode, l) \<leftarrow> LoadPrimitive l;
     (needs_write_barrier, l) \<leftarrow> LoadBool l;
     (needs_canonicalization, l) \<leftarrow> LoadBool l;
     (pointers_to_here_check_for_value, l) \<leftarrow> LoadPrimitive l;
     Some (HStoreKeyedShim base value_shim store_mode needs_write_barrier needs_canonicalization pointers_to_here_check_for_value, l)
   }"

lemma transmits_HStoreKeyedShim [transmits_intros]: "transmits C (SaveHStoreKeyedShim shim) LoadHStoreKeyedShim shim"
  by (cases shim) (simp only: SaveHStoreKeyedShim.simps LoadHStoreKeyedShim_def [abs_def], (rule transmits_intros)+)

datatype HLoadKeyedShim =
    HLoadKeyedShim (LoadKeyed_base: HKeyedShim) (LoadKeyed_requires_hole_check: bool)

primrec SaveHLoadKeyedShim :: "HLoadKeyedShim \<Rightarrow> 'a sv" where
  "SaveHLoadKeyedShim (HLoadKeyedShim base requires_hole_check) = (\<lambda>s. do {
     s \<leftarrow> SaveHKeyedShim base s;
     SavePrimitive_bool requires_hole_check s
   })"

definition LoadHLoadKeyedShim :: "'b loader_base_scheme \<Rightarrow> (HLoadKeyedShim, 'b) load_result" where
  "LoadHLoadKeyedShim l = do {
     (base, l) \<leftarrow> LoadHKeyedShim l;
     (requires_hole_check, l) \<leftarrow> LoadBool l;
     Some (HLoadKeyedShim base requires_hole_check, l)
   }"

lemma transmits_HLoadKeyedShim [transmits_intros]: "transmits C (SaveHLoadKeyedShim shim) LoadHLoadKeyedShim shim"
  by (cases shim) (simp only: SaveHLoadKeyedShim.simps LoadHLoadKeyedShim_def [abs_def], (rule transmits_intros)+)

datatype HStoreKeyedGenericShim =
    HStoreKeyedGenericShim (StoreKeyedGeneric_base: HValueShim)
      (StoreKeyedGeneric_strict_mode: StrictMode)

primrec SaveHStoreKeyedGenericShim :: "HStoreKeyedGenericShim \<Rightarrow> 'a sv" where
  "SaveHStoreKeyedGenericShim (HStoreKeyedGenericShim base strict_mode) = (\<lambda>s. do {
     s \<leftarrow> SaveHValueShim base s;
     SavePrimitive strict_mode s
   })"

definition LoadHStoreKeyedGenericShim :: "'b loader_base_scheme \<Rightarrow> (HStoreKeyedGenericShim, 'b) load_result" where
  "LoadHStoreKeyedGenericShim l = do {
     (base, l) \<leftarrow> LoadHValueShim l;
     (strict_mode, l) \<leftarrow> LoadPrimitive l;
     Some (HStoreKeyedGenericShim base strict_mode, l)
   }"

lemma transmits_HStoreKeyedGenericShim [transmits_intros]: "transmits C (SaveHStoreKeyedGenericShim shim) LoadHStoreKeyedGenericShim shim"
  by (cases shim) (simp only: SaveHStoreKeyedGenericShim.simps LoadHStoreKeyedGenericShim_def [abs_def], (rule transmits_intros)+)

datatype HStringCharFromCodeShim =
    HStringCharFromCodeShim (StringCharFromCode_base: HValueShim)
      (StringCharFromCode_value: HValueShim)

primrec SaveHStringCharFromCodeShim :: "HStringCharFromCodeShim \<Rightarrow> 'a sv" where
  "SaveHStringCharFromCodeShim (HStringCharFromCodeShim base value_shim) = (\<lambda>s. do {
     s \<leftarrow> SaveHValueShim base s;
     SaveHValueShim value_shim s
   })"

definition LoadHStringCharFromCodeShim :: "'b loader_base_scheme \<Rightarrow> (HStringCharFromCodeShim, 'b) load_result" where
  "LoadHStringCharFromCodeShim l = do {
     (base, l) \<leftarrow> LoadHValueShim l;
     (value_shim, l) \<leftarrow> LoadHValueShim l;
     Some (HStringCharFromCodeShim base value_shim, l)
   }"

lemma transmits_HStringCharFromCodeShim [transmits_intros]: "transmits C (SaveHStringCharFromCodeShim shim) LoadHStringCharFromCodeShim shim"
  by (cases shim) (simp only: SaveHStringCharFromCodeShim.simps LoadHStringCharFromCodeShim_def [abs_def], (rule transmits_intros)+)

datatype HCompareNumericAndBranchShim =
    HCompareNumericAndBranchShim (CompareNumericAndBranch_base: HControlInstructionShim)
      (CompareNumericAndBranch_token: Token_Value) (CompareNumericAndBranch_is_double: bool)
      (CompareNumericAndBranch_is_unsigned: bool)

primrec SaveHCompareNumericAndBranchShim :: "HCompareNumericAndBranchShim \<Rightarrow> 'a sv" where
  "SaveHCompareNumericAndBranchShim (HCompareNumericAndBranchShim base token is_double is_unsigned) = (\<lambda>s. do {
     s \<leftarrow> SaveHControlInstructionShim base s;
     s \<leftarrow> SavePrimitive token s;
     s \<leftarrow> SavePrimitive_bool is_double s;
     SavePrimitive_bool is_unsigned s
   })"

definition LoadHCompareNumericAndBranchShim :: "'b loader_base_scheme \<Rightarrow> (HCompareNumericAndBranchShim, 'b) load_result" where
  "LoadHCompareNumericAndBranchShim l = do {
     (base, l) \<leftarrow> LoadHControlInstructionShim l;
     (token, l) \<leftarrow> LoadPrimitive l;
     (is_double, l) \<leftarrow> LoadPrimitive_bool l;
     (is_unsigned, l) \<leftarrow> LoadPrimitive_bool l;
     Some (HCompareNumericAndBranchShim base token is_double is_unsigned, l)
   }"

lemma transmits_HCompareNumericAndBranchShim [transmits_intros]: "transmits C (SaveHCompareNumericAndBranchShim shim) LoadHCompareNumericAndBranchShim shim"
  by (cases shim) (simp only: SaveHCompareNumericAndBranchShim.simps LoadHCompareNumericAndBranchShim_def [abs_def], (rule transmits_intros)+)

datatype HStringCompareAndBranchShim =
    HStringCompareAndBranchShim (StringCompareAndBranch_base: HControlInstructionShim)
      (StringCompareAndBranch_token: Token_Value)

primrec SaveHStringCompareAndBranchShim :: "HStringCompareAndBranchShim \<Rightarrow> 'a sv" where
  "SaveHStringCompareAndBranchShim (HStringCompareAndBranchShim base token) = (\<lambda>s. do {
     s \<leftarrow> SaveHControlInstructionShim base s;
     SavePrimitive token s
   })"

definition LoadHStringCompareAndBranchShim :: "'b loader_base_scheme \<Rightarrow> (HStringCompareAndBranchShim, 'b) load_result" where
  "LoadHStringCompareAndBranchShim l = do {
     (base, l) \<leftarrow> LoadHControlInstructionShim l;
     (token, l) \<leftarrow> LoadPrimitive l;
     Some (HStringCompareAndBranchShim base token, l)
   }"

lemma transmits_HStringCompareAndBranchShim [transmits_intros]: "transmits C (SaveHStringCompareAndBranchShim shim) LoadHStringCompareAndBranchShim shim"
  by (cases shim) (simp only: SaveHStringCompareAndBranchShim.simps LoadHStringCompareAndBranchShim_def [abs_def], (rule transmits_intros)+)

datatype HLoadContextSlotShim =
    HLoadContextSlotShim (LoadContextSlot_base: HValueShim) (LoadContextSlot_slot_index: int32)
      (LoadContextSlot_mode: LoadContextSlot_Mode)

primrec SaveHLoadContextSlotShim :: "HLoadContextSlotShim \<Rightarrow> 'a sv" where
  "SaveHLoadContextSlotShim (HLoadContextSlotShim base slot_index mode) = (\<lambda>s. do {
     s \<leftarrow> SaveHValueShim base s;
     s \<leftarrow> SavePrimitive slot_index s;
     SavePrimitive mode s
   })"

definition LoadHLoadContextSlotShim :: "'b loader_base_scheme \<Rightarrow> (HLoadContextSlotShim, 'b) load_result" where
  "LoadHLoadContextSlotShim l = do {
     (base, l) \<leftarrow> LoadHValueShim l;
     (slot_index, l) \<leftarrow> LoadPrimitive l;
     (mode, l) \<leftarrow> LoadPrimitive l;
     Some (HLoadContextSlotShim base slot_index mode, l)
   }"

lemma transmits_HLoadContextSlotShim [transmits_intros]: "transmits C (SaveHLoadContextSlotShim shim) LoadHLoadContextSlotShim shim"
  by (cases shim) (simp only: SaveHLoadContextSlotShim.simps LoadHLoadContextSlotShim_def [abs_def], (rule transmits_intros)+)

datatype HStackCheckShim =
    HStackCheckShim (StackCheck_base: HValueShim) (StackCheck_type: StackCheck_Type)

primrec SaveHStackCheckShim :: "HStackCheckShim \<Rightarrow> 'a sv" where
  "SaveHStackCheckShim (HStackCheckShim base t) = (\<lambda>s. do {
     s \<leftarrow> SaveHValueShim base s;
     SavePrimitive t s
   })"

definition LoadHStackCheckShim :: "'b loader_base_scheme \<Rightarrow> (HStackCheckShim, 'b) load_result" where
  "LoadHStackCheckShim l = do {
     (base, l) \<leftarrow> LoadHValueShim l;
     (t, l) \<leftarrow> LoadPrimitive l;
     Some (HStackCheckShim base t, l)
   }"

lemma transmits_HStackCheckShim [transmits_intros]: "transmits C (SaveHStackCheckShim shim) LoadHStackCheckShim shim"
  by (cases shim) (simp only: SaveHStackCheckShim.simps LoadHStackCheckShim_def [abs_def], (rule transmits_intros)+)

datatype HAddShim =
    HAddShim (Add_base: HBinaryOperationShim) (Add_use_lea: bool)

primrec SaveHAddShim :: "HAddShim \<Rightarrow> 'a sv" where
  "SaveHAddShim (HAddShim base use_lea) = (\<lambda>s. do {
     s \<leftarrow> SaveHBinaryOperationShim base s;
     SavePrimitive_bool use_lea s
   })"

definition LoadHAddShim :: "'b loader_base_scheme \<Rightarrow> (HAddShim, 'b) load_result" where
  "LoadHAddShim l = do {
     (base, l) \<leftarrow> LoadHBinaryOperationShim l;
     (use_lea, l) \<leftarrow> LoadPrimitive_bool l;
     Some (HAddShim base use_lea, l)
   }"

lemma transmits_HAddShim [transmits_intros]: "transmits C (SaveHAddShim shim) LoadHAddShim shim"
  by (cases shim) (simp only: SaveHAddShim.simps LoadHAddShim_def [abs_def], (rule transmits_intros)+)

datatype HMathMinMaxShim =
    HMathMinMaxShim (MathMinMax_base: HBinaryOperationShim)
      (MathMinMax_operation: MathMinMax_Operation)

primrec SaveHMathMinMaxShim :: "HMathMinMaxShim \<Rightarrow> 'a sv" where
  "SaveHMathMinMaxShim (HMathMinMaxShim base operation) = (\<lambda>s. do {
     s \<leftarrow> SaveHBinaryOperationShim base s;
     SavePrimitive operation s
   })"

definition LoadHMathMinMaxShim :: "'b loader_base_scheme \<Rightarrow> (HMathMinMaxShim, 'b) load_result" where
  "LoadHMathMinMaxShim l = do {
     (base, l) \<leftarrow> LoadHBinaryOperationShim l;
     (operation, l) \<leftarrow> LoadPrimitive l;
     Some (HMathMinMaxShim base operation, l)
   }"

lemma transmits_HMathMinMaxShim [transmits_intros]: "transmits C (SaveHMathMinMaxShim shim) LoadHMathMinMaxShim shim"
  by (cases shim) (simp only: SaveHMathMinMaxShim.simps LoadHMathMinMaxShim_def [abs_def], (rule transmits_intros)+)

datatype HPowerShim =
    HPowerShim (Power_base: HValueShim) (Power_left_representation: Representation)
      (Power_right_representation: Representation)

primrec SaveHPowerShim :: "HPowerShim \<Rightarrow> 'a sv" where
  "SaveHPowerShim (HPowerShim base left_representation right_representation) = (\<lambda>s. do {
     s \<leftarrow> SaveHValueShim base s;
     s \<leftarrow> SaveRepresentation left_representation s;
     SaveRepresentation right_representation s
   })"

definition LoadHPowerShim :: "'b loader_base_scheme \<Rightarrow> (HPowerShim, 'b) load_result" where
  "LoadHPowerShim l = do {
     (base, l) \<leftarrow> LoadHValueShim l;
     (left_representation, l) \<leftarrow> LoadRepresentation l;
     (right_representation, l) \<leftarrow> LoadRepresentation l;
     Some (HPowerShim base left_representation right_representation, l)
   }"

lemma transmits_HPowerShim [transmits_intros]: "transmits C (SaveHPowerShim shim) LoadHPowerShim shim"
  by (cases shim) (simp only: SaveHPowerShim.simps LoadHPowerShim_def [abs_def], (rule transmits_intros)+)

datatype HCallShim =
    HCallShim (Call_base: HValueShim) (Call_argument_count: int32)

primrec SaveHCallShim :: "HCallShim \<Rightarrow> 'a sv" where
  "SaveHCallShim (HCallShim base argument_count) = (\<lambda>s. do {
     s \<leftarrow> SaveHValueShim base s;
     SavePrimitive argument_count s
   })"

definition LoadHCallShim :: "'b loader_base_scheme \<Rightarrow> (HCallShim, 'b) load_result" where
  "LoadHCallShim l = do {
     (base, l) \<leftarrow> LoadHValueShim l;
     (argument_count, l) \<leftarrow> LoadPrimitive l;
     Some (HCallShim base argument_count, l)
   }"

lemma transmits_HCallShim [transmits_intros]: "transmits C (SaveHCallShim shim) LoadHCallShim shim"
  by (cases shim) (simp only: SaveHCallShim.simps LoadHCallShim_def [abs_def], (rule transmits_intros)+)

datatype HCallRuntimeShim =
    HCallRuntimeShim (CallRuntime_base: HCallShim) (CallRuntime_function: FunctionId)
      (CallRuntime_save_doubles: SaveFPRegsMode)

primrec SaveHCallRuntimeShim :: "HCallRuntimeShim \<Rightarrow> 'a sv" where
  "SaveHCallRuntimeShim (HCallRuntimeShim base function save_doubles) = (\<lambda>s. do {
     s \<leftarrow> SaveHCallShim base s;
     s \<leftarrow> SavePrimitive save_doubles s;
     SavePrimitive function s
   })"

definition LoadHCallRuntimeShim :: "'b loader_base_scheme \<Rightarrow> (HCallRuntimeShim, 'b) load_result" where
  "LoadHCallRuntimeShim l = do {
     (base, l) \<leftarrow> LoadHCallShim l;
     (save_doubles, l) \<leftarrow> LoadPrimitive l;
     (function, l) \<leftarrow> LoadPrimitive l;
     Some (HCallRuntimeShim base function save_doubles, l)
   }"

lemma transmits_HCallRuntimeShim [transmits_intros]: "transmits C (SaveHCallRuntimeShim shim) LoadHCallRuntimeShim shim"
  by (cases shim) (simp only: SaveHCallRuntimeShim.simps LoadHCallRuntimeShim_def [abs_def], (rule transmits_intros)+)

datatype HDoubleBitsShim =
    HDoubleBitsShim (DoubleBits_base: HValueShim) (DoubleBits_bits: DoubleBits_Bits)

primrec SaveHDoubleBitsShim :: "HDoubleBitsShim \<Rightarrow> 'a sv" where
  "SaveHDoubleBitsShim (HDoubleBitsShim base bits) = (\<lambda>s. do {
     s \<leftarrow> SaveHValueShim base s;
     SavePrimitive bits s
   })"

definition LoadHDoubleBitsShim :: "'b loader_base_scheme \<Rightarrow> (HDoubleBitsShim, 'b) load_result" where
  "LoadHDoubleBitsShim l = do {
     (base, l) \<leftarrow> LoadHValueShim l;
     (bits, l) \<leftarrow> LoadPrimitive l;
     Some (HDoubleBitsShim base bits, l)
   }"

lemma transmits_HDoubleBitsShim [transmits_intros]: "transmits C (SaveHDoubleBitsShim shim) LoadHDoubleBitsShim shim"
  by (cases shim) (simp only: SaveHDoubleBitsShim.simps LoadHDoubleBitsShim_def [abs_def], (rule transmits_intros)+)

datatype HCallFunctionShim =
    HCallFunctionShim (CallFunction_base: HCallShim)
      (CallFunction_function_flags: CallFunctionFlags)

primrec SaveHCallFunctionShim :: "HCallFunctionShim \<Rightarrow> 'a sv" where
  "SaveHCallFunctionShim (HCallFunctionShim base function_flags) = (\<lambda>s. do {
     s \<leftarrow> SaveHCallShim base s;
     SavePrimitive function_flags s
   })"

definition LoadHCallFunctionShim :: "'b loader_base_scheme \<Rightarrow> (HCallFunctionShim, 'b) load_result" where
  "LoadHCallFunctionShim l = do {
     (base, l) \<leftarrow> LoadHCallShim l;
     (function_flags, l) \<leftarrow> LoadPrimitive l;
     Some (HCallFunctionShim base function_flags, l)
   }"

lemma transmits_HCallFunctionShim [transmits_intros]: "transmits C (SaveHCallFunctionShim shim) LoadHCallFunctionShim shim"
  by (cases shim) (simp only: SaveHCallFunctionShim.simps LoadHCallFunctionShim_def [abs_def], (rule transmits_intros)+)

datatype HCallNewArrayShim =
    HCallNewArrayShim (CallNewArray_base: HCallShim) (CallNewArray_elements_kind: ElementsKind)

primrec SaveHCallNewArrayShim :: "HCallNewArrayShim \<Rightarrow> 'a sv" where
  "SaveHCallNewArrayShim (HCallNewArrayShim base elements_kind) = (\<lambda>s. do {
     s \<leftarrow> SaveHCallShim base s;
     SavePrimitive_ElementsKind elements_kind s
   })"

definition LoadHCallNewArrayShim :: "'b loader_base_scheme \<Rightarrow> (HCallNewArrayShim, 'b) load_result" where
  "LoadHCallNewArrayShim l = do {
     (base, l) \<leftarrow> LoadHCallShim l;
     (elements_kind, l) \<leftarrow> LoadPrimitive_ElementsKind l;
     Some (HCallNewArrayShim base elements_kind, l)
   }"

lemma transmits_HCallNewArrayShim [transmits_intros]: "transmits C (SaveHCallNewArrayShim shim) LoadHCallNewArrayShim shim"
  by (cases shim) (simp only: SaveHCallNewArrayShim.simps LoadHCallNewArrayShim_def [abs_def], (rule transmits_intros)+)

datatype HLoadNamedFieldShim =
    HLoadNamedFieldShim (LoadNamedField_base: HValueShim) (LoadNamedField_value: uint32)

primrec SaveHLoadNamedFieldShim :: "HLoadNamedFieldShim \<Rightarrow> 'a sv" where
  "SaveHLoadNamedFieldShim (HLoadNamedFieldShim base value_shim) = (\<lambda>s. do {
     s \<leftarrow> SaveHValueShim base s;
     SavePrimitive value_shim s
   })"

definition LoadHLoadNamedFieldShim :: "'b loader_base_scheme \<Rightarrow> (HLoadNamedFieldShim, 'b) load_result" where
  "LoadHLoadNamedFieldShim l = do {
     (base, l) \<leftarrow> LoadHValueShim l;
     (value_shim, l) \<leftarrow> LoadPrimitive l;
     Some (HLoadNamedFieldShim base value_shim, l)
   }"

lemma transmits_HLoadNamedFieldShim [transmits_intros]: "transmits C (SaveHLoadNamedFieldShim shim) LoadHLoadNamedFieldShim shim"
  by (cases shim) (simp only: SaveHLoadNamedFieldShim.simps LoadHLoadNamedFieldShim_def [abs_def], (rule transmits_intros)+)

datatype HBoundsCheckShim =
    HBoundsCheckShim (BoundsCheck_base: HValueShim) (BoundsCheck_skip_check: bool)
      (BoundsCheck_allow_equality: bool) (BoundsCheck_index: HValueShim)
      (BoundsCheck_length: HValueShim)

primrec SaveHBoundsCheckShim :: "HBoundsCheckShim \<Rightarrow> 'a sv" where
  "SaveHBoundsCheckShim (HBoundsCheckShim base skip_check allow_equality index len) = (\<lambda>s. do {
     s \<leftarrow> SaveHValueShim base s;
     s \<leftarrow> SavePrimitive_bool skip_check s;
     s \<leftarrow> SavePrimitive_bool allow_equality s;
     s \<leftarrow> SaveHValueShim index s;
     SaveHValueShim len s
   })"

definition LoadHBoundsCheckShim :: "'b loader_base_scheme \<Rightarrow> (HBoundsCheckShim, 'b) load_result" where
  "LoadHBoundsCheckShim l = do {
     (base, l) \<leftarrow> LoadHValueShim l;
     (skip_check, l) \<leftarrow> LoadBool l;
     (allow_equality, l) \<leftarrow> LoadBool l;
     (index, l) \<leftarrow> LoadHValueShim l;
     (len, l) \<leftarrow> LoadHValueShim l;
     Some (HBoundsCheckShim base skip_check allow_equality index len, l)
   }"

lemma transmits_HBoundsCheckShim [transmits_intros]: "transmits C (SaveHBoundsCheckShim shim) LoadHBoundsCheckShim shim"
  by (cases shim) (simp only: SaveHBoundsCheckShim.simps LoadHBoundsCheckShim_def [abs_def], (rule transmits_intros)+)

datatype HDoubleToIShim =
    HDoubleToIShim (DoubleToI_base: HValueShim) (DoubleToI_can_truncate_to_int32: bool)

primrec SaveHDoubleToIShim :: "HDoubleToIShim \<Rightarrow> 'a sv" where
  "SaveHDoubleToIShim (HDoubleToIShim base can_truncate_to_int32) = (\<lambda>s. do {
     s \<leftarrow> SaveHValueShim base s;
     SavePrimitive_bool can_truncate_to_int32 s
   })"

definition LoadHDoubleToIShim :: "'b loader_base_scheme \<Rightarrow> (HDoubleToIShim, 'b) load_result" where
  "LoadHDoubleToIShim l = do {
     (base, l) \<leftarrow> LoadHValueShim l;
     (can_truncate_to_int32, l) \<leftarrow> LoadBool l;
     Some (HDoubleToIShim base can_truncate_to_int32, l)
   }"

lemma transmits_HDoubleToIShim [transmits_intros]: "transmits C (SaveHDoubleToIShim shim) LoadHDoubleToIShim shim"
  by (cases shim) (simp only: SaveHDoubleToIShim.simps LoadHDoubleToIShim_def [abs_def], (rule transmits_intros)+)

datatype HAllocateShim =
    HAllocateShim (Allocate_base: HValueShim) (Allocate_flags: Allocate_Flags)

primrec SaveHAllocateShim :: "HAllocateShim \<Rightarrow> 'a sv" where
  "SaveHAllocateShim (HAllocateShim base flags) = (\<lambda>s. do {
     s \<leftarrow> SaveHValueShim base s;
     SavePrimitive flags s
   })"

definition LoadHAllocateShim :: "'b loader_base_scheme \<Rightarrow> (HAllocateShim, 'b) load_result" where
  "LoadHAllocateShim l = do {
     (base, l) \<leftarrow> LoadHValueShim l;
     (flags, l) \<leftarrow> LoadPrimitive l;
     Some (HAllocateShim base flags, l)
   }"

lemma transmits_HAllocateShim [transmits_intros]: "transmits C (SaveHAllocateShim shim) LoadHAllocateShim shim"
  by (cases shim) (simp only: SaveHAllocateShim.simps LoadHAllocateShim_def [abs_def], (rule transmits_intros)+)

datatype HLoadRootShim =
    HLoadRootShim (LoadRoot_base: HValueShim) (LoadRoot_index: RootListIndex)

primrec SaveHLoadRootShim :: "HLoadRootShim \<Rightarrow> 'a sv" where
  "SaveHLoadRootShim (HLoadRootShim base index) = (\<lambda>s. do {
     s \<leftarrow> SaveHValueShim base s;
     SavePrimitive index s
   })"

definition LoadHLoadRootShim :: "'b loader_base_scheme \<Rightarrow> (HLoadRootShim, 'b) load_result" where
  "LoadHLoadRootShim l = do {
     (base, l) \<leftarrow> LoadHValueShim l;
     (index, l) \<leftarrow> LoadPrimitive l;
     Some (HLoadRootShim base index, l)
   }"

lemma transmits_HLoadRootShim [transmits_intros]: "transmits C (SaveHLoadRootShim shim) LoadHLoadRootShim shim"
  by (cases shim) (simp only: SaveHLoadRootShim.simps LoadHLoadRootShim_def [abs_def], (rule transmits_intros)+)

datatype HStringAddShim =
    HStringAddShim (StringAdd_base: HValueShim) (StringAdd_flags: StringAddFlags)
      (StringAdd_pretenure_flag: PretenureFlag)

primrec SaveHStringAddShim :: "HStringAddShim \<Rightarrow> 'a sv" where
  "SaveHStringAddShim (HStringAddShim base flags pretenure_flag) = (\<lambda>s. do {
     s \<leftarrow> SaveHValueShim base s;
     s \<leftarrow> SavePrimitive flags s;
     SavePrimitive pretenure_flag s
   })"

definition LoadHStringAddShim :: "'b loader_base_scheme \<Rightarrow> (HStringAddShim, 'b) load_result" where
  "LoadHStringAddShim l = do {
     (base, l) \<leftarrow> LoadHValueShim l;
     (flags, l) \<leftarrow> LoadPrimitive l;
     (pretenure_flag, l) \<leftarrow> LoadPrimitive l;
     Some (HStringAddShim base flags pretenure_flag, l)
   }"

lemma transmits_HStringAddShim [transmits_intros]: "transmits C (SaveHStringAddShim shim) LoadHStringAddShim shim"
  by (cases shim) (simp only: SaveHStringAddShim.simps LoadHStringAddShim_def [abs_def], (rule transmits_intros)+)

datatype HForInCacheArrayShim =
    HForInCacheArrayShim (ForInCacheArray_base: HValueShim) (ForInCacheArray_idx: int32)

primrec SaveHForInCacheArrayShim :: "HForInCacheArrayShim \<Rightarrow> 'a sv" where
  "SaveHForInCacheArrayShim (HForInCacheArrayShim base idx) = (\<lambda>s. do {
     s \<leftarrow> SaveHValueShim base s;
     SavePrimitive idx s
   })"

definition LoadHForInCacheArrayShim :: "'b loader_base_scheme \<Rightarrow> (HForInCacheArrayShim, 'b) load_result" where
  "LoadHForInCacheArrayShim l = do {
     (base, l) \<leftarrow> LoadHValueShim l;
     (idx, l) \<leftarrow> LoadPrimitive l;
     Some (HForInCacheArrayShim base idx, l)
   }"

lemma transmits_HForInCacheArrayShim [transmits_intros]: "transmits C (SaveHForInCacheArrayShim shim) LoadHForInCacheArrayShim shim"
  by (cases shim) (simp only: SaveHForInCacheArrayShim.simps LoadHForInCacheArrayShim_def [abs_def], (rule transmits_intros)+)

datatype HArgumentsElementsShim =
    HArgumentsElementsShim (ArgumentsElements_base: HValueShim)
      (ArgumentsElements_from_inlined: bool)

primrec SaveHArgumentsElementsShim :: "HArgumentsElementsShim \<Rightarrow> 'a sv" where
  "SaveHArgumentsElementsShim (HArgumentsElementsShim base from_inlined) = (\<lambda>s. do {
     s \<leftarrow> SaveHValueShim base s;
     SavePrimitive_bool from_inlined s
   })"

definition LoadHArgumentsElementsShim :: "'b loader_base_scheme \<Rightarrow> (HArgumentsElementsShim, 'b) load_result" where
  "LoadHArgumentsElementsShim l = do {
     (base, l) \<leftarrow> LoadHValueShim l;
     (from_inlined, l) \<leftarrow> LoadPrimitive_bool l;
     Some (HArgumentsElementsShim base from_inlined, l)
   }"

lemma transmits_HArgumentsElementsShim [transmits_intros]: "transmits C (SaveHArgumentsElementsShim shim) LoadHArgumentsElementsShim shim"
  by (cases shim) (simp only: SaveHArgumentsElementsShim.simps LoadHArgumentsElementsShim_def [abs_def], (rule transmits_intros)+)

datatype HWrapReceiverShim =
    HWrapReceiverShim (WrapReceiver_base: HValueShim) (WrapReceiver_known_function: bool)

primrec SaveHWrapReceiverShim :: "HWrapReceiverShim \<Rightarrow> 'a sv" where
  "SaveHWrapReceiverShim (HWrapReceiverShim base known_function) = (\<lambda>s. do {
     s \<leftarrow> SaveHValueShim base s;
     SavePrimitive_bool known_function s
   })"

definition LoadHWrapReceiverShim :: "'b loader_base_scheme \<Rightarrow> (HWrapReceiverShim, 'b) load_result" where
  "LoadHWrapReceiverShim l = do {
     (base, l) \<leftarrow> LoadHValueShim l;
     (known_function, l) \<leftarrow> LoadPrimitive_bool l;
     Some (HWrapReceiverShim base known_function, l)
   }"

lemma transmits_HWrapReceiverShim [transmits_intros]: "transmits C (SaveHWrapReceiverShim shim) LoadHWrapReceiverShim shim"
  by (cases shim) (simp only: SaveHWrapReceiverShim.simps LoadHWrapReceiverShim_def [abs_def], (rule transmits_intros)+)

section \<open>Their members\<close>

text \<open>The members that compute something; all others are the selectors above. In both classes of
  context slots \<^verbatim>\<open>kNoCheck\<close> is 0 and \<^verbatim>\<open>kCheckDeoptimize\<close> 1.\<close>

definition StoreContextSlot_DeoptimizesOnHole :: "HStoreContextSlotShim \<Rightarrow> bool" where
  "StoreContextSlot_DeoptimizesOnHole shim \<longleftrightarrow> StoreContextSlot_mode shim = 1"

definition StoreContextSlot_RequiresHoleCheck :: "HStoreContextSlotShim \<Rightarrow> bool" where
  "StoreContextSlot_RequiresHoleCheck shim \<longleftrightarrow> StoreContextSlot_mode shim \<noteq> 0"

definition LoadContextSlot_DeoptimizesOnHole :: "HLoadContextSlotShim \<Rightarrow> bool" where
  "LoadContextSlot_DeoptimizesOnHole shim \<longleftrightarrow> LoadContextSlot_mode shim = 1"

definition LoadContextSlot_RequiresHoleCheck :: "HLoadContextSlotShim \<Rightarrow> bool" where
  "LoadContextSlot_RequiresHoleCheck shim \<longleftrightarrow> LoadContextSlot_mode shim \<noteq> 0"

definition CanTruncateToInt32 :: "HChangeShim \<Rightarrow> bool" where
  "CanTruncateToInt32 shim = CheckFlag kTruncatingToInt32 (UnaryOperation_base (Change_base shim))"

definition deoptimize_on_minus_zero :: "HChangeShim \<Rightarrow> bool" where
  "deoptimize_on_minus_zero shim = CheckFlag kBailoutOnMinusZero (UnaryOperation_base (Change_base shim))"

definition Keyed_is_external :: "HKeyedShim \<Rightarrow> bool" where
  "Keyed_is_external shim = IsExternalArrayElementsKind (Keyed_elements_kind shim)"

definition Keyed_is_fixed_typed_array :: "HKeyedShim \<Rightarrow> bool" where
  "Keyed_is_fixed_typed_array shim = IsFixedTypedArrayElementsKind (Keyed_elements_kind shim)"

definition StackCheck_is_function_entry :: "HStackCheckShim \<Rightarrow> bool" where
  "StackCheck_is_function_entry shim \<longleftrightarrow> StackCheck_type shim = 0"

definition StackCheck_is_backwards_branch :: "HStackCheckShim \<Rightarrow> bool" where
  "StackCheck_is_backwards_branch shim \<longleftrightarrow> StackCheck_type shim = 1"

definition IsNewSpaceAllocation :: "HAllocateShim \<Rightarrow> bool" where
  "IsNewSpaceAllocation shim \<longleftrightarrow> Allocate_flags shim AND push_bit 0 1 \<noteq> 0"

definition IsOldDataSpaceAllocation :: "HAllocateShim \<Rightarrow> bool" where
  "IsOldDataSpaceAllocation shim \<longleftrightarrow> Allocate_flags shim AND push_bit 1 1 \<noteq> 0"

definition IsOldPointerSpaceAllocation :: "HAllocateShim \<Rightarrow> bool" where
  "IsOldPointerSpaceAllocation shim \<longleftrightarrow> Allocate_flags shim AND push_bit 2 1 \<noteq> 0"

definition MustAllocateDoubleAligned :: "HAllocateShim \<Rightarrow> bool" where
  "MustAllocateDoubleAligned shim \<longleftrightarrow> Allocate_flags shim AND push_bit 3 1 \<noteq> 0"

definition MustPrefillWithFiller :: "HAllocateShim \<Rightarrow> bool" where
  "MustPrefillWithFiller shim \<longleftrightarrow> Allocate_flags shim AND push_bit 4 1 \<noteq> 0"

end
