(* ===== verification/HeapShims.thy ===== *)
theory HeapShims
  imports Shims ObjectsProperties
begin

text \<open>
  The shims of \<^verbatim>\<open>src/hydrogen-shim.h\<close> that refer to heap objects, maps, functions or strings,
  with their saving and loading in \<^verbatim>\<open>src/x64/lithium-saveload-x64.cc\<close>, and what becomes of a shim
  that is saved and loaded. A loader that may fail returns \<^const>\<open>None\<close> for the
  default-constructed shim.
\<close>

section \<open>Shims with handles\<close>

text \<open>A reason is a string of C: its characters before the terminating zero. The loader copies all
  that was written and puts a zero behind it.\<close>

datatype HDeoptimizeShim =
    HDeoptimizeShim (Deoptimize_base: HValueShim) (Deoptimize_reason: "byte list")
      (Deoptimize_type: BailoutType)

primrec SaveHDeoptimizeShim :: "HDeoptimizeShim \<Rightarrow> 'a sv" where
  "SaveHDeoptimizeShim (HDeoptimizeShim base cause type) = (\<lambda>s. do {
     s \<leftarrow> SaveHValueShim base s;
     s \<leftarrow> SavePrimitiveArray cause s;
     SavePrimitive type s
   })"

definition LoadHDeoptimizeShim :: "'b loader_base_scheme \<Rightarrow> (HDeoptimizeShim, 'b) load_result" where
  "LoadHDeoptimizeShim l = do {
     (base, l) \<leftarrow> LoadHValueShim l;
     (reason_unterminated, l) \<leftarrow> LoadPrimitiveArray l;
     let cause = takeWhile (\<lambda>c. c \<noteq> 0) (reason_unterminated @ [0]);
     (type, l) \<leftarrow> LoadPrimitive l;
     Some (HDeoptimizeShim base cause type, l)
   }"

datatype HFunctionLiteralShim =
    HFunctionLiteralShim (FunctionLiteral_base: HValueShim) (FunctionLiteral_shared_info: "addr option")
      (FunctionLiteral_pretenure: bool) (FunctionLiteral_has_no_literals: bool)
      (FunctionLiteral_kind: FunctionKind) (FunctionLiteral_strict_mode: StrictMode)

primrec SaveHFunctionLiteralShim :: "'w world_scheme \<Rightarrow> HFunctionLiteralShim \<Rightarrow> 'a sv" where
  "SaveHFunctionLiteralShim w
     (HFunctionLiteralShim base shared_info pretenure has_no_literals kind strict_mode) = (\<lambda>s. do {
     s \<leftarrow> SaveHValueShim base s;
     info \<leftarrow> shared_info;
     s \<leftarrow> SaveSharedFunctionInfo w info s;
     s \<leftarrow> SavePrimitive_bool pretenure s;
     s \<leftarrow> SavePrimitive_bool has_no_literals s;
     s \<leftarrow> SavePrimitive kind s;
     SavePrimitive strict_mode s
   })"

definition LoadHFunctionLiteralShim ::
  "'w world_scheme \<Rightarrow> 'b loader_base_scheme \<Rightarrow> (HFunctionLiteralShim option, 'b) load_result" where
  "LoadHFunctionLiteralShim w l = do {
     (base, l) \<leftarrow> LoadHValueShim l;
     (shared_info, l) \<leftarrow> LoadSharedFunctionInfo w l;
     RETURN_VALUE_ON_FAIL None l (do {
       (pretenure, l) \<leftarrow> LoadBool l;
       (has_no_literals, l) \<leftarrow> LoadPrimitive_bool l;
       (kind, l) \<leftarrow> LoadPrimitive l;
       (strict_mode, l) \<leftarrow> LoadPrimitive l;
       Some (Some (HFunctionLiteralShim base shared_info pretenure has_no_literals kind strict_mode), l)
     })
   }"

datatype HCompareMapShim =
    HCompareMapShim (CompareMap_base: HControlInstructionShim) (CompareMap_map: "heap_map option")

primrec SaveHCompareMapShim :: "'w heap_world_scheme \<Rightarrow> HCompareMapShim \<Rightarrow> 'a sv" where
  "SaveHCompareMapShim w (HCompareMapShim base m) = (\<lambda>s. do {
     s \<leftarrow> SaveHControlInstructionShim base s;
     m \<leftarrow> m;
     SaveMap w m s
   })"

definition LoadHCompareMapShim ::
  "'w heap_world_scheme \<Rightarrow> 'b loader_base_scheme \<Rightarrow> (HCompareMapShim option, 'b) load_result" where
  "LoadHCompareMapShim w l = do {
     (base, l) \<leftarrow> LoadHControlInstructionShim l;
     (m, l) \<leftarrow> LoadMap w l;
     RETURN_VALUE_ON_FAIL None l (Some (Some (HCompareMapShim base m), l))
   }"

text \<open>A handle to a heap object; a Smi in it would be cast to one.\<close>

definition SaveHeapObject_handle :: "'w heap_world_scheme \<Rightarrow> obj option \<Rightarrow> 'a sv" where
  "SaveHeapObject_handle w object =
     (case object of Some (OHeap h) \<Rightarrow> SaveHeapObject w h | _ \<Rightarrow> (\<lambda>s. None))"

datatype HCheckValueShim =
    HCheckValueShim (CheckValue_base: HValueShim) (CheckValue_object: "obj option")

primrec SaveHCheckValueShim :: "'w heap_world_scheme \<Rightarrow> HCheckValueShim \<Rightarrow> 'a sv" where
  "SaveHCheckValueShim w (HCheckValueShim base object) = (\<lambda>s. do {
     s \<leftarrow> SaveHValueShim base s;
     SaveHeapObject_handle w object s
   })"

definition LoadHCheckValueShim ::
  "'w heap_world_scheme \<Rightarrow> 'b loader_base_scheme \<Rightarrow> (HCheckValueShim, 'b) load_result" where
  "LoadHCheckValueShim w l = do {
     (base, l) \<leftarrow> LoadHValueShim l;
     (object, l) \<leftarrow> LoadHeapObject w l;
     Some (HCheckValueShim base object, l)
   }"

text \<open>The set of maps in its order, which is by address. Adding the null map that a failed
  \<^verbatim>\<open>LoadMap\<close> returns dereferences it.\<close>

datatype HCheckMapsShim =
    HCheckMapsShim (CheckMaps_base: HValueShim) (CheckMaps_bit_field: uint32)
      (CheckMaps_maps: "heap_map list")

definition IsStabilityCheck :: "HCheckMapsShim \<Rightarrow> bool" where
  "IsStabilityCheck shim \<longleftrightarrow> BitField_decode 1 1 (CheckMaps_bit_field shim) \<noteq> 0"

definition HasMigrationTarget :: "HCheckMapsShim \<Rightarrow> bool" where
  "HasMigrationTarget shim \<longleftrightarrow> BitField_decode 0 1 (CheckMaps_bit_field shim) \<noteq> 0"

fun save_maps :: "'w heap_world_scheme \<Rightarrow> heap_map list \<Rightarrow> 'a sv" where
  "save_maps w [] s = Some s"
| "save_maps w (m # ms) s = do {
     s \<leftarrow> SaveMap w m s;
     RETURN_ON_FAIL s (save_maps w ms s)
   }"

primrec SaveHCheckMapsShim :: "'w heap_world_scheme \<Rightarrow> HCheckMapsShim \<Rightarrow> 'a sv" where
  "SaveHCheckMapsShim w (HCheckMapsShim base bits maps) = (\<lambda>s. do {
     s \<leftarrow> SaveHValueShim base s;
     s \<leftarrow> SavePrimitive bits s;
     s \<leftarrow> SavePrimitive (int_length maps) s;
     save_maps w maps s
   })"

definition load_map ::
  "'w heap_world_scheme \<Rightarrow> 'b loader_base_scheme \<Rightarrow> (heap_map, 'b) load_result" where
  "load_map w l = do {
     (m, l) \<leftarrow> LoadMap w l;
     m \<leftarrow> m;
     Some (m, l)
   }"

definition LoadHCheckMapsShim ::
  "'w heap_world_scheme \<Rightarrow> 'b loader_base_scheme \<Rightarrow> (HCheckMapsShim, 'b) load_result" where
  "LoadHCheckMapsShim w l = do {
     (base, l) \<leftarrow> LoadHValueShim l;
     (bits, l) \<leftarrow> LoadPrimitive l;
     (number_of_maps, l) \<leftarrow> LoadPrimitive l;
     (maps, l) \<leftarrow> load_each (load_map w) (iterations number_of_maps) l;
     Some (HCheckMapsShim base bits maps, l)
   }"

datatype HDeclareGlobalsShim =
    HDeclareGlobalsShim (DeclareGlobals_base: HValueShim) (DeclareGlobals_pairs: "obj list")
      (DeclareGlobals_flags: int32)

primrec SaveHDeclareGlobalsShim :: "'w heap_world_scheme \<Rightarrow> HDeclareGlobalsShim \<Rightarrow> 'a sv" where
  "SaveHDeclareGlobalsShim w (HDeclareGlobalsShim base pairs flags) = (\<lambda>s. do {
     s \<leftarrow> SaveHValueShim base s;
     s \<leftarrow> SaveFixedArray w pairs s;
     SavePrimitive flags s
   })"

definition LoadHDeclareGlobalsShim ::
  "'w heap_world_scheme \<Rightarrow> 'b loader_base_scheme \<Rightarrow> (HDeclareGlobalsShim, 'b) load_result" where
  "LoadHDeclareGlobalsShim w l = do {
     (base, l) \<leftarrow> LoadHValueShim l;
     (pairs, l) \<leftarrow> LoadFixedArray w l;
     (flags, l) \<leftarrow> LoadPrimitive l;
     Some (HDeclareGlobalsShim base pairs flags, l)
   }"

text \<open>The loader looks the cell up by its name in the global object, which makes one if there is
  none.\<close>

record shim_world = heap_world +
  w_EnsurePropertyCell :: "uint16 list \<Rightarrow> addr"

datatype HGlobalCellShim =
    HGlobalCellShim (GlobalCell_base: HValueShim) (GlobalCell_name: js_string)
      (GlobalCell_cell: addr) (GlobalCell_requires_hole_check: bool)

primrec SaveHGlobalCellShim :: "HGlobalCellShim \<Rightarrow> 'a sv" where
  "SaveHGlobalCellShim (HGlobalCellShim base name cell requires_hole_check) = (\<lambda>s. do {
     s \<leftarrow> SaveHValueShim base s;
     s \<leftarrow> SavePrimitive_bool requires_hole_check s;
     SaveString name s
   })"

definition LoadHGlobalCellShim ::
  "'w shim_world_scheme \<Rightarrow> 'b loader_base_scheme \<Rightarrow> (HGlobalCellShim, 'b) load_result" where
  "LoadHGlobalCellShim w l = do {
     (base, l) \<leftarrow> LoadHValueShim l;
     (requires_hole_check, l) \<leftarrow> LoadPrimitive_bool l;
     (name, l) \<leftarrow> LoadString l;
     let cell = w_EnsurePropertyCell w (str_units name);
     Some (HGlobalCellShim base name cell requires_hole_check, l)
   }"

text \<open>The function is that of the Hydrogen constant, if the callee is one, and later the loaded
  handle.\<close>

datatype HCallJSFunctionShim =
    HCallJSFunctionShim (CallJSFunction_base: HCallShim) (CallJSFunction_hydrogen_constant: "addr option")
      (CallJSFunction_handle: "addr option") (CallJSFunction_pass_argument_count: bool)

definition CallJSFunction_function :: "HCallJSFunctionShim \<Rightarrow> addr option" where
  "CallJSFunction_function shim =
     (case CallJSFunction_hydrogen_constant shim of Some f \<Rightarrow> Some f | None \<Rightarrow> CallJSFunction_handle shim)"

definition CallJSFunction_has_function :: "HCallJSFunctionShim \<Rightarrow> bool" where
  "CallJSFunction_has_function shim \<longleftrightarrow>
     CallJSFunction_hydrogen_constant shim \<noteq> None \<or> CallJSFunction_handle shim \<noteq> None"

definition SaveHCallJSFunctionShim :: "'w world_scheme \<Rightarrow> HCallJSFunctionShim \<Rightarrow> 'a sv" where
  "SaveHCallJSFunctionShim w shim s = do {
     s \<leftarrow> SaveHCallShim (CallJSFunction_base shim) s;
     s \<leftarrow> SavePrimitive_bool (CallJSFunction_pass_argument_count shim) s;
     case CallJSFunction_function shim of
       Some f \<Rightarrow> do { s \<leftarrow> SaveTrue s; SaveJSFunction w f s }
     | None \<Rightarrow> SaveFalse s
   }"

definition LoadHCallJSFunctionShim ::
  "'w world_scheme \<Rightarrow> 'b loader_base_scheme \<Rightarrow> (HCallJSFunctionShim option, 'b) load_result" where
  "LoadHCallJSFunctionShim w l = do {
     (base, l) \<leftarrow> LoadHCallShim l;
     (pass_argument_count, l) \<leftarrow> LoadBool l;
     (has_function, l) \<leftarrow> LoadBool l;
     if has_function then do {
       (f, l) \<leftarrow> LoadJSFunction w l;
       RETURN_VALUE_ON_FAIL None l (Some (Some (HCallJSFunctionShim base None f pass_argument_count), l))
     } else Some (Some (HCallJSFunctionShim base None None pass_argument_count), l)
   }"

text \<open>Neither the known function nor the number of its parameters is written.\<close>

datatype HInvokeFunctionShim =
    HInvokeFunctionShim (InvokeFunction_base: HCallShim) (InvokeFunction_known_function: "addr option")
      (InvokeFunction_formal_parameter_count: int32)

primrec SaveHInvokeFunctionShim :: "HInvokeFunctionShim \<Rightarrow> 'a sv" where
  "SaveHInvokeFunctionShim (HInvokeFunctionShim base known_function formal_parameter_count) =
     SaveHCallShim base"

definition LoadHInvokeFunctionShim ::
  "'b loader_base_scheme \<Rightarrow> (HInvokeFunctionShim, 'b) load_result" where
  "LoadHInvokeFunctionShim l = do {
     (base, l) \<leftarrow> LoadHCallShim l;
     Some (HInvokeFunctionShim base None (-1), l)
   }"

text \<open>The two members of the union.\<close>

datatype instance_type_check = IntervalCheck InstanceType InstanceType | MaskAndTagCheck byte byte

datatype HCheckInstanceTypeShim =
    HCheckInstanceTypeShim (CheckInstanceType_base: HValueShim) (CheckInstanceType_check: instance_type_check)

primrec SaveHCheckInstanceTypeShim :: "HCheckInstanceTypeShim \<Rightarrow> 'a sv" where
  "SaveHCheckInstanceTypeShim (HCheckInstanceTypeShim base check) = (\<lambda>s. do {
     s \<leftarrow> SaveHValueShim base s;
     case check of
       IntervalCheck first_type last_type \<Rightarrow> do {
         s \<leftarrow> SavePrimitive_bool True s;
         s \<leftarrow> SavePrimitive first_type s;
         SavePrimitive last_type s
       }
     | MaskAndTagCheck type_mask tag \<Rightarrow> do {
         s \<leftarrow> SavePrimitive_bool False s;
         s \<leftarrow> SavePrimitive type_mask s;
         SavePrimitive tag s
       }
   })"

definition LoadHCheckInstanceTypeShim ::
  "'b loader_base_scheme \<Rightarrow> (HCheckInstanceTypeShim, 'b) load_result" where
  "LoadHCheckInstanceTypeShim l = do {
     (base, l) \<leftarrow> LoadHValueShim l;
     (is_interval_check, l) \<leftarrow> LoadBool l;
     if is_interval_check then do {
       (first_type, l) \<leftarrow> LoadPrimitive l;
       (last_type, l) \<leftarrow> LoadPrimitive l;
       Some (HCheckInstanceTypeShim base (IntervalCheck first_type last_type), l)
     } else do {
       (type_mask, l) \<leftarrow> LoadPrimitive l;
       (tag, l) \<leftarrow> LoadPrimitive l;
       Some (HCheckInstanceTypeShim base (MaskAndTagCheck type_mask tag), l)
     }
   }"

datatype HStoreNamedFieldShim =
    HStoreNamedFieldShim (StoreNamedField_base: HLoadNamedFieldShim)
      (StoreNamedField_needs_write_barrier: bool) (StoreNamedField_needs_write_barrier_for_map: bool)
      (StoreNamedField_transition_map: "heap_map option") (StoreNamedField_value: HValueShim)
      (StoreNamedField_pointers_to_here_check_for_value: PointersToHereCheck)
      (StoreNamedField_bit_field: uint32)

definition StoreNamedField_has_transition :: "HStoreNamedFieldShim \<Rightarrow> bool" where
  "StoreNamedField_has_transition shim \<longleftrightarrow> BitField_decode 0 1 (StoreNamedField_bit_field shim) \<noteq> 0"

definition StoreNamedField_store_mode :: "HStoreNamedFieldShim \<Rightarrow> StoreFieldOrKeyedMode" where
  "StoreNamedField_store_mode shim = BitField_decode 1 1 (StoreNamedField_bit_field shim)"

definition StoreNamedField_field_representation :: "HStoreNamedFieldShim \<Rightarrow> Representation option" where
  "StoreNamedField_field_representation shim =
     access_representation (LoadNamedField_value (StoreNamedField_base shim))"

text \<open>\<^verbatim>\<open>INLINE_SMI_CHECK\<close> is 0 and \<^verbatim>\<open>OMIT_SMI_CHECK\<close> is 1.\<close>

definition SmiCheckForWriteBarrier :: "HStoreNamedFieldShim \<Rightarrow> SmiCheck" where
  "SmiCheckForWriteBarrier shim =
     (if StoreNamedField_field_representation shim = Some kHeapObject then 1
      else if IsSubtypeOf (shim_type (StoreNamedField_value shim)) HType_HeapObject then 1
      else 0)"

primrec SaveHStoreNamedFieldShim :: "'w heap_world_scheme \<Rightarrow> HStoreNamedFieldShim \<Rightarrow> 'a sv" where
  "SaveHStoreNamedFieldShim w (HStoreNamedFieldShim base needs_write_barrier needs_write_barrier_for_map
       transition_map v pointers_to_here_check_for_value bits) = (\<lambda>s. do {
     s \<leftarrow> SaveHLoadNamedFieldShim base s;
     s \<leftarrow> SavePrimitive_bool needs_write_barrier s;
     s \<leftarrow> SavePrimitive_bool needs_write_barrier_for_map s;
     s \<leftarrow> SaveHValueShim v s;
     s \<leftarrow> SavePrimitive pointers_to_here_check_for_value s;
     s \<leftarrow> SavePrimitive bits s;
     case transition_map of
       Some m \<Rightarrow> do { s \<leftarrow> SaveTrue s; SaveMap w m s }
     | None \<Rightarrow> SaveFalse s
   })"

definition LoadHStoreNamedFieldShim ::
  "'w heap_world_scheme \<Rightarrow> 'b loader_base_scheme \<Rightarrow> (HStoreNamedFieldShim option, 'b) load_result" where
  "LoadHStoreNamedFieldShim w l = do {
     (base, l) \<leftarrow> LoadHLoadNamedFieldShim l;
     (needs_write_barrier, l) \<leftarrow> LoadBool l;
     (needs_write_barrier_for_map, l) \<leftarrow> LoadBool l;
     (v, l) \<leftarrow> LoadHValueShim l;
     (pointers_to_here_check_for_value, l) \<leftarrow> LoadPrimitive l;
     (bits, l) \<leftarrow> LoadPrimitive l;
     (has_transition, l) \<leftarrow> LoadBool l;
     let shim = (\<lambda>transition_map. HStoreNamedFieldShim base needs_write_barrier
       needs_write_barrier_for_map transition_map v pointers_to_here_check_for_value bits);
     if has_transition then do {
       (transition_map, l) \<leftarrow> LoadMap w l;
       RETURN_VALUE_ON_FAIL None l (Some (Some (shim transition_map), l))
     } else Some (Some (shim None), l)
   }"

datatype HStoreNamedGenericShim =
    HStoreNamedGenericShim (StoreNamedGeneric_base: HValueShim) (StoreNamedGeneric_name: "obj option")
      (StoreNamedGeneric_strict_mode: StrictMode)

primrec SaveHStoreNamedGenericShim :: "'w heap_world_scheme \<Rightarrow> HStoreNamedGenericShim \<Rightarrow> 'a sv" where
  "SaveHStoreNamedGenericShim w (HStoreNamedGenericShim base name strict_mode) = (\<lambda>s. do {
     s \<leftarrow> SaveHValueShim base s;
     s \<leftarrow> SaveHeapObject_handle w name s;
     SavePrimitive strict_mode s
   })"

definition LoadHStoreNamedGenericShim ::
  "'w heap_world_scheme \<Rightarrow> 'b loader_base_scheme \<Rightarrow> (HStoreNamedGenericShim, 'b) load_result" where
  "LoadHStoreNamedGenericShim w l = do {
     (base, l) \<leftarrow> LoadHValueShim l;
     (name, l) \<leftarrow> LoadHeapObject w l;
     (strict_mode, l) \<leftarrow> LoadPrimitive l;
     Some (HStoreNamedGenericShim base name strict_mode, l)
   }"

datatype HLoadNamedGenericShim =
    HLoadNamedGenericShim (LoadNamedGeneric_base: HValueShim) (LoadNamedGeneric_name: "obj option")

primrec SaveHLoadNamedGenericShim :: "'w heap_world_scheme \<Rightarrow> HLoadNamedGenericShim \<Rightarrow> 'a sv" where
  "SaveHLoadNamedGenericShim w (HLoadNamedGenericShim base name) = (\<lambda>s. do {
     s \<leftarrow> SaveHValueShim base s;
     SaveHeapObject_handle w name s
   })"

definition LoadHLoadNamedGenericShim ::
  "'w heap_world_scheme \<Rightarrow> 'b loader_base_scheme \<Rightarrow> (HLoadNamedGenericShim, 'b) load_result" where
  "LoadHLoadNamedGenericShim w l = do {
     (base, l) \<leftarrow> LoadHValueShim l;
     (name, l) \<leftarrow> LoadHeapObject w l;
     Some (HLoadNamedGenericShim base name, l)
   }"

datatype HTransitionElementsKindShim =
    HTransitionElementsKindShim (TransitionElementsKind_base: HValueShim)
      (TransitionElementsKind_original_map: "heap_map option")
      (TransitionElementsKind_transitioned_map: "heap_map option")
      (TransitionElementsKind_from_kind: ElementsKind) (TransitionElementsKind_to_kind: ElementsKind)

primrec SaveHTransitionElementsKindShim ::
  "'w heap_world_scheme \<Rightarrow> HTransitionElementsKindShim \<Rightarrow> 'a sv" where
  "SaveHTransitionElementsKindShim w
     (HTransitionElementsKindShim base original_map transitioned_map from_kind to_kind) = (\<lambda>s. do {
     s \<leftarrow> SaveHValueShim base s;
     original \<leftarrow> original_map;
     s \<leftarrow> SaveMap w original s;
     transitioned \<leftarrow> transitioned_map;
     s \<leftarrow> SaveMap w transitioned s;
     s \<leftarrow> SavePrimitive_ElementsKind from_kind s;
     SavePrimitive_ElementsKind to_kind s
   })"

definition LoadHTransitionElementsKindShim ::
  "'w heap_world_scheme \<Rightarrow> 'b loader_base_scheme \<Rightarrow> (HTransitionElementsKindShim option, 'b) load_result" where
  "LoadHTransitionElementsKindShim w l = do {
     (base, l) \<leftarrow> LoadHValueShim l;
     (original_map, l) \<leftarrow> LoadMap w l;
     RETURN_VALUE_ON_FAIL None l (do {
       (transitioned_map, l) \<leftarrow> LoadMap w l;
       RETURN_VALUE_ON_FAIL None l (do {
         (from_kind, l) \<leftarrow> LoadPrimitive_ElementsKind l;
         (to_kind, l) \<leftarrow> LoadPrimitive_ElementsKind l;
         Some (Some (HTransitionElementsKindShim base original_map transitioned_map from_kind to_kind), l)
       })
     })
   }"

datatype HLoadGlobalGenericShim =
    HLoadGlobalGenericShim (LoadGlobalGeneric_base: HValueShim) (LoadGlobalGeneric_name: js_name)
      (LoadGlobalGeneric_for_typeof: bool)

primrec SaveHLoadGlobalGenericShim :: "'w world_scheme \<Rightarrow> HLoadGlobalGenericShim \<Rightarrow> 'a sv" where
  "SaveHLoadGlobalGenericShim w (HLoadGlobalGenericShim base name for_typeof) = (\<lambda>s. do {
     s \<leftarrow> SaveHValueShim base s;
     s \<leftarrow> SaveName w name s;
     SavePrimitive_bool for_typeof s
   })"

definition LoadHLoadGlobalGenericShim ::
  "'w world_scheme \<Rightarrow> 'b loader_base_scheme \<Rightarrow> (HLoadGlobalGenericShim, 'b) load_result" where
  "LoadHLoadGlobalGenericShim w l = do {
     (base, l) \<leftarrow> LoadHValueShim l;
     (name, l) \<leftarrow> LoadName w l;
     (for_typeof, l) \<leftarrow> LoadPrimitive_bool l;
     Some (HLoadGlobalGenericShim base name for_typeof, l)
   }"

datatype HRegExpLiteralShim =
    HRegExpLiteralShim (RegExpLiteral_base: HValueShim) (RegExpLiteral_literals: "obj list")
      (RegExpLiteral_literal_index: int32) (RegExpLiteral_pattern: js_string)
      (RegExpLiteral_flags: js_string)

primrec SaveHRegExpLiteralShim :: "'w heap_world_scheme \<Rightarrow> HRegExpLiteralShim \<Rightarrow> 'a sv" where
  "SaveHRegExpLiteralShim w (HRegExpLiteralShim base literals literal_index pattern flags) = (\<lambda>s. do {
     s \<leftarrow> SaveHValueShim base s;
     s \<leftarrow> SaveFixedArray w literals s;
     s \<leftarrow> SavePrimitive literal_index s;
     s \<leftarrow> SaveString pattern s;
     SaveString flags s
   })"

definition LoadHRegExpLiteralShim ::
  "'w heap_world_scheme \<Rightarrow> 'b loader_base_scheme \<Rightarrow> (HRegExpLiteralShim, 'b) load_result" where
  "LoadHRegExpLiteralShim w l = do {
     (base, l) \<leftarrow> LoadHValueShim l;
     (literals, l) \<leftarrow> LoadFixedArray w l;
     (literal_index, l) \<leftarrow> LoadPrimitive l;
     (pattern, l) \<leftarrow> LoadString l;
     (flags, l) \<leftarrow> LoadString l;
     Some (HRegExpLiteralShim base literals literal_index pattern flags, l)
   }"

datatype HInstanceOfKnownGlobalShim =
    HInstanceOfKnownGlobalShim (InstanceOfKnownGlobal_base: HValueShim)
      (InstanceOfKnownGlobal_function: "addr option")

primrec SaveHInstanceOfKnownGlobalShim :: "'w world_scheme \<Rightarrow> HInstanceOfKnownGlobalShim \<Rightarrow> 'a sv" where
  "SaveHInstanceOfKnownGlobalShim w (HInstanceOfKnownGlobalShim base f) = (\<lambda>s. do {
     s \<leftarrow> SaveHValueShim base s;
     f \<leftarrow> f;
     SaveJSFunction w f s
   })"

definition LoadHInstanceOfKnownGlobalShim ::
  "'w world_scheme \<Rightarrow> 'b loader_base_scheme \<Rightarrow> (HInstanceOfKnownGlobalShim option, 'b) load_result" where
  "LoadHInstanceOfKnownGlobalShim w l = do {
     (base, l) \<leftarrow> LoadHValueShim l;
     (f, l) \<leftarrow> LoadJSFunction w l;
     RETURN_VALUE_ON_FAIL None l (Some (Some (HInstanceOfKnownGlobalShim base f), l))
   }"

datatype HTypeofIsAndBranchShim =
    HTypeofIsAndBranchShim (TypeofIsAndBranch_base: HControlInstructionShim)
      (TypeofIsAndBranch_type_literal: js_string)

primrec SaveHTypeofIsAndBranchShim :: "HTypeofIsAndBranchShim \<Rightarrow> 'a sv" where
  "SaveHTypeofIsAndBranchShim (HTypeofIsAndBranchShim base type_literal) = (\<lambda>s. do {
     s \<leftarrow> SaveHControlInstructionShim base s;
     SaveString type_literal s
   })"

definition LoadHTypeofIsAndBranchShim ::
  "'b loader_base_scheme \<Rightarrow> (HTypeofIsAndBranchShim, 'b) load_result" where
  "LoadHTypeofIsAndBranchShim l = do {
     (base, l) \<leftarrow> LoadHControlInstructionShim l;
     (type_literal, l) \<leftarrow> LoadString l;
     Some (HTypeofIsAndBranchShim base type_literal, l)
   }"

end
