(* ===== verification/Doubles.thy ===== *)
theory Doubles
  imports Objects
begin

text \<open>
  IEEE numbers as words of 64 bits: the class \<^verbatim>\<open>Double\<close> of \<^verbatim>\<open>src/double.h\<close>, \<^verbatim>\<open>DiyFp\<close> of
  \<^verbatim>\<open>src/diy-fp.h\<close> and \<^verbatim>\<open>.cc\<close>, and the conversions between integers and doubles of
  \<^verbatim>\<open>src/conversions.h\<close> and \<^verbatim>\<open>src/conversions-inl.h\<close> with which constants are written and
  rebuilt. The theorems say that \<^verbatim>\<open>DoubleToInt32\<close> truncates and wraps around as ECMAScript
  prescribes, that multiplication rounds the exact product, and that a double is what its significand
  and exponent say.
\<close>

section \<open>The parts of a double\<close>

definition kSignMask :: double where "kSignMask = 0x8000000000000000"
definition kExponentMask :: double where "kExponentMask = 0x7FF0000000000000"
definition kSignificandMask :: double where "kSignificandMask = 0x000FFFFFFFFFFFFF"
definition kHiddenBit :: double where "kHiddenBit = 0x0010000000000000"
definition kPhysicalSignificandSize :: nat where "kPhysicalSignificandSize = 52"
definition kSignificandSize :: int where "kSignificandSize = 53"
definition kExponentBias :: int where "kExponentBias = 0x3FF + 52"
definition kDenormalExponent :: int where "kDenormalExponent = - kExponentBias + 1"
definition kMaxExponent :: int where "kMaxExponent = 0x7FF - kExponentBias"
definition kInfinity :: double where "kInfinity = 0x7FF0000000000000"

lemmas double_consts = kSignMask_def kExponentMask_def kSignificandMask_def kHiddenBit_def
  kPhysicalSignificandSize_def kSignificandSize_def kExponentBias_def kDenormalExponent_def
  kMaxExponent_def kInfinity_def

definition IsDenormal :: "double \<Rightarrow> bool" where
  "IsDenormal d \<longleftrightarrow> d AND kExponentMask = 0"

definition IsSpecial :: "double \<Rightarrow> bool" where
  "IsSpecial d \<longleftrightarrow> d AND kExponentMask = kExponentMask"

definition IsInfinite :: "double \<Rightarrow> bool" where
  "IsInfinite d \<longleftrightarrow> d AND kExponentMask = kExponentMask \<and> d AND kSignificandMask = 0"

definition Sign :: "double \<Rightarrow> int" where
  "Sign d = (if d AND kSignMask = 0 then 1 else -1)"

definition Exponent :: "double \<Rightarrow> int" where
  "Exponent d =
     (if IsDenormal d then kDenormalExponent
      else uint (drop_bit kPhysicalSignificandSize (d AND kExponentMask)) - kExponentBias)"

definition Significand :: "double \<Rightarrow> double" where
  "Significand d =
     (let significand = d AND kSignificandMask
      in if \<not> IsDenormal d then significand + kHiddenBit else significand)"

definition NextDouble :: "double \<Rightarrow> double" where
  "NextDouble d =
     (if d = kInfinity then kInfinity
      else if Sign d < 0 \<and> Significand d = 0 then 0
      else if Sign d < 0 then d - 1 else d + 1)"

definition SignificandSizeForOrderOfMagnitude :: "int \<Rightarrow> int" where
  "SignificandSizeForOrderOfMagnitude order =
     (if order \<ge> kDenormalExponent + kSignificandSize then kSignificandSize
      else if order \<le> kDenormalExponent then 0
      else order - kDenormalExponent)"

section \<open>DiyFp\<close>

record DiyFp =
  dp_f :: double
  dp_e :: int

definition Subtract_DiyFp :: "DiyFp \<Rightarrow> DiyFp \<Rightarrow> DiyFp" where
  "Subtract_DiyFp other this = this\<lparr>dp_f := dp_f this - dp_f other\<rparr>"

definition Multiply :: "DiyFp \<Rightarrow> DiyFp \<Rightarrow> DiyFp" where
  "Multiply other this =
     (let kM32 = 0xFFFFFFFF;
          a = drop_bit 32 (dp_f this);
          b = dp_f this AND kM32;
          c = drop_bit 32 (dp_f other);
          d = dp_f other AND kM32;
          ac = a * c;
          bc = b * c;
          ad = a * d;
          bd = b * d;
          tmp = drop_bit 32 bd + (ad AND kM32) + (bc AND kM32);
          tmp = tmp + push_bit 31 1;
          result_f = ac + drop_bit 32 ad + drop_bit 32 bc + drop_bit 32 tmp
      in this\<lparr>dp_e := dp_e this + dp_e other + 64, dp_f := result_f\<rparr>)"

text \<open>The two loops of \<^verbatim>\<open>Normalize\<close> shift by 10 bits and then by one, while the highest bits are
  zero. They would run forever on 0.\<close>

function shift_while :: "nat \<Rightarrow> double \<Rightarrow> int \<Rightarrow> (double \<times> int) option" where
  "shift_while k f e =
     (if f = 0 \<or> k = 0 \<or> 64 \<le> k then None
      else if f AND push_bit (64 - k) (mask k) = 0 then shift_while k (push_bit k f) (e - int k)
      else Some (f, e))"
  by pat_completeness auto

lemma high_bits_zero:
  assumes "(f :: double) AND push_bit (64 - k) (mask k) = 0" "k < 64"
  shows "unat f < 2 ^ (64 - k)"
proof -
  have "\<not> bit f n" if "64 - k \<le> n" for n
  proof
    assume f: "bit f n"
    then have "n < 64" using bit_imp_le_length by fastforce
    with f that assms(2) have "bit (f AND push_bit (64 - k) (mask k)) n" by (simp add: bit_simps) linarith
    with assms(1) show False by simp
  qed
  then have "take_bit (64 - k) f = f" by (intro bit_word_eqI) (auto simp: bit_simps not_le [symmetric])
  then have "take_bit (64 - k) (unat f) = unat f" by (metis unsigned_take_bit_eq)
  then show ?thesis by (metis take_bit_nat_less_exp)
qed

lemma unat_push_bit_fits:
  "unat (f :: double) < 2 ^ (64 - k) \<Longrightarrow> k < 64 \<Longrightarrow> unat (push_bit k f) = unat f * 2 ^ k"
proof -
  assume "unat f < 2 ^ (64 - k)" "k < 64"
  then have "unat f * 2 ^ k < 2 ^ (64 - k) * 2 ^ k" by (intro mult_strict_right_mono) auto
  also have "(2 :: nat) ^ (64 - k) * 2 ^ k = 2 ^ 64" using \<open>k < 64\<close> by (simp add: power_add [symmetric])
  finally have "unat f * 2 ^ k < 2 ^ 64" .
  moreover have "unat (2 ^ k :: double) = 2 ^ k"
    using unat_of_nat64 [of "2 ^ k"] power_strict_increasing [OF \<open>k < 64\<close>, of "2 :: nat"] by simp
  ultimately show ?thesis
    by (simp add: push_bit_eq_mult unat_word_ariths mod_less)
qed

termination shift_while
proof (relation "measure (\<lambda>(k, f, e). 2 ^ 64 - unat f)", goal_cases)
  case (2 k f e)
  then have "unat (push_bit k f) = unat f * 2 ^ k"
    by (intro unat_push_bit_fits high_bits_zero) auto
  moreover have "0 < unat f" "2 \<le> (2 :: nat) ^ k"
    using 2 by (auto simp: unat_gt_0 intro: self_le_power [where n = k, of 2])
  moreover have "unat (push_bit k f) < 2 ^ 64" "unat f < 2 ^ 64"
    using unsigned_less [of "push_bit k f", where 'a = nat] unsigned_less [of f, where 'a = nat] by simp_all
  ultimately have "unat f < unat (push_bit k f)" by (metis mult_less_cancel1 less_le_trans one_less_numeral_iff semiring_norm(76) nat_mult_1_right)
  with \<open>unat (push_bit k f) < 2 ^ 64\<close> show ?case by simp
qed simp

declare shift_while.simps [simp del]

definition Normalize :: "DiyFp \<Rightarrow> DiyFp option" where
  "Normalize a = do {
     (f, e) \<leftarrow> shift_while 10 (dp_f a) (dp_e a);
     (f, e) \<leftarrow> shift_while 1 f e;
     Some \<lparr>dp_f = f, dp_e = e\<rparr>
   }"

section \<open>Doubles and DiyFps\<close>

definition AsDiyFp :: "double \<Rightarrow> DiyFp" where
  "AsDiyFp d = \<lparr>dp_f = Significand d, dp_e = Exponent d\<rparr>"

definition UpperBoundary :: "double \<Rightarrow> DiyFp" where
  "UpperBoundary d = \<lparr>dp_f = Significand d * 2 + 1, dp_e = Exponent d - 1\<rparr>"

text \<open>The loops of \<^verbatim>\<open>DiyFpToUint64\<close>.\<close>

function shift_significand_down :: "double \<Rightarrow> int \<Rightarrow> double \<times> int" where
  "shift_significand_down significand exponent =
     (if significand > kHiddenBit + kSignificandMask
      then shift_significand_down (drop_bit 1 significand) (exponent + 1)
      else (significand, exponent))"
  by pat_completeness auto
termination
proof (relation "measure (\<lambda>(f, e). unat f)", goal_cases)
  case (2 significand exponent)
  then have "0 < unat significand" by (simp add: word_less_nat_alt)
  moreover have "unat (drop_bit 1 significand) = unat significand div 2"
    using unat_drop_bit_eq [of 1 significand] drop_bit_eq_div [of 1 "unat significand"] by simp
  ultimately show ?case by simp
qed simp

function shift_significand_up :: "double \<Rightarrow> int \<Rightarrow> double \<times> int" where
  "shift_significand_up significand exponent =
     (if exponent > kDenormalExponent \<and> significand AND kHiddenBit = 0
      then shift_significand_up (push_bit 1 significand) (exponent - 1)
      else (significand, exponent))"
  by pat_completeness auto
termination by (relation "measure (\<lambda>(f, e). nat (e - kDenormalExponent))") auto

declare shift_significand_down.simps [simp del] shift_significand_up.simps [simp del]

definition DiyFpToUint64 :: "DiyFp \<Rightarrow> double" where
  "DiyFpToUint64 diy_fp =
     (let (significand, exponent) = shift_significand_down (dp_f diy_fp) (dp_e diy_fp)
      in if exponent \<ge> kMaxExponent then kInfinity
      else if exponent < kDenormalExponent then 0
      else
        let (significand, exponent) = shift_significand_up significand exponent;
            biased_exponent =
              (if exponent = kDenormalExponent \<and> significand AND kHiddenBit = 0 then 0
               else word_of_int (exponent + kExponentBias))
        in (significand AND kSignificandMask) OR push_bit kPhysicalSignificandSize biased_exponent)"

section \<open>Conversions\<close>

text \<open>Comparing doubles: a NaN is equal to nothing, and the two zeros are equal.\<close>

definition double_eq :: "double \<Rightarrow> double \<Rightarrow> bool" where
  "double_eq x y \<longleftrightarrow> \<not> is_nan x \<and> \<not> is_nan y \<and>
     (x = y \<or> (x AND NOT kSignMask = 0 \<and> y AND NOT kSignMask = 0))"

text \<open>Comparing with an integer, exactly; infinity is larger than all and a NaN not comparable.\<close>

definition double_le_int :: "double \<Rightarrow> int \<Rightarrow> bool" where
  "double_le_int x k \<longleftrightarrow>
     (if is_nan x then False
      else if IsInfinite x then Sign x < 0
      else if 0 \<le> Exponent x then Sign x * uint (Significand x) * 2 ^ nat (Exponent x) \<le> k
      else Sign x * uint (Significand x) \<le> k * 2 ^ nat (- Exponent x))"

definition int_le_double :: "int \<Rightarrow> double \<Rightarrow> bool" where
  "int_le_double k x \<longleftrightarrow>
     (if is_nan x then False
      else if IsInfinite x then Sign x > 0
      else if 0 \<le> Exponent x then k \<le> Sign x * uint (Significand x) * 2 ^ nat (Exponent x)
      else k * 2 ^ nat (- Exponent x) \<le> Sign x * uint (Significand x))"

text \<open>The integer part, which is 0 for infinity and NaN: what the language's own conversions are
  given by.\<close>

definition truncated :: "double \<Rightarrow> int" where
  "truncated x =
     (if IsSpecial x then 0
      else if 0 \<le> Exponent x then Sign x * (uint (Significand x) * 2 ^ nat (Exponent x))
      else Sign x * (uint (Significand x) div 2 ^ nat (- Exponent x)))"

text \<open>\<^verbatim>\<open>static_cast<double>(int)\<close> is exact: the double with this sign and this significand.
  \<^verbatim>\<open>static_cast<int>(double)\<close> is undefined for what does not fit, where it returns the number
  given first.\<close>

definition FastI2D :: "int32 \<Rightarrow> double" where
  "FastI2D i =
     (if i = 0 then 0
      else (if sint i < 0 then kSignMask else 0) OR
           DiyFpToUint64 \<lparr>dp_f = word_of_int \<bar>sint i\<bar>, dp_e = 0\<rparr>)"

definition FastD2I :: "int32 \<Rightarrow> double \<Rightarrow> int32" where
  "FastD2I unspecified x =
     (if \<not> IsSpecial x \<and> - (2 ^ 31) \<le> truncated x \<and> truncated x < 2 ^ 31
      then word_of_int (truncated x) else unspecified)"

definition IsMinusZero :: "double \<Rightarrow> bool" where
  "IsMinusZero value \<longleftrightarrow> value = kSignMask"

definition IsSmiDouble :: "int32 \<Rightarrow> double \<Rightarrow> bool" where
  "IsSmiDouble unspecified value \<longleftrightarrow>
     \<not> IsMinusZero value \<and> int_le_double (- (2 ^ 31)) value \<and> double_le_int value (2 ^ 31 - 1) \<and>
     double_eq value (FastI2D (FastD2I unspecified value))"

definition DoubleToInt32 :: "int32 \<Rightarrow> double \<Rightarrow> int32" where
  "DoubleToInt32 unspecified x =
     (let i = FastD2I unspecified x
      in if double_eq (FastI2D i) x then i
      else
        let exponent = Exponent x
        in if exponent < 0 then
             if exponent \<le> - kSignificandSize then 0
             else word_of_int (Sign x) * ucast (drop_bit (nat (- exponent)) (Significand x))
           else
             if exponent > 31 then 0
             else word_of_int (Sign x) * ucast (push_bit (nat exponent) (Significand x)))"

definition DoubleToUint32 :: "int32 \<Rightarrow> double \<Rightarrow> uint32" where
  "DoubleToUint32 unspecified x = DoubleToInt32 unspecified x"

section \<open>Packing\<close>

lemma mask_bits:
  "kSignificandMask = mask 52" "kExponentMask = push_bit 52 (mask 11)"
  "kHiddenBit = push_bit 52 1" "kSignMask = push_bit 63 1"
  by (simp_all add: double_consts mask_eq_exp_minus_1)

lemma bit_double_consts:
  "bit kSignificandMask n \<longleftrightarrow> n < 52" "bit kExponentMask n \<longleftrightarrow> 52 \<le> n \<and> n < 63"
  "bit kHiddenBit n \<longleftrightarrow> n = 52" "bit kSignMask n \<longleftrightarrow> n = 63"
  unfolding mask_bits
  by (simp_all only: bit_push_bit_iff bit_mask_iff bit_1_iff possible_bit_word) auto

lemma uint_less_power: "uint (w :: 'a::len word) < 2 ^ n \<longleftrightarrow> take_bit n w = w"
proof -
  have "uint w < 2 ^ n \<longleftrightarrow> take_bit n (uint w) = uint w"
    by (simp add: take_bit_int_eq_self_iff)
  also have "take_bit n (uint w) = uint (take_bit n w)" by (simp add: unsigned_take_bit_eq)
  also have "uint (take_bit n w) = uint w \<longleftrightarrow> take_bit n w = w" by (auto intro: unsigned_word_eqI)
  finally show ?thesis .
qed

lemma take_bit_selfD: "take_bit n w = w \<Longrightarrow> bit w m \<Longrightarrow> m < n"
  by (metis bit_take_bit_iff)

text \<open>A significand with its hidden bit and a biased exponent of a normal number.\<close>

definition pack :: "bool \<Rightarrow> double \<Rightarrow> int \<Rightarrow> double" where
  "pack negative f biased = (if negative then kSignMask else 0) OR
     ((f AND kSignificandMask) OR push_bit 52 (word_of_int biased))"

lemma pack_parts:
  assumes "bit f 52" "uint f < 2 ^ 53" "0 < b" "b < 2047"
  shows "\<not> IsSpecial (pack neg f b)" "Exponent (pack neg f b) = b - kExponentBias"
    "Significand (pack neg f b) = f" "Sign (pack neg f b) = (if neg then -1 else 1)"
proof -
  define w :: double where "w = word_of_int b"
  have w: "uint w = b" using assms(3,4) by (simp add: w_def take_bit_int_eq_self_iff uint_word_of_int_eq)
  have w11: "take_bit 11 w = w" using uint_less_power [of w 11] w assms(4) by simp
  note wD = take_bit_selfD [OF w11] and fD = take_bit_selfD [OF assms(2) [unfolded uint_less_power]]
  have e: "pack neg f b AND kExponentMask = push_bit 52 w"
    unfolding pack_def w_def [symmetric]
    by (rule bit_word_eqI) (auto simp: bit_simps bit_double_consts dest: wD fD)
  have w0: "w \<noteq> 0" "w \<noteq> mask 11" using w assms(3,4) by (auto simp: mask_eq_exp_minus_1)
  have inj: "push_bit 52 w = push_bit 52 v \<longleftrightarrow> w = v" if "take_bit 11 v = v" for v :: double
  proof -
    have "drop_bit 52 (push_bit 52 u) = u" if "take_bit 11 u = u" for u :: double
      by (rule bit_word_eqI) (auto simp: bit_simps dest: take_bit_selfD [OF that])
    from this [OF that] this [OF w11] show ?thesis by metis
  qed
  have den: "\<not> IsDenormal (pack neg f b)"
    using inj [of 0] w0 by (simp add: IsDenormal_def e)
  show "\<not> IsSpecial (pack neg f b)"
    using inj [of "mask 11"] w0 unfolding IsSpecial_def e by (simp add: mask_bits(2))
  have "drop_bit 52 (push_bit 52 w) = w"
    by (rule bit_word_eqI) (auto simp: bit_simps dest: wD)
  with den w show "Exponent (pack neg f b) = b - kExponentBias"
    by (simp add: Exponent_def e kPhysicalSignificandSize_def)
  have sig: "pack neg f b AND kSignificandMask = take_bit 52 f"
    unfolding pack_def w_def [symmetric]
    by (rule bit_word_eqI) (auto simp: bit_simps bit_double_consts dest: wD)
  have "take_bit 52 f + kHiddenBit = take_bit 52 f OR kHiddenBit"
    by (rule disjunctive_add_eq_or, rule bit_word_eqI) (simp add: bit_simps bit_double_consts)
  also have "\<dots> = f"
    by (rule bit_word_eqI) (auto simp: bit_simps bit_double_consts assms(1) le_less not_less dest: fD)
  finally show "Significand (pack neg f b) = f" using den by (simp add: Significand_def sig Let_def)
  have "bit (pack neg f b) 63 \<longleftrightarrow> neg"
    unfolding pack_def w_def [symmetric] by (auto simp: bit_simps bit_double_consts dest: wD fD)
  moreover have "pack neg f b AND kSignMask = 0 \<longleftrightarrow> \<not> bit (pack neg f b) 63"
    unfolding mask_bits by (simp only: bit_iff_and_push_bit_not_eq_0 simp_thms)
  ultimately show "Sign (pack neg f b) = (if neg then -1 else 1)" by (simp add: Sign_def)
qed

lemma hidden_bit: "f AND kHiddenBit = 0 \<longleftrightarrow> \<not> bit f 52"
  unfolding mask_bits by (simp only: bit_iff_and_push_bit_not_eq_0 simp_thms)

lemma shift_up_value:
  "uint f < 2 ^ 53 \<Longrightarrow> kDenormalExponent \<le> e \<Longrightarrow> shift_significand_up f e = (f', e') \<Longrightarrow>
   e' \<le> e \<and> kDenormalExponent \<le> e' \<and> uint f' = uint f * 2 ^ nat (e - e') \<and> uint f' < 2 ^ 53 \<and>
   (bit f' 52 \<or> e' = kDenormalExponent)"
proof (induction f e rule: shift_significand_up.induct)
  case (1 f e)
  show ?case
  proof (cases "e > kDenormalExponent \<and> f AND kHiddenBit = 0")
    case True
    then have "\<not> bit f 52" by (simp add: hidden_bit)
    moreover have "take_bit 53 f = f" using 1(2) uint_less_power [of f 53] by simp
    ultimately have "take_bit 52 f = f"
      by (intro bit_word_eqI) (metis bit_take_bit_iff less_Suc_eq numeral_eq_Suc pred_numeral_simps(3) semiring_norm(28) eval_nat_numeral(3))
    then have small: "uint f < 2 ^ 52" using uint_less_power [of f 52] by simp
    have doubled: "uint (push_bit 1 f) = 2 * uint f"
      using small unsigned_push_bit_eq [of 1 f, where 'a = int] push_bit_eq_mult [of 1 "uint f"]
        take_bit_int_eq_self_iff [of 64 "uint f * 2"] by simp
    from True 1(4) have "shift_significand_up (push_bit 1 f) (e - 1) = (f', e')"
      by (subst (asm) shift_significand_up.simps) simp
    moreover have "uint (push_bit 1 f) < 2 ^ 53" "kDenormalExponent \<le> e - 1"
      using small True unfolding doubled by simp_all
    ultimately have IH: "e' \<le> e - 1" "kDenormalExponent \<le> e'"
      "uint f' = uint (push_bit 1 f) * 2 ^ nat (e - 1 - e')" "uint f' < 2 ^ 53"
      "bit f' 52 \<or> e' = kDenormalExponent" using 1(1) [OF True] by blast+
    have "nat (e - e') = Suc (nat (e - 1 - e'))" using IH(1) by linarith
    moreover have "uint f' = uint f * 2 ^ nat (e - e')" using IH(3) unfolding doubled calculation by simp
    ultimately show ?thesis using IH by simp
  next
    case False
    with 1(4) have "f' = f" "e' = e" by (subst (asm) shift_significand_up.simps; simp split: if_splits)+
    with False 1(2,3) show ?thesis by (auto simp: hidden_bit)
  qed
qed


text \<open>An integer of 32 bits as a double.\<close>

lemma FastI2D_pack:
  assumes "i \<noteq> 0"
  obtains f e where "bit f 52" "uint f < 2 ^ 53" "-53 \<le> e" "e \<le> 0"
    "uint f = \<bar>sint i\<bar> * 2 ^ nat (- e)" "FastI2D i = pack (sint i < 0) f (e + kExponentBias)"
proof -
  define n :: double where "n = word_of_int \<bar>sint i\<bar>"
  have bound: "\<bar>sint i\<bar> \<le> 2 ^ 31" using sint_range_size [of i] by (auto simp: word_size)
  then have n: "uint n = \<bar>sint i\<bar>" by (simp add: n_def uint_word_of_int_eq take_bit_int_eq_self_iff)
  have pos: "0 < \<bar>sint i\<bar>" using assms by (simp add: signed_eq_0_iff)
  have "\<not> kHiddenBit + kSignificandMask < n"
    using n bound by (simp add: word_less_def double_consts)
  then have down: "shift_significand_down n 0 = (n, 0)" by (subst shift_significand_down.simps) simp
  obtain f e where up: "shift_significand_up n 0 = (f, e)" by fastforce
  have "uint n < 2 ^ 53" using n bound by simp
  from shift_up_value [OF this _ up] have v: "e \<le> 0" "kDenormalExponent \<le> e"
    "uint f = \<bar>sint i\<bar> * 2 ^ nat (- e)" "uint f < 2 ^ 53" "bit f 52 \<or> e = kDenormalExponent"
    by (simp_all add: n double_consts)
  have small: "nat (- e) \<le> 53"
  proof (rule ccontr)
    assume "\<not> nat (- e) \<le> 53"
    then have "(2 :: int) ^ 54 \<le> 2 ^ nat (- e)" by (intro power_increasing) auto
    also have "\<dots> \<le> \<bar>sint i\<bar> * 2 ^ nat (- e)" using pos by simp
    finally show False using v(3,4) by simp
  qed
  then have "bit f 52" using v(5) by (auto simp: double_consts)
  moreover have "FastI2D i = pack (sint i < 0) f (e + kExponentBias)"
    using assms small v(1) \<open>bit f 52\<close>
    by (simp add: FastI2D_def DiyFpToUint64_def n_def [symmetric] down up pack_def hidden_bit Let_def
        kPhysicalSignificandSize_def kMaxExponent_def kDenormalExponent_def kExponentBias_def)
  moreover have "-53 \<le> e" using small by linarith
  ultimately show ?thesis using that v by blast
qed

lemma FastI2D_parts:
  assumes "i \<noteq> 0"
  shows "\<not> IsSpecial (FastI2D i)" "truncated (FastI2D i) = sint i"
    "double_le_int (FastI2D i) k \<longleftrightarrow> sint i \<le> k" "int_le_double k (FastI2D i) \<longleftrightarrow> k \<le> sint i"
    "Significand (FastI2D i) \<noteq> 0"
proof -
  from FastI2D_pack [OF assms] obtain f e where f: "bit f 52" "uint f < 2 ^ 53" "-53 \<le> e" "e \<le> 0"
    "uint f = \<bar>sint i\<bar> * 2 ^ nat (- e)" "FastI2D i = pack (sint i < 0) f (e + kExponentBias)" .
  have parts: "\<not> IsSpecial (FastI2D i)" "Exponent (FastI2D i) = e" "Significand (FastI2D i) = f"
    "Sign (FastI2D i) = (if sint i < 0 then -1 else 1)"
    using pack_parts [OF f(1,2), of "e + kExponentBias"] f(3,4,6) by (simp_all add: kExponentBias_def)
  show "\<not> IsSpecial (FastI2D i)" by (rule parts(1))
  show "Significand (FastI2D i) \<noteq> 0" using f(1) parts(3) by auto
  from parts(1) have ok: "\<not> is_nan (FastI2D i)" "\<not> IsInfinite (FastI2D i)"
    by (auto simp: IsSpecial_def is_nan_def IsInfinite_def double_consts)
  have signed: "Sign (FastI2D i) * uint (Significand (FastI2D i)) = sint i * 2 ^ nat (- e)"
    unfolding parts f(5) by (auto simp: abs_if)
  show "truncated (FastI2D i) = sint i"
    using f(4) parts by (cases "e = 0") (auto simp: truncated_def f(5) abs_if)
  show "double_le_int (FastI2D i) k \<longleftrightarrow> sint i \<le> k" "int_le_double k (FastI2D i) \<longleftrightarrow> k \<le> sint i"
    using f(4) ok signed parts(2) by (cases "e = 0"; simp add: double_le_int_def int_le_double_def)+
qed

lemma Significand_less: "uint (Significand d) < 2 ^ 53"
proof -
  have "take_bit 53 (Significand d) = Significand d"
  proof (cases "IsDenormal d")
    case True
    then show ?thesis
      by (intro bit_word_eqI) (auto simp: Significand_def bit_simps bit_double_consts Let_def)
  next
    case False
    have "(d AND kSignificandMask) + kHiddenBit = (d AND kSignificandMask) OR kHiddenBit"
      by (rule disjunctive_add_eq_or, rule bit_word_eqI) (simp add: bit_simps bit_double_consts)
    with False show ?thesis
      by (intro bit_word_eqI) (auto simp: Significand_def bit_simps bit_double_consts Let_def)
  qed
  then show ?thesis by (simp only: uint_less_power)
qed

lemma is_nan_special: "is_nan d \<Longrightarrow> IsSpecial d"
  by (simp add: is_nan_def IsSpecial_def double_consts)

lemma Exponent_special: "IsSpecial d \<Longrightarrow> Exponent d = 972"
  by (simp add: IsSpecial_def Exponent_def IsDenormal_def double_consts)

lemma wrap_drop:
  "ucast (drop_bit n (f :: double)) = (word_of_int (uint f div 2 ^ n) :: int32)"
proof -
  have "uint (drop_bit n f) = drop_bit n (uint f)"
    by (rule bit_eqI) (simp add: bit_unsigned_iff bit_drop_bit_eq)
  then show ?thesis by (simp only: ucast_eq drop_bit_eq_div)
qed

lemma wrap_push:
  "ucast (push_bit n (f :: double)) = (word_of_int (uint f * 2 ^ n) :: int32)"
proof -
  have "(word_of_int (take_bit 64 a) :: int32) = word_of_int a" for a
    by (rule bit_word_eqI) (simp add: bit_simps)
  moreover have "uint (push_bit n f) = take_bit 64 (uint f * 2 ^ n)"
    using unsigned_push_bit_eq [of n f, where 'a = int] by (simp only: push_bit_eq_mult) simp
  ultimately show ?thesis by (simp only: ucast_eq)
qed

text \<open>A zero has no bits but perhaps its sign.\<close>

lemma zero_bits:
  assumes "x AND NOT kSignMask = 0" "bit x n"
  shows "n = 63"
  using assms(2) arg_cong [OF assms(1), of "\<lambda>w. bit w n"] bit_imp_le_length [OF assms(2)]
  by (simp add: bit_simps bit_double_consts)

lemma zero_parts:
  assumes "x AND NOT kSignMask = 0"
  shows "Significand x = 0" "\<not> IsSpecial x" "truncated x = 0"
proof -
  note x = zero_bits [OF assms]
  have "x AND kExponentMask = 0" "x AND kSignificandMask = 0"
    by (rule bit_word_eqI, simp add: bit_simps bit_double_consts, use x in fastforce)+
  then show "Significand x = 0" "\<not> IsSpecial x"
    by (simp_all add: Significand_def IsDenormal_def IsSpecial_def kExponentMask_def)
  then show "truncated x = 0" by (simp add: truncated_def)
qed

text \<open>The path of \<^verbatim>\<open>DoubleToInt32\<close> for what is not an integer of 32 bits.\<close>

lemma slow_conversion:
  "(if Exponent x < 0 then
      if Exponent x \<le> - kSignificandSize then 0
      else word_of_int (Sign x) * ucast (drop_bit (nat (- Exponent x)) (Significand x))
    else if Exponent x > 31 then 0
      else word_of_int (Sign x) * ucast (push_bit (nat (Exponent x)) (Significand x)))
   = (word_of_int (truncated x) :: int32)"
proof (cases "IsSpecial x")
  case True
  then show ?thesis by (simp add: Exponent_special truncated_def)
next
  case False
  consider "Exponent x \<le> -53" | "-53 < Exponent x" "Exponent x < 0" | "0 \<le> Exponent x" "Exponent x \<le> 31"
    | "31 < Exponent x" by linarith
  then show ?thesis
  proof cases
    case 1
    then have "(2 :: int) ^ 53 \<le> 2 ^ nat (- Exponent x)" by (intro power_increasing) auto
    with Significand_less [of x] have "uint (Significand x) div 2 ^ nat (- Exponent x) = 0"
      by (intro div_pos_pos_trivial) auto
    with 1 False show ?thesis by (simp add: truncated_def kSignificandSize_def)
  next
    case 2
    with False show ?thesis by (simp add: truncated_def kSignificandSize_def wrap_drop)
  next
    case 3
    with False show ?thesis by (simp add: truncated_def wrap_push)
  next
    case 4
    then have "nat (Exponent x) = 32 + (nat (Exponent x) - 32)" by simp
    then have "(2 :: int32) ^ nat (Exponent x) = 2 ^ 32 * 2 ^ (nat (Exponent x) - 32)"
      by (metis power_add)
    moreover have "(2 :: int32) ^ 32 = 0" by simp
    ultimately have "(2 :: int32) ^ nat (Exponent x) = 0" by (metis mult_zero_left)
    then have "word_of_int (Sign x * (uint (Significand x) * 2 ^ nat (Exponent x))) = (0 :: int32)"
      by (simp only: of_int_mult of_int_power of_int_numeral mult_zero_right)
    moreover have "\<not> Exponent x < 0" "0 \<le> Exponent x" using 4 by simp_all
    ultimately show ?thesis using 4 False by (simp only: truncated_def if_True if_False)
  qed
qed


section \<open>What the conversions compute\<close>

lemma DoubleToInt32_truncated:
  "DoubleToInt32 unspecified x = word_of_int (truncated x)"
proof (cases "double_eq (FastI2D (FastD2I unspecified x)) x")
  case True
  let ?i = "FastD2I unspecified x"
  have "?i = word_of_int (truncated x)"
  proof (cases "?i = 0")
    case zero: True
    with True have "x AND NOT kSignMask = 0" by (auto simp: double_eq_def FastI2D_def)
    with zero show ?thesis by (simp add: zero_parts(3))
  next
    case False
    with True zero_parts(1) FastI2D_parts(5) have "x = FastI2D ?i" by (auto simp: double_eq_def)
    with FastI2D_parts(2) [OF False] have "truncated x = sint ?i" by metis
    then show ?thesis by simp
  qed
  with True show ?thesis by (simp add: DoubleToInt32_def Let_def)
next
  case False
  with slow_conversion [of x] show ?thesis by (simp add: DoubleToInt32_def Let_def)
qed

lemma sint_word_of_int_mod: "sint (word_of_int k :: int32) = (k + 2 ^ 31) mod 2 ^ 32 - 2 ^ 31"
proof -
  have "sint (word_of_int k :: int32) = signed_take_bit 31 k" by (simp add: signed_of_int)
  then show ?thesis by (simp add: signed_take_bit_eq_take_bit_shift take_bit_eq_mod)
qed

lemma truncated_FastI2D: "truncated (FastI2D i) = sint i"
proof (cases "i = 0")
  case True
  then show ?thesis by (simp add: FastI2D_def zero_parts)
qed (rule FastI2D_parts)

lemma DoubleToInt32_FastI2D [simp]: "DoubleToInt32 unspecified (FastI2D i) = i"
  by (simp add: DoubleToInt32_truncated truncated_FastI2D)

lemma FastI2D_inject [simp]: "FastI2D i = FastI2D j \<longleftrightarrow> i = j"
  by (metis DoubleToInt32_FastI2D)


lemma zero_plus:
  assumes "x AND NOT kSignMask = 0" "\<not> IsMinusZero x"
  shows "x = 0"
proof -
  note high = zero_bits [OF assms(1)]
  have "\<not> bit x 63"
  proof
    assume "bit x 63"
    have "bit x n = bit kSignMask n" for n
      unfolding bit_double_consts using high [of n] \<open>bit x 63\<close> by blast
    then have "x = kSignMask" by (rule bit_word_eqI)
    with assms(2) show False by (simp add: IsMinusZero_def)
  qed
  with high have "bit x n = bit 0 n" for n by fastforce
  then show "x = 0" by (rule bit_word_eqI)
qed

lemma IsSmiDouble_image:
  "IsSmiDouble unspecified x \<longleftrightarrow> (\<exists>i. x = FastI2D i)"
proof
  assume smi: "IsSmiDouble unspecified x"
  let ?i = "FastD2I unspecified x"
  have "x = FastI2D ?i \<or> x AND NOT kSignMask = 0"
    using smi by (auto simp: IsSmiDouble_def double_eq_def)
  moreover have "x = FastI2D 0" if "x AND NOT kSignMask = 0"
    using zero_plus [OF that] smi by (simp add: IsSmiDouble_def FastI2D_def)
  ultimately show "\<exists>i. x = FastI2D i" by blast
next
  assume "\<exists>i. x = FastI2D i"
  then obtain i where x: "x = FastI2D i" ..
  show "IsSmiDouble unspecified x"
  proof (cases "i = 0")
    case True
    then have "x = 0" by (simp add: x FastI2D_def)
    moreover have "truncated 0 = 0" "\<not> is_nan 0" "\<not> IsSpecial 0"
      by (simp_all add: zero_parts is_nan_def)
    moreover have "double_le_int 0 k \<longleftrightarrow> 0 \<le> k" "int_le_double k 0 \<longleftrightarrow> k \<le> 0" for k
      by (simp_all add: double_le_int_def int_le_double_def is_nan_def IsInfinite_def double_consts
          Significand_def IsDenormal_def Exponent_def Let_def zero_le_mult_iff mult_le_0_iff)
    ultimately show ?thesis
      by (simp add: IsSmiDouble_def FastD2I_def FastI2D_def double_eq_def IsMinusZero_def kSignMask_def)
  next
    case False
    note parts = FastI2D_parts [OF False]
    have "\<not> is_nan x" using parts(1) is_nan_special x by blast
    moreover have "\<not> IsMinusZero x"
      using parts(5) zero_parts(1) [of kSignMask] by (auto simp: IsMinusZero_def x)
    moreover have "- (2 ^ 31) \<le> sint i" "sint i < 2 ^ 31"
      using sint_range_size [of i] by (auto simp: word_size)
    ultimately show ?thesis
      using parts(1-4) by (simp add: IsSmiDouble_def FastD2I_def double_eq_def x)
  qed
qed

text \<open>The doubles that are written as integers are exactly the ones that the loader's conversion of
  an integer can produce; of these, no information is lost.\<close>
theorem IsSmiDouble_iff:
  "(IsSmiDouble unspecified x \<longleftrightarrow> (\<exists>!i. x = FastI2D i)) \<and> DoubleToInt32 unspecified (FastI2D i) = i"
  by (auto simp: IsSmiDouble_image)

section \<open>Arithmetic on DiyFps\<close>

lemma uint_fits:
  fixes x y :: double
  shows "uint x * uint y < 2 ^ 64 \<Longrightarrow> uint (x * y) = uint x * uint y"
    "uint x + uint y < 2 ^ 64 \<Longrightarrow> uint (x + y) = uint x + uint y"
  by (simp_all add: uint_word_ariths)

lemma sum_of_halves:
  fixes x y z t :: double
  assumes "uint x < 4294967296" "uint y < 4294967296" "uint z < 4294967296" "uint t < 4294967296"
  shows "uint (x + y + z + t) = uint x + uint y + uint z + uint t"
proof -
  have "uint (x + y) = uint x + uint y" using assms by (intro uint_fits(2)) simp
  moreover from this have "uint (x + y + z) = uint x + uint y + uint z"
    using assms uint_fits(2) [of "x + y" z] by simp
  ultimately show ?thesis using assms uint_fits(2) [of "x + y + z" t] by simp
qed

lemma uint_halves:
  fixes f :: double
  shows "uint (drop_bit 32 f) = uint f div 2 ^ 32" "uint (f AND 0xFFFFFFFF) = uint f mod 2 ^ 32"
proof -
  show "uint (drop_bit 32 f) = uint f div 2 ^ 32"
    using bit_unsigned_iff by (metis drop_bit_eq_div unsigned_drop_bit_eq take_bit_length_eq unsigned_take_bit_eq)
  have "f AND 0xFFFFFFFF = take_bit 32 f" by (simp add: take_bit_eq_mask mask_eq_exp_minus_1)
  moreover have "uint (take_bit 32 f) = uint f mod 2 ^ 32"
    unfolding unsigned_take_bit_eq by (rule take_bit_eq_mod)
  ultimately show "uint (f AND 0xFFFFFFFF) = uint f mod 2 ^ 32" by (simp only:)
qed

text \<open>The sum of the partial products of two halves each.\<close>

lemma product_of_halves:
  fixes a b c d M :: int
  assumes "a * d = q1 * M + r1" "b * c = q2 * M + r2"
  shows "(a * M + b) * (c * M + d) = (a * c + q1 + q2) * (M * M) + ((r1 + r2) * M + b * d)"
proof -
  have "(a * M + b) * (c * M + d) = a * c * (M * M) + (a * d) * M + (b * c) * M + b * d"
    by (simp add: algebra_simps)
  then show ?thesis by (simp only: assms) (simp add: algebra_simps)
qed

lemma partial_products:
  fixes a b c d M h :: int
  assumes "0 < M"
  shows "a * c + a * d div M + b * c div M + (b * d div M + a * d mod M + b * c mod M + h) div M =
    ((a * M + b) * (c * M + d) + h * M) div (M * M)"
proof -
  let ?r = "a * d mod M + b * c mod M + h"
  have split: "x = x div M * M + x mod M" for x by simp
  have "(a * M + b) * (c * M + d) + h * M =
      (?r * M + b * d) + (a * c + a * d div M + b * c div M) * (M * M)"
    using product_of_halves [OF split [of "a * d"] split [of "b * c"]] by (simp add: algebra_simps)
  also have "\<dots> div (M * M) = (a * c + a * d div M + b * c div M) + (?r * M + b * d) div (M * M)"
    using assms by (intro div_mult_self1) simp
  also have "(?r * M + b * d) div (M * M) = (?r * M + b * d) div M div M"
    using assms by (simp add: zdiv_zmult2_eq)
  also have "(?r * M + b * d) div M = b * d div M + ?r"
    using assms by simp
  finally show ?thesis by (simp add: algebra_simps)
qed

lemma half_bounds:
  "uint (drop_bit 32 w :: double) < 4294967296" "uint (w AND 0xFFFFFFFF :: double) < 4294967296"
proof -
  have "uint w \<le> 2 ^ 64 - 1" using uint_lt2p [of w] by simp
  then have "uint w div 2 ^ 32 \<le> (2 ^ 64 - 1) div 2 ^ 32" by (intro zdiv_mono1) simp_all
  then show "uint (drop_bit 32 w) < 4294967296" by (simp only: uint_halves) simp
  show "uint (w AND 0xFFFFFFFF) < 4294967296" by (simp only: uint_halves) simp
qed

lemma half_product:
  fixes x y :: double
  assumes "uint x < 4294967296" "uint y < 4294967296"
  shows "uint (x * y) = uint x * uint y"
proof (rule uint_fits(1))
  have "uint x * uint y \<le> 4294967295 * 4294967295" using assms by (intro mult_mono) auto
  then show "uint x * uint y < 2 ^ 64" by simp
qed

text \<open>The sum of non-negative parts has no overflow if the whole has none.\<close>

lemma sum_of_parts:
  fixes x y z t :: double
  assumes "uint x + uint y + uint z + uint t < 2 ^ 64"
  shows "uint (x + y + z + t) = uint x + uint y + uint z + uint t"
proof -
  have pos: "0 \<le> uint x" "0 \<le> uint y" "0 \<le> uint z" "0 \<le> uint t" by simp_all
  have "uint (x + y) = uint x + uint y" using assms pos by (intro uint_fits(2)) linarith
  moreover from this have "uint (x + y + z) = uint x + uint y + uint z"
    using assms pos uint_fits(2) [of "x + y" z] by linarith
  ultimately show ?thesis using assms uint_fits(2) [of "x + y + z" t] by linarith
qed

lemma rounded_product_bound: "(uint (f :: double) * uint (g :: double) + 2 ^ 63) div 2 ^ 64 < 2 ^ 64"
proof -
  have "uint f \<le> 2 ^ 64 - 1" "uint g \<le> 2 ^ 64 - 1" using uint_lt2p [of f] uint_lt2p [of g] by simp_all
  then have "uint f * uint g \<le> (2 ^ 64 - 1) * (2 ^ 64 - 1)" by (intro mult_mono) simp_all
  then have "(uint f * uint g + 2 ^ 63) div 2 ^ 64 \<le> ((2 ^ 64 - 1) * (2 ^ 64 - 1) + 2 ^ 63) div 2 ^ 64"
    by (intro zdiv_mono1) simp_all
  then show ?thesis by simp
qed

lemma product_by_halves:
  fixes f g :: double
  defines "a \<equiv> drop_bit 32 f" and "b \<equiv> f AND 0xFFFFFFFF"
    and "c \<equiv> drop_bit 32 g" and "d \<equiv> g AND 0xFFFFFFFF"
  defines "tmp \<equiv> drop_bit 32 (b * d) + (a * d AND 0xFFFFFFFF) + (b * c AND 0xFFFFFFFF) + push_bit 31 1"
  shows "uint (a * c + drop_bit 32 (a * d) + drop_bit 32 (b * c) + drop_bit 32 tmp) =
    (uint f * uint g + 2 ^ 63) div 2 ^ 64"
proof -
  have bounds: "uint a < 4294967296" "uint b < 4294967296" "uint c < 4294967296" "uint d < 4294967296"
    unfolding a_def b_def c_def d_def by (rule half_bounds)+
  note words = half_product [OF bounds(1,3)] half_product [OF bounds(2,3)]
    half_product [OF bounds(1,4)] half_product [OF bounds(2,4)]
  have shifted: "uint (push_bit 31 1 :: double) = 2 ^ 31" by simp
  have "uint tmp = uint (drop_bit 32 (b * d)) + uint (a * d AND 0xFFFFFFFF) + uint (b * c AND 0xFFFFFFFF) +
      uint (push_bit 31 1 :: double)"
    unfolding tmp_def by (rule sum_of_halves) (rule half_bounds, rule half_bounds, rule half_bounds, simp)
  then have tmp: "uint tmp = uint b * uint d div 2 ^ 32 + uint a * uint d mod 2 ^ 32 +
      uint b * uint c mod 2 ^ 32 + 2 ^ 31"
    by (simp only: uint_halves words shifted)
  have fg: "uint f = uint a * 2 ^ 32 + uint b" "uint g = uint c * 2 ^ 32 + uint d"
    unfolding a_def b_def c_def d_def uint_halves by (rule div_mult_mod_eq [symmetric])+
  have total: "uint (a * c) + uint (drop_bit 32 (a * d)) + uint (drop_bit 32 (b * c)) + uint (drop_bit 32 tmp) =
      (uint f * uint g + 2 ^ 63) div 2 ^ 64"
  proof -
    have powers: "(2 :: int) ^ 31 * 2 ^ 32 = 2 ^ 63" "(2 :: int) ^ 32 * 2 ^ 32 = 2 ^ 64" by simp_all
    have "(0 :: int) < 2 ^ 32" by simp
    from partial_products [OF this, of "uint a" "uint c" "uint d" "uint b" "2 ^ 31"] show ?thesis
      unfolding uint_halves words tmp fg powers .
  qed
  show ?thesis
    using sum_of_parts [of "a * c" "drop_bit 32 (a * d)" "drop_bit 32 (b * c)" "drop_bit 32 tmp"]
      rounded_product_bound [of f g] unfolding total by blast
qed

text \<open>C18 The multiplication of two 64-bit significands from 32-bit halves never overflows and returns the
  upper half of the exact product, rounded, with halves rounded up.\<close>
theorem Multiply_rounds:
  "uint (dp_f (Multiply other this)) = (uint (dp_f this) * uint (dp_f other) + 2 ^ 63) div 2 ^ 64 \<and>
   dp_e (Multiply other this) = dp_e this + dp_e other + 64"
proof -
  have update: "dp_f (this\<lparr>dp_e := x, dp_f := y\<rparr>) = y" "dp_e (this\<lparr>dp_e := x, dp_f := y\<rparr>) = x" for x y
    by simp_all
  show ?thesis
    using product_by_halves [of "dp_f this" "dp_f other"] by (simp only: Multiply_def Let_def update simp_thms)
qed

lemma shift_while_value:
  "f \<noteq> 0 \<Longrightarrow> 0 < k \<Longrightarrow> k < 64 \<Longrightarrow>
   \<exists>f' e'. shift_while k f e = Some (f', e') \<and> e' \<le> e \<and> unat f' = unat f * 2 ^ nat (e - e') \<and>
     f' AND push_bit (64 - k) (mask k) \<noteq> 0"
proof (induction k f e rule: shift_while.induct)
  case (1 k f e)
  show ?case
  proof (cases "f AND push_bit (64 - k) (mask k) = 0")
    case True
    have pushed: "unat (push_bit k f) = unat f * 2 ^ k"
      using True 1(4) by (intro unat_push_bit_fits high_bits_zero)
    then have "0 < unat (push_bit k f)" using 1(2) by (simp add: unat_gt_0)
    then have "push_bit k f \<noteq> 0" by (simp only: unat_gt_0 not_False_eq_True)
    with 1(1) [OF _ True _ 1(3,4)] 1(2-4) obtain f' e' where
      IH: "shift_while k (push_bit k f) (e - int k) = Some (f', e')" "e' \<le> e - int k"
      "unat f' = unat (push_bit k f) * 2 ^ nat (e - int k - e')" "f' AND push_bit (64 - k) (mask k) \<noteq> 0"
      by auto
    have "nat (e - e') = k + nat (e - int k - e')" using IH(2) by linarith
    with IH(3) have "unat f' = unat f * 2 ^ nat (e - e')" unfolding pushed by (simp add: power_add)
    moreover have "shift_while k f e = Some (f', e')"
      using True IH(1) 1(2-4) by (subst shift_while.simps) simp
    moreover have "e' \<le> e" using IH(2) by linarith
    ultimately show ?thesis using IH(4) by blast
  next
    case False
    with 1(2-4) have "shift_while k f e = Some (f, e)" by (subst shift_while.simps) simp
    with False show ?thesis by auto
  qed
qed

text \<open>Normalizing ends for every significand but 0, sets the highest bit and changes the exponent by
  as much as it shifts, so that the number stays the same.\<close>
theorem Normalize_normalizes:
  assumes "dp_f a \<noteq> 0"
  shows "\<exists>r. Normalize a = Some r \<and> bit (dp_f r) 63 \<and> dp_e r \<le> dp_e a \<and>
    unat (dp_f r) = unat (dp_f a) * 2 ^ nat (dp_e a - dp_e r)"
proof -
  obtain f e where first: "shift_while 10 (dp_f a) (dp_e a) = Some (f, e)" "e \<le> dp_e a"
    "unat f = unat (dp_f a) * 2 ^ nat (dp_e a - e)"
    using shift_while_value [OF assms, of 10 "dp_e a"] by auto
  have "0 < unat f" using assms unfolding first(3) by (simp add: unat_gt_0)
  then have "f \<noteq> 0" by (simp only: unat_gt_0 not_False_eq_True)
  from shift_while_value [OF this, of 1 e] obtain f' e' where second: "shift_while 1 f e = Some (f', e')" "e' \<le> e"
    "unat f' = unat f * 2 ^ nat (e - e')" "f' AND push_bit 63 (mask 1) \<noteq> 0"
    by auto
  have "bit f' 63" using second(4) bit_iff_and_push_bit_not_eq_0 [of f' 63] by (simp add: mask_eq_exp_minus_1)
  moreover have "nat (dp_e a - e') = nat (dp_e a - e) + nat (e - e')" using first(2) second(2) by linarith
  then have "unat f' = unat (dp_f a) * 2 ^ nat (dp_e a - e')"
    unfolding second(3) first(3) by (simp add: power_add)
  ultimately show ?thesis
    using first(1,2) second(1,2) by (simp add: Normalize_def)
qed

lemma Normalize_normalizes_witness:
  "\<exists>r. Normalize \<lparr>dp_f = 5, dp_e = 0\<rparr> = Some r \<and> bit (dp_f r) 63"
  using Normalize_normalizes [of "\<lparr>dp_f = 5, dp_e = 0\<rparr>"] by auto

end
