(* ===== verification/ShimsRoundtrip.thy ===== *)
theory ShimsRoundtrip
  imports HeapShims
begin

text \<open>
  What becomes of the shims that refer to heap objects, maps, functions or strings when they are
  saved and loaded: for each of them, the shim that the loader returns, in terms of the relations
  for the parts.
\<close>

section \<open>Objects, arrays and maps by themselves\<close>

lemma transmits_Map:
  assumes "reloads_map w C m m'"
  shows "transmits C (SaveMap w m) (LoadMap w) (Some m')"
  unfolding LoadMap_def using carries_transmits [OF reloads_carried(4) [OF assms]] by simp

lemma transmits_HeapObject:
  assumes "reloads_heap w C h y"
  shows "transmits C (SaveHeapObject w h) (LoadHeapObject w) (Some y)"
  unfolding LoadHeapObject_def using carries_transmits [OF reloads_carried(2) [OF assms]] by simp

lemma transmits_FixedArray:
  assumes "list_all2 (reloads w C) xs ys" "length xs < 2 ^ 31"
  shows "transmits C (SaveFixedArray w xs :: 'a sv)
    (LoadFixedArray w :: 'b loader_base_scheme \<Rightarrow> _) (map unhandle ys)"
proof -
  have "list_all2 (object_carried TYPE('a) TYPE('b) w C) xs ys"
    by (rule list_all2_mono [OF assms(1)]) (rule reloads_carried(1))
  from carries_transmits [OF carries_FixedArray [OF this assms(2)]] show ?thesis
    unfolding LoadFixedArray_def by simp
qed

lemma transmits_handle:
  assumes "reloads_heap w C h y"
  shows "transmits C (SaveHeapObject_handle w (Some (OHeap h))) (LoadHeapObject w) (Some y)"
  unfolding SaveHeapObject_handle_def using transmits_HeapObject [OF assms] by simp

text \<open>A set of maps, in a loop that stops at the first failure.\<close>

lemma transmits_maps:
  assumes "list_all2 (reloads_map w C) ms ms'"
  shows "transmits C (save_maps w ms :: 'a sv) (load_each (load_map w) (length ms) :: 'b loader_base_scheme \<Rightarrow> _) ms'"
  using assms
proof (induction rule: list_all2_induct)
  case Nil
  have "(save_maps w [] :: 'a sv) = Some"
    "(load_each (load_map w) 0 :: 'b loader_base_scheme \<Rightarrow> _) = (\<lambda>l. Some ([], l))" by (rule ext, simp)+
  then show ?case by (simp add: transmits_done)
next
  case (Cons m ms m' ms')
  have load: "transmits C (SaveMap w m :: 'a sv) (load_map w :: 'b loader_base_scheme \<Rightarrow> _) m'"
    unfolding load_map_def [abs_def] by (rule transmits_save_last [OF transmits_Map [OF Cons(1)]]) simp
  have eq: "(save_maps w (m # ms) :: 'a sv) = (\<lambda>s. SaveMap w m s \<bind> (\<lambda>s. RETURN_ON_FAIL s (save_maps w ms s)))"
    by (rule ext) simp
  have eq': "(load_each (load_map w) (length (m # ms)) :: 'b loader_base_scheme \<Rightarrow> _) = (\<lambda>l. load_map w l \<bind> (\<lambda>(y, l).
      load_each (load_map w) (length ms) l \<bind> (\<lambda>(ys, l). Some (y # ys, l))))"
    by (rule ext) simp
  show ?case unfolding eq eq'
    by (rule transmits_bind [OF load]) (intro transmits_save_return transmits_map [OF Cons(3)])
qed

section \<open>The shims\<close>

lemma takeWhile_terminated: "0 \<notin> set cs \<Longrightarrow> takeWhile (\<lambda>c. c \<noteq> 0) (cs @ [0 :: 'a :: zero]) = cs"
  by (induction cs) auto

lemma transmits_HDeoptimizeShim:
  assumes "0 \<notin> set (Deoptimize_reason shim)" "length (Deoptimize_reason shim) < 2 ^ 31"
  shows "transmits C (SaveHDeoptimizeShim shim) LoadHDeoptimizeShim shim"
proof (cases shim)
  case (HDeoptimizeShim base cause type)
  with assms have fits: "length cause < 2 ^ 31" and reason: "takeWhile (\<lambda>c. c \<noteq> 0) (cause @ [0]) = cause"
    by (simp_all add: takeWhile_terminated)
  show ?thesis
    unfolding HDeoptimizeShim SaveHDeoptimizeShim.simps LoadHDeoptimizeShim_def [abs_def] Let_def
    by (rule transmits_bind [OF transmits_HValueShim], rule transmits_bind [OF transmits_array [OF fits]])
      (simp only: reason, rule transmits_map [OF transmits_primitives(3)])
qed

lemma transmits_HFunctionLiteralShim:
  assumes "shared_info_ok w i"
  shows "transmits C
    (SaveHFunctionLiteralShim w (HFunctionLiteralShim base (Some i) pretenure has_no_literals kind strict_mode))
    (LoadHFunctionLiteralShim w)
    (Some (HFunctionLiteralShim base (resolved_shared_info w i) pretenure has_no_literals kind strict_mode))"
  unfolding SaveHFunctionLiteralShim.simps LoadHFunctionLiteralShim_def [abs_def] Option.bind.bind_lunit
  by (rule transmits_bind [OF transmits_HValueShim], rule transmits_bind [OF transmits_SharedFunctionInfo [OF assms]])
    (rule transmits_load_return, (rule transmits_intros)+)

lemma transmits_HCompareMapShim:
  assumes "reloads_map w C m m'"
  shows "transmits C (SaveHCompareMapShim w (HCompareMapShim base (Some m))) (LoadHCompareMapShim w)
    (Some (HCompareMapShim base (Some m')))"
  unfolding SaveHCompareMapShim.simps LoadHCompareMapShim_def [abs_def] Option.bind.bind_lunit
  by (rule transmits_bind [OF transmits_HControlInstructionShim], rule transmits_save_last [OF transmits_Map [OF assms]])
    (simp add: RETURN_VALUE_ON_FAIL_def)

lemma transmits_HCheckValueShim:
  assumes "reloads_heap w C h y"
  shows "transmits C (SaveHCheckValueShim w (HCheckValueShim base (Some (OHeap h)))) (LoadHCheckValueShim w)
    (HCheckValueShim base (Some y))"
  unfolding SaveHCheckValueShim.simps LoadHCheckValueShim_def [abs_def]
  by (rule transmits_bind [OF transmits_HValueShim], rule transmits_map [OF transmits_handle [OF assms]])

lemma transmits_HCheckMapsShim:
  assumes "list_all2 (reloads_map w C) ms ms'" "length ms < 2 ^ 31"
  shows "transmits C (SaveHCheckMapsShim w (HCheckMapsShim base bits ms)) (LoadHCheckMapsShim w)
    (HCheckMapsShim base bits ms')"
proof -
  have "iterations (int_length ms) = length ms" using assms(2) by simp
  then show ?thesis
    unfolding SaveHCheckMapsShim.simps LoadHCheckMapsShim_def [abs_def]
    by (intro transmits_bind [OF transmits_HValueShim] transmits_bind [OF transmits_primitives(3)])
      (simp only:, rule transmits_map [OF transmits_maps [OF assms(1)]])
qed

lemma transmits_HDeclareGlobalsShim:
  assumes "list_all2 (reloads w C) xs ys" "length xs < 2 ^ 31"
  shows "transmits C (SaveHDeclareGlobalsShim w (HDeclareGlobalsShim base xs flags)) (LoadHDeclareGlobalsShim w)
    (HDeclareGlobalsShim base (map unhandle ys) flags)"
  unfolding SaveHDeclareGlobalsShim.simps LoadHDeclareGlobalsShim_def [abs_def]
  by (rule transmits_bind [OF transmits_HValueShim], rule transmits_bind [OF transmits_FixedArray [OF assms]],
      rule transmits_map [OF transmits_primitives(3)])

text \<open>The loaded cell is the one of the property with the same name, in the loading isolate.\<close>

lemma transmits_HGlobalCellShim:
  assumes "string_fits name"
  shows "transmits C (SaveHGlobalCellShim (HGlobalCellShim base name cell check)) (LoadHGlobalCellShim w)
    (HGlobalCellShim base (reloaded_string name) (w_EnsurePropertyCell w (str_units name)) check)"
  unfolding SaveHGlobalCellShim.simps LoadHGlobalCellShim_def [abs_def] Let_def
  by (rule transmits_bind [OF transmits_HValueShim], rule transmits_bind [OF transmits_bool],
      rule transmits_save_last [OF transmits_String [OF assms]]) (simp add: string_fits_reloaded)

lemma transmits_HCallJSFunctionShim_unknown:
  "transmits C (SaveHCallJSFunctionShim w (HCallJSFunctionShim base None None pass)) (LoadHCallJSFunctionShim w)
    (Some (HCallJSFunctionShim base None None pass))"
  unfolding SaveHCallJSFunctionShim_def [abs_def] LoadHCallJSFunctionShim_def [abs_def]
  by (simp add: CallJSFunction_function_def, rule transmits_bind [OF transmits_HCallShim],
      rule transmits_bind [OF transmits_bool_LoadBool], rule transmits_save_last [OF transmits_false]) simp

lemma transmits_HCallJSFunctionShim:
  assumes "CallJSFunction_function shim = Some f" "function_ok w f"
  shows "transmits C (SaveHCallJSFunctionShim w shim) (LoadHCallJSFunctionShim w)
    (Some (HCallJSFunctionShim (CallJSFunction_base shim) None (resolved_function w f)
      (CallJSFunction_pass_argument_count shim)))"
  unfolding SaveHCallJSFunctionShim_def [abs_def] LoadHCallJSFunctionShim_def [abs_def] assms(1) option.case
  by (rule transmits_bind [OF transmits_HCallShim], rule transmits_bind [OF transmits_bool_LoadBool],
      rule transmits_bind [OF transmits_true])
    (simp, rule transmits_save_last [OF transmits_JSFunction [OF assms(2)]], simp add: RETURN_VALUE_ON_FAIL_def)

lemma transmits_HInvokeFunctionShim:
  "transmits C (SaveHInvokeFunctionShim shim) LoadHInvokeFunctionShim
    (HInvokeFunctionShim (InvokeFunction_base shim) None (-1))"
  by (cases shim) (simp only: SaveHInvokeFunctionShim.simps LoadHInvokeFunctionShim_def [abs_def]
    HInvokeFunctionShim.sel, rule transmits_map [OF transmits_HCallShim])

lemma transmits_HCheckInstanceTypeShim:
  "transmits C (SaveHCheckInstanceTypeShim shim) LoadHCheckInstanceTypeShim shim"
proof (cases shim)
  case (HCheckInstanceTypeShim base check)
  show ?thesis
  proof (cases check)
    case (IntervalCheck a b)
    show ?thesis unfolding HCheckInstanceTypeShim IntervalCheck SaveHCheckInstanceTypeShim.simps
        LoadHCheckInstanceTypeShim_def [abs_def] instance_type_check.case
      by (rule transmits_bind [OF transmits_HValueShim], rule transmits_bind [OF transmits_bool_LoadBool])
        (simp, rule transmits_bind [OF transmits_primitives(3)], rule transmits_map [OF transmits_primitives(3)])
  next
    case (MaskAndTagCheck a b)
    show ?thesis unfolding HCheckInstanceTypeShim MaskAndTagCheck SaveHCheckInstanceTypeShim.simps
        LoadHCheckInstanceTypeShim_def [abs_def] instance_type_check.case
      by (rule transmits_bind [OF transmits_HValueShim], rule transmits_bind [OF transmits_bool_LoadBool])
        (simp, rule transmits_bind [OF transmits_primitives(1)], rule transmits_map [OF transmits_primitives(1)])
  qed
qed

lemma transmits_HStoreNamedFieldShim_no_map:
  "transmits C (SaveHStoreNamedFieldShim w (HStoreNamedFieldShim base wb wbm None v p bits)) (LoadHStoreNamedFieldShim w)
    (Some (HStoreNamedFieldShim base wb wbm None v p bits))"
  unfolding SaveHStoreNamedFieldShim.simps LoadHStoreNamedFieldShim_def [abs_def] Let_def option.case
  by ((rule transmits_bind, (rule transmits_HLoadNamedFieldShim transmits_bool_LoadBool transmits_HValueShim transmits_primitives))+,
      rule transmits_save_last [OF transmits_false]) simp

lemma transmits_HStoreNamedFieldShim:
  assumes "reloads_map w C m m'"
  shows "transmits C (SaveHStoreNamedFieldShim w (HStoreNamedFieldShim base wb wbm (Some m) v p bits))
    (LoadHStoreNamedFieldShim w) (Some (HStoreNamedFieldShim base wb wbm (Some m') v p bits))"
  unfolding SaveHStoreNamedFieldShim.simps LoadHStoreNamedFieldShim_def [abs_def] Let_def option.case
  by ((rule transmits_bind, (rule transmits_HLoadNamedFieldShim transmits_bool_LoadBool transmits_HValueShim transmits_primitives))+,
      rule transmits_bind [OF transmits_true], simp, rule transmits_save_last [OF transmits_Map [OF assms]])
    (simp add: RETURN_VALUE_ON_FAIL_def)

lemma transmits_HStoreNamedGenericShim:
  assumes "reloads_heap w C h y"
  shows "transmits C (SaveHStoreNamedGenericShim w (HStoreNamedGenericShim base (Some (OHeap h)) mode))
    (LoadHStoreNamedGenericShim w) (HStoreNamedGenericShim base (Some y) mode)"
  unfolding SaveHStoreNamedGenericShim.simps LoadHStoreNamedGenericShim_def [abs_def]
  by (rule transmits_bind [OF transmits_HValueShim], rule transmits_bind [OF transmits_handle [OF assms]],
      rule transmits_map [OF transmits_primitives(3)])

lemma transmits_HLoadNamedGenericShim:
  assumes "reloads_heap w C h y"
  shows "transmits C (SaveHLoadNamedGenericShim w (HLoadNamedGenericShim base (Some (OHeap h))))
    (LoadHLoadNamedGenericShim w) (HLoadNamedGenericShim base (Some y))"
  unfolding SaveHLoadNamedGenericShim.simps LoadHLoadNamedGenericShim_def [abs_def]
  by (rule transmits_bind [OF transmits_HValueShim], rule transmits_map [OF transmits_handle [OF assms]])

lemma transmits_HTransitionElementsKindShim:
  assumes "reloads_map w C m m'" "reloads_map w C t t'"
  shows "transmits C (SaveHTransitionElementsKindShim w (HTransitionElementsKindShim base (Some m) (Some t) k k'))
    (LoadHTransitionElementsKindShim w) (Some (HTransitionElementsKindShim base (Some m') (Some t') k k'))"
  unfolding SaveHTransitionElementsKindShim.simps LoadHTransitionElementsKindShim_def [abs_def]
    Option.bind.bind_lunit
  by (rule transmits_bind [OF transmits_HValueShim], rule transmits_bind [OF transmits_Map [OF assms(1)]],
      rule transmits_load_return, rule transmits_bind [OF transmits_Map [OF assms(2)]],
      rule transmits_load_return, (rule transmits_intros)+)

lemma transmits_HLoadGlobalGenericShim:
  assumes "name_ok w name"
  shows "transmits C (SaveHLoadGlobalGenericShim w (HLoadGlobalGenericShim base name for_typeof))
    (LoadHLoadGlobalGenericShim w) (HLoadGlobalGenericShim base (reloaded_name name) for_typeof)"
  unfolding SaveHLoadGlobalGenericShim.simps LoadHLoadGlobalGenericShim_def [abs_def]
  by (rule transmits_bind [OF transmits_HValueShim], rule transmits_bind [OF transmits_Name [OF assms]],
      rule transmits_map [OF transmits_bool])

lemma transmits_HRegExpLiteralShim:
  assumes "list_all2 (reloads w C) xs ys" "length xs < 2 ^ 31" "string_fits pattern" "string_fits flags"
  shows "transmits C (SaveHRegExpLiteralShim w (HRegExpLiteralShim base xs i pattern flags))
    (LoadHRegExpLiteralShim w)
    (HRegExpLiteralShim base (map unhandle ys) i (reloaded_string pattern) (reloaded_string flags))"
  unfolding SaveHRegExpLiteralShim.simps LoadHRegExpLiteralShim_def [abs_def]
  by (rule transmits_bind [OF transmits_HValueShim], rule transmits_bind [OF transmits_FixedArray [OF assms(1,2)]],
      rule transmits_bind [OF transmits_primitives(3)], rule transmits_bind [OF transmits_String [OF assms(3)]],
      rule transmits_map [OF transmits_String [OF assms(4)]])

lemma transmits_HInstanceOfKnownGlobalShim:
  assumes "function_ok w f"
  shows "transmits C (SaveHInstanceOfKnownGlobalShim w (HInstanceOfKnownGlobalShim base (Some f)))
    (LoadHInstanceOfKnownGlobalShim w) (Some (HInstanceOfKnownGlobalShim base (resolved_function w f)))"
  unfolding SaveHInstanceOfKnownGlobalShim.simps LoadHInstanceOfKnownGlobalShim_def [abs_def]
    Option.bind.bind_lunit
  by (rule transmits_bind [OF transmits_HValueShim], rule transmits_save_last [OF transmits_JSFunction [OF assms]])
    (simp add: RETURN_VALUE_ON_FAIL_def)

lemma transmits_HTypeofIsAndBranchShim:
  assumes "string_fits type_literal"
  shows "transmits C (SaveHTypeofIsAndBranchShim (HTypeofIsAndBranchShim base type_literal))
    LoadHTypeofIsAndBranchShim (HTypeofIsAndBranchShim base (reloaded_string type_literal))"
  unfolding SaveHTypeofIsAndBranchShim.simps LoadHTypeofIsAndBranchShim_def [abs_def]
  by (rule transmits_bind [OF transmits_HControlInstructionShim], rule transmits_map [OF transmits_String [OF assms]])

end
