(* ===== verification/ExternalReferences.thy ===== *)
theory ExternalReferences
  imports Prelude "HOL-Library.Word"
begin

unbundle bit_operations_syntax

text \<open>
  The table of external references of \<^verbatim>\<open>src/serialize.h\<close> and \<^verbatim>\<open>src/serialize.cc\<close>, with its
  encoder and decoder: how an address of the process that saves becomes a number in a chunk, and
  an address of the process that loads. What \<^verbatim>\<open>PopulateTable\<close> puts into the table, addresses of
  runtime functions and of fields of the isolate, is left open; the hash map of the encoder is the
  partial function that it implements.
\<close>

type_synonym address = "64 word"

text \<open>The codes of the types of references, from \<^verbatim>\<open>UNCLASSIFIED\<close> to \<^verbatim>\<open>SPECIAL\<close>.\<close>

definition kTypeCodeCount :: nat where "kTypeCodeCount = 12"
definition kReferenceIdBits :: nat where "kReferenceIdBits = 16"

definition EncodeExternal :: "nat \<Rightarrow> 16 word \<Rightarrow> 32 word" where
  "EncodeExternal type i = push_bit 16 (word_of_nat type) OR ucast i"

record ExternalReferenceTable =
  refs :: "(address \<times> 32 word) list"
  max_id :: "nat \<Rightarrow> 16 word"

definition empty_table :: ExternalReferenceTable where
  "empty_table = \<lparr>refs = [], max_id = (\<lambda>_. 0)\<rparr>"

definition table_Add :: "address \<Rightarrow> nat \<Rightarrow> 16 word \<Rightarrow> ExternalReferenceTable \<Rightarrow> ExternalReferenceTable" where
  "table_Add a type i t =
     t\<lparr>refs := refs t @ [(a, EncodeExternal type i)],
       max_id := (if max_id t type < i then (max_id t)(type := i) else max_id t)\<rparr>"

text \<open>The next id of the type: the counter is incremented before the entry is added.\<close>

definition table_Add_next :: "address \<Rightarrow> nat \<Rightarrow> ExternalReferenceTable \<Rightarrow> ExternalReferenceTable" where
  "table_Add_next a type t =
     (let i = max_id t type + 1 in table_Add a type i (t\<lparr>max_id := (max_id t)(type := i)\<rparr>))"

section \<open>The encoder\<close>

type_synonym encodings = "address \<Rightarrow> nat option"

definition encoder_Put :: "address \<Rightarrow> nat \<Rightarrow> encodings \<Rightarrow> encodings" where
  "encoder_Put key index m = m(key \<mapsto> index)"

definition ExternalReferenceEncoder :: "ExternalReferenceTable \<Rightarrow> encodings" where
  "ExternalReferenceEncoder t =
     fold (\<lambda>i. encoder_Put (fst (refs t ! i)) i) [0..<length (refs t)] Map.empty"

definition IndexOf :: "encodings \<Rightarrow> address \<Rightarrow> nat option" where
  "IndexOf m key = (if key = 0 then None else m key)"

definition Encode_reference :: "ExternalReferenceTable \<Rightarrow> encodings \<Rightarrow> address \<Rightarrow> 32 word" where
  "Encode_reference t m key =
     (case IndexOf m key of Some index \<Rightarrow> snd (refs t ! index) | None \<Rightarrow> 0)"

section \<open>The decoder\<close>

text \<open>The arrays of the decoder as one partial function; an entry that was never put is
  uninitialized memory or out of bounds.\<close>

type_synonym decodings = "nat \<times> nat \<Rightarrow> address option"

definition decoder_slot :: "32 word \<Rightarrow> nat \<times> nat" where
  "decoder_slot key = (unat (drop_bit kReferenceIdBits key), unat (key AND mask kReferenceIdBits))"

definition decoder_Put :: "32 word \<Rightarrow> address \<Rightarrow> decodings \<Rightarrow> decodings" where
  "decoder_Put key v m = m(decoder_slot key \<mapsto> v)"

definition ExternalReferenceDecoder :: "ExternalReferenceTable \<Rightarrow> decodings" where
  "ExternalReferenceDecoder t = fold (\<lambda>(a, c). decoder_Put c a) (refs t) Map.empty"

definition Decode_reference :: "decodings \<Rightarrow> 32 word \<Rightarrow> address option" where
  "Decode_reference m key = (if key = 0 then Some 0 else m (decoder_slot key))"

section \<open>What decoding an encoded address gives\<close>

lemma unat_eq_iff_eq: "unat v = unat w \<longleftrightarrow> v = w"
  by (auto intro: unsigned_word_eqI)

text \<open>The codes determine their slots.\<close>

lemma decoder_slot_inject: "decoder_slot x = decoder_slot y \<longleftrightarrow> x = y"
proof
  assume eq: "decoder_slot x = decoder_slot y"
  have parts: "key = push_bit 16 (drop_bit 16 key) OR (key AND mask 16)" for key :: "32 word"
    by (rule bit_word_eqI) (auto simp: bit_simps)
  from eq have "drop_bit 16 x = drop_bit 16 y" "x AND mask 16 = y AND mask 16"
    by (simp_all only: decoder_slot_def kReferenceIdBits_def prod.inject unat_eq_iff_eq)
  with parts [of x] parts [of y] show "x = y" by simp
qed simp

text \<open>The index that the encoder finds: the last one at which the address is in the table.\<close>

lemma encoder_finds:
  "fold (\<lambda>i. encoder_Put (fst (es ! i)) i) [0..<n] Map.empty a =
     (if \<exists>i<n. fst (es ! i) = a then Some (GREATEST i. i < n \<and> fst (es ! i) = a) else None)"
proof (induction n)
  case (Suc n)
  show ?case
  proof (cases "fst (es ! n) = a")
    case True
    then have "(GREATEST i. i < Suc n \<and> fst (es ! i) = a) = n" by (intro Greatest_equality) auto
    moreover have "\<exists>i<Suc n. fst (es ! i) = a" using True by blast
    ultimately show ?thesis using True by (simp add: encoder_Put_def del: less_Suc_eq)
  next
    case False
    then have "(\<lambda>i. i < Suc n \<and> fst (es ! i) = a) = (\<lambda>i. i < n \<and> fst (es ! i) = a)"
      by (intro ext) (auto simp: less_Suc_eq)
    with Suc False show ?thesis by (simp add: encoder_Put_def)
  qed
qed simp

lemma encoder_index:
  assumes "a \<in> fst ` set (refs t)"
  obtains i where "ExternalReferenceEncoder t a = Some i" "i < length (refs t)" "fst (refs t ! i) = a"
proof -
  let ?P = "\<lambda>i. i < length (refs t) \<and> fst (refs t ! i) = a"
  from assms obtain e where "e \<in> set (refs t)" "fst e = a" by auto
  then obtain j where "?P j" unfolding in_set_conv_nth by blast
  moreover have "\<And>i. ?P i \<Longrightarrow> i \<le> length (refs t)" by simp
  ultimately have "?P (Greatest ?P)" by (rule GreatestI_nat)
  moreover have "ExternalReferenceEncoder t a = Some (Greatest ?P)"
    unfolding ExternalReferenceEncoder_def encoder_finds using \<open>?P j\<close> by (intro if_P) blast
  ultimately show thesis by (intro that [of "Greatest ?P"]) simp_all
qed

lemma encoder_unknown: "a \<notin> fst ` set (refs t) \<Longrightarrow> ExternalReferenceEncoder t a = None"
  unfolding ExternalReferenceEncoder_def encoder_finds by (auto dest: nth_mem)

lemma decoder_fold:
  "c \<notin> snd ` set es \<Longrightarrow> fold (\<lambda>(a, c). decoder_Put c a) es m (decoder_slot c) = m (decoder_slot c)"
  by (induction es arbitrary: m) (auto simp: decoder_Put_def decoder_slot_inject)

lemma decoder_finds:
  assumes "distinct (map snd (refs t))" "i < length (refs t)"
  shows "ExternalReferenceDecoder t (decoder_slot (snd (refs t ! i))) = Some (fst (refs t ! i))"
proof -
  let ?e = "refs t ! i" and ?before = "take i (refs t)" and ?after = "drop (Suc i) (refs t)"
  have split: "refs t = ?before @ ?e # ?after" using assms(2) by (rule id_take_nth_drop)
  from assms(1) have "distinct (map snd (?before @ ?e # ?after))" using split by simp
  then have "snd ?e \<notin> snd ` set ?after" by simp
  then have "fold (\<lambda>(a, c). decoder_Put c a) (?before @ ?e # ?after) Map.empty (decoder_slot (snd ?e)) = Some (fst ?e)"
    by (simp add: decoder_fold split_beta decoder_Put_def)
  then show ?thesis unfolding ExternalReferenceDecoder_def using split by simp
qed

section \<open>Tables in ascending order\<close>

text \<open>What \<^verbatim>\<open>Add\<close> asserts in debug builds: the codes ascend, and none is 0.\<close>

definition table_wf :: "ExternalReferenceTable \<Rightarrow> bool" where
  "table_wf t \<longleftrightarrow> sorted_wrt (<) (map snd (refs t)) \<and> 0 \<notin> snd ` set (refs t) \<and> 0 \<notin> fst ` set (refs t)"

definition may_add :: "address \<Rightarrow> nat \<Rightarrow> 16 word \<Rightarrow> ExternalReferenceTable \<Rightarrow> bool" where
  "may_add a type i t \<longleftrightarrow> a \<noteq> 0 \<and> EncodeExternal type i \<noteq> 0 \<and>
     (refs t = [] \<or> snd (last (refs t)) < EncodeExternal type i)"

lemma strict_sorted_snoc:
  "sorted_wrt (<) (xs @ [x :: 'a :: linorder]) \<longleftrightarrow> sorted_wrt (<) xs \<and> (xs = [] \<or> last xs < x)"
proof (cases xs rule: rev_cases)
  case (snoc ys y)
  then show ?thesis by (auto simp: sorted_wrt_append)
qed simp

text \<open>The table keeps its order: adding an entry whose code is behind the last one gives a table
  with ascending codes other than 0.\<close>
lemma table_Add_wf:
  assumes "table_wf t" "may_add a type i t"
  shows "table_wf (table_Add a type i t)"
  using assms by (auto simp: table_wf_def may_add_def table_Add_def strict_sorted_snoc last_map)



text \<open>An address that is not in the table is written as 0 and read as the null pointer: nobody
  reports the failure.\<close>
theorem Encode_unknown:
  assumes "a \<notin> fst ` set (refs t)"
  shows "Encode_reference t (ExternalReferenceEncoder t) a = 0 \<and>
    Decode_reference (ExternalReferenceDecoder t') (Encode_reference t (ExternalReferenceEncoder t) a) = Some 0"
  using encoder_unknown [OF assms] by (simp add: Encode_reference_def IndexOf_def Decode_reference_def)

lemma Encode_unknown_witness:
  "Decode_reference (ExternalReferenceDecoder empty_table)
    (Encode_reference empty_table (ExternalReferenceEncoder empty_table) 0x1000) = Some 0"
proof -
  have "0x1000 \<notin> fst ` set (refs empty_table)" by (simp add: empty_table_def)
  from Encode_unknown [OF this, of empty_table] show ?thesis by blast
qed

end
