(* ===== verification/Constants.thy ===== *)
theory Constants
  imports ShimsRoundtrip Doubles ExternalReferences
begin

text \<open>
  Constants of the optimizer and of a chunk: \<^verbatim>\<open>HConstant\<close> of \<^verbatim>\<open>src/hydrogen-instructions.h\<close> and
  \<^verbatim>\<open>.cc\<close> with the forms of a value that it keeps, \<^verbatim>\<open>HConstantShim\<close> of \<^verbatim>\<open>src/hydrogen-shim.h\<close>,
  and \<^verbatim>\<open>SaveHConstantShim\<close> and \<^verbatim>\<open>LoadHConstantShim\<close> of \<^verbatim>\<open>src/x64/lithium-saveload-x64.cc\<close>, which
  write numbers by value, external references by their code, functions and objects of the global
  scope by name, and contexts and code by what they belong to.
\<close>

section \<open>Objects of constants\<close>

text \<open>A handle is to an object that is known by its contents only, or to one at an address.\<close>

datatype constant_handle = ByValue obj | ByAddress addr

text \<open>What the isolate answers: the literals of the compiled closure, which addresses are contexts or
  code objects, the contents of an object at an address, the map of an object, the value of a cell of the builtins
  object that is constant, a property of the global object (none where it throws), the context of a
  function, the code of a stub, and the table of external references. The others are what is in
  memory that was never written, and the result of a cast that does not fit.\<close>

record constant_world = shim_world +
  w_closure_literals :: addr
  w_IsContext :: "addr \<Rightarrow> bool"
  w_IsCode :: "addr \<Rightarrow> bool"
  w_contents :: "addr \<Rightarrow> heap_obj"
  w_object_map :: "constant_handle \<Rightarrow> heap_map"
  w_builtin_constant :: "uint16 list \<Rightarrow> constant_handle option"
  w_global_property :: "uint16 list \<Rightarrow> constant_handle option"
  w_function_context :: "addr \<Rightarrow> addr"
  w_CallApiFunctionStub_GetCode :: "bool \<Rightarrow> bool \<Rightarrow> int32 \<Rightarrow> addr"
  w_ArgumentsAdaptorTrampoline :: addr
  w_external_references :: ExternalReferenceTable
  w_uninitialized_int32 :: int32
  w_uninitialized_double :: double
  w_uninitialized_bool :: bool
  w_unspecified_cast :: int32

definition handle_heap_object :: "'w constant_world_scheme \<Rightarrow> constant_handle \<Rightarrow> heap_obj option" where
  "handle_heap_object w object =
     (case object of ByValue (OSmi _) \<Rightarrow> None | ByValue (OHeap h) \<Rightarrow> Some h | ByAddress a \<Rightarrow> Some (w_contents w a))"

definition IsSmi :: "constant_handle \<Rightarrow> bool" where
  "IsSmi object = (case object of ByValue (OSmi _) \<Rightarrow> True | _ \<Rightarrow> False)"

definition IsHeapNumber :: "'w constant_world_scheme \<Rightarrow> constant_handle \<Rightarrow> bool" where
  "IsHeapNumber w object = (case handle_heap_object w object of Some (HHeapNumber _) \<Rightarrow> True | _ \<Rightarrow> False)"

text \<open>The value of a Smi or a heap number.\<close>

definition Number :: "'w constant_world_scheme \<Rightarrow> constant_handle \<Rightarrow> double option" where
  "Number w object =
     (case object of ByValue (OSmi v) \<Rightarrow> Some (FastI2D v)
      | _ \<Rightarrow> (case handle_heap_object w object of Some (HHeapNumber d) \<Rightarrow> Some d | _ \<Rightarrow> None))"


section \<open>Constants of the optimizer\<close>

text \<open>The members of a constant that is no number are not initialized, nor is \<^verbatim>\<open>is_builtin_\<close> by most
  constructors.\<close>

datatype CodeRelocationData =
    kUninitialized_relocation
  | kArgumentsAdaptor
  | kApiFunctionStub bool bool int32

record HConstant =
  constant_object :: "constant_handle option"
  constant_name :: "js_string option"
  constant_is_builtin :: bool
  constant_context_owner :: "addr option"
  constant_code_relocation :: CodeRelocationData
  constant_bit_field :: uint32
  constant_int32_value :: int32
  constant_double_value :: double
  constant_external_reference :: address
  constant_representation :: Representation
  constant_type :: HType

abbreviation HasStableMapValueField :: "bool \<Rightarrow> uint32" where "HasStableMapValueField b \<equiv> BitField_encode 0 (of_bool b)"
abbreviation HasSmiValueField :: "bool \<Rightarrow> uint32" where "HasSmiValueField b \<equiv> BitField_encode 1 (of_bool b)"
abbreviation HasInt32ValueField :: "bool \<Rightarrow> uint32" where "HasInt32ValueField b \<equiv> BitField_encode 2 (of_bool b)"
abbreviation HasDoubleValueField :: "bool \<Rightarrow> uint32" where "HasDoubleValueField b \<equiv> BitField_encode 3 (of_bool b)"
abbreviation HasExternalReferenceValueField :: "bool \<Rightarrow> uint32" where "HasExternalReferenceValueField b \<equiv> BitField_encode 4 (of_bool b)"
abbreviation IsNotInNewSpaceField :: "bool \<Rightarrow> uint32" where "IsNotInNewSpaceField b \<equiv> BitField_encode 5 (of_bool b)"
abbreviation BooleanValueField :: "bool \<Rightarrow> uint32" where "BooleanValueField b \<equiv> BitField_encode 6 (of_bool b)"
abbreviation IsUndetectableField :: "bool \<Rightarrow> uint32" where "IsUndetectableField b \<equiv> BitField_encode 7 (of_bool b)"
abbreviation InstanceTypeField :: "uint32 \<Rightarrow> uint32" where "InstanceTypeField t \<equiv> BitField_encode 8 t"

definition kUnknownInstanceType :: uint32 where "kUnknownInstanceType = 158"

definition HasSmiValue :: "uint32 \<Rightarrow> bool" where "HasSmiValue bits \<longleftrightarrow> BitField_decode 1 1 bits \<noteq> 0"
definition HasInteger32Value :: "uint32 \<Rightarrow> bool" where "HasInteger32Value bits \<longleftrightarrow> BitField_decode 2 1 bits \<noteq> 0"
definition HasDoubleValue :: "uint32 \<Rightarrow> bool" where "HasDoubleValue bits \<longleftrightarrow> BitField_decode 3 1 bits \<noteq> 0"
definition HasExternalReferenceValue :: "uint32 \<Rightarrow> bool" where
  "HasExternalReferenceValue bits \<longleftrightarrow> BitField_decode 4 1 bits \<noteq> 0"

definition IsInteger32 :: "int32 \<Rightarrow> double \<Rightarrow> bool" where
  "IsInteger32 unspecified v \<longleftrightarrow> FastI2D (FastD2I unspecified v) = v"


text \<open>With Smis of 32 bits, every 32-bit integer is one and no representation is narrowed to them.
  Migrating an object with a deprecated map, which changes its layout only, is left out.\<close>

definition Initialize :: "Representation \<Rightarrow> HConstant \<Rightarrow> HConstant" where
  "Initialize r c =
     (let r = (if r = kNone then
                 (if HasInteger32Value (constant_bit_field c) then kInteger32
                  else if HasDoubleValue (constant_bit_field c) then kDouble
                  else if HasExternalReferenceValue (constant_bit_field c) then kExternal
                  else kTagged)
               else r);
          c = (if r = kSmi then c\<lparr>constant_object := None\<rparr> else c);
          c = (if IsSmiOrInteger32 r
               then c\<lparr>constant_bit_field := BitField_update 5 1 (constant_bit_field c) 1\<rparr> else c)
      in c\<lparr>constant_representation := r, constant_code_relocation := kUninitialized_relocation\<rparr>)"

definition HConstant_integer ::
  "'w constant_world_scheme \<Rightarrow> int32 \<Rightarrow> Representation \<Rightarrow> bool \<Rightarrow> constant_handle option \<Rightarrow> HConstant" where
  "HConstant_integer w integer_value r is_not_in_new_space object =
     Initialize r
       \<lparr>constant_object = object, constant_name = None, constant_is_builtin = w_uninitialized_bool w,
        constant_context_owner = None, constant_code_relocation = kUninitialized_relocation,
        constant_bit_field =
          HasStableMapValueField False OR HasSmiValueField True OR HasInt32ValueField True OR
          HasDoubleValueField True OR HasExternalReferenceValueField False OR
          IsNotInNewSpaceField is_not_in_new_space OR BooleanValueField (integer_value \<noteq> 0) OR
          IsUndetectableField False OR InstanceTypeField kUnknownInstanceType,
        constant_int32_value = integer_value, constant_double_value = FastI2D integer_value,
        constant_external_reference = 0, constant_representation = kNone,
        constant_type = (if r = kTagged \<and> object \<noteq> None then HType_TaggedNumber else HType_Smi)\<rparr>"

definition HConstant_double ::
  "'w constant_world_scheme \<Rightarrow> double \<Rightarrow> Representation \<Rightarrow> bool \<Rightarrow> constant_handle option \<Rightarrow> HConstant" where
  "HConstant_double w double_value r is_not_in_new_space object =
     (let has_int32 = IsInteger32 (w_unspecified_cast w) double_value;
          bits = HasStableMapValueField False OR HasInt32ValueField has_int32 OR
            HasDoubleValueField True OR HasExternalReferenceValueField False OR
            IsNotInNewSpaceField is_not_in_new_space OR
            BooleanValueField (double_value AND NOT kSignMask \<noteq> 0 \<and> \<not> is_nan double_value) OR
            IsUndetectableField False OR InstanceTypeField kUnknownInstanceType;
          is_smi = has_int32 \<and> \<not> (r = kTagged \<and> object \<noteq> None)
      in Initialize r
       \<lparr>constant_object = object, constant_name = None, constant_is_builtin = w_uninitialized_bool w,
        constant_context_owner = None, constant_code_relocation = kUninitialized_relocation,
        constant_bit_field = BitField_update 1 1 bits (of_bool has_int32),
        constant_int32_value = DoubleToInt32 (w_unspecified_cast w) double_value,
        constant_double_value = double_value,
        constant_external_reference = 0, constant_representation = kNone,
        constant_type = (if is_smi then HType_Smi else HType_TaggedNumber)\<rparr>)"

definition HConstant_reference :: "'w constant_world_scheme \<Rightarrow> address \<Rightarrow> HConstant" where
  "HConstant_reference w reference =
     Initialize kExternal
       \<lparr>constant_object = None, constant_name = None, constant_is_builtin = w_uninitialized_bool w,
        constant_context_owner = None, constant_code_relocation = kUninitialized_relocation,
        constant_bit_field =
          HasStableMapValueField False OR HasSmiValueField False OR HasInt32ValueField False OR
          HasDoubleValueField False OR HasExternalReferenceValueField True OR
          IsNotInNewSpaceField True OR BooleanValueField True OR
          IsUndetectableField False OR InstanceTypeField kUnknownInstanceType,
        constant_int32_value = w_uninitialized_int32 w, constant_double_value = w_uninitialized_double w,
        constant_external_reference = reference, constant_representation = kNone,
        constant_type = HType_Any\<rparr>"

text \<open>What the constructor from an object asks the heap about it.\<close>

record object_facts =
  of_type :: HType
  of_BooleanValue :: bool
  of_InNewSpace :: bool
  of_instance_type :: uint32
  of_is_undetectable :: bool
  of_is_stable_map :: bool

definition HConstant_of_object ::
  "'w constant_world_scheme \<Rightarrow> object_facts \<Rightarrow> constant_handle \<Rightarrow> Representation \<Rightarrow> HConstant" where
  "HConstant_of_object w facts object r =
     (let bits = HasStableMapValueField False OR HasSmiValueField False OR HasInt32ValueField False OR
            HasDoubleValueField False OR HasExternalReferenceValueField False OR
            IsNotInNewSpaceField True OR BooleanValueField (of_BooleanValue facts) OR
            IsUndetectableField False OR InstanceTypeField kUnknownInstanceType;
          bits = (if handle_heap_object w object \<noteq> None then
              let bits = BitField_update 5 1 bits (of_bool (\<not> of_InNewSpace facts));
                  bits = BitField_update 8 8 bits (of_instance_type facts);
                  bits = BitField_update 7 1 bits (of_bool (of_is_undetectable facts))
              in BitField_update 0 1 bits (of_bool (BitField_decode 8 8 bits = 129 \<and> of_is_stable_map facts))
            else bits);
          c = \<lparr>constant_object = Some object, constant_name = None, constant_is_builtin = False,
            constant_context_owner = None, constant_code_relocation = kUninitialized_relocation,
            constant_bit_field = bits,
            constant_int32_value = w_uninitialized_int32 w, constant_double_value = w_uninitialized_double w,
            constant_external_reference = 0, constant_representation = kNone,
            constant_type = of_type facts\<rparr>
      in Initialize r
        (case Number w object of
           None \<Rightarrow> c
         | Some n \<Rightarrow>
             let has_int32_value = IsInteger32 (w_unspecified_cast w) n;
                 bits = BitField_update 2 1 bits (of_bool has_int32_value);
                 bits = BitField_update 1 1 bits (of_bool has_int32_value);
                 bits = BitField_update 3 1 bits 1
             in c\<lparr>constant_bit_field := bits,
                  constant_int32_value := DoubleToInt32 (w_unspecified_cast w) n,
                  constant_double_value := n\<rparr>))"


definition SetName :: "js_string \<Rightarrow> HConstant \<Rightarrow> HConstant" where
  "SetName name c = c\<lparr>constant_name := Some name\<rparr>"

definition SetContextOwner :: "addr \<Rightarrow> HConstant \<Rightarrow> HConstant" where
  "SetContextOwner f c = c\<lparr>constant_context_owner := Some f\<rparr>"

definition SetArgumentsAdaptorCodeRelocation :: "HConstant \<Rightarrow> HConstant" where
  "SetArgumentsAdaptorCodeRelocation c = c\<lparr>constant_code_relocation := kArgumentsAdaptor\<rparr>"

definition SetApiFunctionStubCodeRelocation :: "bool \<Rightarrow> bool \<Rightarrow> int32 \<Rightarrow> HConstant \<Rightarrow> HConstant" where
  "SetApiFunctionStubCodeRelocation is_store call_data_undefined argc c =
     c\<lparr>constant_code_relocation := kApiFunctionStub is_store call_data_undefined argc\<rparr>"

definition NotInNewSpace :: "HConstant \<Rightarrow> bool" where
  "NotInNewSpace c \<longleftrightarrow> BitField_decode 5 1 (constant_bit_field c) \<noteq> 0"

text \<open>The copy of a constant that is neither a number nor an external reference is made from the
  parts that the constant keeps.\<close>

definition HConstant_unique ::
  "'w constant_world_scheme \<Rightarrow> constant_handle option \<Rightarrow> bool \<Rightarrow> Representation \<Rightarrow> HType \<Rightarrow> bool \<Rightarrow> bool
   \<Rightarrow> bool \<Rightarrow> uint32 \<Rightarrow> HConstant" where
  "HConstant_unique w object has_stable_map_value r type is_not_in_new_space boolean_value
     is_undetectable instance_type =
     Initialize r
       \<lparr>constant_object = object, constant_name = None, constant_is_builtin = w_uninitialized_bool w,
        constant_context_owner = None, constant_code_relocation = kUninitialized_relocation,
        constant_bit_field =
          HasStableMapValueField has_stable_map_value OR HasSmiValueField False OR
          HasInt32ValueField False OR HasDoubleValueField False OR HasExternalReferenceValueField False OR
          IsNotInNewSpaceField is_not_in_new_space OR BooleanValueField boolean_value OR
          IsUndetectableField is_undetectable OR InstanceTypeField instance_type,
        constant_int32_value = w_uninitialized_int32 w, constant_double_value = w_uninitialized_double w,
        constant_external_reference = 0, constant_representation = kNone,
        constant_type = type\<rparr>"

definition CopyToRepresentation :: "'w constant_world_scheme \<Rightarrow> Representation \<Rightarrow> HConstant \<Rightarrow> HConstant option" where
  "CopyToRepresentation w r c =
     (let bits = constant_bit_field c
      in if r = kSmi \<and> \<not> HasSmiValue bits then None
         else if r = kInteger32 \<and> \<not> HasInteger32Value bits then None
         else if r = kDouble \<and> \<not> HasDoubleValue bits then None
         else if r = kExternal \<and> \<not> HasExternalReferenceValue bits then None
         else if HasInteger32Value bits then
           Some (HConstant_integer w (constant_int32_value c) r (NotInNewSpace c) (constant_object c))
         else if HasDoubleValue bits then
           Some (HConstant_double w (constant_double_value c) r (NotInNewSpace c) (constant_object c))
         else if HasExternalReferenceValue bits then
           Some (HConstant_reference w (constant_external_reference c))
         else Some (HConstant_unique w (constant_object c) (BitField_decode 0 1 bits \<noteq> 0) r (constant_type c)
           (NotInNewSpace c) (BitField_decode 6 1 bits \<noteq> 0) (BitField_decode 7 1 bits \<noteq> 0)
           (BitField_decode 8 8 bits)))"

definition CopyToTruncatedInt32 :: "'w constant_world_scheme \<Rightarrow> HConstant \<Rightarrow> HConstant option" where
  "CopyToTruncatedInt32 w c =
     (if HasInteger32Value (constant_bit_field c) then
        Some (HConstant_integer w (constant_int32_value c) kInteger32 (NotInNewSpace c) (constant_object c))
      else if HasDoubleValue (constant_bit_field c) then
        Some (HConstant_integer w (DoubleToInt32 (w_unspecified_cast w) (constant_double_value c)) kInteger32
          (NotInNewSpace c) (constant_object c))
      else None)"


section \<open>The shim of a constant\<close>

datatype HConstantShim =
    HConstantShim (Constant_base: HValueShim) (Constant_hydrogen: "HConstant option")
      (Constant_object: "constant_handle option") (Constant_int32_value: int32)
      (Constant_double_value: double) (Constant_external_reference_value: address)
      (Constant_bit_field: uint32)

text \<open>The constructor from a constant; the base class is told the value's number, block, position and
  flags.\<close>

definition HConstantShim_of :: "int32 \<Rightarrow> int32 \<Rightarrow> int32 \<Rightarrow> int32 \<Rightarrow> HConstant \<Rightarrow> HConstantShim" where
  "HConstantShim_of value_id block_id position flags h =
     HConstantShim (HValueShim value_id block_id position (constant_representation h) (constant_type h) flags)
       (Some h) (constant_object h) (constant_int32_value h) (constant_double_value h)
       (constant_external_reference h) (constant_bit_field h)"

text \<open>The four constructors for the loader. A double is converted to an integer even if it is none.\<close>

definition HConstantShim_object ::
  "HValueShim \<Rightarrow> constant_handle option \<Rightarrow> int32 \<Rightarrow> double \<Rightarrow> uint32 \<Rightarrow> HConstantShim" where
  "HConstantShim_object base object int32_value double_value bits =
     HConstantShim base None object int32_value double_value 0 bits"

definition HConstantShim_int32 :: "HValueShim \<Rightarrow> int32 \<Rightarrow> uint32 \<Rightarrow> HConstantShim" where
  "HConstantShim_int32 base int32_value bits =
     HConstantShim base None None int32_value (FastI2D int32_value) 0 bits"

definition HConstantShim_double ::
  "'w constant_world_scheme \<Rightarrow> HValueShim \<Rightarrow> double \<Rightarrow> uint32 \<Rightarrow> HConstantShim" where
  "HConstantShim_double w base double_value bits =
     HConstantShim base None None (DoubleToInt32 (w_unspecified_cast w) double_value) double_value 0 bits"

definition HConstantShim_reference ::
  "'w constant_world_scheme \<Rightarrow> HValueShim \<Rightarrow> address \<Rightarrow> uint32 \<Rightarrow> HConstantShim" where
  "HConstantShim_reference w base reference bits =
     HConstantShim base None None (w_uninitialized_int32 w) (w_uninitialized_double w) reference bits"

text \<open>The handle of a number is made when it is first asked for; \<^verbatim>\<open>NewNumber\<close> makes a Smi of a double
  that is one.\<close>

definition NewNumber :: "'w constant_world_scheme \<Rightarrow> double \<Rightarrow> constant_handle" where
  "NewNumber w v =
     (if IsMinusZero v then ByValue (OHeap (HHeapNumber kSignMask))
      else
        let int_value = FastD2I (w_unspecified_cast w) v
        in if double_eq v (FastI2D int_value) then ByValue (OSmi int_value)
           else ByValue (OHeap (HHeapNumber v)))"

definition Constant_handle :: "'w constant_world_scheme \<Rightarrow> HConstantShim \<Rightarrow> constant_handle" where
  "Constant_handle w shim =
     (case Constant_object shim of
        Some object \<Rightarrow> object
      | None \<Rightarrow> NewNumber w (Constant_double_value shim))"


section \<open>Saving and loading\<close>

datatype ConstantType =
  kInteger | kDoubleConstant | kExternalReference | kNamed | kLiteralsArray | kContext | kCode | kOther

primrec constant_type_code :: "ConstantType \<Rightarrow> uint32" where
  "constant_type_code kInteger = 0"
| "constant_type_code kDoubleConstant = 1"
| "constant_type_code kExternalReference = 2"
| "constant_type_code kNamed = 3"
| "constant_type_code kLiteralsArray = 4"
| "constant_type_code kContext = 5"
| "constant_type_code kCode = 6"
| "constant_type_code kOther = 7"

definition ConstantType_of :: "uint32 \<Rightarrow> ConstantType option" where
  "ConstantType_of n = find (\<lambda>t. constant_type_code t = n)
     [kInteger, kDoubleConstant, kExternalReference, kNamed, kLiteralsArray, kContext, kCode, kOther]"

text \<open>How a constant is written. Its name is asked of the Hydrogen constant, which only a shim made
  from one has.\<close>

definition constant_type_of :: "'w constant_world_scheme \<Rightarrow> HConstantShim \<Rightarrow> ConstantType option" where
  "constant_type_of w shim =
     (let r = shim_representation (Constant_base shim)
      in if HasExternalReferenceValue (Constant_bit_field shim) then Some kExternalReference
      else case Constant_object shim of
        None \<Rightarrow>
          Some (if IsSmiDouble (w_unspecified_cast w) (Constant_double_value shim) then kInteger
            else kDoubleConstant)
      | Some object \<Rightarrow>
          if r = kSmi \<or> r = kInteger32 \<or> (r = kTagged \<and> IsSmi object) then Some kInteger
          else if r = kDouble \<or> (r = kTagged \<and> IsHeapNumber w object) then Some kDoubleConstant
          else do {
            h \<leftarrow> Constant_hydrogen shim;
            Some (if constant_name h \<noteq> None then kNamed
              else case object of
                ByAddress a \<Rightarrow>
                  if a = w_closure_literals w then kLiteralsArray
                  else if w_IsContext w a then kContext
                  else if w_IsCode w a then kCode
                  else kOther
              | _ \<Rightarrow> kOther)
          })"

definition SaveCodeRelocation :: "CodeRelocationData \<Rightarrow> 'a sv" where
  "SaveCodeRelocation data =
     (case data of
        kApiFunctionStub is_store call_data_undefined argc \<Rightarrow> (\<lambda>s. do {
          s \<leftarrow> SavePrimitive (2 :: uint32) s;
          s \<leftarrow> SavePrimitive_bool is_store s;
          s \<leftarrow> SavePrimitive_bool call_data_undefined s;
          SavePrimitive argc s
        })
      | kArgumentsAdaptor \<Rightarrow> SavePrimitive (1 :: uint32)
      | kUninitialized_relocation \<Rightarrow> (\<lambda>s. None))"

text \<open>What follows the type; numbers and references end with it, the others are followed by the two
  numbers.\<close>

definition SaveConstant_object ::
  "'w constant_world_scheme \<Rightarrow> HConstantShim \<Rightarrow> ConstantType \<Rightarrow> 'a sv" where
  "SaveConstant_object w shim type =
     (case type of
        kNamed \<Rightarrow> (\<lambda>s. do {
          h \<leftarrow> Constant_hydrogen shim;
          object \<leftarrow> Constant_object shim;
          name \<leftarrow> constant_name h;
          s \<leftarrow> SaveString name s;
          s \<leftarrow> SavePrimitive_bool (constant_is_builtin h) s;
          SaveMap w (w_object_map w object) s
        })
      | kLiteralsArray \<Rightarrow> Some
      | kContext \<Rightarrow> (\<lambda>s. do {
          h \<leftarrow> Constant_hydrogen shim;
          owner \<leftarrow> constant_context_owner h;
          SaveJSFunction w owner s
        })
      | kCode \<Rightarrow> (\<lambda>s. do {
          h \<leftarrow> Constant_hydrogen shim;
          SaveCodeRelocation (constant_code_relocation h) s
        })
      | kOther \<Rightarrow> (\<lambda>s. do {
          object \<leftarrow> Constant_object shim;
          h \<leftarrow> handle_heap_object w object;
          SaveHeapObject w h s
        })
      | _ \<Rightarrow> (\<lambda>s. None))"

definition SaveConstant_value ::
  "'w constant_world_scheme \<Rightarrow> HConstantShim \<Rightarrow> ConstantType \<Rightarrow> 'a sv" where
  "SaveConstant_value w shim type =
     (case type of
        kInteger \<Rightarrow> SavePrimitive (Constant_int32_value shim)
      | kDoubleConstant \<Rightarrow> SavePrimitive (Constant_double_value shim)
      | kExternalReference \<Rightarrow>
          (let t = w_external_references w
           in SavePrimitive (Encode_reference t (ExternalReferenceEncoder t) (Constant_external_reference_value shim)))
      | _ \<Rightarrow> (\<lambda>s. do {
          s \<leftarrow> SaveConstant_object w shim type s;
          RETURN_ON_FAIL s (do {
            s \<leftarrow> SavePrimitive (Constant_int32_value shim) s;
            SavePrimitive (Constant_double_value shim) s
          })
        }))"

definition SaveHConstantShim :: "'w constant_world_scheme \<Rightarrow> HConstantShim \<Rightarrow> 'a sv" where
  "SaveHConstantShim w shim s = do {
     s \<leftarrow> SaveHValueShim (Constant_base shim) s;
     s \<leftarrow> SavePrimitive (Constant_bit_field shim) s;
     type \<leftarrow> constant_type_of w shim;
     s \<leftarrow> SavePrimitive (constant_type_code type) s;
     SaveConstant_value w shim type s
   }"

text \<open>The loader of the object of a constant. A result without a value is a failure that has been
  reported or, for an object of the heap, a null handle.\<close>

definition LoadConstant_named ::
  "'w constant_world_scheme \<Rightarrow> 'b loader_base_scheme \<Rightarrow> (constant_handle option, 'b) load_result" where
  "LoadConstant_named w l = do {
     (name, l) \<leftarrow> LoadString l;
     (is_builtin, l) \<leftarrow> LoadBool l;
     object \<leftarrow> (if is_builtin then w_builtin_constant w (str_units name)
       else w_global_property w (str_units name));
     (m, l) \<leftarrow> LoadMap w l;
     RETURN_VALUE_ON_FAIL None l (do {
       m \<leftarrow> m;
       if handle_heap_object w object = None \<or>
          \<not> EquivalentToForDeduplication w (w_object_map w object) m
       then Some (None, Fail ''object layout changed - can't reference by name'' l)
       else Some (Some object, l)
     })
   }"

definition LoadConstant_context ::
  "'w constant_world_scheme \<Rightarrow> 'b loader_base_scheme \<Rightarrow> (constant_handle option, 'b) load_result" where
  "LoadConstant_context w l = do {
     (owner, l) \<leftarrow> LoadJSFunction w l;
     RETURN_VALUE_ON_FAIL None l (do {
       owner \<leftarrow> owner;
       Some (Some (ByAddress (w_function_context w owner)), l)
     })
   }"

definition LoadConstant_code ::
  "'w constant_world_scheme \<Rightarrow> 'b loader_base_scheme \<Rightarrow> (constant_handle option, 'b) load_result" where
  "LoadConstant_code w l = do {
     (type, l) \<leftarrow> LoadPrimitive l;
     if type = (2 :: uint32) then do {
       (is_store, l) \<leftarrow> LoadPrimitive_bool l;
       (call_data_undefined, l) \<leftarrow> LoadPrimitive_bool l;
       (argc, l) \<leftarrow> LoadPrimitive l;
       Some (Some (ByAddress (w_CallApiFunctionStub_GetCode w is_store call_data_undefined argc)), l)
     } else if type = 1 then Some (Some (ByAddress (w_ArgumentsAdaptorTrampoline w)), l)
     else None
   }"

definition LoadConstant_object ::
  "'w constant_world_scheme \<Rightarrow> ConstantType \<Rightarrow> 'b loader_base_scheme \<Rightarrow> (constant_handle option, 'b) load_result" where
  "LoadConstant_object w type =
     (case type of
        kNamed \<Rightarrow> LoadConstant_named w
      | kLiteralsArray \<Rightarrow> (\<lambda>l. Some (Some (ByAddress (w_closure_literals w)), l))
      | kContext \<Rightarrow> LoadConstant_context w
      | kCode \<Rightarrow> LoadConstant_code w
      | kOther \<Rightarrow> (\<lambda>l. do { (object, l) \<leftarrow> LoadHeapObject w l; Some (map_option ByValue object, l) })
      | _ \<Rightarrow> (\<lambda>l. None))"

definition LoadConstant_value ::
  "'w constant_world_scheme \<Rightarrow> HValueShim \<Rightarrow> uint32 \<Rightarrow> ConstantType
   \<Rightarrow> 'b loader_base_scheme \<Rightarrow> (HConstantShim option, 'b) load_result" where
  "LoadConstant_value w base bits type =
     (case type of
        kInteger \<Rightarrow> (\<lambda>l. do { (v, l) \<leftarrow> LoadPrimitive l; Some (Some (HConstantShim_int32 base v bits), l) })
      | kDoubleConstant \<Rightarrow>
          (\<lambda>l. do { (v, l) \<leftarrow> LoadPrimitive l; Some (Some (HConstantShim_double w base v bits), l) })
      | kExternalReference \<Rightarrow> (\<lambda>l. do {
          (reference_id, l) \<leftarrow> LoadPrimitive l;
          a \<leftarrow> Decode_reference (ExternalReferenceDecoder (w_external_references w)) reference_id;
          Some (Some (HConstantShim_reference w base a bits), l)
        })
      | _ \<Rightarrow> (\<lambda>l. do {
          (object, l) \<leftarrow> LoadConstant_object w type l;
          if status l \<noteq> SUCCEEDED \<and> (type = kNamed \<or> type = kContext) then Some (None, l)
          else do {
            (int32_value, l) \<leftarrow> LoadPrimitive l;
            (double_value, l) \<leftarrow> LoadPrimitive l;
            Some (Some (HConstantShim_object base object int32_value double_value bits), l)
          }
        }))"

definition LoadHConstantShim ::
  "'w constant_world_scheme \<Rightarrow> 'b loader_base_scheme \<Rightarrow> (HConstantShim option, 'b) load_result" where
  "LoadHConstantShim w l = do {
     (base, l) \<leftarrow> LoadHValueShim l;
     (bits, l) \<leftarrow> LoadPrimitive l;
     (type, l) \<leftarrow> LoadPrimitive l;
     type \<leftarrow> ConstantType_of type;
     LoadConstant_value w base bits type l
   }"

end
