(* ===== verification/ConstantsRoundtrip.thy ===== *)
theory ConstantsRoundtrip
  imports Constants
begin

text \<open>
  What becomes of the constants of a chunk: numbers come back with the same value, external
  references are those of the loading process, named objects are looked up again and refused when
  their layout differs, and contexts, code and other objects are found or rebuilt.
\<close>

section \<open>Numbers\<close>

text \<open>A constant that is written by its value: the members agree, and where only the integer is
  written the double is that integer.\<close>

definition number_shim :: "'w constant_world_scheme \<Rightarrow> HConstantShim \<Rightarrow> bool" where
  "number_shim w shim \<longleftrightarrow>
     \<not> HasExternalReferenceValue (Constant_bit_field shim) \<and>
     Constant_int32_value shim = DoubleToInt32 (w_unspecified_cast w) (Constant_double_value shim) \<and>
     (\<forall>object. Constant_object shim = Some object \<longrightarrow>
       (let r = shim_representation (Constant_base shim);
            integer = (r = kSmi \<or> r = kInteger32 \<or> (r = kTagged \<and> IsSmi object))
        in (integer \<longrightarrow> Constant_double_value shim = FastI2D (Constant_int32_value shim)) \<and>
           (integer \<or> r = kDouble \<or> (r = kTagged \<and> IsHeapNumber w object))))"

definition loaded_number :: "HConstantShim \<Rightarrow> HConstantShim" where
  "loaded_number shim =
     HConstantShim (Constant_base shim) None None (Constant_int32_value shim)
       (Constant_double_value shim) 0 (Constant_bit_field shim)"

lemma number_type_null:
  assumes "number_shim w shim" "Constant_object shim = None"
  shows "constant_type_of w shim = Some kDoubleConstant \<or>
    constant_type_of w shim = Some kInteger \<and> Constant_double_value shim = FastI2D (Constant_int32_value shim)"
proof (cases "IsSmiDouble (w_unspecified_cast w) (Constant_double_value shim)")
  case True
  then obtain i where "Constant_double_value shim = FastI2D i" using IsSmiDouble_image by blast
  with assms True show ?thesis by (simp add: number_shim_def constant_type_of_def Let_def)
next
  case False
  with assms show ?thesis by (simp add: number_shim_def constant_type_of_def Let_def)
qed

lemma number_type_object:
  assumes "number_shim w shim" "Constant_object shim = Some object"
  shows "constant_type_of w shim = Some kDoubleConstant \<or>
    constant_type_of w shim = Some kInteger \<and> Constant_double_value shim = FastI2D (Constant_int32_value shim)"
proof -
  define integer where "integer = (shim_representation (Constant_base shim) = kSmi \<or>
    shim_representation (Constant_base shim) = kInteger32 \<or>
    (shim_representation (Constant_base shim) = kTagged \<and> IsSmi object))"
  define number where "number = (shim_representation (Constant_base shim) = kDouble \<or>
    (shim_representation (Constant_base shim) = kTagged \<and> IsHeapNumber w object))"
  have ext: "\<not> HasExternalReferenceValue (Constant_bit_field shim)"
    using assms(1) unfolding number_shim_def by blast
  have int: "constant_type_of w shim = Some kInteger" if integer
    using that unfolding constant_type_of_def Let_def integer_def
    by (simp only: option.case if_False if_True assms(2) ext)
  have num: "constant_type_of w shim = Some kDoubleConstant" if "\<not> integer" number
    using that unfolding constant_type_of_def Let_def integer_def number_def
    by (simp only: option.case if_False if_True assms(2) ext)
  have "(integer \<longrightarrow> Constant_double_value shim = FastI2D (Constant_int32_value shim)) \<and> (integer \<or> number)"
    using assms unfolding number_shim_def Let_def integer_def number_def by blast
  with int num show ?thesis by (cases integer) auto
qed

lemma number_type:
  assumes "number_shim w shim"
  shows "constant_type_of w shim = Some kDoubleConstant \<or>
    constant_type_of w shim = Some kInteger \<and> Constant_double_value shim = FastI2D (Constant_int32_value shim)"
  using number_type_null [OF assms] number_type_object [OF assms] by (cases "Constant_object shim") auto

lemma ConstantType_of_code [simp]: "ConstantType_of (constant_type_code t) = Some t"
  by (cases t; simp add: ConstantType_of_def)

text \<open>The common part of all constants.\<close>

lemma transmits_constant:
  assumes "constant_type_of w shim = Some type"
    and "transmits C (SaveConstant_value w shim type :: 'a sv)
      (LoadConstant_value w' (Constant_base shim) (Constant_bit_field shim) type :: 'b loader_base_scheme \<Rightarrow> _) y"
  shows "transmits C (SaveHConstantShim w shim :: 'a sv) (LoadHConstantShim w' :: 'b loader_base_scheme \<Rightarrow> _) y"
  unfolding SaveHConstantShim_def [abs_def] LoadHConstantShim_def [abs_def] assms(1) Option.bind.bind_lunit
  by (rule transmits_bind [OF transmits_HValueShim], rule transmits_bind [OF transmits_primitives(3)],
      rule transmits_bind [OF transmits_primitives(3)]) (simp add: assms(2))

lemma transmits_number:
  assumes "number_shim w shim" "w_unspecified_cast w' = w_unspecified_cast w"
  shows "transmits C (SaveHConstantShim w shim) (LoadHConstantShim w') (Some (loaded_number shim))"
  using number_type [OF assms(1)]
proof (elim disjE conjE)
  assume type: "constant_type_of w shim = Some kDoubleConstant"
  have "HConstantShim_double w' (Constant_base shim) (Constant_double_value shim) (Constant_bit_field shim)
      = loaded_number shim"
    using assms by (simp add: HConstantShim_double_def loaded_number_def number_shim_def)
  with transmits_map [OF transmits_primitives(4) [of C "Constant_double_value shim"],
      where h = "\<lambda>v. Some (HConstantShim_double w' (Constant_base shim) v (Constant_bit_field shim))"]
  show ?thesis by (intro transmits_constant [OF type]) (simp add: SaveConstant_value_def LoadConstant_value_def)
next
  assume type: "constant_type_of w shim = Some kInteger"
    and v: "Constant_double_value shim = FastI2D (Constant_int32_value shim)"
  have "HConstantShim_int32 (Constant_base shim) (Constant_int32_value shim) (Constant_bit_field shim)
      = loaded_number shim"
    using v by (simp add: HConstantShim_int32_def loaded_number_def)
  with transmits_map [OF transmits_primitives(3) [of C "Constant_int32_value shim"],
      where h = "\<lambda>v. Some (HConstantShim_int32 (Constant_base shim) v (Constant_bit_field shim))"]
  show ?thesis by (intro transmits_constant [OF type]) (simp add: SaveConstant_value_def LoadConstant_value_def)
qed


text \<open>The flags of a constant are single bits, which are computed bit by bit.\<close>

declare decode_OR [simp del]

lemma decode_bit: "BitField_decode n (Suc 0) w = 0 \<longleftrightarrow> \<not> bit w n"
proof -
  have "take_bit 1 (drop_bit n w) \<noteq> 0 \<longleftrightarrow> bit w n"
    by (simp add: bit_iff_odd_drop_bit odd_iff_mod_2_eq_one take_bit_eq_mod)
  then have "take_bit (Suc 0) (drop_bit n w) = 0 \<longleftrightarrow> \<not> bit w n" by (metis One_nat_def)
  then show ?thesis by (simp only: BitField_decode_bits)
qed

lemma bit_encode_flag:
  "k < 32 \<Longrightarrow> bit (BitField_encode k (of_bool b)) n \<longleftrightarrow> n = k \<and> b"
  "k < 32 \<Longrightarrow> bit (BitField_encode k 1) n \<longleftrightarrow> n = k"
  "\<not> bit (BitField_encode k 0) n"
  by (auto simp: BitField_encode_def bit_simps)

lemma bit_instance_type: "n < 8 \<Longrightarrow> \<not> bit (InstanceTypeField t) n"
  by (simp add: BitField_encode_def bit_simps)

lemma bit_update_flag:
  "k < 32 \<Longrightarrow> bit (BitField_update k (Suc 0) w (of_bool b)) n \<longleftrightarrow> (if n = k then b else bit w n)"
  "k < 32 \<Longrightarrow> bit (BitField_update k (Suc 0) w 1) n \<longleftrightarrow> n = k \<or> bit w n"
  by (auto simp: BitField_update_def BitField_encode_def BitField_kMask_mask bit_simps dest: bit_imp_le_length)

lemmas constant_flags = HasInteger32Value_def HasDoubleValue_def HasExternalReferenceValue_def HasSmiValue_def
  decode_bit bit_or_iff bit_encode_flag bit_update_flag bit_instance_type

lemma Initialize_parts:
  "constant_int32_value (Initialize r c) = constant_int32_value c"
  "constant_double_value (Initialize r c) = constant_double_value c"
  "constant_external_reference (Initialize r c) = constant_external_reference c"
  "r \<noteq> kNone \<Longrightarrow> constant_representation (Initialize r c) = r"
  "r \<noteq> kSmi \<Longrightarrow> constant_object (Initialize r c) = constant_object c"
  "constant_object (Initialize kSmi c) = None"
  "n \<noteq> 5 \<Longrightarrow> bit (constant_bit_field (Initialize r c)) n \<longleftrightarrow> bit (constant_bit_field c) n"
  by (simp_all add: Initialize_def Let_def bit_update_flag)

lemma Initialize_None:
  assumes "HasInteger32Value (constant_bit_field c)"
  shows "constant_representation (Initialize kNone c) = kInteger32"
  using assms by (simp add: Initialize_def)

lemma Initialize_None_double:
  assumes "HasDoubleValue (constant_bit_field c)" "\<not> HasInteger32Value (constant_bit_field c)"
  shows "constant_representation (Initialize kNone c) = kDouble"
  using assms by (simp add: Initialize_def)

text \<open>An object that a numerical constant may come from.\<close>

definition number_object :: "'w constant_world_scheme \<Rightarrow> Representation \<Rightarrow> constant_handle option \<Rightarrow> bool" where
  "number_object w r object \<longleftrightarrow> r \<in> {kNone, kSmi, kInteger32, kDouble, kTagged} \<and>
     (case object of None \<Rightarrow> True | Some a \<Rightarrow> Number w a \<noteq> None)"

lemma Number_cases: "Number w a \<noteq> None \<Longrightarrow> IsSmi a \<or> IsHeapNumber w a"
  by (auto simp: Number_def IsSmi_def IsHeapNumber_def split: constant_handle.splits obj.splits option.splits heap_obj.splits)

lemma number_shim_Initialize:
  assumes "number_object w r object"
    and c: "constant_object c = object" "\<not> HasExternalReferenceValue (constant_bit_field c)"
      "HasDoubleValue (constant_bit_field c)"
      "constant_int32_value c = DoubleToInt32 (w_unspecified_cast w) (constant_double_value c)"
    and integer: "r = kInteger32 \<or> HasInteger32Value (constant_bit_field c) \<or>
        (r = kTagged \<and> (\<exists>a. object = Some a \<and> IsSmi a)) \<Longrightarrow>
      constant_double_value c = FastI2D (constant_int32_value c)"
  shows "number_shim w (HConstantShim_of value_id block_id position flags (Initialize r c))"
proof -
  let ?h = "Initialize r c"
  have bits: "\<not> HasExternalReferenceValue (constant_bit_field ?h)"
    using c(2) by (simp add: HasExternalReferenceValue_def decode_bit Initialize_parts)
  have r: "constant_representation ?h =
      (if r \<noteq> kNone then r else if HasInteger32Value (constant_bit_field c) then kInteger32 else kDouble)"
    using c(3) by (simp add: Initialize_parts Initialize_None Initialize_None_double)
  have object: "constant_object ?h = (if r = kSmi then None else object)"
    using c(1) by (auto simp: Initialize_parts)
  have number: "IsSmi a \<or> IsHeapNumber w a" if "object = Some a" for a
    using assms(1) that Number_cases [of w a] by (auto simp: number_object_def)
  show ?thesis
    using assms(1) bits c(4) number integer
    by (cases object) (auto simp: number_shim_def HConstantShim_of_def r object number_object_def Let_def
      Initialize_parts)
qed

lemma number_shim_integer:
  assumes "number_object w r object"
  shows "number_shim w (HConstantShim_of value_id block_id position flags (HConstant_integer w v r nis object))"
  unfolding HConstant_integer_def
  by (rule number_shim_Initialize [OF assms], cases "v = 0"; cases nis)
    (simp_all add: constant_flags)

lemma IsInteger32_image: "IsInteger32 unspecified d \<Longrightarrow> d = FastI2D (DoubleToInt32 unspecified d)"
  unfolding IsInteger32_def by (metis DoubleToInt32_FastI2D)

lemma number_shim_double:
  assumes "number_object w r object"
    and "r = kInteger32 \<or> (r = kTagged \<and> (\<exists>a. object = Some a \<and> IsSmi a)) \<Longrightarrow> IsInteger32 (w_unspecified_cast w) d"
  shows "number_shim w (HConstantShim_of value_id block_id position flags (HConstant_double w d r nis object))"
  unfolding HConstant_double_def Let_def
  by (rule number_shim_Initialize [OF assms(1)])
    (use assms(2) IsInteger32_image in \<open>auto simp: constant_flags\<close>)


lemma Number_NewNumber: "Number w (NewNumber w' v) = Some v"
proof (cases "IsMinusZero v")
  case True
  then show ?thesis by (simp add: NewNumber_def Number_def handle_heap_object_def IsMinusZero_def)
next
  case False
  show ?thesis
  proof (cases "double_eq v (FastI2D (FastD2I (w_unspecified_cast w') v))")
    case eq: True
    then have "v = FastI2D (FastD2I (w_unspecified_cast w') v) \<or> v AND NOT kSignMask = 0"
      by (auto simp: double_eq_def)
    moreover have "v = FastI2D (FastD2I (w_unspecified_cast w') v)" if "v AND NOT kSignMask = 0"
    proof -
      from zero_plus [OF that False] have "v = 0" .
      then have "v = FastI2D 0" by (simp add: FastI2D_def)
      moreover have "truncated v = 0" "\<not> IsSpecial v" using zero_parts [OF that] by simp_all
      ultimately show ?thesis by (simp add: FastD2I_def)
    qed
    ultimately have "FastI2D (FastD2I (w_unspecified_cast w') v) = v" by auto
    with eq False show ?thesis by (simp add: NewNumber_def Number_def Let_def)
  next
    case False
    then show ?thesis
      using \<open>\<not> IsMinusZero v\<close> by (simp add: NewNumber_def Number_def handle_heap_object_def Let_def)
  qed
qed

text \<open>C19 Numbers survive. Take any constant that the optimizer makes of an integer or of a double, with
  any representation it may have and whatever object it came from. The loaded constant has the same
  flags, the same integer and bit for bit the same double, also for minus zero and NaN; only its
  object is gone, and the one it makes when asked has the value of the constant.\<close>
theorem number_constant_roundtrip:
  assumes "number_object w r object" "w_unspecified_cast w' = w_unspecified_cast w"
    and "h = HConstant_integer w v r not_in_new_space object \<or>
      h = HConstant_double w d r not_in_new_space object \<and>
        (r = kInteger32 \<or> r = kTagged \<and> (\<exists>a. object = Some a \<and> IsSmi a) \<longrightarrow> IsInteger32 (w_unspecified_cast w) d)"
    and shim: "shim = HConstantShim_of value_id block_id position flags h"
  shows "transmits C (SaveHConstantShim w shim) (LoadHConstantShim w') (Some (loaded_number shim)) \<and>
    Number w' (Constant_handle w' (loaded_number shim)) = Some (Constant_double_value shim)"
proof -
  have "number_shim w shim"
    using assms(3) number_shim_integer [OF assms(1)] number_shim_double [OF assms(1)] unfolding shim by blast
  from transmits_number [OF this assms(2)] show ?thesis
    by (simp add: Constant_handle_def loaded_number_def Number_NewNumber)
qed

section \<open>References and objects\<close>

inductive reloads_constant_object ::
  "'w constant_world_scheme \<Rightarrow> nat list \<Rightarrow> HConstantShim \<Rightarrow> ConstantType \<Rightarrow> constant_handle \<Rightarrow> bool"
  for w :: "'w constant_world_scheme" and C shim where
  named: "Constant_hydrogen shim = Some h \<Longrightarrow> Constant_object shim = Some object \<Longrightarrow>
    constant_name h = Some name \<Longrightarrow> string_fits name \<Longrightarrow> reloads_map w C (w_object_map w object) m \<Longrightarrow>
    (if constant_is_builtin h then w_builtin_constant w (str_units name)
     else w_global_property w (str_units name)) = Some found \<Longrightarrow>
    handle_heap_object w found \<noteq> None \<Longrightarrow> EquivalentToForDeduplication w (w_object_map w found) m \<Longrightarrow>
    reloads_constant_object w C shim kNamed found"
| literals: "reloads_constant_object w C shim kLiteralsArray (ByAddress (w_closure_literals w))"
| context_of: "Constant_hydrogen shim = Some h \<Longrightarrow> constant_context_owner h = Some f \<Longrightarrow> function_ok w f \<Longrightarrow>
    resolved_function w f = Some g \<Longrightarrow>
    reloads_constant_object w C shim kContext (ByAddress (w_function_context w g))"
| stub: "Constant_hydrogen shim = Some h \<Longrightarrow>
    constant_code_relocation h = kApiFunctionStub is_store call_data_undefined argc \<Longrightarrow>
    reloads_constant_object w C shim kCode
      (ByAddress (w_CallApiFunctionStub_GetCode w is_store call_data_undefined argc))"
| adaptor: "Constant_hydrogen shim = Some h \<Longrightarrow> constant_code_relocation h = kArgumentsAdaptor \<Longrightarrow>
    reloads_constant_object w C shim kCode (ByAddress (w_ArgumentsAdaptorTrampoline w))"
| other: "Constant_object shim = Some object \<Longrightarrow> handle_heap_object w object = Some h \<Longrightarrow> reloads_heap w C h y \<Longrightarrow>
    reloads_constant_object w C shim kOther (ByValue y)"

inductive reloads_constant ::
  "'w constant_world_scheme \<Rightarrow> nat list \<Rightarrow> HConstantShim \<Rightarrow> HConstantShim \<Rightarrow> bool"
  for w :: "'w constant_world_scheme" and C shim where
  number: "number_shim w shim \<Longrightarrow> reloads_constant w C shim (loaded_number shim)"
| reference: "constant_type_of w shim = Some kExternalReference \<Longrightarrow>
    Decode_reference (ExternalReferenceDecoder (w_external_references w))
      (Encode_reference (w_external_references w) (ExternalReferenceEncoder (w_external_references w))
        (Constant_external_reference_value shim)) = Some a \<Longrightarrow>
    reloads_constant w C shim (HConstantShim_reference w (Constant_base shim) a (Constant_bit_field shim))"
| object: "constant_type_of w shim = Some type \<Longrightarrow> reloads_constant_object w C shim type object \<Longrightarrow>
    reloads_constant w C shim (HConstantShim_object (Constant_base shim) (Some object)
      (Constant_int32_value shim) (Constant_double_value shim) (Constant_bit_field shim))"

text \<open>Looking a name up: found with the saved layout, or refused.\<close>

lemma transmits_named:
  assumes "Constant_hydrogen shim = Some h" "Constant_object shim = Some object" "constant_name h = Some name"
    "string_fits name" "reloads_map w C (w_object_map w object) m"
    "(if constant_is_builtin h then w_builtin_constant w (str_units name)
      else w_global_property w (str_units name)) = Some found"
    "handle_heap_object w found \<noteq> None" "EquivalentToForDeduplication w (w_object_map w found) m"
  shows "transmits C (SaveConstant_object w shim kNamed) (LoadConstant_named w) (Some found)"
proof -
  have sv: "SaveConstant_object w shim kNamed = (\<lambda>s. SaveString name s \<bind> (\<lambda>s.
      SavePrimitive_bool (constant_is_builtin h) s \<bind> SaveMap w (w_object_map w object)))"
    by (rule ext) (simp add: SaveConstant_object_def assms(1-3))
  show ?thesis
    unfolding sv LoadConstant_named_def [abs_def]
    by (rule transmits_bind [OF transmits_String [OF assms(4)]], rule transmits_bind [OF transmits_bool_LoadBool])
      (simp only: string_fits_reloaded assms(6) Option.bind.bind_lunit,
        rule transmits_save_last [OF transmits_Map [OF assms(5)]], simp add: RETURN_VALUE_ON_FAIL_def assms(7,8))
qed


lemma transmits_constant_object:
  assumes "reloads_constant_object w C shim type object"
  shows "transmits C (SaveConstant_object w shim type :: 'a sv)
      (LoadConstant_object w type :: 'b loader_base_scheme \<Rightarrow> _) (Some object)
    \<and> type \<in> {kNamed, kLiteralsArray, kContext, kCode, kOther}"
  using assms
proof (cases rule: reloads_constant_object.cases)
  case (named h object name m)
  from transmits_named [OF named(2-9)] show ?thesis using named(1) by (simp add: LoadConstant_object_def)
next
  case literals
  then show ?thesis by (simp add: SaveConstant_object_def LoadConstant_object_def transmits_done)
next
  case (context_of h f g)
  have "(SaveConstant_object w shim kContext :: 'a sv) = SaveJSFunction w f"
    by (rule ext) (simp add: SaveConstant_object_def context_of)
  moreover have "transmits C (SaveJSFunction w f :: 'a sv) (LoadConstant_context w :: 'b loader_base_scheme \<Rightarrow> _) (Some (ByAddress (w_function_context w g)))"
    unfolding LoadConstant_context_def [abs_def]
    by (rule transmits_save_last [OF transmits_JSFunction [OF context_of(5)]])
      (simp add: context_of(6) RETURN_VALUE_ON_FAIL_def)
  ultimately show ?thesis using context_of(1,2) by (simp add: LoadConstant_object_def)
next
  case (stub h is_store call_data_undefined argc)
  have "(SaveConstant_object w shim kCode :: 'a sv) = (\<lambda>s. SavePrimitive (2 :: uint32) s \<bind> (\<lambda>s.
      SavePrimitive_bool is_store s \<bind> (\<lambda>s. SavePrimitive_bool call_data_undefined s \<bind> SavePrimitive argc)))"
    by (rule ext) (simp add: SaveConstant_object_def SaveCodeRelocation_def stub)
  moreover have "transmits C ((\<lambda>s. SavePrimitive (2 :: uint32) s \<bind> (\<lambda>s. SavePrimitive_bool is_store s \<bind>
      (\<lambda>s. SavePrimitive_bool call_data_undefined s \<bind> SavePrimitive argc))) :: 'a sv) (LoadConstant_code w :: 'b loader_base_scheme \<Rightarrow> _)
    (Some (ByAddress (w_CallApiFunctionStub_GetCode w is_store call_data_undefined argc)))"
    unfolding LoadConstant_code_def [abs_def]
    by (rule transmits_bind [OF transmits_primitives(3)], simp)
      (rule transmits_bind [OF transmits_bool], rule transmits_bind [OF transmits_bool],
        rule transmits_map [OF transmits_primitives(3)])
  ultimately show ?thesis using stub(1,2) by (simp add: LoadConstant_object_def)
next
  case (adaptor h)
  have "(SaveConstant_object w shim kCode :: 'a sv) = SavePrimitive (1 :: uint32)"
    by (rule ext) (simp add: SaveConstant_object_def SaveCodeRelocation_def adaptor)
  moreover have "transmits C (SavePrimitive (1 :: uint32) :: 'a sv) (LoadConstant_code w :: 'b loader_base_scheme \<Rightarrow> _)
    (Some (ByAddress (w_ArgumentsAdaptorTrampoline w)))"
    unfolding LoadConstant_code_def [abs_def] by (rule transmits_save_last [OF transmits_primitives(3)]) simp
  ultimately show ?thesis using adaptor(1,2) by (simp add: LoadConstant_object_def)
next
  case (other object h y)
  have "(SaveConstant_object w shim kOther :: 'a sv) = SaveHeapObject w h"
    by (rule ext) (simp add: SaveConstant_object_def other)
  moreover have "transmits C (SaveHeapObject w h :: 'a sv)
    (\<lambda>l :: 'b loader_base_scheme. LoadHeapObject w l \<bind> (\<lambda>(object, l). Some (map_option ByValue object, l))) (Some (ByValue y))"
    using transmits_map [OF transmits_HeapObject [OF other(5)], where h = "map_option ByValue"] by simp
  ultimately show ?thesis using other(1,2) by (simp add: LoadConstant_object_def)
qed

text \<open>A loader that gives up under some condition when there is a failure.\<close>

lemma transmits_load_unless:
  "transmits C sv k y \<Longrightarrow> transmits C sv (\<lambda>l. if status l \<noteq> SUCCEEDED \<and> P then v l else k l) y"
  unfolding transmits_def loads_def by simp

lemma transmits_object_and_numbers:
  assumes "reloads_constant_object w C shim type object"
  shows "transmits C (SaveConstant_value w shim type)
    (LoadConstant_value w (Constant_base shim) (Constant_bit_field shim) type)
    (Some (HConstantShim_object (Constant_base shim) (Some object) (Constant_int32_value shim)
      (Constant_double_value shim) (Constant_bit_field shim)))"
proof -
  note obj = transmits_constant_object [OF assms]
  let ?numbers = "\<lambda>l. LoadPrimitive l \<bind> (\<lambda>(i, l). LoadPrimitive l \<bind> (\<lambda>(d, l).
      Some (Some (HConstantShim_object (Constant_base shim) (Some object) i d (Constant_bit_field shim)), l)))"
  let ?shim = "Some (HConstantShim_object (Constant_base shim) (Some object) (Constant_int32_value shim)
      (Constant_double_value shim) (Constant_bit_field shim))"
  have "transmits C (\<lambda>s. SavePrimitive (Constant_int32_value shim) s \<bind> SavePrimitive (Constant_double_value shim))
      ?numbers ?shim"
    by (rule transmits_bind [OF transmits_primitives(3)]) (rule transmits_map [OF transmits_primitives(4)])
  then have "transmits C (\<lambda>s. SavePrimitive (Constant_int32_value shim) s \<bind> SavePrimitive (Constant_double_value shim))
      (\<lambda>l. if status l \<noteq> SUCCEEDED \<and> (type = kNamed \<or> type = kContext) then Some (None, l) else ?numbers l) ?shim"
    by (rule transmits_load_unless)
  then have "transmits C (\<lambda>s. RETURN_ON_FAIL s
      (SavePrimitive (Constant_int32_value shim) s \<bind> SavePrimitive (Constant_double_value shim)))
      (\<lambda>l. if status l \<noteq> SUCCEEDED \<and> (type = kNamed \<or> type = kContext) then Some (None, l) else ?numbers l) ?shim"
    by (rule transmits_save_return)
  from transmits_bind [where k = "\<lambda>object l. if status l \<noteq> SUCCEEDED \<and> (type = kNamed \<or> type = kContext)
      then Some (None, l) else LoadPrimitive l \<bind> (\<lambda>(i, l). LoadPrimitive l \<bind> (\<lambda>(d, l).
      Some (Some (HConstantShim_object (Constant_base shim) object i d (Constant_bit_field shim)), l)))",
      OF conjunct1 [OF obj] this]
  show ?thesis using conjunct2 [OF obj]
    by (cases type) (simp_all add: SaveConstant_value_def LoadConstant_value_def)
qed

lemma transmits_HConstantShim:
  assumes "reloads_constant w C shim shim'"
  shows "transmits C (SaveHConstantShim w shim) (LoadHConstantShim w) (Some shim')"
  using assms
proof (cases rule: reloads_constant.cases)
  case number
  then show ?thesis using transmits_number by blast
next
  case (reference a)
  show ?thesis
    unfolding reference(1)
  proof (rule transmits_constant [OF reference(2)])
    show "transmits C (SaveConstant_value w shim kExternalReference)
        (LoadConstant_value w (Constant_base shim) (Constant_bit_field shim) kExternalReference)
        (Some (HConstantShim_reference w (Constant_base shim) a (Constant_bit_field shim)))"
      unfolding SaveConstant_value_def LoadConstant_value_def ConstantType.case Let_def
      by (rule transmits_save_last [OF transmits_primitives(3)]) (simp add: reference(3))
  qed
next
  case (object type object)
  show ?thesis unfolding object(1)
    by (rule transmits_constant [OF object(2) transmits_object_and_numbers [OF object(3)]])
qed


section \<open>Objects that changed\<close>

text \<open>A loader that reports a failure on these bytes, whatever follows them.\<close>

definition refuses :: "('b loader_base_scheme \<Rightarrow> ('y option \<times> 'b loader_base_scheme) option) \<Rightarrow> byte list \<Rightarrow> bool" where
  "refuses ld bs \<longleftrightarrow> (\<forall>l rest. status l = SUCCEEDED \<longrightarrow> input l = bs @ rest \<longrightarrow>
     (\<exists>l'. ld l = Some (None, l') \<and> status l' = FAILED))"

lemma refuses_bind:
  "loads f b1 x \<Longrightarrow> refuses (k x) b2 \<Longrightarrow> refuses (\<lambda>l. f l \<bind> (\<lambda>(x, l). k x l)) (b1 @ b2)"
  by (simp add: loads_def refuses_def)

lemma refuses_append: "refuses ld b1 \<Longrightarrow> refuses ld (b1 @ b2)"
  by (simp add: refuses_def)

lemma saves_loads_bind:
  assumes "transmits C f ld x" "\<exists>bs. saves C g bs \<and> refuses (k x) bs"
  shows "\<exists>bs. saves C (\<lambda>s. f s \<bind> g) bs \<and> refuses (\<lambda>l. ld l \<bind> (\<lambda>(x, l). k x l)) bs"
  using assms unfolding transmits_def by (blast intro: saves_bind refuses_bind)

lemma named_refused:
  assumes "Constant_hydrogen shim = Some h" "Constant_object shim = Some object" "constant_name h = Some name"
    "string_fits name" "reloads_map w C (w_object_map w object) m"
    "(if constant_is_builtin h then w_builtin_constant w (str_units name)
      else w_global_property w (str_units name)) = Some found"
    "handle_heap_object w found = None \<or> \<not> EquivalentToForDeduplication w (w_object_map w found) m"
  shows "\<exists>bs. saves C (SaveConstant_object w shim kNamed :: 'a sv) bs \<and>
    refuses (LoadConstant_named w :: 'b loader_base_scheme \<Rightarrow> _) bs"
proof -
  have sv: "(SaveConstant_object w shim kNamed :: 'a sv) = (\<lambda>s. SaveString name s \<bind> (\<lambda>s.
      SavePrimitive_bool (constant_is_builtin h) s \<bind> SaveMap w (w_object_map w object)))"
    by (rule ext) (simp add: SaveConstant_object_def assms(1-3))
  let ?check = "\<lambda>l :: 'b loader_base_scheme. LoadMap w l \<bind> (\<lambda>(m, l). RETURN_VALUE_ON_FAIL None l (m \<bind> (\<lambda>m.
       if handle_heap_object w found = None \<or> \<not> EquivalentToForDeduplication w (w_object_map w found) m
       then Some (None, Fail ''object layout changed - can't reference by name'' l)
       else Some (Some found, l))))"
  have "\<exists>bs. saves C (SaveMap w (w_object_map w object) :: 'a sv) bs \<and> loads (LoadMap w :: 'b loader_base_scheme \<Rightarrow> _) bs (Some m)"
    using transmits_Map [OF assms(5)] by (simp only: transmits_def)
  then have "\<exists>bs. saves C (SaveMap w (w_object_map w object) :: 'a sv) bs \<and> refuses ?check bs"
    using assms(7) by (fastforce simp: refuses_def loads_def RETURN_VALUE_ON_FAIL_def Fail_def)
  then show ?thesis unfolding sv LoadConstant_named_def [abs_def]
    by (intro saves_loads_bind [OF transmits_String [OF assms(4)]] saves_loads_bind [OF transmits_bool_LoadBool])
      (simp only: string_fits_reloaded assms(6) Option.bind.bind_lunit)
qed


text \<open>C20 A constant that is an object of the global scope is never taken to be another one: if the
  object found under its name is not equivalent to the saved one in its map, the loader reports a
  failure instead of a constant.\<close>
theorem changed_object_refused:
  assumes "constant_type_of w shim = Some kNamed"
    and "Constant_hydrogen shim = Some h" "Constant_object shim = Some object" "constant_name h = Some name"
    and "string_fits name" "reloads_map w C (w_object_map w object) m"
    and "(if constant_is_builtin h then w_builtin_constant w (str_units name)
      else w_global_property w (str_units name)) = Some found"
    and "handle_heap_object w found = None \<or> \<not> EquivalentToForDeduplication w (w_object_map w found) m"
  shows "\<exists>bs. saves C (SaveHConstantShim w shim :: 'a sv) bs \<and>
    refuses (LoadHConstantShim w :: 'b loader_base_scheme \<Rightarrow> _) bs"
proof -
  let ?numbers = "\<lambda>s. SavePrimitive (Constant_int32_value shim) s \<bind> SavePrimitive (Constant_double_value shim)"
  obtain b1 where b1: "saves C (SaveConstant_object w shim kNamed :: 'a sv) b1"
    "refuses (LoadConstant_named w :: 'b loader_base_scheme \<Rightarrow> _) b1"
    using named_refused [OF assms(2-8)] by blast
  have "transmits C (?numbers :: 'a sv)
      (\<lambda>l :: unit loader_base_scheme. LoadPrimitive l \<bind> (\<lambda>(i, l). LoadPrimitive l \<bind> (\<lambda>(d, l). Some ((i, d), l))))
      (Constant_int32_value shim, Constant_double_value shim)"
    by (rule transmits_bind [OF transmits_primitives(3)]) (rule transmits_map [OF transmits_primitives(4)])
  then obtain b2 where "saves C (?numbers :: 'a sv) b2" by (rule transmitsE)
  then have "saves C (\<lambda>s. RETURN_ON_FAIL s (?numbers s) :: 'a saver_base_scheme option) b2" by (rule saves_return)
  with b1(1) have "saves C (SaveConstant_value w shim kNamed :: 'a sv) (b1 @ b2)"
    unfolding SaveConstant_value_def ConstantType.case by (rule saves_bind)
  moreover have "refuses (LoadConstant_value w (Constant_base shim) (Constant_bit_field shim) kNamed
      :: 'b loader_base_scheme \<Rightarrow> _) (b1 @ b2)"
    using refuses_append [OF b1(2), of b2]
    by (fastforce simp: refuses_def LoadConstant_value_def LoadConstant_object_def)
  ultimately have "\<exists>bs. saves C (SaveConstant_value w shim kNamed :: 'a sv) bs \<and>
      refuses (\<lambda>l :: 'b loader_base_scheme. ConstantType_of (constant_type_code kNamed) \<bind> (\<lambda>type.
        LoadConstant_value w (Constant_base shim) (Constant_bit_field shim) type l)) bs"
    by (simp only: ConstantType_of_code Option.bind.bind_lunit) (intro exI conjI)
  then show ?thesis
    unfolding SaveHConstantShim_def [abs_def] LoadHConstantShim_def [abs_def] assms(1) Option.bind.bind_lunit
    by (intro saves_loads_bind [OF transmits_HValueShim] saves_loads_bind [OF transmits_primitives(3)])
qed

section \<open>A world to try the properties in\<close>

definition sample_constant_world :: constant_world where
  "sample_constant_world = shim_world.extend (heap_world.extend sample_heap_world
      \<lparr>w_EnsurePropertyCell = (\<lambda>_. 30)\<rparr>)
    \<lparr>w_closure_literals = 20, w_IsContext = (\<lambda>a. a = 21), w_IsCode = (\<lambda>a. a = 22), w_contents = (\<lambda>a. HJSFunction a),
     w_object_map = (\<lambda>_. [sample_map]),
     w_builtin_constant = (\<lambda>_. None), w_global_property = (\<lambda>_. Some (ByValue (OSmi 1))),
     w_function_context = (\<lambda>a. a + 100), w_CallApiFunctionStub_GetCode = (\<lambda>_ _ _. 23),
     w_ArgumentsAdaptorTrampoline = 24, w_external_references = empty_table,
     w_uninitialized_int32 = 0xABCD, w_uninitialized_double = 0xABCD, w_uninitialized_bool = True,
     w_unspecified_cast = 0x80000000\<rparr>"

lemma number_constant_roundtrip_witness:
  "\<exists>shim. transmits [] (SaveHConstantShim sample_constant_world shim) (LoadHConstantShim sample_constant_world)
      (Some (loaded_number shim)) \<and> Constant_double_value shim = kSignMask"
proof -
  let ?h = "HConstant_double sample_constant_world kSignMask kTagged True (Some (ByValue (OHeap (HHeapNumber kSignMask))))"
  have object: "number_object sample_constant_world kTagged (Some (ByValue (OHeap (HHeapNumber kSignMask))))"
    by (simp add: number_object_def Number_def handle_heap_object_def)
  have h: "?h = HConstant_integer sample_constant_world 0 kTagged True (Some (ByValue (OHeap (HHeapNumber kSignMask)))) \<or>
      ?h = HConstant_double sample_constant_world kSignMask kTagged True (Some (ByValue (OHeap (HHeapNumber kSignMask)))) \<and>
      (kTagged = kInteger32 \<or> kTagged = kTagged \<and>
        (\<exists>a. Some (ByValue (OHeap (HHeapNumber kSignMask))) = Some a \<and> IsSmi a) \<longrightarrow>
        IsInteger32 (w_unspecified_cast sample_constant_world) kSignMask)"
    by (simp add: IsSmi_def)
  have "transmits [] (SaveHConstantShim sample_constant_world (HConstantShim_of 1 2 3 4 ?h))
      (LoadHConstantShim sample_constant_world) (Some (loaded_number (HConstantShim_of 1 2 3 4 ?h)))"
    by (rule conjunct1 [OF number_constant_roundtrip [OF object refl h refl]])
  moreover have "Constant_double_value (HConstantShim_of 1 2 3 4 ?h) = kSignMask"
    by (simp add: HConstantShim_of_def HConstant_double_def Let_def Initialize_parts)
  ultimately show ?thesis by blast
qed

lemma sample_constant_reloads_map:
  "reloads_map sample_constant_world [] [sample_map]
     [with_prototype NewMap (mn_properties sample_map)
        (descriptors_with_values (own_keys sample_map) [OSmi 3]) (Some null_value)]"
  by (rule sample_reloads_map_in)
    (simp_all add: registry_wf_def GetStableRootIndex_def sample_map_simps RootIndex_def kNotFound_def
      sample_constant_world_def sample_heap_world_def heap_world.defs shim_world.defs world.defs sample_world_def Let_def)

definition sample_named_constant :: HConstantShim where
  "sample_named_constant = HConstantShim_of 1 2 3 4 (SetName \<lparr>str_units = [97], str_internalized = True\<rparr>
     (HConstant_of_object sample_constant_world \<lparr>of_type = HType_JSObject, of_BooleanValue = True,
       of_InNewSpace = False, of_instance_type = 189, of_is_undetectable = False, of_is_stable_map = False\<rparr>
       (ByAddress 50) kHeapObject))"

lemma Initialize_name:
  "constant_name (Initialize r c) = constant_name c"
  "constant_is_builtin (Initialize r c) = constant_is_builtin c"
  by (simp_all add: Initialize_def Let_def)

lemma bit_update_clear:
  "k < 32 \<Longrightarrow> bit (BitField_update k (Suc 0) w 0) n \<longleftrightarrow> n \<noteq> k \<and> bit w n"
  "n < 8 \<Longrightarrow> bit (BitField_update 8 8 w v) n \<longleftrightarrow> bit w n"
  by (auto simp: BitField_update_def BitField_encode_def BitField_kMask_mask bit_simps dest: bit_imp_le_length)

lemma sample_named_constant_hydrogen:
  "\<exists>h. Constant_hydrogen sample_named_constant = Some h \<and> \<not> constant_is_builtin h \<and>
     constant_name h = Some \<lparr>str_units = [97], str_internalized = True\<rparr> \<and>
     Constant_object sample_named_constant = Some (ByAddress 50) \<and>
     constant_type_of sample_constant_world sample_named_constant = Some kNamed"
  by (simp add: sample_named_constant_def HConstantShim_of_def HConstant_of_object_def constant_type_of_def IsSmi_def IsHeapNumber_def Let_def
      SetName_def Number_def handle_heap_object_def sample_constant_world_def shim_world.defs heap_world.defs
      Initialize_parts Initialize_name constant_flags bit_update_clear)

lemma changed_object_refused_witness:
  "\<exists>bs. saves [] (SaveHConstantShim sample_constant_world sample_named_constant) bs \<and>
    refuses (LoadHConstantShim sample_constant_world) bs"
proof -
  let ?w = sample_constant_world and ?a = "\<lparr>str_units = [97], str_internalized = True\<rparr>"
  obtain h where h: "Constant_hydrogen sample_named_constant = Some h" "\<not> constant_is_builtin h"
    "constant_name h = Some ?a" "Constant_object sample_named_constant = Some (ByAddress 50)"
    "constant_type_of ?w sample_named_constant = Some kNamed"
    using sample_named_constant_hydrogen by blast
  have found: "(if constant_is_builtin h then w_builtin_constant ?w (str_units ?a)
      else w_global_property ?w (str_units ?a)) = Some (ByValue (OSmi 1))"
    using h(2) by (simp add: sample_constant_world_def shim_world.defs)
  have "w_object_map ?w (ByAddress 50) = [sample_map]"
    by (simp add: sample_constant_world_def shim_world.defs)
  then have m: "reloads_map ?w [] (w_object_map ?w (ByAddress 50))
     [with_prototype NewMap (mn_properties sample_map)
        (descriptors_with_values (own_keys sample_map) [OSmi 3]) (Some null_value)]"
    by (simp only: sample_constant_reloads_map)
  show ?thesis
    by (rule changed_object_refused [OF h(5,1,4,3) _ m found])
      (simp_all add: string_fits_def handle_heap_object_def)
qed

end
