(* ===== verification/Opcodes.thy ===== *)
theory Opcodes
  imports Prelude
begin

text \<open>
  The enumeration \<^verbatim>\<open>LInstruction::Opcode\<close> of \<^verbatim>\<open>src/x64/lithium-x64.h\<close>, with an enumerator for every
  class of \<^verbatim>\<open>LITHIUM_CONCRETE_INSTRUCTION_LIST\<close> in the order of that list.
\<close>

type_synonym Opcode = nat

named_theorems opcodes \<open>the values of the enumerators\<close>

definition kAccessArgumentsAt :: Opcode where [opcodes]: "kAccessArgumentsAt = 0"
definition kAddI :: Opcode where [opcodes]: "kAddI = 1"
definition kAllocate :: Opcode where [opcodes]: "kAllocate = 2"
definition kAllocateBlockContext :: Opcode where [opcodes]: "kAllocateBlockContext = 3"
definition kApplyArguments :: Opcode where [opcodes]: "kApplyArguments = 4"
definition kArgumentsElements :: Opcode where [opcodes]: "kArgumentsElements = 5"
definition kArgumentsLength :: Opcode where [opcodes]: "kArgumentsLength = 6"
definition kArithmeticD :: Opcode where [opcodes]: "kArithmeticD = 7"
definition kArithmeticT :: Opcode where [opcodes]: "kArithmeticT = 8"
definition kBitI :: Opcode where [opcodes]: "kBitI = 9"
definition kBoundsCheck :: Opcode where [opcodes]: "kBoundsCheck = 10"
definition kBranch :: Opcode where [opcodes]: "kBranch = 11"
definition kCallJSFunction :: Opcode where [opcodes]: "kCallJSFunction = 12"
definition kCallWithDescriptor :: Opcode where [opcodes]: "kCallWithDescriptor = 13"
definition kCallFunction :: Opcode where [opcodes]: "kCallFunction = 14"
definition kCallNew :: Opcode where [opcodes]: "kCallNew = 15"
definition kCallNewArray :: Opcode where [opcodes]: "kCallNewArray = 16"
definition kCallRuntime :: Opcode where [opcodes]: "kCallRuntime = 17"
definition kCallStub :: Opcode where [opcodes]: "kCallStub = 18"
definition kCheckInstanceType :: Opcode where [opcodes]: "kCheckInstanceType = 19"
definition kCheckMaps :: Opcode where [opcodes]: "kCheckMaps = 20"
definition kCheckMapValue :: Opcode where [opcodes]: "kCheckMapValue = 21"
definition kCheckNonSmi :: Opcode where [opcodes]: "kCheckNonSmi = 22"
definition kCheckSmi :: Opcode where [opcodes]: "kCheckSmi = 23"
definition kCheckValue :: Opcode where [opcodes]: "kCheckValue = 24"
definition kClampDToUint8 :: Opcode where [opcodes]: "kClampDToUint8 = 25"
definition kClampIToUint8 :: Opcode where [opcodes]: "kClampIToUint8 = 26"
definition kClampTToUint8 :: Opcode where [opcodes]: "kClampTToUint8 = 27"
definition kClassOfTestAndBranch :: Opcode where [opcodes]: "kClassOfTestAndBranch = 28"
definition kCompareMinusZeroAndBranch :: Opcode where [opcodes]: "kCompareMinusZeroAndBranch = 29"
definition kCompareNumericAndBranch :: Opcode where [opcodes]: "kCompareNumericAndBranch = 30"
definition kCmpObjectEqAndBranch :: Opcode where [opcodes]: "kCmpObjectEqAndBranch = 31"
definition kCmpHoleAndBranch :: Opcode where [opcodes]: "kCmpHoleAndBranch = 32"
definition kCmpMapAndBranch :: Opcode where [opcodes]: "kCmpMapAndBranch = 33"
definition kCmpT :: Opcode where [opcodes]: "kCmpT = 34"
definition kConstantD :: Opcode where [opcodes]: "kConstantD = 35"
definition kConstantE :: Opcode where [opcodes]: "kConstantE = 36"
definition kConstantI :: Opcode where [opcodes]: "kConstantI = 37"
definition kConstantS :: Opcode where [opcodes]: "kConstantS = 38"
definition kConstantT :: Opcode where [opcodes]: "kConstantT = 39"
definition kConstructDouble :: Opcode where [opcodes]: "kConstructDouble = 40"
definition kContext :: Opcode where [opcodes]: "kContext = 41"
definition kDateField :: Opcode where [opcodes]: "kDateField = 42"
definition kDebugBreak :: Opcode where [opcodes]: "kDebugBreak = 43"
definition kDeclareGlobals :: Opcode where [opcodes]: "kDeclareGlobals = 44"
definition kDeoptimize :: Opcode where [opcodes]: "kDeoptimize = 45"
definition kDivByConstI :: Opcode where [opcodes]: "kDivByConstI = 46"
definition kDivByPowerOf2I :: Opcode where [opcodes]: "kDivByPowerOf2I = 47"
definition kDivI :: Opcode where [opcodes]: "kDivI = 48"
definition kDoubleBits :: Opcode where [opcodes]: "kDoubleBits = 49"
definition kDoubleToI :: Opcode where [opcodes]: "kDoubleToI = 50"
definition kDoubleToSmi :: Opcode where [opcodes]: "kDoubleToSmi = 51"
definition kDrop :: Opcode where [opcodes]: "kDrop = 52"
definition kDummyUse :: Opcode where [opcodes]: "kDummyUse = 53"
definition kDummy :: Opcode where [opcodes]: "kDummy = 54"
definition kFlooringDivByConstI :: Opcode where [opcodes]: "kFlooringDivByConstI = 55"
definition kFlooringDivByPowerOf2I :: Opcode where [opcodes]: "kFlooringDivByPowerOf2I = 56"
definition kFlooringDivI :: Opcode where [opcodes]: "kFlooringDivI = 57"
definition kForInCacheArray :: Opcode where [opcodes]: "kForInCacheArray = 58"
definition kForInPrepareMap :: Opcode where [opcodes]: "kForInPrepareMap = 59"
definition kFunctionLiteral :: Opcode where [opcodes]: "kFunctionLiteral = 60"
definition kGetCachedArrayIndex :: Opcode where [opcodes]: "kGetCachedArrayIndex = 61"
definition kGoto :: Opcode where [opcodes]: "kGoto = 62"
definition kHasCachedArrayIndexAndBranch :: Opcode where [opcodes]: "kHasCachedArrayIndexAndBranch = 63"
definition kHasInstanceTypeAndBranch :: Opcode where [opcodes]: "kHasInstanceTypeAndBranch = 64"
definition kInnerAllocatedObject :: Opcode where [opcodes]: "kInnerAllocatedObject = 65"
definition kInstanceOf :: Opcode where [opcodes]: "kInstanceOf = 66"
definition kInstanceOfKnownGlobal :: Opcode where [opcodes]: "kInstanceOfKnownGlobal = 67"
definition kInstructionGap :: Opcode where [opcodes]: "kInstructionGap = 68"
definition kInteger32ToDouble :: Opcode where [opcodes]: "kInteger32ToDouble = 69"
definition kInvokeFunction :: Opcode where [opcodes]: "kInvokeFunction = 70"
definition kIsConstructCallAndBranch :: Opcode where [opcodes]: "kIsConstructCallAndBranch = 71"
definition kIsObjectAndBranch :: Opcode where [opcodes]: "kIsObjectAndBranch = 72"
definition kIsStringAndBranch :: Opcode where [opcodes]: "kIsStringAndBranch = 73"
definition kIsSmiAndBranch :: Opcode where [opcodes]: "kIsSmiAndBranch = 74"
definition kIsUndetectableAndBranch :: Opcode where [opcodes]: "kIsUndetectableAndBranch = 75"
definition kLabel :: Opcode where [opcodes]: "kLabel = 76"
definition kLazyBailout :: Opcode where [opcodes]: "kLazyBailout = 77"
definition kLoadContextSlot :: Opcode where [opcodes]: "kLoadContextSlot = 78"
definition kLoadRoot :: Opcode where [opcodes]: "kLoadRoot = 79"
definition kLoadFieldByIndex :: Opcode where [opcodes]: "kLoadFieldByIndex = 80"
definition kLoadFunctionPrototype :: Opcode where [opcodes]: "kLoadFunctionPrototype = 81"
definition kLoadGlobalCell :: Opcode where [opcodes]: "kLoadGlobalCell = 82"
definition kLoadGlobalGeneric :: Opcode where [opcodes]: "kLoadGlobalGeneric = 83"
definition kLoadKeyed :: Opcode where [opcodes]: "kLoadKeyed = 84"
definition kLoadKeyedGeneric :: Opcode where [opcodes]: "kLoadKeyedGeneric = 85"
definition kLoadNamedField :: Opcode where [opcodes]: "kLoadNamedField = 86"
definition kLoadNamedGeneric :: Opcode where [opcodes]: "kLoadNamedGeneric = 87"
definition kMapEnumLength :: Opcode where [opcodes]: "kMapEnumLength = 88"
definition kMathAbs :: Opcode where [opcodes]: "kMathAbs = 89"
definition kMathClz32 :: Opcode where [opcodes]: "kMathClz32 = 90"
definition kMathExp :: Opcode where [opcodes]: "kMathExp = 91"
definition kMathFloor :: Opcode where [opcodes]: "kMathFloor = 92"
definition kMathFround :: Opcode where [opcodes]: "kMathFround = 93"
definition kMathLog :: Opcode where [opcodes]: "kMathLog = 94"
definition kMathMinMax :: Opcode where [opcodes]: "kMathMinMax = 95"
definition kMathPowHalf :: Opcode where [opcodes]: "kMathPowHalf = 96"
definition kMathRound :: Opcode where [opcodes]: "kMathRound = 97"
definition kMathSqrt :: Opcode where [opcodes]: "kMathSqrt = 98"
definition kModByConstI :: Opcode where [opcodes]: "kModByConstI = 99"
definition kModByPowerOf2I :: Opcode where [opcodes]: "kModByPowerOf2I = 100"
definition kModI :: Opcode where [opcodes]: "kModI = 101"
definition kMulI :: Opcode where [opcodes]: "kMulI = 102"
definition kNumberTagD :: Opcode where [opcodes]: "kNumberTagD = 103"
definition kNumberTagI :: Opcode where [opcodes]: "kNumberTagI = 104"
definition kNumberTagU :: Opcode where [opcodes]: "kNumberTagU = 105"
definition kNumberUntagD :: Opcode where [opcodes]: "kNumberUntagD = 106"
definition kOsrEntry :: Opcode where [opcodes]: "kOsrEntry = 107"
definition kParameter :: Opcode where [opcodes]: "kParameter = 108"
definition kPower :: Opcode where [opcodes]: "kPower = 109"
definition kPushArgument :: Opcode where [opcodes]: "kPushArgument = 110"
definition kRegExpLiteral :: Opcode where [opcodes]: "kRegExpLiteral = 111"
definition kReturn :: Opcode where [opcodes]: "kReturn = 112"
definition kSeqStringGetChar :: Opcode where [opcodes]: "kSeqStringGetChar = 113"
definition kSeqStringSetChar :: Opcode where [opcodes]: "kSeqStringSetChar = 114"
definition kShiftI :: Opcode where [opcodes]: "kShiftI = 115"
definition kSmiTag :: Opcode where [opcodes]: "kSmiTag = 116"
definition kSmiUntag :: Opcode where [opcodes]: "kSmiUntag = 117"
definition kStackCheck :: Opcode where [opcodes]: "kStackCheck = 118"
definition kStoreCodeEntry :: Opcode where [opcodes]: "kStoreCodeEntry = 119"
definition kStoreContextSlot :: Opcode where [opcodes]: "kStoreContextSlot = 120"
definition kStoreFrameContext :: Opcode where [opcodes]: "kStoreFrameContext = 121"
definition kStoreGlobalCell :: Opcode where [opcodes]: "kStoreGlobalCell = 122"
definition kStoreKeyed :: Opcode where [opcodes]: "kStoreKeyed = 123"
definition kStoreKeyedGeneric :: Opcode where [opcodes]: "kStoreKeyedGeneric = 124"
definition kStoreNamedField :: Opcode where [opcodes]: "kStoreNamedField = 125"
definition kStoreNamedGeneric :: Opcode where [opcodes]: "kStoreNamedGeneric = 126"
definition kStringAdd :: Opcode where [opcodes]: "kStringAdd = 127"
definition kStringCharCodeAt :: Opcode where [opcodes]: "kStringCharCodeAt = 128"
definition kStringCharFromCode :: Opcode where [opcodes]: "kStringCharFromCode = 129"
definition kStringCompareAndBranch :: Opcode where [opcodes]: "kStringCompareAndBranch = 130"
definition kSubI :: Opcode where [opcodes]: "kSubI = 131"
definition kTaggedToI :: Opcode where [opcodes]: "kTaggedToI = 132"
definition kTailCallThroughMegamorphicCache :: Opcode where [opcodes]: "kTailCallThroughMegamorphicCache = 133"
definition kThisFunction :: Opcode where [opcodes]: "kThisFunction = 134"
definition kToFastProperties :: Opcode where [opcodes]: "kToFastProperties = 135"
definition kTransitionElementsKind :: Opcode where [opcodes]: "kTransitionElementsKind = 136"
definition kTrapAllocationMemento :: Opcode where [opcodes]: "kTrapAllocationMemento = 137"
definition kTypeof :: Opcode where [opcodes]: "kTypeof = 138"
definition kTypeofIsAndBranch :: Opcode where [opcodes]: "kTypeofIsAndBranch = 139"
definition kUint32ToDouble :: Opcode where [opcodes]: "kUint32ToDouble = 140"
definition kUnknownOSRValue :: Opcode where [opcodes]: "kUnknownOSRValue = 141"
definition kWrapReceiver :: Opcode where [opcodes]: "kWrapReceiver = 142"
definition kNumberOfInstructions :: nat where [opcodes]: "kNumberOfInstructions = 143"

definition LITHIUM_CONCRETE_INSTRUCTION_LIST :: "Opcode list" where
  "LITHIUM_CONCRETE_INSTRUCTION_LIST =
    [kAccessArgumentsAt, kAddI, kAllocate, kAllocateBlockContext, kApplyArguments,
     kArgumentsElements, kArgumentsLength, kArithmeticD, kArithmeticT, kBitI, kBoundsCheck, kBranch,
     kCallJSFunction, kCallWithDescriptor, kCallFunction, kCallNew, kCallNewArray, kCallRuntime,
     kCallStub, kCheckInstanceType, kCheckMaps, kCheckMapValue, kCheckNonSmi, kCheckSmi,
     kCheckValue, kClampDToUint8, kClampIToUint8, kClampTToUint8, kClassOfTestAndBranch,
     kCompareMinusZeroAndBranch, kCompareNumericAndBranch, kCmpObjectEqAndBranch, kCmpHoleAndBranch,
     kCmpMapAndBranch, kCmpT, kConstantD, kConstantE, kConstantI, kConstantS, kConstantT,
     kConstructDouble, kContext, kDateField, kDebugBreak, kDeclareGlobals, kDeoptimize,
     kDivByConstI, kDivByPowerOf2I, kDivI, kDoubleBits, kDoubleToI, kDoubleToSmi, kDrop, kDummyUse,
     kDummy, kFlooringDivByConstI, kFlooringDivByPowerOf2I, kFlooringDivI, kForInCacheArray,
     kForInPrepareMap, kFunctionLiteral, kGetCachedArrayIndex, kGoto, kHasCachedArrayIndexAndBranch,
     kHasInstanceTypeAndBranch, kInnerAllocatedObject, kInstanceOf, kInstanceOfKnownGlobal,
     kInstructionGap, kInteger32ToDouble, kInvokeFunction, kIsConstructCallAndBranch,
     kIsObjectAndBranch, kIsStringAndBranch, kIsSmiAndBranch, kIsUndetectableAndBranch, kLabel,
     kLazyBailout, kLoadContextSlot, kLoadRoot, kLoadFieldByIndex, kLoadFunctionPrototype,
     kLoadGlobalCell, kLoadGlobalGeneric, kLoadKeyed, kLoadKeyedGeneric, kLoadNamedField,
     kLoadNamedGeneric, kMapEnumLength, kMathAbs, kMathClz32, kMathExp, kMathFloor, kMathFround,
     kMathLog, kMathMinMax, kMathPowHalf, kMathRound, kMathSqrt, kModByConstI, kModByPowerOf2I,
     kModI, kMulI, kNumberTagD, kNumberTagI, kNumberTagU, kNumberUntagD, kOsrEntry, kParameter,
     kPower, kPushArgument, kRegExpLiteral, kReturn, kSeqStringGetChar, kSeqStringSetChar, kShiftI,
     kSmiTag, kSmiUntag, kStackCheck, kStoreCodeEntry, kStoreContextSlot, kStoreFrameContext,
     kStoreGlobalCell, kStoreKeyed, kStoreKeyedGeneric, kStoreNamedField, kStoreNamedGeneric,
     kStringAdd, kStringCharCodeAt, kStringCharFromCode, kStringCompareAndBranch, kSubI, kTaggedToI,
     kTailCallThroughMegamorphicCache, kThisFunction, kToFastProperties, kTransitionElementsKind,
     kTrapAllocationMemento, kTypeof, kTypeofIsAndBranch, kUint32ToDouble, kUnknownOSRValue,
     kWrapReceiver]"

lemma opcodes_of_list: "LITHIUM_CONCRETE_INSTRUCTION_LIST = [0..<kNumberOfInstructions]"
  by code_simp

lemma distinct_opcodes: "distinct LITHIUM_CONCRETE_INSTRUCTION_LIST"
  by (simp add: opcodes_of_list)

lemma opcode_fits: "op \<in> set LITHIUM_CONCRETE_INSTRUCTION_LIST \<Longrightarrow> unat (word_of_nat op :: uint32) = op"
  by (simp add: opcodes_of_list opcodes)

end
