(* ===== verification/HydrogenShims.thy ===== *)
theory HydrogenShims
  imports Opcodes ConstantsRoundtrip
begin

text \<open>
  A shim of any class, and which of them is saved and loaded for which Lithium instruction:
  \<^verbatim>\<open>HYDROGEN_SHIM_LIST\<close> of \<^verbatim>\<open>src/hydrogen-shim.h\<close>, the two lists of \<^verbatim>\<open>src/x64/hydrogen-shim-x64.h\<close>,
  and the functions \<^verbatim>\<open>SaveHydrogenShim\<close> and \<^verbatim>\<open>LoadHydrogenShim\<close> that \<^verbatim>\<open>lithium-saveload-x64.cc\<close>
  defines from these lists.
\<close>

section \<open>The classes of shims\<close>

text \<open>What a \<^verbatim>\<open>HValueShim*\<close> may point to: an object of one of the classes.\<close>

datatype (plugins only:) hydrogen_shim =
    ValueShim HValueShim | UnaryControlInstructionShim HUnaryControlInstructionShim |
    UnaryOperationShim HUnaryOperationShim | ControlInstructionShim HControlInstructionShim |
    BinaryOperationShim HBinaryOperationShim | CallShim HCallShim |
    GlobalCellShim HGlobalCellShim | KeyedShim HKeyedShim |
    UnaryMathOperationShim HUnaryMathOperationShim |
    StoreContextSlotShim HStoreContextSlotShim | BitwiseShim HBitwiseShim |
    StoreKeyedShim HStoreKeyedShim | StoreKeyedGenericShim HStoreKeyedGenericShim |
    StringCharFromCodeShim HStringCharFromCodeShim | ChangeShim HChangeShim |
    CompareNumericAndBranchShim HCompareNumericAndBranchShim |
    StringCompareAndBranchShim HStringCompareAndBranchShim | DeoptimizeShim HDeoptimizeShim |
    FunctionLiteralShim HFunctionLiteralShim | LoadContextSlotShim HLoadContextSlotShim |
    ConstantShim HConstantShim | StackCheckShim HStackCheckShim | AddShim HAddShim |
    MathMinMaxShim HMathMinMaxShim | PowerShim HPowerShim | CheckValueShim HCheckValueShim |
    CheckMapsShim HCheckMapsShim | DeclareGlobalsShim HDeclareGlobalsShim |
    CallRuntimeShim HCallRuntimeShim | DoubleBitsShim HDoubleBitsShim |
    CallJSFunctionShim HCallJSFunctionShim | CallFunctionShim HCallFunctionShim |
    InvokeFunctionShim HInvokeFunctionShim | CallNewArrayShim HCallNewArrayShim |
    CheckInstanceTypeShim HCheckInstanceTypeShim | LoadNamedFieldShim HLoadNamedFieldShim |
    BoundsCheckShim HBoundsCheckShim | LoadKeyedShim HLoadKeyedShim |
    DoubleToIShim HDoubleToIShim | StoreNamedFieldShim HStoreNamedFieldShim |
    StoreNamedGenericShim HStoreNamedGenericShim | LoadNamedGenericShim HLoadNamedGenericShim |
    AllocateShim HAllocateShim | BranchShim HBranchShim |
    TransitionElementsKindShim HTransitionElementsKindShim | CompareMapShim HCompareMapShim |
    LoadRootShim HLoadRootShim | StringAddShim HStringAddShim |
    CompareGenericShim HCompareGenericShim | LoadGlobalGenericShim HLoadGlobalGenericShim |
    ForInCacheArrayShim HForInCacheArrayShim | RegExpLiteralShim HRegExpLiteralShim |
    ArgumentsElementsShim HArgumentsElementsShim | WrapReceiverShim HWrapReceiverShim |
    InstanceOfKnownGlobalShim HInstanceOfKnownGlobalShim |
    TypeofIsAndBranchShim HTypeofIsAndBranchShim

datatype (plugins only:) shim_class =
    kHValueShim | kHUnaryControlInstructionShim | kHUnaryOperationShim |
    kHControlInstructionShim | kHBinaryOperationShim | kHCallShim | kHGlobalCellShim |
    kHKeyedShim | kHUnaryMathOperationShim | kHStoreContextSlotShim | kHBitwiseShim |
    kHStoreKeyedShim | kHStoreKeyedGenericShim | kHStringCharFromCodeShim | kHChangeShim |
    kHCompareNumericAndBranchShim | kHStringCompareAndBranchShim | kHDeoptimizeShim |
    kHFunctionLiteralShim | kHLoadContextSlotShim | kHConstantShim | kHStackCheckShim |
    kHAddShim | kHMathMinMaxShim | kHPowerShim | kHCheckValueShim | kHCheckMapsShim |
    kHDeclareGlobalsShim | kHCallRuntimeShim | kHDoubleBitsShim | kHCallJSFunctionShim |
    kHCallFunctionShim | kHInvokeFunctionShim | kHCallNewArrayShim | kHCheckInstanceTypeShim |
    kHLoadNamedFieldShim | kHBoundsCheckShim | kHLoadKeyedShim | kHDoubleToIShim |
    kHStoreNamedFieldShim | kHStoreNamedGenericShim | kHLoadNamedGenericShim | kHAllocateShim |
    kHBranchShim | kHTransitionElementsKindShim | kHCompareMapShim | kHLoadRootShim |
    kHStringAddShim | kHCompareGenericShim | kHLoadGlobalGenericShim | kHForInCacheArrayShim |
    kHRegExpLiteralShim | kHArgumentsElementsShim | kHWrapReceiverShim |
    kHInstanceOfKnownGlobalShim | kHTypeofIsAndBranchShim

primrec class_of :: "hydrogen_shim \<Rightarrow> shim_class" where
  "class_of (ValueShim shim) = kHValueShim"
| "class_of (UnaryControlInstructionShim shim) = kHUnaryControlInstructionShim"
| "class_of (UnaryOperationShim shim) = kHUnaryOperationShim"
| "class_of (ControlInstructionShim shim) = kHControlInstructionShim"
| "class_of (BinaryOperationShim shim) = kHBinaryOperationShim"
| "class_of (CallShim shim) = kHCallShim"
| "class_of (GlobalCellShim shim) = kHGlobalCellShim"
| "class_of (KeyedShim shim) = kHKeyedShim"
| "class_of (UnaryMathOperationShim shim) = kHUnaryMathOperationShim"
| "class_of (StoreContextSlotShim shim) = kHStoreContextSlotShim"
| "class_of (BitwiseShim shim) = kHBitwiseShim"
| "class_of (StoreKeyedShim shim) = kHStoreKeyedShim"
| "class_of (StoreKeyedGenericShim shim) = kHStoreKeyedGenericShim"
| "class_of (StringCharFromCodeShim shim) = kHStringCharFromCodeShim"
| "class_of (ChangeShim shim) = kHChangeShim"
| "class_of (CompareNumericAndBranchShim shim) = kHCompareNumericAndBranchShim"
| "class_of (StringCompareAndBranchShim shim) = kHStringCompareAndBranchShim"
| "class_of (DeoptimizeShim shim) = kHDeoptimizeShim"
| "class_of (FunctionLiteralShim shim) = kHFunctionLiteralShim"
| "class_of (LoadContextSlotShim shim) = kHLoadContextSlotShim"
| "class_of (ConstantShim shim) = kHConstantShim"
| "class_of (StackCheckShim shim) = kHStackCheckShim"
| "class_of (AddShim shim) = kHAddShim"
| "class_of (MathMinMaxShim shim) = kHMathMinMaxShim"
| "class_of (PowerShim shim) = kHPowerShim"
| "class_of (CheckValueShim shim) = kHCheckValueShim"
| "class_of (CheckMapsShim shim) = kHCheckMapsShim"
| "class_of (DeclareGlobalsShim shim) = kHDeclareGlobalsShim"
| "class_of (CallRuntimeShim shim) = kHCallRuntimeShim"
| "class_of (DoubleBitsShim shim) = kHDoubleBitsShim"
| "class_of (CallJSFunctionShim shim) = kHCallJSFunctionShim"
| "class_of (CallFunctionShim shim) = kHCallFunctionShim"
| "class_of (InvokeFunctionShim shim) = kHInvokeFunctionShim"
| "class_of (CallNewArrayShim shim) = kHCallNewArrayShim"
| "class_of (CheckInstanceTypeShim shim) = kHCheckInstanceTypeShim"
| "class_of (LoadNamedFieldShim shim) = kHLoadNamedFieldShim"
| "class_of (BoundsCheckShim shim) = kHBoundsCheckShim"
| "class_of (LoadKeyedShim shim) = kHLoadKeyedShim"
| "class_of (DoubleToIShim shim) = kHDoubleToIShim"
| "class_of (StoreNamedFieldShim shim) = kHStoreNamedFieldShim"
| "class_of (StoreNamedGenericShim shim) = kHStoreNamedGenericShim"
| "class_of (LoadNamedGenericShim shim) = kHLoadNamedGenericShim"
| "class_of (AllocateShim shim) = kHAllocateShim"
| "class_of (BranchShim shim) = kHBranchShim"
| "class_of (TransitionElementsKindShim shim) = kHTransitionElementsKindShim"
| "class_of (CompareMapShim shim) = kHCompareMapShim"
| "class_of (LoadRootShim shim) = kHLoadRootShim"
| "class_of (StringAddShim shim) = kHStringAddShim"
| "class_of (CompareGenericShim shim) = kHCompareGenericShim"
| "class_of (LoadGlobalGenericShim shim) = kHLoadGlobalGenericShim"
| "class_of (ForInCacheArrayShim shim) = kHForInCacheArrayShim"
| "class_of (RegExpLiteralShim shim) = kHRegExpLiteralShim"
| "class_of (ArgumentsElementsShim shim) = kHArgumentsElementsShim"
| "class_of (WrapReceiverShim shim) = kHWrapReceiverShim"
| "class_of (InstanceOfKnownGlobalShim shim) = kHInstanceOfKnownGlobalShim"
| "class_of (TypeofIsAndBranchShim shim) = kHTypeofIsAndBranchShim"

text \<open>A shim as an object of the base class.\<close>

primrec base_shim :: "hydrogen_shim \<Rightarrow> HValueShim" where
  "base_shim (ValueShim shim) = shim"
| "base_shim (UnaryControlInstructionShim shim) = ControlInstruction_base (UnaryControlInstruction_base shim)"
| "base_shim (UnaryOperationShim shim) = UnaryOperation_base shim"
| "base_shim (ControlInstructionShim shim) = ControlInstruction_base shim"
| "base_shim (BinaryOperationShim shim) = BinaryOperation_base shim"
| "base_shim (CallShim shim) = Call_base shim"
| "base_shim (GlobalCellShim shim) = GlobalCell_base shim"
| "base_shim (KeyedShim shim) = Keyed_base shim"
| "base_shim (UnaryMathOperationShim shim) = UnaryMathOperation_base shim"
| "base_shim (StoreContextSlotShim shim) = StoreContextSlot_base shim"
| "base_shim (BitwiseShim shim) = BinaryOperation_base (Bitwise_base shim)"
| "base_shim (StoreKeyedShim shim) = Keyed_base (StoreKeyed_base shim)"
| "base_shim (StoreKeyedGenericShim shim) = StoreKeyedGeneric_base shim"
| "base_shim (StringCharFromCodeShim shim) = StringCharFromCode_base shim"
| "base_shim (ChangeShim shim) = UnaryOperation_base (Change_base shim)"
| "base_shim (CompareNumericAndBranchShim shim) = ControlInstruction_base (CompareNumericAndBranch_base shim)"
| "base_shim (StringCompareAndBranchShim shim) = ControlInstruction_base (StringCompareAndBranch_base shim)"
| "base_shim (DeoptimizeShim shim) = Deoptimize_base shim"
| "base_shim (FunctionLiteralShim shim) = FunctionLiteral_base shim"
| "base_shim (LoadContextSlotShim shim) = LoadContextSlot_base shim"
| "base_shim (ConstantShim shim) = Constant_base shim"
| "base_shim (StackCheckShim shim) = StackCheck_base shim"
| "base_shim (AddShim shim) = BinaryOperation_base (Add_base shim)"
| "base_shim (MathMinMaxShim shim) = BinaryOperation_base (MathMinMax_base shim)"
| "base_shim (PowerShim shim) = Power_base shim"
| "base_shim (CheckValueShim shim) = CheckValue_base shim"
| "base_shim (CheckMapsShim shim) = CheckMaps_base shim"
| "base_shim (DeclareGlobalsShim shim) = DeclareGlobals_base shim"
| "base_shim (CallRuntimeShim shim) = Call_base (CallRuntime_base shim)"
| "base_shim (DoubleBitsShim shim) = DoubleBits_base shim"
| "base_shim (CallJSFunctionShim shim) = Call_base (CallJSFunction_base shim)"
| "base_shim (CallFunctionShim shim) = Call_base (CallFunction_base shim)"
| "base_shim (InvokeFunctionShim shim) = Call_base (InvokeFunction_base shim)"
| "base_shim (CallNewArrayShim shim) = Call_base (CallNewArray_base shim)"
| "base_shim (CheckInstanceTypeShim shim) = CheckInstanceType_base shim"
| "base_shim (LoadNamedFieldShim shim) = LoadNamedField_base shim"
| "base_shim (BoundsCheckShim shim) = BoundsCheck_base shim"
| "base_shim (LoadKeyedShim shim) = Keyed_base (LoadKeyed_base shim)"
| "base_shim (DoubleToIShim shim) = DoubleToI_base shim"
| "base_shim (StoreNamedFieldShim shim) = LoadNamedField_base (StoreNamedField_base shim)"
| "base_shim (StoreNamedGenericShim shim) = StoreNamedGeneric_base shim"
| "base_shim (LoadNamedGenericShim shim) = LoadNamedGeneric_base shim"
| "base_shim (AllocateShim shim) = Allocate_base shim"
| "base_shim (BranchShim shim) = ControlInstruction_base (UnaryControlInstruction_base (Branch_base shim))"
| "base_shim (TransitionElementsKindShim shim) = TransitionElementsKind_base shim"
| "base_shim (CompareMapShim shim) = ControlInstruction_base (CompareMap_base shim)"
| "base_shim (LoadRootShim shim) = LoadRoot_base shim"
| "base_shim (StringAddShim shim) = StringAdd_base shim"
| "base_shim (CompareGenericShim shim) = CompareGeneric_base shim"
| "base_shim (LoadGlobalGenericShim shim) = LoadGlobalGeneric_base shim"
| "base_shim (ForInCacheArrayShim shim) = ForInCacheArray_base shim"
| "base_shim (RegExpLiteralShim shim) = RegExpLiteral_base shim"
| "base_shim (ArgumentsElementsShim shim) = ArgumentsElements_base shim"
| "base_shim (WrapReceiverShim shim) = WrapReceiver_base shim"
| "base_shim (InstanceOfKnownGlobalShim shim) = InstanceOfKnownGlobal_base shim"
| "base_shim (TypeofIsAndBranchShim shim) = ControlInstruction_base (TypeofIsAndBranch_base shim)"

section \<open>Saving and loading by class\<close>

primrec SaveShim :: "'w constant_world_scheme \<Rightarrow> hydrogen_shim \<Rightarrow> 'a sv" where
  "SaveShim w (ValueShim shim) = SaveHValueShim shim"
| "SaveShim w (UnaryControlInstructionShim shim) = SaveHUnaryControlInstructionShim shim"
| "SaveShim w (UnaryOperationShim shim) = SaveHUnaryOperationShim shim"
| "SaveShim w (ControlInstructionShim shim) = SaveHControlInstructionShim shim"
| "SaveShim w (BinaryOperationShim shim) = SaveHBinaryOperationShim shim"
| "SaveShim w (CallShim shim) = SaveHCallShim shim"
| "SaveShim w (GlobalCellShim shim) = SaveHGlobalCellShim shim"
| "SaveShim w (KeyedShim shim) = SaveHKeyedShim shim"
| "SaveShim w (UnaryMathOperationShim shim) = SaveHUnaryMathOperationShim shim"
| "SaveShim w (StoreContextSlotShim shim) = SaveHStoreContextSlotShim shim"
| "SaveShim w (BitwiseShim shim) = SaveHBitwiseShim shim"
| "SaveShim w (StoreKeyedShim shim) = SaveHStoreKeyedShim shim"
| "SaveShim w (StoreKeyedGenericShim shim) = SaveHStoreKeyedGenericShim shim"
| "SaveShim w (StringCharFromCodeShim shim) = SaveHStringCharFromCodeShim shim"
| "SaveShim w (ChangeShim shim) = SaveHChangeShim shim"
| "SaveShim w (CompareNumericAndBranchShim shim) = SaveHCompareNumericAndBranchShim shim"
| "SaveShim w (StringCompareAndBranchShim shim) = SaveHStringCompareAndBranchShim shim"
| "SaveShim w (DeoptimizeShim shim) = SaveHDeoptimizeShim shim"
| "SaveShim w (FunctionLiteralShim shim) = SaveHFunctionLiteralShim w shim"
| "SaveShim w (LoadContextSlotShim shim) = SaveHLoadContextSlotShim shim"
| "SaveShim w (ConstantShim shim) = SaveHConstantShim w shim"
| "SaveShim w (StackCheckShim shim) = SaveHStackCheckShim shim"
| "SaveShim w (AddShim shim) = SaveHAddShim shim"
| "SaveShim w (MathMinMaxShim shim) = SaveHMathMinMaxShim shim"
| "SaveShim w (PowerShim shim) = SaveHPowerShim shim"
| "SaveShim w (CheckValueShim shim) = SaveHCheckValueShim w shim"
| "SaveShim w (CheckMapsShim shim) = SaveHCheckMapsShim w shim"
| "SaveShim w (DeclareGlobalsShim shim) = SaveHDeclareGlobalsShim w shim"
| "SaveShim w (CallRuntimeShim shim) = SaveHCallRuntimeShim shim"
| "SaveShim w (DoubleBitsShim shim) = SaveHDoubleBitsShim shim"
| "SaveShim w (CallJSFunctionShim shim) = SaveHCallJSFunctionShim w shim"
| "SaveShim w (CallFunctionShim shim) = SaveHCallFunctionShim shim"
| "SaveShim w (InvokeFunctionShim shim) = SaveHInvokeFunctionShim shim"
| "SaveShim w (CallNewArrayShim shim) = SaveHCallNewArrayShim shim"
| "SaveShim w (CheckInstanceTypeShim shim) = SaveHCheckInstanceTypeShim shim"
| "SaveShim w (LoadNamedFieldShim shim) = SaveHLoadNamedFieldShim shim"
| "SaveShim w (BoundsCheckShim shim) = SaveHBoundsCheckShim shim"
| "SaveShim w (LoadKeyedShim shim) = SaveHLoadKeyedShim shim"
| "SaveShim w (DoubleToIShim shim) = SaveHDoubleToIShim shim"
| "SaveShim w (StoreNamedFieldShim shim) = SaveHStoreNamedFieldShim w shim"
| "SaveShim w (StoreNamedGenericShim shim) = SaveHStoreNamedGenericShim w shim"
| "SaveShim w (LoadNamedGenericShim shim) = SaveHLoadNamedGenericShim w shim"
| "SaveShim w (AllocateShim shim) = SaveHAllocateShim shim"
| "SaveShim w (BranchShim shim) = SaveHBranchShim shim"
| "SaveShim w (TransitionElementsKindShim shim) = SaveHTransitionElementsKindShim w shim"
| "SaveShim w (CompareMapShim shim) = SaveHCompareMapShim w shim"
| "SaveShim w (LoadRootShim shim) = SaveHLoadRootShim shim"
| "SaveShim w (StringAddShim shim) = SaveHStringAddShim shim"
| "SaveShim w (CompareGenericShim shim) = SaveHCompareGenericShim shim"
| "SaveShim w (LoadGlobalGenericShim shim) = SaveHLoadGlobalGenericShim w shim"
| "SaveShim w (ForInCacheArrayShim shim) = SaveHForInCacheArrayShim shim"
| "SaveShim w (RegExpLiteralShim shim) = SaveHRegExpLiteralShim w shim"
| "SaveShim w (ArgumentsElementsShim shim) = SaveHArgumentsElementsShim shim"
| "SaveShim w (WrapReceiverShim shim) = SaveHWrapReceiverShim shim"
| "SaveShim w (InstanceOfKnownGlobalShim shim) = SaveHInstanceOfKnownGlobalShim w shim"
| "SaveShim w (TypeofIsAndBranchShim shim) = SaveHTypeofIsAndBranchShim shim"

primrec LoadShim :: "'w constant_world_scheme \<Rightarrow> shim_class \<Rightarrow> 'b loader_base_scheme
  \<Rightarrow> (hydrogen_shim option, 'b) load_result" where
  "LoadShim w kHValueShim = (\<lambda>l. do { (shim, l) \<leftarrow> LoadHValueShim l; Some (Some (ValueShim shim), l) })"
| "LoadShim w kHUnaryControlInstructionShim = (\<lambda>l. do { (shim, l) \<leftarrow> LoadHUnaryControlInstructionShim l; Some (Some (UnaryControlInstructionShim shim), l) })"
| "LoadShim w kHUnaryOperationShim = (\<lambda>l. do { (shim, l) \<leftarrow> LoadHUnaryOperationShim l; Some (Some (UnaryOperationShim shim), l) })"
| "LoadShim w kHControlInstructionShim = (\<lambda>l. do { (shim, l) \<leftarrow> LoadHControlInstructionShim l; Some (Some (ControlInstructionShim shim), l) })"
| "LoadShim w kHBinaryOperationShim = (\<lambda>l. do { (shim, l) \<leftarrow> LoadHBinaryOperationShim l; Some (Some (BinaryOperationShim shim), l) })"
| "LoadShim w kHCallShim = (\<lambda>l. do { (shim, l) \<leftarrow> LoadHCallShim l; Some (Some (CallShim shim), l) })"
| "LoadShim w kHGlobalCellShim = (\<lambda>l. do { (shim, l) \<leftarrow> LoadHGlobalCellShim w l; Some (Some (GlobalCellShim shim), l) })"
| "LoadShim w kHKeyedShim = (\<lambda>l. do { (shim, l) \<leftarrow> LoadHKeyedShim l; Some (Some (KeyedShim shim), l) })"
| "LoadShim w kHUnaryMathOperationShim = (\<lambda>l. do { (shim, l) \<leftarrow> LoadHUnaryMathOperationShim l; Some (Some (UnaryMathOperationShim shim), l) })"
| "LoadShim w kHStoreContextSlotShim = (\<lambda>l. do { (shim, l) \<leftarrow> LoadHStoreContextSlotShim l; Some (Some (StoreContextSlotShim shim), l) })"
| "LoadShim w kHBitwiseShim = (\<lambda>l. do { (shim, l) \<leftarrow> LoadHBitwiseShim l; Some (Some (BitwiseShim shim), l) })"
| "LoadShim w kHStoreKeyedShim = (\<lambda>l. do { (shim, l) \<leftarrow> LoadHStoreKeyedShim l; Some (Some (StoreKeyedShim shim), l) })"
| "LoadShim w kHStoreKeyedGenericShim = (\<lambda>l. do { (shim, l) \<leftarrow> LoadHStoreKeyedGenericShim l; Some (Some (StoreKeyedGenericShim shim), l) })"
| "LoadShim w kHStringCharFromCodeShim = (\<lambda>l. do { (shim, l) \<leftarrow> LoadHStringCharFromCodeShim l; Some (Some (StringCharFromCodeShim shim), l) })"
| "LoadShim w kHChangeShim = (\<lambda>l. do { (shim, l) \<leftarrow> LoadHChangeShim l; Some (Some (ChangeShim shim), l) })"
| "LoadShim w kHCompareNumericAndBranchShim = (\<lambda>l. do { (shim, l) \<leftarrow> LoadHCompareNumericAndBranchShim l; Some (Some (CompareNumericAndBranchShim shim), l) })"
| "LoadShim w kHStringCompareAndBranchShim = (\<lambda>l. do { (shim, l) \<leftarrow> LoadHStringCompareAndBranchShim l; Some (Some (StringCompareAndBranchShim shim), l) })"
| "LoadShim w kHDeoptimizeShim = (\<lambda>l. do { (shim, l) \<leftarrow> LoadHDeoptimizeShim l; Some (Some (DeoptimizeShim shim), l) })"
| "LoadShim w kHFunctionLiteralShim = (\<lambda>l. do { (shim, l) \<leftarrow> LoadHFunctionLiteralShim w l; Some (map_option FunctionLiteralShim shim, l) })"
| "LoadShim w kHLoadContextSlotShim = (\<lambda>l. do { (shim, l) \<leftarrow> LoadHLoadContextSlotShim l; Some (Some (LoadContextSlotShim shim), l) })"
| "LoadShim w kHConstantShim = (\<lambda>l. do { (shim, l) \<leftarrow> LoadHConstantShim w l; Some (map_option ConstantShim shim, l) })"
| "LoadShim w kHStackCheckShim = (\<lambda>l. do { (shim, l) \<leftarrow> LoadHStackCheckShim l; Some (Some (StackCheckShim shim), l) })"
| "LoadShim w kHAddShim = (\<lambda>l. do { (shim, l) \<leftarrow> LoadHAddShim l; Some (Some (AddShim shim), l) })"
| "LoadShim w kHMathMinMaxShim = (\<lambda>l. do { (shim, l) \<leftarrow> LoadHMathMinMaxShim l; Some (Some (MathMinMaxShim shim), l) })"
| "LoadShim w kHPowerShim = (\<lambda>l. do { (shim, l) \<leftarrow> LoadHPowerShim l; Some (Some (PowerShim shim), l) })"
| "LoadShim w kHCheckValueShim = (\<lambda>l. do { (shim, l) \<leftarrow> LoadHCheckValueShim w l; Some (Some (CheckValueShim shim), l) })"
| "LoadShim w kHCheckMapsShim = (\<lambda>l. do { (shim, l) \<leftarrow> LoadHCheckMapsShim w l; Some (Some (CheckMapsShim shim), l) })"
| "LoadShim w kHDeclareGlobalsShim = (\<lambda>l. do { (shim, l) \<leftarrow> LoadHDeclareGlobalsShim w l; Some (Some (DeclareGlobalsShim shim), l) })"
| "LoadShim w kHCallRuntimeShim = (\<lambda>l. do { (shim, l) \<leftarrow> LoadHCallRuntimeShim l; Some (Some (CallRuntimeShim shim), l) })"
| "LoadShim w kHDoubleBitsShim = (\<lambda>l. do { (shim, l) \<leftarrow> LoadHDoubleBitsShim l; Some (Some (DoubleBitsShim shim), l) })"
| "LoadShim w kHCallJSFunctionShim = (\<lambda>l. do { (shim, l) \<leftarrow> LoadHCallJSFunctionShim w l; Some (map_option CallJSFunctionShim shim, l) })"
| "LoadShim w kHCallFunctionShim = (\<lambda>l. do { (shim, l) \<leftarrow> LoadHCallFunctionShim l; Some (Some (CallFunctionShim shim), l) })"
| "LoadShim w kHInvokeFunctionShim = (\<lambda>l. do { (shim, l) \<leftarrow> LoadHInvokeFunctionShim l; Some (Some (InvokeFunctionShim shim), l) })"
| "LoadShim w kHCallNewArrayShim = (\<lambda>l. do { (shim, l) \<leftarrow> LoadHCallNewArrayShim l; Some (Some (CallNewArrayShim shim), l) })"
| "LoadShim w kHCheckInstanceTypeShim = (\<lambda>l. do { (shim, l) \<leftarrow> LoadHCheckInstanceTypeShim l; Some (Some (CheckInstanceTypeShim shim), l) })"
| "LoadShim w kHLoadNamedFieldShim = (\<lambda>l. do { (shim, l) \<leftarrow> LoadHLoadNamedFieldShim l; Some (Some (LoadNamedFieldShim shim), l) })"
| "LoadShim w kHBoundsCheckShim = (\<lambda>l. do { (shim, l) \<leftarrow> LoadHBoundsCheckShim l; Some (Some (BoundsCheckShim shim), l) })"
| "LoadShim w kHLoadKeyedShim = (\<lambda>l. do { (shim, l) \<leftarrow> LoadHLoadKeyedShim l; Some (Some (LoadKeyedShim shim), l) })"
| "LoadShim w kHDoubleToIShim = (\<lambda>l. do { (shim, l) \<leftarrow> LoadHDoubleToIShim l; Some (Some (DoubleToIShim shim), l) })"
| "LoadShim w kHStoreNamedFieldShim = (\<lambda>l. do { (shim, l) \<leftarrow> LoadHStoreNamedFieldShim w l; Some (map_option StoreNamedFieldShim shim, l) })"
| "LoadShim w kHStoreNamedGenericShim = (\<lambda>l. do { (shim, l) \<leftarrow> LoadHStoreNamedGenericShim w l; Some (Some (StoreNamedGenericShim shim), l) })"
| "LoadShim w kHLoadNamedGenericShim = (\<lambda>l. do { (shim, l) \<leftarrow> LoadHLoadNamedGenericShim w l; Some (Some (LoadNamedGenericShim shim), l) })"
| "LoadShim w kHAllocateShim = (\<lambda>l. do { (shim, l) \<leftarrow> LoadHAllocateShim l; Some (Some (AllocateShim shim), l) })"
| "LoadShim w kHBranchShim = (\<lambda>l. do { (shim, l) \<leftarrow> LoadHBranchShim l; Some (Some (BranchShim shim), l) })"
| "LoadShim w kHTransitionElementsKindShim = (\<lambda>l. do { (shim, l) \<leftarrow> LoadHTransitionElementsKindShim w l; Some (map_option TransitionElementsKindShim shim, l) })"
| "LoadShim w kHCompareMapShim = (\<lambda>l. do { (shim, l) \<leftarrow> LoadHCompareMapShim w l; Some (map_option CompareMapShim shim, l) })"
| "LoadShim w kHLoadRootShim = (\<lambda>l. do { (shim, l) \<leftarrow> LoadHLoadRootShim l; Some (Some (LoadRootShim shim), l) })"
| "LoadShim w kHStringAddShim = (\<lambda>l. do { (shim, l) \<leftarrow> LoadHStringAddShim l; Some (Some (StringAddShim shim), l) })"
| "LoadShim w kHCompareGenericShim = (\<lambda>l. do { (shim, l) \<leftarrow> LoadHCompareGenericShim l; Some (Some (CompareGenericShim shim), l) })"
| "LoadShim w kHLoadGlobalGenericShim = (\<lambda>l. do { (shim, l) \<leftarrow> LoadHLoadGlobalGenericShim w l; Some (Some (LoadGlobalGenericShim shim), l) })"
| "LoadShim w kHForInCacheArrayShim = (\<lambda>l. do { (shim, l) \<leftarrow> LoadHForInCacheArrayShim l; Some (Some (ForInCacheArrayShim shim), l) })"
| "LoadShim w kHRegExpLiteralShim = (\<lambda>l. do { (shim, l) \<leftarrow> LoadHRegExpLiteralShim w l; Some (Some (RegExpLiteralShim shim), l) })"
| "LoadShim w kHArgumentsElementsShim = (\<lambda>l. do { (shim, l) \<leftarrow> LoadHArgumentsElementsShim l; Some (Some (ArgumentsElementsShim shim), l) })"
| "LoadShim w kHWrapReceiverShim = (\<lambda>l. do { (shim, l) \<leftarrow> LoadHWrapReceiverShim l; Some (Some (WrapReceiverShim shim), l) })"
| "LoadShim w kHInstanceOfKnownGlobalShim = (\<lambda>l. do { (shim, l) \<leftarrow> LoadHInstanceOfKnownGlobalShim w l; Some (map_option InstanceOfKnownGlobalShim shim, l) })"
| "LoadShim w kHTypeofIsAndBranchShim = (\<lambda>l. do { (shim, l) \<leftarrow> LoadHTypeofIsAndBranchShim l; Some (Some (TypeofIsAndBranchShim shim), l) })"

section \<open>The shim of an instruction\<close>

text \<open>Constants are saved before, and an instruction only names the one it loads.\<close>

definition LITHIUM_CONSTANT_INSTRUCTION_LIST :: "Opcode list" where
  "LITHIUM_CONSTANT_INSTRUCTION_LIST = [kConstantD, kConstantE, kConstantI, kConstantS, kConstantT]"

definition HYDROGEN_CONCRETE_SHIM_OWNER_LIST :: "(Opcode \<times> shim_class) list" where
  "HYDROGEN_CONCRETE_SHIM_OWNER_LIST =
    [(kStoreContextSlot, kHStoreContextSlotShim),
     (kBitI, kHBitwiseShim),
     (kBranch, kHBranchShim),
     (kCompareMinusZeroAndBranch, kHUnaryControlInstructionShim),
     (kIsStringAndBranch, kHUnaryControlInstructionShim),
     (kIsUndetectableAndBranch, kHUnaryControlInstructionShim),
     (kHasInstanceTypeAndBranch, kHUnaryControlInstructionShim),
     (kTaggedToI, kHChangeShim),
     (kNumberUntagD, kHUnaryOperationShim),
     (kSmiTag, kHUnaryOperationShim),
     (kCheckNonSmi, kHUnaryOperationShim),
     (kMathAbs, kHUnaryMathOperationShim),
     (kStoreKeyed, kHStoreKeyedShim),
     (kStoreKeyedGeneric, kHStoreKeyedGenericShim),
     (kStringCharFromCode, kHStringCharFromCodeShim),
     (kCompareNumericAndBranch, kHCompareNumericAndBranchShim),
     (kStringCompareAndBranch, kHStringCompareAndBranchShim),
     (kDeoptimize, kHDeoptimizeShim),
     (kFunctionLiteral, kHFunctionLiteralShim),
     (kLoadContextSlot, kHLoadContextSlotShim),
     (kStackCheck, kHStackCheckShim),
     (kCmpObjectEqAndBranch, kHControlInstructionShim),
     (kCmpHoleAndBranch, kHControlInstructionShim),
     (kIsObjectAndBranch, kHControlInstructionShim),
     (kIsSmiAndBranch, kHControlInstructionShim),
     (kHasCachedArrayIndexAndBranch, kHControlInstructionShim),
     (kClassOfTestAndBranch, kHControlInstructionShim),
     (kIsConstructCallAndBranch, kHControlInstructionShim),
     (kCmpMapAndBranch, kHCompareMapShim),
     (kSubI, kHBinaryOperationShim),
     (kAddI, kHAddShim),
     (kMathMinMax, kHMathMinMaxShim),
     (kPower, kHPowerShim),
     (kCheckValue, kHCheckValueShim),
     (kCheckMaps, kHCheckMapsShim),
     (kDeclareGlobals, kHDeclareGlobalsShim),
     (kCallNew, kHCallShim),
     (kStoreGlobalCell, kHGlobalCellShim),
     (kLoadGlobalCell, kHGlobalCellShim),
     (kCallRuntime, kHCallRuntimeShim),
     (kDoubleBits, kHDoubleBitsShim),
     (kCallJSFunction, kHCallJSFunctionShim),
     (kCallFunction, kHCallFunctionShim),
     (kInvokeFunction, kHInvokeFunctionShim),
     (kCallNewArray, kHCallNewArrayShim),
     (kCheckInstanceType, kHCheckInstanceTypeShim),
     (kLoadNamedField, kHLoadNamedFieldShim),
     (kBoundsCheck, kHBoundsCheckShim),
     (kLoadKeyed, kHLoadKeyedShim),
     (kDoubleToI, kHDoubleToIShim),
     (kStoreNamedField, kHStoreNamedFieldShim),
     (kStoreNamedGeneric, kHStoreNamedGenericShim),
     (kLoadNamedGeneric, kHLoadNamedGenericShim),
     (kAllocate, kHAllocateShim),
     (kTransitionElementsKind, kHTransitionElementsKindShim),
     (kLoadRoot, kHLoadRootShim),
     (kStringAdd, kHStringAddShim),
     (kCmpT, kHCompareGenericShim),
     (kLoadGlobalGeneric, kHLoadGlobalGenericShim),
     (kForInCacheArray, kHForInCacheArrayShim),
     (kRegExpLiteral, kHRegExpLiteralShim),
     (kArgumentsElements, kHArgumentsElementsShim),
     (kWrapReceiver, kHWrapReceiverShim),
     (kInstanceOfKnownGlobal, kHInstanceOfKnownGlobalShim),
     (kTypeofIsAndBranch, kHTypeofIsAndBranchShim)]"
text \<open>The pointer that is passed as one to \<open>c\<close>. The only conversion to a base class is that of
  \<^verbatim>\<open>LNumberUntagD\<close>, whose shim is made as a \<^verbatim>\<open>HChangeShim\<close>; every other class is the declared one, and an
  object of a class that does not fit is not what the code expects.\<close>

definition shim_as :: "shim_class \<Rightarrow> hydrogen_shim \<Rightarrow> hydrogen_shim option" where
  "shim_as c shim =
     (if class_of shim = c then Some shim
      else case shim of
        ChangeShim change \<Rightarrow>
          if c = kHUnaryOperationShim then Some (UnaryOperationShim (Change_base change)) else None
      | _ \<Rightarrow> None)"

definition SaveHydrogenShim ::
  "'w constant_world_scheme \<Rightarrow> Opcode \<Rightarrow> hydrogen_shim \<Rightarrow> 'a sv" where
  "SaveHydrogenShim w opcode shim =
     (if opcode \<in> set LITHIUM_CONSTANT_INSTRUCTION_LIST then SavePrimitive (shim_id (base_shim shim))
      else case map_of HYDROGEN_CONCRETE_SHIM_OWNER_LIST opcode of
        Some c \<Rightarrow> (case shim_as c shim of Some shim \<Rightarrow> SaveShim w shim | None \<Rightarrow> (\<lambda>s. None))
      | None \<Rightarrow> SaveHValueShim (base_shim shim))"

text \<open>The chunk's values are given by their indices; an index that was not set is out of bounds or a
  null pointer, which a release build returns.\<close>

definition LoadHydrogenShim ::
  "'w constant_world_scheme \<Rightarrow> (int32 \<Rightarrow> hydrogen_shim option) \<Rightarrow> Opcode \<Rightarrow> 'b loader_base_scheme
   \<Rightarrow> (hydrogen_shim option, 'b) load_result" where
  "LoadHydrogenShim w GetValue opcode =
     (if opcode \<in> set LITHIUM_CONSTANT_INSTRUCTION_LIST then (\<lambda>l. do {
        (index, l) \<leftarrow> LoadPrimitive l;
        Some (GetValue index, l)
      })
      else case map_of HYDROGEN_CONCRETE_SHIM_OWNER_LIST opcode of
        Some c \<Rightarrow> LoadShim w c
      | None \<Rightarrow> (\<lambda>l. do { (shim, l) \<leftarrow> LoadHValueShim l; Some (Some (ValueShim shim), l) }))"

end
