(* ===== verification/HydrogenShimsRoundtrip.thy ===== *)
theory HydrogenShimsRoundtrip
  imports HydrogenShims
begin

text \<open>
  What becomes of the shim of an instruction: for every class, the shim that is loaded for the one
  that was saved, and that both the class of the instruction and the bytes written for the shim
  are what the loader expects.
\<close>

section \<open>Shims by class\<close>

text \<open>The classes whose objects consist of numbers, flags and other such objects.\<close>

definition plain_classes :: "shim_class list" where
  "plain_classes =
    [kHValueShim, kHUnaryControlInstructionShim, kHUnaryOperationShim,
     kHControlInstructionShim, kHBinaryOperationShim, kHCallShim, kHKeyedShim,
     kHUnaryMathOperationShim, kHStoreContextSlotShim, kHBitwiseShim, kHStoreKeyedShim,
     kHStoreKeyedGenericShim, kHStringCharFromCodeShim, kHChangeShim,
     kHCompareNumericAndBranchShim, kHStringCompareAndBranchShim, kHLoadContextSlotShim,
     kHStackCheckShim, kHAddShim, kHMathMinMaxShim, kHPowerShim, kHCallRuntimeShim,
     kHDoubleBitsShim, kHCallFunctionShim, kHCallNewArrayShim, kHCheckInstanceTypeShim,
     kHLoadNamedFieldShim, kHBoundsCheckShim, kHLoadKeyedShim, kHDoubleToIShim, kHAllocateShim,
     kHBranchShim, kHLoadRootShim, kHStringAddShim, kHCompareGenericShim,
     kHForInCacheArrayShim, kHArgumentsElementsShim, kHWrapReceiverShim]"

lemma transmits_plain:
  assumes "class_of shim \<in> set plain_classes"
  shows "transmits C (SaveShim w shim) (LoadShim w (class_of shim)) (Some shim)"
  using assms
  by (cases shim; simp add: plain_classes_def)
    (rule transmits_map, rule transmits_intros transmits_HCheckInstanceTypeShim)+

inductive reloads_shim :: "'w constant_world_scheme \<Rightarrow> nat list \<Rightarrow> hydrogen_shim \<Rightarrow> hydrogen_shim \<Rightarrow> bool"
  for w :: "'w constant_world_scheme" and C where
  plain: "class_of shim \<in> set plain_classes \<Longrightarrow> reloads_shim w C shim shim"
| number_or_object: "reloads_constant w C shim shim' \<Longrightarrow> reloads_shim w C (ConstantShim shim) (ConstantShim shim')"
| deoptimize: "0 \<notin> set (Deoptimize_reason shim) \<Longrightarrow> length (Deoptimize_reason shim) < 2 ^ 31 \<Longrightarrow>
    reloads_shim w C (DeoptimizeShim shim) (DeoptimizeShim shim)"
| function_literal: "shared_info_ok w i \<Longrightarrow>
    reloads_shim w C (FunctionLiteralShim (HFunctionLiteralShim base (Some i) pretenure has_no_literals kind strict_mode))
      (FunctionLiteralShim (HFunctionLiteralShim base (resolved_shared_info w i) pretenure has_no_literals kind strict_mode))"
| compare_map: "reloads_map w C m m' \<Longrightarrow>
    reloads_shim w C (CompareMapShim (HCompareMapShim control (Some m))) (CompareMapShim (HCompareMapShim control (Some m')))"
| check_value: "reloads_heap w C h y \<Longrightarrow>
    reloads_shim w C (CheckValueShim (HCheckValueShim base (Some (OHeap h)))) (CheckValueShim (HCheckValueShim base (Some y)))"
| check_maps: "list_all2 (reloads_map w C) ms ms' \<Longrightarrow> length ms < 2 ^ 31 \<Longrightarrow>
    reloads_shim w C (CheckMapsShim (HCheckMapsShim base bits ms)) (CheckMapsShim (HCheckMapsShim base bits ms'))"
| declare_globals: "list_all2 (reloads w C) xs ys \<Longrightarrow> length xs < 2 ^ 31 \<Longrightarrow>
    reloads_shim w C (DeclareGlobalsShim (HDeclareGlobalsShim base xs flags))
      (DeclareGlobalsShim (HDeclareGlobalsShim base (map unhandle ys) flags))"
| global_cell: "string_fits name \<Longrightarrow>
    reloads_shim w C (GlobalCellShim (HGlobalCellShim base name cell hole_check))
      (GlobalCellShim (HGlobalCellShim base (reloaded_string name) (w_EnsurePropertyCell w (str_units name)) hole_check))"
| call_unknown_function:
   "reloads_shim w C (CallJSFunctionShim (HCallJSFunctionShim call None None pass))
      (CallJSFunctionShim (HCallJSFunctionShim call None None pass))"
| call_function: "CallJSFunction_function shim = Some f \<Longrightarrow> function_ok w f \<Longrightarrow>
    reloads_shim w C (CallJSFunctionShim shim) (CallJSFunctionShim (HCallJSFunctionShim (CallJSFunction_base shim) None
      (resolved_function w f) (CallJSFunction_pass_argument_count shim)))"
| invoke_function:
   "reloads_shim w C (InvokeFunctionShim shim) (InvokeFunctionShim (HInvokeFunctionShim (InvokeFunction_base shim) None (-1)))"
| store_field:
   "reloads_shim w C (StoreNamedFieldShim (HStoreNamedFieldShim field wb wbm None v p bits))
      (StoreNamedFieldShim (HStoreNamedFieldShim field wb wbm None v p bits))"
| store_field_transition: "reloads_map w C m m' \<Longrightarrow>
    reloads_shim w C (StoreNamedFieldShim (HStoreNamedFieldShim field wb wbm (Some m) v p bits))
      (StoreNamedFieldShim (HStoreNamedFieldShim field wb wbm (Some m') v p bits))"
| store_generic: "reloads_heap w C h y \<Longrightarrow>
    reloads_shim w C (StoreNamedGenericShim (HStoreNamedGenericShim base (Some (OHeap h)) mode))
      (StoreNamedGenericShim (HStoreNamedGenericShim base (Some y) mode))"
| load_generic: "reloads_heap w C h y \<Longrightarrow>
    reloads_shim w C (LoadNamedGenericShim (HLoadNamedGenericShim base (Some (OHeap h))))
      (LoadNamedGenericShim (HLoadNamedGenericShim base (Some y)))"
| transition_kind: "reloads_map w C m m' \<Longrightarrow> reloads_map w C t t' \<Longrightarrow>
    reloads_shim w C (TransitionElementsKindShim (HTransitionElementsKindShim base (Some m) (Some t) k k'))
      (TransitionElementsKindShim (HTransitionElementsKindShim base (Some m') (Some t') k k'))"
| load_global: "name_ok w property \<Longrightarrow>
    reloads_shim w C (LoadGlobalGenericShim (HLoadGlobalGenericShim base property for_typeof))
      (LoadGlobalGenericShim (HLoadGlobalGenericShim base (reloaded_name property) for_typeof))"
| regexp: "list_all2 (reloads w C) xs ys \<Longrightarrow> length xs < 2 ^ 31 \<Longrightarrow> string_fits pattern \<Longrightarrow> string_fits regexp_flags \<Longrightarrow>
    reloads_shim w C (RegExpLiteralShim (HRegExpLiteralShim base xs i pattern regexp_flags))
      (RegExpLiteralShim (HRegExpLiteralShim base (map unhandle ys) i (reloaded_string pattern) (reloaded_string regexp_flags)))"
| instance_of: "function_ok w f \<Longrightarrow>
    reloads_shim w C (InstanceOfKnownGlobalShim (HInstanceOfKnownGlobalShim base (Some f)))
      (InstanceOfKnownGlobalShim (HInstanceOfKnownGlobalShim base (resolved_function w f)))"
| typeof_is: "string_fits type_literal \<Longrightarrow>
    reloads_shim w C (TypeofIsAndBranchShim (HTypeofIsAndBranchShim control type_literal))
      (TypeofIsAndBranchShim (HTypeofIsAndBranchShim control (reloaded_string type_literal)))"

text \<open>A loader of one class and one of any class.\<close>

lemma transmits_any:
  "transmits C sv ld shim \<Longrightarrow> transmits C sv (\<lambda>l. ld l \<bind> (\<lambda>(shim, l). Some (Some (f shim), l))) (Some (f shim))"
  by (rule transmits_map)

lemma transmits_any_option:
  "transmits C sv ld (Some shim) \<Longrightarrow>
   transmits C sv (\<lambda>l. ld l \<bind> (\<lambda>(shim, l). Some (map_option f shim, l))) (Some (f shim))"
  using transmits_map [of C sv ld "Some shim" "map_option f"] by simp

lemmas transmits_heap_shims = transmits_HConstantShim transmits_HDeoptimizeShim transmits_HFunctionLiteralShim
  transmits_HCompareMapShim transmits_HCheckValueShim transmits_HCheckMapsShim transmits_HDeclareGlobalsShim
  transmits_HGlobalCellShim transmits_HCallJSFunctionShim_unknown transmits_HCallJSFunctionShim
  transmits_HInvokeFunctionShim transmits_HStoreNamedFieldShim_no_map transmits_HStoreNamedFieldShim
  transmits_HStoreNamedGenericShim transmits_HLoadNamedGenericShim transmits_HTransitionElementsKindShim
  transmits_HLoadGlobalGenericShim transmits_HRegExpLiteralShim transmits_HInstanceOfKnownGlobalShim
  transmits_HTypeofIsAndBranchShim

lemma transmits_Shim:
  assumes "reloads_shim w C shim shim'"
  shows "transmits C (SaveShim w shim) (LoadShim w (class_of shim)) (Some shim')"
  using assms
  by (cases rule: reloads_shim.cases)
    (simp_all only: transmits_plain SaveShim.simps LoadShim.simps class_of.simps,
     (rule transmits_any transmits_any_option, rule transmits_heap_shims, assumption+
      | rule transmits_any transmits_any_option, rule transmits_heap_shims)+)

section \<open>The shim of an instruction\<close>

text \<open>What an instruction with the shim \<open>shim\<close> has after it was saved and loaded: the value of the
  loaded chunk for a constant, a shim of the listed class, or only the base class.\<close>

inductive reloads_instruction_shim ::
  "'w constant_world_scheme \<Rightarrow> nat list \<Rightarrow> (int32 \<Rightarrow> hydrogen_shim option) \<Rightarrow> Opcode \<Rightarrow> hydrogen_shim
   \<Rightarrow> hydrogen_shim option \<Rightarrow> bool"
  for w :: "'w constant_world_scheme" and C g opcode where
  shared: "opcode \<in> set LITHIUM_CONSTANT_INSTRUCTION_LIST \<Longrightarrow>
    reloads_instruction_shim w C g opcode shim (g (shim_id (base_shim shim)))"
| listed: "opcode \<notin> set LITHIUM_CONSTANT_INSTRUCTION_LIST \<Longrightarrow>
    map_of HYDROGEN_CONCRETE_SHIM_OWNER_LIST opcode = Some c \<Longrightarrow> shim_as c shim = Some object \<Longrightarrow>
    reloads_shim w C object shim' \<Longrightarrow> reloads_instruction_shim w C g opcode shim (Some shim')"
| unlisted: "opcode \<notin> set LITHIUM_CONSTANT_INSTRUCTION_LIST \<Longrightarrow>
    map_of HYDROGEN_CONCRETE_SHIM_OWNER_LIST opcode = None \<Longrightarrow>
    reloads_instruction_shim w C g opcode shim (Some (ValueShim (base_shim shim)))"

lemma shim_as_class: "shim_as c shim = Some object \<Longrightarrow> class_of object = c"
  by (auto simp: shim_as_def split: if_splits hydrogen_shim.splits)

lemma transmits_HydrogenShim:
  assumes "reloads_instruction_shim w C g opcode shim shim'"
  shows "transmits C (SaveHydrogenShim w opcode shim) (LoadHydrogenShim w g opcode) shim'"
  using assms
proof (cases rule: reloads_instruction_shim.cases)
  case shared
  show ?thesis using transmits_map [OF transmits_primitives(3) [of C "shim_id (base_shim shim)"], of g] shared
    by (simp add: SaveHydrogenShim_def LoadHydrogenShim_def)
next
  case (listed c object s)
  with shim_as_class [OF listed(4)] transmits_Shim [OF listed(5)] show ?thesis
    by (simp add: SaveHydrogenShim_def LoadHydrogenShim_def)
next
  case unlisted
  with transmits_map [OF transmits_HValueShim [of C "base_shim shim"], of "\<lambda>shim. Some (ValueShim shim)"]
  show ?thesis by (simp add: SaveHydrogenShim_def LoadHydrogenShim_def)
qed

lemma LoadShim_class: "LoadShim w c l = Some (Some shim, l') \<Longrightarrow> class_of shim = c"
  by (cases c) (auto simp: bind_eq_Some_conv split: option.splits)

end
