(* ===== verification/Instructions.thy ===== *)
theory Instructions
  imports HydrogenShims Environment
begin

text \<open>
  The Lithium instructions of \<^verbatim>\<open>src/x64/lithium-x64.h\<close>: the members of the base classes, the members
  of a class of its own, and the constructor of every concrete class that can be saved.
\<close>

section \<open>The base classes\<close>

text \<open>An \<^verbatim>\<open>LOperand*\<close>.\<close>

type_synonym operand = "LOperand option"

text \<open>The members of the concrete classes. A block is known by its number, a label by its index in the
  instructions of the chunk; the assembler's labels are left out.\<close>

datatype own_members =
    NoMembers
  | Divisor int32
  | Operation Token_Value
  | Shift Token_Value bool
  | NeedsCheck bool
  | DropCount int32
  | GapInstructionsSize int32
  | GotoBlock int32
  | Gap int32 "LParallelMove option list"
  | LabelMembers int32 "LParallelMove option list" "nat option"
  | LazyDeoptEnv LEnvironment

text \<open>What Lithium reads of a Hydrogen value: its number, the number of its block (-1 without a block), its
  position, representation and flags, and the members of the derived class \<^verbatim>\<open>HConstant\<close>.\<close>

record HValue =
  value_id :: int32
  value_block_id :: int32
  value_position :: int32
  value_representation :: Representation
  value_flags :: int32
  value_constant :: "HConstant option"

text \<open>\<^verbatim>\<open>LInstruction\<close> with the containers of its templates: \<open>results\<close>, \<open>inputs\<close> and \<open>temps\<close> have as many elements
  as the class says. A null environment is the empty chain.\<close>

record LInstruction =
  opcode :: Opcode
  results :: "operand list"
  inputs :: "operand list"
  temps :: "operand list"
  members :: own_members
  environment :: LEnvironment
  pointer_map :: "LPointerMap option"
  hydrogen_value :: "HValue option"
  hydrogen_shim :: "hydrogen_shim option"
  IsCall :: bool

text \<open>An instruction of a class with \<open>R\<close> results, null pointers until they are set.\<close>

definition template_instruction ::
  "Opcode \<Rightarrow> nat \<Rightarrow> operand list \<Rightarrow> operand list \<Rightarrow> own_members \<Rightarrow> LInstruction" where
  "template_instruction op R ins ts own =
     \<lparr>opcode = op, results = replicate R None, inputs = ins, temps = ts, members = own,
      environment = [], pointer_map = None, hydrogen_value = None, hydrogen_shim = None, IsCall = False\<rparr>"

definition MarkAsCall :: "LInstruction \<Rightarrow> LInstruction" where
  "MarkAsCall i = i\<lparr>IsCall := True\<rparr>"

definition HasEnvironment :: "LInstruction \<Rightarrow> bool" where
  "HasEnvironment i \<longleftrightarrow> environment i \<noteq> []"

definition HasPointerMap :: "LInstruction \<Rightarrow> bool" where
  "HasPointerMap i \<longleftrightarrow> pointer_map i \<noteq> None"

definition HasResult :: "LInstruction \<Rightarrow> bool" where
  "HasResult i \<longleftrightarrow> results i \<noteq> [] \<and> results i ! 0 \<noteq> None"

definition set_result :: "operand \<Rightarrow> LInstruction \<Rightarrow> LInstruction" where
  "set_result operand i = i\<lparr>results := (results i)[0 := operand]\<rparr>"

text \<open>All concrete classes but one are template instructions, and all have at most one result.\<close>

definition IsTemplateInstruction :: "LInstruction \<Rightarrow> bool" where
  "IsTemplateInstruction i \<longleftrightarrow> opcode i \<noteq> kCallWithDescriptor"

definition IsGap :: "LInstruction \<Rightarrow> bool" where
  "IsGap i \<longleftrightarrow> opcode i = kInstructionGap \<or> opcode i = kLabel"

section \<open>Gaps, labels and jumps\<close>

text \<open>The four positions of a gap.\<close>

abbreviation BEFORE :: nat where "BEFORE \<equiv> 0"
abbreviation START :: nat where "START \<equiv> 1"
abbreviation END :: nat where "END \<equiv> 2"
abbreviation AFTER :: nat where "AFTER \<equiv> 3"
abbreviation inner_positions :: nat where "inner_positions \<equiv> 4"

definition LInstructionGap :: "int32 \<Rightarrow> LInstruction" where
  "LInstructionGap block =
     template_instruction kInstructionGap 0 [] [] (Gap block (replicate inner_positions None))"

definition LLabel :: "int32 \<Rightarrow> LInstruction" where
  "LLabel block =
     template_instruction kLabel 0 [] [] (LabelMembers block (replicate inner_positions None) None)"

definition LGoto :: "int32 \<Rightarrow> LInstruction" where
  "LGoto block = template_instruction kGoto 0 [] [] (GotoBlock block)"

text \<open>The members of \<^verbatim>\<open>LGap\<close>, \<^const>\<open>None\<close> for an instruction that is no gap.\<close>

definition gap_block :: "LInstruction \<Rightarrow> int32 option" where
  "gap_block i = (case members i of Gap b _ \<Rightarrow> Some b | LabelMembers b _ _ \<Rightarrow> Some b | _ \<Rightarrow> None)"

definition parallel_moves :: "LInstruction \<Rightarrow> LParallelMove option list" where
  "parallel_moves i = (case members i of Gap _ ms \<Rightarrow> ms | LabelMembers _ ms _ \<Rightarrow> ms | _ \<Rightarrow> [])"

definition GetParallelMove :: "nat \<Rightarrow> LInstruction \<Rightarrow> LParallelMove option" where
  "GetParallelMove pos i = (if pos < length (parallel_moves i) then parallel_moves i ! pos else None)"

definition SetParallelMove :: "nat \<Rightarrow> LParallelMove option \<Rightarrow> LInstruction \<Rightarrow> LInstruction" where
  "SetParallelMove pos move i = i\<lparr>members := (case members i of
     Gap b ms \<Rightarrow> Gap b (ms[pos := move])
   | LabelMembers b ms r \<Rightarrow> LabelMembers b (ms[pos := move]) r
   | own \<Rightarrow> own)\<rparr>"

definition GetOrCreateParallelMove :: "nat \<Rightarrow> LInstruction \<Rightarrow> LParallelMove \<times> LInstruction" where
  "GetOrCreateParallelMove pos i =
     (case GetParallelMove pos i of Some m \<Rightarrow> (m, i) | None \<Rightarrow> ([], SetParallelMove pos (Some []) i))"

definition replacement :: "LInstruction \<Rightarrow> nat option" where
  "replacement i = (case members i of LabelMembers _ _ r \<Rightarrow> r | _ \<Rightarrow> None)"

definition set_replacement :: "nat option \<Rightarrow> LInstruction \<Rightarrow> LInstruction" where
  "set_replacement label i =
     i\<lparr>members := (case members i of LabelMembers b ms _ \<Rightarrow> LabelMembers b ms label | own \<Rightarrow> own)\<rparr>"

definition goto_block :: "LInstruction \<Rightarrow> int32 option" where
  "goto_block i = (case members i of GotoBlock b \<Rightarrow> Some b | _ \<Rightarrow> None)"

text \<open>A gap is redundant if all its moves are.\<close>

primrec moves_IsRedundant :: "LParallelMove option list \<Rightarrow> bool option" where
  "moves_IsRedundant [] = Some True"
| "moves_IsRedundant (m # ms) =
     (case m of
        None \<Rightarrow> moves_IsRedundant ms
      | Some moves \<Rightarrow> do {
          redundant \<leftarrow> parallel_IsRedundant moves;
          if redundant then moves_IsRedundant ms else Some False
        })"

definition gap_IsRedundant :: "LInstruction \<Rightarrow> bool option" where
  "gap_IsRedundant i = moves_IsRedundant (parallel_moves i)"

section \<open>Instructions with other members\<close>

text \<open>The operands of a call with a descriptor are in a list. The deferred environment is not
  initialized by the constructor.\<close>

definition LCallWithDescriptor :: "operand list \<Rightarrow> LInstruction" where
  "LCallWithDescriptor operands = template_instruction kCallWithDescriptor 1 operands [] NoMembers"

definition LInstanceOfKnownGlobal ::
  "operand \<Rightarrow> operand \<Rightarrow> operand \<Rightarrow> LInstruction" where
  "LInstanceOfKnownGlobal context value temp =
     template_instruction kInstanceOfKnownGlobal 1 [context, value] [temp] (LazyDeoptEnv [])"

definition SetDeferredLazyDeoptimizationEnvironment :: "LEnvironment \<Rightarrow> LInstruction \<Rightarrow> LInstruction" where
  "SetDeferredLazyDeoptimizationEnvironment env i = i\<lparr>members := LazyDeoptEnv env\<rparr>"

definition LArithmeticD ::
  "Token_Value \<Rightarrow> operand \<Rightarrow> operand \<Rightarrow> LInstruction" where
  "LArithmeticD op left right = template_instruction kArithmeticD 1 [left, right] [] (Operation op)"

definition LArithmeticT ::
  "Token_Value \<Rightarrow> operand \<Rightarrow> operand
   \<Rightarrow> operand \<Rightarrow> LInstruction" where
  "LArithmeticT op context left right =
     template_instruction kArithmeticT 1 [context, left, right] [] (Operation op)"

definition LDivByConstI ::
  "operand \<Rightarrow> int32 \<Rightarrow> operand
   \<Rightarrow> operand \<Rightarrow> LInstruction" where
  "LDivByConstI dividend divisor temp1 temp2 =
     template_instruction kDivByConstI 1 [dividend] [temp1, temp2] (Divisor divisor)"

definition LDivByPowerOf2I :: "operand \<Rightarrow> int32 \<Rightarrow> LInstruction" where
  "LDivByPowerOf2I dividend divisor =
     template_instruction kDivByPowerOf2I 1 [dividend] [] (Divisor divisor)"

definition LDrop :: "int32 \<Rightarrow> LInstruction" where
  "LDrop count = template_instruction kDrop 0 [] [] (DropCount count)"

definition LFlooringDivByConstI ::
  "operand \<Rightarrow> int32 \<Rightarrow> operand
   \<Rightarrow> operand \<Rightarrow> operand \<Rightarrow> LInstruction" where
  "LFlooringDivByConstI dividend divisor temp1 temp2 temp3 =
     template_instruction kFlooringDivByConstI 1 [dividend] [temp1, temp2, temp3] (Divisor divisor)"

definition LFlooringDivByPowerOf2I :: "operand \<Rightarrow> int32 \<Rightarrow> LInstruction" where
  "LFlooringDivByPowerOf2I dividend divisor =
     template_instruction kFlooringDivByPowerOf2I 1 [dividend] [] (Divisor divisor)"

definition LLazyBailout :: "LInstruction" where
  "LLazyBailout = template_instruction kLazyBailout 0 [] [] (GapInstructionsSize 0)"

definition LModByConstI ::
  "operand \<Rightarrow> int32 \<Rightarrow> operand
   \<Rightarrow> operand \<Rightarrow> LInstruction" where
  "LModByConstI dividend divisor temp1 temp2 =
     template_instruction kModByConstI 1 [dividend] [temp1, temp2] (Divisor divisor)"

definition LModByPowerOf2I :: "operand \<Rightarrow> int32 \<Rightarrow> LInstruction" where
  "LModByPowerOf2I dividend divisor =
     template_instruction kModByPowerOf2I 1 [dividend] [] (Divisor divisor)"

definition LShiftI ::
  "Token_Value \<Rightarrow> operand \<Rightarrow> operand
   \<Rightarrow> bool \<Rightarrow> LInstruction" where
  "LShiftI op left right can_deopt =
     template_instruction kShiftI 1 [left, right] [] (Shift op can_deopt)"

definition LSmiUntag :: "operand \<Rightarrow> bool \<Rightarrow> LInstruction" where
  "LSmiUntag value needs_check =
     template_instruction kSmiUntag 1 [value] [] (NeedsCheck needs_check)"

section \<open>Instructions with operands only\<close>

definition LAccessArgumentsAt ::
  "operand \<Rightarrow> operand \<Rightarrow> operand \<Rightarrow> LInstruction" where
  "LAccessArgumentsAt arguments len index =
     template_instruction kAccessArgumentsAt 1 [arguments, len, index] [] NoMembers"

definition LAddI :: "operand \<Rightarrow> operand \<Rightarrow> LInstruction" where
  "LAddI left right = template_instruction kAddI 1 [left, right] [] NoMembers"

definition LAllocate ::
  "operand \<Rightarrow> operand \<Rightarrow> operand \<Rightarrow> LInstruction" where
  "LAllocate context object_size temp =
     template_instruction kAllocate 1 [context, object_size] [temp] NoMembers"

definition LApplyArguments ::
  "operand \<Rightarrow> operand \<Rightarrow> operand
   \<Rightarrow> operand \<Rightarrow> LInstruction" where
  "LApplyArguments func receiver len elems =
     template_instruction kApplyArguments 1 [func, receiver, len, elems] [] NoMembers"

definition LArgumentsElements :: "LInstruction" where
  "LArgumentsElements = template_instruction kArgumentsElements 1 [] [] NoMembers"

definition LArgumentsLength :: "operand \<Rightarrow> LInstruction" where
  "LArgumentsLength elems = template_instruction kArgumentsLength 1 [elems] [] NoMembers"

definition LBitI :: "operand \<Rightarrow> operand \<Rightarrow> LInstruction" where
  "LBitI left right = template_instruction kBitI 1 [left, right] [] NoMembers"

definition LBoundsCheck :: "operand \<Rightarrow> operand \<Rightarrow> LInstruction" where
  "LBoundsCheck index len = template_instruction kBoundsCheck 0 [index, len] [] NoMembers"

definition LBranch :: "operand \<Rightarrow> LInstruction" where
  "LBranch value = template_instruction kBranch 0 [value] [] NoMembers"

definition LCallJSFunction :: "operand \<Rightarrow> LInstruction" where
  "LCallJSFunction func = template_instruction kCallJSFunction 1 [func] [] NoMembers"

definition LCallFunction :: "operand \<Rightarrow> operand \<Rightarrow> LInstruction" where
  "LCallFunction context func = template_instruction kCallFunction 1 [context, func] [] NoMembers"

definition LCallNew :: "operand \<Rightarrow> operand \<Rightarrow> LInstruction" where
  "LCallNew context constructor =
     template_instruction kCallNew 1 [context, constructor] [] NoMembers"

definition LCallNewArray :: "operand \<Rightarrow> operand \<Rightarrow> LInstruction" where
  "LCallNewArray context constructor =
     template_instruction kCallNewArray 1 [context, constructor] [] NoMembers"

definition LCallRuntime :: "operand \<Rightarrow> LInstruction" where
  "LCallRuntime context = template_instruction kCallRuntime 1 [context] [] NoMembers"

definition LCheckInstanceType :: "operand \<Rightarrow> LInstruction" where
  "LCheckInstanceType value = template_instruction kCheckInstanceType 0 [value] [] NoMembers"

definition LCheckMaps :: "operand \<Rightarrow> LInstruction" where
  "LCheckMaps value = template_instruction kCheckMaps 0 [value] [] NoMembers"

definition LCheckMapValue :: "operand \<Rightarrow> operand \<Rightarrow> LInstruction" where
  "LCheckMapValue value object_map =
     template_instruction kCheckMapValue 0 [value, object_map] [] NoMembers"

definition LCheckNonSmi :: "operand \<Rightarrow> LInstruction" where
  "LCheckNonSmi value = template_instruction kCheckNonSmi 0 [value] [] NoMembers"

definition LCheckSmi :: "operand \<Rightarrow> LInstruction" where
  "LCheckSmi value = template_instruction kCheckSmi 1 [value] [] NoMembers"

definition LCheckValue :: "operand \<Rightarrow> LInstruction" where
  "LCheckValue value = template_instruction kCheckValue 0 [value] [] NoMembers"

definition LClassOfTestAndBranch ::
  "operand \<Rightarrow> operand \<Rightarrow> operand \<Rightarrow> LInstruction" where
  "LClassOfTestAndBranch value temp temp2 =
     template_instruction kClassOfTestAndBranch 0 [value] [temp, temp2] NoMembers"

definition LCompareMinusZeroAndBranch :: "operand \<Rightarrow> LInstruction" where
  "LCompareMinusZeroAndBranch value =
     template_instruction kCompareMinusZeroAndBranch 0 [value] [] NoMembers"

definition LCompareNumericAndBranch ::
  "operand \<Rightarrow> operand \<Rightarrow> LInstruction" where
  "LCompareNumericAndBranch left right =
     template_instruction kCompareNumericAndBranch 0 [left, right] [] NoMembers"

definition LCmpObjectEqAndBranch :: "operand \<Rightarrow> operand \<Rightarrow> LInstruction" where
  "LCmpObjectEqAndBranch left right =
     template_instruction kCmpObjectEqAndBranch 0 [left, right] [] NoMembers"

definition LCmpHoleAndBranch :: "operand \<Rightarrow> LInstruction" where
  "LCmpHoleAndBranch object = template_instruction kCmpHoleAndBranch 0 [object] [] NoMembers"

definition LCmpMapAndBranch :: "operand \<Rightarrow> LInstruction" where
  "LCmpMapAndBranch value = template_instruction kCmpMapAndBranch 0 [value] [] NoMembers"

definition LCmpT ::
  "operand \<Rightarrow> operand \<Rightarrow> operand \<Rightarrow> LInstruction" where
  "LCmpT context left right = template_instruction kCmpT 1 [context, left, right] [] NoMembers"

definition LConstantD :: "operand \<Rightarrow> LInstruction" where
  "LConstantD temp = template_instruction kConstantD 1 [] [temp] NoMembers"

definition LConstantE :: "LInstruction" where
  "LConstantE = template_instruction kConstantE 1 [] [] NoMembers"

definition LConstantI :: "LInstruction" where
  "LConstantI = template_instruction kConstantI 1 [] [] NoMembers"

definition LConstantS :: "LInstruction" where
  "LConstantS = template_instruction kConstantS 1 [] [] NoMembers"

definition LConstantT :: "LInstruction" where
  "LConstantT = template_instruction kConstantT 1 [] [] NoMembers"

definition LConstructDouble :: "operand \<Rightarrow> operand \<Rightarrow> LInstruction" where
  "LConstructDouble hi lo = template_instruction kConstructDouble 1 [hi, lo] [] NoMembers"

definition LContext :: "LInstruction" where
  "LContext = template_instruction Opcodes.kContext 1 [] [] NoMembers"

definition LDeclareGlobals :: "operand \<Rightarrow> LInstruction" where
  "LDeclareGlobals context = template_instruction kDeclareGlobals 0 [context] [] NoMembers"

definition LDeoptimize :: "LInstruction" where
  "LDeoptimize = template_instruction kDeoptimize 0 [] [] NoMembers"

definition LDivI ::
  "operand \<Rightarrow> operand \<Rightarrow> operand \<Rightarrow> LInstruction" where
  "LDivI dividend divisor temp = template_instruction kDivI 1 [dividend, divisor] [temp] NoMembers"

definition LDoubleBits :: "operand \<Rightarrow> LInstruction" where
  "LDoubleBits value = template_instruction kDoubleBits 1 [value] [] NoMembers"

definition LDoubleToI :: "operand \<Rightarrow> LInstruction" where
  "LDoubleToI value = template_instruction kDoubleToI 1 [value] [] NoMembers"

definition LDoubleToSmi :: "operand \<Rightarrow> LInstruction" where
  "LDoubleToSmi value = template_instruction kDoubleToSmi 1 [value] [] NoMembers"

definition LDummyUse :: "operand \<Rightarrow> LInstruction" where
  "LDummyUse value = template_instruction kDummyUse 1 [value] [] NoMembers"

definition LDummy :: "LInstruction" where
  "LDummy = template_instruction kDummy 1 [] [] NoMembers"

definition LFlooringDivI ::
  "operand \<Rightarrow> operand \<Rightarrow> operand \<Rightarrow> LInstruction" where
  "LFlooringDivI dividend divisor temp =
     template_instruction kFlooringDivI 1 [dividend, divisor] [temp] NoMembers"

definition LForInCacheArray :: "operand \<Rightarrow> LInstruction" where
  "LForInCacheArray object_map = template_instruction kForInCacheArray 1 [object_map] [] NoMembers"

definition LForInPrepareMap :: "operand \<Rightarrow> operand \<Rightarrow> LInstruction" where
  "LForInPrepareMap context object =
     template_instruction kForInPrepareMap 1 [context, object] [] NoMembers"

definition LFunctionLiteral :: "operand \<Rightarrow> LInstruction" where
  "LFunctionLiteral context = template_instruction kFunctionLiteral 1 [context] [] NoMembers"

definition LHasCachedArrayIndexAndBranch :: "operand \<Rightarrow> LInstruction" where
  "LHasCachedArrayIndexAndBranch value =
     template_instruction kHasCachedArrayIndexAndBranch 0 [value] [] NoMembers"

definition LHasInstanceTypeAndBranch :: "operand \<Rightarrow> LInstruction" where
  "LHasInstanceTypeAndBranch value =
     template_instruction kHasInstanceTypeAndBranch 0 [value] [] NoMembers"

definition LInnerAllocatedObject :: "operand \<Rightarrow> operand \<Rightarrow> LInstruction" where
  "LInnerAllocatedObject base_object offset =
     template_instruction kInnerAllocatedObject 1 [base_object, offset] [] NoMembers"

definition LInstanceOf ::
  "operand \<Rightarrow> operand \<Rightarrow> operand \<Rightarrow> LInstruction" where
  "LInstanceOf context left right =
     template_instruction kInstanceOf 1 [context, left, right] [] NoMembers"

definition LInteger32ToDouble :: "operand \<Rightarrow> LInstruction" where
  "LInteger32ToDouble value = template_instruction kInteger32ToDouble 1 [value] [] NoMembers"

definition LInvokeFunction :: "operand \<Rightarrow> operand \<Rightarrow> LInstruction" where
  "LInvokeFunction context func =
     template_instruction kInvokeFunction 1 [context, func] [] NoMembers"

definition LIsConstructCallAndBranch :: "operand \<Rightarrow> LInstruction" where
  "LIsConstructCallAndBranch temp =
     template_instruction kIsConstructCallAndBranch 0 [] [temp] NoMembers"

definition LIsObjectAndBranch :: "operand \<Rightarrow> LInstruction" where
  "LIsObjectAndBranch value = template_instruction kIsObjectAndBranch 0 [value] [] NoMembers"

definition LIsStringAndBranch :: "operand \<Rightarrow> operand \<Rightarrow> LInstruction" where
  "LIsStringAndBranch value temp =
     template_instruction kIsStringAndBranch 0 [value] [temp] NoMembers"

definition LIsSmiAndBranch :: "operand \<Rightarrow> LInstruction" where
  "LIsSmiAndBranch value = template_instruction kIsSmiAndBranch 0 [value] [] NoMembers"

definition LIsUndetectableAndBranch ::
  "operand \<Rightarrow> operand \<Rightarrow> LInstruction" where
  "LIsUndetectableAndBranch value temp =
     template_instruction kIsUndetectableAndBranch 0 [value] [temp] NoMembers"

definition LLoadContextSlot :: "operand \<Rightarrow> LInstruction" where
  "LLoadContextSlot context = template_instruction kLoadContextSlot 1 [context] [] NoMembers"

definition LLoadRoot :: "LInstruction" where
  "LLoadRoot = template_instruction kLoadRoot 1 [] [] NoMembers"

definition LLoadFieldByIndex :: "operand \<Rightarrow> operand \<Rightarrow> LInstruction" where
  "LLoadFieldByIndex object index =
     template_instruction kLoadFieldByIndex 1 [object, index] [] NoMembers"

definition LLoadFunctionPrototype :: "operand \<Rightarrow> LInstruction" where
  "LLoadFunctionPrototype func = template_instruction kLoadFunctionPrototype 1 [func] [] NoMembers"

definition LLoadGlobalCell :: "LInstruction" where
  "LLoadGlobalCell = template_instruction kLoadGlobalCell 1 [] [] NoMembers"

definition LLoadGlobalGeneric ::
  "operand \<Rightarrow> operand \<Rightarrow> operand \<Rightarrow> LInstruction" where
  "LLoadGlobalGeneric context global_object vector =
     template_instruction kLoadGlobalGeneric 1 [context, global_object] [vector] NoMembers"

definition LLoadKeyed :: "operand \<Rightarrow> operand \<Rightarrow> LInstruction" where
  "LLoadKeyed elems key = template_instruction kLoadKeyed 1 [elems, key] [] NoMembers"

definition LLoadKeyedGeneric ::
  "operand \<Rightarrow> operand \<Rightarrow> operand
   \<Rightarrow> operand \<Rightarrow> LInstruction" where
  "LLoadKeyedGeneric context obj key vector =
     template_instruction kLoadKeyedGeneric 1 [context, obj, key] [vector] NoMembers"

definition LLoadNamedField :: "operand \<Rightarrow> LInstruction" where
  "LLoadNamedField object = template_instruction kLoadNamedField 1 [object] [] NoMembers"

definition LLoadNamedGeneric ::
  "operand \<Rightarrow> operand \<Rightarrow> operand \<Rightarrow> LInstruction" where
  "LLoadNamedGeneric context object vector =
     template_instruction kLoadNamedGeneric 1 [context, object] [vector] NoMembers"

definition LMapEnumLength :: "operand \<Rightarrow> LInstruction" where
  "LMapEnumLength value = template_instruction kMapEnumLength 1 [value] [] NoMembers"

definition LMathAbs :: "operand \<Rightarrow> operand \<Rightarrow> LInstruction" where
  "LMathAbs context value = template_instruction kMathAbs 1 [value, context] [] NoMembers"

definition LMathClz32 :: "operand \<Rightarrow> LInstruction" where
  "LMathClz32 value = template_instruction kMathClz32 1 [value] [] NoMembers"

definition LMathExp ::
  "operand \<Rightarrow> operand \<Rightarrow> operand \<Rightarrow> LInstruction" where
  "LMathExp value temp1 temp2 = template_instruction kMathExp 1 [value] [temp1, temp2] NoMembers"

definition LMathFloor :: "operand \<Rightarrow> LInstruction" where
  "LMathFloor value = template_instruction kMathFloor 1 [value] [] NoMembers"

definition LMathFround :: "operand \<Rightarrow> LInstruction" where
  "LMathFround value = template_instruction kMathFround 1 [value] [] NoMembers"

definition LMathLog :: "operand \<Rightarrow> LInstruction" where
  "LMathLog value = template_instruction kMathLog 1 [value] [] NoMembers"

definition LMathMinMax :: "operand \<Rightarrow> operand \<Rightarrow> LInstruction" where
  "LMathMinMax left right = template_instruction kMathMinMax 1 [left, right] [] NoMembers"

definition LMathPowHalf :: "operand \<Rightarrow> LInstruction" where
  "LMathPowHalf value = template_instruction kMathPowHalf 1 [value] [] NoMembers"

definition LMathRound :: "operand \<Rightarrow> operand \<Rightarrow> LInstruction" where
  "LMathRound value temp = template_instruction kMathRound 1 [value] [temp] NoMembers"

definition LMathSqrt :: "operand \<Rightarrow> LInstruction" where
  "LMathSqrt value = template_instruction kMathSqrt 1 [value] [] NoMembers"

definition LModI ::
  "operand \<Rightarrow> operand \<Rightarrow> operand \<Rightarrow> LInstruction" where
  "LModI left right temp = template_instruction kModI 1 [left, right] [temp] NoMembers"

definition LMulI :: "operand \<Rightarrow> operand \<Rightarrow> LInstruction" where
  "LMulI left right = template_instruction kMulI 1 [left, right] [] NoMembers"

definition LNumberTagD :: "operand \<Rightarrow> operand \<Rightarrow> LInstruction" where
  "LNumberTagD value temp = template_instruction kNumberTagD 1 [value] [temp] NoMembers"

definition LNumberTagI ::
  "operand \<Rightarrow> operand \<Rightarrow> operand \<Rightarrow> LInstruction" where
  "LNumberTagI value temp1 temp2 =
     template_instruction kNumberTagI 1 [value] [temp1, temp2] NoMembers"

definition LNumberTagU ::
  "operand \<Rightarrow> operand \<Rightarrow> operand \<Rightarrow> LInstruction" where
  "LNumberTagU value temp1 temp2 =
     template_instruction kNumberTagU 1 [value] [temp1, temp2] NoMembers"

definition LNumberUntagD :: "operand \<Rightarrow> LInstruction" where
  "LNumberUntagD value = template_instruction kNumberUntagD 1 [value] [] NoMembers"

definition LOsrEntry :: "LInstruction" where
  "LOsrEntry = template_instruction kOsrEntry 0 [] [] NoMembers"

definition LParameter :: "LInstruction" where
  "LParameter = template_instruction kParameter 1 [] [] NoMembers"

definition LPower :: "operand \<Rightarrow> operand \<Rightarrow> LInstruction" where
  "LPower left right = template_instruction kPower 1 [left, right] [] NoMembers"

definition LPushArgument :: "operand \<Rightarrow> LInstruction" where
  "LPushArgument value = template_instruction kPushArgument 0 [value] [] NoMembers"

definition LRegExpLiteral :: "operand \<Rightarrow> LInstruction" where
  "LRegExpLiteral context = template_instruction kRegExpLiteral 1 [context] [] NoMembers"

definition LReturn ::
  "operand \<Rightarrow> operand \<Rightarrow> operand \<Rightarrow> LInstruction" where
  "LReturn value context parameter_count =
     template_instruction kReturn 0 [value, context, parameter_count] [] NoMembers"

definition LSmiTag :: "operand \<Rightarrow> LInstruction" where
  "LSmiTag value = template_instruction kSmiTag 1 [value] [] NoMembers"

definition LStackCheck :: "operand \<Rightarrow> LInstruction" where
  "LStackCheck context = template_instruction kStackCheck 0 [context] [] NoMembers"

definition LStoreContextSlot ::
  "operand \<Rightarrow> operand \<Rightarrow> operand \<Rightarrow> LInstruction" where
  "LStoreContextSlot context value temp =
     template_instruction kStoreContextSlot 0 [context, value] [temp] NoMembers"

definition LStoreGlobalCell :: "operand \<Rightarrow> operand \<Rightarrow> LInstruction" where
  "LStoreGlobalCell value temp = template_instruction kStoreGlobalCell 0 [value] [temp] NoMembers"

definition LStoreKeyed ::
  "operand \<Rightarrow> operand \<Rightarrow> operand \<Rightarrow> LInstruction" where
  "LStoreKeyed object key value =
     template_instruction kStoreKeyed 0 [object, key, value] [] NoMembers"

definition LStoreKeyedGeneric ::
  "operand \<Rightarrow> operand \<Rightarrow> operand
   \<Rightarrow> operand \<Rightarrow> LInstruction" where
  "LStoreKeyedGeneric context object key value =
     template_instruction kStoreKeyedGeneric 0 [context, object, key, value] [] NoMembers"

definition LStoreNamedField ::
  "operand \<Rightarrow> operand \<Rightarrow> operand \<Rightarrow> LInstruction" where
  "LStoreNamedField object value temp =
     template_instruction kStoreNamedField 0 [object, value] [temp] NoMembers"

definition LStoreNamedGeneric ::
  "operand \<Rightarrow> operand \<Rightarrow> operand \<Rightarrow> LInstruction" where
  "LStoreNamedGeneric context object value =
     template_instruction kStoreNamedGeneric 0 [context, object, value] [] NoMembers"

definition LStringAdd ::
  "operand \<Rightarrow> operand \<Rightarrow> operand \<Rightarrow> LInstruction" where
  "LStringAdd context left right =
     template_instruction kStringAdd 1 [context, left, right] [] NoMembers"

definition LStringCharCodeAt ::
  "operand \<Rightarrow> operand \<Rightarrow> operand \<Rightarrow> LInstruction" where
  "LStringCharCodeAt context str index =
     template_instruction kStringCharCodeAt 1 [context, str, index] [] NoMembers"

definition LStringCharFromCode :: "operand \<Rightarrow> operand \<Rightarrow> LInstruction" where
  "LStringCharFromCode context char_code =
     template_instruction kStringCharFromCode 1 [context, char_code] [] NoMembers"

definition LStringCompareAndBranch ::
  "operand \<Rightarrow> operand \<Rightarrow> operand \<Rightarrow> LInstruction" where
  "LStringCompareAndBranch context left right =
     template_instruction kStringCompareAndBranch 0 [context, left, right] [] NoMembers"

definition LSubI :: "operand \<Rightarrow> operand \<Rightarrow> LInstruction" where
  "LSubI left right = template_instruction kSubI 1 [left, right] [] NoMembers"

definition LTaggedToI :: "operand \<Rightarrow> operand \<Rightarrow> LInstruction" where
  "LTaggedToI value temp = template_instruction kTaggedToI 1 [value] [temp] NoMembers"

definition LThisFunction :: "LInstruction" where
  "LThisFunction = template_instruction kThisFunction 1 [] [] NoMembers"

definition LToFastProperties :: "operand \<Rightarrow> LInstruction" where
  "LToFastProperties value = template_instruction kToFastProperties 1 [value] [] NoMembers"

definition LTransitionElementsKind ::
  "operand \<Rightarrow> operand \<Rightarrow> operand
   \<Rightarrow> operand \<Rightarrow> LInstruction" where
  "LTransitionElementsKind object context new_map_temp temp =
     template_instruction kTransitionElementsKind 0 [object, context] [new_map_temp, temp] NoMembers"

definition LTypeof :: "operand \<Rightarrow> operand \<Rightarrow> LInstruction" where
  "LTypeof context value = template_instruction kTypeof 1 [context, value] [] NoMembers"

definition LTypeofIsAndBranch :: "operand \<Rightarrow> LInstruction" where
  "LTypeofIsAndBranch value = template_instruction kTypeofIsAndBranch 0 [value] [] NoMembers"

definition LUint32ToDouble :: "operand \<Rightarrow> LInstruction" where
  "LUint32ToDouble value = template_instruction kUint32ToDouble 1 [value] [] NoMembers"

definition LUnknownOSRValue :: "LInstruction" where
  "LUnknownOSRValue = template_instruction kUnknownOSRValue 1 [] [] NoMembers"

definition LWrapReceiver :: "operand \<Rightarrow> operand \<Rightarrow> LInstruction" where
  "LWrapReceiver receiver func = template_instruction kWrapReceiver 1 [receiver, func] [] NoMembers"

end
