(* ===== verification/InstructionSaveload.thy ===== *)
theory InstructionSaveload
  imports Instructions
begin

text \<open>
  Saving and loading of one instruction: the functions \<^verbatim>\<open>SaveL...\<close> and \<^verbatim>\<open>LoadL...\<close> of
  \<^verbatim>\<open>src/x64/lithium-saveload-x64.cc\<close> for every concrete class, their dispatch on the class and on the
  opcode, and \<^verbatim>\<open>SaveInstruction\<close> and \<^verbatim>\<open>LoadInstruction\<close>.
\<close>

section \<open>The bases of instructions\<close>

definition SaveTemplateInstruction :: "LInstruction \<Rightarrow> 'a sv" where
  "SaveTemplateInstruction i s = do {
     s \<leftarrow> save_each ConditionallySaveLOperand (inputs i) s;
     save_each ConditionallySaveLOperand (temps i) s
   }"

definition SaveTemplateResultInstruction :: "LInstruction \<Rightarrow> 'a sv" where
  "SaveTemplateResultInstruction i =
     (case results i of [] \<Rightarrow> Some | operand # _ \<Rightarrow> ConditionallySaveLOperand operand)"

definition LoadTemplateResultInstruction ::
  "LInstruction \<Rightarrow> 'b loader_base_scheme \<Rightarrow> (LInstruction, 'b) load_result" where
  "LoadTemplateResultInstruction i l =
     (case results i of
        [] \<Rightarrow> Some (i, l)
      | _ \<Rightarrow> do { (operand, l) \<leftarrow> ConditionallyLoadLOperand l; Some (set_result operand i, l) })"

text \<open>What loading an instruction tells the compilation.\<close>

definition MarkAsRequiresFrame :: "'b loader_base_scheme \<Rightarrow> 'b loader_base_scheme" where
  "MarkAsRequiresFrame l = l\<lparr>info_requires_frame := True\<rparr>"

definition MarkAsDeferredCalling :: "'b loader_base_scheme \<Rightarrow> 'b loader_base_scheme" where
  "MarkAsDeferredCalling l = l\<lparr>info_deferred_calling := True\<rparr>"

section \<open>Saving the members of a class\<close>

definition SaveMoveOperands :: "LMoveOperands \<Rightarrow> 'a sv" where
  "SaveMoveOperands move s = do {
     s \<leftarrow> ConditionallySaveLOperand (mv_source move) s;
     ConditionallySaveLOperand (mv_destination move) s
   }"

definition SaveParallelMove :: "LParallelMove option \<Rightarrow> 'a sv" where
  "SaveParallelMove move =
     (case move of
        None \<Rightarrow> SavePrimitive_bool False
      | Some moves \<Rightarrow> (\<lambda>s. do {
          s \<leftarrow> SavePrimitive_bool True s;
          s \<leftarrow> SavePrimitive (word_of_nat (length moves) :: size_t) s;
          save_each SaveMoveOperands moves s
        }))"

definition SaveLGap :: "LInstruction \<Rightarrow> 'a sv" where
  "SaveLGap gap s = do {
     block \<leftarrow> gap_block gap;
     s \<leftarrow> SavePrimitive block s;
     save_each SaveParallelMove (parallel_moves gap) s
   }"

definition SaveLLabel :: "LInstruction \<Rightarrow> 'a sv" where
  "SaveLLabel label = SaveLGap label"

definition SaveLInstructionGap :: "LInstruction \<Rightarrow> 'a sv" where
  "SaveLInstructionGap gap = SaveLGap gap"

definition SaveLGoto :: "LInstruction \<Rightarrow> 'a sv" where
  "SaveLGoto i = (case members i of GotoBlock block \<Rightarrow> SavePrimitive block | _ \<Rightarrow> (\<lambda>s. None))"

definition SaveLModByPowerOf2I :: "LInstruction \<Rightarrow> 'a sv" where
  "SaveLModByPowerOf2I i = (case members i of Divisor d \<Rightarrow> SavePrimitive d | _ \<Rightarrow> (\<lambda>s. None))"

definition SaveLModByConstI :: "LInstruction \<Rightarrow> 'a sv" where
  "SaveLModByConstI i = (case members i of Divisor d \<Rightarrow> SavePrimitive d | _ \<Rightarrow> (\<lambda>s. None))"

definition SaveLDivByPowerOf2I :: "LInstruction \<Rightarrow> 'a sv" where
  "SaveLDivByPowerOf2I i = (case members i of Divisor d \<Rightarrow> SavePrimitive d | _ \<Rightarrow> (\<lambda>s. None))"

definition SaveLDivByConstI :: "LInstruction \<Rightarrow> 'a sv" where
  "SaveLDivByConstI i = (case members i of Divisor d \<Rightarrow> SavePrimitive d | _ \<Rightarrow> (\<lambda>s. None))"

definition SaveLFlooringDivByPowerOf2I :: "LInstruction \<Rightarrow> 'a sv" where
  "SaveLFlooringDivByPowerOf2I i = (case members i of Divisor d \<Rightarrow> SavePrimitive d | _ \<Rightarrow> (\<lambda>s. None))"

definition SaveLFlooringDivByConstI :: "LInstruction \<Rightarrow> 'a sv" where
  "SaveLFlooringDivByConstI i = (case members i of Divisor d \<Rightarrow> SavePrimitive d | _ \<Rightarrow> (\<lambda>s. None))"

definition SaveLArithmeticD :: "LInstruction \<Rightarrow> 'a sv" where
  "SaveLArithmeticD i = (case members i of Operation op \<Rightarrow> SavePrimitive op | _ \<Rightarrow> (\<lambda>s. None))"

definition SaveLArithmeticT :: "LInstruction \<Rightarrow> 'a sv" where
  "SaveLArithmeticT i = (case members i of Operation op \<Rightarrow> SavePrimitive op | _ \<Rightarrow> (\<lambda>s. None))"

definition SaveLShiftI :: "LInstruction \<Rightarrow> 'a sv" where
  "SaveLShiftI i =
     (case members i of
        Shift op can_deopt \<Rightarrow> (\<lambda>s. do { s \<leftarrow> SavePrimitive op s; SavePrimitive_bool can_deopt s })
      | _ \<Rightarrow> (\<lambda>s. None))"

definition SaveLCallWithDescriptor :: "LInstruction \<Rightarrow> 'a sv" where
  "SaveLCallWithDescriptor i s = do {
     s \<leftarrow> SavePrimitive (int_length (inputs i) - 1) s;
     save_each ConditionallySaveLOperand (inputs i) s
   }"

definition SaveLSmiUntag :: "LInstruction \<Rightarrow> 'a sv" where
  "SaveLSmiUntag i = (case members i of NeedsCheck b \<Rightarrow> SavePrimitive_bool b | _ \<Rightarrow> (\<lambda>s. None))"

definition SaveLInstanceOfKnownGlobal :: "'w world_scheme \<Rightarrow> LInstruction \<Rightarrow> 'a sv" where
  "SaveLInstanceOfKnownGlobal w i =
     (case members i of LazyDeoptEnv env \<Rightarrow> SaveEnvironment w env | _ \<Rightarrow> (\<lambda>s. None))"

definition SaveLDrop :: "LInstruction \<Rightarrow> 'a sv" where
  "SaveLDrop i = (case members i of DropCount n \<Rightarrow> SavePrimitive n | _ \<Rightarrow> (\<lambda>s. None))"

text \<open>The classes whose function is empty, and those whose function is a stub.\<close>

definition saves_no_members :: "Opcode list" where
  "saves_no_members =
    [Opcodes.kContext, kArgumentsElements, kArgumentsLength, kParameter, kStackCheck,
     kLazyBailout, kConstantI, kConstantS, kConstantD, kConstantE, kConstantT, kReturn,
     kUnknownOSRValue, kOsrEntry, kTaggedToI, kCompareNumericAndBranch, kBitI, kAddI, kSmiTag,
     kStoreContextSlot, kLoadContextSlot, kFunctionLiteral, kDeoptimize, kDummy, kDummyUse,
     kCheckSmi, kCheckNonSmi, kCheckValue, kMulI, kModI, kDivI, kFlooringDivI, kMathAbs,
     kMathFloor, kMathRound, kMathFround, kMathSqrt, kMathPowHalf, kMathExp, kMathLog,
     kMathClz32, kSubI, kMathMinMax, kPower, kBranch, kCompareMinusZeroAndBranch,
     kIsStringAndBranch, kIsUndetectableAndBranch, kHasInstanceTypeAndBranch, kNumberUntagD,
     kStoreKeyed, kStoreKeyedGeneric, kStringCharFromCode, kCmpObjectEqAndBranch,
     kCmpHoleAndBranch, kCmpMapAndBranch, kClassOfTestAndBranch, kIsObjectAndBranch,
     kIsSmiAndBranch, kStringCompareAndBranch, kHasCachedArrayIndexAndBranch,
     kTypeofIsAndBranch, kIsConstructCallAndBranch, kInteger32ToDouble, kUint32ToDouble,
     kCheckMaps, kDeclareGlobals, kPushArgument, kCallNew, kNumberTagI, kNumberTagU,
     kNumberTagD, kStoreGlobalCell, kLoadGlobalCell, kCallRuntime, kDoubleBits,
     kCallJSFunction, kCallFunction, kInvokeFunction, kCheckInstanceType, kLoadNamedField,
     kBoundsCheck, kLoadKeyed, kDoubleToI, kDoubleToSmi, kStoreNamedField, kStoreNamedGeneric,
     kLoadNamedGeneric, kLoadKeyedGeneric, kAllocate, kInnerAllocatedObject,
     kTransitionElementsKind, kLoadRoot, kStringAdd, kCmpT, kStringCharCodeAt,
     kLoadGlobalGeneric, kCallNewArray, kForInPrepareMap, kForInCacheArray, kMapEnumLength,
     kCheckMapValue, kLoadFieldByIndex, kConstructDouble, kRegExpLiteral, kWrapReceiver,
     kApplyArguments, kInstanceOf, kThisFunction, kLoadFunctionPrototype, kToFastProperties,
     kAccessArgumentsAt, kTypeof]"

definition yet_to_be_implemented :: "Opcode list" where
  "yet_to_be_implemented =
    [kAllocateBlockContext, kCallStub, kClampDToUint8, kClampIToUint8, kClampTToUint8,
     kDateField, kDebugBreak, kGetCachedArrayIndex, kSeqStringGetChar, kSeqStringSetChar,
     kStoreCodeEntry, kStoreFrameContext, kTailCallThroughMegamorphicCache,
     kTrapAllocationMemento]"

definition member_savers :: "'w world_scheme \<Rightarrow> (Opcode \<times> (LInstruction \<Rightarrow> 'a sv)) list" where
  "member_savers w =
    [(kLabel, SaveLLabel),
     (kInstructionGap, SaveLInstructionGap),
     (kGoto, SaveLGoto),
     (kModByPowerOf2I, SaveLModByPowerOf2I),
     (kModByConstI, SaveLModByConstI),
     (kDivByPowerOf2I, SaveLDivByPowerOf2I),
     (kDivByConstI, SaveLDivByConstI),
     (kFlooringDivByPowerOf2I, SaveLFlooringDivByPowerOf2I),
     (kFlooringDivByConstI, SaveLFlooringDivByConstI),
     (kArithmeticD, SaveLArithmeticD),
     (kArithmeticT, SaveLArithmeticT),
     (kShiftI, SaveLShiftI),
     (kCallWithDescriptor, SaveLCallWithDescriptor),
     (kSmiUntag, SaveLSmiUntag),
     (kInstanceOfKnownGlobal, SaveLInstanceOfKnownGlobal w),
     (kDrop, SaveLDrop)]"

definition SaveTo :: "'w world_scheme \<Rightarrow> LInstruction \<Rightarrow> 'a sv" where
  "SaveTo w i =
     (if opcode i \<in> set saves_no_members then Some
      else case map_of (member_savers w) (opcode i) of Some save \<Rightarrow> save i | None \<Rightarrow> (\<lambda>s. None))"

text \<open>The last two parts of \<^verbatim>\<open>SaveInstruction\<close>.\<close>

definition SaveInstruction_environment :: "'w world_scheme \<Rightarrow> LInstruction \<Rightarrow> 'a sv" where
  "SaveInstruction_environment w i s =
     (if HasEnvironment i then do { s \<leftarrow> SaveTrue s; SaveEnvironment w (environment i) s }
      else SaveFalse s)"

definition SaveInstruction_pointer_map :: "LInstruction \<Rightarrow> 'a sv" where
  "SaveInstruction_pointer_map i s =
     (case pointer_map i of
        Some m \<Rightarrow> do { s \<leftarrow> SaveTrue s; SavePointerMap m s }
      | None \<Rightarrow> SaveFalse s)"

definition SaveInstruction :: "'w constant_world_scheme \<Rightarrow> LInstruction \<Rightarrow> 'a sv" where
  "SaveInstruction w i s = do {
     s \<leftarrow> SavePrimitive (word_of_nat (opcode i) :: uint32) s;
     s \<leftarrow> if IsTemplateInstruction i then SaveTemplateInstruction i s else Some s;
     RETURN_ON_FAIL s (do {
       s \<leftarrow> SaveTo w i s;
       RETURN_ON_FAIL s (do {
         shim \<leftarrow> hydrogen_shim i;
         s \<leftarrow> SaveHydrogenShim w (opcode i) shim s;
         RETURN_ON_FAIL s (do {
           s \<leftarrow> SaveTemplateResultInstruction i s;
           RETURN_ON_FAIL s (do {
             s \<leftarrow> SaveInstruction_environment w i s;
             RETURN_ON_FAIL s (SaveInstruction_pointer_map i s)
           })
         })
       })
     })
   }"

section \<open>Loading the members of a class\<close>

text \<open>\<open>block_at\<close> is the number of the block at an index of the graph's blocks, if there is one.\<close>

definition LoadMoveOperands ::
  "'b loader_base_scheme \<Rightarrow> ((operand \<times> operand), 'b) load_result" where
  "LoadMoveOperands l = do {
     (source, l) \<leftarrow> ConditionallyLoadLOperand l;
     (destination, l) \<leftarrow> ConditionallyLoadLOperand l;
     Some ((source, destination), l)
   }"

definition LoadParallelMove :: "'b loader_base_scheme \<Rightarrow> (LParallelMove option, 'b) load_result" where
  "LoadParallelMove l = do {
     (present, l) \<leftarrow> LoadBool l;
     if present then do {
       (number_of_operands, l) \<leftarrow> LoadPrimitive l;
       (operands, l) \<leftarrow> load_each LoadMoveOperands (unat (number_of_operands :: size_t)) l;
       Some (Some (fold (\<lambda>(source, destination). AddMove source destination) operands []), l)
     } else Some (None, l)
   }"

primrec SetParallelMoves :: "nat \<Rightarrow> LParallelMove option list \<Rightarrow> LInstruction \<Rightarrow> LInstruction" where
  "SetParallelMoves pos [] i = i"
| "SetParallelMoves pos (m # ms) i =
     SetParallelMoves (pos + 1) ms (case m of None \<Rightarrow> i | Some _ \<Rightarrow> SetParallelMove pos m i)"

definition LoadLGap :: "LInstruction \<Rightarrow> 'b loader_base_scheme \<Rightarrow> (LInstruction, 'b) load_result" where
  "LoadLGap gap l = do {
     (moves, l) \<leftarrow> load_each LoadParallelMove inner_positions l;
     Some (SetParallelMoves BEFORE moves gap, l)
   }"

definition LoadLLabel ::
  "(int32 \<Rightarrow> int32 option) \<Rightarrow> 'b loader_base_scheme \<Rightarrow> (LInstruction, 'b) load_result" where
  "LoadLLabel block_at l = do {
     (index, l) \<leftarrow> LoadPrimitive l;
     block \<leftarrow> block_at index;
     LoadLGap (LLabel block) l
   }"

definition LoadLInstructionGap ::
  "(int32 \<Rightarrow> int32 option) \<Rightarrow> 'b loader_base_scheme \<Rightarrow> (LInstruction, 'b) load_result" where
  "LoadLInstructionGap block_at l = do {
     (index, l) \<leftarrow> LoadPrimitive l;
     block \<leftarrow> block_at index;
     LoadLGap (LInstructionGap block) l
   }"

definition LoadLGoto ::
  "(int32 \<Rightarrow> int32 option) \<Rightarrow> 'b loader_base_scheme \<Rightarrow> (LInstruction, 'b) load_result" where
  "LoadLGoto block_at l = do {
     (index, l) \<leftarrow> LoadPrimitive l;
     block \<leftarrow> block_at index;
     Some (LGoto block, l)
   }"

definition LoadLCallWithDescriptor :: "'b loader_base_scheme \<Rightarrow> (LInstruction, 'b) load_result" where
  "LoadLCallWithDescriptor l = do {
     (register_parameter_count, l) \<leftarrow> LoadPrimitive l;
     (operands, l) \<leftarrow> load_each ConditionallyLoadLOperand (iterations (register_parameter_count + 1)) l;
     Some (LCallWithDescriptor operands, l)
   }"

definition LoadLInstanceOfKnownGlobal ::
  "'w world_scheme \<Rightarrow> 'b loader_base_scheme \<Rightarrow> (LInstruction, 'b) load_result" where
  "LoadLInstanceOfKnownGlobal w l = do {
     (context, l) \<leftarrow> ConditionallyLoadLOperand l;
     (value, l) \<leftarrow> ConditionallyLoadLOperand l;
     (temp, l) \<leftarrow> ConditionallyLoadLOperand l;
     (env, l) \<leftarrow> LoadEnvironment w l;
     Some (SetDeferredLazyDeoptimizationEnvironment env (LInstanceOfKnownGlobal context value temp), l)
   }"

definition LoadLArithmeticD :: "'b loader_base_scheme \<Rightarrow> (LInstruction, 'b) load_result" where
  "LoadLArithmeticD l = do {
     (left, l) \<leftarrow> ConditionallyLoadLOperand l;
     (right, l) \<leftarrow> ConditionallyLoadLOperand l;
     (op, l) \<leftarrow> LoadPrimitive l;
     Some (LArithmeticD op left right, l)
   }"

definition LoadLArithmeticT :: "'b loader_base_scheme \<Rightarrow> (LInstruction, 'b) load_result" where
  "LoadLArithmeticT l = do {
     (context, l) \<leftarrow> ConditionallyLoadLOperand l;
     (left, l) \<leftarrow> ConditionallyLoadLOperand l;
     (right, l) \<leftarrow> ConditionallyLoadLOperand l;
     (op, l) \<leftarrow> LoadPrimitive l;
     Some (LArithmeticT op context left right, l)
   }"

definition LoadLDivByConstI :: "'b loader_base_scheme \<Rightarrow> (LInstruction, 'b) load_result" where
  "LoadLDivByConstI l = do {
     (divident, l) \<leftarrow> ConditionallyLoadLOperand l;
     (temp1, l) \<leftarrow> ConditionallyLoadLOperand l;
     (temp2, l) \<leftarrow> ConditionallyLoadLOperand l;
     (divisor, l) \<leftarrow> LoadPrimitive l;
     Some (LDivByConstI divident divisor temp1 temp2, l)
   }"

definition LoadLDivByPowerOf2I :: "'b loader_base_scheme \<Rightarrow> (LInstruction, 'b) load_result" where
  "LoadLDivByPowerOf2I l = do {
     (divident, l) \<leftarrow> ConditionallyLoadLOperand l;
     (divisor, l) \<leftarrow> LoadPrimitive l;
     Some (LDivByPowerOf2I divident divisor, l)
   }"

definition LoadLDrop :: "'b loader_base_scheme \<Rightarrow> (LInstruction, 'b) load_result" where
  "LoadLDrop l = do {
     (count, l) \<leftarrow> LoadPrimitive l;
     Some (LDrop count, l)
   }"

definition LoadLFlooringDivByConstI :: "'b loader_base_scheme \<Rightarrow> (LInstruction, 'b) load_result" where
  "LoadLFlooringDivByConstI l = do {
     (divident, l) \<leftarrow> ConditionallyLoadLOperand l;
     (temp1, l) \<leftarrow> ConditionallyLoadLOperand l;
     (temp2, l) \<leftarrow> ConditionallyLoadLOperand l;
     (temp3, l) \<leftarrow> ConditionallyLoadLOperand l;
     (divisor, l) \<leftarrow> LoadPrimitive l;
     Some (LFlooringDivByConstI divident divisor temp1 temp2 temp3, l)
   }"

definition LoadLFlooringDivByPowerOf2I :: "'b loader_base_scheme \<Rightarrow> (LInstruction, 'b) load_result" where
  "LoadLFlooringDivByPowerOf2I l = do {
     (divident, l) \<leftarrow> ConditionallyLoadLOperand l;
     (divisor, l) \<leftarrow> LoadPrimitive l;
     Some (LFlooringDivByPowerOf2I divident divisor, l)
   }"

definition LoadLLazyBailout :: "'b loader_base_scheme \<Rightarrow> (LInstruction, 'b) load_result" where
  "LoadLLazyBailout l = Some (LLazyBailout, l)"

definition LoadLModByConstI :: "'b loader_base_scheme \<Rightarrow> (LInstruction, 'b) load_result" where
  "LoadLModByConstI l = do {
     (divident, l) \<leftarrow> ConditionallyLoadLOperand l;
     (temp1, l) \<leftarrow> ConditionallyLoadLOperand l;
     (temp2, l) \<leftarrow> ConditionallyLoadLOperand l;
     (divisor, l) \<leftarrow> LoadPrimitive l;
     Some (LModByConstI divident divisor temp1 temp2, l)
   }"

definition LoadLModByPowerOf2I :: "'b loader_base_scheme \<Rightarrow> (LInstruction, 'b) load_result" where
  "LoadLModByPowerOf2I l = do {
     (divident, l) \<leftarrow> ConditionallyLoadLOperand l;
     (divisor, l) \<leftarrow> LoadPrimitive l;
     Some (LModByPowerOf2I divident divisor, l)
   }"

definition LoadLShiftI :: "'b loader_base_scheme \<Rightarrow> (LInstruction, 'b) load_result" where
  "LoadLShiftI l = do {
     (left, l) \<leftarrow> ConditionallyLoadLOperand l;
     (right, l) \<leftarrow> ConditionallyLoadLOperand l;
     (op, l) \<leftarrow> LoadPrimitive l;
     (can_deopt, l) \<leftarrow> LoadBool l;
     Some (LShiftI op left right can_deopt, l)
   }"

definition LoadLSmiUntag :: "'b loader_base_scheme \<Rightarrow> (LInstruction, 'b) load_result" where
  "LoadLSmiUntag l = do {
     (value, l) \<leftarrow> ConditionallyLoadLOperand l;
     (needs_check, l) \<leftarrow> LoadPrimitive_bool l;
     Some (LSmiUntag value needs_check, l)
   }"

section \<open>Loading instructions with operands only\<close>

definition LoadLAccessArgumentsAt :: "'b loader_base_scheme \<Rightarrow> (LInstruction, 'b) load_result" where
  "LoadLAccessArgumentsAt l = do {
     (arguments, l) \<leftarrow> ConditionallyLoadLOperand l;
     (len, l) \<leftarrow> ConditionallyLoadLOperand l;
     (index, l) \<leftarrow> ConditionallyLoadLOperand l;
     Some (LAccessArgumentsAt arguments len index, l)
   }"

definition LoadLAddI :: "'b loader_base_scheme \<Rightarrow> (LInstruction, 'b) load_result" where
  "LoadLAddI l = do {
     (left, l) \<leftarrow> ConditionallyLoadLOperand l;
     (right, l) \<leftarrow> ConditionallyLoadLOperand l;
     Some (LAddI left right, l)
   }"

definition LoadLAllocate :: "'b loader_base_scheme \<Rightarrow> (LInstruction, 'b) load_result" where
  "LoadLAllocate l = do {
     (context, l) \<leftarrow> ConditionallyLoadLOperand l;
     (object_size, l) \<leftarrow> ConditionallyLoadLOperand l;
     (temp, l) \<leftarrow> ConditionallyLoadLOperand l;
     Some (LAllocate context object_size temp, l)
   }"

definition LoadLApplyArguments :: "'b loader_base_scheme \<Rightarrow> (LInstruction, 'b) load_result" where
  "LoadLApplyArguments l = do {
     (func, l) \<leftarrow> ConditionallyLoadLOperand l;
     (receiver, l) \<leftarrow> ConditionallyLoadLOperand l;
     (len, l) \<leftarrow> ConditionallyLoadLOperand l;
     (elems, l) \<leftarrow> ConditionallyLoadLOperand l;
     Some (LApplyArguments func receiver len elems, l)
   }"

definition LoadLArgumentsElements :: "'b loader_base_scheme \<Rightarrow> (LInstruction, 'b) load_result" where
  "LoadLArgumentsElements l = do {
     l \<leftarrow> Some (MarkAsRequiresFrame l);
     Some (LArgumentsElements, l)
   }"

definition LoadLArgumentsLength :: "'b loader_base_scheme \<Rightarrow> (LInstruction, 'b) load_result" where
  "LoadLArgumentsLength l = do {
     (value, l) \<leftarrow> ConditionallyLoadLOperand l;
     Some (LArgumentsLength value, l)
   }"

definition LoadLBitI :: "'b loader_base_scheme \<Rightarrow> (LInstruction, 'b) load_result" where
  "LoadLBitI l = do {
     (left, l) \<leftarrow> ConditionallyLoadLOperand l;
     (right, l) \<leftarrow> ConditionallyLoadLOperand l;
     Some (LBitI left right, l)
   }"

definition LoadLBoundsCheck :: "'b loader_base_scheme \<Rightarrow> (LInstruction, 'b) load_result" where
  "LoadLBoundsCheck l = do {
     (index, l) \<leftarrow> ConditionallyLoadLOperand l;
     (len, l) \<leftarrow> ConditionallyLoadLOperand l;
     Some (LBoundsCheck index len, l)
   }"

definition LoadLBranch :: "'b loader_base_scheme \<Rightarrow> (LInstruction, 'b) load_result" where
  "LoadLBranch l = do {
     (value, l) \<leftarrow> ConditionallyLoadLOperand l;
     Some (LBranch value, l)
   }"

definition LoadLCallJSFunction :: "'b loader_base_scheme \<Rightarrow> (LInstruction, 'b) load_result" where
  "LoadLCallJSFunction l = do {
     (func, l) \<leftarrow> ConditionallyLoadLOperand l;
     Some (LCallJSFunction func, l)
   }"

definition LoadLCallFunction :: "'b loader_base_scheme \<Rightarrow> (LInstruction, 'b) load_result" where
  "LoadLCallFunction l = do {
     (context, l) \<leftarrow> ConditionallyLoadLOperand l;
     (func, l) \<leftarrow> ConditionallyLoadLOperand l;
     Some (LCallFunction context func, l)
   }"

definition LoadLCallNew :: "'b loader_base_scheme \<Rightarrow> (LInstruction, 'b) load_result" where
  "LoadLCallNew l = do {
     (context, l) \<leftarrow> ConditionallyLoadLOperand l;
     (constructor, l) \<leftarrow> ConditionallyLoadLOperand l;
     Some (LCallNew context constructor, l)
   }"

definition LoadLCallNewArray :: "'b loader_base_scheme \<Rightarrow> (LInstruction, 'b) load_result" where
  "LoadLCallNewArray l = do {
     (context, l) \<leftarrow> ConditionallyLoadLOperand l;
     (constructor, l) \<leftarrow> ConditionallyLoadLOperand l;
     Some (LCallNewArray context constructor, l)
   }"

definition LoadLCallRuntime :: "'b loader_base_scheme \<Rightarrow> (LInstruction, 'b) load_result" where
  "LoadLCallRuntime l = do {
     (context, l) \<leftarrow> ConditionallyLoadLOperand l;
     Some (LCallRuntime context, l)
   }"

definition LoadLCheckInstanceType :: "'b loader_base_scheme \<Rightarrow> (LInstruction, 'b) load_result" where
  "LoadLCheckInstanceType l = do {
     (value, l) \<leftarrow> ConditionallyLoadLOperand l;
     Some (LCheckInstanceType value, l)
   }"

definition LoadLCheckMaps :: "'b loader_base_scheme \<Rightarrow> (LInstruction, 'b) load_result" where
  "LoadLCheckMaps l = do {
     (value, l) \<leftarrow> ConditionallyLoadLOperand l;
     Some (LCheckMaps value, l)
   }"

definition LoadLCheckMapValue :: "'b loader_base_scheme \<Rightarrow> (LInstruction, 'b) load_result" where
  "LoadLCheckMapValue l = do {
     (value, l) \<leftarrow> ConditionallyLoadLOperand l;
     (object_map, l) \<leftarrow> ConditionallyLoadLOperand l;
     Some (LCheckMapValue value object_map, l)
   }"

definition LoadLCheckNonSmi :: "'b loader_base_scheme \<Rightarrow> (LInstruction, 'b) load_result" where
  "LoadLCheckNonSmi l = do {
     (value, l) \<leftarrow> ConditionallyLoadLOperand l;
     Some (LCheckNonSmi value, l)
   }"

definition LoadLCheckSmi :: "'b loader_base_scheme \<Rightarrow> (LInstruction, 'b) load_result" where
  "LoadLCheckSmi l = do {
     (value, l) \<leftarrow> ConditionallyLoadLOperand l;
     Some (LCheckSmi value, l)
   }"

definition LoadLCheckValue :: "'b loader_base_scheme \<Rightarrow> (LInstruction, 'b) load_result" where
  "LoadLCheckValue l = do {
     (value, l) \<leftarrow> ConditionallyLoadLOperand l;
     Some (LCheckValue value, l)
   }"

definition LoadLClassOfTestAndBranch :: "'b loader_base_scheme \<Rightarrow> (LInstruction, 'b) load_result" where
  "LoadLClassOfTestAndBranch l = do {
     (value, l) \<leftarrow> ConditionallyLoadLOperand l;
     (temp, l) \<leftarrow> ConditionallyLoadLOperand l;
     (temp2, l) \<leftarrow> ConditionallyLoadLOperand l;
     Some (LClassOfTestAndBranch value temp temp2, l)
   }"

definition LoadLCompareMinusZeroAndBranch :: "'b loader_base_scheme \<Rightarrow> (LInstruction, 'b) load_result" where
  "LoadLCompareMinusZeroAndBranch l = do {
     (value, l) \<leftarrow> ConditionallyLoadLOperand l;
     Some (LCompareMinusZeroAndBranch value, l)
   }"

definition LoadLCompareNumericAndBranch :: "'b loader_base_scheme \<Rightarrow> (LInstruction, 'b) load_result" where
  "LoadLCompareNumericAndBranch l = do {
     (left, l) \<leftarrow> ConditionallyLoadLOperand l;
     (right, l) \<leftarrow> ConditionallyLoadLOperand l;
     Some (LCompareNumericAndBranch left right, l)
   }"

definition LoadLCmpObjectEqAndBranch :: "'b loader_base_scheme \<Rightarrow> (LInstruction, 'b) load_result" where
  "LoadLCmpObjectEqAndBranch l = do {
     (left, l) \<leftarrow> ConditionallyLoadLOperand l;
     (right, l) \<leftarrow> ConditionallyLoadLOperand l;
     Some (LCmpObjectEqAndBranch left right, l)
   }"

definition LoadLCmpHoleAndBranch :: "'b loader_base_scheme \<Rightarrow> (LInstruction, 'b) load_result" where
  "LoadLCmpHoleAndBranch l = do {
     (object, l) \<leftarrow> ConditionallyLoadLOperand l;
     Some (LCmpHoleAndBranch object, l)
   }"

definition LoadLCmpMapAndBranch :: "'b loader_base_scheme \<Rightarrow> (LInstruction, 'b) load_result" where
  "LoadLCmpMapAndBranch l = do {
     (value, l) \<leftarrow> ConditionallyLoadLOperand l;
     Some (LCmpMapAndBranch value, l)
   }"

definition LoadLCmpT :: "'b loader_base_scheme \<Rightarrow> (LInstruction, 'b) load_result" where
  "LoadLCmpT l = do {
     (context, l) \<leftarrow> ConditionallyLoadLOperand l;
     (left, l) \<leftarrow> ConditionallyLoadLOperand l;
     (right, l) \<leftarrow> ConditionallyLoadLOperand l;
     Some (LCmpT context left right, l)
   }"

definition LoadLConstantD :: "'b loader_base_scheme \<Rightarrow> (LInstruction, 'b) load_result" where
  "LoadLConstantD l = do {
     (temp, l) \<leftarrow> ConditionallyLoadLOperand l;
     Some (LConstantD temp, l)
   }"

definition LoadLConstantE :: "'b loader_base_scheme \<Rightarrow> (LInstruction, 'b) load_result" where
  "LoadLConstantE l = Some (LConstantE, l)"

definition LoadLConstantI :: "'b loader_base_scheme \<Rightarrow> (LInstruction, 'b) load_result" where
  "LoadLConstantI l = Some (LConstantI, l)"

definition LoadLConstantS :: "'b loader_base_scheme \<Rightarrow> (LInstruction, 'b) load_result" where
  "LoadLConstantS l = Some (LConstantS, l)"

definition LoadLConstantT :: "'b loader_base_scheme \<Rightarrow> (LInstruction, 'b) load_result" where
  "LoadLConstantT l = Some (LConstantT, l)"

definition LoadLConstructDouble :: "'b loader_base_scheme \<Rightarrow> (LInstruction, 'b) load_result" where
  "LoadLConstructDouble l = do {
     (hi, l) \<leftarrow> ConditionallyLoadLOperand l;
     (lo, l) \<leftarrow> ConditionallyLoadLOperand l;
     Some (LConstructDouble hi lo, l)
   }"

definition LoadLContext :: "'b loader_base_scheme \<Rightarrow> (LInstruction, 'b) load_result" where
  "LoadLContext l = Some (LContext, l)"

definition LoadLDeclareGlobals :: "'b loader_base_scheme \<Rightarrow> (LInstruction, 'b) load_result" where
  "LoadLDeclareGlobals l = do {
     (context, l) \<leftarrow> ConditionallyLoadLOperand l;
     Some (LDeclareGlobals context, l)
   }"

definition LoadLDeoptimize :: "'b loader_base_scheme \<Rightarrow> (LInstruction, 'b) load_result" where
  "LoadLDeoptimize l = Some (LDeoptimize, l)"

definition LoadLDivI :: "'b loader_base_scheme \<Rightarrow> (LInstruction, 'b) load_result" where
  "LoadLDivI l = do {
     (divident, l) \<leftarrow> ConditionallyLoadLOperand l;
     (divisor, l) \<leftarrow> ConditionallyLoadLOperand l;
     (temp, l) \<leftarrow> ConditionallyLoadLOperand l;
     Some (LDivI divident divisor temp, l)
   }"

definition LoadLDoubleBits :: "'b loader_base_scheme \<Rightarrow> (LInstruction, 'b) load_result" where
  "LoadLDoubleBits l = do {
     (value, l) \<leftarrow> ConditionallyLoadLOperand l;
     Some (LDoubleBits value, l)
   }"

definition LoadLDoubleToI :: "'b loader_base_scheme \<Rightarrow> (LInstruction, 'b) load_result" where
  "LoadLDoubleToI l = do {
     (value, l) \<leftarrow> ConditionallyLoadLOperand l;
     Some (LDoubleToI value, l)
   }"

definition LoadLDoubleToSmi :: "'b loader_base_scheme \<Rightarrow> (LInstruction, 'b) load_result" where
  "LoadLDoubleToSmi l = do {
     (value, l) \<leftarrow> ConditionallyLoadLOperand l;
     Some (LDoubleToSmi value, l)
   }"

definition LoadLDummyUse :: "'b loader_base_scheme \<Rightarrow> (LInstruction, 'b) load_result" where
  "LoadLDummyUse l = do {
     (value, l) \<leftarrow> ConditionallyLoadLOperand l;
     Some (LDummyUse value, l)
   }"

definition LoadLDummy :: "'b loader_base_scheme \<Rightarrow> (LInstruction, 'b) load_result" where
  "LoadLDummy l = Some (LDummy, l)"

definition LoadLFlooringDivI :: "'b loader_base_scheme \<Rightarrow> (LInstruction, 'b) load_result" where
  "LoadLFlooringDivI l = do {
     (divident, l) \<leftarrow> ConditionallyLoadLOperand l;
     (divisor, l) \<leftarrow> ConditionallyLoadLOperand l;
     (temp, l) \<leftarrow> ConditionallyLoadLOperand l;
     Some (LFlooringDivI divident divisor temp, l)
   }"

definition LoadLForInCacheArray :: "'b loader_base_scheme \<Rightarrow> (LInstruction, 'b) load_result" where
  "LoadLForInCacheArray l = do {
     (object_map, l) \<leftarrow> ConditionallyLoadLOperand l;
     Some (LForInCacheArray object_map, l)
   }"

definition LoadLForInPrepareMap :: "'b loader_base_scheme \<Rightarrow> (LInstruction, 'b) load_result" where
  "LoadLForInPrepareMap l = do {
     (context, l) \<leftarrow> ConditionallyLoadLOperand l;
     (object, l) \<leftarrow> ConditionallyLoadLOperand l;
     Some (LForInPrepareMap context object, l)
   }"

definition LoadLFunctionLiteral :: "'b loader_base_scheme \<Rightarrow> (LInstruction, 'b) load_result" where
  "LoadLFunctionLiteral l = do {
     (context, l) \<leftarrow> ConditionallyLoadLOperand l;
     Some (LFunctionLiteral context, l)
   }"

definition LoadLHasCachedArrayIndexAndBranch :: "'b loader_base_scheme \<Rightarrow> (LInstruction, 'b) load_result" where
  "LoadLHasCachedArrayIndexAndBranch l = do {
     (value, l) \<leftarrow> ConditionallyLoadLOperand l;
     Some (LHasCachedArrayIndexAndBranch value, l)
   }"

definition LoadLHasInstanceTypeAndBranch :: "'b loader_base_scheme \<Rightarrow> (LInstruction, 'b) load_result" where
  "LoadLHasInstanceTypeAndBranch l = do {
     (value, l) \<leftarrow> ConditionallyLoadLOperand l;
     Some (LHasInstanceTypeAndBranch value, l)
   }"

definition LoadLInnerAllocatedObject :: "'b loader_base_scheme \<Rightarrow> (LInstruction, 'b) load_result" where
  "LoadLInnerAllocatedObject l = do {
     (base_object, l) \<leftarrow> ConditionallyLoadLOperand l;
     (offset, l) \<leftarrow> ConditionallyLoadLOperand l;
     Some (LInnerAllocatedObject base_object offset, l)
   }"

definition LoadLInstanceOf :: "'b loader_base_scheme \<Rightarrow> (LInstruction, 'b) load_result" where
  "LoadLInstanceOf l = do {
     (context, l) \<leftarrow> ConditionallyLoadLOperand l;
     (left, l) \<leftarrow> ConditionallyLoadLOperand l;
     (right, l) \<leftarrow> ConditionallyLoadLOperand l;
     Some (LInstanceOf context left right, l)
   }"

definition LoadLInteger32ToDouble :: "'b loader_base_scheme \<Rightarrow> (LInstruction, 'b) load_result" where
  "LoadLInteger32ToDouble l = do {
     (value, l) \<leftarrow> ConditionallyLoadLOperand l;
     Some (LInteger32ToDouble value, l)
   }"

definition LoadLInvokeFunction :: "'b loader_base_scheme \<Rightarrow> (LInstruction, 'b) load_result" where
  "LoadLInvokeFunction l = do {
     (context, l) \<leftarrow> ConditionallyLoadLOperand l;
     (func, l) \<leftarrow> ConditionallyLoadLOperand l;
     Some (LInvokeFunction context func, l)
   }"

definition LoadLIsConstructCallAndBranch :: "'b loader_base_scheme \<Rightarrow> (LInstruction, 'b) load_result" where
  "LoadLIsConstructCallAndBranch l = do {
     (temp, l) \<leftarrow> ConditionallyLoadLOperand l;
     Some (LIsConstructCallAndBranch temp, l)
   }"

definition LoadLIsObjectAndBranch :: "'b loader_base_scheme \<Rightarrow> (LInstruction, 'b) load_result" where
  "LoadLIsObjectAndBranch l = do {
     (value, l) \<leftarrow> ConditionallyLoadLOperand l;
     Some (LIsObjectAndBranch value, l)
   }"

definition LoadLIsStringAndBranch :: "'b loader_base_scheme \<Rightarrow> (LInstruction, 'b) load_result" where
  "LoadLIsStringAndBranch l = do {
     (value, l) \<leftarrow> ConditionallyLoadLOperand l;
     (temp, l) \<leftarrow> ConditionallyLoadLOperand l;
     Some (LIsStringAndBranch value temp, l)
   }"

definition LoadLIsSmiAndBranch :: "'b loader_base_scheme \<Rightarrow> (LInstruction, 'b) load_result" where
  "LoadLIsSmiAndBranch l = do {
     (value, l) \<leftarrow> ConditionallyLoadLOperand l;
     Some (LIsSmiAndBranch value, l)
   }"

definition LoadLIsUndetectableAndBranch :: "'b loader_base_scheme \<Rightarrow> (LInstruction, 'b) load_result" where
  "LoadLIsUndetectableAndBranch l = do {
     (value, l) \<leftarrow> ConditionallyLoadLOperand l;
     (temp, l) \<leftarrow> ConditionallyLoadLOperand l;
     Some (LIsUndetectableAndBranch value temp, l)
   }"

definition LoadLLoadContextSlot :: "'b loader_base_scheme \<Rightarrow> (LInstruction, 'b) load_result" where
  "LoadLLoadContextSlot l = do {
     (context, l) \<leftarrow> ConditionallyLoadLOperand l;
     Some (LLoadContextSlot context, l)
   }"

definition LoadLLoadRoot :: "'b loader_base_scheme \<Rightarrow> (LInstruction, 'b) load_result" where
  "LoadLLoadRoot l = Some (LLoadRoot, l)"

definition LoadLLoadFieldByIndex :: "'b loader_base_scheme \<Rightarrow> (LInstruction, 'b) load_result" where
  "LoadLLoadFieldByIndex l = do {
     (object, l) \<leftarrow> ConditionallyLoadLOperand l;
     (index, l) \<leftarrow> ConditionallyLoadLOperand l;
     Some (LLoadFieldByIndex object index, l)
   }"

definition LoadLLoadFunctionPrototype :: "'b loader_base_scheme \<Rightarrow> (LInstruction, 'b) load_result" where
  "LoadLLoadFunctionPrototype l = do {
     (func, l) \<leftarrow> ConditionallyLoadLOperand l;
     Some (LLoadFunctionPrototype func, l)
   }"

definition LoadLLoadGlobalCell :: "'b loader_base_scheme \<Rightarrow> (LInstruction, 'b) load_result" where
  "LoadLLoadGlobalCell l = Some (LLoadGlobalCell, l)"

definition LoadLLoadGlobalGeneric :: "'b loader_base_scheme \<Rightarrow> (LInstruction, 'b) load_result" where
  "LoadLLoadGlobalGeneric l = do {
     (context, l) \<leftarrow> ConditionallyLoadLOperand l;
     (global_object, l) \<leftarrow> ConditionallyLoadLOperand l;
     (vector, l) \<leftarrow> ConditionallyLoadLOperand l;
     Some (LLoadGlobalGeneric context global_object vector, l)
   }"

definition LoadLLoadKeyed :: "'b loader_base_scheme \<Rightarrow> (LInstruction, 'b) load_result" where
  "LoadLLoadKeyed l = do {
     (elems, l) \<leftarrow> ConditionallyLoadLOperand l;
     (key, l) \<leftarrow> ConditionallyLoadLOperand l;
     Some (LLoadKeyed elems key, l)
   }"

definition LoadLLoadKeyedGeneric :: "'b loader_base_scheme \<Rightarrow> (LInstruction, 'b) load_result" where
  "LoadLLoadKeyedGeneric l = do {
     (context, l) \<leftarrow> ConditionallyLoadLOperand l;
     (object, l) \<leftarrow> ConditionallyLoadLOperand l;
     (key, l) \<leftarrow> ConditionallyLoadLOperand l;
     (vector, l) \<leftarrow> ConditionallyLoadLOperand l;
     Some (LLoadKeyedGeneric context object key vector, l)
   }"

definition LoadLLoadNamedField :: "'b loader_base_scheme \<Rightarrow> (LInstruction, 'b) load_result" where
  "LoadLLoadNamedField l = do {
     (object, l) \<leftarrow> ConditionallyLoadLOperand l;
     Some (LLoadNamedField object, l)
   }"

definition LoadLLoadNamedGeneric :: "'b loader_base_scheme \<Rightarrow> (LInstruction, 'b) load_result" where
  "LoadLLoadNamedGeneric l = do {
     (context, l) \<leftarrow> ConditionallyLoadLOperand l;
     (object, l) \<leftarrow> ConditionallyLoadLOperand l;
     (vector, l) \<leftarrow> ConditionallyLoadLOperand l;
     Some (LLoadNamedGeneric context object vector, l)
   }"

definition LoadLMapEnumLength :: "'b loader_base_scheme \<Rightarrow> (LInstruction, 'b) load_result" where
  "LoadLMapEnumLength l = do {
     (value, l) \<leftarrow> ConditionallyLoadLOperand l;
     Some (LMapEnumLength value, l)
   }"

definition LoadLMathAbs :: "'b loader_base_scheme \<Rightarrow> (LInstruction, 'b) load_result" where
  "LoadLMathAbs l = do {
     (value, l) \<leftarrow> ConditionallyLoadLOperand l;
     (context, l) \<leftarrow> ConditionallyLoadLOperand l;
     Some (LMathAbs context value, l)
   }"

definition LoadLMathClz32 :: "'b loader_base_scheme \<Rightarrow> (LInstruction, 'b) load_result" where
  "LoadLMathClz32 l = do {
     (value, l) \<leftarrow> ConditionallyLoadLOperand l;
     Some (LMathClz32 value, l)
   }"

definition LoadLMathExp :: "'b loader_base_scheme \<Rightarrow> (LInstruction, 'b) load_result" where
  "LoadLMathExp l = do {
     (value, l) \<leftarrow> ConditionallyLoadLOperand l;
     (temp1, l) \<leftarrow> ConditionallyLoadLOperand l;
     (temp2, l) \<leftarrow> ConditionallyLoadLOperand l;
     Some (LMathExp value temp1 temp2, l)
   }"

definition LoadLMathFloor :: "'b loader_base_scheme \<Rightarrow> (LInstruction, 'b) load_result" where
  "LoadLMathFloor l = do {
     (value, l) \<leftarrow> ConditionallyLoadLOperand l;
     Some (LMathFloor value, l)
   }"

definition LoadLMathFround :: "'b loader_base_scheme \<Rightarrow> (LInstruction, 'b) load_result" where
  "LoadLMathFround l = do {
     (value, l) \<leftarrow> ConditionallyLoadLOperand l;
     Some (LMathFround value, l)
   }"

definition LoadLMathLog :: "'b loader_base_scheme \<Rightarrow> (LInstruction, 'b) load_result" where
  "LoadLMathLog l = do {
     (value, l) \<leftarrow> ConditionallyLoadLOperand l;
     Some (LMathLog value, l)
   }"

definition LoadLMathMinMax :: "'b loader_base_scheme \<Rightarrow> (LInstruction, 'b) load_result" where
  "LoadLMathMinMax l = do {
     (left, l) \<leftarrow> ConditionallyLoadLOperand l;
     (right, l) \<leftarrow> ConditionallyLoadLOperand l;
     Some (LMathMinMax left right, l)
   }"

definition LoadLMathPowHalf :: "'b loader_base_scheme \<Rightarrow> (LInstruction, 'b) load_result" where
  "LoadLMathPowHalf l = do {
     (value, l) \<leftarrow> ConditionallyLoadLOperand l;
     Some (LMathPowHalf value, l)
   }"

definition LoadLMathRound :: "'b loader_base_scheme \<Rightarrow> (LInstruction, 'b) load_result" where
  "LoadLMathRound l = do {
     (value, l) \<leftarrow> ConditionallyLoadLOperand l;
     (temp, l) \<leftarrow> ConditionallyLoadLOperand l;
     Some (LMathRound value temp, l)
   }"

definition LoadLMathSqrt :: "'b loader_base_scheme \<Rightarrow> (LInstruction, 'b) load_result" where
  "LoadLMathSqrt l = do {
     (value, l) \<leftarrow> ConditionallyLoadLOperand l;
     Some (LMathSqrt value, l)
   }"

definition LoadLModI :: "'b loader_base_scheme \<Rightarrow> (LInstruction, 'b) load_result" where
  "LoadLModI l = do {
     (left, l) \<leftarrow> ConditionallyLoadLOperand l;
     (right, l) \<leftarrow> ConditionallyLoadLOperand l;
     (temp, l) \<leftarrow> ConditionallyLoadLOperand l;
     Some (LModI left right temp, l)
   }"

definition LoadLMulI :: "'b loader_base_scheme \<Rightarrow> (LInstruction, 'b) load_result" where
  "LoadLMulI l = do {
     (left, l) \<leftarrow> ConditionallyLoadLOperand l;
     (right, l) \<leftarrow> ConditionallyLoadLOperand l;
     Some (LMulI left right, l)
   }"

definition LoadLNumberTagD :: "'b loader_base_scheme \<Rightarrow> (LInstruction, 'b) load_result" where
  "LoadLNumberTagD l = do {
     (value, l) \<leftarrow> ConditionallyLoadLOperand l;
     (temp, l) \<leftarrow> ConditionallyLoadLOperand l;
     Some (LNumberTagD value temp, l)
   }"

definition LoadLNumberTagI :: "'b loader_base_scheme \<Rightarrow> (LInstruction, 'b) load_result" where
  "LoadLNumberTagI l = do {
     (value, l) \<leftarrow> ConditionallyLoadLOperand l;
     (temp1, l) \<leftarrow> ConditionallyLoadLOperand l;
     (temp2, l) \<leftarrow> ConditionallyLoadLOperand l;
     Some (LNumberTagI value temp1 temp2, l)
   }"

definition LoadLNumberTagU :: "'b loader_base_scheme \<Rightarrow> (LInstruction, 'b) load_result" where
  "LoadLNumberTagU l = do {
     (value, l) \<leftarrow> ConditionallyLoadLOperand l;
     (temp1, l) \<leftarrow> ConditionallyLoadLOperand l;
     (temp2, l) \<leftarrow> ConditionallyLoadLOperand l;
     Some (LNumberTagU value temp1 temp2, l)
   }"

definition LoadLNumberUntagD :: "'b loader_base_scheme \<Rightarrow> (LInstruction, 'b) load_result" where
  "LoadLNumberUntagD l = do {
     (value, l) \<leftarrow> ConditionallyLoadLOperand l;
     Some (LNumberUntagD value, l)
   }"

definition LoadLOsrEntry :: "'b loader_base_scheme \<Rightarrow> (LInstruction, 'b) load_result" where
  "LoadLOsrEntry l = Some (LOsrEntry, l)"

definition LoadLParameter :: "'b loader_base_scheme \<Rightarrow> (LInstruction, 'b) load_result" where
  "LoadLParameter l = Some (LParameter, l)"

definition LoadLPower :: "'b loader_base_scheme \<Rightarrow> (LInstruction, 'b) load_result" where
  "LoadLPower l = do {
     (left, l) \<leftarrow> ConditionallyLoadLOperand l;
     (right, l) \<leftarrow> ConditionallyLoadLOperand l;
     Some (LPower left right, l)
   }"

definition LoadLPushArgument :: "'b loader_base_scheme \<Rightarrow> (LInstruction, 'b) load_result" where
  "LoadLPushArgument l = do {
     (value, l) \<leftarrow> ConditionallyLoadLOperand l;
     Some (LPushArgument value, l)
   }"

definition LoadLRegExpLiteral :: "'b loader_base_scheme \<Rightarrow> (LInstruction, 'b) load_result" where
  "LoadLRegExpLiteral l = do {
     (context, l) \<leftarrow> ConditionallyLoadLOperand l;
     Some (LRegExpLiteral context, l)
   }"

definition LoadLReturn :: "'b loader_base_scheme \<Rightarrow> (LInstruction, 'b) load_result" where
  "LoadLReturn l = do {
     (i1, l) \<leftarrow> ConditionallyLoadLOperand l;
     (i2, l) \<leftarrow> ConditionallyLoadLOperand l;
     (i3, l) \<leftarrow> ConditionallyLoadLOperand l;
     Some (LReturn i1 i2 i3, l)
   }"

definition LoadLSmiTag :: "'b loader_base_scheme \<Rightarrow> (LInstruction, 'b) load_result" where
  "LoadLSmiTag l = do {
     (value, l) \<leftarrow> ConditionallyLoadLOperand l;
     Some (LSmiTag value, l)
   }"

definition LoadLStackCheck :: "'b loader_base_scheme \<Rightarrow> (LInstruction, 'b) load_result" where
  "LoadLStackCheck l = do {
     l \<leftarrow> Some (MarkAsDeferredCalling l);
     (context, l) \<leftarrow> ConditionallyLoadLOperand l;
     Some (LStackCheck context, l)
   }"

definition LoadLStoreContextSlot :: "'b loader_base_scheme \<Rightarrow> (LInstruction, 'b) load_result" where
  "LoadLStoreContextSlot l = do {
     (context, l) \<leftarrow> ConditionallyLoadLOperand l;
     (value, l) \<leftarrow> ConditionallyLoadLOperand l;
     (temp, l) \<leftarrow> ConditionallyLoadLOperand l;
     Some (LStoreContextSlot context value temp, l)
   }"

definition LoadLStoreGlobalCell :: "'b loader_base_scheme \<Rightarrow> (LInstruction, 'b) load_result" where
  "LoadLStoreGlobalCell l = do {
     (value, l) \<leftarrow> ConditionallyLoadLOperand l;
     (temp, l) \<leftarrow> ConditionallyLoadLOperand l;
     Some (LStoreGlobalCell value temp, l)
   }"

definition LoadLStoreKeyed :: "'b loader_base_scheme \<Rightarrow> (LInstruction, 'b) load_result" where
  "LoadLStoreKeyed l = do {
     (object, l) \<leftarrow> ConditionallyLoadLOperand l;
     (key, l) \<leftarrow> ConditionallyLoadLOperand l;
     (value, l) \<leftarrow> ConditionallyLoadLOperand l;
     Some (LStoreKeyed object key value, l)
   }"

definition LoadLStoreKeyedGeneric :: "'b loader_base_scheme \<Rightarrow> (LInstruction, 'b) load_result" where
  "LoadLStoreKeyedGeneric l = do {
     (context, l) \<leftarrow> ConditionallyLoadLOperand l;
     (object, l) \<leftarrow> ConditionallyLoadLOperand l;
     (key, l) \<leftarrow> ConditionallyLoadLOperand l;
     (value, l) \<leftarrow> ConditionallyLoadLOperand l;
     Some (LStoreKeyedGeneric context object key value, l)
   }"

definition LoadLStoreNamedField :: "'b loader_base_scheme \<Rightarrow> (LInstruction, 'b) load_result" where
  "LoadLStoreNamedField l = do {
     (object, l) \<leftarrow> ConditionallyLoadLOperand l;
     (value, l) \<leftarrow> ConditionallyLoadLOperand l;
     (temp, l) \<leftarrow> ConditionallyLoadLOperand l;
     Some (LStoreNamedField object value temp, l)
   }"

definition LoadLStoreNamedGeneric :: "'b loader_base_scheme \<Rightarrow> (LInstruction, 'b) load_result" where
  "LoadLStoreNamedGeneric l = do {
     (context, l) \<leftarrow> ConditionallyLoadLOperand l;
     (object, l) \<leftarrow> ConditionallyLoadLOperand l;
     (value, l) \<leftarrow> ConditionallyLoadLOperand l;
     Some (LStoreNamedGeneric context object value, l)
   }"

definition LoadLStringAdd :: "'b loader_base_scheme \<Rightarrow> (LInstruction, 'b) load_result" where
  "LoadLStringAdd l = do {
     (context, l) \<leftarrow> ConditionallyLoadLOperand l;
     (left, l) \<leftarrow> ConditionallyLoadLOperand l;
     (right, l) \<leftarrow> ConditionallyLoadLOperand l;
     Some (LStringAdd context left right, l)
   }"

definition LoadLStringCharCodeAt :: "'b loader_base_scheme \<Rightarrow> (LInstruction, 'b) load_result" where
  "LoadLStringCharCodeAt l = do {
     (context, l) \<leftarrow> ConditionallyLoadLOperand l;
     (str, l) \<leftarrow> ConditionallyLoadLOperand l;
     (index, l) \<leftarrow> ConditionallyLoadLOperand l;
     Some (LStringCharCodeAt context str index, l)
   }"

definition LoadLStringCharFromCode :: "'b loader_base_scheme \<Rightarrow> (LInstruction, 'b) load_result" where
  "LoadLStringCharFromCode l = do {
     (context, l) \<leftarrow> ConditionallyLoadLOperand l;
     (char_code, l) \<leftarrow> ConditionallyLoadLOperand l;
     Some (LStringCharFromCode context char_code, l)
   }"

definition LoadLStringCompareAndBranch :: "'b loader_base_scheme \<Rightarrow> (LInstruction, 'b) load_result" where
  "LoadLStringCompareAndBranch l = do {
     (context, l) \<leftarrow> ConditionallyLoadLOperand l;
     (left, l) \<leftarrow> ConditionallyLoadLOperand l;
     (right, l) \<leftarrow> ConditionallyLoadLOperand l;
     Some (LStringCompareAndBranch context left right, l)
   }"

definition LoadLSubI :: "'b loader_base_scheme \<Rightarrow> (LInstruction, 'b) load_result" where
  "LoadLSubI l = do {
     (left, l) \<leftarrow> ConditionallyLoadLOperand l;
     (right, l) \<leftarrow> ConditionallyLoadLOperand l;
     Some (LSubI left right, l)
   }"

definition LoadLTaggedToI :: "'b loader_base_scheme \<Rightarrow> (LInstruction, 'b) load_result" where
  "LoadLTaggedToI l = do {
     (input, l) \<leftarrow> ConditionallyLoadLOperand l;
     (temp, l) \<leftarrow> ConditionallyLoadLOperand l;
     Some (LTaggedToI input temp, l)
   }"

definition LoadLThisFunction :: "'b loader_base_scheme \<Rightarrow> (LInstruction, 'b) load_result" where
  "LoadLThisFunction l = Some (LThisFunction, l)"

definition LoadLToFastProperties :: "'b loader_base_scheme \<Rightarrow> (LInstruction, 'b) load_result" where
  "LoadLToFastProperties l = do {
     (value, l) \<leftarrow> ConditionallyLoadLOperand l;
     Some (LToFastProperties value, l)
   }"

definition LoadLTransitionElementsKind :: "'b loader_base_scheme \<Rightarrow> (LInstruction, 'b) load_result" where
  "LoadLTransitionElementsKind l = do {
     (object, l) \<leftarrow> ConditionallyLoadLOperand l;
     (context, l) \<leftarrow> ConditionallyLoadLOperand l;
     (new_map_temp, l) \<leftarrow> ConditionallyLoadLOperand l;
     (temp, l) \<leftarrow> ConditionallyLoadLOperand l;
     Some (LTransitionElementsKind object context new_map_temp temp, l)
   }"

definition LoadLTypeof :: "'b loader_base_scheme \<Rightarrow> (LInstruction, 'b) load_result" where
  "LoadLTypeof l = do {
     (context, l) \<leftarrow> ConditionallyLoadLOperand l;
     (value, l) \<leftarrow> ConditionallyLoadLOperand l;
     Some (LTypeof context value, l)
   }"

definition LoadLTypeofIsAndBranch :: "'b loader_base_scheme \<Rightarrow> (LInstruction, 'b) load_result" where
  "LoadLTypeofIsAndBranch l = do {
     (value, l) \<leftarrow> ConditionallyLoadLOperand l;
     Some (LTypeofIsAndBranch value, l)
   }"

definition LoadLUint32ToDouble :: "'b loader_base_scheme \<Rightarrow> (LInstruction, 'b) load_result" where
  "LoadLUint32ToDouble l = do {
     (value, l) \<leftarrow> ConditionallyLoadLOperand l;
     Some (LUint32ToDouble value, l)
   }"

definition LoadLUnknownOSRValue :: "'b loader_base_scheme \<Rightarrow> (LInstruction, 'b) load_result" where
  "LoadLUnknownOSRValue l = Some (LUnknownOSRValue, l)"

definition LoadLWrapReceiver :: "'b loader_base_scheme \<Rightarrow> (LInstruction, 'b) load_result" where
  "LoadLWrapReceiver l = do {
     (receiver, l) \<leftarrow> ConditionallyLoadLOperand l;
     (func, l) \<leftarrow> ConditionallyLoadLOperand l;
     Some (LWrapReceiver receiver func, l)
   }"

section \<open>Loading an instruction\<close>

text \<open>The cases of the switch; the functions of the classes that are yet to be implemented have no value.\<close>

definition instruction_loaders ::
  "'w world_scheme \<Rightarrow> (int32 \<Rightarrow> int32 option) \<Rightarrow>
   (Opcode \<times> ('b loader_base_scheme \<Rightarrow> (LInstruction, 'b) load_result)) list" where
  "instruction_loaders w block_at =
    [(kAccessArgumentsAt, LoadLAccessArgumentsAt),
     (kAddI, LoadLAddI),
     (kAllocate, LoadLAllocate),
     (kApplyArguments, LoadLApplyArguments),
     (kArgumentsElements, LoadLArgumentsElements),
     (kArgumentsLength, LoadLArgumentsLength),
     (kArithmeticD, LoadLArithmeticD),
     (kArithmeticT, LoadLArithmeticT),
     (kBitI, LoadLBitI),
     (kBoundsCheck, LoadLBoundsCheck),
     (kBranch, LoadLBranch),
     (kCallJSFunction, LoadLCallJSFunction),
     (kCallWithDescriptor, LoadLCallWithDescriptor),
     (kCallFunction, LoadLCallFunction),
     (kCallNew, LoadLCallNew),
     (kCallNewArray, LoadLCallNewArray),
     (kCallRuntime, LoadLCallRuntime),
     (kCheckInstanceType, LoadLCheckInstanceType),
     (kCheckMaps, LoadLCheckMaps),
     (kCheckMapValue, LoadLCheckMapValue),
     (kCheckNonSmi, LoadLCheckNonSmi),
     (kCheckSmi, LoadLCheckSmi),
     (kCheckValue, LoadLCheckValue),
     (kClassOfTestAndBranch, LoadLClassOfTestAndBranch),
     (kCompareMinusZeroAndBranch, LoadLCompareMinusZeroAndBranch),
     (kCompareNumericAndBranch, LoadLCompareNumericAndBranch),
     (kCmpObjectEqAndBranch, LoadLCmpObjectEqAndBranch),
     (kCmpHoleAndBranch, LoadLCmpHoleAndBranch),
     (kCmpMapAndBranch, LoadLCmpMapAndBranch),
     (kCmpT, LoadLCmpT),
     (kConstantD, LoadLConstantD),
     (kConstantE, LoadLConstantE),
     (kConstantI, LoadLConstantI),
     (kConstantS, LoadLConstantS),
     (kConstantT, LoadLConstantT),
     (kConstructDouble, LoadLConstructDouble),
     (Opcodes.kContext, LoadLContext),
     (kDeclareGlobals, LoadLDeclareGlobals),
     (kDeoptimize, LoadLDeoptimize),
     (kDivByConstI, LoadLDivByConstI),
     (kDivByPowerOf2I, LoadLDivByPowerOf2I),
     (kDivI, LoadLDivI),
     (kDoubleBits, LoadLDoubleBits),
     (kDoubleToI, LoadLDoubleToI),
     (kDoubleToSmi, LoadLDoubleToSmi),
     (kDrop, LoadLDrop),
     (kDummyUse, LoadLDummyUse),
     (kDummy, LoadLDummy),
     (kFlooringDivByConstI, LoadLFlooringDivByConstI),
     (kFlooringDivByPowerOf2I, LoadLFlooringDivByPowerOf2I),
     (kFlooringDivI, LoadLFlooringDivI),
     (kForInCacheArray, LoadLForInCacheArray),
     (kForInPrepareMap, LoadLForInPrepareMap),
     (kFunctionLiteral, LoadLFunctionLiteral),
     (kGoto, LoadLGoto block_at),
     (kHasCachedArrayIndexAndBranch, LoadLHasCachedArrayIndexAndBranch),
     (kHasInstanceTypeAndBranch, LoadLHasInstanceTypeAndBranch),
     (kInnerAllocatedObject, LoadLInnerAllocatedObject),
     (kInstanceOf, LoadLInstanceOf),
     (kInstanceOfKnownGlobal, LoadLInstanceOfKnownGlobal w),
     (kInstructionGap, LoadLInstructionGap block_at),
     (kInteger32ToDouble, LoadLInteger32ToDouble),
     (kInvokeFunction, LoadLInvokeFunction),
     (kIsConstructCallAndBranch, LoadLIsConstructCallAndBranch),
     (kIsObjectAndBranch, LoadLIsObjectAndBranch),
     (kIsStringAndBranch, LoadLIsStringAndBranch),
     (kIsSmiAndBranch, LoadLIsSmiAndBranch),
     (kIsUndetectableAndBranch, LoadLIsUndetectableAndBranch),
     (kLabel, LoadLLabel block_at),
     (kLazyBailout, LoadLLazyBailout),
     (kLoadContextSlot, LoadLLoadContextSlot),
     (kLoadRoot, LoadLLoadRoot),
     (kLoadFieldByIndex, LoadLLoadFieldByIndex),
     (kLoadFunctionPrototype, LoadLLoadFunctionPrototype),
     (kLoadGlobalCell, LoadLLoadGlobalCell),
     (kLoadGlobalGeneric, LoadLLoadGlobalGeneric),
     (kLoadKeyed, LoadLLoadKeyed),
     (kLoadKeyedGeneric, LoadLLoadKeyedGeneric),
     (kLoadNamedField, LoadLLoadNamedField),
     (kLoadNamedGeneric, LoadLLoadNamedGeneric),
     (kMapEnumLength, LoadLMapEnumLength),
     (kMathAbs, LoadLMathAbs),
     (kMathClz32, LoadLMathClz32),
     (kMathExp, LoadLMathExp),
     (kMathFloor, LoadLMathFloor),
     (kMathFround, LoadLMathFround),
     (kMathLog, LoadLMathLog),
     (kMathMinMax, LoadLMathMinMax),
     (kMathPowHalf, LoadLMathPowHalf),
     (kMathRound, LoadLMathRound),
     (kMathSqrt, LoadLMathSqrt),
     (kModByConstI, LoadLModByConstI),
     (kModByPowerOf2I, LoadLModByPowerOf2I),
     (kModI, LoadLModI),
     (kMulI, LoadLMulI),
     (kNumberTagD, LoadLNumberTagD),
     (kNumberTagI, LoadLNumberTagI),
     (kNumberTagU, LoadLNumberTagU),
     (kNumberUntagD, LoadLNumberUntagD),
     (kOsrEntry, LoadLOsrEntry),
     (kParameter, LoadLParameter),
     (kPower, LoadLPower),
     (kPushArgument, LoadLPushArgument),
     (kRegExpLiteral, LoadLRegExpLiteral),
     (kReturn, LoadLReturn),
     (kShiftI, LoadLShiftI),
     (kSmiTag, LoadLSmiTag),
     (kSmiUntag, LoadLSmiUntag),
     (kStackCheck, LoadLStackCheck),
     (kStoreContextSlot, LoadLStoreContextSlot),
     (kStoreGlobalCell, LoadLStoreGlobalCell),
     (kStoreKeyed, LoadLStoreKeyed),
     (kStoreKeyedGeneric, LoadLStoreKeyedGeneric),
     (kStoreNamedField, LoadLStoreNamedField),
     (kStoreNamedGeneric, LoadLStoreNamedGeneric),
     (kStringAdd, LoadLStringAdd),
     (kStringCharCodeAt, LoadLStringCharCodeAt),
     (kStringCharFromCode, LoadLStringCharFromCode),
     (kStringCompareAndBranch, LoadLStringCompareAndBranch),
     (kSubI, LoadLSubI),
     (kTaggedToI, LoadLTaggedToI),
     (kThisFunction, LoadLThisFunction),
     (kToFastProperties, LoadLToFastProperties),
     (kTransitionElementsKind, LoadLTransitionElementsKind),
     (kTypeof, LoadLTypeof),
     (kTypeofIsAndBranch, LoadLTypeofIsAndBranch),
     (kUint32ToDouble, LoadLUint32ToDouble),
     (kUnknownOSRValue, LoadLUnknownOSRValue),
     (kWrapReceiver, LoadLWrapReceiver)]"

definition LoadInstruction_environment ::
  "'w world_scheme \<Rightarrow> LInstruction \<Rightarrow> 'b loader_base_scheme \<Rightarrow> (LInstruction, 'b) load_result" where
  "LoadInstruction_environment w i l = do {
     (has_environment, l) \<leftarrow> LoadBool l;
     if has_environment then do {
       (env, l) \<leftarrow> LoadEnvironment w l;
       Some (i\<lparr>environment := env\<rparr>, l)
     } else Some (i, l)
   }"

definition LoadInstruction_pointer_map ::
  "LInstruction \<Rightarrow> 'b loader_base_scheme \<Rightarrow> (LInstruction, 'b) load_result" where
  "LoadInstruction_pointer_map i l = do {
     (has_pointer_map, l) \<leftarrow> LoadBool l;
     if has_pointer_map then do {
       (m, l) \<leftarrow> LoadPointerMap l;
       Some (i\<lparr>pointer_map := Some m\<rparr>, l)
     } else Some (i, l)
   }"

definition LoadInstruction ::
  "'w constant_world_scheme \<Rightarrow> (int32 \<Rightarrow> int32 option) \<Rightarrow> (int32 \<Rightarrow> hydrogen_shim option)
   \<Rightarrow> 'b loader_base_scheme \<Rightarrow> (LInstruction option, 'b) load_result" where
  "LoadInstruction w block_at GetValue l = do {
     (opcode, l) \<leftarrow> LoadPrimitive l;
     load \<leftarrow> map_of (instruction_loaders w block_at) (unat (opcode :: uint32));
     (i, l) \<leftarrow> load l;
     (shim, l) \<leftarrow> LoadHydrogenShim w GetValue (unat opcode) l;
     RETURN_VALUE_ON_FAIL None l (do {
       let i = i\<lparr>hydrogen_shim := shim\<rparr>;
       (i, l) \<leftarrow> LoadTemplateResultInstruction i l;
       (i, l) \<leftarrow> LoadInstruction_environment w i l;
       (i, l) \<leftarrow> LoadInstruction_pointer_map i l;
       Some (Some i, l)
     })
   }"

end
