(* ===== verification/InstructionClasses.thy ===== *)
theory InstructionClasses
  imports InstructionSaveload
begin

text \<open>
  The concrete classes in one table: the numbers of results, inputs and temporaries that the template
  arguments of a class give, and the kind of its members. All functions of
  \<open>InstructionSaveload\<close> for single classes are shown to be instances of one saver and one loader, so
  that the later theorems are about all classes at once.
\<close>

section \<open>The table of the classes\<close>

datatype member_kind =
    KNone | KFrame | KDeferred | KDivisor | KOperation | KShift | KNeedsCheck | KDrop | KGapSize
  | KGoto | KGap | KLabel | KLazyDeopt | KOperandList

definition class_table :: "(Opcode \<times> nat \<times> nat \<times> nat \<times> member_kind) list" where
  "class_table =
    [(kAccessArgumentsAt, 1, 3, 0, KNone),
     (kAddI, 1, 2, 0, KNone),
     (kAllocate, 1, 2, 1, KNone),
     (kApplyArguments, 1, 4, 0, KNone),
     (kArgumentsElements, 1, 0, 0, KFrame),
     (kArgumentsLength, 1, 1, 0, KNone),
     (kArithmeticD, 1, 2, 0, KOperation),
     (kArithmeticT, 1, 3, 0, KOperation),
     (kBitI, 1, 2, 0, KNone),
     (kBoundsCheck, 0, 2, 0, KNone),
     (kBranch, 0, 1, 0, KNone),
     (kCallJSFunction, 1, 1, 0, KNone),
     (kCallWithDescriptor, 1, 0, 0, KOperandList),
     (kCallFunction, 1, 2, 0, KNone),
     (kCallNew, 1, 2, 0, KNone),
     (kCallNewArray, 1, 2, 0, KNone),
     (kCallRuntime, 1, 1, 0, KNone),
     (kCheckInstanceType, 0, 1, 0, KNone),
     (kCheckMaps, 0, 1, 0, KNone),
     (kCheckMapValue, 0, 2, 0, KNone),
     (kCheckNonSmi, 0, 1, 0, KNone),
     (kCheckSmi, 1, 1, 0, KNone),
     (kCheckValue, 0, 1, 0, KNone),
     (kClassOfTestAndBranch, 0, 1, 2, KNone),
     (kCompareMinusZeroAndBranch, 0, 1, 0, KNone),
     (kCompareNumericAndBranch, 0, 2, 0, KNone),
     (kCmpObjectEqAndBranch, 0, 2, 0, KNone),
     (kCmpHoleAndBranch, 0, 1, 0, KNone),
     (kCmpMapAndBranch, 0, 1, 0, KNone),
     (kCmpT, 1, 3, 0, KNone),
     (kConstantD, 1, 0, 1, KNone),
     (kConstantE, 1, 0, 0, KNone),
     (kConstantI, 1, 0, 0, KNone),
     (kConstantS, 1, 0, 0, KNone),
     (kConstantT, 1, 0, 0, KNone),
     (kConstructDouble, 1, 2, 0, KNone),
     (Opcodes.kContext, 1, 0, 0, KNone),
     (kDeclareGlobals, 0, 1, 0, KNone),
     (kDeoptimize, 0, 0, 0, KNone),
     (kDivByConstI, 1, 1, 2, KDivisor),
     (kDivByPowerOf2I, 1, 1, 0, KDivisor),
     (kDivI, 1, 2, 1, KNone),
     (kDoubleBits, 1, 1, 0, KNone),
     (kDoubleToI, 1, 1, 0, KNone),
     (kDoubleToSmi, 1, 1, 0, KNone),
     (kDrop, 0, 0, 0, KDrop),
     (kDummyUse, 1, 1, 0, KNone),
     (kDummy, 1, 0, 0, KNone),
     (kFlooringDivByConstI, 1, 1, 3, KDivisor),
     (kFlooringDivByPowerOf2I, 1, 1, 0, KDivisor),
     (kFlooringDivI, 1, 2, 1, KNone),
     (kForInCacheArray, 1, 1, 0, KNone),
     (kForInPrepareMap, 1, 2, 0, KNone),
     (kFunctionLiteral, 1, 1, 0, KNone),
     (kGoto, 0, 0, 0, KGoto),
     (kHasCachedArrayIndexAndBranch, 0, 1, 0, KNone),
     (kHasInstanceTypeAndBranch, 0, 1, 0, KNone),
     (kInnerAllocatedObject, 1, 2, 0, KNone),
     (kInstanceOf, 1, 3, 0, KNone),
     (kInstanceOfKnownGlobal, 1, 2, 1, KLazyDeopt),
     (kInstructionGap, 0, 0, 0, KGap),
     (kInteger32ToDouble, 1, 1, 0, KNone),
     (kInvokeFunction, 1, 2, 0, KNone),
     (kIsConstructCallAndBranch, 0, 0, 1, KNone),
     (kIsObjectAndBranch, 0, 1, 0, KNone),
     (kIsStringAndBranch, 0, 1, 1, KNone),
     (kIsSmiAndBranch, 0, 1, 0, KNone),
     (kIsUndetectableAndBranch, 0, 1, 1, KNone),
     (kLabel, 0, 0, 0, KLabel),
     (kLazyBailout, 0, 0, 0, KGapSize),
     (kLoadContextSlot, 1, 1, 0, KNone),
     (kLoadRoot, 1, 0, 0, KNone),
     (kLoadFieldByIndex, 1, 2, 0, KNone),
     (kLoadFunctionPrototype, 1, 1, 0, KNone),
     (kLoadGlobalCell, 1, 0, 0, KNone),
     (kLoadGlobalGeneric, 1, 2, 1, KNone),
     (kLoadKeyed, 1, 2, 0, KNone),
     (kLoadKeyedGeneric, 1, 3, 1, KNone),
     (kLoadNamedField, 1, 1, 0, KNone),
     (kLoadNamedGeneric, 1, 2, 1, KNone),
     (kMapEnumLength, 1, 1, 0, KNone),
     (kMathAbs, 1, 2, 0, KNone),
     (kMathClz32, 1, 1, 0, KNone),
     (kMathExp, 1, 1, 2, KNone),
     (kMathFloor, 1, 1, 0, KNone),
     (kMathFround, 1, 1, 0, KNone),
     (kMathLog, 1, 1, 0, KNone),
     (kMathMinMax, 1, 2, 0, KNone),
     (kMathPowHalf, 1, 1, 0, KNone),
     (kMathRound, 1, 1, 1, KNone),
     (kMathSqrt, 1, 1, 0, KNone),
     (kModByConstI, 1, 1, 2, KDivisor),
     (kModByPowerOf2I, 1, 1, 0, KDivisor),
     (kModI, 1, 2, 1, KNone),
     (kMulI, 1, 2, 0, KNone),
     (kNumberTagD, 1, 1, 1, KNone),
     (kNumberTagI, 1, 1, 2, KNone),
     (kNumberTagU, 1, 1, 2, KNone),
     (kNumberUntagD, 1, 1, 0, KNone),
     (kOsrEntry, 0, 0, 0, KNone),
     (kParameter, 1, 0, 0, KNone),
     (kPower, 1, 2, 0, KNone),
     (kPushArgument, 0, 1, 0, KNone),
     (kRegExpLiteral, 1, 1, 0, KNone),
     (kReturn, 0, 3, 0, KNone),
     (kShiftI, 1, 2, 0, KShift),
     (kSmiTag, 1, 1, 0, KNone),
     (kSmiUntag, 1, 1, 0, KNeedsCheck),
     (kStackCheck, 0, 1, 0, KDeferred),
     (kStoreContextSlot, 0, 2, 1, KNone),
     (kStoreGlobalCell, 0, 1, 1, KNone),
     (kStoreKeyed, 0, 3, 0, KNone),
     (kStoreKeyedGeneric, 0, 4, 0, KNone),
     (kStoreNamedField, 0, 2, 1, KNone),
     (kStoreNamedGeneric, 0, 3, 0, KNone),
     (kStringAdd, 1, 3, 0, KNone),
     (kStringCharCodeAt, 1, 3, 0, KNone),
     (kStringCharFromCode, 1, 2, 0, KNone),
     (kStringCompareAndBranch, 0, 3, 0, KNone),
     (kSubI, 1, 2, 0, KNone),
     (kTaggedToI, 1, 1, 1, KNone),
     (kThisFunction, 1, 0, 0, KNone),
     (kToFastProperties, 1, 1, 0, KNone),
     (kTransitionElementsKind, 0, 2, 2, KNone),
     (kTypeof, 1, 2, 0, KNone),
     (kTypeofIsAndBranch, 0, 1, 0, KNone),
     (kUint32ToDouble, 1, 1, 0, KNone),
     (kUnknownOSRValue, 1, 0, 0, KNone),
     (kWrapReceiver, 1, 2, 0, KNone)]"

section \<open>One saver and one loader for all classes\<close>

definition save_members :: "'w world_scheme \<Rightarrow> member_kind \<Rightarrow> LInstruction \<Rightarrow> 'a sv" where
  "save_members w k i =
     (case k of
        KNone \<Rightarrow> Some | KFrame \<Rightarrow> Some | KDeferred \<Rightarrow> Some | KGapSize \<Rightarrow> Some
      | KDivisor \<Rightarrow> (case members i of Divisor d \<Rightarrow> SavePrimitive d | _ \<Rightarrow> (\<lambda>s. None))
      | KOperation \<Rightarrow> (case members i of Operation op \<Rightarrow> SavePrimitive op | _ \<Rightarrow> (\<lambda>s. None))
      | KShift \<Rightarrow> SaveLShiftI i
      | KNeedsCheck \<Rightarrow> SaveLSmiUntag i
      | KDrop \<Rightarrow> SaveLDrop i
      | KGoto \<Rightarrow> SaveLGoto i
      | KGap \<Rightarrow> SaveLGap i
      | KLabel \<Rightarrow> SaveLGap i
      | KLazyDeopt \<Rightarrow> SaveLInstanceOfKnownGlobal w i
      | KOperandList \<Rightarrow> SaveLCallWithDescriptor i)"

definition load_moves :: "'b loader_base_scheme \<Rightarrow> (LParallelMove option list, 'b) load_result" where
  "load_moves l = load_each LoadParallelMove inner_positions l"

definition load_members ::
  "'w world_scheme \<Rightarrow> (int32 \<Rightarrow> int32 option) \<Rightarrow> member_kind \<Rightarrow> 'b loader_base_scheme
   \<Rightarrow> (own_members, 'b) load_result" where
  "load_members w block_at k l =
     (case k of
        KDivisor \<Rightarrow> do { (d, l) \<leftarrow> LoadPrimitive l; Some (Divisor d, l) }
      | KOperation \<Rightarrow> do { (op, l) \<leftarrow> LoadPrimitive l; Some (Operation op, l) }
      | KShift \<Rightarrow> do { (op, l) \<leftarrow> LoadPrimitive l; (b, l) \<leftarrow> LoadBool l; Some (Shift op b, l) }
      | KNeedsCheck \<Rightarrow> do { (b, l) \<leftarrow> LoadPrimitive_bool l; Some (NeedsCheck b, l) }
      | KDrop \<Rightarrow> do { (n, l) \<leftarrow> LoadPrimitive l; Some (DropCount n, l) }
      | KGapSize \<Rightarrow> Some (GapInstructionsSize 0, l)
      | KGoto \<Rightarrow> do { (i, l) \<leftarrow> LoadPrimitive l; b \<leftarrow> block_at i; Some (GotoBlock b, l) }
      | KGap \<Rightarrow> do { (i, l) \<leftarrow> LoadPrimitive l; b \<leftarrow> block_at i; (ms, l) \<leftarrow> load_moves l; Some (Gap b ms, l) }
      | KLabel \<Rightarrow> do { (i, l) \<leftarrow> LoadPrimitive l; b \<leftarrow> block_at i; (ms, l) \<leftarrow> load_moves l;
          Some (LabelMembers b ms None, l) }
      | KLazyDeopt \<Rightarrow> do { (env, l) \<leftarrow> LoadEnvironment w l; Some (LazyDeoptEnv env, l) }
      | _ \<Rightarrow> Some (NoMembers, l))"

definition class_mark :: "member_kind \<Rightarrow> 'b loader_base_scheme \<Rightarrow> 'b loader_base_scheme" where
  "class_mark k l =
     (case k of KFrame \<Rightarrow> MarkAsRequiresFrame l | KDeferred \<Rightarrow> MarkAsDeferredCalling l | _ \<Rightarrow> l)"

definition class_loader ::
  "'w world_scheme \<Rightarrow> (int32 \<Rightarrow> int32 option) \<Rightarrow> Opcode \<Rightarrow> nat \<Rightarrow> nat \<Rightarrow> nat \<Rightarrow> member_kind
   \<Rightarrow> 'b loader_base_scheme \<Rightarrow> (LInstruction, 'b) load_result" where
  "class_loader w block_at op R I T k =
     (if k = KOperandList then LoadLCallWithDescriptor
      else (\<lambda>l. do {
        (operands, l) \<leftarrow> load_each ConditionallyLoadLOperand (I + T) (class_mark k l);
        (own, l) \<leftarrow> load_members w block_at k l;
        Some (template_instruction op R (take I operands) (drop I operands) own, l)
      }))"

text \<open>How a loader of one class is compared: the loop over the operands is unrolled.\<close>

lemmas loader_simps = class_loader_def fun_eq_iff load_members_def class_mark_def split_def
  eval_nat_numeral Option.bind_assoc

text \<open>Setting the moves of a gap one by one.\<close>

lemma SetParallelMoves_gap:
  "SetParallelMoves BEFORE [a, b, c, d] (LInstructionGap block) =
     template_instruction kInstructionGap 0 [] [] (Gap block [a, b, c, d])"
  "SetParallelMoves BEFORE [a, b, c, d] (LLabel block) =
     template_instruction kLabel 0 [] [] (LabelMembers block [a, b, c, d] None)"
  by (cases a; cases b; cases c; cases d;
      simp add: LInstructionGap_def LLabel_def SetParallelMove_def template_instruction_def numeral_eq_Suc)+

lemma load_gap:
  "LoadLInstructionGap block_at = class_loader w block_at kInstructionGap 0 0 0 KGap"
  "LoadLLabel block_at = class_loader w block_at kLabel 0 0 0 KLabel"
  by (simp_all add: loader_simps LoadLInstructionGap_def LoadLLabel_def LoadLGap_def load_moves_def
      SetParallelMoves_gap [simplified])

lemma load_with_members:
  "LoadLArgumentsElements = class_loader w block_at kArgumentsElements 1 0 0 KFrame"
  "LoadLArithmeticD = class_loader w block_at kArithmeticD 1 2 0 KOperation"
  "LoadLArithmeticT = class_loader w block_at kArithmeticT 1 3 0 KOperation"
  "LoadLCallWithDescriptor = class_loader w block_at kCallWithDescriptor 1 0 0 KOperandList"
  "LoadLDivByConstI = class_loader w block_at kDivByConstI 1 1 2 KDivisor"
  "LoadLDivByPowerOf2I = class_loader w block_at kDivByPowerOf2I 1 1 0 KDivisor"
  "LoadLDrop = class_loader w block_at kDrop 0 0 0 KDrop"
  "LoadLFlooringDivByConstI = class_loader w block_at kFlooringDivByConstI 1 1 3 KDivisor"
  "LoadLFlooringDivByPowerOf2I = class_loader w block_at kFlooringDivByPowerOf2I 1 1 0 KDivisor"
  "LoadLGoto block_at = class_loader w block_at kGoto 0 0 0 KGoto"
  "LoadLInstanceOfKnownGlobal w = class_loader w block_at kInstanceOfKnownGlobal 1 2 1 KLazyDeopt"
  "LoadLLazyBailout = class_loader w block_at kLazyBailout 0 0 0 KGapSize"
  "LoadLModByConstI = class_loader w block_at kModByConstI 1 1 2 KDivisor"
  "LoadLModByPowerOf2I = class_loader w block_at kModByPowerOf2I 1 1 0 KDivisor"
  "LoadLShiftI = class_loader w block_at kShiftI 1 2 0 KShift"
  "LoadLSmiUntag = class_loader w block_at kSmiUntag 1 1 0 KNeedsCheck"
  "LoadLStackCheck = class_loader w block_at kStackCheck 0 1 0 KDeferred"
  by (simp_all add: loader_simps
      LoadLArgumentsElements_def LArgumentsElements_def LoadLArithmeticD_def LArithmeticD_def
      LoadLArithmeticT_def LArithmeticT_def LoadLDivByConstI_def LDivByConstI_def
      LoadLDivByPowerOf2I_def LDivByPowerOf2I_def LoadLDrop_def LDrop_def
      LoadLFlooringDivByConstI_def LFlooringDivByConstI_def LoadLFlooringDivByPowerOf2I_def
      LFlooringDivByPowerOf2I_def LoadLGoto_def LGoto_def LoadLInstanceOfKnownGlobal_def
      LInstanceOfKnownGlobal_def LoadLLazyBailout_def LLazyBailout_def LoadLModByConstI_def
      LModByConstI_def LoadLModByPowerOf2I_def LModByPowerOf2I_def LoadLShiftI_def LShiftI_def
      LoadLSmiUntag_def LSmiUntag_def LoadLStackCheck_def LStackCheck_def
      SetDeferredLazyDeoptimizationEnvironment_def template_instruction_def)

lemma load_operands_1:
  "LoadLAccessArgumentsAt = class_loader w block_at kAccessArgumentsAt 1 3 0 KNone"
  "LoadLAddI = class_loader w block_at kAddI 1 2 0 KNone"
  "LoadLAllocate = class_loader w block_at kAllocate 1 2 1 KNone"
  "LoadLApplyArguments = class_loader w block_at kApplyArguments 1 4 0 KNone"
  "LoadLArgumentsLength = class_loader w block_at kArgumentsLength 1 1 0 KNone"
  "LoadLBitI = class_loader w block_at kBitI 1 2 0 KNone"
  "LoadLBoundsCheck = class_loader w block_at kBoundsCheck 0 2 0 KNone"
  "LoadLBranch = class_loader w block_at kBranch 0 1 0 KNone"
  "LoadLCallJSFunction = class_loader w block_at kCallJSFunction 1 1 0 KNone"
  "LoadLCallFunction = class_loader w block_at kCallFunction 1 2 0 KNone"
  "LoadLCallNew = class_loader w block_at kCallNew 1 2 0 KNone"
  "LoadLCallNewArray = class_loader w block_at kCallNewArray 1 2 0 KNone"
  "LoadLCallRuntime = class_loader w block_at kCallRuntime 1 1 0 KNone"
  "LoadLCheckInstanceType = class_loader w block_at kCheckInstanceType 0 1 0 KNone"
  "LoadLCheckMaps = class_loader w block_at kCheckMaps 0 1 0 KNone"
  "LoadLCheckMapValue = class_loader w block_at kCheckMapValue 0 2 0 KNone"
  "LoadLCheckNonSmi = class_loader w block_at kCheckNonSmi 0 1 0 KNone"
  "LoadLCheckSmi = class_loader w block_at kCheckSmi 1 1 0 KNone"
  "LoadLCheckValue = class_loader w block_at kCheckValue 0 1 0 KNone"
  "LoadLClassOfTestAndBranch = class_loader w block_at kClassOfTestAndBranch 0 1 2 KNone"
  "LoadLCompareMinusZeroAndBranch = class_loader w block_at kCompareMinusZeroAndBranch 0 1 0 KNone"
  "LoadLCompareNumericAndBranch = class_loader w block_at kCompareNumericAndBranch 0 2 0 KNone"
  "LoadLCmpObjectEqAndBranch = class_loader w block_at kCmpObjectEqAndBranch 0 2 0 KNone"
  "LoadLCmpHoleAndBranch = class_loader w block_at kCmpHoleAndBranch 0 1 0 KNone"
  "LoadLCmpMapAndBranch = class_loader w block_at kCmpMapAndBranch 0 1 0 KNone"
  "LoadLCmpT = class_loader w block_at kCmpT 1 3 0 KNone"
  "LoadLConstantD = class_loader w block_at kConstantD 1 0 1 KNone"
  "LoadLConstantE = class_loader w block_at kConstantE 1 0 0 KNone"
  "LoadLConstantI = class_loader w block_at kConstantI 1 0 0 KNone"
  "LoadLConstantS = class_loader w block_at kConstantS 1 0 0 KNone"
  "LoadLConstantT = class_loader w block_at kConstantT 1 0 0 KNone"
  "LoadLConstructDouble = class_loader w block_at kConstructDouble 1 2 0 KNone"
  "LoadLContext = class_loader w block_at Opcodes.kContext 1 0 0 KNone"
  "LoadLDeclareGlobals = class_loader w block_at kDeclareGlobals 0 1 0 KNone"
  "LoadLDeoptimize = class_loader w block_at kDeoptimize 0 0 0 KNone"
  "LoadLDivI = class_loader w block_at kDivI 1 2 1 KNone"
  "LoadLDoubleBits = class_loader w block_at kDoubleBits 1 1 0 KNone"
  by (simp_all add: loader_simps
      LoadLAccessArgumentsAt_def LAccessArgumentsAt_def LoadLAddI_def LAddI_def
      LoadLAllocate_def LAllocate_def LoadLApplyArguments_def LApplyArguments_def
      LoadLArgumentsLength_def LArgumentsLength_def LoadLBitI_def LBitI_def LoadLBoundsCheck_def
      LBoundsCheck_def LoadLBranch_def LBranch_def LoadLCallJSFunction_def LCallJSFunction_def
      LoadLCallFunction_def LCallFunction_def LoadLCallNew_def LCallNew_def
      LoadLCallNewArray_def LCallNewArray_def LoadLCallRuntime_def LCallRuntime_def
      LoadLCheckInstanceType_def LCheckInstanceType_def LoadLCheckMaps_def LCheckMaps_def
      LoadLCheckMapValue_def LCheckMapValue_def LoadLCheckNonSmi_def LCheckNonSmi_def
      LoadLCheckSmi_def LCheckSmi_def LoadLCheckValue_def LCheckValue_def
      LoadLClassOfTestAndBranch_def LClassOfTestAndBranch_def LoadLCompareMinusZeroAndBranch_def
      LCompareMinusZeroAndBranch_def LoadLCompareNumericAndBranch_def
      LCompareNumericAndBranch_def LoadLCmpObjectEqAndBranch_def LCmpObjectEqAndBranch_def
      LoadLCmpHoleAndBranch_def LCmpHoleAndBranch_def LoadLCmpMapAndBranch_def
      LCmpMapAndBranch_def LoadLCmpT_def LCmpT_def LoadLConstantD_def LConstantD_def
      LoadLConstantE_def LConstantE_def LoadLConstantI_def LConstantI_def LoadLConstantS_def
      LConstantS_def LoadLConstantT_def LConstantT_def LoadLConstructDouble_def
      LConstructDouble_def LoadLContext_def LContext_def LoadLDeclareGlobals_def
      LDeclareGlobals_def LoadLDeoptimize_def LDeoptimize_def LoadLDivI_def LDivI_def
      LoadLDoubleBits_def LDoubleBits_def)

lemma load_operands_2:
  "LoadLDoubleToI = class_loader w block_at kDoubleToI 1 1 0 KNone"
  "LoadLDoubleToSmi = class_loader w block_at kDoubleToSmi 1 1 0 KNone"
  "LoadLDummyUse = class_loader w block_at kDummyUse 1 1 0 KNone"
  "LoadLDummy = class_loader w block_at kDummy 1 0 0 KNone"
  "LoadLFlooringDivI = class_loader w block_at kFlooringDivI 1 2 1 KNone"
  "LoadLForInCacheArray = class_loader w block_at kForInCacheArray 1 1 0 KNone"
  "LoadLForInPrepareMap = class_loader w block_at kForInPrepareMap 1 2 0 KNone"
  "LoadLFunctionLiteral = class_loader w block_at kFunctionLiteral 1 1 0 KNone"
  "LoadLHasCachedArrayIndexAndBranch = class_loader w block_at kHasCachedArrayIndexAndBranch 0 1 0 KNone"
  "LoadLHasInstanceTypeAndBranch = class_loader w block_at kHasInstanceTypeAndBranch 0 1 0 KNone"
  "LoadLInnerAllocatedObject = class_loader w block_at kInnerAllocatedObject 1 2 0 KNone"
  "LoadLInstanceOf = class_loader w block_at kInstanceOf 1 3 0 KNone"
  "LoadLInteger32ToDouble = class_loader w block_at kInteger32ToDouble 1 1 0 KNone"
  "LoadLInvokeFunction = class_loader w block_at kInvokeFunction 1 2 0 KNone"
  "LoadLIsConstructCallAndBranch = class_loader w block_at kIsConstructCallAndBranch 0 0 1 KNone"
  "LoadLIsObjectAndBranch = class_loader w block_at kIsObjectAndBranch 0 1 0 KNone"
  "LoadLIsStringAndBranch = class_loader w block_at kIsStringAndBranch 0 1 1 KNone"
  "LoadLIsSmiAndBranch = class_loader w block_at kIsSmiAndBranch 0 1 0 KNone"
  "LoadLIsUndetectableAndBranch = class_loader w block_at kIsUndetectableAndBranch 0 1 1 KNone"
  "LoadLLoadContextSlot = class_loader w block_at kLoadContextSlot 1 1 0 KNone"
  "LoadLLoadRoot = class_loader w block_at kLoadRoot 1 0 0 KNone"
  "LoadLLoadFieldByIndex = class_loader w block_at kLoadFieldByIndex 1 2 0 KNone"
  "LoadLLoadFunctionPrototype = class_loader w block_at kLoadFunctionPrototype 1 1 0 KNone"
  "LoadLLoadGlobalCell = class_loader w block_at kLoadGlobalCell 1 0 0 KNone"
  "LoadLLoadGlobalGeneric = class_loader w block_at kLoadGlobalGeneric 1 2 1 KNone"
  "LoadLLoadKeyed = class_loader w block_at kLoadKeyed 1 2 0 KNone"
  "LoadLLoadKeyedGeneric = class_loader w block_at kLoadKeyedGeneric 1 3 1 KNone"
  "LoadLLoadNamedField = class_loader w block_at kLoadNamedField 1 1 0 KNone"
  "LoadLLoadNamedGeneric = class_loader w block_at kLoadNamedGeneric 1 2 1 KNone"
  "LoadLMapEnumLength = class_loader w block_at kMapEnumLength 1 1 0 KNone"
  "LoadLMathAbs = class_loader w block_at kMathAbs 1 2 0 KNone"
  "LoadLMathClz32 = class_loader w block_at kMathClz32 1 1 0 KNone"
  "LoadLMathExp = class_loader w block_at kMathExp 1 1 2 KNone"
  "LoadLMathFloor = class_loader w block_at kMathFloor 1 1 0 KNone"
  "LoadLMathFround = class_loader w block_at kMathFround 1 1 0 KNone"
  "LoadLMathLog = class_loader w block_at kMathLog 1 1 0 KNone"
  "LoadLMathMinMax = class_loader w block_at kMathMinMax 1 2 0 KNone"
  by (simp_all add: loader_simps
      LoadLDoubleToI_def LDoubleToI_def LoadLDoubleToSmi_def LDoubleToSmi_def LoadLDummyUse_def
      LDummyUse_def LoadLDummy_def LDummy_def LoadLFlooringDivI_def LFlooringDivI_def
      LoadLForInCacheArray_def LForInCacheArray_def LoadLForInPrepareMap_def
      LForInPrepareMap_def LoadLFunctionLiteral_def LFunctionLiteral_def
      LoadLHasCachedArrayIndexAndBranch_def LHasCachedArrayIndexAndBranch_def
      LoadLHasInstanceTypeAndBranch_def LHasInstanceTypeAndBranch_def
      LoadLInnerAllocatedObject_def LInnerAllocatedObject_def LoadLInstanceOf_def
      LInstanceOf_def LoadLInteger32ToDouble_def LInteger32ToDouble_def LoadLInvokeFunction_def
      LInvokeFunction_def LoadLIsConstructCallAndBranch_def LIsConstructCallAndBranch_def
      LoadLIsObjectAndBranch_def LIsObjectAndBranch_def LoadLIsStringAndBranch_def
      LIsStringAndBranch_def LoadLIsSmiAndBranch_def LIsSmiAndBranch_def
      LoadLIsUndetectableAndBranch_def LIsUndetectableAndBranch_def LoadLLoadContextSlot_def
      LLoadContextSlot_def LoadLLoadRoot_def LLoadRoot_def LoadLLoadFieldByIndex_def
      LLoadFieldByIndex_def LoadLLoadFunctionPrototype_def LLoadFunctionPrototype_def
      LoadLLoadGlobalCell_def LLoadGlobalCell_def LoadLLoadGlobalGeneric_def
      LLoadGlobalGeneric_def LoadLLoadKeyed_def LLoadKeyed_def LoadLLoadKeyedGeneric_def
      LLoadKeyedGeneric_def LoadLLoadNamedField_def LLoadNamedField_def
      LoadLLoadNamedGeneric_def LLoadNamedGeneric_def LoadLMapEnumLength_def LMapEnumLength_def
      LoadLMathAbs_def LMathAbs_def LoadLMathClz32_def LMathClz32_def LoadLMathExp_def
      LMathExp_def LoadLMathFloor_def LMathFloor_def LoadLMathFround_def LMathFround_def
      LoadLMathLog_def LMathLog_def LoadLMathMinMax_def LMathMinMax_def)

lemma load_operands_3:
  "LoadLMathPowHalf = class_loader w block_at kMathPowHalf 1 1 0 KNone"
  "LoadLMathRound = class_loader w block_at kMathRound 1 1 1 KNone"
  "LoadLMathSqrt = class_loader w block_at kMathSqrt 1 1 0 KNone"
  "LoadLModI = class_loader w block_at kModI 1 2 1 KNone"
  "LoadLMulI = class_loader w block_at kMulI 1 2 0 KNone"
  "LoadLNumberTagD = class_loader w block_at kNumberTagD 1 1 1 KNone"
  "LoadLNumberTagI = class_loader w block_at kNumberTagI 1 1 2 KNone"
  "LoadLNumberTagU = class_loader w block_at kNumberTagU 1 1 2 KNone"
  "LoadLNumberUntagD = class_loader w block_at kNumberUntagD 1 1 0 KNone"
  "LoadLOsrEntry = class_loader w block_at kOsrEntry 0 0 0 KNone"
  "LoadLParameter = class_loader w block_at kParameter 1 0 0 KNone"
  "LoadLPower = class_loader w block_at kPower 1 2 0 KNone"
  "LoadLPushArgument = class_loader w block_at kPushArgument 0 1 0 KNone"
  "LoadLRegExpLiteral = class_loader w block_at kRegExpLiteral 1 1 0 KNone"
  "LoadLReturn = class_loader w block_at kReturn 0 3 0 KNone"
  "LoadLSmiTag = class_loader w block_at kSmiTag 1 1 0 KNone"
  "LoadLStoreContextSlot = class_loader w block_at kStoreContextSlot 0 2 1 KNone"
  "LoadLStoreGlobalCell = class_loader w block_at kStoreGlobalCell 0 1 1 KNone"
  "LoadLStoreKeyed = class_loader w block_at kStoreKeyed 0 3 0 KNone"
  "LoadLStoreKeyedGeneric = class_loader w block_at kStoreKeyedGeneric 0 4 0 KNone"
  "LoadLStoreNamedField = class_loader w block_at kStoreNamedField 0 2 1 KNone"
  "LoadLStoreNamedGeneric = class_loader w block_at kStoreNamedGeneric 0 3 0 KNone"
  "LoadLStringAdd = class_loader w block_at kStringAdd 1 3 0 KNone"
  "LoadLStringCharCodeAt = class_loader w block_at kStringCharCodeAt 1 3 0 KNone"
  "LoadLStringCharFromCode = class_loader w block_at kStringCharFromCode 1 2 0 KNone"
  "LoadLStringCompareAndBranch = class_loader w block_at kStringCompareAndBranch 0 3 0 KNone"
  "LoadLSubI = class_loader w block_at kSubI 1 2 0 KNone"
  "LoadLTaggedToI = class_loader w block_at kTaggedToI 1 1 1 KNone"
  "LoadLThisFunction = class_loader w block_at kThisFunction 1 0 0 KNone"
  "LoadLToFastProperties = class_loader w block_at kToFastProperties 1 1 0 KNone"
  "LoadLTransitionElementsKind = class_loader w block_at kTransitionElementsKind 0 2 2 KNone"
  "LoadLTypeof = class_loader w block_at kTypeof 1 2 0 KNone"
  "LoadLTypeofIsAndBranch = class_loader w block_at kTypeofIsAndBranch 0 1 0 KNone"
  "LoadLUint32ToDouble = class_loader w block_at kUint32ToDouble 1 1 0 KNone"
  "LoadLUnknownOSRValue = class_loader w block_at kUnknownOSRValue 1 0 0 KNone"
  "LoadLWrapReceiver = class_loader w block_at kWrapReceiver 1 2 0 KNone"
  by (simp_all add: loader_simps
      LoadLMathPowHalf_def LMathPowHalf_def LoadLMathRound_def LMathRound_def LoadLMathSqrt_def
      LMathSqrt_def LoadLModI_def LModI_def LoadLMulI_def LMulI_def LoadLNumberTagD_def
      LNumberTagD_def LoadLNumberTagI_def LNumberTagI_def LoadLNumberTagU_def LNumberTagU_def
      LoadLNumberUntagD_def LNumberUntagD_def LoadLOsrEntry_def LOsrEntry_def LoadLParameter_def
      LParameter_def LoadLPower_def LPower_def LoadLPushArgument_def LPushArgument_def
      LoadLRegExpLiteral_def LRegExpLiteral_def LoadLReturn_def LReturn_def LoadLSmiTag_def
      LSmiTag_def LoadLStoreContextSlot_def LStoreContextSlot_def LoadLStoreGlobalCell_def
      LStoreGlobalCell_def LoadLStoreKeyed_def LStoreKeyed_def LoadLStoreKeyedGeneric_def
      LStoreKeyedGeneric_def LoadLStoreNamedField_def LStoreNamedField_def
      LoadLStoreNamedGeneric_def LStoreNamedGeneric_def LoadLStringAdd_def LStringAdd_def
      LoadLStringCharCodeAt_def LStringCharCodeAt_def LoadLStringCharFromCode_def
      LStringCharFromCode_def LoadLStringCompareAndBranch_def LStringCompareAndBranch_def
      LoadLSubI_def LSubI_def LoadLTaggedToI_def LTaggedToI_def LoadLThisFunction_def
      LThisFunction_def LoadLToFastProperties_def LToFastProperties_def
      LoadLTransitionElementsKind_def LTransitionElementsKind_def LoadLTypeof_def LTypeof_def
      LoadLTypeofIsAndBranch_def LTypeofIsAndBranch_def LoadLUint32ToDouble_def
      LUint32ToDouble_def LoadLUnknownOSRValue_def LUnknownOSRValue_def LoadLWrapReceiver_def
      LWrapReceiver_def)

lemmas loaders_of_classes = load_gap load_with_members load_operands_1 load_operands_2 load_operands_3

lemma instruction_loaders_classes:
  "instruction_loaders w block_at =
     map (\<lambda>(op, R, I, T, k). (op, class_loader w block_at op R I T k)) class_table"
  unfolding instruction_loaders_def class_table_def list.map prod.case
  by (simp only: loaders_of_classes [where w = w and block_at = block_at])


end
