(* ===== verification/InstructionsRoundtrip.thy ===== *)
theory InstructionsRoundtrip
  imports InstructionClasses HydrogenShimsRoundtrip
begin

text \<open>
  The round trip of one instruction, of any class: which instructions the format carries, what
  the loader makes of them, and what it tells the compilation.
\<close>

section \<open>Loaders that mark the compilation\<close>

text \<open>Loading an instruction may set two flags in the \<^verbatim>\<open>CompilationInfo\<close>.\<close>

definition note_flags :: "bool \<Rightarrow> bool \<Rightarrow> 'b loader_base_scheme \<Rightarrow> 'b loader_base_scheme" where
  "note_flags f d l = l\<lparr>info_requires_frame := info_requires_frame l \<or> f,
     info_deferred_calling := info_deferred_calling l \<or> d\<rparr>"

definition receives ::
  "('b loader_base_scheme \<Rightarrow> ('y \<times> 'b loader_base_scheme) option) \<Rightarrow> byte list \<Rightarrow> 'y \<Rightarrow> bool \<Rightarrow> bool \<Rightarrow> bool" where
  "receives ld bs y f d \<longleftrightarrow> (\<forall>l rest. status l = SUCCEEDED \<longrightarrow> input l = bs @ rest \<longrightarrow>
     ld l = Some (y, note_flags f d (l\<lparr>input := rest\<rparr>)))"

lemma note_flags_simps [simp]:
  "status (note_flags f d l) = status l" "input (note_flags f d l) = input l"
  "note_flags False False l = l"
  "(note_flags f d l)\<lparr>input := rest\<rparr> = note_flags f d (l\<lparr>input := rest\<rparr>)"
  "note_flags f' d' (note_flags f d l) = note_flags (f \<or> f') (d \<or> d') l"
  by (simp_all add: note_flags_def disj_assoc)

lemma loads_receives: "loads ld bs y \<longleftrightarrow> receives ld bs y False False"
  by (simp add: loads_def receives_def)

lemma receives_bind:
  "receives ld b1 x f d \<Longrightarrow> receives (k x) b2 y f' d' \<Longrightarrow>
   receives (\<lambda>l. ld l \<bind> (\<lambda>(x, l). k x l)) (b1 @ b2) y (f \<or> f') (d \<or> d')"
  by (simp add: receives_def)

lemma loads_bind_receives:
  "loads ld b1 x \<Longrightarrow> receives (k x) b2 y f d \<Longrightarrow>
   receives (\<lambda>l. ld l \<bind> (\<lambda>(x, l). k x l)) (b1 @ b2) y f d"
  using receives_bind [of ld b1 x False False k b2 y f d] by (simp add: loads_receives)

lemma receives_bind_loads:
  "receives ld b1 x f d \<Longrightarrow> loads (k x) b2 y \<Longrightarrow>
   receives (\<lambda>l. ld l \<bind> (\<lambda>(x, l). k x l)) (b1 @ b2) y f d"
  using receives_bind [of ld b1 x f d k b2 y False False] by (simp add: loads_receives)

lemma loads_marked:
  assumes "loads ld bs y"
  shows "receives (\<lambda>l. ld (class_mark k l)) bs y (k = KFrame) (k = KDeferred)"
proof -
  have "status (class_mark k l) = status l" "input (class_mark k l) = input l"
    "(class_mark k l)\<lparr>input := rest\<rparr> = note_flags (k = KFrame) (k = KDeferred) (l\<lparr>input := rest\<rparr>)" for l :: "'a loader_base_scheme" and rest
    by (cases k; simp add: class_mark_def MarkAsRequiresFrame_def MarkAsDeferredCalling_def note_flags_def)+
  with assms show ?thesis by (simp add: loads_def receives_def)
qed

section \<open>The saver of a class\<close>

definition no_members :: "member_kind \<Rightarrow> bool" where
  "no_members k \<longleftrightarrow> k = KNone \<or> k = KFrame \<or> k = KDeferred \<or> k = KGapSize"

definition member_kinds :: "(Opcode \<times> member_kind) list" where
  "member_kinds =
    [(kLabel, KLabel), (kInstructionGap, KGap), (kGoto, KGoto), (kModByPowerOf2I, KDivisor),
     (kModByConstI, KDivisor), (kDivByPowerOf2I, KDivisor), (kDivByConstI, KDivisor),
     (kFlooringDivByPowerOf2I, KDivisor), (kFlooringDivByConstI, KDivisor),
     (kArithmeticD, KOperation), (kArithmeticT, KOperation), (kShiftI, KShift),
     (kCallWithDescriptor, KOperandList), (kSmiUntag, KNeedsCheck),
     (kInstanceOfKnownGlobal, KLazyDeopt), (kDrop, KDrop)]"

lemma member_savers_kinds: "member_savers w = map (\<lambda>(op, k). (op, save_members w k)) member_kinds"
  by (simp add: member_savers_def member_kinds_def fun_eq_iff save_members_def SaveLLabel_def
      SaveLInstructionGap_def SaveLModByPowerOf2I_def SaveLModByConstI_def SaveLDivByPowerOf2I_def
      SaveLDivByConstI_def SaveLFlooringDivByPowerOf2I_def SaveLFlooringDivByConstI_def
      SaveLArithmeticD_def SaveLArithmeticT_def)

text \<open>What the table says of each class, found by computation.\<close>

lemma class_table_empty:
  "list_all (\<lambda>(op, R, I, T, k). no_members k \<longrightarrow> op \<in> set saves_no_members) class_table"
  by (simp add: class_table_def no_members_def saves_no_members_def)

lemma class_table_members:
  "list_all (\<lambda>(op, R, I, T, k). \<not> no_members k \<longrightarrow>
     op \<notin> set saves_no_members \<and> map_of member_kinds op = Some k) class_table"
  by (simp add: class_table_def no_members_def saves_no_members_def member_kinds_def opcodes)

lemma class_table_kinds:
  "list_all (\<lambda>(op, R, I, T, k). ((k = KOperandList) = (op = kCallWithDescriptor)) \<and>
     ((k = KFrame) = (op = kArgumentsElements)) \<and> ((k = KDeferred) = (op = kStackCheck)) \<and>
     R \<le> 1 \<and> op < kNumberOfInstructions) class_table"
  by (simp add: class_table_def opcodes)

lemma class_table_rows:
  assumes "map_of class_table op = Some (R, I, T, k)"
  shows "no_members k \<Longrightarrow> op \<in> set saves_no_members"
    "\<not> no_members k \<Longrightarrow> op \<notin> set saves_no_members" "\<not> no_members k \<Longrightarrow> map_of member_kinds op = Some k"
    "k = KOperandList \<longleftrightarrow> op = kCallWithDescriptor" "k = KFrame \<longleftrightarrow> op = kArgumentsElements"
    "k = KDeferred \<longleftrightarrow> op = kStackCheck" "R \<le> 1" "op < kNumberOfInstructions"
  using class_table_empty class_table_members class_table_kinds map_of_SomeD [OF assms]
  by (fastforce simp: list_all_iff)+

lemma map_of_map_pair: "map_of (map (\<lambda>(x, y). (x, f x y)) xs) x = map_option (f x) (map_of xs x)"
  by (induction xs) auto

lemma SaveTo_class:
  assumes "map_of class_table (opcode i) = Some (R, I, T, k)"
  shows "SaveTo w i = save_members w k i"
proof (cases "no_members k")
  case True
  with class_table_rows(1) [OF assms] show ?thesis
    by (auto simp: SaveTo_def save_members_def no_members_def)
next
  case False
  with class_table_rows(2,3) [OF assms] show ?thesis
    by (simp add: SaveTo_def member_savers_kinds map_of_map_pair)
qed

lemma loaders_class_table:
  "map_of (instruction_loaders w block_at) op =
     map_option (\<lambda>(R, I, T, k). class_loader w block_at op R I T k) (map_of class_table op)"
  using map_of_map_pair [of "\<lambda>op x. class_loader w block_at op (fst x) (fst (snd x)) (fst (snd (snd x)))
      (snd (snd (snd x)))" class_table op]
  by (simp add: instruction_loaders_classes split_def)

lemma loader_class:
  "map_of class_table op = Some (R, I, T, k) \<Longrightarrow>
   map_of (instruction_loaders w block_at) op = Some (class_loader w block_at op R I T k)"
  by (simp add: loaders_class_table)

section \<open>What the format carries, and what comes back\<close>

definition same_environment :: "'w world_scheme \<Rightarrow> LEnvironment \<Rightarrow> LEnvironment \<Rightarrow> bool" where
  "same_environment w env env' \<longleftrightarrow>
     list_all2 same_frame env env' \<and> map env_closure env' = map (reloaded_closure w) env"

definition moves_ok :: "LParallelMove option list \<Rightarrow> bool" where
  "moves_ok ms \<longleftrightarrow> length ms = inner_positions \<and> (\<forall>m. Some m \<in> set ms \<longrightarrow> length m < 2 ^ 64)"

text \<open>The members that an instruction of a kind has. A block must be one of the loaded graph, and a
  deferred environment must have been set.\<close>

definition members_ok :: "'w world_scheme \<Rightarrow> (int32 \<Rightarrow> int32 option) \<Rightarrow> member_kind \<Rightarrow> own_members \<Rightarrow> bool" where
  "members_ok w block_at k own \<longleftrightarrow>
     (case own of
        NoMembers \<Rightarrow> k \<in> {KNone, KFrame, KDeferred, KOperandList}
      | Divisor _ \<Rightarrow> k = KDivisor
      | Operation _ \<Rightarrow> k = KOperation
      | Shift _ _ \<Rightarrow> k = KShift
      | NeedsCheck _ \<Rightarrow> k = KNeedsCheck
      | DropCount _ \<Rightarrow> k = KDrop
      | GapInstructionsSize _ \<Rightarrow> k = KGapSize
      | GotoBlock b \<Rightarrow> k = KGoto \<and> block_at b = Some b
      | Gap b ms \<Rightarrow> k = KGap \<and> block_at b = Some b \<and> moves_ok ms
      | LabelMembers b ms _ \<Rightarrow> k = KLabel \<and> block_at b = Some b \<and> moves_ok ms
      | LazyDeoptEnv env \<Rightarrow> k = KLazyDeopt \<and> env \<noteq> [] \<and> list_all (frame_ok w) env)"

text \<open>The size of the gap instructions and the replacement of a label are set by code generation and
  not transmitted.\<close>

definition same_members :: "'w world_scheme \<Rightarrow> own_members \<Rightarrow> own_members \<Rightarrow> bool" where
  "same_members w own own' \<longleftrightarrow>
     (case own of
        GapInstructionsSize _ \<Rightarrow> own' = GapInstructionsSize 0
      | LabelMembers b ms _ \<Rightarrow> own' = LabelMembers b ms None
      | LazyDeoptEnv env \<Rightarrow> (\<exists>env'. own' = LazyDeoptEnv env' \<and> same_environment w env env')
      | _ \<Rightarrow> own' = own)"

text \<open>An instruction as its class and the builder make it: the containers have the sizes of the class.\<close>

definition instruction_wf :: "'w world_scheme \<Rightarrow> (int32 \<Rightarrow> int32 option) \<Rightarrow> LInstruction \<Rightarrow> bool" where
  "instruction_wf w block_at i \<longleftrightarrow>
     (\<exists>R I T k. map_of class_table (opcode i) = Some (R, I, T, k) \<and> length (results i) = R \<and>
        (if k = KOperandList then temps i = [] \<and> length (inputs i) < 2 ^ 31
         else length (inputs i) = I \<and> length (temps i) = T) \<and>
        members_ok w block_at k (members i))"

text \<open>What is set after the construction: the environment and the pointer map.\<close>

definition attachments_ok :: "'w world_scheme \<Rightarrow> LInstruction \<Rightarrow> bool" where
  "attachments_ok w i \<longleftrightarrow> list_all (frame_ok w) (environment i) \<and>
     (\<forall>m. pointer_map i = Some m \<longrightarrow>
        length (pointer_operands m) < 2 ^ 31 \<and> length (untagged_operands m) < 2 ^ 31)"

text \<open>The loaded instruction: the same class, operands, members, environment and pointer map, the shim
  that comes back for the saved one; no Hydrogen value, and the mark of a call is lost.\<close>

definition same_instruction :: "'w constant_world_scheme \<Rightarrow> nat list \<Rightarrow> (int32 \<Rightarrow> hydrogen_shim option)
  \<Rightarrow> LInstruction \<Rightarrow> LInstruction \<Rightarrow> bool" where
  "same_instruction w C GetValue i i' \<longleftrightarrow>
     opcode i' = opcode i \<and> results i' = results i \<and> inputs i' = inputs i \<and> temps i' = temps i \<and>
     same_members w (members i) (members i') \<and> same_environment w (environment i) (environment i') \<and>
     pointer_map i' = pointer_map i \<and> hydrogen_value i' = None \<and> \<not> IsCall i' \<and>
     (\<exists>shim. hydrogen_shim i = Some shim \<and>
        reloads_instruction_shim w C GetValue (opcode i) shim (hydrogen_shim i'))"

section \<open>Operands and members\<close>

lemma save_each_append: "save_each f (xs @ ys) s = save_each f xs s \<bind> save_each f ys"
  by (induction xs arbitrary: s) (simp_all add: Option.bind_assoc)

lemma transmits_operands:
  "transmits C (save_each ConditionallySaveLOperand xs) (load_each ConditionallyLoadLOperand (length xs)) xs"
  using transmits_each [of xs C ConditionallySaveLOperand ConditionallyLoadLOperand "\<lambda>x. x"]
  by (simp add: transmits_ConditionallyLOperand)

lemma transmits_move:
  assumes "\<forall>m. move = Some m \<longrightarrow> length m < 2 ^ 64"
  shows "transmits C (SaveParallelMove move :: 'a sv) (LoadParallelMove :: 'b loader_base_scheme \<Rightarrow> _) move"
proof (cases move)
  case None
  have "transmits C (SavePrimitive_bool False :: 'a sv) (LoadParallelMove :: 'b loader_base_scheme \<Rightarrow> _) None"
    unfolding LoadParallelMove_def [abs_def] by (rule transmits_save_last [OF transmits_bool_LoadBool]) simp
  then show ?thesis by (simp add: None SaveParallelMove_def)
next
  case (Some m)
  let ?pair = "\<lambda>mv. (mv_source mv, mv_destination mv)"
  have fold: "fold (\<lambda>(source, destination). AddMove source destination) (map ?pair ms) acc = acc @ ms" for ms acc
    by (induction ms arbitrary: acc) (simp_all add: AddMove_def)
  have one: "transmits C (SaveMoveOperands mv :: 'a sv) (LoadMoveOperands :: 'b loader_base_scheme \<Rightarrow> _) (?pair mv)" for mv
    unfolding SaveMoveOperands_def [abs_def] LoadMoveOperands_def [abs_def]
    by (rule transmits_bind [OF transmits_ConditionallyLOperand], rule transmits_map [OF transmits_ConditionallyLOperand])
  have len: "unat (word_of_nat (length m) :: size_t) = length m" using assms Some by simp
  have "transmits C (save_each SaveMoveOperands m :: 'a sv)
      (\<lambda>l :: 'b loader_base_scheme. load_each LoadMoveOperands (length m) l \<bind> (\<lambda>(operands, l).
        Some (Some (fold (\<lambda>(source, destination). AddMove source destination) operands []), l)))
      (Some (fold (\<lambda>(source, destination). AddMove source destination) (map ?pair m) []))"
    by (rule transmits_map [OF transmits_each [OF one]])
  then have "transmits C (\<lambda>s. SavePrimitive_bool True s \<bind> (\<lambda>s. SavePrimitive (word_of_nat (length m) :: size_t) s \<bind>
      save_each SaveMoveOperands m) :: 'a saver_base_scheme option) (LoadParallelMove :: 'b loader_base_scheme \<Rightarrow> _) (Some m)"
    unfolding LoadParallelMove_def [abs_def] fold append_Nil
    by (intro transmits_bind [OF transmits_bool_LoadBool]) (simp only: if_True,
      rule transmits_bind [OF transmits_primitives(4)], simp only: len)
  then show ?thesis by (simp add: Some SaveParallelMove_def)
qed

lemma transmits_moves:
  assumes "moves_ok ms"
  shows "transmits C (save_each SaveParallelMove ms) load_moves ms"
proof -
  have len: "length ms = inner_positions" using assms by (simp add: moves_ok_def)
  have "transmits C (SaveParallelMove m) LoadParallelMove m" if "m \<in> set ms" for m
    using assms that by (intro transmits_move) (auto simp: moves_ok_def)
  from transmits_each [of ms C SaveParallelMove LoadParallelMove "\<lambda>m. m", OF this] show ?thesis
    unfolding load_moves_def [abs_def] len [symmetric] by simp
qed

lemma transmits_environment:
  assumes "env \<noteq> []" "list_all (frame_ok w) env"
  shows "\<exists>env'. transmits C (SaveEnvironment w env :: 'a sv) (LoadEnvironment w :: 'b loader_base_scheme \<Rightarrow> _) env' \<and>
    same_environment w env env'"
proof -
  obtain env' where env': "carries C C (SaveEnvironment w env :: 'a sv)
      ((\<lambda>n. LoadEnvironment_fuel n w) :: ('b, LEnvironment) ld) env'"
    "list_all2 same_frame env env'" "map env_closure env' = map (reloaded_closure w) env"
    using carries_environment [OF assms] by blast
  show ?thesis unfolding LoadEnvironment_def same_environment_def
    using carries_transmits [OF env'(1)] env'(2,3) by (intro exI conjI)
qed

lemma load_members_simps:
  "load_members w block_at KNone = (\<lambda>l. Some (NoMembers, l))"
  "load_members w block_at KFrame = (\<lambda>l. Some (NoMembers, l))"
  "load_members w block_at KDeferred = (\<lambda>l. Some (NoMembers, l))"
  "load_members w block_at KGapSize = (\<lambda>l. Some (GapInstructionsSize 0, l))"
  "load_members w block_at KDivisor = (\<lambda>l. LoadPrimitive l \<bind> (\<lambda>(d, l). Some (Divisor d, l)))"
  "load_members w block_at KOperation = (\<lambda>l. LoadPrimitive l \<bind> (\<lambda>(d, l). Some (Operation d, l)))"
  "load_members w block_at KShift = (\<lambda>l. LoadPrimitive l \<bind> (\<lambda>(op, l). LoadBool l \<bind> (\<lambda>(b, l). Some (Shift op b, l))))"
  "load_members w block_at KNeedsCheck = (\<lambda>l. LoadPrimitive_bool l \<bind> (\<lambda>(b, l). Some (NeedsCheck b, l)))"
  "load_members w block_at KDrop = (\<lambda>l. LoadPrimitive l \<bind> (\<lambda>(n, l). Some (DropCount n, l)))"
  "load_members w block_at KGoto = (\<lambda>l. LoadPrimitive l \<bind> (\<lambda>(i, l). block_at i \<bind> (\<lambda>b. Some (GotoBlock b, l))))"
  "load_members w block_at KGap = (\<lambda>l. LoadPrimitive l \<bind> (\<lambda>(i, l). block_at i \<bind> (\<lambda>b.
     load_moves l \<bind> (\<lambda>(ms, l). Some (Gap b ms, l)))))"
  "load_members w block_at KLabel = (\<lambda>l. LoadPrimitive l \<bind> (\<lambda>(i, l). block_at i \<bind> (\<lambda>b.
     load_moves l \<bind> (\<lambda>(ms, l). Some (LabelMembers b ms None, l)))))"
  "load_members w block_at KLazyDeopt = (\<lambda>l. LoadEnvironment w l \<bind> (\<lambda>(env, l). Some (LazyDeoptEnv env, l)))"
  by (simp_all add: load_members_def fun_eq_iff)

text \<open>For the three kinds with moves: the block's number, then the moves.\<close>

lemma transmits_gap_members:
  assumes "gap_block i = Some b" "block_at b = Some b" "moves_ok (parallel_moves i)"
  shows "transmits C (SaveLGap i) (\<lambda>l. LoadPrimitive l \<bind> (\<lambda>(i, l). block_at i \<bind> (\<lambda>b.
     load_moves l \<bind> (\<lambda>(ms, l). Some (f b ms, l))))) (f b (parallel_moves i))"
  unfolding SaveLGap_def [abs_def] assms(1) Option.bind.bind_lunit
  by (rule transmits_bind [OF transmits_primitives(3)])
    (simp only: assms(2) Option.bind.bind_lunit, rule transmits_map [OF transmits_moves [OF assms(3)]])

lemma transmits_members:
  assumes "members_ok w block_at k (members i)" "k \<noteq> KOperandList"
  shows "\<exists>own'. transmits C (save_members w k i :: 'a sv) (load_members w block_at k :: 'b loader_base_scheme \<Rightarrow> _) own' \<and>
    same_members w (members i) own'"
proof (cases "members i")
  case NoMembers
  with assms show ?thesis
    by (auto simp: members_ok_def save_members_def same_members_def load_members_simps intro: transmits_done)
next
  case (Divisor d)
  with assms transmits_map [OF transmits_primitives(3) [of C d], of Divisor] show ?thesis
    by (auto simp: members_ok_def save_members_def same_members_def load_members_simps)
next
  case (Operation op)
  with assms transmits_map [OF transmits_primitives(3) [of C op], of Operation] show ?thesis
    by (auto simp: members_ok_def save_members_def same_members_def load_members_simps)
next
  case (Shift op b)
  have "transmits C (\<lambda>s. SavePrimitive op s \<bind> SavePrimitive_bool b :: 'a saver_base_scheme option)
      (load_members w block_at KShift :: 'b loader_base_scheme \<Rightarrow> _) (Shift op b)"
    unfolding load_members_simps
    by (rule transmits_bind [OF transmits_primitives(3)], rule transmits_map [OF transmits_bool_LoadBool])
  with assms Shift show ?thesis
    by (auto simp: members_ok_def save_members_def same_members_def SaveLShiftI_def)
next
  case (NeedsCheck b)
  with assms transmits_map [OF transmits_bool [of C b], of NeedsCheck] show ?thesis
    by (auto simp: members_ok_def save_members_def same_members_def load_members_simps SaveLSmiUntag_def)
next
  case (DropCount n)
  with assms transmits_map [OF transmits_primitives(3) [of C n], of DropCount] show ?thesis
    by (auto simp: members_ok_def save_members_def same_members_def load_members_simps SaveLDrop_def)
next
  case (GapInstructionsSize n)
  with assms show ?thesis
    by (auto simp: members_ok_def save_members_def same_members_def load_members_simps intro: transmits_done)
next
  case (GotoBlock b)
  then have b: "block_at b = Some b" "k = KGoto" using assms by (simp_all add: members_ok_def)
  have "transmits C (SavePrimitive b :: 'a sv) (load_members w block_at KGoto :: 'b loader_base_scheme \<Rightarrow> _) (GotoBlock b)"
    unfolding load_members_simps by (rule transmits_save_last [OF transmits_primitives(3)]) (simp add: b)
  with GotoBlock b(2) show ?thesis
    by (auto simp: save_members_def same_members_def SaveLGoto_def)
next
  case (Gap b ms)
  then have b: "block_at b = Some b" "k = KGap" "moves_ok (parallel_moves i)" "gap_block i = Some b" "parallel_moves i = ms"
    using assms by (simp_all add: members_ok_def parallel_moves_def gap_block_def)
  from transmits_gap_members [of i b block_at C Gap, OF b(4,1,3)] Gap b(2,5) show ?thesis
    by (auto simp: save_members_def same_members_def load_members_simps)
next
  case (LabelMembers b ms r)
  then have b: "block_at b = Some b" "k = KLabel" "moves_ok (parallel_moves i)" "gap_block i = Some b" "parallel_moves i = ms"
    using assms by (simp_all add: members_ok_def parallel_moves_def gap_block_def)
  from transmits_gap_members [of i b block_at C "\<lambda>b ms. LabelMembers b ms None", OF b(4,1,3)] LabelMembers b(2,5)
  show ?thesis by (auto simp: save_members_def same_members_def load_members_simps)
next
  case (LazyDeoptEnv env)
  then have env: "k = KLazyDeopt" "env \<noteq> []" "list_all (frame_ok w) env"
    using assms by (simp_all add: members_ok_def)
  obtain env' where env': "transmits C (SaveEnvironment w env :: 'a sv) (LoadEnvironment w :: 'b loader_base_scheme \<Rightarrow> _) env'"
    "same_environment w env env'" using transmits_environment [OF env(2,3)] by blast
  from transmits_map [OF env'(1), of LazyDeoptEnv] env'(2) LazyDeoptEnv env(1) show ?thesis
    by (auto simp: save_members_def same_members_def load_members_simps SaveLInstanceOfKnownGlobal_def)
qed

section \<open>What follows the members\<close>

lemma transmits_result:
  assumes "results j = replicate (length (results i)) None" "length (results i) \<le> 1"
  shows "transmits C (SaveTemplateResultInstruction i :: 'a sv)
    (LoadTemplateResultInstruction j :: 'b loader_base_scheme \<Rightarrow> _) (j\<lparr>results := results i\<rparr>)"
proof (cases "results i")
  case Nil
  with assms have "results j = []" by simp
  then have "j\<lparr>results := []\<rparr> = j" by (cases j) simp
  then show ?thesis unfolding Nil SaveTemplateResultInstruction_def LoadTemplateResultInstruction_def [abs_def]
    \<open>results j = []\<close> list.case by (simp only: transmits_done)
next
  case (Cons r rs)
  with assms have rs: "rs = []" "results j = [None]" by auto
  from transmits_map [OF transmits_ConditionallyLOperand [of C r], of "\<lambda>operand. set_result operand j"] Cons rs
  show ?thesis
    by (simp add: SaveTemplateResultInstruction_def LoadTemplateResultInstruction_def [abs_def] set_result_def)
qed

lemma transmits_instruction_environment:
  assumes "list_all (frame_ok w) (environment i)" "environment j = []"
  shows "\<exists>env'. transmits C (SaveInstruction_environment w i :: 'a sv)
    (LoadInstruction_environment w j :: 'b loader_base_scheme \<Rightarrow> _) (j\<lparr>environment := env'\<rparr>) \<and>
    same_environment w (environment i) env'"
proof (cases "environment i = []")
  case True
  have "transmits C SaveFalse (LoadInstruction_environment w j) j"
    unfolding LoadInstruction_environment_def [abs_def] by (rule transmits_save_last [OF transmits_false]) simp
  moreover have "j\<lparr>environment := []\<rparr> = j" using assms(2) by (cases j) simp
  ultimately show ?thesis using True
    by (intro exI [of _ "[]"])
      (simp add: SaveInstruction_environment_def [abs_def] HasEnvironment_def same_environment_def)
next
  case False
  obtain env' where env': "transmits C (SaveEnvironment w (environment i) :: 'a sv)
      (LoadEnvironment w :: 'b loader_base_scheme \<Rightarrow> _) env'" "same_environment w (environment i) env'"
    using transmits_environment [OF False assms(1)] by blast
  have "transmits C (\<lambda>s. SaveTrue s \<bind> SaveEnvironment w (environment i) :: 'a saver_base_scheme option)
      (LoadInstruction_environment w j :: 'b loader_base_scheme \<Rightarrow> _) (j\<lparr>environment := env'\<rparr>)"
    unfolding LoadInstruction_environment_def [abs_def]
    by (rule transmits_bind [OF transmits_true]) (simp only: if_True, rule transmits_map [OF env'(1)])
  with False env'(2) show ?thesis
    by (intro exI [of _ env']) (simp add: SaveInstruction_environment_def [abs_def] HasEnvironment_def)
qed

lemma transmits_instruction_pointer_map:
  assumes "\<forall>m. pointer_map i = Some m \<longrightarrow>
      length (pointer_operands m) < 2 ^ 31 \<and> length (untagged_operands m) < 2 ^ 31" "pointer_map j = None"
  shows "transmits C (SaveInstruction_pointer_map i :: 'a sv)
    (LoadInstruction_pointer_map j :: 'b loader_base_scheme \<Rightarrow> _) (j\<lparr>pointer_map := pointer_map i\<rparr>)"
proof (cases "pointer_map i")
  case None
  have "transmits C SaveFalse (LoadInstruction_pointer_map j) j"
    unfolding LoadInstruction_pointer_map_def [abs_def] by (rule transmits_save_last [OF transmits_false]) simp
  moreover have "j\<lparr>pointer_map := None\<rparr> = j" using assms(2) by (cases j) simp
  ultimately show ?thesis using None by (simp add: SaveInstruction_pointer_map_def [abs_def])
next
  case (Some m)
  have "transmits C (SavePointerMap m :: 'a sv) (LoadPointerMap :: 'b loader_base_scheme \<Rightarrow> _) m"
    using assms(1) Some by (intro transmits_PointerMap) auto
  then have "transmits C (\<lambda>s. SaveTrue s \<bind> SavePointerMap m :: 'a saver_base_scheme option)
      (LoadInstruction_pointer_map j :: 'b loader_base_scheme \<Rightarrow> _) (j\<lparr>pointer_map := Some m\<rparr>)"
    unfolding LoadInstruction_pointer_map_def [abs_def]
    by (intro transmits_bind [OF transmits_true]) (simp only: if_True, rule transmits_map)
  with Some show ?thesis by (simp add: SaveInstruction_pointer_map_def [abs_def])
qed

text \<open>The three optional parts in their order.\<close>

definition SaveInstruction_rest :: "'w world_scheme \<Rightarrow> LInstruction \<Rightarrow> 'a sv" where
  "SaveInstruction_rest w i s = do {
     s \<leftarrow> SaveTemplateResultInstruction i s;
     RETURN_ON_FAIL s (do {
       s \<leftarrow> SaveInstruction_environment w i s;
       RETURN_ON_FAIL s (SaveInstruction_pointer_map i s)
     })
   }"

definition LoadInstruction_rest ::
  "'w world_scheme \<Rightarrow> LInstruction \<Rightarrow> 'b loader_base_scheme \<Rightarrow> (LInstruction option, 'b) load_result" where
  "LoadInstruction_rest w i l = do {
     (i, l) \<leftarrow> LoadTemplateResultInstruction i l;
     (i, l) \<leftarrow> LoadInstruction_environment w i l;
     (i, l) \<leftarrow> LoadInstruction_pointer_map i l;
     Some (Some i, l)
   }"

lemma transmits_rest:
  fixes w :: "'w world_scheme"
  assumes ok: "attachments_ok w i" and j: "results j = replicate (length (results i)) None" "length (results i) \<le> 1"
    "environment j = []" "pointer_map j = None"
  shows "\<exists>env'. transmits C (SaveInstruction_rest w i :: 'a sv) (LoadInstruction_rest w j :: 'b loader_base_scheme \<Rightarrow> _)
      (Some (j\<lparr>results := results i, environment := env', pointer_map := pointer_map i\<rparr>)) \<and>
    same_environment w (environment i) env'"
proof -
  let ?j = "j\<lparr>results := results i\<rparr>"
  have env_ok: "list_all (frame_ok w) (environment i)" and pm_ok: "\<forall>m. pointer_map i = Some m \<longrightarrow>
      length (pointer_operands m) < 2 ^ 31 \<and> length (untagged_operands m) < 2 ^ 31"
    using ok by (simp_all add: attachments_ok_def)
  have none: "environment ?j = []" using j(3) by simp
  obtain env' where env': "transmits C (SaveInstruction_environment w i :: 'a sv)
      (LoadInstruction_environment w ?j :: 'b loader_base_scheme \<Rightarrow> _) (?j\<lparr>environment := env'\<rparr>)"
    "same_environment w (environment i) env'"
    using transmits_instruction_environment [OF env_ok none] by blast
  have "pointer_map (?j\<lparr>environment := env'\<rparr>) = None" using j(4) by simp
  note pm = transmits_instruction_pointer_map [OF pm_ok this]
  have "transmits C (SaveInstruction_rest w i :: 'a sv) (LoadInstruction_rest w j :: 'b loader_base_scheme \<Rightarrow> _)
      (Some (?j\<lparr>environment := env', pointer_map := pointer_map i\<rparr>))"
    unfolding SaveInstruction_rest_def [abs_def] LoadInstruction_rest_def [abs_def]
    by (rule transmits_bind [OF transmits_result [OF j(1,2)]], rule transmits_save_return,
      rule transmits_bind [OF env'(1)], rule transmits_save_return, rule transmits_map [OF pm])
  with env'(2) show ?thesis by blast
qed

section \<open>One instruction\<close>

text \<open>The operands and the members, which the constructor of the class receives.\<close>

definition SaveInstruction_class :: "'w world_scheme \<Rightarrow> LInstruction \<Rightarrow> 'a sv" where
  "SaveInstruction_class w i s = do {
     s \<leftarrow> if IsTemplateInstruction i then SaveTemplateInstruction i s else Some s;
     RETURN_ON_FAIL s (SaveTo w i s)
   }"

lemma transmits_class_operands:
  assumes "length (inputs i) = I" "length (temps i) = T"
  shows "transmits C (SaveTemplateInstruction i :: 'a sv)
    (load_each ConditionallyLoadLOperand (I + T) :: 'b loader_base_scheme \<Rightarrow> _) (inputs i @ temps i)"
proof -
  have "(SaveTemplateInstruction i :: 'a sv) = save_each ConditionallySaveLOperand (inputs i @ temps i)"
    by (simp add: fun_eq_iff SaveTemplateInstruction_def save_each_append)
  with transmits_operands [of C "inputs i @ temps i"] assms show ?thesis by simp
qed

lemma class_table_descriptor: "map_of class_table kCallWithDescriptor = Some (1, 0, 0, KOperandList)"
  by (simp add: class_table_def opcodes)

lemma saves_class:
  fixes w :: "'w world_scheme"
  assumes row: "map_of class_table (opcode i) = Some (R, I, T, k)" and wf: "instruction_wf w block_at i"
  shows "\<exists>bs own'. saves C (SaveInstruction_class w i :: 'a sv) bs \<and>
    receives (class_loader w block_at (opcode i) R I T k :: 'b loader_base_scheme \<Rightarrow> _) bs
      (template_instruction (opcode i) R (inputs i) (temps i) own')
      (opcode i = kArgumentsElements) (opcode i = kStackCheck) \<and>
    same_members w (members i) own'"
proof (cases "k = KOperandList")
  case True
  with row wf have i: "temps i = []" "length (inputs i) < 2 ^ 31" "members i = NoMembers"
    by (auto simp: instruction_wf_def members_ok_def split: own_members.splits)
  have op: "opcode i = kCallWithDescriptor" using class_table_rows(4) [OF row] True by simp
  with row class_table_descriptor have R: "R = 1" by simp
  have len: "iterations (int_length (inputs i) - 1 + 1) = length (inputs i)" using i(2) by simp
  have "transmits C (SaveLCallWithDescriptor i :: 'a sv) (LoadLCallWithDescriptor :: 'b loader_base_scheme \<Rightarrow> _)
      (LCallWithDescriptor (inputs i))"
    unfolding SaveLCallWithDescriptor_def [abs_def] LoadLCallWithDescriptor_def [abs_def]
    by (rule transmits_bind [OF transmits_primitives(3)], rule transmits_map, simp only: len, rule transmits_operands)
  then obtain bs where bs: "saves C (SaveLCallWithDescriptor i :: 'a sv) bs"
    "loads (LoadLCallWithDescriptor :: 'b loader_base_scheme \<Rightarrow> _) bs (LCallWithDescriptor (inputs i))" by (rule transmitsE)
  have "saves C (SaveInstruction_class w i :: 'a sv) bs"
    using saves_return [OF bs(1)] op True
    by (simp add: SaveInstruction_class_def [abs_def] IsTemplateInstruction_def SaveTo_class [OF row] save_members_def)
  moreover have "receives (class_loader w block_at (opcode i) R I T k :: 'b loader_base_scheme \<Rightarrow> _) bs
      (template_instruction (opcode i) R (inputs i) (temps i) NoMembers) False False"
    using bs(2) by (simp add: class_loader_def True loads_receives LCallWithDescriptor_def op R i(1))
  ultimately show ?thesis using class_table_rows(5,6) [OF row] True i(3)
    by (intro exI [of _ bs] exI [of _ NoMembers]) (simp add: same_members_def)
next
  case False
  with row wf have i: "length (inputs i) = I" "length (temps i) = T" "members_ok w block_at k (members i)"
    by (auto simp: instruction_wf_def)
  have op: "opcode i \<noteq> kCallWithDescriptor" using class_table_rows(4) [OF row] False by simp
  obtain b1 where b1: "saves C (SaveTemplateInstruction i :: 'a sv) b1"
    "loads (load_each ConditionallyLoadLOperand (I + T) :: 'b loader_base_scheme \<Rightarrow> _) b1 (inputs i @ temps i)"
    using transmits_class_operands [OF i(1,2)] by (rule transmitsE)
  obtain own' where own': "transmits C (save_members w k i :: 'a sv) (load_members w block_at k :: 'b loader_base_scheme \<Rightarrow> _) own'"
    "same_members w (members i) own'"
    using transmits_members [OF i(3) False] by blast
  from transmits_map [OF own'(1), of "template_instruction (opcode i) R (inputs i) (temps i)"]
  obtain b2 where b2: "saves C (save_members w k i :: 'a sv) b2"
    "loads (\<lambda>l :: 'b loader_base_scheme. load_members w block_at k l \<bind>
        (\<lambda>(own, l). Some (template_instruction (opcode i) R (inputs i) (temps i) own, l))) b2 (template_instruction (opcode i) R (inputs i) (temps i) own')"
    by (rule transmitsE)
  have "saves C (SaveInstruction_class w i :: 'a sv) (b1 @ b2)"
    using saves_bind [OF b1(1) saves_return [OF b2(1)]] op
    by (simp add: SaveInstruction_class_def [abs_def] IsTemplateInstruction_def SaveTo_class [OF row])
  moreover have "receives (class_loader w block_at (opcode i) R I T k :: 'b loader_base_scheme \<Rightarrow> _) (b1 @ b2)
      (template_instruction (opcode i) R (inputs i) (temps i) own') (k = KFrame) (k = KDeferred)"
    unfolding class_loader_def if_not_P [OF False]
    by (rule receives_bind_loads [OF loads_marked [OF b1(2)]]) (use b2(2) i(1) in simp)
  ultimately show ?thesis using own'(2) class_table_rows(5,6) [OF row] by auto
qed


text \<open>\<^verbatim>\<open>SaveInstruction\<close> and \<^verbatim>\<open>LoadInstruction\<close> in three parts.\<close>

lemma SaveInstruction_parts:
  "(SaveInstruction w i :: 'a sv) = (\<lambda>s. SavePrimitive (word_of_nat (opcode i) :: uint32) s \<bind> (\<lambda>s. SaveInstruction_class w i s \<bind>
     (\<lambda>s. RETURN_ON_FAIL s (hydrogen_shim i \<bind> (\<lambda>shim. SaveHydrogenShim w (opcode i) shim s \<bind>
        (\<lambda>s. RETURN_ON_FAIL s (SaveInstruction_rest w i s)))))))"
proof -
  have "(RETURN_ON_FAIL s p \<bind> (\<lambda>s. RETURN_ON_FAIL s (q s))) = RETURN_ON_FAIL s (p \<bind> (\<lambda>s. RETURN_ON_FAIL s (q s)))"
    for s :: "'a saver_base_scheme" and p q by (simp add: RETURN_ON_FAIL_def)
  then show ?thesis
    by (simp add: fun_eq_iff SaveInstruction_def SaveInstruction_class_def SaveInstruction_rest_def Option.bind_assoc)
qed

theorem instruction_transmitted:
  fixes w :: "'w constant_world_scheme"
  assumes wf: "instruction_wf w block_at i" and ok: "attachments_ok w i" and shim: "hydrogen_shim i = Some shim"
    and reloads: "reloads_instruction_shim w C GetValue (opcode i) shim shim'"
  shows "\<exists>bs i'. saves C (SaveInstruction w i :: 'a sv) bs \<and>
    receives (LoadInstruction w block_at GetValue :: 'b loader_base_scheme \<Rightarrow> _) bs (Some i')
      (opcode i = kArgumentsElements) (opcode i = kStackCheck) \<and>
    same_instruction w C GetValue i i'"
proof -
  obtain R I T k where row: "map_of class_table (opcode i) = Some (R, I, T, k)" and R: "length (results i) = R"
    using wf by (auto simp: instruction_wf_def)
  note rows = class_table_rows [OF row]
  let ?op = "word_of_nat (opcode i) :: uint32"
  have op: "unat ?op = opcode i" using rows(8) by (simp add: kNumberOfInstructions_def)
  obtain b1 where b1: "saves C (SavePrimitive ?op :: 'a sv) b1" "loads (LoadPrimitive :: 'b loader_base_scheme \<Rightarrow> _) b1 ?op"
    using transmits_primitives(3) by (rule transmitsE)
  obtain b2 own' where b2: "saves C (SaveInstruction_class w i :: 'a sv) b2"
    "receives (class_loader w block_at (opcode i) R I T k :: 'b loader_base_scheme \<Rightarrow> _) b2
      (template_instruction (opcode i) R (inputs i) (temps i) own') (opcode i = kArgumentsElements) (opcode i = kStackCheck)"
    "same_members w (members i) own'"
    using saves_class [OF row wf] by blast
  obtain b3 where b3: "saves C (SaveHydrogenShim w (opcode i) shim :: 'a sv) b3"
    "loads (LoadHydrogenShim w GetValue (opcode i) :: 'b loader_base_scheme \<Rightarrow> _) b3 shim'"
    using transmits_HydrogenShim [OF reloads] by (rule transmitsE)
  let ?j = "template_instruction (opcode i) R (inputs i) (temps i) own'\<lparr>hydrogen_shim := shim'\<rparr>"
  have j: "results ?j = replicate (length (results i)) None" "length (results i) \<le> 1" "environment ?j = []" "pointer_map ?j = None"
    using R rows(7) by (simp_all add: template_instruction_def)
  obtain b4 env' where b4: "saves C (SaveInstruction_rest w i :: 'a sv) b4"
    "loads (LoadInstruction_rest w ?j :: 'b loader_base_scheme \<Rightarrow> _) b4
      (Some (?j\<lparr>results := results i, environment := env', pointer_map := pointer_map i\<rparr>))"
    "same_environment w (environment i) env'"
    using transmits_rest [OF ok j, where C = C, unfolded transmits_def] by blast
  let ?i' = "?j\<lparr>results := results i, environment := env', pointer_map := pointer_map i\<rparr>"
  have "saves C (SaveInstruction w i :: 'a sv) (b1 @ b2 @ b3 @ b4)"
    unfolding SaveInstruction_parts shim Option.bind.bind_lunit
    by (intro saves_bind [OF b1(1)] saves_bind [OF b2(1)] saves_return saves_bind [OF b3(1)] b4(1))
  moreover have "receives (LoadInstruction w block_at GetValue :: 'b loader_base_scheme \<Rightarrow> _) (b1 @ b2 @ b3 @ b4) (Some ?i')
      (opcode i = kArgumentsElements) (opcode i = kStackCheck)"
    unfolding LoadInstruction_def [abs_def]
    apply (rule loads_bind_receives [OF b1(2)])
    unfolding op loader_class [OF row] Option.bind.bind_lunit
    apply (rule receives_bind_loads [OF b2(2)])
    apply (rule loads_bind [OF b3(2)])
    apply (rule loads_return)
    using b4(2) by (simp add: LoadInstruction_rest_def [abs_def] Let_def)
  moreover have "same_instruction w C GetValue i ?i'"
    using b2(3) b4(3) shim reloads by (auto simp: same_instruction_def template_instruction_def)
  ultimately show ?thesis by blast
qed

section \<open>Properties\<close>

text \<open>C27 An instruction of any class that the format carries is written, and \<^verbatim>\<open>LoadInstruction\<close> reads
  exactly the bytes written and makes of them an instruction of the same class with the same operands,
  members, environment and pointer map and with the shim that \<open>reloads_instruction_shim\<close> gives. Only loading
  an \<^verbatim>\<open>LArgumentsElements\<close> demands a frame, and only an \<^verbatim>\<open>LStackCheck\<close> marks the compilation as
  calling in deferred code.\<close>
theorem instruction_roundtrip:
  fixes w :: "'w constant_world_scheme" and s :: "'a saver_base_scheme"
  assumes "instruction_wf w block_at i" and "attachments_ok w i" and "hydrogen_shim i = Some shim"
    and "reloads_instruction_shim w (map_cache s) GetValue (opcode i) shim shim'" and "status s = SUCCEEDED"
  shows "\<exists>bs i'. SaveInstruction w i s = Some (s\<lparr>bytes := bytes s @ bs\<rparr>) \<and>
    same_instruction w (map_cache s) GetValue i i' \<and>
    (\<forall>l rest. status l = SUCCEEDED \<longrightarrow> input l = bs @ rest \<longrightarrow>
       LoadInstruction w block_at GetValue l =
         Some (Some i', (l :: 'b loader_base_scheme)\<lparr>input := rest,
           info_requires_frame := info_requires_frame l \<or> opcode i = kArgumentsElements,
           info_deferred_calling := info_deferred_calling l \<or> opcode i = kStackCheck\<rparr>))"
proof -
  obtain bs i' where bs: "saves (map_cache s) (SaveInstruction w i :: 'a sv) bs"
    "receives (LoadInstruction w block_at GetValue :: 'b loader_base_scheme \<Rightarrow> _) bs (Some i')
      (opcode i = kArgumentsElements) (opcode i = kStackCheck)"
    "same_instruction w (map_cache s) GetValue i i'"
    using instruction_transmitted [OF assms(1-4)] by blast
  have "SaveInstruction w i s = Some (s\<lparr>bytes := bytes s @ bs\<rparr>)"
    using savesD [OF bs(1) assms(5) refl] .
  with bs(2,3) show ?thesis
    by (intro exI [of _ bs] exI [of _ i']) (simp add: receives_def note_flags_def)
qed

definition sample_add_shim :: hydrogen_shim where
  "sample_add_shim = AddShim (HAddShim (HBinaryOperationShim (HValueShim 7 1 0 kInteger32 HType_TaggedNumber 32) kInteger32 kInteger32) True)"

definition sample_add :: LInstruction where
  "sample_add = (LAddI (Some (ConvertTo REGISTER 1)) (Some (ConvertTo CONSTANT_OPERAND 2)))
     \<lparr>results := [Some (ConvertTo REGISTER 1)],
      hydrogen_value := Some \<lparr>value_id = 7, value_block_id = 0, value_position = 0, value_representation = kInteger32,
        value_flags = 32, value_constant = None\<rparr>, hydrogen_shim := Some sample_add_shim,
      pointer_map := Some \<lparr>pointer_operands = [Some (ConvertTo STACK_SLOT 3)], untagged_operands = [], lithium_position = 4\<rparr>\<rparr>"

lemma opcode_sample_add [simp]: "opcode sample_add = kAddI"
  by (simp add: sample_add_def LAddI_def template_instruction_def)

lemma sample_add_wf: "instruction_wf w block_at sample_add" "attachments_ok w sample_add"
  "hydrogen_shim sample_add = Some sample_add_shim"
proof -
  have "map_of class_table kAddI = Some (1, 2, 0, KNone)" by (simp add: class_table_def opcodes)
  then show "instruction_wf w block_at sample_add"
    by (simp add: instruction_wf_def) (simp add: sample_add_def LAddI_def template_instruction_def members_ok_def)
  show "attachments_ok w sample_add" "hydrogen_shim sample_add = Some sample_add_shim"
    by (simp_all add: attachments_ok_def sample_add_def LAddI_def template_instruction_def)
qed

lemma sample_add_reloads: "reloads_instruction_shim w C g (opcode sample_add) sample_add_shim (Some sample_add_shim)"
proof -
  have "kAddI \<notin> set LITHIUM_CONSTANT_INSTRUCTION_LIST"
    "map_of HYDROGEN_CONCRETE_SHIM_OWNER_LIST kAddI = Some kHAddShim"
    by (simp_all add: LITHIUM_CONSTANT_INSTRUCTION_LIST_def HYDROGEN_CONCRETE_SHIM_OWNER_LIST_def opcodes)
  then show ?thesis unfolding opcode_sample_add
    by (rule reloads_instruction_shim.listed) (simp_all add: shim_as_def sample_add_shim_def,
        rule reloads_shim.plain, simp add: plain_classes_def)
qed

lemmas sample_add_ok = sample_add_wf sample_add_reloads

lemma instruction_roundtrip_witness:
  "\<exists>bs i'. SaveInstruction sample_constant_world sample_add (LChunkSaverBase :: saver_base) = Some (LChunkSaverBase\<lparr>bytes := bs\<rparr>) \<and>
    same_instruction sample_constant_world [] (\<lambda>_. None) sample_add i' \<and>
    LoadInstruction sample_constant_world (\<lambda>_. None) (\<lambda>_. None) (LChunkLoaderBase bs :: loader_base) =
      Some (Some i', LChunkLoaderBase [])"
proof -
  have start: "map_cache (LChunkSaverBase :: saver_base) = []" "status (LChunkSaverBase :: saver_base) = SUCCEEDED"
    "bytes (LChunkSaverBase :: saver_base) = []" by (simp_all add: LChunkSaverBase_def)
  have op: "opcode sample_add \<noteq> kArgumentsElements" "opcode sample_add \<noteq> kStackCheck"
    by (simp_all add: opcodes)
  have l: "status (LChunkLoaderBase bs) = SUCCEEDED" "input (LChunkLoaderBase bs) = bs @ []" for bs
    by (simp_all add: LChunkLoaderBase_def)
  show ?thesis
    using instruction_roundtrip [OF sample_add_ok start(2), where 'b = unit and w = sample_constant_world and
        block_at = "\<lambda>_. None" and GetValue = "\<lambda>_. None"] l start(1,3) op
    by (fastforce simp: LChunkLoaderBase_def)
qed

end
