(* ===== verification/ShimTypes.thy ===== *)
theory ShimTypes
  imports InstructionsRoundtrip
begin

text \<open>
  The C++ type that code generation sees. \<^verbatim>\<open>hydrogen_shim()\<close> of a concrete instruction casts, without a
  check, the shim that was loaded to the class that \<^verbatim>\<open>DECLARE_HYDROGEN_SHIM\<close> names. The class that the
  loader makes for each opcode is compared with it.
\<close>

section \<open>The declared classes\<close>

text \<open>The uses of \<^verbatim>\<open>DECLARE_HYDROGEN_SHIM\<close>, by the class they stand in.\<close>

definition DECLARE_HYDROGEN_SHIM :: "(Opcode \<times> shim_class) list" where
  "DECLARE_HYDROGEN_SHIM =
    [(kDeoptimize, kHDeoptimizeShim), (kWrapReceiver, kHWrapReceiverShim),
     (kArgumentsElements, kHArgumentsElementsShim),
     (kCompareNumericAndBranch, kHCompareNumericAndBranchShim),
     (kMathAbs, kHUnaryMathOperationShim),
     (kCompareMinusZeroAndBranch, kHUnaryControlInstructionShim),
     (kIsStringAndBranch, kHUnaryControlInstructionShim),
     (kIsUndetectableAndBranch, kHUnaryControlInstructionShim),
     (kStringCompareAndBranch, kHStringCompareAndBranchShim),
     (kHasInstanceTypeAndBranch, kHUnaryControlInstructionShim), (kCmpT, kHCompareGenericShim),
     (kInstanceOfKnownGlobal, kHInstanceOfKnownGlobalShim), (kBoundsCheck, kHBoundsCheckShim),
     (kBitI, kHBitwiseShim), (kSubI, kHBinaryOperationShim), (kConstantI, kHConstantShim),
     (kConstantS, kHConstantShim), (kConstantD, kHConstantShim), (kConstantE, kHConstantShim),
     (kConstantT, kHConstantShim), (kBranch, kHBranchShim), (kCmpMapAndBranch, kHCompareMapShim),
     (kAddI, kHAddShim), (kMathMinMax, kHMathMinMaxShim), (kPower, kHPowerShim),
     (kLoadNamedField, kHLoadNamedFieldShim), (kLoadNamedGeneric, kHLoadNamedGenericShim),
     (kLoadRoot, kHLoadRootShim), (kLoadKeyed, kHLoadKeyedShim),
     (kLoadGlobalCell, kHGlobalCellShim), (kLoadGlobalGeneric, kHLoadGlobalGenericShim),
     (kStoreGlobalCell, kHGlobalCellShim), (kLoadContextSlot, kHLoadContextSlotShim),
     (kStoreContextSlot, kHStoreContextSlotShim), (kDeclareGlobals, kHDeclareGlobalsShim),
     (kCallJSFunction, kHCallJSFunctionShim), (kInvokeFunction, kHInvokeFunctionShim),
     (kCallFunction, kHCallFunctionShim), (kCallNew, kHCallShim),
     (kCallNewArray, kHCallNewArrayShim), (kCallRuntime, kHCallRuntimeShim),
     (kDoubleToI, kHDoubleToIShim), (kTaggedToI, kHChangeShim), (kSmiTag, kHUnaryOperationShim),
     (kNumberUntagD, kHChangeShim), (kStoreNamedField, kHStoreNamedFieldShim),
     (kStoreNamedGeneric, kHStoreNamedGenericShim), (kStoreKeyed, kHStoreKeyedShim),
     (kStoreKeyedGeneric, kHStoreKeyedGenericShim),
     (kTransitionElementsKind, kHTransitionElementsKindShim), (kStringAdd, kHStringAddShim),
     (kStringCharFromCode, kHStringCharFromCodeShim), (kCheckValue, kHCheckValueShim),
     (kCheckInstanceType, kHCheckInstanceTypeShim), (kCheckMaps, kHCheckMapsShim),
     (kCheckNonSmi, kHUnaryOperationShim), (kDoubleBits, kHDoubleBitsShim),
     (kAllocate, kHAllocateShim), (kRegExpLiteral, kHRegExpLiteralShim),
     (kFunctionLiteral, kHFunctionLiteralShim), (kTypeofIsAndBranch, kHTypeofIsAndBranchShim),
     (kStackCheck, kHStackCheckShim), (kForInCacheArray, kHForInCacheArrayShim)]"

text \<open>The classes that inherit the accessor of \<^verbatim>\<open>LControlInstruction\<close>.\<close>

definition control_instructions :: "Opcode list" where
  "control_instructions =
    [kCmpObjectEqAndBranch, kCmpHoleAndBranch, kIsObjectAndBranch, kIsSmiAndBranch,
     kHasCachedArrayIndexAndBranch, kClassOfTestAndBranch, kIsConstructCallAndBranch]"

text \<open>The class to which \<^verbatim>\<open>hydrogen_shim()\<close> of the concrete class casts; all others have the accessor of
  \<^verbatim>\<open>LInstruction\<close>, which casts nothing.\<close>

definition accessor_class :: "Opcode \<Rightarrow> shim_class" where
  "accessor_class op =
     (case map_of DECLARE_HYDROGEN_SHIM op of
        Some c \<Rightarrow> c
      | None \<Rightarrow> if op \<in> set control_instructions then kHControlInstructionShim else kHValueShim)"

text \<open>The class of the shim that the loader makes for an opcode.\<close>

definition loaded_class :: "Opcode \<Rightarrow> shim_class" where
  "loaded_class op =
     (case map_of HYDROGEN_CONCRETE_SHIM_OWNER_LIST op of Some c \<Rightarrow> c | None \<Rightarrow> kHValueShim)"

section \<open>Both agree\<close>

lemma owner_list_accessors:
  "list_all (\<lambda>(op, c). op \<noteq> kNumberUntagD \<longrightarrow> accessor_class op = c) HYDROGEN_CONCRETE_SHIM_OWNER_LIST"
  by (simp add: HYDROGEN_CONCRETE_SHIM_OWNER_LIST_def accessor_class_def DECLARE_HYDROGEN_SHIM_def
      control_instructions_def opcodes)

lemma accessors_listed:
  "list_all (\<lambda>op. op \<in> set LITHIUM_CONSTANT_INSTRUCTION_LIST \<or> op \<in> fst ` set HYDROGEN_CONCRETE_SHIM_OWNER_LIST)
     (map fst DECLARE_HYDROGEN_SHIM @ control_instructions)"
  by (simp add: HYDROGEN_CONCRETE_SHIM_OWNER_LIST_def LITHIUM_CONSTANT_INSTRUCTION_LIST_def DECLARE_HYDROGEN_SHIM_def
      control_instructions_def opcodes)

lemma loaded_accessor_class:
  assumes "op \<notin> set LITHIUM_CONSTANT_INSTRUCTION_LIST" "op \<noteq> kNumberUntagD"
  shows "accessor_class op = loaded_class op"
proof (cases "map_of HYDROGEN_CONCRETE_SHIM_OWNER_LIST op")
  case None
  then have "op \<notin> fst ` set HYDROGEN_CONCRETE_SHIM_OWNER_LIST" by (simp add: map_of_eq_None_iff)
  with accessors_listed assms(1) have "op \<notin> fst ` set DECLARE_HYDROGEN_SHIM" "op \<notin> set control_instructions"
    by (auto simp: list_all_iff)
  then have "map_of DECLARE_HYDROGEN_SHIM op = None" by (simp add: map_of_eq_None_iff)
  with None \<open>op \<notin> set control_instructions\<close> show ?thesis by (simp add: accessor_class_def loaded_class_def)
next
  case (Some c)
  with owner_list_accessors assms(2) show ?thesis
    by (auto simp: list_all_iff loaded_class_def dest: map_of_SomeD)
qed

lemma owner_list_NumberUntagD: "loaded_class kNumberUntagD = kHUnaryOperationShim" "accessor_class kNumberUntagD = kHChangeShim"
  by (simp_all add: loaded_class_def accessor_class_def HYDROGEN_CONCRETE_SHIM_OWNER_LIST_def
      DECLARE_HYDROGEN_SHIM_def opcodes)

lemma constants_accessors:
  "op \<in> set LITHIUM_CONSTANT_INSTRUCTION_LIST \<Longrightarrow> accessor_class op = kHConstantShim \<and> op \<noteq> kNumberUntagD"
  by (auto simp: LITHIUM_CONSTANT_INSTRUCTION_LIST_def accessor_class_def DECLARE_HYDROGEN_SHIM_def opcodes)

section \<open>The class of a loaded shim\<close>

lemma LoadHydrogenShim_class:
  assumes "LoadHydrogenShim w GetValue op l = Some (Some shim, l')" "op \<notin> set LITHIUM_CONSTANT_INSTRUCTION_LIST"
  shows "class_of shim = loaded_class op"
proof (cases "map_of HYDROGEN_CONCRETE_SHIM_OWNER_LIST op")
  case None
  with assms show ?thesis by (auto simp: LoadHydrogenShim_def loaded_class_def split_def bind_eq_Some_conv)
next
  case (Some c)
  with assms have "LoadShim w c l = Some (Some shim, l')" by (simp add: LoadHydrogenShim_def)
  with Some LoadShim_class show ?thesis by (simp add: loaded_class_def)
qed

text \<open>Nothing that follows the construction changes the opcode or the shim.\<close>

lemma LoadInstruction_keeps:
  "LoadTemplateResultInstruction i l = Some (j, l') \<Longrightarrow> opcode j = opcode i \<and> hydrogen_shim j = hydrogen_shim i"
  "LoadInstruction_environment w i l = Some (j, l') \<Longrightarrow> opcode j = opcode i \<and> hydrogen_shim j = hydrogen_shim i"
  "LoadInstruction_pointer_map i l = Some (j, l') \<Longrightarrow> opcode j = opcode i \<and> hydrogen_shim j = hydrogen_shim i"
  by (auto simp: LoadTemplateResultInstruction_def LoadInstruction_environment_def LoadInstruction_pointer_map_def
      set_result_def bind_eq_Some_conv split: list.splits if_splits)

lemma LoadLCallWithDescriptor_opcode: "LoadLCallWithDescriptor l = Some (i, l') \<Longrightarrow> opcode i = kCallWithDescriptor"
  by (auto simp: LoadLCallWithDescriptor_def LCallWithDescriptor_def template_instruction_def bind_eq_Some_conv)

lemma instruction_loaders_opcode:
  assumes "map_of (instruction_loaders w block_at) op = Some load" "load l = Some (i, l')"
  shows "opcode i = op"
proof -
  obtain R I T k where row: "map_of class_table op = Some (R, I, T, k)" and load: "load = class_loader w block_at op R I T k"
    using assms(1) by (cases "map_of class_table op") (auto simp: loaders_class_table)
  show ?thesis
  proof (cases "k = KOperandList")
    case True
    with class_table_rows(4) [OF row] assms(2) load LoadLCallWithDescriptor_opcode show ?thesis
      by (simp add: class_loader_def)
  next
    case False
    with assms(2) load show ?thesis by (auto simp: class_loader_def template_instruction_def bind_eq_Some_conv)
  qed
qed

lemma LoadInstruction_shim:
  fixes l :: "'b loader_base_scheme"
  assumes "LoadInstruction w block_at GetValue l = Some (Some i, l')"
  shows "\<exists>l l' :: 'b loader_base_scheme. LoadHydrogenShim w GetValue (opcode i) l = Some (hydrogen_shim i, l')"
proof -
  obtain op l1 load j l2 shim l3 where parts: "map_of (instruction_loaders w block_at) (unat (op :: uint32)) = Some load"
    "load l1 = Some (j, l2)" "LoadHydrogenShim w GetValue (unat op) l2 = Some (shim, l3)"
    "RETURN_VALUE_ON_FAIL None l3 (LoadInstruction_rest w (j\<lparr>hydrogen_shim := shim\<rparr>) l3) = Some (Some i, l')"
    using assms by (auto simp: LoadInstruction_def LoadInstruction_rest_def bind_eq_Some_conv Let_def)
  have "opcode j = unat op" by (rule instruction_loaders_opcode [OF parts(1,2)])
  moreover have "opcode i = opcode j \<and> hydrogen_shim i = shim"
    using parts(4) by (auto simp: RETURN_VALUE_ON_FAIL_def LoadInstruction_rest_def bind_eq_Some_conv
        split: if_splits dest!: LoadInstruction_keeps)
  ultimately show ?thesis using parts(3) by metis
qed

section \<open>Properties\<close>

text \<open>C28 The shim of a loaded instruction is an object of the class to which its accessor casts it, for
  every class of instruction but \<^verbatim>\<open>LNumberUntagD\<close>: there the accessor casts a \<^verbatim>\<open>HUnaryOperationShim\<close>
  to a \<^verbatim>\<open>HChangeShim\<close>, which has more members.\<close>
theorem loaded_shim_type:
  assumes "LoadInstruction w block_at GetValue l = Some (Some i, l')" and "hydrogen_shim i = Some shim"
    and "\<forall>index shim. GetValue index = Some shim \<longrightarrow> class_of shim = kHConstantShim"
  shows "class_of shim = (if opcode i = kNumberUntagD then kHUnaryOperationShim else accessor_class (opcode i)) \<and>
    accessor_class kNumberUntagD = kHChangeShim"
proof (cases "opcode i \<in> set LITHIUM_CONSTANT_INSTRUCTION_LIST")
  case True
  with LoadInstruction_shim [OF assms(1)] assms(2,3) have "class_of shim = kHConstantShim"
    by (auto simp: LoadHydrogenShim_def bind_eq_Some_conv)
  with constants_accessors [OF True] owner_list_NumberUntagD show ?thesis by simp
next
  case False
  with LoadInstruction_shim [OF assms(1)] assms(2) have "class_of shim = loaded_class (opcode i)"
    by (auto intro: LoadHydrogenShim_class)
  with loaded_accessor_class [OF False] owner_list_NumberUntagD show ?thesis by simp
qed

lemma loaded_shim_type_witness:
  "\<exists>bs i l shim. LoadInstruction sample_constant_world (\<lambda>_. None) (\<lambda>_. None) (LChunkLoaderBase bs) = Some (Some i, l) \<and>
     hydrogen_shim i = Some shim \<and> class_of shim = accessor_class kAddI"
proof -
  have "status (LChunkLoaderBase bs) = SUCCEEDED" "input (LChunkLoaderBase bs) = bs @ []" for bs
    by (simp_all add: LChunkLoaderBase_def)
  with instruction_transmitted [OF sample_add_ok, where C = "[]" and w = sample_constant_world and
      block_at = "\<lambda>_. None" and GetValue = "\<lambda>_. None"] obtain bs i l
    where i: "LoadInstruction sample_constant_world (\<lambda>_. None) (\<lambda>_. None) (LChunkLoaderBase bs) = Some (Some i, l)"
      "same_instruction sample_constant_world [] (\<lambda>_. None) sample_add i"
    unfolding receives_def by (metis (no_types))
  note op = opcode_sample_add
  have op': "opcode i = kAddI" "kAddI \<noteq> kNumberUntagD" using i(2) by (simp_all add: same_instruction_def opcodes)
  have "kAddI \<notin> set LITHIUM_CONSTANT_INSTRUCTION_LIST" by (simp add: LITHIUM_CONSTANT_INSTRUCTION_LIST_def opcodes)
  then obtain shim where shim: "hydrogen_shim i = Some shim"
    using i(2) by (auto simp: same_instruction_def op reloads_instruction_shim.simps)
  from loaded_shim_type [OF i(1) shim] op' have "class_of shim = accessor_class kAddI" by simp
  with i(1) shim show ?thesis by blast
qed

end
