(* ===== verification/Chunk.thy ===== *)
theory Chunk
  imports InstructionSaveload BitVector
begin

text \<open>
  The whole of a compiled function: \<^verbatim>\<open>LChunk\<close> of \<^verbatim>\<open>src/lithium.{h,cc}\<close> with the blocks of its graph
  (\<^verbatim>\<open>HGraph\<close> and \<^verbatim>\<open>HBasicBlock\<close> of \<^verbatim>\<open>src/hydrogen.{h,cc}\<close>, as far as Lithium reads them), and the saving
  and loading of a chunk in \<^verbatim>\<open>src/x64/lithium-saveload-x64.cc\<close>, with \<^verbatim>\<open>LSavedChunk\<close>.
\<close>

section \<open>Blocks and graphs\<close>

text \<open>A block is known by its number. Of its last environment only the \<^verbatim>\<open>ast_id\<close> is read; \<^const>\<open>None\<close> is a null
  pointer.\<close>

record HLoopInformation =
  loop_back_edges :: "int32 list"
  loop_header :: int32
  loop_blocks :: "int32 list"

record HBasicBlock =
  block_id :: int32
  loop_information :: "HLoopInformation option"
  last_environment :: "int32 option"
  first_instruction_index :: int32
  last_instruction_index :: int32
  inlined_entry_block :: "int32 option"
  is_inline_return_target :: bool
  is_reachable :: bool
  dominates_loop_successors :: bool
  is_osr_entry :: bool
  is_ordered :: bool

text \<open>\<open>graph_osr\<close> are the frame slots of the \<^verbatim>\<open>HOsrBuilder\<close>, if there is one.\<close>

record HGraph =
  next_block_id :: int32
  blocks :: "HBasicBlock list"
  graph_values :: "HValue option list"
  graph_osr :: "int32 option"
  maximum_environment_size :: int32

definition new_HBasicBlock :: "int32 \<Rightarrow> HBasicBlock" where
  "new_HBasicBlock number =
     \<lparr>block_id = number, loop_information = None, last_environment = None, first_instruction_index = -1,
      last_instruction_index = -1, inlined_entry_block = None, is_inline_return_target = False,
      is_reachable = True, dominates_loop_successors = False, is_osr_entry = False, is_ordered = False\<rparr>"

definition IsLoopHeader :: "HBasicBlock \<Rightarrow> bool" where
  "IsLoopHeader bb \<longleftrightarrow> loop_information bb \<noteq> None"

definition AttachLoopInformation :: "HBasicBlock \<Rightarrow> HBasicBlock" where
  "AttachLoopInformation bb = bb\<lparr>loop_information :=
     Some \<lparr>loop_back_edges = [], loop_header = block_id bb, loop_blocks = [block_id bb]\<rparr>\<rparr>"

definition MarkAsInlineReturnTarget :: "int32 \<Rightarrow> HBasicBlock \<Rightarrow> HBasicBlock" where
  "MarkAsInlineReturnTarget entry bb = bb\<lparr>is_inline_return_target := True, inlined_entry_block := Some entry\<rparr>"

definition MarkUnreachable :: "HBasicBlock \<Rightarrow> HBasicBlock" where
  "MarkUnreachable bb = bb\<lparr>is_reachable := False\<rparr>"

definition MarkAsLoopSuccessorDominator :: "HBasicBlock \<Rightarrow> HBasicBlock" where
  "MarkAsLoopSuccessorDominator bb = bb\<lparr>dominates_loop_successors := True\<rparr>"

definition set_osr_entry :: "HBasicBlock \<Rightarrow> HBasicBlock" where
  "set_osr_entry bb = bb\<lparr>is_osr_entry := True\<rparr>"

definition MarkAsOrdered :: "HBasicBlock \<Rightarrow> HBasicBlock" where
  "MarkAsOrdered bb = bb\<lparr>is_ordered := True\<rparr>"

text \<open>\<^verbatim>\<open>blocks()->at(i)\<close>; the check of the bounds is for debug builds only, outside of them there is no
  block.\<close>

definition block_at_index :: "HGraph \<Rightarrow> int32 \<Rightarrow> HBasicBlock option" where
  "block_at_index g i =
     (if 0 \<le> sint i \<and> nat (sint i) < length (blocks g) then Some (blocks g ! nat (sint i)) else None)"

definition update_block :: "nat \<Rightarrow> (HBasicBlock \<Rightarrow> HBasicBlock) \<Rightarrow> HGraph \<Rightarrow> HGraph" where
  "update_block i f g = g\<lparr>blocks := (blocks g)[i := f (blocks g ! i)]\<rparr>"

definition update_maximum_environment_size :: "int32 \<Rightarrow> HGraph \<Rightarrow> HGraph" where
  "update_maximum_environment_size environment_size g =
     (if sint (maximum_environment_size g) < sint environment_size
      then g\<lparr>maximum_environment_size := environment_size\<rparr> else g)"

text \<open>\<^verbatim>\<open>graph->CreateBasicBlock()\<close>, and \<^verbatim>\<open>SetInitialEnvironment\<close> on the block that was created last. The
  environments that are made are those of the function itself: their size \<open>first_expression_index\<close> is
  given by the scope of the function.\<close>

definition CreateBasicBlock :: "HGraph \<Rightarrow> HGraph" where
  "CreateBasicBlock g = g\<lparr>next_block_id := next_block_id g + 1, blocks := blocks g @ [new_HBasicBlock (next_block_id g)]\<rparr>"

definition SetInitialEnvironment :: "int32 \<Rightarrow> nat \<Rightarrow> int32 \<Rightarrow> HGraph \<Rightarrow> HGraph" where
  "SetInitialEnvironment first_expression_index i ast_id g =
     update_maximum_environment_size first_expression_index
       (update_block i (\<lambda>bb. bb\<lparr>last_environment := Some ast_id\<rparr>) g)"

definition kFunctionEntryId :: int32 where
  "kFunctionEntryId = 2"

definition new_HGraph :: "int32 \<Rightarrow> HGraph" where
  "new_HGraph first_expression_index =
     SetInitialEnvironment first_expression_index 0 kFunctionEntryId
       (CreateBasicBlock \<lparr>next_block_id = 0, blocks = [], graph_values = [], graph_osr = None,
          maximum_environment_size = 0\<rparr>)"

definition GetMaximumValueID :: "HGraph \<Rightarrow> int32" where
  "GetMaximumValueID g = int_length (graph_values g)"

definition LookupValue :: "HGraph \<Rightarrow> int32 \<Rightarrow> HValue option" where
  "LookupValue g i =
     (if 0 \<le> sint i \<and> nat (sint i) < length (graph_values g) then graph_values g ! nat (sint i) else None)"

section \<open>Chunks\<close>

text \<open>\<open>pointer_maps\<close> are the indices of the instructions that own the pointer maps.\<close>

record LChunk =
  spill_slot_count :: int32
  graph :: HGraph
  chunk_values :: "hydrogen_shim option list"
  instructions :: "LInstruction list"
  pointer_maps :: "nat list"
  inlined_closures :: "addr list"
  dehoisted_key_ids :: BitVector

definition new_LChunk :: "HGraph \<Rightarrow> LChunk" where
  "new_LChunk g =
     \<lparr>spill_slot_count = 0, graph = g, chunk_values = [], instructions = [], pointer_maps = [],
      inlined_closures = [], dehoisted_key_ids = new_BitVector (GetMaximumValueID g)\<rparr>"

text \<open>An index into the values is compared with their number as an \<^verbatim>\<open>int\<close>: below 0 it is out of bounds.\<close>

definition SetValue :: "int32 \<Rightarrow> hydrogen_shim option \<Rightarrow> LChunk \<Rightarrow> LChunk option" where
  "SetValue index shim c =
     (if sint index < 0 then None
      else let i = nat (sint index); n = length (chunk_values c) in
        Some (c\<lparr>chunk_values :=
          (if i < n then (chunk_values c)[i := shim] else chunk_values c @ replicate (i - n) None @ [shim])\<rparr>))"

definition GetValue :: "LChunk \<Rightarrow> int32 \<Rightarrow> hydrogen_shim option" where
  "GetValue c index =
     (if 0 \<le> sint index \<and> nat (sint index) < length (chunk_values c) then chunk_values c ! nat (sint index) else None)"

definition constant_shim :: "HValue \<Rightarrow> HConstantShim option" where
  "constant_shim v =
     map_option (HConstantShim_of (value_id v) (value_block_id v) (value_position v) (value_flags v)) (value_constant v)"

text \<open>The number in a constant operand, as a machine integer.\<close>

definition constant_index :: "LOperand \<Rightarrow> int32" where
  "constant_index operand = signed_drop_bit kKindFieldWidth operand"

definition DefineConstantOperand :: "HValue \<Rightarrow> LOperand" where
  "DefineConstantOperand constant = ConvertTo CONSTANT_OPERAND (sint (value_id constant))"

text \<open>\<^verbatim>\<open>LookupConstant\<close> casts the shim and the Hydrogen value without a check: \<^const>\<open>None\<close> is a null pointer
  or an object of another class.\<close>

definition LookupConstant :: "LOperand \<Rightarrow> LChunk \<Rightarrow> (HConstantShim \<times> LChunk) option" where
  "LookupConstant operand c =
     (let index = constant_index operand in
      case GetValue c index of
        Some shim \<Rightarrow> (case shim of ConstantShim constant \<Rightarrow> Some (constant, c) | _ \<Rightarrow> None)
      | None \<Rightarrow> do {
          hconstant \<leftarrow> LookupValue (graph c) index;
          constant \<leftarrow> constant_shim hconstant;
          c \<leftarrow> SetValue index (Some (ConstantShim constant)) c;
          Some (constant, c)
        })"

definition LookupLiteralRepresentation :: "LOperand \<Rightarrow> LChunk \<Rightarrow> Representation option" where
  "LookupLiteralRepresentation operand c =
     (let index = constant_index operand in
      case GetValue c index of
        Some shim \<Rightarrow> Some (shim_representation (base_shim shim))
      | None \<Rightarrow> map_option value_representation (LookupValue (graph c) index))"

text \<open>The gap of an instruction stands before a control instruction and after any other.\<close>

definition IsControl :: "LInstruction \<Rightarrow> bool" where
  "IsControl i \<longleftrightarrow> opcode i \<in> set [kGoto, kDeoptimize, kBranch, kClassOfTestAndBranch, kCmpHoleAndBranch,
     kCmpMapAndBranch, kCmpObjectEqAndBranch, kCompareMinusZeroAndBranch, kCompareNumericAndBranch,
     kHasCachedArrayIndexAndBranch, kHasInstanceTypeAndBranch, kIsConstructCallAndBranch, kIsObjectAndBranch,
     kIsSmiAndBranch, kIsStringAndBranch, kIsUndetectableAndBranch, kStringCompareAndBranch, kTypeofIsAndBranch]"

text \<open>\<^verbatim>\<open>AddInstruction(instr, block)\<close> of the builder; the gap takes the Hydrogen value of the instruction and
  with it a shim of the base class.\<close>

definition HValueShim_of :: "HValue \<Rightarrow> HType \<Rightarrow> HValueShim" where
  "HValueShim_of v type =
     HValueShim (value_id v) (value_block_id v) (value_position v) (value_representation v) type (value_flags v)"

definition AddInstruction :: "LInstruction \<Rightarrow> int32 \<Rightarrow> hydrogen_shim \<Rightarrow> LChunk \<Rightarrow> LChunk" where
  "AddInstruction i block gap_shim c =
     (let gap = (LInstructionGap block)\<lparr>hydrogen_value := hydrogen_value i, hydrogen_shim := Some gap_shim\<rparr>;
          index = (if IsControl i then length (instructions c) + 1 else length (instructions c));
          i = i\<lparr>pointer_map := map_option (\<lambda>m. m\<lparr>lithium_position := word_of_nat index\<rparr>) (pointer_map i)\<rparr>;
          c = c\<lparr>instructions := instructions c @ (if IsControl i then [gap, i] else [i, gap])\<rparr>
      in if pointer_map i \<noteq> None then c\<lparr>pointer_maps := pointer_maps c @ [index]\<rparr> else c)"

definition AddLoadedInstruction :: "LInstruction \<Rightarrow> LChunk \<Rightarrow> LChunk" where
  "AddLoadedInstruction i c = c\<lparr>instructions := instructions c @ [i]\<rparr>"

definition AddInlinedClosure :: "addr \<Rightarrow> LChunk \<Rightarrow> LChunk" where
  "AddInlinedClosure closure c = c\<lparr>inlined_closures := inlined_closures c @ [closure]\<rparr>"

definition instruction_at :: "LChunk \<Rightarrow> int \<Rightarrow> LInstruction option" where
  "instruction_at c i = (if 0 \<le> i \<and> nat i < length (instructions c) then Some (instructions c ! nat i) else None)"

definition IsGapAt :: "LChunk \<Rightarrow> int \<Rightarrow> bool option" where
  "IsGapAt c index = map_option IsGap (instruction_at c index)"

text \<open>\<^verbatim>\<open>while (!IsGapAt(index)) index--\<close>, which leaves the list when no gap precedes.\<close>

function NearestGapPos :: "LChunk \<Rightarrow> int \<Rightarrow> int option" where
  "NearestGapPos c index =
     (case IsGapAt c index of None \<Rightarrow> None | Some gap \<Rightarrow> if gap then Some index else NearestGapPos c (index - 1))"
  by pat_completeness auto
termination
  by (relation "measure (\<lambda>(c, index). nat (index + 1))")
    (auto simp: IsGapAt_def instruction_at_def split: if_splits)

declare NearestGapPos.simps [simp del]

definition AddGapMove :: "int \<Rightarrow> operand \<Rightarrow> operand \<Rightarrow> LChunk \<Rightarrow> LChunk option" where
  "AddGapMove index from to c = do {
     gap \<leftarrow> instruction_at c index;
     let (move, gap) = GetOrCreateParallelMove START gap;
     Some (c\<lparr>instructions := (instructions c)[nat index := SetParallelMove START (Some (AddMove from to move)) gap]\<rparr>)
   }"

text \<open>\<open>num_parameters\<close> is what the compilation says of the function.\<close>

definition GetParameterStackSlot :: "int \<Rightarrow> int \<Rightarrow> int" where
  "GetParameterStackSlot num_parameters index = index - num_parameters - 1"

definition ParameterAt :: "int \<Rightarrow> int \<Rightarrow> int" where
  "ParameterAt num_parameters index = (1 + num_parameters - index) * 8"

text \<open>On x64 a double has the size of a pointer.\<close>

definition GetNextSpillIndex :: "LChunk \<Rightarrow> int32 \<times> LChunk" where
  "GetNextSpillIndex c = (spill_slot_count c, c\<lparr>spill_slot_count := spill_slot_count c + 1\<rparr>)"

definition GetNextSpillSlot :: "bool \<Rightarrow> LChunk \<Rightarrow> LOperand \<times> LChunk" where
  "GetNextSpillSlot double_registers c =
     (let (index, c) = GetNextSpillIndex c
      in (ConvertTo (if double_registers then DOUBLE_STACK_SLOT else STACK_SLOT) (sint index), c))"

definition IsDehoistedKey :: "nat \<Rightarrow> LChunk \<Rightarrow> bool option" where
  "IsDehoistedKey i c = Contains i (dehoisted_key_ids c)"

end
