(* ===== verification/ChunkSaveload.thy ===== *)
theory ChunkSaveload
  imports Chunk
begin

text \<open>
  Saving and loading a chunk (\<^verbatim>\<open>LChunkSaver::Save\<close> and \<^verbatim>\<open>LChunkLoader::Load\<close> of
  \<^verbatim>\<open>src/x64/lithium-saveload-x64.cc\<close>), and \<^verbatim>\<open>LSavedChunk\<close> of \<^verbatim>\<open>src/lithium.cc\<close>.
\<close>

section \<open>What the compilation knows\<close>

text \<open>The size of the environments of the function, whether the code of a function can be deoptimized to,
  and whether the full code generator succeeds in making it so.\<close>

record chunk_world = constant_world +
  w_first_expression_index :: int32
  w_has_deoptimization_support :: "addr \<Rightarrow> bool"
  w_EnsureDeoptimizationSupport :: "addr \<Rightarrow> bool"

text \<open>The flag \<^verbatim>\<open>this_has_uses\<close> of the \<^verbatim>\<open>CompilationInfo\<close>.\<close>

record chunk_saver = saver_base +
  saver_this_has_uses :: bool

record chunk_loader = loader_base +
  info_this_has_uses :: bool

section \<open>Blocks\<close>

definition SaveBasicBlock_members :: "HBasicBlock \<Rightarrow> 'a sv" where
  "SaveBasicBlock_members bb s = do {
     s \<leftarrow> SavePrimitive_bool (IsLoopHeader bb) s;
     s \<leftarrow> SavePrimitive_bool (is_inline_return_target bb) s;
     s \<leftarrow> if is_inline_return_target bb then do { entry \<leftarrow> inlined_entry_block bb; SavePrimitive entry s } else Some s;
     s \<leftarrow> SavePrimitive_bool (is_reachable bb) s;
     s \<leftarrow> SavePrimitive_bool (dominates_loop_successors bb) s;
     s \<leftarrow> SavePrimitive_bool (is_osr_entry bb) s;
     s \<leftarrow> SavePrimitive_bool (is_ordered bb) s;
     s \<leftarrow> SavePrimitive (first_instruction_index bb) s;
     SavePrimitive (last_instruction_index bb) s
   }"

definition SaveBasicBlock :: "nat \<Rightarrow> HBasicBlock \<Rightarrow> 'a sv" where
  "SaveBasicBlock block_index bb s = do {
     s \<leftarrow> if block_index \<noteq> 0 then do { ast_id \<leftarrow> last_environment bb; SavePrimitive ast_id s } else Some s;
     SaveBasicBlock_members bb s
   }"

definition SaveBasicBlocks :: "HBasicBlock list \<Rightarrow> 'a sv" where
  "SaveBasicBlocks bbs s = do {
     s \<leftarrow> SavePrimitive (int_length bbs) s;
     save_each (\<lambda>(block_index, bb). SaveBasicBlock block_index bb) (enumerate 0 bbs) s
   }"

text \<open>What is read of one block after it was created, and the entry block if it is an inlined return
  target.\<close>

definition LoadBasicBlock_members ::
  "HBasicBlock \<Rightarrow> 'b loader_base_scheme \<Rightarrow> (HBasicBlock \<times> int32 option, 'b) load_result" where
  "LoadBasicBlock_members bb l = do {
     (is_loop_header, l) \<leftarrow> LoadPrimitive_bool l;
     let bb = (if is_loop_header then AttachLoopInformation bb else bb);
     (is_target, l) \<leftarrow> LoadPrimitive_bool l;
     (inlined_entry, l) \<leftarrow> if is_target then do { (entry, l) \<leftarrow> LoadPrimitive l; Some (Some entry, l) } else Some (None, l);
     (reachable, l) \<leftarrow> LoadPrimitive_bool l;
     let bb = (if reachable then bb else MarkUnreachable bb);
     (dominates, l) \<leftarrow> LoadPrimitive_bool l;
     let bb = (if dominates then MarkAsLoopSuccessorDominator bb else bb);
     (osr_entry, l) \<leftarrow> LoadPrimitive_bool l;
     let bb = (if osr_entry then set_osr_entry bb else bb);
     (ordered, l) \<leftarrow> LoadPrimitive_bool l;
     let bb = (if ordered then MarkAsOrdered bb else bb);
     (first_index, l) \<leftarrow> LoadPrimitive l;
     (last_index, l) \<leftarrow> LoadPrimitive l;
     Some ((bb\<lparr>first_instruction_index := first_index, last_instruction_index := last_index\<rparr>, inlined_entry), l)
   }"

text \<open>The block with the index 0 is the entry block that the graph was made with.\<close>

definition LoadBasicBlock ::
  "'w chunk_world_scheme \<Rightarrow> nat \<Rightarrow> HGraph \<Rightarrow> 'b loader_base_scheme \<Rightarrow> (HGraph \<times> int32 option, 'b) load_result" where
  "LoadBasicBlock w block_index g l = do {
     (g, l) \<leftarrow> if block_index = 0 then Some (g, l)
       else do {
         let g = CreateBasicBlock g;
         (ast_id, l) \<leftarrow> LoadPrimitive l;
         Some (SetInitialEnvironment (w_first_expression_index w) (length (blocks g) - 1) ast_id g, l)
       };
     let i = (if block_index = 0 then 0 else length (blocks g) - 1);
     if i < length (blocks g) then do {
       ((bb, inlined_entry), l) \<leftarrow> LoadBasicBlock_members (blocks g ! i) l;
       Some ((update_block i (\<lambda>_. bb) g, inlined_entry), l)
     } else None
   }"

text \<open>The first loop collects the blocks that are inlined return targets with the numbers of their entries,
  because an entry may come later; the second one sets the entries.\<close>

primrec LoadBasicBlocks_loop ::
  "'w chunk_world_scheme \<Rightarrow> nat \<Rightarrow> nat \<Rightarrow> HGraph \<Rightarrow> (int32 \<times> int32) list \<Rightarrow> 'b loader_base_scheme
   \<Rightarrow> (HGraph \<times> (int32 \<times> int32) list, 'b) load_result" where
  "LoadBasicBlocks_loop w 0 block_index g records l = Some ((g, records), l)"
| "LoadBasicBlocks_loop w (Suc n) block_index g records l = do {
     ((g, inlined_entry), l) \<leftarrow> LoadBasicBlock w block_index g l;
     let records = (case inlined_entry of
       Some entry \<Rightarrow> records @ [(word_of_nat block_index, entry)] | None \<Rightarrow> records);
     LoadBasicBlocks_loop w n (Suc block_index) g records l
   }"

primrec set_inline_return_targets :: "(int32 \<times> int32) list \<Rightarrow> HGraph \<Rightarrow> HGraph option" where
  "set_inline_return_targets [] g = Some g"
| "set_inline_return_targets (rec # recs) g = do {
     return_target \<leftarrow> block_at_index g (fst rec);
     entry_block \<leftarrow> block_at_index g (snd rec);
     set_inline_return_targets recs
       (update_block (nat (sint (fst rec))) (MarkAsInlineReturnTarget (block_id entry_block)) g)
   }"

definition LoadBasicBlocks ::
  "'w chunk_world_scheme \<Rightarrow> HGraph \<Rightarrow> 'b loader_base_scheme \<Rightarrow> (HGraph, 'b) load_result" where
  "LoadBasicBlocks w g l = do {
     (number_of_blocks, l) \<leftarrow> LoadPrimitive l;
     ((g, records), l) \<leftarrow> LoadBasicBlocks_loop w (iterations number_of_blocks) 0 g [] l;
     g \<leftarrow> set_inline_return_targets records g;
     Some (g, l)
   }"

section \<open>Constants\<close>

text \<open>A mark outside of the vector is a write out of bounds.\<close>

definition mark_constant :: "int32 \<Rightarrow> BitVector \<Rightarrow> BitVector option" where
  "mark_constant index live = (if sint index < 0 then None else Add (nat (sint index)) live)"

definition check_and_mark :: "operand \<Rightarrow> BitVector \<Rightarrow> BitVector option" where
  "check_and_mark operand live =
     (case operand of
        Some op \<Rightarrow> if IsConstantOperand op then mark_constant (constant_index op) live else Some live
      | None \<Rightarrow> Some live)"

primrec mark_operands :: "operand list \<Rightarrow> BitVector \<Rightarrow> BitVector option" where
  "mark_operands [] live = Some live"
| "mark_operands (operand # operands) live = check_and_mark operand live \<bind> mark_operands operands"

definition moves_operands :: "LParallelMove option list \<Rightarrow> operand list" where
  "moves_operands ms =
     concat (map (\<lambda>m. case m of None \<Rightarrow> [] | Some moves \<Rightarrow>
       concat (map (\<lambda>mv. [mv_source mv, mv_destination mv]) moves)) ms)"

definition mark_instruction :: "LInstruction \<Rightarrow> BitVector \<Rightarrow> BitVector option" where
  "mark_instruction i live = do {
     v \<leftarrow> hydrogen_value i;
     live \<leftarrow> if value_constant v \<noteq> None then mark_constant (value_id v) live else Some live;
     live \<leftarrow> mark_operands (inputs i) live;
     live \<leftarrow> if IsGap i then mark_operands (moves_operands (parallel_moves i)) live else Some live;
     mark_operands (concat (map env_values (environment i))) live
   }"

primrec mark_instructions :: "LInstruction list \<Rightarrow> BitVector \<Rightarrow> BitVector option" where
  "mark_instructions [] live = Some live"
| "mark_instructions (i # is) live = mark_instruction i live \<bind> mark_instructions is"

definition LiveConstants :: "LChunk \<Rightarrow> BitVector option" where
  "LiveConstants c = mark_instructions (instructions c) (new_BitVector (GetMaximumValueID (graph c)))"

definition SaveConstant :: "'w constant_world_scheme \<Rightarrow> HGraph \<Rightarrow> int \<Rightarrow> 'a sv" where
  "SaveConstant w g i s = do {
     s \<leftarrow> SavePrimitive (word_of_int i :: int32) s;
     hydrogen_value \<leftarrow> LookupValue g (word_of_int i);
     constant \<leftarrow> constant_shim hydrogen_value;
     SaveHConstantShim w constant s
   }"

primrec SaveConstants_loop :: "'w constant_world_scheme \<Rightarrow> HGraph \<Rightarrow> int list \<Rightarrow> 'a sv" where
  "SaveConstants_loop w g [] s = Some s"
| "SaveConstants_loop w g (i # is) s = do {
     s \<leftarrow> SaveConstant w g i s;
     RETURN_ON_FAIL s (SaveConstants_loop w g is s)
   }"

definition SaveConstants :: "'w constant_world_scheme \<Rightarrow> LChunk \<Rightarrow> 'a sv" where
  "SaveConstants w c s = do {
     live_constants \<leftarrow> LiveConstants c;
     s \<leftarrow> SavePrimitive (word_of_nat (Count live_constants) :: int32) s;
     ids \<leftarrow> elements live_constants;
     SaveConstants_loop w (graph c) ids s
   }"

text \<open>\<^verbatim>\<open>while (n--)\<close> runs as often as \<open>n\<close> says as an unsigned number: it takes a negative one through the
  least integer down to 0.\<close>

primrec LoadConstants_loop ::
  "'w constant_world_scheme \<Rightarrow> nat \<Rightarrow> LChunk \<Rightarrow> 'b loader_base_scheme \<Rightarrow> (LChunk, 'b) load_result" where
  "LoadConstants_loop w 0 c l = Some (c, l)"
| "LoadConstants_loop w (Suc n) c l = do {
     (i, l) \<leftarrow> LoadPrimitive l;
     (constant, l) \<leftarrow> LoadHConstantShim w l;
     RETURN_VALUE_ON_FAIL c l (do {
       constant \<leftarrow> constant;
       c \<leftarrow> SetValue i (Some (ConstantShim constant)) c;
       LoadConstants_loop w n c l
     })
   }"

definition LoadConstants ::
  "'w constant_world_scheme \<Rightarrow> LChunk \<Rightarrow> 'b loader_base_scheme \<Rightarrow> (LChunk, 'b) load_result" where
  "LoadConstants w c l = do {
     (nof_value_pairs, l) \<leftarrow> LoadPrimitive l;
     LoadConstants_loop w (unat (nof_value_pairs :: int32)) c l
   }"

section \<open>Instructions\<close>

primrec SaveInstructions_loop :: "'w constant_world_scheme \<Rightarrow> LInstruction list \<Rightarrow> 'a sv" where
  "SaveInstructions_loop w [] s = Some s"
| "SaveInstructions_loop w (i # is) s = do {
     s \<leftarrow> SaveInstruction w i s;
     RETURN_ON_FAIL s (SaveInstructions_loop w is s)
   }"

definition SaveInstructions :: "'w constant_world_scheme \<Rightarrow> LInstruction list \<Rightarrow> 'a sv" where
  "SaveInstructions w is s = do {
     s \<leftarrow> SavePrimitive (int_length is) s;
     SaveInstructions_loop w is s
   }"

text \<open>The blocks and the values that the instructions refer to are those of the chunk as far as it is
  loaded.\<close>

definition block_number :: "LChunk \<Rightarrow> int32 \<Rightarrow> int32 option" where
  "block_number c i = map_option block_id (block_at_index (graph c) i)"

primrec LoadInstructions_loop ::
  "'w constant_world_scheme \<Rightarrow> nat \<Rightarrow> LChunk \<Rightarrow> 'b loader_base_scheme \<Rightarrow> (LChunk, 'b) load_result" where
  "LoadInstructions_loop w 0 c l = Some (c, l)"
| "LoadInstructions_loop w (Suc n) c l = do {
     (instr, l) \<leftarrow> LoadInstruction w (block_number c) (GetValue c) l;
     RETURN_VALUE_ON_FAIL c l (do {
       instr \<leftarrow> instr;
       LoadInstructions_loop w n (AddLoadedInstruction instr c) l
     })
   }"

definition LoadInstructions ::
  "'w constant_world_scheme \<Rightarrow> LChunk \<Rightarrow> 'b loader_base_scheme \<Rightarrow> (LChunk, 'b) load_result" where
  "LoadInstructions w c l = do {
     (n, l) \<leftarrow> LoadPrimitive l;
     LoadInstructions_loop w (iterations n) c l
   }"

section \<open>The chunk\<close>

definition SavePlatformChunk :: "LChunk \<Rightarrow> 'a sv" where
  "SavePlatformChunk c = SaveBitVector (dehoisted_key_ids c)"

definition SaveOsr :: "HGraph \<Rightarrow> 'a sv" where
  "SaveOsr g s =
     (case graph_osr g of
        Some frame_slots \<Rightarrow> do { s \<leftarrow> SaveTrue s; SavePrimitive frame_slots s }
      | None \<Rightarrow> SaveFalse s)"

definition SaveInlinedClosures :: "'w world_scheme \<Rightarrow> addr list \<Rightarrow> 'a sv" where
  "SaveInlinedClosures w closures s = do {
     s \<leftarrow> SavePrimitive (int_length closures) s;
     save_each (\<lambda>closure. SaveSharedFunctionInfo w (jsf_shared (w_function w closure))) closures s
   }"

definition Save :: "'w constant_world_scheme \<Rightarrow> LChunk \<Rightarrow> 'a chunk_saver_scheme \<Rightarrow> 'a chunk_saver_scheme option" where
  "Save w c s = do {
     s \<leftarrow> SavePlatformChunk c s;
     RETURN_ON_FAIL s (do {
       s \<leftarrow> SavePrimitive_bool (saver_this_has_uses s) s;
       s \<leftarrow> SavePrimitive (spill_slot_count c) s;
       s \<leftarrow> SaveOsr (graph c) s;
       s \<leftarrow> SaveBasicBlocks (blocks (graph c)) s;
       RETURN_ON_FAIL s (do {
         s \<leftarrow> SaveConstants w c s;
         RETURN_ON_FAIL s (do {
           s \<leftarrow> SaveInstructions w (instructions c) s;
           RETURN_ON_FAIL s (SaveInlinedClosures w (inlined_closures c) s)
         })
       })
     })
   }"

definition LoadPlatformChunk :: "LChunk \<Rightarrow> 'b loader_base_scheme \<Rightarrow> (LChunk, 'b) load_result" where
  "LoadPlatformChunk c l = do {
     (ids, l) \<leftarrow> LoadBitVector l;
     Some (c\<lparr>dehoisted_key_ids := ids\<rparr>, l)
   }"

definition LoadOsr :: "HGraph \<Rightarrow> 'b loader_base_scheme \<Rightarrow> (HGraph, 'b) load_result" where
  "LoadOsr g l = do {
     (has_osr, l) \<leftarrow> LoadBool l;
     if has_osr then do { (frame_slots, l) \<leftarrow> LoadPrimitive l; Some (g\<lparr>graph_osr := Some frame_slots\<rparr>, l) }
     else Some (g, l)
   }"

text \<open>Inlined functions are not kept, but the code must be able to deoptimize to them. The result says
  whether to go on.\<close>

primrec LoadInlinedClosures ::
  "'w chunk_world_scheme \<Rightarrow> nat \<Rightarrow> 'b loader_base_scheme \<Rightarrow> (bool, 'b) load_result" where
  "LoadInlinedClosures w 0 l = Some (True, l)"
| "LoadInlinedClosures w (Suc n) l = do {
     (shared_info, l) \<leftarrow> LoadSharedFunctionInfo w l;
     RETURN_VALUE_ON_FAIL False l (do {
       shared_info \<leftarrow> shared_info;
       if w_has_deoptimization_support w shared_info \<or> w_EnsureDeoptimizationSupport w shared_info
       then LoadInlinedClosures w n l
       else Some (False, Fail ''could not ensure deoptimization support for inlined function'' l)
     })
   }"

definition Load :: "'w chunk_world_scheme \<Rightarrow> 'b chunk_loader_scheme \<Rightarrow> (LChunk option \<times> 'b chunk_loader_scheme) option" where
  "Load w l = do {
     let c = new_LChunk (new_HGraph (w_first_expression_index w));
     (c, l) \<leftarrow> LoadPlatformChunk c l;
     (has_uses, l) \<leftarrow> LoadPrimitive_bool l;
     let l = l\<lparr>info_this_has_uses := has_uses\<rparr>;
     (n, l) \<leftarrow> LoadPrimitive l;
     let c = c\<lparr>spill_slot_count := n\<rparr>;
     (g, l) \<leftarrow> LoadOsr (graph c) l;
     (g, l) \<leftarrow> LoadBasicBlocks w g l;
     RETURN_VALUE_ON_FAIL None l (do {
       let c = c\<lparr>graph := g\<rparr>;
       (c, l) \<leftarrow> LoadConstants w c l;
       RETURN_VALUE_ON_FAIL None l (do {
         (c, l) \<leftarrow> LoadInstructions w c l;
         RETURN_VALUE_ON_FAIL None l (do {
           (number_of_inlined_closures, l) \<leftarrow> LoadPrimitive l;
           (ok, l) \<leftarrow> LoadInlinedClosures w (iterations number_of_inlined_closures) l;
           Some (if ok then Some c else None, l)
         })
       })
     })
   }"

section \<open>\<^verbatim>\<open>LSavedChunk\<close>\<close>

text \<open>What \<^verbatim>\<open>Save\<close> returns, with the reason of a failure and the bytes, and what \<^verbatim>\<open>Load\<close> returns, with the
  reason and what the compilation has been told.\<close>

definition LSavedChunk_Save ::
  "'w constant_world_scheme \<Rightarrow> bool \<Rightarrow> LChunk \<Rightarrow> (bool \<times> string option \<times> byte list) option" where
  "LSavedChunk_Save w this_has_uses c = do {
     s \<leftarrow> Save w c (saver_base.extend LChunkSaverBase \<lparr>saver_this_has_uses = this_has_uses\<rparr>);
     Some (status s = SUCCEEDED, reason s, bytes s)
   }"

definition LSavedChunk_Load ::
  "'w chunk_world_scheme \<Rightarrow> byte list \<Rightarrow> (LChunk option \<times> string option \<times> chunk_loader) option" where
  "LSavedChunk_Load w bs = do {
     (c, l) \<leftarrow> Load w (loader_base.extend (LChunkLoaderBase bs) \<lparr>info_this_has_uses = False\<rparr>);
     Some (c, reason l, l)
   }"

end
