(* ===== verification/ChunkRoundtrip.thy ===== *)
theory ChunkRoundtrip
  imports ChunkSaveload InstructionsRoundtrip
begin

text \<open>
  What becomes of a whole chunk: its blocks, constants and instructions after they were saved and
  loaded, and that every constant the loaded code refers to is there.
\<close>

section \<open>Blocks\<close>

text \<open>The block that is loaded for the block \<open>bb\<close> at the index \<open>k\<close>, before and after the entries of inlined
  functions are set. The environment of the first block is the one that the graph was made with.\<close>

definition loaded_members :: "HBasicBlock \<Rightarrow> HBasicBlock \<Rightarrow> HBasicBlock" where
  "loaded_members bb new = new\<lparr>
     loop_information := (if IsLoopHeader bb
       then Some \<lparr>loop_back_edges = [], loop_header = block_id new, loop_blocks = [block_id new]\<rparr> else loop_information new),
     is_reachable := is_reachable bb \<and> is_reachable new,
     dominates_loop_successors := dominates_loop_successors bb \<or> dominates_loop_successors new,
     is_osr_entry := is_osr_entry bb \<or> is_osr_entry new,
     is_ordered := is_ordered bb \<or> is_ordered new,
     first_instruction_index := first_instruction_index bb,
     last_instruction_index := last_instruction_index bb\<rparr>"

definition block_entry :: "HBasicBlock \<Rightarrow> int32 option" where
  "block_entry bb = (if is_inline_return_target bb then inlined_entry_block bb else None)"

definition initial_block :: "nat \<Rightarrow> HBasicBlock \<Rightarrow> HBasicBlock" where
  "initial_block k bb = (new_HBasicBlock (word_of_nat k))
     \<lparr>last_environment := (if k = 0 then Some kFunctionEntryId else last_environment bb)\<rparr>"

definition partial_block :: "nat \<Rightarrow> HBasicBlock \<Rightarrow> HBasicBlock" where
  "partial_block k bb = loaded_members bb (initial_block k bb)"

definition loaded_block :: "nat \<Rightarrow> HBasicBlock \<Rightarrow> HBasicBlock" where
  "loaded_block k bb = (partial_block k bb)
     \<lparr>is_inline_return_target := is_inline_return_target bb, inlined_entry_block := block_entry bb\<rparr>"

lemma block_at_index_None: "block_at_index g e \<noteq> None \<longleftrightarrow> 0 \<le> sint e \<and> nat (sint e) < length (blocks g)"
  by (simp add: block_at_index_def)

definition graph_ok :: "HGraph \<Rightarrow> bool" where
  "graph_ok g \<longleftrightarrow> blocks g \<noteq> [] \<and> length (blocks g) < 2 ^ 31 \<and>
     (\<forall>k < length (blocks g). let bb = blocks g ! k in
        block_id bb = word_of_nat k \<and> (k \<noteq> 0 \<longrightarrow> last_environment bb \<noteq> None) \<and>
        (is_inline_return_target bb \<longrightarrow> (\<exists>e. inlined_entry_block bb = Some e \<and> block_at_index g e \<noteq> None)))"

definition environment_size :: "int32 \<Rightarrow> int32" where
  "environment_size n = (if 0 < sint n then n else 0)"

definition loaded_graph :: "int32 \<Rightarrow> HGraph \<Rightarrow> HGraph" where
  "loaded_graph n g =
     \<lparr>next_block_id = int_length (blocks g), blocks = map (\<lambda>(k, bb). loaded_block k bb) (enumerate 0 (blocks g)),
      graph_values = [], graph_osr = graph_osr g, maximum_environment_size = environment_size n\<rparr>"

lemma transmits_entry:
  assumes "is_inline_return_target bb \<Longrightarrow> inlined_entry_block bb \<noteq> None"
  shows "transmits C (\<lambda>s. if is_inline_return_target bb then inlined_entry_block bb \<bind> (\<lambda>entry. SavePrimitive entry s) else Some s)
    (\<lambda>l. if is_inline_return_target bb then LoadPrimitive l \<bind> (\<lambda>(entry, l). Some (Some entry, l)) else Some (None, l))
    (block_entry bb)"
proof (cases "is_inline_return_target bb")
  case True
  with assms obtain e where e: "inlined_entry_block bb = Some e" by blast
  show ?thesis unfolding block_entry_def if_P [OF True] e Option.bind.bind_lunit
    by (rule transmits_map [OF transmits_primitives(3)])
next
  case False
  show ?thesis unfolding block_entry_def if_not_P [OF False] by (rule transmits_done)
qed

lemma transmits_block_members:
  assumes "is_inline_return_target bb \<Longrightarrow> inlined_entry_block bb \<noteq> None"
  shows "transmits C (SaveBasicBlock_members bb) (LoadBasicBlock_members new) (loaded_members bb new, block_entry bb)"
  unfolding SaveBasicBlock_members_def [abs_def] LoadBasicBlock_members_def [abs_def] Let_def
  by (rule transmits_bind [OF transmits_bool], rule transmits_bind [OF transmits_bool],
      rule transmits_bind [OF transmits_entry [OF assms]], assumption, (rule transmits_bind [OF transmits_bool])+,
      rule transmits_bind [OF transmits_primitives(3)], rule transmits_cong [OF transmits_map [OF transmits_primitives(3)]])
    (simp add: loaded_members_def AttachLoopInformation_def MarkUnreachable_def MarkAsLoopSuccessorDominator_def
      set_osr_entry_def MarkAsOrdered_def)

text \<open>The graph after the blocks \<open>bbs\<close> were read; the first block is there from the start.\<close>

definition graph_prefix :: "int32 \<Rightarrow> int32 option \<Rightarrow> HBasicBlock list \<Rightarrow> HGraph" where
  "graph_prefix n osr bbs =
     (if bbs = [] then (new_HGraph n)\<lparr>graph_osr := osr\<rparr>
      else \<lparr>next_block_id = int_length bbs, blocks = map (\<lambda>(k, bb). partial_block k bb) (enumerate 0 bbs),
        graph_values = [], graph_osr = osr, maximum_environment_size = environment_size n\<rparr>)"

lemma new_HGraph_parts:
  "new_HGraph n = \<lparr>next_block_id = 1, blocks = [(new_HBasicBlock 0)\<lparr>last_environment := Some kFunctionEntryId\<rparr>],
     graph_values = [], graph_osr = None, maximum_environment_size = environment_size n\<rparr>"
  by (simp add: new_HGraph_def CreateBasicBlock_def SetInitialEnvironment_def update_block_def
      update_maximum_environment_size_def environment_size_def)

lemma enumerate_snoc: "enumerate k (xs @ [x]) = enumerate k xs @ [(k + length xs, x)]"
  by (simp add: enumerate_append_eq)

definition block_ok :: "nat \<Rightarrow> HBasicBlock \<Rightarrow> bool" where
  "block_ok k bb \<longleftrightarrow> (k \<noteq> 0 \<longrightarrow> last_environment bb \<noteq> None) \<and>
     (is_inline_return_target bb \<longrightarrow> inlined_entry_block bb \<noteq> None)"

lemma transmits_block:
  assumes "block_ok (length bbs) bb"
  shows "transmits C (SaveBasicBlock (length bbs) bb)
    (LoadBasicBlock w (length bbs) (graph_prefix (w_first_expression_index w) osr bbs))
    (graph_prefix (w_first_expression_index w) osr (bbs @ [bb]), block_entry bb)"
proof (cases "bbs = []")
  case True
  let ?g = "graph_prefix (w_first_expression_index w) osr []"
  have g: "blocks ?g \<noteq> []" "blocks ?g ! 0 = initial_block 0 bb"
    "update_block 0 (\<lambda>_. loaded_members bb (initial_block 0 bb)) ?g = graph_prefix (w_first_expression_index w) osr [bb]"
    by (simp_all add: graph_prefix_def new_HGraph_parts initial_block_def update_block_def partial_block_def)
  have "transmits C (SaveBasicBlock_members bb)
      (\<lambda>l. LoadBasicBlock_members (initial_block 0 bb) l \<bind> (\<lambda>(x, l). Some ((update_block 0 (\<lambda>_. fst x) ?g, snd x), l)))
      (update_block 0 (\<lambda>_. loaded_members bb (initial_block 0 bb)) ?g, block_entry bb)"
    using transmits_map [OF transmits_block_members, of bb C "initial_block 0 bb" "\<lambda>x. (update_block 0 (\<lambda>_. fst x) ?g, snd x)"]
      assms by (simp add: block_ok_def)
  with g True show ?thesis by (simp add: SaveBasicBlock_def [abs_def] LoadBasicBlock_def [abs_def] split_def)
next
  case False
  define n where "n = w_first_expression_index w"
  let ?k = "length bbs"
  obtain ast_id where ast: "last_environment bb = Some ast_id" using assms False by (auto simp: block_ok_def)
  let ?g = "SetInitialEnvironment n ?k ast_id (CreateBasicBlock (graph_prefix n osr bbs))"
  have len: "length (blocks (CreateBasicBlock (graph_prefix n osr bbs))) = Suc ?k"
    using False by (simp add: graph_prefix_def CreateBasicBlock_def)
  have g: "length (blocks ?g) = Suc ?k" "blocks ?g ! ?k = initial_block ?k bb"
    "update_block ?k (\<lambda>_. loaded_members bb (initial_block ?k bb)) ?g = graph_prefix n osr (bbs @ [bb])"
    using False ast
    by (simp_all add: graph_prefix_def CreateBasicBlock_def SetInitialEnvironment_def update_block_def
        update_maximum_environment_size_def environment_size_def initial_block_def partial_block_def nth_append
        list_update_append enumerate_snoc)
  have "transmits C (SaveBasicBlock_members bb)
      (\<lambda>l. LoadBasicBlock_members (initial_block ?k bb) l \<bind> (\<lambda>(x, l). Some ((update_block ?k (\<lambda>_. fst x) ?g, snd x), l)))
      (update_block ?k (\<lambda>_. loaded_members bb (initial_block ?k bb)) ?g, block_entry bb)"
    using transmits_map [OF transmits_block_members, of bb C "initial_block ?k bb" "\<lambda>x. (update_block ?k (\<lambda>_. fst x) ?g, snd x)"]
      assms by (simp add: block_ok_def)
  then have "transmits C (\<lambda>s. SavePrimitive ast_id s \<bind> SaveBasicBlock_members bb)
      (\<lambda>l. LoadPrimitive l \<bind> (\<lambda>(ast_id, l). LoadBasicBlock_members (blocks (SetInitialEnvironment n ?k ast_id
          (CreateBasicBlock (graph_prefix n osr bbs))) ! ?k) l \<bind>
        (\<lambda>(x, l). Some ((update_block ?k (\<lambda>_. fst x) (SetInitialEnvironment n ?k ast_id
          (CreateBasicBlock (graph_prefix n osr bbs))), snd x), l))))
      (graph_prefix n osr (bbs @ [bb]), block_entry bb)"
    unfolding g(3) by (intro transmits_bind [OF transmits_primitives(3)]) (simp only: g(2))
  moreover have "length (blocks (SetInitialEnvironment n i a G)) = length (blocks G)" for i a G
    by (simp add: SetInitialEnvironment_def update_block_def update_maximum_environment_size_def)
  ultimately show ?thesis using False len
    by (simp add: SaveBasicBlock_def [abs_def] LoadBasicBlock_def [abs_def] split_def ast n_def Let_def Option.bind_assoc)
qed

text \<open>The records of the blocks from the index \<open>k\<close> on.\<close>

definition target_records :: "nat \<Rightarrow> HBasicBlock list \<Rightarrow> (int32 \<times> int32) list" where
  "target_records k bbs =
     concat (map (\<lambda>(k, bb). case block_entry bb of Some e \<Rightarrow> [(word_of_nat k, e)] | None \<Rightarrow> []) (enumerate k bbs))"

lemma target_records_simps [simp]:
  "target_records k [] = []"
  "target_records k (bb # bbs) =
     (case block_entry bb of Some e \<Rightarrow> (word_of_nat k, e) # target_records (Suc k) bbs | None \<Rightarrow> target_records (Suc k) bbs)"
  by (simp_all add: target_records_def split: option.splits)

lemma transmits_blocks_loop:
  assumes "\<forall>i < length rest. block_ok (length bbs + i) (rest ! i)"
  shows "transmits C (save_each (\<lambda>(k, bb). SaveBasicBlock k bb) (enumerate (length bbs) rest) :: 'a sv)
    (LoadBasicBlocks_loop w (length rest) (length bbs) (graph_prefix (w_first_expression_index w) osr bbs) records
       :: 'b loader_base_scheme \<Rightarrow> _)
    (graph_prefix (w_first_expression_index w) osr (bbs @ rest), records @ target_records (length bbs) rest)"
  using assms
proof (induction rest arbitrary: bbs records)
  case Nil
  show ?case using transmits_done [of C "(graph_prefix (w_first_expression_index w) osr bbs, records)"]
    by (simp add: transmits_def saves_def loads_def)
next
  case (Cons bb rest)
  define n where "n = w_first_expression_index w"
  define records' where "records' = (case block_entry bb of Some e \<Rightarrow> records @ [(word_of_nat (length bbs), e)] | None \<Rightarrow> records)"
  have ok: "block_ok (length bbs) bb" using Cons.prems by force
  have rest: "\<forall>i < length rest. block_ok (length (bbs @ [bb]) + i) (rest ! i)" using Cons.prems by fastforce
  have "transmits C (\<lambda>s. SaveBasicBlock (length bbs) bb s \<bind> save_each (\<lambda>(k, bb). SaveBasicBlock k bb) (enumerate (length (bbs @ [bb])) rest)
        :: 'a saver_base_scheme option)
      (\<lambda>l :: 'b loader_base_scheme. LoadBasicBlock w (length bbs) (graph_prefix n osr bbs) l \<bind> (\<lambda>(x, l).
         LoadBasicBlocks_loop w (length rest) (length (bbs @ [bb])) (fst x)
           (case snd x of Some e \<Rightarrow> records @ [(word_of_nat (length bbs), e)] | None \<Rightarrow> records) l))
      (graph_prefix n osr ((bbs @ [bb]) @ rest), records' @ target_records (length (bbs @ [bb])) rest)"
    unfolding n_def
    by (rule transmits_bind [OF transmits_block [OF ok]])
      (simp only: fst_conv snd_conv records'_def [symmetric], rule Cons.IH [OF rest])
  moreover have "records' @ target_records (length (bbs @ [bb])) rest = records @ target_records (length bbs) (bb # rest)"
    by (simp add: records'_def split: option.splits)
  ultimately show ?case by (simp add: n_def split_def Let_def)
qed

text \<open>The second loop; every block keeps its number.\<close>

definition numbered :: "HBasicBlock list \<Rightarrow> bool" where
  "numbered bs \<longleftrightarrow> (\<forall>i < length bs. block_id (bs ! i) = word_of_nat i)"

lemma loaded_block_simps [simp]:
  "block_id (partial_block k bb) = word_of_nat k" "block_id (loaded_block k bb) = word_of_nat k"
  "IsLoopHeader (loaded_block k bb) = IsLoopHeader bb" "IsLoopHeader (partial_block k bb) = IsLoopHeader bb"
  "first_instruction_index (loaded_block k bb) = first_instruction_index bb"
  "last_instruction_index (loaded_block k bb) = last_instruction_index bb"
  by (simp_all add: loaded_block_def partial_block_def loaded_members_def initial_block_def new_HBasicBlock_def IsLoopHeader_def)

lemma loaded_block_no_target: "block_entry bb = None \<Longrightarrow> (is_inline_return_target bb \<Longrightarrow> inlined_entry_block bb \<noteq> None) \<Longrightarrow>
    loaded_block k bb = partial_block k bb"
  by (auto simp: loaded_block_def block_entry_def partial_block_def loaded_members_def initial_block_def new_HBasicBlock_def
      split: if_splits)

lemma loaded_block_target: "block_entry bb = Some e \<Longrightarrow> loaded_block k bb = MarkAsInlineReturnTarget e (partial_block k bb)"
  by (auto simp: loaded_block_def block_entry_def MarkAsInlineReturnTarget_def split: if_splits)

lemma word_of_nat_nat_sint: "0 \<le> sint (e :: int32) \<Longrightarrow> word_of_nat (nat (sint e)) = e"
  by (simp add: of_nat_nat)

lemma set_targets:
  assumes "numbered (front @ map (\<lambda>(k, bb). partial_block k bb) (enumerate (length front) rest))"
    and "blocks g = front @ map (\<lambda>(k, bb). partial_block k bb) (enumerate (length front) rest)"
    and "length front + length rest < 2 ^ 31"
    and "\<forall>bb \<in> set rest. is_inline_return_target bb \<longrightarrow>
      (\<exists>e. inlined_entry_block bb = Some e \<and> 0 \<le> sint e \<and> nat (sint e) < length front + length rest)"
  shows "set_inline_return_targets (target_records (length front) rest) g =
    Some (g\<lparr>blocks := front @ map (\<lambda>(k, bb). loaded_block k bb) (enumerate (length front) rest)\<rparr>)"
  using assms
proof (induction rest arbitrary: front g)
  case Nil
  then show ?case by simp
next
  case (Cons bb rest)
  let ?k = "length front" and ?next = "map (\<lambda>(k, bb). partial_block k bb) (enumerate (length (front @ [bb])) rest)"
  let ?front = "front @ [loaded_block (length front) bb]"
  have len: "length (blocks g) = length front + length (bb # rest)" using Cons.prems(2) by simp
  have num: "numbered (?front @ ?next)"
    using Cons.prems(1) by (auto simp: numbered_def nth_append nth_Cons split: if_splits nat.splits)
  have IH: "set_inline_return_targets (target_records (length ?front) rest) g' =
      Some (g'\<lparr>blocks := ?front @ map (\<lambda>(k, bb). loaded_block k bb) (enumerate (length ?front) rest)\<rparr>)"
    if "blocks g' = ?front @ ?next" for g'
    using num that Cons.prems(3,4) by (intro Cons.IH) (simp_all add: add.commute)
  show ?case
  proof (cases "block_entry bb")
    case None
    have "loaded_block ?k bb = partial_block ?k bb"
      by (rule loaded_block_no_target [OF None]) (use Cons.prems(4) in auto)
    then have "blocks g = ?front @ ?next" using Cons.prems(2) by simp
    from IH [OF this] None show ?thesis by simp
  next
    case (Some e)
    then have e: "0 \<le> sint e" "nat (sint e) < length (blocks g)"
      using Cons.prems(4) len by (auto simp: block_entry_def split: if_splits)
    then have entry: "block_at_index g e = Some (blocks g ! nat (sint e))" "block_id (blocks g ! nat (sint e)) = e"
      using Cons.prems(1) [folded Cons.prems(2)]
      by (simp_all add: block_at_index_def numbered_def word_of_nat_nat_sint del: of_nat_nat)
    have k: "nat (sint (word_of_nat ?k :: int32)) = ?k" "0 \<le> sint (word_of_nat ?k :: int32)"
      using Cons.prems(3) by (simp_all add: sint_of_nat32)
    have target: "block_at_index g (word_of_nat ?k) = Some (blocks g ! ?k)"
      using k len by (simp add: block_at_index_def)
    let ?g' = "update_block ?k (MarkAsInlineReturnTarget e) g"
    have "blocks ?g' = ?front @ ?next"
      using Cons.prems(2) by (simp add: update_block_def loaded_block_target [OF Some] nth_append list_update_append)
    from IH [OF this] show ?thesis using Some by (simp add: target entry k) (simp add: update_block_def)
  qed
qed

lemma transmits_blocks:
  assumes ok: "graph_ok g" and osr: "osr = graph_osr g"
  shows "transmits C (SaveBasicBlocks (blocks g) :: 'a sv)
    (LoadBasicBlocks w ((new_HGraph (w_first_expression_index w))\<lparr>graph_osr := osr\<rparr>) :: 'b loader_base_scheme \<Rightarrow> _)
    (loaded_graph (w_first_expression_index w) g)"
proof -
  define n where "n = w_first_expression_index w"
  have len: "length (blocks g) < 2 ^ 31" "blocks g \<noteq> []" using ok by (simp_all add: graph_ok_def)
  have each: "block_ok i (blocks g ! i) \<and> (is_inline_return_target (blocks g ! i) \<longrightarrow> (\<exists>e.
      inlined_entry_block (blocks g ! i) = Some e \<and> 0 \<le> sint e \<and> nat (sint e) < length (blocks g)))"
    if "i < length (blocks g)" for i
    using ok that unfolding graph_ok_def block_ok_def Let_def block_at_index_None by blast
  then have targets: "\<forall>bb \<in> set (blocks g). is_inline_return_target bb \<longrightarrow>
      (\<exists>e. inlined_entry_block bb = Some e \<and> 0 \<le> sint e \<and> nat (sint e) < length (blocks g))"
    by (metis in_set_conv_nth)
  from each have "\<forall>i < length (blocks g). block_ok i (blocks g ! i)" by blast
  then have loop: "transmits C (save_each (\<lambda>(k, bb). SaveBasicBlock k bb) (enumerate 0 (blocks g)) :: 'a sv)
    (LoadBasicBlocks_loop w (length (blocks g)) 0 (graph_prefix n osr []) [] :: 'b loader_base_scheme \<Rightarrow> _)
    (graph_prefix n osr (blocks g), target_records 0 (blocks g))"
    using transmits_blocks_loop [of "blocks g" "[]" C w osr "[]"] by (simp add: n_def)
  have it: "iterations (int_length (blocks g)) = length (blocks g)" using len by simp
  have "numbered (map (\<lambda>(k, bb). partial_block k bb) (enumerate 0 (blocks g)))"
    by (auto simp: numbered_def nth_enumerate_eq)
  then have targets_set: "set_inline_return_targets (target_records 0 (blocks g)) (graph_prefix n osr (blocks g)) =
      Some (loaded_graph n g)"
    using set_targets [of "[]" "blocks g" "graph_prefix n osr (blocks g)"] len targets
    by (simp add: graph_prefix_def loaded_graph_def osr)
  have "transmits C (\<lambda>s. SavePrimitive (int_length (blocks g)) s \<bind> save_each (\<lambda>(k, bb). SaveBasicBlock k bb) (enumerate 0 (blocks g))
        :: 'a saver_base_scheme option)
      (\<lambda>l :: 'b loader_base_scheme. LoadPrimitive l \<bind> (\<lambda>(m, l).
        LoadBasicBlocks_loop w (iterations m) 0 (graph_prefix n osr []) [] l \<bind>
        (\<lambda>(x, l). set_inline_return_targets (snd x) (fst x) \<bind> (\<lambda>g. Some (g, l)))))
      (loaded_graph n g)"
    by (rule transmits_bind [OF transmits_primitives(3)], rule transmits_save_last [where x = "(graph_prefix n osr (blocks g), target_records 0 (blocks g))"])
      (simp_all only: it loop, simp add: targets_set)
  then show ?thesis
    by (simp add: SaveBasicBlocks_def [abs_def] LoadBasicBlocks_def [abs_def] n_def graph_prefix_def split_def)
qed

section \<open>Constants\<close>

text \<open>A specification of the live constants: the constants that an instruction defines, and those that its
  inputs, moves or environment name.\<close>

definition referred_operands :: "LInstruction \<Rightarrow> operand list" where
  "referred_operands i = inputs i @ (if IsGap i then moves_operands (parallel_moves i) else []) @
     concat (map env_values (environment i))"

definition constant_ids :: "operand list \<Rightarrow> int32 set" where
  "constant_ids ops = {constant_index op | op. Some op \<in> set ops \<and> IsConstantOperand op}"

definition defined_ids :: "LInstruction \<Rightarrow> int32 set" where
  "defined_ids i = {value_id v | v. hydrogen_value i = Some v \<and> value_constant v \<noteq> None}"

definition live_ids :: "LChunk \<Rightarrow> int32 set" where
  "live_ids c = (\<Union>i \<in> set (instructions c). defined_ids i \<union> constant_ids (referred_operands i))"

abbreviation id_nat :: "int32 \<Rightarrow> nat" where
  "id_nat i \<equiv> nat (sint i)"

definition valid_ids :: "int32 \<Rightarrow> int32 set \<Rightarrow> bool" where
  "valid_ids n ids \<longleftrightarrow> (\<forall>i \<in> ids. 0 \<le> sint i \<and> sint i < sint n)"

definition marks :: "int32 set \<Rightarrow> (BitVector \<Rightarrow> BitVector option) \<Rightarrow> bool" where
  "marks ids f \<longleftrightarrow> (\<forall>live. bv_wf live \<longrightarrow> valid_ids (bv_length live) ids \<longrightarrow>
     (\<exists>live'. f live = Some live' \<and> bv_wf live' \<and> bv_length live' = bv_length live \<and>
        bv_set live' = bv_set live \<union> id_nat ` ids))"

lemma marks_nothing: "marks {} Some"
  by (simp add: marks_def)

lemma marks_bind:
  assumes "marks A f" "marks B g"
  shows "marks (A \<union> B) (\<lambda>live. f live \<bind> g)"
  unfolding marks_def
proof (intro allI impI)
  fix live assume live: "bv_wf live" "valid_ids (bv_length live) (A \<union> B)"
  then have "valid_ids (bv_length live) A" "valid_ids (bv_length live) B" by (auto simp: valid_ids_def)
  with live(1) obtain l1 where l1: "f live = Some l1" "bv_wf l1" "bv_length l1 = bv_length live"
    "bv_set l1 = bv_set live \<union> id_nat ` A" using assms(1) unfolding marks_def by blast
  moreover obtain l2 where "g l1 = Some l2" "bv_wf l2" "bv_length l2 = bv_length l1" "bv_set l2 = bv_set l1 \<union> id_nat ` B"
    using assms(2) l1(2,3) \<open>valid_ids (bv_length live) B\<close> unfolding marks_def by metis
  ultimately show "\<exists>live'. f live \<bind> g = Some live' \<and> bv_wf live' \<and> bv_length live' = bv_length live \<and>
      bv_set live' = bv_set live \<union> id_nat ` (A \<union> B)" by (intro exI [of _ l2]) auto
qed

lemma marks_constant: "marks {i} (mark_constant i)"
  unfolding marks_def
proof (intro allI impI)
  fix live assume live: "bv_wf live" "valid_ids (bv_length live) {i}"
  then have i: "0 \<le> sint i" "bv_in_range live (id_nat i)" by (simp_all add: valid_ids_def)
  from Add_bv_set [OF bv_block_in_range [OF live(1) i(2)]] obtain live' where
    "Add (id_nat i) live = Some live'" "bv_set live' = insert (id_nat i) (bv_set live)"
    "bv_length live' = bv_length live" "length (bv_data live') = length (bv_data live)" by blast
  with i live(1) show "\<exists>live'. mark_constant i live = Some live' \<and> bv_wf live' \<and> bv_length live' = bv_length live \<and>
      bv_set live' = bv_set live \<union> id_nat ` {i}" by (auto simp: mark_constant_def bv_wf_def)
qed

lemma constant_ids_simps [simp]:
  "constant_ids [] = {}"
  "constant_ids (x # xs) = (case x of Some op \<Rightarrow> if IsConstantOperand op then {constant_index op} else {} | None \<Rightarrow> {}) \<union> constant_ids xs"
  "constant_ids (xs @ ys) = constant_ids xs \<union> constant_ids ys"
  by (auto simp: constant_ids_def split: option.splits)

lemma marks_operands: "marks (constant_ids ops) (mark_operands ops)"
proof (induction ops)
  case Nil
  show ?case using marks_nothing by (simp add: marks_def)
next
  case (Cons x ops)
  have "marks (case x of Some op \<Rightarrow> if IsConstantOperand op then {constant_index op} else {} | None \<Rightarrow> {}) (check_and_mark x)"
    using marks_nothing marks_constant by (auto simp: check_and_mark_def [abs_def] split: option.splits)
  from marks_bind [OF this Cons.IH] show ?case by (simp add: marks_def)
qed

lemma marks_instruction:
  assumes "hydrogen_value i = Some v"
  shows "marks (defined_ids i \<union> constant_ids (referred_operands i)) (mark_instruction i)"
proof -
  have defined: "marks (defined_ids i) (\<lambda>live. if value_constant v \<noteq> None then mark_constant (value_id v) live else Some live)"
    using assms marks_nothing marks_constant [of "value_id v"] by (cases "value_constant v") (simp_all add: defined_ids_def)
  have moves: "marks (constant_ids (if IsGap i then moves_operands (parallel_moves i) else []))
      (\<lambda>live. if IsGap i then mark_operands (moves_operands (parallel_moves i)) live else Some live)"
    using marks_operands marks_nothing by simp
  have "mark_instruction i = (\<lambda>live. (if value_constant v \<noteq> None then mark_constant (value_id v) live else Some live) \<bind>
      (\<lambda>live. mark_operands (inputs i) live \<bind> (\<lambda>live. (if IsGap i then mark_operands (moves_operands (parallel_moves i)) live
        else Some live) \<bind> mark_operands (concat (map env_values (environment i))))))"
    by (simp add: fun_eq_iff mark_instruction_def assms)
  with marks_bind [OF defined marks_bind [OF marks_operands marks_bind [OF moves marks_operands]]]
  show ?thesis by (simp only: referred_operands_def constant_ids_simps)
qed

lemma marks_instructions:
  assumes "\<forall>i \<in> set is. hydrogen_value i \<noteq> None"
  shows "marks (\<Union>i \<in> set is. defined_ids i \<union> constant_ids (referred_operands i)) (mark_instructions is)"
  using assms
proof (induction "is")
  case Nil
  show ?case using marks_nothing by (simp add: marks_def)
next
  case (Cons i "is")
  then obtain v where "hydrogen_value i = Some v" by auto
  from marks_bind [OF marks_instruction [OF this] Cons.IH] Cons.prems show ?case by (simp add: marks_def)
qed

text \<open>The live constants of a chunk: every instruction has its Hydrogen value, and all numbers are those of
  values of the graph.\<close>

definition live_ok :: "LChunk \<Rightarrow> bool" where
  "live_ok c \<longleftrightarrow> graph_values (graph c) \<noteq> [] \<and> length (graph_values (graph c)) < 2 ^ 31 \<and>
     (\<forall>i \<in> set (instructions c). hydrogen_value i \<noteq> None) \<and> valid_ids (GetMaximumValueID (graph c)) (live_ids c)"

lemma LiveConstants_ids:
  assumes "live_ok c"
  shows "\<exists>live. LiveConstants c = Some live \<and> bv_wf live \<and> bv_set live = id_nat ` live_ids c"
proof -
  let ?new = "new_BitVector (GetMaximumValueID (graph c))"
  have n: "0 < sint (GetMaximumValueID (graph c))" using assms by (simp add: live_ok_def GetMaximumValueID_def sint_of_nat32)
  have "bv_length ?new = GetMaximumValueID (graph c)" by (simp add: new_BitVector_def)
  with assms n bv_wf_new [OF n] marks_instructions [of "instructions c"] show ?thesis
    unfolding marks_def live_ok_def live_ids_def LiveConstants_def by fastforce
qed

lemma GetValue_SetValue:
  "SetValue i v c = Some c' \<Longrightarrow> GetValue c' j = (if j = i then v else GetValue c j)"
  "SetValue i v c = Some c' \<Longrightarrow> c' = c\<lparr>chunk_values := chunk_values c'\<rparr>"
proof -
  assume set: "SetValue i v c = Some c'"
  then have i: "0 \<le> sint i" by (auto simp: SetValue_def split: if_splits)
  then have same: "sint j \<ge> 0 \<Longrightarrow> nat (sint j) = nat (sint i) \<longleftrightarrow> j = i" by (metis eq_nat_nat_iff signed_word_eqI)
  show "GetValue c' j = (if j = i then v else GetValue c j)"
  proof (cases "nat (sint i) < length (chunk_values c)")
    case True
    with set i same show ?thesis by (auto simp: SetValue_def GetValue_def nth_list_update)
  next
    case False
    with set i have "chunk_values c' = chunk_values c @ replicate (nat (sint i) - length (chunk_values c)) None @ [v]"
      by (auto simp: SetValue_def)
    with i same False show ?thesis by (auto simp: GetValue_def nth_append nth_Cons split: nat.splits)
  qed
next
  assume "SetValue i v c = Some c'"
  then show "c' = c\<lparr>chunk_values := chunk_values c'\<rparr>" by (auto simp: SetValue_def Let_def split: if_splits)
qed

definition constant_reloads ::
  "'w constant_world_scheme \<Rightarrow> nat list \<Rightarrow> HGraph \<Rightarrow> int32 \<Rightarrow> HConstantShim \<Rightarrow> bool" where
  "constant_reloads w C g i shim' \<longleftrightarrow>
     (\<exists>v shim. LookupValue g i = Some v \<and> constant_shim v = Some shim \<and> reloads_constant w C shim shim')"

lemma transmits_constants_loop:
  assumes "\<forall>i \<in> set is. 0 \<le> i \<and> i < 2 ^ 31 \<and> (\<exists>shim'. constant_reloads w C g (word_of_int i) shim')" "distinct is"
  shows "\<exists>vs. transmits C (SaveConstants_loop w g is :: 'a sv) (LoadConstants_loop w (length is) c :: 'b loader_base_scheme \<Rightarrow> _)
      (c\<lparr>chunk_values := vs\<rparr>) \<and>
    (\<forall>j. if sint j \<in> set is then \<exists>shim'. GetValue (c\<lparr>chunk_values := vs\<rparr>) j = Some (ConstantShim shim') \<and> constant_reloads w C g j shim'
      else GetValue (c\<lparr>chunk_values := vs\<rparr>) j = GetValue c j)"
  using assms
proof (induction "is" arbitrary: c)
  case Nil
  show ?case using transmits_done [of C c] by (intro exI [of _ "chunk_values c"]) simp
next
  case (Cons i "is")
  let ?i = "word_of_int i :: int32"
  have i: "sint ?i = i" using Cons.prems(1) by (simp add: sint_word_of_int32)
  from Cons.prems(1) obtain v shim shim' where v: "LookupValue g ?i = Some v" "constant_shim v = Some shim"
    "reloads_constant w C shim shim'" "constant_reloads w C g ?i shim'" by (auto simp: constant_reloads_def)
  obtain c1 where c1: "SetValue ?i (Some (ConstantShim shim')) c = Some c1"
    using Cons.prems(1) i by (simp add: SetValue_def Let_def)
  note c1' = GetValue_SetValue [OF c1]
  obtain vs where vs: "transmits C (SaveConstants_loop w g is :: 'a sv) (LoadConstants_loop w (length is) c1 :: 'b loader_base_scheme \<Rightarrow> _)
      (c1\<lparr>chunk_values := vs\<rparr>)"
    "\<And>j. if sint j \<in> set is then \<exists>shim'. GetValue (c1\<lparr>chunk_values := vs\<rparr>) j = Some (ConstantShim shim') \<and> constant_reloads w C g j shim'
      else GetValue (c1\<lparr>chunk_values := vs\<rparr>) j = GetValue c1 j"
    using Cons.IH [of c1] Cons.prems by auto
  have same: "c1\<lparr>chunk_values := vs\<rparr> = c\<lparr>chunk_values := vs\<rparr>" by (subst c1'(2)) simp
  have "transmits C (\<lambda>s. SavePrimitive ?i s \<bind> (\<lambda>s. SaveHConstantShim w shim s \<bind>
        (\<lambda>s. RETURN_ON_FAIL s (SaveConstants_loop w g is s))) :: 'a saver_base_scheme option)
      (\<lambda>l :: 'b loader_base_scheme. LoadPrimitive l \<bind> (\<lambda>(i, l). LoadHConstantShim w l \<bind> (\<lambda>(constant, l).
        RETURN_VALUE_ON_FAIL c l (constant \<bind> (\<lambda>constant. SetValue i (Some (ConstantShim constant)) c \<bind>
          (\<lambda>c. LoadConstants_loop w (length is) c l))))))
      (c1\<lparr>chunk_values := vs\<rparr>)"
    by (rule transmits_bind [OF transmits_primitives(3)], rule transmits_bind [OF transmits_HConstantShim [OF v(3)]],
      rule transmits_save_return, rule transmits_load_return)
      (simp only: Option.bind.bind_lunit c1 vs(1))
  moreover have "if sint j \<in> set (i # is) then \<exists>shim'. GetValue (c1\<lparr>chunk_values := vs\<rparr>) j = Some (ConstantShim shim') \<and> constant_reloads w C g j shim'
      else GetValue (c1\<lparr>chunk_values := vs\<rparr>) j = GetValue c j" for j
  proof (cases "sint j \<in> set is")
    case True
    with vs(2) [of j] show ?thesis by simp
  next
    case False
    then have j: "GetValue (c1\<lparr>chunk_values := vs\<rparr>) j = (if j = ?i then Some (ConstantShim shim') else GetValue c j)"
      using vs(2) [of j] c1'(1) by simp
    have "sint j = i \<longleftrightarrow> j = ?i" using i by (metis signed_word_eqI)
    with j False v(4) show ?thesis by auto
  qed
  ultimately show ?case unfolding same
    by (intro exI [of _ vs] conjI allI) (simp add: SaveConstant_def v Option.bind_assoc)
qed

lemma transmits_constants:
  assumes ok: "live_ok c0" and reload: "\<forall>i \<in> live_ids c0. \<exists>shim'. constant_reloads w C (graph c0) i shim'"
  shows "\<exists>vs. transmits C (SaveConstants w c0 :: 'a sv) (LoadConstants w c :: 'b loader_base_scheme \<Rightarrow> _) (c\<lparr>chunk_values := vs\<rparr>) \<and>
    (\<forall>j. if j \<in> live_ids c0
       then \<exists>shim'. GetValue (c\<lparr>chunk_values := vs\<rparr>) j = Some (ConstantShim shim') \<and> constant_reloads w C (graph c0) j shim'
       else GetValue (c\<lparr>chunk_values := vs\<rparr>) j = GetValue c j)"
proof -
  obtain live where live: "LiveConstants c0 = Some live" "bv_wf live" "bv_set live = id_nat ` live_ids c0"
    using LiveConstants_ids [OF ok] by blast
  define ids where "ids = map int (sorted_list_of_set (bv_set live))"
  have "bv_data live \<noteq> []" using live(2) by (auto simp: bv_wf_def SizeFor_pos)
  then have elements: "elements live = Some ids" unfolding ids_def by (rule elements_sorted)
  let ?n = "sint (GetMaximumValueID (graph c0))"
  have pos: "0 \<le> sint i \<and> sint i < ?n" if "i \<in> live_ids c0" for i using ok that by (auto simp: live_ok_def valid_ids_def)
  then have set: "set ids = sint ` live_ids c0" by (force simp: ids_def live(3) image_image)
  have ids: "\<forall>i \<in> set ids. 0 \<le> i \<and> i < 2 ^ 31 \<and> (\<exists>shim'. constant_reloads w C (graph c0) (word_of_int i) shim')"
    using reload pos sint_lt32 unfolding set by fastforce
  have dist: "distinct ids" by (simp add: ids_def distinct_map)
  have "bv_set live \<subseteq> {..< nat ?n}" unfolding live(3) using pos by fastforce
  then have "card (bv_set live) \<le> nat ?n" using card_mono [of "{..< nat ?n}" "bv_set live"] by simp
  moreover have "nat ?n < 2 ^ 31" using sint_lt32 [of "GetMaximumValueID (graph c0)"] by simp
  ultimately have "Count live < 2 ^ 32" by (simp add: Count_card)
  then have count: "unat (word_of_nat (Count live) :: int32) = length ids" by (simp add: Count_card ids_def)
  obtain vs where vs: "transmits C (SaveConstants_loop w (graph c0) ids :: 'a sv)
      (LoadConstants_loop w (length ids) c :: 'b loader_base_scheme \<Rightarrow> _) (c\<lparr>chunk_values := vs\<rparr>)"
    "\<And>j. if sint j \<in> set ids then \<exists>shim'. GetValue (c\<lparr>chunk_values := vs\<rparr>) j = Some (ConstantShim shim') \<and>
        constant_reloads w C (graph c0) j shim'
      else GetValue (c\<lparr>chunk_values := vs\<rparr>) j = GetValue c j"
    using transmits_constants_loop [OF ids dist, of c] by blast
  have "transmits C (\<lambda>s. SavePrimitive (word_of_nat (Count live) :: int32) s \<bind> SaveConstants_loop w (graph c0) ids :: 'a saver_base_scheme option)
      (LoadConstants w c :: 'b loader_base_scheme \<Rightarrow> _) (c\<lparr>chunk_values := vs\<rparr>)"
    unfolding LoadConstants_def [abs_def] by (rule transmits_bind [OF transmits_primitives(3)]) (simp only: count vs(1))
  moreover have "sint j \<in> set ids \<longleftrightarrow> j \<in> live_ids c0" for j unfolding set by (auto dest: signed_word_eqI)
  ultimately show ?thesis using vs(2) by (intro exI [of _ vs]) (simp add: SaveConstants_def [abs_def] live(1) elements)
qed

section \<open>Instructions\<close>

definition instruction_ok ::
  "'w constant_world_scheme \<Rightarrow> nat list \<Rightarrow> (int32 \<Rightarrow> int32 option) \<Rightarrow> LInstruction \<Rightarrow> bool" where
  "instruction_ok w C block_at i \<longleftrightarrow> instruction_wf w block_at i \<and> attachments_ok w i \<and>
     (\<exists>shim shim'. hydrogen_shim i = Some shim \<and> reloads_instruction_shim w C (\<lambda>_. None) (opcode i) shim shim')"

lemma reloads_instruction_shim_values:
  "reloads_instruction_shim w C g op shim shim' \<Longrightarrow> \<exists>shim'. reloads_instruction_shim w C g' op shim shim'"
  by (elim reloads_instruction_shim.cases) (blast intro: reloads_instruction_shim.intros)+

lemma receives_return: "receives k bs y f d \<Longrightarrow> receives (\<lambda>l. RETURN_VALUE_ON_FAIL v l (k l)) bs y f d"
  by (simp add: receives_def RETURN_VALUE_ON_FAIL_def)

abbreviation needs_frame :: "LInstruction list \<Rightarrow> bool" where
  "needs_frame is \<equiv> \<exists>i \<in> set is. opcode i = kArgumentsElements"

abbreviation calls_deferred :: "LInstruction list \<Rightarrow> bool" where
  "calls_deferred is \<equiv> \<exists>i \<in> set is. opcode i = kStackCheck"

lemma block_number_add [simp]:
  "block_number (c\<lparr>instructions := is\<rparr>) = block_number c" "GetValue (c\<lparr>instructions := is\<rparr>) = GetValue c"
  by (simp_all add: fun_eq_iff block_number_def GetValue_def)

lemma saves_instructions_loop:
  assumes "\<forall>i \<in> set is. instruction_ok w C (block_number c) i"
  shows "\<exists>bs is'. saves C (SaveInstructions_loop w is :: 'a sv) bs \<and>
    receives (LoadInstructions_loop w (length is) c :: 'b loader_base_scheme \<Rightarrow> _) bs (c\<lparr>instructions := instructions c @ is'\<rparr>)
      (needs_frame is) (calls_deferred is) \<and>
    list_all2 (same_instruction w C (GetValue c)) is is'"
  using assms
proof (induction "is" arbitrary: c)
  case Nil
  have "(SaveInstructions_loop w [] :: 'a sv) = Some" by (rule ext) simp
  then have "saves C (SaveInstructions_loop w [] :: 'a sv) []" by (simp only: saves_Some)
  moreover have "receives (LoadInstructions_loop w (length []) c :: 'b loader_base_scheme \<Rightarrow> _) [] (c\<lparr>instructions := instructions c @ []\<rparr>)
      (needs_frame []) (calls_deferred [])" unfolding receives_def
  proof (intro allI impI)
    fix l :: "'b loader_base_scheme" and rest
    assume "input l = [] @ rest"
    then show "LoadInstructions_loop w (length []) c l =
        Some (c\<lparr>instructions := instructions c @ []\<rparr>, note_flags (needs_frame []) (calls_deferred []) (l\<lparr>input := rest\<rparr>))"
      by (cases l) simp
  qed
  ultimately show ?case by blast
next
  case (Cons i "is")
  from Cons.prems have "instruction_ok w C (block_number c) i" by simp
  then obtain shim shim0 where i: "instruction_wf w (block_number c) i" "attachments_ok w i" "hydrogen_shim i = Some shim"
    "reloads_instruction_shim w C (\<lambda>_. None) (opcode i) shim shim0" by (auto simp: instruction_ok_def)
  obtain shim' where shim': "reloads_instruction_shim w C (GetValue c) (opcode i) shim shim'"
    using reloads_instruction_shim_values [OF i(4)] by blast
  obtain b1 i' where b1: "saves C (SaveInstruction w i :: 'a sv) b1"
    "receives (LoadInstruction w (block_number c) (GetValue c) :: 'b loader_base_scheme \<Rightarrow> _) b1 (Some i')
      (opcode i = kArgumentsElements) (opcode i = kStackCheck)" "same_instruction w C (GetValue c) i i'"
    using instruction_transmitted [OF i(1-3) shim'] by blast
  let ?c = "AddLoadedInstruction i' c"
  have c: "block_number ?c = block_number c" "GetValue ?c = GetValue c" "instructions ?c = instructions c @ [i']"
    "?c\<lparr>instructions := x\<rparr> = c\<lparr>instructions := x\<rparr>" for x
    by (simp_all add: AddLoadedInstruction_def)
  obtain b2 is' where b2: "saves C (SaveInstructions_loop w is :: 'a sv) b2"
    "receives (LoadInstructions_loop w (length is) ?c :: 'b loader_base_scheme \<Rightarrow> _) b2 (c\<lparr>instructions := instructions c @ i' # is'\<rparr>)
      (needs_frame is) (calls_deferred is)" "list_all2 (same_instruction w C (GetValue c)) is is'"
    using Cons.IH [of ?c] Cons.prems c by auto
  have "saves C (SaveInstructions_loop w (i # is) :: 'a sv) (b1 @ b2)"
    using saves_bind [OF b1(1) saves_return [OF b2(1)]] by (simp add: saves_def)
  moreover have "receives (LoadInstructions_loop w (length (i # is)) c :: 'b loader_base_scheme \<Rightarrow> _) (b1 @ b2)
      (c\<lparr>instructions := instructions c @ i' # is'\<rparr>)
      (opcode i = kArgumentsElements \<or> needs_frame is) (opcode i = kStackCheck \<or> calls_deferred is)"
  proof -
    let ?k = "\<lambda>instr (l :: 'b loader_base_scheme). RETURN_VALUE_ON_FAIL c l (instr \<bind> (\<lambda>instr.
        LoadInstructions_loop w (length is) (AddLoadedInstruction instr c) l))"
    have "receives (?k (Some i')) b2 (c\<lparr>instructions := instructions c @ i' # is'\<rparr>) (needs_frame is) (calls_deferred is)"
      using receives_return [OF b2(2)] by simp
    from receives_bind [where k = ?k, OF b1(2) this]
    have "receives (\<lambda>l. LoadInstruction w (block_number c) (GetValue c) l \<bind> (\<lambda>(instr, l). ?k instr l)) (b1 @ b2)
      (c\<lparr>instructions := instructions c @ i' # is'\<rparr>)
      (opcode i = kArgumentsElements \<or> needs_frame is) (opcode i = kStackCheck \<or> calls_deferred is)" .
    moreover have "LoadInstructions_loop w (length (i # is)) c =
        (\<lambda>l. LoadInstruction w (block_number c) (GetValue c) l \<bind> (\<lambda>(instr, l). ?k instr l))" by (rule ext) simp
    ultimately show ?thesis by (simp only:)
  qed
  ultimately show ?case using b1(3) b2(3) by (intro exI [of _ "b1 @ b2"] exI [of _ "i' # is'"])
      (simp del: SaveInstructions_loop.simps LoadInstructions_loop.simps)
qed

lemma saves_instructions:
  assumes "\<forall>i \<in> set is. instruction_ok w C (block_number c) i" "length is < 2 ^ 31"
  shows "\<exists>bs is'. saves C (SaveInstructions w is :: 'a sv) bs \<and>
    receives (LoadInstructions w c :: 'b loader_base_scheme \<Rightarrow> _) bs (c\<lparr>instructions := instructions c @ is'\<rparr>)
      (needs_frame is) (calls_deferred is) \<and>
    list_all2 (same_instruction w C (GetValue c)) is is'"
proof -
  obtain bs is' where bs: "saves C (SaveInstructions_loop w is :: 'a sv) bs"
    "receives (LoadInstructions_loop w (length is) c :: 'b loader_base_scheme \<Rightarrow> _) bs (c\<lparr>instructions := instructions c @ is'\<rparr>)
      (needs_frame is) (calls_deferred is)" "list_all2 (same_instruction w C (GetValue c)) is is'"
    using saves_instructions_loop [OF assms(1)] by blast
  obtain b0 where b0: "saves C (SavePrimitive (int_length is) :: 'a sv) b0"
    "loads (LoadPrimitive :: 'b loader_base_scheme \<Rightarrow> _) b0 (int_length is)" by (rule transmitsE [OF transmits_primitives(3)])
  have n: "iterations (int_length is) = length is" using assms(2) by simp
  have "saves C (SaveInstructions w is :: 'a sv) (b0 @ bs)"
    unfolding SaveInstructions_def [abs_def] by (rule saves_bind [OF b0(1) bs(1)])
  moreover have "receives (LoadInstructions w c :: 'b loader_base_scheme \<Rightarrow> _) (b0 @ bs) (c\<lparr>instructions := instructions c @ is'\<rparr>)
      (needs_frame is) (calls_deferred is)"
    unfolding LoadInstructions_def [abs_def] by (rule loads_bind_receives [OF b0(2)]) (simp only: n bs(2))
  ultimately show ?thesis using bs(3) by blast
qed

section \<open>The chunk\<close>

lemma transmits_osr:
  "transmits C (SaveOsr g) (LoadOsr g') (case graph_osr g of Some n \<Rightarrow> g'\<lparr>graph_osr := Some n\<rparr> | None \<Rightarrow> g')"
proof (cases "graph_osr g")
  case None
  have "transmits C SaveFalse (LoadOsr g') g'"
    unfolding LoadOsr_def [abs_def] by (rule transmits_save_last [OF transmits_false]) simp
  then show ?thesis by (simp add: None SaveOsr_def [abs_def])
next
  case (Some n)
  have "transmits C (\<lambda>s. SaveTrue s \<bind> SavePrimitive n) (LoadOsr g') (g'\<lparr>graph_osr := Some n\<rparr>)"
    unfolding LoadOsr_def [abs_def]
    by (rule transmits_bind [OF transmits_true], simp only: if_True) (rule transmits_map [OF transmits_primitives(3)])
  then show ?thesis by (simp add: Some SaveOsr_def [abs_def])
qed

definition closure_ok :: "'w chunk_world_scheme \<Rightarrow> addr \<Rightarrow> bool" where
  "closure_ok w closure \<longleftrightarrow> shared_info_ok w (jsf_shared (w_function w closure)) \<and>
     (\<forall>info. resolved_shared_info w (jsf_shared (w_function w closure)) = Some info \<longrightarrow>
        w_has_deoptimization_support w info \<or> w_EnsureDeoptimizationSupport w info)"

lemma transmits_closures_loop:
  assumes "\<forall>closure \<in> set closures. closure_ok w closure"
  shows "transmits C (save_each (\<lambda>closure. SaveSharedFunctionInfo w (jsf_shared (w_function w closure))) closures :: 'a sv)
    (LoadInlinedClosures w (length closures) :: 'b loader_base_scheme \<Rightarrow> _) True"
  using assms
proof (induction closures)
  case Nil
  show ?case using transmits_done [of C True] by (simp add: transmits_def saves_def loads_def)
next
  case (Cons closure closures)
  let ?info = "jsf_shared (w_function w closure)"
  from Cons.prems have ok: "shared_info_ok w ?info" by (simp add: closure_ok_def)
  then obtain info where info: "resolved_shared_info w ?info = Some info" by (auto simp: shared_info_ok_def)
  with Cons.prems have deopt: "w_has_deoptimization_support w info \<or> w_EnsureDeoptimizationSupport w info"
    by (simp add: closure_ok_def)
  have one: "transmits C (SaveSharedFunctionInfo w ?info :: 'a sv) (LoadSharedFunctionInfo w :: 'b loader_base_scheme \<Rightarrow> _) (Some info)"
    using transmits_SharedFunctionInfo [OF ok] by (simp only: info)
  have rest: "transmits C (save_each (\<lambda>closure. SaveSharedFunctionInfo w (jsf_shared (w_function w closure))) closures :: 'a sv)
    (LoadInlinedClosures w (length closures) :: 'b loader_base_scheme \<Rightarrow> _) True" using Cons by simp
  let ?k = "\<lambda>shared_info (l :: 'b loader_base_scheme). RETURN_VALUE_ON_FAIL False l (shared_info \<bind> (\<lambda>shared_info.
      if w_has_deoptimization_support w shared_info \<or> w_EnsureDeoptimizationSupport w shared_info
      then LoadInlinedClosures w (length closures) l
      else Some (False, Fail ''could not ensure deoptimization support for inlined function'' l)))"
  have "transmits C (\<lambda>s. SaveSharedFunctionInfo w ?info s \<bind>
        save_each (\<lambda>closure. SaveSharedFunctionInfo w (jsf_shared (w_function w closure))) closures :: 'a saver_base_scheme option)
      (\<lambda>l. LoadSharedFunctionInfo w l \<bind> (\<lambda>(shared_info, l). ?k shared_info l)) True"
    by (rule transmits_bind [OF one], rule transmits_load_return)
      (simp only: Option.bind.bind_lunit if_P [OF deopt] rest)
  then show ?case by (simp add: transmits_def saves_def loads_def)
qed

lemma transmits_closures:
  assumes "\<forall>closure \<in> set closures. closure_ok w closure" "length closures < 2 ^ 31"
  shows "transmits C (SaveInlinedClosures w closures :: 'a sv)
    (\<lambda>l :: 'b loader_base_scheme. LoadPrimitive l \<bind> (\<lambda>(n, l). LoadInlinedClosures w (iterations n) l)) True"
proof -
  have n: "iterations (int_length closures) = length closures" using assms(2) by simp
  show ?thesis unfolding SaveInlinedClosures_def [abs_def]
    by (rule transmits_bind [OF transmits_primitives(3)]) (simp only: n transmits_closures_loop [OF assms(1)])
qed

text \<open>A chunk that the format carries, and what comes back. The constants of the loaded chunk are those
  that are live; what is not transmitted is empty.\<close>

definition chunk_ok :: "'w chunk_world_scheme \<Rightarrow> LChunk \<Rightarrow> bool" where
  "chunk_ok w c \<longleftrightarrow> length (bv_data (dehoisted_key_ids c)) < 2 ^ 31 \<and> graph_ok (graph c) \<and> live_ok c \<and>
     (\<forall>i \<in> live_ids c. \<exists>shim'. constant_reloads w [] (graph c) i shim') \<and>
     length (instructions c) < 2 ^ 31 \<and>
     (\<forall>i \<in> set (instructions c). instruction_ok w [] (block_number c) i) \<and>
     length (inlined_closures c) < 2 ^ 31 \<and> (\<forall>closure \<in> set (inlined_closures c). closure_ok w closure)"

definition same_chunk :: "'w chunk_world_scheme \<Rightarrow> LChunk \<Rightarrow> LChunk \<Rightarrow> bool" where
  "same_chunk w c c' \<longleftrightarrow> spill_slot_count c' = spill_slot_count c \<and> dehoisted_key_ids c' = dehoisted_key_ids c \<and>
     graph c' = loaded_graph (w_first_expression_index w) (graph c) \<and>
     list_all2 (same_instruction w [] (GetValue c')) (instructions c) (instructions c') \<and>
     (\<forall>i. if i \<in> live_ids c
        then \<exists>shim'. GetValue c' i = Some (ConstantShim shim') \<and> constant_reloads w [] (graph c) i shim'
        else GetValue c' i = None) \<and>
     pointer_maps c' = [] \<and> inlined_closures c' = []"

lemma block_number_loaded:
  assumes "graph_ok (graph c)" "graph c' = loaded_graph n (graph c)"
  shows "block_number c' = block_number c"
  using assms
  by (auto simp: fun_eq_iff block_number_def block_at_index_def loaded_graph_def nth_enumerate_eq graph_ok_def Let_def)

text \<open>What follows the flag that is kept in the compilation.\<close>

definition Save_rest :: "'w constant_world_scheme \<Rightarrow> LChunk \<Rightarrow> 'a sv" where
  "Save_rest w c s = do {
     s \<leftarrow> SavePrimitive (spill_slot_count c) s;
     s \<leftarrow> SaveOsr (graph c) s;
     s \<leftarrow> SaveBasicBlocks (blocks (graph c)) s;
     RETURN_ON_FAIL s (do {
       s \<leftarrow> SaveConstants w c s;
       RETURN_ON_FAIL s (do {
         s \<leftarrow> SaveInstructions w (instructions c) s;
         RETURN_ON_FAIL s (SaveInlinedClosures w (inlined_closures c) s)
       })
     })
   }"

definition Load_rest :: "'w chunk_world_scheme \<Rightarrow> LChunk \<Rightarrow> 'b loader_base_scheme \<Rightarrow> (LChunk option, 'b) load_result" where
  "Load_rest w c l = do {
     (n, l) \<leftarrow> LoadPrimitive l;
     (g, l) \<leftarrow> LoadOsr (graph c) l;
     (g, l) \<leftarrow> LoadBasicBlocks w g l;
     RETURN_VALUE_ON_FAIL None l (do {
       (c, l) \<leftarrow> LoadConstants w (c\<lparr>spill_slot_count := n, graph := g\<rparr>) l;
       RETURN_VALUE_ON_FAIL None l (do {
         (c, l) \<leftarrow> LoadInstructions w c l;
         RETURN_VALUE_ON_FAIL None l (do {
           (ok, l) \<leftarrow> (do { (n, l) \<leftarrow> LoadPrimitive l; LoadInlinedClosures w (iterations n) l });
           Some (if ok then Some c else None, l)
         })
       })
     })
   }"

definition chunk_start :: "'w chunk_world_scheme \<Rightarrow> LChunk \<Rightarrow> LChunk" where
  "chunk_start w c = (new_LChunk (new_HGraph (w_first_expression_index w)))\<lparr>dehoisted_key_ids := dehoisted_key_ids c\<rparr>"

lemma saves_rest:
  fixes w :: "'w chunk_world_scheme"
  assumes ok: "chunk_ok w c"
  shows "\<exists>bs c'. saves [] (Save_rest w c :: 'a sv) bs \<and>
    receives (Load_rest w (chunk_start w c) :: 'b loader_base_scheme \<Rightarrow> _) bs (Some c')
      (needs_frame (instructions c)) (calls_deferred (instructions c)) \<and>
    same_chunk w c c'"
proof -
  define n where "n = w_first_expression_index w"
  let ?g0 = "(new_HGraph n)\<lparr>graph_osr := graph_osr (graph c)\<rparr>"
  have graph: "graph_ok (graph c)" and live: "live_ok c" and
    reload: "\<forall>i \<in> live_ids c. \<exists>shim'. constant_reloads w [] (graph c) i shim'" and
    len: "length (instructions c) < 2 ^ 31" "length (inlined_closures c) < 2 ^ 31" and
    closures: "\<forall>closure \<in> set (inlined_closures c). closure_ok w closure" and
    instrs: "\<forall>i \<in> set (instructions c). instruction_ok w [] (block_number c) i"
    using ok unfolding chunk_ok_def by blast+
  have g0: "(case graph_osr (graph c) of Some n' \<Rightarrow> (new_HGraph n)\<lparr>graph_osr := Some n'\<rparr> | None \<Rightarrow> new_HGraph n) = ?g0"
    by (simp add: new_HGraph_parts split: option.splits)
  let ?c0 = "(chunk_start w c)\<lparr>spill_slot_count := spill_slot_count c, graph := loaded_graph n (graph c)\<rparr>"
  obtain vs where vs: "transmits [] (SaveConstants w c :: 'a sv) (LoadConstants w ?c0 :: 'b loader_base_scheme \<Rightarrow> _) (?c0\<lparr>chunk_values := vs\<rparr>)"
    "\<forall>j. if j \<in> live_ids c then \<exists>shim'. GetValue (?c0\<lparr>chunk_values := vs\<rparr>) j = Some (ConstantShim shim') \<and>
        constant_reloads w [] (graph c) j shim'
       else GetValue (?c0\<lparr>chunk_values := vs\<rparr>) j = GetValue ?c0 j"
    using transmits_constants [OF live reload, of ?c0] by blast
  let ?c1 = "?c0\<lparr>chunk_values := vs\<rparr>"
  have "block_number ?c1 = block_number c" by (rule block_number_loaded [OF graph, where n = n]) simp
  with instrs have "\<forall>i \<in> set (instructions c). instruction_ok w [] (block_number ?c1) i" by simp
  from saves_instructions [OF this len(1)] obtain b4 is' where
    b4: "saves [] (SaveInstructions w (instructions c) :: 'a sv) b4"
    "receives (LoadInstructions w ?c1 :: 'b loader_base_scheme \<Rightarrow> _) b4 (?c1\<lparr>instructions := instructions ?c1 @ is'\<rparr>)
      (needs_frame (instructions c)) (calls_deferred (instructions c))"
    "list_all2 (same_instruction w [] (GetValue ?c1)) (instructions c) is'" by blast
  let ?c2 = "?c1\<lparr>instructions := is'\<rparr>"
  have c2: "?c1\<lparr>instructions := instructions ?c1 @ is'\<rparr> = ?c2" by (simp add: chunk_start_def new_LChunk_def)
  obtain b0 where b0: "saves [] (SavePrimitive (spill_slot_count c) :: 'a sv) b0"
    "loads (LoadPrimitive :: 'b loader_base_scheme \<Rightarrow> _) b0 (spill_slot_count c)" by (rule transmitsE [OF transmits_primitives(3)])
  obtain b1 where b1: "saves [] (SaveOsr (graph c) :: 'a sv) b1"
    "loads (LoadOsr (graph (chunk_start w c)) :: 'b loader_base_scheme \<Rightarrow> _) b1 ?g0"
    using transmits_osr [of "[]" "graph c" "new_HGraph n"]
    by (auto simp: transmits_def g0 chunk_start_def new_LChunk_def n_def)
  obtain b2 where b2: "saves [] (SaveBasicBlocks (blocks (graph c)) :: 'a sv) b2"
    "loads (LoadBasicBlocks w ?g0 :: 'b loader_base_scheme \<Rightarrow> _) b2 (loaded_graph n (graph c))"
    using transmits_blocks [OF graph refl] unfolding n_def by (rule transmitsE)
  obtain b3 where b3: "saves [] (SaveConstants w c :: 'a sv) b3" "loads (LoadConstants w ?c0 :: 'b loader_base_scheme \<Rightarrow> _) b3 ?c1"
    using vs(1) by (rule transmitsE)
  obtain b5 where b5: "saves [] (SaveInlinedClosures w (inlined_closures c) :: 'a sv) b5"
    "loads (\<lambda>l :: 'b loader_base_scheme. LoadPrimitive l \<bind> (\<lambda>(n, l). LoadInlinedClosures w (iterations n) l)) b5 True"
    by (rule transmitsE [OF transmits_closures [OF closures len(2)]])
  have last_part: "loads (\<lambda>l :: 'b loader_base_scheme. (LoadPrimitive l \<bind> (\<lambda>(n, l). LoadInlinedClosures w (iterations n) l)) \<bind>
      (\<lambda>(ok, l). Some (if ok then Some ?c2 else None, l))) b5 (Some ?c2)"
    using loads_bind [OF b5(2), where k = "\<lambda>ok l. Some (if ok then Some ?c2 else None, l)"] loads_Some by fastforce
  have "saves [] (Save_rest w c :: 'a sv) (b0 @ b1 @ b2 @ b3 @ b4 @ b5)"
    unfolding Save_rest_def [abs_def]
    by (intro saves_bind saves_return b0(1) b1(1) b2(1) b3(1) b4(1) b5(1))
  moreover have "receives (Load_rest w (chunk_start w c) :: 'b loader_base_scheme \<Rightarrow> _) (b0 @ b1 @ b2 @ b3 @ b4 @ b5) (Some ?c2)
      (needs_frame (instructions c)) (calls_deferred (instructions c))"
    unfolding Load_rest_def [abs_def]
    by (rule loads_bind_receives [OF b0(2)], rule loads_bind_receives [OF b1(2)], rule loads_bind_receives [OF b2(2)],
      rule receives_return, rule loads_bind_receives [OF b3(2)], rule receives_return,
      rule receives_bind_loads [OF b4(2) [unfolded c2]], rule loads_return, rule last_part)
  moreover have "same_chunk w c ?c2"
  proof -
    have vals: "GetValue ?c2 = GetValue ?c1" "\<And>j. GetValue ?c0 j = None"
      by (rule block_number_add(2)) (simp add: chunk_start_def new_LChunk_def GetValue_def)
    have parts: "spill_slot_count ?c2 = spill_slot_count c" "dehoisted_key_ids ?c2 = dehoisted_key_ids c"
      "graph ?c2 = loaded_graph (w_first_expression_index w) (graph c)" "instructions ?c2 = is'" "pointer_maps ?c2 = []"
      "inlined_closures ?c2 = []" by (simp_all add: chunk_start_def new_LChunk_def n_def)
    show ?thesis unfolding same_chunk_def parts vals(1)
      using vs(2) [unfolded vals(2)] b4(3) by blast
  qed
  ultimately show ?thesis by blast
qed

lemma chunk_transmitted:
  fixes w :: "'w chunk_world_scheme"
  assumes "chunk_ok w c"
  shows "\<exists>bs c' l. LSavedChunk_Save w this_has_uses c = Some (True, None, bs) \<and>
    LSavedChunk_Load w bs = Some (Some c', None, l) \<and> same_chunk w c c' \<and>
    info_this_has_uses l = this_has_uses \<and>
    info_requires_frame l = needs_frame (instructions c) \<and>
    info_deferred_calling l = calls_deferred (instructions c)"
proof -
  let ?s = "saver_base.extend LChunkSaverBase \<lparr>saver_this_has_uses = this_has_uses\<rparr>"
  obtain b0 where b0: "saves [] (SavePlatformChunk c :: chunk_saver \<Rightarrow> _) b0"
    "loads (LoadBitVector :: chunk_loader \<Rightarrow> _) b0 (dehoisted_key_ids c)"
    unfolding SavePlatformChunk_def [abs_def]
    by (rule transmitsE [OF transmits_BitVector]) (use assms in \<open>auto simp: chunk_ok_def\<close>)
  obtain b1 where b1: "saves [] (SavePrimitive_bool this_has_uses :: chunk_saver \<Rightarrow> _) b1"
    "loads (LoadPrimitive_bool :: chunk_loader \<Rightarrow> _) b1 this_has_uses"
    by (rule transmitsE [OF transmits_bool])
  obtain b2 c' where b2: "saves [] (Save_rest w c :: chunk_saver \<Rightarrow> _) b2"
    "receives (Load_rest w (chunk_start w c) :: chunk_loader \<Rightarrow> _) b2 (Some c')
      (needs_frame (instructions c)) (calls_deferred (instructions c))" "same_chunk w c c'"
    using saves_rest [OF assms] by blast
  let ?bs = "b0 @ b1 @ b2"
  have good: "status ?s = SUCCEEDED" "map_cache ?s = []" "bytes ?s = []" "saver_this_has_uses ?s = this_has_uses" "reason ?s = None"
    by (simp_all add: LChunkSaverBase_def saver_base.defs)
  have "Save w c ?s = Some (?s\<lparr>bytes := ?bs\<rparr>)"
  proof -
    have s0: "SavePlatformChunk c ?s = Some (?s\<lparr>bytes := b0\<rparr>)" using savesD [OF b0(1) good(1,2)] good(3) by simp
    have s1: "SavePrimitive_bool this_has_uses (?s\<lparr>bytes := b0\<rparr>) = Some (?s\<lparr>bytes := b0 @ b1\<rparr>)"
      using savesD [OF b1(1), of "?s\<lparr>bytes := b0\<rparr>"] good by simp
    have s2: "Save_rest w c (?s\<lparr>bytes := b0 @ b1\<rparr>) = Some (?s\<lparr>bytes := ?bs\<rparr>)"
      using savesD [OF b2(1), of "?s\<lparr>bytes := b0 @ b1\<rparr>"] good by simp
    have uses: "saver_this_has_uses (?s\<lparr>bytes := b0\<rparr>) = this_has_uses" "status (?s\<lparr>bytes := b0\<rparr>) = SUCCEEDED"
      using good by (simp_all add: saver_base.defs)
    have "Save w c ?s = SavePrimitive_bool this_has_uses (?s\<lparr>bytes := b0\<rparr>) \<bind> Save_rest w c"
      unfolding Save_def s0 Option.bind.bind_lunit RETURN_ON_FAIL_def [of "?s\<lparr>bytes := b0\<rparr>"] uses
      by (simp add: Save_rest_def [abs_def])
    then show ?thesis by (simp only: s1 s2 Option.bind.bind_lunit)
  qed
  moreover
  let ?l = "loader_base.extend (LChunkLoaderBase ?bs) \<lparr>info_this_has_uses = False\<rparr>"
  have lgood: "status ?l = SUCCEEDED" "input ?l = b0 @ b1 @ b2" "reason ?l = None" "\<not> info_requires_frame ?l" "\<not> info_deferred_calling ?l"
    by (simp_all add: LChunkLoaderBase_def loader_base.defs)
  let ?l2 = "?l\<lparr>input := b2, info_this_has_uses := this_has_uses\<rparr>"
  let ?l3 = "note_flags (needs_frame (instructions c)) (calls_deferred (instructions c)) (?l2\<lparr>input := []\<rparr>)"
  have "Load w ?l = Some (Some c', ?l3)"
  proof -
    have l0: "LoadBitVector ?l = Some (dehoisted_key_ids c, ?l\<lparr>input := b1 @ b2\<rparr>)"
      using loadsD [OF b0(2) lgood(1,2)] .
    have l1: "LoadPrimitive_bool (?l\<lparr>input := b1 @ b2\<rparr>) = Some (this_has_uses, ?l\<lparr>input := b2\<rparr>)"
      using loadsD [OF b1(2), of "?l\<lparr>input := b1 @ b2\<rparr>" b2] lgood by simp
    have l2: "Load_rest w (chunk_start w c) ?l2 = Some (Some c', ?l3)"
      using b2(2) lgood(1) unfolding receives_def by (simp add: loader_base.defs LChunkLoaderBase_def)
    have "Load w ?l = Load_rest w (chunk_start w c) ?l2"
      by (simp add: Load_def LoadPlatformChunk_def l0 l1 Load_rest_def chunk_start_def Let_def split_def)
    then show ?thesis by (simp only: l2)
  qed
  ultimately show ?thesis using b2(3) good lgood
    by (intro exI [of _ ?bs] exI [of _ c'] exI [of _ ?l3])
      (simp add: LSavedChunk_Save_def LSavedChunk_Load_def note_flags_def)
qed

section \<open>The constants of the loaded code\<close>

lemma map_int_sorted_list_of_set:
  assumes "finite A"
  shows "map int (sorted_list_of_set A) = sorted_list_of_set (int ` A)"
proof -
  have "sorted (map int (sorted_list_of_set A))" by (simp add: sorted_map)
  moreover have "distinct (map int (sorted_list_of_set A))" by (simp add: distinct_map)
  ultimately have "sorted_list_of_set (set (map int (sorted_list_of_set A))) = map int (sorted_list_of_set A)"
    by (rule sorted_list_of_set.idem_if_sorted_distinct)
  with assms show ?thesis by simp
qed

text \<open>The operands of an instruction are those of the saved one.\<close>

lemma same_environment_values:
  "same_environment w env env' \<Longrightarrow> concat (map env_values env') = concat (map env_values env)"
  by (auto simp: same_environment_def same_frame_def list_all2_conv_all_nth intro!: arg_cong [of _ _ concat] nth_equalityI)

lemma same_instruction_operands:
  assumes "same_instruction w C g i i'"
  shows "referred_operands i' = referred_operands i"
proof -
  have "parallel_moves i' = parallel_moves i"
    using assms by (cases "members i") (auto simp: same_instruction_def same_members_def parallel_moves_def)
  moreover have "IsGap i' = IsGap i" using assms by (simp add: same_instruction_def IsGap_def)
  moreover have "concat (map env_values (environment i')) = concat (map env_values (environment i))"
    using assms by (intro same_environment_values [of w]) (simp add: same_instruction_def)
  ultimately show ?thesis using assms by (simp add: same_instruction_def referred_operands_def)
qed

lemma LookupConstant_live:
  assumes "same_chunk w c c'" "constant_index op \<in> live_ids c"
  shows "\<exists>constant. LookupConstant op c' = Some (constant, c') \<and> constant_reloads w [] (graph c) (constant_index op) constant"
proof -
  obtain shim' where "GetValue c' (constant_index op) = Some (ConstantShim shim')"
    "constant_reloads w [] (graph c) (constant_index op) shim'"
    using assms unfolding same_chunk_def by meson
  then show ?thesis by (simp add: LookupConstant_def Let_def)
qed

lemma LSavedChunk_determined:
  fixes w :: "'w chunk_world_scheme"
  assumes ok: "chunk_ok w c" and save: "LSavedChunk_Save w u c = Some (done, r, bs)"
    and load: "LSavedChunk_Load w bs = Some (Some c', r', l)"
  shows "same_chunk w c c'"
  using chunk_transmitted [OF ok, of u] save load by auto

section \<open>A chunk to try the properties on\<close>

text \<open>One block with an addition of a constant.\<close>

definition sample_chunk_world :: chunk_world where
  "sample_chunk_world = constant_world.extend sample_constant_world
     \<lparr>w_first_expression_index = 2, w_has_deoptimization_support = (\<lambda>_. True), w_EnsureDeoptimizationSupport = (\<lambda>_. True)\<rparr>"

definition sample_constant :: HValue where
  "sample_constant = \<lparr>value_id = 2, value_block_id = 0, value_position = 0, value_representation = kInteger32, value_flags = 0,
     value_constant = Some (HConstant_integer sample_chunk_world 5 kInteger32 True None)\<rparr>"

definition sample_label :: LInstruction where
  "sample_label = (LLabel 0)
     \<lparr>hydrogen_value := Some \<lparr>value_id = 0, value_block_id = 0, value_position = 0, value_representation = kNone,
        value_flags = 0, value_constant = None\<rparr>,
      hydrogen_shim := Some (ValueShim (HValueShim 0 0 0 kNone HType_Any 0))\<rparr>"

definition sample_graph :: HGraph where
  "sample_graph = (new_HGraph 2)\<lparr>graph_values := [None, None, Some sample_constant]\<rparr>"

definition sample_chunk :: LChunk where
  "sample_chunk = (new_LChunk sample_graph)\<lparr>spill_slot_count := 4, instructions := [sample_label, sample_add]\<rparr>"

lemma sample_graph_parts:
  "blocks sample_graph = [(new_HBasicBlock 0)\<lparr>last_environment := Some kFunctionEntryId\<rparr>]"
  "graph_values sample_graph = [None, None, Some sample_constant]"
  by (simp_all add: sample_graph_def new_HGraph_parts)

lemma sample_chunk_parts:
  "graph sample_chunk = sample_graph" "instructions sample_chunk = [sample_label, sample_add]" "inlined_closures sample_chunk = []"
  "dehoisted_key_ids sample_chunk = new_BitVector 3"
  by (simp_all add: sample_chunk_def new_LChunk_def GetMaximumValueID_def sample_graph_parts)

lemma sample_operands:
  "IsConstantOperand (ConvertTo CONSTANT_OPERAND 2)" "constant_index (ConvertTo CONSTANT_OPERAND 2) = 2"
  "\<not> IsConstantOperand (ConvertTo REGISTER 1)"
  by code_simp+

lemma sample_live_ids: "live_ids sample_chunk = {2}"
proof -
  have label: "defined_ids sample_label = {}" "constant_ids (referred_operands sample_label) = {}"
    by (simp_all add: defined_ids_def referred_operands_def sample_label_def LLabel_def template_instruction_def
        parallel_moves_def moves_operands_def numeral_eq_Suc)
  have "referred_operands sample_add = [Some (ConvertTo REGISTER 1), Some (ConvertTo CONSTANT_OPERAND 2)]"
    by (simp add: referred_operands_def IsGap_def opcodes) (simp add: sample_add_def LAddI_def template_instruction_def)
  then have "constant_ids (referred_operands sample_add) = {2}" by (simp add: sample_operands)
  moreover have "defined_ids sample_add = {}" by (simp add: defined_ids_def sample_add_def)
  ultimately show ?thesis using label by (simp add: live_ids_def sample_chunk_parts)
qed

lemma sample_label_ok: "instruction_ok w [] (block_number sample_chunk) sample_label"
proof -
  have row: "map_of class_table kLabel = Some (0, 0, 0, KLabel)" by (simp add: class_table_def opcodes)
  have op: "opcode sample_label = kLabel" by (simp add: sample_label_def LLabel_def template_instruction_def)
  have "block_number sample_chunk 0 = Some 0"
    by (simp add: block_number_def block_at_index_def sample_chunk_parts sample_graph_parts new_HBasicBlock_def)
  then have "instruction_wf w (block_number sample_chunk) sample_label" unfolding instruction_wf_def op row
    by (simp add: sample_label_def LLabel_def template_instruction_def members_ok_def moves_ok_def)
  moreover have "attachments_ok w sample_label"
    by (simp add: attachments_ok_def sample_label_def LLabel_def template_instruction_def)
  moreover have "kLabel \<notin> set LITHIUM_CONSTANT_INSTRUCTION_LIST" "map_of HYDROGEN_CONCRETE_SHIM_OWNER_LIST kLabel = None"
    by (simp_all add: LITHIUM_CONSTANT_INSTRUCTION_LIST_def HYDROGEN_CONCRETE_SHIM_OWNER_LIST_def opcodes)
  then have "\<exists>shim'. reloads_instruction_shim w [] (\<lambda>_. None) kLabel (ValueShim (HValueShim 0 0 0 kNone HType_Any 0)) shim'"
    by (blast intro: reloads_instruction_shim.unlisted)
  ultimately show ?thesis unfolding instruction_ok_def op by (simp add: sample_label_def)
qed

lemma sample_live_ok: "live_ok sample_chunk"
proof -
  have "hydrogen_value sample_label \<noteq> None" "hydrogen_value sample_add \<noteq> None"
    by (simp_all add: sample_label_def sample_add_def)
  then show ?thesis by (simp add: live_ok_def sample_chunk_parts sample_graph_parts valid_ids_def sample_live_ids GetMaximumValueID_def)
qed

lemma sample_chunk_ok: "chunk_ok sample_chunk_world sample_chunk"
proof -
  have dehoisted: "length (bv_data (new_BitVector 3)) < 2 ^ 31" by (simp add: new_BitVector_def SizeFor_pos)
  have graph: "graph_ok sample_graph" by (simp add: graph_ok_def sample_graph_parts new_HBasicBlock_def)
  have number: "number_object sample_chunk_world kInteger32 None" by (simp add: number_object_def)
  have "LookupValue sample_graph 2 = Some sample_constant" by (simp add: LookupValue_def sample_graph_parts)
  moreover have "constant_shim sample_constant =
      Some (HConstantShim_of 2 0 0 0 (HConstant_integer sample_chunk_world 5 kInteger32 True None))"
    by (simp add: constant_shim_def sample_constant_def)
  ultimately have live: "\<exists>shim'. constant_reloads sample_chunk_world [] sample_graph 2 shim'"
    unfolding constant_reloads_def using reloads_constant.number [OF number_shim_integer [OF number]] by blast
  have "\<exists>shim shim'. hydrogen_shim sample_add = Some shim \<and>
      reloads_instruction_shim sample_chunk_world [] (\<lambda>_. None) (opcode sample_add) shim shim'"
    using sample_add_wf(3) sample_add_reloads by blast
  then have "instruction_ok sample_chunk_world [] (block_number sample_chunk) sample_add"
    unfolding instruction_ok_def using sample_add_wf(1,2) by blast
  with sample_label_ok dehoisted graph live sample_live_ok show ?thesis
    unfolding chunk_ok_def sample_chunk_parts sample_live_ids by simp
qed

section \<open>Properties\<close>

text \<open>C22 A chunk that was compiled, written by \<^verbatim>\<open>LSavedChunk::Save\<close> and read by \<^verbatim>\<open>LSavedChunk::Load\<close> comes
  back: with the same frame, blocks numbered and marked as before, the live constants and no others, and the
  instructions with their operands, environments and shims; what the compilation must know is set from the
  flag that was saved and the classes of the instructions. No failure is reported on the way.\<close>
theorem chunk_roundtrip:
  fixes w :: "'w chunk_world_scheme"
  assumes "chunk_ok w c"
  shows "\<exists>bs c' l. LSavedChunk_Save w this_has_uses c = Some (True, None, bs) \<and>
    LSavedChunk_Load w bs = Some (Some c', None, l) \<and> same_chunk w c c' \<and>
    info_this_has_uses l = this_has_uses \<and>
    info_requires_frame l = needs_frame (instructions c) \<and>
    info_deferred_calling l = calls_deferred (instructions c)"
  by (rule chunk_transmitted [OF assms])

lemma chunk_roundtrip_witness:
  "\<exists>bs c' l. LSavedChunk_Save sample_chunk_world True sample_chunk = Some (True, None, bs) \<and>
     LSavedChunk_Load sample_chunk_world bs = Some (Some c', None, l) \<and> spill_slot_count c' = 4 \<and>
     length (instructions c') = 2 \<and> info_this_has_uses l"
proof -
  have "spill_slot_count sample_chunk = 4" by (simp add: sample_chunk_def)
  with chunk_roundtrip [OF sample_chunk_ok, of True] show ?thesis
    by (fastforce simp: same_chunk_def sample_chunk_parts dest: list_all2_lengthD)
qed

text \<open>C23 \<^verbatim>\<open>LiveConstants\<close> finds exactly the constants that an instruction defines or that its inputs, the
  moves of a gap or the environments of its frames name; the iterator over the result visits each once, in
  order.\<close>
theorem LiveConstants_exact:
  assumes "live_ok c"
  shows "\<exists>live. LiveConstants c = Some live \<and> elements live = Some (sorted_list_of_set (sint ` live_ids c)) \<and>
    Count live = card (live_ids c)"
proof -
  obtain live where live: "LiveConstants c = Some live" "bv_wf live" "bv_set live = id_nat ` live_ids c"
    using LiveConstants_ids [OF assms] by blast
  have pos: "0 \<le> sint i" if "i \<in> live_ids c" for i using assms that by (auto simp: live_ok_def valid_ids_def)
  have inj: "inj_on id_nat (live_ids c)"
    by (rule inj_onI) (metis pos eq_nat_nat_iff signed_word_eqI)
  have image: "sint ` live_ids c = int ` id_nat ` live_ids c" using pos by (force simp: image_image)
  have "bv_data live \<noteq> []" using live(2) by (auto simp: bv_wf_def SizeFor_pos)
  from elements_sorted [OF this] have "elements live = Some (map int (sorted_list_of_set (id_nat ` live_ids c)))"
    by (simp add: live(3))
  moreover have "finite (id_nat ` live_ids c)" using finite_bv_set [of live] by (simp add: live(3))
  ultimately have "elements live = Some (sorted_list_of_set (sint ` live_ids c))"
    unfolding image by (simp only: map_int_sorted_list_of_set)
  moreover have "Count live = card (live_ids c)" by (simp add: Count_card live(3) card_image [OF inj])
  ultimately show ?thesis using live(1) by blast
qed

lemma LiveConstants_exact_witness:
  "\<exists>live. LiveConstants sample_chunk = Some live \<and> elements live = Some [2] \<and> Count live = 1"
  using LiveConstants_exact [OF sample_live_ok] by (simp add: sample_live_ids)

text \<open>C24 Code generation finds every constant in the values of the loaded chunk: for any constant operand among
  the inputs, moves and environments of a loaded instruction, \<^verbatim>\<open>LookupConstant\<close> gives the reloaded constant
  and does not fall back to the graph, which is empty after loading.\<close>
theorem loaded_constants_found:
  fixes w :: "'w chunk_world_scheme"
  assumes "chunk_ok w c" and "LSavedChunk_Save w this_has_uses c = Some (succeeded, r, bs)"
    and "LSavedChunk_Load w bs = Some (Some c', r', l)" and "i' \<in> set (instructions c')"
    and "Some op \<in> set (referred_operands i')" and "IsConstantOperand op"
  shows "graph_values (graph c') = [] \<and>
    (\<exists>constant. LookupConstant op c' = Some (constant, c') \<and> constant_reloads w [] (graph c) (constant_index op) constant)"
proof -
  have same: "same_chunk w c c'" by (rule LSavedChunk_determined [OF assms(1-3)])
  then have "list_all2 (same_instruction w [] (GetValue c')) (instructions c) (instructions c')"
    by (simp add: same_chunk_def)
  then obtain i where i: "i \<in> set (instructions c)" "same_instruction w [] (GetValue c') i i'"
    using assms(4) by (metis in_set_conv_nth list_all2_conv_all_nth)
  with assms(5) have "Some op \<in> set (referred_operands i)" by (simp add: same_instruction_operands [OF i(2)])
  with assms(6) i(1) have "constant_index op \<in> live_ids c" unfolding live_ids_def constant_ids_def by blast
  from LookupConstant_live [OF same this] same show ?thesis by (simp add: same_chunk_def loaded_graph_def)
qed

lemma loaded_constants_found_witness:
  "\<exists>bs c' l r i'. LSavedChunk_Load sample_chunk_world bs = Some (Some c', r, l) \<and> i' \<in> set (instructions c') \<and>
     Some (ConvertTo CONSTANT_OPERAND 2) \<in> set (inputs i') \<and>
     (\<exists>constant. LookupConstant (ConvertTo CONSTANT_OPERAND 2) c' = Some (constant, c'))"
proof -
  obtain bs c' l where c': "LSavedChunk_Save sample_chunk_world True sample_chunk = Some (True, None, bs)"
    "LSavedChunk_Load sample_chunk_world bs = Some (Some c', None, l)" "same_chunk sample_chunk_world sample_chunk c'"
    using chunk_transmitted [OF sample_chunk_ok, of True] by blast
  then have "list_all2 (same_instruction sample_chunk_world [] (GetValue c')) [sample_label, sample_add] (instructions c')"
    by (simp add: same_chunk_def sample_chunk_parts)
  then obtain i' where i': "i' \<in> set (instructions c')" "same_instruction sample_chunk_world [] (GetValue c') sample_add i'"
    unfolding list_all2_Cons1 by (metis list.set_intros(1,2))
  then have inputs: "Some (ConvertTo CONSTANT_OPERAND 2) \<in> set (inputs i')"
    by (simp add: same_instruction_def) (simp add: sample_add_def LAddI_def template_instruction_def)
  then have "Some (ConvertTo CONSTANT_OPERAND 2) \<in> set (referred_operands i')" by (simp add: referred_operands_def)
  from loaded_constants_found [OF sample_chunk_ok c'(1,2) i'(1) this sample_operands(1)]
  have "\<exists>constant. LookupConstant (ConvertTo CONSTANT_OPERAND 2) c' = Some (constant, c')" by blast
  with c'(2) i'(1) inputs show ?thesis by blast
qed

end
