(* ===== verification/EmptyBlocks.thy ===== *)
theory EmptyBlocks
  imports ChunkRoundtrip
begin

text \<open>
  Jumps over empty blocks (\<^verbatim>\<open>src/lithium.cc\<close>): before code is generated, \<^verbatim>\<open>MarkEmptyBlocks\<close> gives the label
  of every block that only jumps on a replacement, and \<^verbatim>\<open>LookupDestination\<close> follows the replacements to the
  block where a jump ends. Nothing in the loop that follows them bounds it; that it ends is a property of the
  blocks.
\<close>

section \<open>Labels\<close>

text \<open>The index of the label of a block. The cast to a label is not checked.\<close>

definition GetLabel :: "LChunk \<Rightarrow> int32 \<Rightarrow> nat option" where
  "GetLabel c number = do {
     block \<leftarrow> block_at_index (graph c) number;
     let first_index = sint (first_instruction_index block);
     label \<leftarrow> instruction_at c first_index;
     if opcode label = kLabel then Some (nat first_index) else None
   }"

partial_function (option) LookupLabel :: "LChunk \<Rightarrow> nat \<Rightarrow> int32 option" where
  "LookupLabel c n = do {
     cur \<leftarrow> instruction_at c (int n);
     (case replacement cur of Some label \<Rightarrow> LookupLabel c label | None \<Rightarrow> gap_block cur)
   }"

definition LookupDestination :: "LChunk \<Rightarrow> int32 \<Rightarrow> int32 option" where
  "LookupDestination c number = GetLabel c number \<bind> LookupLabel c"

section \<open>Empty blocks\<close>

text \<open>Between its label and its jump an empty block has redundant gaps only.\<close>

function can_eliminate :: "LChunk \<Rightarrow> int \<Rightarrow> int \<Rightarrow> bool option" where
  "can_eliminate c i last_index =
     (if i < last_index then do {
        cur \<leftarrow> instruction_at c i;
        if IsGap cur then do {
          redundant \<leftarrow> gap_IsRedundant cur;
          if redundant then can_eliminate c (i + 1) last_index else Some False
        } else Some False
      } else Some True)"
  by pat_completeness auto
termination
  by (relation "measure (\<lambda>(c, i, n). nat (n - i))") auto

declare can_eliminate.simps [simp del]

definition can_eliminate_block :: "LChunk \<Rightarrow> HBasicBlock \<Rightarrow> bool option" where
  "can_eliminate_block c block = do {
     let first_index = sint (first_instruction_index block);
     let last_index = sint (last_instruction_index block);
     label \<leftarrow> instruction_at c first_index;
     last_instr \<leftarrow> instruction_at c last_index;
     if opcode last_instr = kGoto then
       if opcode label \<noteq> kLabel then None
       else do {
         redundant \<leftarrow> gap_IsRedundant label;
         if redundant then do {
           number \<leftarrow> gap_block label;
           label_block \<leftarrow> block_at_index (graph c) number;
           if \<not> IsLoopHeader label_block then can_eliminate c (first_index + 1) last_index else Some False
         } else Some False
       }
     else Some False
   }"

definition MarkEmptyBlock :: "HBasicBlock \<Rightarrow> LChunk \<Rightarrow> LChunk option" where
  "MarkEmptyBlock block c = do {
     eliminate \<leftarrow> can_eliminate_block c block;
     if eliminate then do {
       goto_instr \<leftarrow> instruction_at c (sint (last_instruction_index block));
       number \<leftarrow> goto_block goto_instr;
       label \<leftarrow> GetLabel c number;
       let first_index = nat (sint (first_instruction_index block));
       Some (c\<lparr>instructions := (instructions c)[first_index := set_replacement (Some label) (instructions c ! first_index)]\<rparr>)
     } else Some c
   }"

primrec MarkEmptyBlocks_loop :: "HBasicBlock list \<Rightarrow> LChunk \<Rightarrow> LChunk option" where
  "MarkEmptyBlocks_loop [] c = Some c"
| "MarkEmptyBlocks_loop (block # bs) c = MarkEmptyBlock block c \<bind> MarkEmptyBlocks_loop bs"

definition MarkEmptyBlocks :: "LChunk \<Rightarrow> LChunk option" where
  "MarkEmptyBlocks c = MarkEmptyBlocks_loop (blocks (graph c)) c"

section \<open>Replacements do not change what is empty\<close>

definition erase :: "LInstruction \<Rightarrow> LInstruction" where
  "erase i = set_replacement None i"

definition same_code :: "LChunk \<Rightarrow> LChunk \<Rightarrow> bool" where
  "same_code c c' \<longleftrightarrow> graph c' = graph c \<and> map erase (instructions c') = map erase (instructions c)"

lemma erase_simps [simp]:
  "opcode (set_replacement r i) = opcode i" "gap_block (set_replacement r i) = gap_block i"
  "parallel_moves (set_replacement r i) = parallel_moves i" "goto_block (set_replacement r i) = goto_block i"
  "erase (set_replacement r i) = erase i"
  by (cases "members i"; simp add: set_replacement_def gap_block_def parallel_moves_def goto_block_def erase_def)+

lemma erase_eq:
  "erase i = erase j \<Longrightarrow> opcode i = opcode j \<and> gap_block i = gap_block j \<and> gap_IsRedundant i = gap_IsRedundant j \<and>
    goto_block i = goto_block j \<and> IsGap i = IsGap j"
  by (metis erase_def erase_simps(1-4) gap_IsRedundant_def IsGap_def)

lemma same_code_refl [simp]: "same_code c c"
  by (simp add: same_code_def)

lemma same_code_instruction:
  assumes "same_code c c'"
  shows "map_option erase (instruction_at c' i) = map_option erase (instruction_at c i)"
proof -
  have "map erase (instructions c') = map erase (instructions c)" using assms by (simp add: same_code_def)
  moreover from this have "length (instructions c') = length (instructions c)" by (metis length_map)
  ultimately show ?thesis by (auto simp: instruction_at_def dest: map_eq_imp_length_eq) (metis nth_map)
qed

lemma same_code_at:
  assumes "same_code c c'"
  obtains "instruction_at c i = None" "instruction_at c' i = None"
  | a b where "instruction_at c i = Some a" "instruction_at c' i = Some b" "erase b = erase a"
  using same_code_instruction [OF assms, of i] by (cases "instruction_at c i"; cases "instruction_at c' i") auto

lemma same_code_can_eliminate:
  assumes "same_code c c'"
  shows "can_eliminate c' i n = can_eliminate c i n"
  using assms
proof (induction c i n rule: can_eliminate.induct)
  case (1 c i n)
  show ?case
  proof (cases rule: same_code_at [OF 1(2), of i])
    case 1
    then show ?thesis by (simp add: can_eliminate.simps [of c] can_eliminate.simps [of c'])
  next
    case (2 a b)
    note same = erase_eq [OF 2(3)]
    have "gap_IsRedundant a = Some True \<Longrightarrow> i < n \<Longrightarrow> IsGap a \<Longrightarrow> can_eliminate c' (i + 1) n = can_eliminate c (i + 1) n"
      using 1 2(1) by blast
    with 2 same show ?thesis
      by (simp add: can_eliminate.simps [of c] can_eliminate.simps [of c'] split: Option.bind_split)
  qed
qed

lemma same_code_can_eliminate_block:
  assumes "same_code c c'"
  shows "can_eliminate_block c' bb = can_eliminate_block c bb"
proof -
  have g: "graph c' = graph c" using assms by (simp add: same_code_def)
  let ?f = "sint (first_instruction_index bb)" and ?l = "sint (last_instruction_index bb)"
  show ?thesis
  proof (cases rule: same_code_at [OF assms, of ?f])
    case 1
    then show ?thesis by (simp add: can_eliminate_block_def Let_def)
  next
    case first: (2 a b)
    show ?thesis
    proof (cases rule: same_code_at [OF assms, of ?l])
      case 1
      with first show ?thesis by (simp add: can_eliminate_block_def Let_def)
    next
      case (2 d e)
      with first erase_eq [OF first(3)] erase_eq [OF 2(3)] show ?thesis
        by (simp add: can_eliminate_block_def Let_def g same_code_can_eliminate [OF assms] cong: if_cong)
    qed
  qed
qed

lemma same_code_GetLabel:
  assumes "same_code c c'"
  shows "GetLabel c' n = GetLabel c n"
proof (cases "block_at_index (graph c) n")
  case None
  with assms show ?thesis by (simp add: GetLabel_def same_code_def)
next
  case (Some bb)
  have g: "graph c' = graph c" using assms by (simp add: same_code_def)
  show ?thesis using Some
    by (cases rule: same_code_at [OF assms, of "sint (first_instruction_index bb)"])
      (auto simp: GetLabel_def g Let_def dest: erase_eq)
qed

section \<open>Chunks as the builder makes them\<close>

text \<open>Blocks start with their own labels, without replacements; gaps can be tested; a jump goes to a later block or
  back to the header of a loop.\<close>

definition block_flow_ok :: "LChunk \<Rightarrow> nat \<Rightarrow> bool" where
  "block_flow_ok c k \<longleftrightarrow> (let bb = blocks (graph c) ! k in
     (\<exists>label ms. instruction_at c (sint (first_instruction_index bb)) = Some label \<and> opcode label = kLabel \<and>
        members label = LabelMembers (word_of_nat k) ms None) \<and>
     (\<exists>last_instr. instruction_at c (sint (last_instruction_index bb)) = Some last_instr \<and>
        (opcode last_instr = kGoto \<longrightarrow> (\<exists>t < length (blocks (graph c)). goto_block last_instr = Some (word_of_nat t) \<and>
           (k < t \<or> IsLoopHeader (blocks (graph c) ! t))))))"

definition flow_ok :: "LChunk \<Rightarrow> bool" where
  "flow_ok c \<longleftrightarrow> graph_ok (graph c) \<and> (\<forall>k < length (blocks (graph c)). block_flow_ok c k) \<and>
     (\<forall>i \<in> set (instructions c). replacement i = None \<and> (IsGap i \<longrightarrow> gap_IsRedundant i \<noteq> None))"

abbreviation number_of_blocks :: "LChunk \<Rightarrow> nat" where
  "number_of_blocks c \<equiv> length (blocks (graph c))"

definition label_index :: "LChunk \<Rightarrow> nat \<Rightarrow> nat" where
  "label_index c k = nat (sint (first_instruction_index (blocks (graph c) ! k)))"

definition empty_block :: "LChunk \<Rightarrow> nat \<Rightarrow> bool" where
  "empty_block c k \<longleftrightarrow> can_eliminate_block c (blocks (graph c) ! k) = Some True"

definition jump_target :: "LChunk \<Rightarrow> nat \<Rightarrow> nat" where
  "jump_target c k = unat (the (goto_block (the (instruction_at c (sint (last_instruction_index (blocks (graph c) ! k)))))))"

text \<open>Where a jump to a block ends: at the first block on the way that is not empty.\<close>

inductive leads_to :: "LChunk \<Rightarrow> nat \<Rightarrow> nat \<Rightarrow> bool" for c where
  here: "\<not> empty_block c k \<Longrightarrow> leads_to c k k"
| jump: "empty_block c k \<Longrightarrow> leads_to c (jump_target c k) d \<Longrightarrow> leads_to c k d"

lemma instruction_at_in: "instruction_at c i = Some a \<Longrightarrow> a \<in> set (instructions c) \<and> 0 \<le> i \<and> nat i < length (instructions c) \<and>
    a = instructions c ! nat i"
  by (auto simp: instruction_at_def split: if_splits)

lemma can_eliminate_defined:
  assumes "\<forall>i \<in> set (instructions c). IsGap i \<longrightarrow> gap_IsRedundant i \<noteq> None" "0 \<le> i" "n \<le> int (length (instructions c))"
  shows "can_eliminate c i n \<noteq> None"
  using assms
proof (induction c i n rule: can_eliminate.induct)
  case (1 c i n)
  show ?case
  proof (cases "i < n")
    case True
    then have cur: "instruction_at c i = Some (instructions c ! nat i)" "instructions c ! nat i \<in> set (instructions c)"
      using 1(3,4) by (simp_all add: instruction_at_def)
    show ?thesis
    proof (cases "IsGap (instructions c ! nat i)")
      case gap: True
      then obtain r where r: "gap_IsRedundant (instructions c ! nat i) = Some r" using 1(2) cur(2) by blast
      show ?thesis using 1(1) [OF True cur(1) gap r] 1(2-4) True cur(1) gap r
        by (cases r) (simp_all add: can_eliminate.simps [of c])
    next
      case False
      with True cur(1) show ?thesis by (simp add: can_eliminate.simps [of c])
    qed
  next
    case False
    then show ?thesis by (simp add: can_eliminate.simps [of c])
  qed
qed

text \<open>What the assumption says of one block.\<close>

lemma flow_block:
  assumes "flow_ok c" "k < number_of_blocks c"
  shows "block_at_index (graph c) (word_of_nat k) = Some (blocks (graph c) ! k)"
    "GetLabel c (word_of_nat k) = Some (label_index c k)"
    "\<exists>label ms. instruction_at c (int (label_index c k)) = Some label \<and> members label = LabelMembers (word_of_nat k) ms None"
    "0 \<le> sint (first_instruction_index (blocks (graph c) ! k))"
    "\<exists>e. can_eliminate_block c (blocks (graph c) ! k) = Some e"
    "empty_block c k \<Longrightarrow> jump_target c k < number_of_blocks c \<and>
       (k < jump_target c k \<or> IsLoopHeader (blocks (graph c) ! jump_target c k)) \<and>
       (\<exists>last_instr. instruction_at c (sint (last_instruction_index (blocks (graph c) ! k))) = Some last_instr \<and>
          goto_block last_instr = Some (word_of_nat (jump_target c k)))"
    "IsLoopHeader (blocks (graph c) ! k) \<Longrightarrow> \<not> empty_block c k"
proof -
  let ?bb = "blocks (graph c) ! k"
  have small: "number_of_blocks c < 2 ^ 31" using assms(1) by (simp add: flow_ok_def graph_ok_def)
  with assms(2) have k: "nat (sint (word_of_nat k :: int32)) = k" "0 \<le> sint (word_of_nat k :: int32)"
    by (simp_all add: sint_of_nat32)
  show at: "block_at_index (graph c) (word_of_nat k) = Some ?bb" using assms(2) k by (simp add: block_at_index_def)
  have flow: "block_flow_ok c k" using assms by (simp add: flow_ok_def)
  then obtain label ms where label: "instruction_at c (sint (first_instruction_index ?bb)) = Some label" "opcode label = kLabel"
    "members label = LabelMembers (word_of_nat k) ms None" unfolding block_flow_ok_def Let_def by blast
  then have gb: "gap_block label = Some (word_of_nat k)" by (simp add: gap_block_def)
  obtain l where l: "instruction_at c (sint (last_instruction_index ?bb)) = Some l" "opcode l = kGoto \<Longrightarrow>
      \<exists>t < number_of_blocks c. goto_block l = Some (word_of_nat t) \<and> (k < t \<or> IsLoopHeader (blocks (graph c) ! t))"
    using flow unfolding block_flow_ok_def Let_def by blast
  show nonneg: "0 \<le> sint (first_instruction_index ?bb)" using instruction_at_in [OF label(1)] by blast
  show "GetLabel c (word_of_nat k) = Some (label_index c k)" using at label by (simp add: GetLabel_def label_index_def)
  show "\<exists>label ms. instruction_at c (int (label_index c k)) = Some label \<and> members label = LabelMembers (word_of_nat k) ms None"
    using label nonneg by (simp add: label_index_def)
  have gaps: "\<forall>i \<in> set (instructions c). IsGap i \<longrightarrow> gap_IsRedundant i \<noteq> None" using assms(1) by (simp add: flow_ok_def)
  have "IsGap label" using label(2) by (simp add: IsGap_def)
  with gaps instruction_at_in [OF label(1)] obtain r where r: "gap_IsRedundant label = Some r" by blast
  have "can_eliminate c (sint (first_instruction_index ?bb) + 1) (sint (last_instruction_index ?bb)) \<noteq> None"
    using nonneg instruction_at_in [OF l(1)] by (intro can_eliminate_defined [OF gaps]) auto
  then show "\<exists>e. can_eliminate_block c ?bb = Some e"
    using label gb l(1) r at by (auto simp: can_eliminate_block_def Let_def)
  show "\<not> empty_block c k" if "IsLoopHeader ?bb"
    using that label gb l(1) r at by (auto simp: empty_block_def can_eliminate_block_def Let_def split: if_splits)
  show "jump_target c k < number_of_blocks c \<and> (k < jump_target c k \<or> IsLoopHeader (blocks (graph c) ! jump_target c k)) \<and>
       (\<exists>last_instr. instruction_at c (sint (last_instruction_index ?bb)) = Some last_instr \<and>
          goto_block last_instr = Some (word_of_nat (jump_target c k)))" if "empty_block c k"
  proof -
    have "opcode l = kGoto" using that label l(1) by (auto simp: empty_block_def can_eliminate_block_def Let_def split: if_splits)
    then obtain t where t: "t < number_of_blocks c" "goto_block l = Some (word_of_nat t)" "k < t \<or> IsLoopHeader (blocks (graph c) ! t)"
      using l(2) by blast
    then have "jump_target c k = t" using small l(1) by (simp add: jump_target_def)
    with t l(1) show ?thesis by blast
  qed
qed

lemma label_index_inj:
  assumes "flow_ok c" "j < number_of_blocks c" "k < number_of_blocks c" "label_index c j = label_index c k"
  shows "j = k"
proof -
  have "word_of_nat j = (word_of_nat k :: int32)"
    using flow_block(3) [OF assms(1,2)] flow_block(3) [OF assms(1,3)] assms(4) by auto
  moreover have "number_of_blocks c < 2 ^ 31" using assms(1) by (simp add: flow_ok_def graph_ok_def)
  then have "unat (word_of_nat j :: int32) = j" "unat (word_of_nat k :: int32) = k" using assms(2,3) by simp_all
  ultimately show ?thesis by metis
qed

section \<open>What the marks say\<close>

definition marked :: "LChunk \<Rightarrow> nat \<Rightarrow> LChunk \<Rightarrow> bool" where
  "marked c j c' \<longleftrightarrow> same_code c c' \<and> (\<forall>k < number_of_blocks c. replacement (instructions c' ! label_index c k) =
     (if k < j \<and> empty_block c k then Some (label_index c (jump_target c k)) else None))"

lemma marked_start: "flow_ok c \<Longrightarrow> marked c 0 c"
  unfolding marked_def
proof (intro conjI allI impI)
  fix k assume "flow_ok c" "k < number_of_blocks c"
  from flow_block(3) [OF this] obtain label ms where
    "instruction_at c (int (label_index c k)) = Some label" "members label = LabelMembers (word_of_nat k) ms None" by blast
  with instruction_at_in [of c "int (label_index c k)" label]
  show "replacement (instructions c ! label_index c k) = (if k < 0 \<and> empty_block c k then Some (label_index c (jump_target c k)) else None)"
    by (simp add: replacement_def)
qed simp

lemma same_code_label:
  assumes "flow_ok c" "same_code c c'" "k < number_of_blocks c"
  shows "label_index c k < length (instructions c')"
    "\<exists>ms r. members (instructions c' ! label_index c k) = LabelMembers (word_of_nat k) ms r"
proof -
  obtain a ms where a: "instruction_at c (int (label_index c k)) = Some a" "members a = LabelMembers (word_of_nat k) ms None"
    using flow_block(3) [OF assms(1,3)] by blast
  show "label_index c k < length (instructions c')"
    using a(1) by (cases rule: same_code_at [OF assms(2), of "int (label_index c k)"]) (auto dest: instruction_at_in)
  show "\<exists>ms r. members (instructions c' ! label_index c k) = LabelMembers (word_of_nat k) ms r"
  proof (cases rule: same_code_at [OF assms(2), of "int (label_index c k)"])
    case 1
    with a show ?thesis by simp
  next
    case (2 a' b)
    with a have b: "b = instructions c' ! label_index c k" "erase b = erase a" by (auto dest: instruction_at_in)
    have "members (erase a) = LabelMembers (word_of_nat k) ms None" using a(2) by (simp add: erase_def set_replacement_def)
    with b(2) have "members (erase b) = LabelMembers (word_of_nat k) ms None" by simp
    then show ?thesis unfolding b(1) by (cases "members b") (auto simp: erase_def set_replacement_def b(1))
  qed
qed

lemma marked_step:
  assumes flow: "flow_ok c" and j: "j < number_of_blocks c" and marked: "marked c j c'"
  shows "\<exists>c''. MarkEmptyBlock (blocks (graph c) ! j) c' = Some c'' \<and> marked c (Suc j) c''"
proof -
  let ?bb = "blocks (graph c) ! j"
  have code: "same_code c c'" using marked by (simp add: marked_def)
  obtain e where e: "can_eliminate_block c ?bb = Some e" using flow_block(5) [OF flow j] by blast
  then have e': "can_eliminate_block c' ?bb = Some e" by (simp add: same_code_can_eliminate_block [OF code])
  show ?thesis
  proof (cases e)
    case False
    then have "\<not> empty_block c j" using e by (simp add: empty_block_def)
    with marked have "marked c (Suc j) c'" by (auto simp: marked_def less_Suc_eq)
    with e' False show ?thesis by (simp add: MarkEmptyBlock_def)
  next
    case True
    then have empty: "empty_block c j" using e by (simp add: empty_block_def)
    let ?t = "jump_target c j" and ?n = "label_index c j"
    obtain l where l: "instruction_at c (sint (last_instruction_index ?bb)) = Some l" "goto_block l = Some (word_of_nat ?t)"
      and t: "?t < number_of_blocks c" using flow_block(6) [OF flow j empty] by blast
    obtain l' where l': "instruction_at c' (sint (last_instruction_index ?bb)) = Some l'" "goto_block l' = Some (word_of_nat ?t)"
      using l by (cases rule: same_code_at [OF code, of "sint (last_instruction_index ?bb)"]) (auto dest: erase_eq)
    have label: "GetLabel c' (word_of_nat ?t) = Some (label_index c ?t)"
      using flow_block(2) [OF flow t] by (simp add: same_code_GetLabel [OF code])
    let ?c = "c'\<lparr>instructions := (instructions c')[?n := set_replacement (Some (label_index c ?t)) (instructions c' ! ?n)]\<rparr>"
    have "MarkEmptyBlock ?bb c' = Some ?c"
      by (simp add: MarkEmptyBlock_def e' True l' label Let_def label_index_def [symmetric])
    moreover have "same_code c ?c"
      using code same_code_label(1) [OF flow code j]
      by (simp add: same_code_def map_update) (metis list_update_id nth_map)
    moreover have "replacement (instructions ?c ! label_index c k) =
        (if k < Suc j \<and> empty_block c k then Some (label_index c (jump_target c k)) else None)" if k: "k < number_of_blocks c" for k
    proof (cases "k = j")
      case True
      with empty same_code_label [OF flow code j] show ?thesis by (auto simp: set_replacement_def replacement_def)
    next
      case False
      then have "label_index c k \<noteq> ?n" using label_index_inj [OF flow k j] by blast
      with marked k False show ?thesis by (auto simp: marked_def less_Suc_eq)
    qed
    ultimately show ?thesis unfolding marked_def by blast
  qed
qed

lemma marked_loop:
  assumes "flow_ok c" "drop j (blocks (graph c)) = bs" "marked c j c'"
  shows "\<exists>c''. MarkEmptyBlocks_loop bs c' = Some c'' \<and> marked c (number_of_blocks c) c''"
  using assms(2,3)
proof (induction bs arbitrary: j c')
  case Nil
  then have "number_of_blocks c \<le> j" by simp
  with Nil show ?case by (auto simp: marked_def)
next
  case (Cons b bs)
  then have j: "j < number_of_blocks c" by (metis drop_all list.distinct(1) not_le)
  then have b: "b = blocks (graph c) ! j" "drop (Suc j) (blocks (graph c)) = bs"
    using Cons.prems(1) by (metis Cons_nth_drop_Suc list.inject)+
  obtain c1 where c1: "MarkEmptyBlock b c' = Some c1" "marked c (Suc j) c1"
    using marked_step [OF assms(1) j Cons.prems(2)] b(1) by blast
  with Cons.IH [OF b(2) c1(2)] show ?case by simp
qed

lemma LookupLabel_marked:
  assumes flow: "flow_ok c" and marked: "marked c (number_of_blocks c) c'" and k: "k < number_of_blocks c"
  shows "\<exists>d < number_of_blocks c. LookupLabel c' (label_index c k) = Some (word_of_nat d) \<and> leads_to c k d \<and> \<not> empty_block c d"
  using k
proof (induction "number_of_blocks c - k" arbitrary: k rule: less_induct)
  case less
  have code: "same_code c c'" using marked by (simp add: marked_def)
  have here: "LookupLabel c' (label_index c i) = (if empty_block c i then LookupLabel c' (label_index c (jump_target c i))
      else Some (word_of_nat i))" if i: "i < number_of_blocks c" for i
  proof -
    obtain ms r where "members (instructions c' ! label_index c i) = LabelMembers (word_of_nat i) ms r"
      using same_code_label(2) [OF flow code i] by blast
    moreover have "replacement (instructions c' ! label_index c i) = (if empty_block c i then Some (label_index c (jump_target c i)) else None)"
      using marked i by (simp add: marked_def)
    ultimately show ?thesis using same_code_label(1) [OF flow code i]
      by (subst LookupLabel.simps) (simp add: instruction_at_def gap_block_def)
  qed
  show ?case
  proof (cases "empty_block c k")
    case False
    with here [OF less.prems] less.prems show ?thesis by (auto intro: leads_to.here)
  next
    case True
    note target = flow_block(6) [OF flow less.prems True]
    then have t: "jump_target c k < number_of_blocks c" by blast
    have "\<exists>d < number_of_blocks c. LookupLabel c' (label_index c (jump_target c k)) = Some (word_of_nat d) \<and>
        leads_to c (jump_target c k) d \<and> \<not> empty_block c d"
    proof (cases "k < jump_target c k")
      case True
      then show ?thesis using less.hyps [of "jump_target c k"] t by simp
    next
      case False
      then have "\<not> empty_block c (jump_target c k)" using target flow_block(7) [OF flow t] by blast
      with here [OF t] t show ?thesis by (auto intro: leads_to.here)
    qed
    with here [OF less.prems] True show ?thesis by (auto intro: leads_to.jump)
  qed
qed

section \<open>Two blocks to try the property on\<close>

text \<open>The first block only jumps to the second one.\<close>

definition flow_chunk :: LChunk where
  "flow_chunk = (new_LChunk ((new_HGraph 2)\<lparr>blocks :=
      [(new_HBasicBlock 0)\<lparr>first_instruction_index := 0, last_instruction_index := 1\<rparr>,
       (new_HBasicBlock 1)\<lparr>last_environment := Some 7, first_instruction_index := 2, last_instruction_index := 3\<rparr>]\<rparr>))
     \<lparr>instructions := [LLabel 0, LGoto 1, LLabel 1, sample_add]\<rparr>"

lemma flow_chunk_parts:
  "instructions flow_chunk = [LLabel 0, LGoto 1, LLabel 1, sample_add]"
  "blocks (graph flow_chunk) = [(new_HBasicBlock 0)\<lparr>first_instruction_index := 0, last_instruction_index := 1\<rparr>,
       (new_HBasicBlock 1)\<lparr>last_environment := Some 7, first_instruction_index := 2, last_instruction_index := 3\<rparr>]"
  by (simp_all add: flow_chunk_def new_LChunk_def)

lemma flow_chunk_simps:
  "opcode (LLabel b) = kLabel" "members (LLabel b) = LabelMembers b (replicate inner_positions None) None"
  "opcode (LGoto b) = kGoto" "goto_block (LGoto b) = Some b" "gap_block (LLabel b) = Some b"
  "gap_IsRedundant (LLabel b) = Some True" "replacement (LLabel b) = None" "replacement (LGoto b) = None"
  "replacement sample_add = None" "IsGap (LLabel b)" "\<not> IsGap (LGoto b)" "\<not> IsGap sample_add"
  by (simp_all add: LLabel_def LGoto_def template_instruction_def goto_block_def gap_block_def gap_IsRedundant_def
      parallel_moves_def replacement_def IsGap_def opcodes numeral_eq_Suc)
    (simp_all add: sample_add_def LAddI_def template_instruction_def)

lemma less_2: "(\<forall>k < 2. P k) \<longleftrightarrow> P 0 \<and> P (1 :: nat)"
  by (auto simp: less_2_cases_iff)

lemma flow_chunk_at:
  "number_of_blocks flow_chunk = 2"
  "sint (first_instruction_index (blocks (graph flow_chunk) ! 0)) = 0" "sint (last_instruction_index (blocks (graph flow_chunk) ! 0)) = 1"
  "sint (first_instruction_index (blocks (graph flow_chunk) ! 1)) = 2" "sint (last_instruction_index (blocks (graph flow_chunk) ! 1)) = 3"
  "instruction_at flow_chunk 0 = Some (LLabel 0)" "instruction_at flow_chunk 1 = Some (LGoto 1)"
  "instruction_at flow_chunk 2 = Some (LLabel 1)" "instruction_at flow_chunk 3 = Some sample_add"
  by (simp_all add: flow_chunk_parts instruction_at_def)

lemma flow_chunk_ok: "flow_ok flow_chunk"
proof -
  have "graph_ok (graph flow_chunk)"
    by (simp add: graph_ok_def flow_chunk_at less_2 Let_def) (simp add: flow_chunk_parts new_HBasicBlock_def)
  moreover have "block_flow_ok flow_chunk 0"
    by (simp add: block_flow_ok_def flow_chunk_at flow_chunk_simps Let_def) (rule exI [of _ 1], simp)
  moreover have "kAddI \<noteq> kGoto" by (simp add: opcodes)
  then have "block_flow_ok flow_chunk 1"
    by (simp add: block_flow_ok_def flow_chunk_at [unfolded One_nat_def] flow_chunk_at flow_chunk_simps Let_def)
  ultimately show ?thesis
    by (simp add: flow_ok_def flow_chunk_at less_2) (auto simp: flow_chunk_parts flow_chunk_simps)
qed

lemma flow_chunk_empty: "empty_block flow_chunk 0" "\<not> empty_block flow_chunk 1" "jump_target flow_chunk 0 = 1"
proof -
  have block: "block_at_index (graph flow_chunk) 0 = Some (blocks (graph flow_chunk) ! 0)"
    "\<not> IsLoopHeader (blocks (graph flow_chunk) ! 0)"
    by (simp_all add: block_at_index_def IsLoopHeader_def flow_chunk_parts new_HBasicBlock_def)
  show "empty_block flow_chunk 0"
    by (simp add: empty_block_def can_eliminate_block_def flow_chunk_at flow_chunk_simps block can_eliminate.simps Let_def)
  have "kAddI \<noteq> kGoto" by (simp add: opcodes)
  then show "\<not> empty_block flow_chunk 1"
    by (simp add: empty_block_def can_eliminate_block_def flow_chunk_at [unfolded One_nat_def] flow_chunk_at Let_def)
  show "jump_target flow_chunk 0 = 1" by (simp add: jump_target_def flow_chunk_at flow_chunk_simps)
qed

section \<open>Properties\<close>

text \<open>C25 Marking the empty blocks succeeds, and every later search for the end of a jump comes to an end, at the
  first block on the way that is not empty, whose label has no replacement. A jump back must go to a loop
  header, as in the graphs of the compiler: loop headers are never replaced.\<close>
theorem LookupDestination_ends:
  assumes "flow_ok c"
  shows "\<exists>c'. MarkEmptyBlocks c = Some c' \<and> (\<forall>k < number_of_blocks c. \<exists>d < number_of_blocks c.
    LookupDestination c' (word_of_nat k) = Some (word_of_nat d) \<and> leads_to c k d \<and>
    replacement (instructions c' ! label_index c d) = None)"
proof -
  obtain c' where c': "MarkEmptyBlocks c = Some c'" "marked c (number_of_blocks c) c'"
    using marked_loop [OF assms _ marked_start [OF assms], of "blocks (graph c)"] by (auto simp: MarkEmptyBlocks_def)
  have "GetLabel c' (word_of_nat k) = Some (label_index c k)" if "k < number_of_blocks c" for k
    using flow_block(2) [OF assms that] same_code_GetLabel [of c c'] c'(2) by (simp add: marked_def)
  with LookupLabel_marked [OF assms c'(2)] c' show ?thesis
    by (intro exI [of _ c']) (fastforce simp: LookupDestination_def marked_def)
qed

lemma LookupDestination_ends_witness:
  "\<exists>c'. MarkEmptyBlocks flow_chunk = Some c' \<and> LookupDestination c' 0 = Some 1"
proof -
  have n: "number_of_blocks flow_chunk = 2" by (simp add: flow_chunk_parts)
  from LookupDestination_ends [OF flow_chunk_ok] obtain c' where c': "MarkEmptyBlocks flow_chunk = Some c'"
    "\<forall>k < 2. \<exists>d < 2. LookupDestination c' (word_of_nat k) = Some (word_of_nat d) \<and> leads_to flow_chunk k d \<and>
       replacement (instructions c' ! label_index flow_chunk d) = None" unfolding n by blast
  then obtain d where d: "LookupDestination c' 0 = Some (word_of_nat d)" "leads_to flow_chunk 0 d" by fastforce
  from d(2) have "leads_to flow_chunk 1 d" using flow_chunk_empty by (cases rule: leads_to.cases) simp_all
  then have "d = 1" using flow_chunk_empty by (cases rule: leads_to.cases) simp_all
  with c'(1) d(1) show ?thesis by simp
qed

end
