(* ===== verification/Ranges.thy ===== *)
theory Ranges
  imports Shims
begin

text \<open>
  Ranges of integers (\<^verbatim>\<open>src/hydrogen-instructions.{h,cc}\<close>): the class \<^verbatim>\<open>Range\<close> and the inference of the ranges
  of Hydrogen instructions. The optimizer drops checks for overflow, for minus zero and for a division by
  zero, and bounds of arrays, where a range allows it, so that a wrong bound is a hole in the memory safety
  of the compiled code. The theorems say that every value an instruction can have is in its range.
\<close>

section \<open>The class \<^verbatim>\<open>Range\<close>\<close>

datatype Range =
    Range (range_lower: int32) (range_upper: int32) (range_next: "Range option") (can_be_minus_zero: bool)

abbreviation kMinInt :: int32 where "kMinInt \<equiv> 0x80000000"
abbreviation kMaxInt :: int32 where "kMaxInt \<equiv> 0x7FFFFFFF"

text \<open>On x64 a Smi has 32 bits.\<close>

abbreviation Smi_kMinValue :: int32 where "Smi_kMinValue \<equiv> kMinInt"
abbreviation Smi_kMaxValue :: int32 where "Smi_kMaxValue \<equiv> kMaxInt"

abbreviation lower :: "Range \<Rightarrow> int" where "lower r \<equiv> sint (range_lower r)"
abbreviation upper :: "Range \<Rightarrow> int" where "upper r \<equiv> sint (range_upper r)"

definition new_Range :: "int32 \<Rightarrow> int32 \<Rightarrow> Range" where
  "new_Range l u = Range l u None False"

definition full_Range :: Range where
  "full_Range = Range kMinInt kMaxInt None False"

definition with_bounds :: "int32 \<Rightarrow> int32 \<Rightarrow> Range \<Rightarrow> Range" where
  "with_bounds l u r = Range l u (range_next r) (can_be_minus_zero r)"

definition set_can_be_minus_zero :: "bool \<Rightarrow> Range \<Rightarrow> Range" where
  "set_can_be_minus_zero b r = Range (range_lower r) (range_upper r) (range_next r) b"

definition CanBeZero :: "Range \<Rightarrow> bool" where
  "CanBeZero r \<longleftrightarrow> 0 \<le> upper r \<and> lower r \<le> 0"

definition CanBeMinusZero :: "Range \<Rightarrow> bool" where
  "CanBeMinusZero r \<longleftrightarrow> CanBeZero r \<and> can_be_minus_zero r"

definition CanBeNegative :: "Range \<Rightarrow> bool" where "CanBeNegative r \<longleftrightarrow> lower r < 0"
definition CanBePositive :: "Range \<Rightarrow> bool" where "CanBePositive r \<longleftrightarrow> 0 < upper r"

definition Includes :: "int \<Rightarrow> Range \<Rightarrow> bool" where
  "Includes v r \<longleftrightarrow> lower r \<le> v \<and> v \<le> upper r"

definition IsMostGeneric :: "Range \<Rightarrow> bool" where
  "IsMostGeneric r \<longleftrightarrow> range_lower r = kMinInt \<and> range_upper r = kMaxInt \<and> CanBeMinusZero r"

definition IsInSmiRange :: "Range \<Rightarrow> bool" where
  "IsInSmiRange r \<longleftrightarrow> sint Smi_kMinValue \<le> lower r \<and> upper r \<le> sint Smi_kMaxValue"

definition Copy :: "Range \<Rightarrow> Range" where
  "Copy r = set_can_be_minus_zero (CanBeMinusZero r) (new_Range (range_lower r) (range_upper r))"

definition CopyClearLower :: "Range \<Rightarrow> Range" where "CopyClearLower r = new_Range kMinInt (range_upper r)"
definition CopyClearUpper :: "Range \<Rightarrow> Range" where "CopyClearUpper r = new_Range (range_lower r) kMaxInt"

definition smax :: "int32 \<Rightarrow> int32 \<Rightarrow> int32" where "smax a b = (if sint a < sint b then b else a)"
definition smin :: "int32 \<Rightarrow> int32 \<Rightarrow> int32" where "smin a b = (if sint a < sint b then a else b)"

definition ClampToSmi :: "Range \<Rightarrow> Range" where
  "ClampToSmi r = with_bounds (smax (range_lower r) Smi_kMinValue) (smin (range_upper r) Smi_kMaxValue) r"

definition KeepOrder :: "Range \<Rightarrow> Range" where
  "KeepOrder r = (if lower r > upper r then with_bounds (range_upper r) (range_lower r) r else r)"

text \<open>The bounds are changed before minus zero is asked for, which looks at the bounds.\<close>

definition Range_Intersect :: "Range \<Rightarrow> Range \<Rightarrow> Range" where
  "Range_Intersect r other =
     (let r = with_bounds (smax (range_lower r) (range_lower other)) (smin (range_upper r) (range_upper other)) r
      in set_can_be_minus_zero (CanBeMinusZero r \<and> CanBeMinusZero other) r)"

definition Range_Union :: "Range \<Rightarrow> Range \<Rightarrow> Range" where
  "Range_Union r other =
     (let r = with_bounds (smin (range_lower r) (range_lower other)) (smax (range_upper r) (range_upper other)) r
      in set_can_be_minus_zero (CanBeMinusZero r \<or> CanBeMinusZero other) r)"

definition CombinedMax :: "Range \<Rightarrow> Range \<Rightarrow> Range" where
  "CombinedMax r other =
     (let r = with_bounds (smax (range_lower r) (range_lower other)) (smax (range_upper r) (range_upper other)) r
      in set_can_be_minus_zero (CanBeMinusZero r \<or> CanBeMinusZero other) r)"

definition CombinedMin :: "Range \<Rightarrow> Range \<Rightarrow> Range" where
  "CombinedMin r other =
     (let r = with_bounds (smin (range_lower r) (range_lower other)) (smin (range_upper r) (range_upper other)) r
      in set_can_be_minus_zero (CanBeMinusZero r \<or> CanBeMinusZero other) r)"

definition StackUpon :: "Range \<Rightarrow> Range \<Rightarrow> Range" where
  "StackUpon r other = (case Range_Intersect r other of Range l u _ b \<Rightarrow> Range l u (Some other) b)"

section \<open>Arithmetic\<close>

text \<open>A sum, difference or product of two 32 bit integers is exact in 64 bits. The result is the converted
  integer and whether it had to be cut.\<close>

definition ConvertAndSetOverflow :: "Representation \<Rightarrow> int \<Rightarrow> int32 \<times> bool" where
  "ConvertAndSetOverflow r result =
     (let max_value = (if r = kSmi then Smi_kMaxValue else kMaxInt); min_value = (if r = kSmi then Smi_kMinValue else kMinInt)
      in if sint max_value < result then (max_value, True)
         else if result < sint min_value then (min_value, True)
         else (word_of_int result, False))"

definition AddWithoutOverflow :: "Representation \<Rightarrow> int32 \<Rightarrow> int32 \<Rightarrow> int32 \<times> bool" where
  "AddWithoutOverflow r a b = ConvertAndSetOverflow r (sint a + sint b)"

definition SubWithoutOverflow :: "Representation \<Rightarrow> int32 \<Rightarrow> int32 \<Rightarrow> int32 \<times> bool" where
  "SubWithoutOverflow r a b = ConvertAndSetOverflow r (sint a - sint b)"

definition MulWithoutOverflow :: "Representation \<Rightarrow> int32 \<Rightarrow> int32 \<Rightarrow> int32 \<times> bool" where
  "MulWithoutOverflow r a b = ConvertAndSetOverflow r (sint a * sint b)"

definition AddConstant :: "int32 \<Rightarrow> Range \<Rightarrow> Range" where
  "AddConstant v r =
     (if v = 0 then r
      else with_bounds (fst (AddWithoutOverflow kInteger32 (range_lower r) v)) (fst (AddWithoutOverflow kInteger32 (range_upper r) v)) r)"

definition AddAndCheckOverflow :: "Representation \<Rightarrow> Range \<Rightarrow> Range \<Rightarrow> Range \<times> bool" where
  "AddAndCheckOverflow rep r other =
     (let (l, o1) = AddWithoutOverflow rep (range_lower r) (range_lower other);
          (u, o2) = AddWithoutOverflow rep (range_upper r) (range_upper other)
      in (KeepOrder (with_bounds l u r), o1 \<or> o2))"

definition SubAndCheckOverflow :: "Representation \<Rightarrow> Range \<Rightarrow> Range \<Rightarrow> Range \<times> bool" where
  "SubAndCheckOverflow rep r other =
     (let (l, o1) = SubWithoutOverflow rep (range_lower r) (range_upper other);
          (u, o2) = SubWithoutOverflow rep (range_upper r) (range_lower other)
      in (KeepOrder (with_bounds l u r), o1 \<or> o2))"

definition MulAndCheckOverflow :: "Representation \<Rightarrow> Range \<Rightarrow> Range \<Rightarrow> Range \<times> bool" where
  "MulAndCheckOverflow rep r other =
     (let (v1, o1) = MulWithoutOverflow rep (range_lower r) (range_lower other);
          (v2, o2) = MulWithoutOverflow rep (range_lower r) (range_upper other);
          (v3, o3) = MulWithoutOverflow rep (range_upper r) (range_lower other);
          (v4, o4) = MulWithoutOverflow rep (range_upper r) (range_upper other)
      in (with_bounds (smin (smin v1 v2) (smin v3 v4)) (smax (smax v1 v2) (smax v3 v4)) r, o1 \<or> o2 \<or> o3 \<or> o4))"

text \<open>Shifts keep the low five bits of the shift count.\<close>

definition shift_bits :: "int32 \<Rightarrow> nat" where
  "shift_bits v = unat (v AND 0x1F)"

definition Sar :: "int32 \<Rightarrow> Range \<Rightarrow> Range" where
  "Sar v r = set_can_be_minus_zero False
     (with_bounds (signed_drop_bit (shift_bits v) (range_lower r)) (signed_drop_bit (shift_bits v) (range_upper r)) r)"

definition Shl :: "int32 \<Rightarrow> Range \<Rightarrow> Range" where
  "Shl v r =
     (let bits = shift_bits v; l = push_bit bits (range_lower r); u = push_bit bits (range_upper r)
      in set_can_be_minus_zero False
        (if range_lower r \<noteq> signed_drop_bit bits l \<or> range_upper r \<noteq> signed_drop_bit bits u
         then with_bounds kMinInt kMaxInt r else with_bounds l u r))"

text \<open>The mask of the bits that values of the range can have. The loop would not end for a mask that is
  negative, so that it is a partial function; \<open>Mask_returns\<close> below shows that it ends from the mask 1.\<close>

partial_function (option) Mask_loop :: "int32 \<Rightarrow> int32 \<Rightarrow> int32 option" where
  "Mask_loop u res = (if sint res < sint u then Mask_loop u (push_bit 1 res OR 1) else Some res)"

definition Mask :: "Range \<Rightarrow> int32 option" where
  "Mask r =
     (if range_lower r = range_upper r then Some (range_lower r)
      else if 0 \<le> lower r then Mask_loop (range_upper r) 1
      else Some 0xFFFFFFFF)"

section \<open>The numbers of a range\<close>

text \<open>The numbers an instruction of the representations Smi and Integer32 stands for are the integers and minus
  zero, which the compiled code must tell from zero where a use of the instruction can see it.\<close>

datatype number = Integer int | MinusZero

primrec in_range :: "number \<Rightarrow> Range \<Rightarrow> bool" where
  "in_range (Integer i) r = Includes i r"
| "in_range MinusZero r = CanBeMinusZero r"

primrec number_value :: "number \<Rightarrow> int" where
  "number_value (Integer i) = i"
| "number_value MinusZero = 0"

definition is_int32 :: "int \<Rightarrow> bool" where
  "is_int32 i \<longleftrightarrow> - (2 ^ 31) \<le> i \<and> i < 2 ^ 31"

lemmas range_defs = new_Range_def full_Range_def with_bounds_def set_can_be_minus_zero_def CanBeZero_def CanBeMinusZero_def
  CanBeNegative_def CanBePositive_def Includes_def Copy_def

lemma sint_limits [simp]: "sint kMinInt = - (2 ^ 31)" "sint kMaxInt = 2 ^ 31 - 1"
  by code_simp+

lemma sint_bounds: "- (2 ^ 31) \<le> sint x" "sint x < 2 ^ 31" for x :: int32
  using sint_ge [of x] sint_less [of x] by simp_all

lemma sint_of_int32 [simp]: "is_int32 i \<Longrightarrow> sint (word_of_int i :: int32) = i"
  by (simp add: is_int32_def signed_of_int signed_take_bit_int_eq_self)

lemma sint_smax [simp]: "sint (smax a b) = max (sint a) (sint b)"
  by (simp add: smax_def)

lemma sint_smin [simp]: "sint (smin a b) = min (sint a) (sint b)"
  by (simp add: smin_def)

lemma in_range_cong: "lower r = lower r' \<Longrightarrow> upper r = upper r' \<Longrightarrow> can_be_minus_zero r = can_be_minus_zero r' \<Longrightarrow>
    in_range v r = in_range v r'"
  by (cases v) (simp_all add: range_defs)

lemma number_value_in_range: "in_range v r \<Longrightarrow> lower r \<le> number_value v \<and> number_value v \<le> upper r"
  by (cases v) (simp_all add: range_defs)

section \<open>Changes of a range\<close>

lemma in_range_full: "is_int32 i \<Longrightarrow> in_range (Integer i) full_Range"
  by (simp add: range_defs is_int32_def)

lemma in_range_Copy [simp]: "in_range v (Copy r) = in_range v r"
  by (cases v) (auto simp: range_defs)

lemma in_range_Intersect: "in_range v r \<Longrightarrow> in_range v other \<Longrightarrow> in_range v (Range_Intersect r other)"
  by (cases v) (auto simp: range_defs Range_Intersect_def Let_def)

lemma in_range_StackUpon: "in_range v r \<Longrightarrow> in_range v other \<Longrightarrow> in_range v (StackUpon r other)"
  using in_range_Intersect [of v r other]
  by (auto simp: StackUpon_def split: Range.splits intro: iffD1 [OF in_range_cong, rotated 3])

lemma in_range_Union:
  assumes "in_range v r \<or> in_range v other" shows "in_range v (Range_Union r other)"
  using assms by (cases v) (auto simp: range_defs Range_Union_def Let_def)

lemma sint_eqI: "sint a = sint b \<Longrightarrow> a = b" for a b :: int32
  by (rule signed_word_eqI)

lemma range_ClampToSmi [simp]: "ClampToSmi r = r"
proof -
  have "smax (range_lower r) kMinInt = range_lower r"
    using sint_bounds [of "range_lower r"] by (simp add: smax_def)
  moreover have "smin (range_upper r) kMaxInt = range_upper r"
    by (rule sint_eqI) (use sint_bounds [of "range_upper r"] in simp)
  ultimately show ?thesis by (simp add: ClampToSmi_def with_bounds_def)
qed

section \<open>Arithmetic on ranges\<close>

text \<open>Where the exact result is an integer of 32 bits, cutting it does nothing; where it is not, the clip is
  noted; in both cases the clip is monotone.\<close>

definition clip :: "int \<Rightarrow> int" where
  "clip i = max (- (2 ^ 31)) (min i (2 ^ 31 - 1))"

lemma ConvertAndSetOverflow_clip [simp]:
  "sint (fst (ConvertAndSetOverflow r i)) = clip i" "snd (ConvertAndSetOverflow r i) \<longleftrightarrow> \<not> is_int32 i"
  by (auto simp: ConvertAndSetOverflow_def clip_def is_int32_def Let_def)

lemma clip_mono: "i \<le> j \<Longrightarrow> clip i \<le> clip j"
  by (simp add: clip_def)

lemma clip_id [simp]: "is_int32 i \<Longrightarrow> clip i = i"
  by (simp add: clip_def is_int32_def)

lemma is_int32_between: "is_int32 i \<Longrightarrow> is_int32 j \<Longrightarrow> i \<le> k \<Longrightarrow> k \<le> j \<Longrightarrow> is_int32 k"
  by (simp add: is_int32_def)

lemma is_int32_sint [simp]: "is_int32 (sint w)" for w :: int32
  using sint_bounds [of w] by (simp add: is_int32_def)

lemma bounds_KeepOrder: "lower (KeepOrder r) = min (lower r) (upper r)" "upper (KeepOrder r) = max (lower r) (upper r)"
  by (simp_all add: KeepOrder_def with_bounds_def)

lemma AddAndCheckOverflow_bounds:
  "lower (fst (AddAndCheckOverflow rep r other)) = min (clip (lower r + lower other)) (clip (upper r + upper other))"
  "upper (fst (AddAndCheckOverflow rep r other)) = max (clip (lower r + lower other)) (clip (upper r + upper other))"
  "snd (AddAndCheckOverflow rep r other) \<longleftrightarrow> \<not> (is_int32 (lower r + lower other) \<and> is_int32 (upper r + upper other))"
  by (simp_all add: AddAndCheckOverflow_def AddWithoutOverflow_def bounds_KeepOrder with_bounds_def case_prod_unfold)

lemma SubAndCheckOverflow_bounds:
  "lower (fst (SubAndCheckOverflow rep r other)) = min (clip (lower r - upper other)) (clip (upper r - lower other))"
  "upper (fst (SubAndCheckOverflow rep r other)) = max (clip (lower r - upper other)) (clip (upper r - lower other))"
  "snd (SubAndCheckOverflow rep r other) \<longleftrightarrow> \<not> (is_int32 (lower r - upper other) \<and> is_int32 (upper r - lower other))"
  by (simp_all add: SubAndCheckOverflow_def SubWithoutOverflow_def bounds_KeepOrder with_bounds_def case_prod_unfold)

lemma MulAndCheckOverflow_bounds:
  "lower (fst (MulAndCheckOverflow rep r other)) =
     min (min (clip (lower r * lower other)) (clip (lower r * upper other)))
         (min (clip (upper r * lower other)) (clip (upper r * upper other)))"
  "upper (fst (MulAndCheckOverflow rep r other)) =
     max (max (clip (lower r * lower other)) (clip (lower r * upper other)))
         (max (clip (upper r * lower other)) (clip (upper r * upper other)))"
  "snd (MulAndCheckOverflow rep r other) \<longleftrightarrow>
     \<not> (is_int32 (lower r * lower other) \<and> is_int32 (lower r * upper other) \<and>
        is_int32 (upper r * lower other) \<and> is_int32 (upper r * upper other))"
  by (simp_all add: MulAndCheckOverflow_def MulWithoutOverflow_def with_bounds_def case_prod_unfold Let_def)

text \<open>A product of bounded factors lies between the least and the greatest product of bounds.\<close>

lemma product_upper:
  fixes x y :: int
  assumes "a \<le> x" "x \<le> b" "c \<le> y" "y \<le> d"
  shows "x * y \<le> max (max (a * c) (a * d)) (max (b * c) (b * d))"
proof -
  have "x * y \<le> max (a * y) (b * y)"
    using assms by (cases "0 \<le> y") (auto simp: le_max_iff_disj mult_right_mono mult_right_mono_neg)
  moreover have "z * y \<le> max (z * c) (z * d)" for z
    using assms by (cases "0 \<le> z") (auto simp: le_max_iff_disj mult_left_mono mult_left_mono_neg)
  ultimately show ?thesis by (meson le_max_iff_disj order.trans max.mono)
qed

lemma product_lower:
  fixes x y :: int
  assumes "a \<le> x" "x \<le> b" "c \<le> y" "y \<le> d"
  shows "min (min (a * c) (a * d)) (min (b * c) (b * d)) \<le> x * y"
  using product_upper [of "- b" "- x" "- a" c y d] assms by auto


section \<open>Masks\<close>

lemma sint_mask_mask: "k \<le> 31 \<Longrightarrow> sint (mask k :: int32) = mask k"
  by (intro bit_eqI) (auto simp: bit_simps min_def)

lemma sint_mask: "k \<le> 31 \<Longrightarrow> sint (mask k :: int32) = 2 ^ k - 1"
  by (metis sint_mask_mask mask_eq_exp_minus_1)

lemma Mask_loop_mask:
  assumes "k \<le> 31" shows "\<exists>k' \<le> 31. k \<le> k' \<and> Mask_loop u (mask k) = Some (mask k') \<and> sint u \<le> sint (mask k' :: int32)"
  using assms
proof (induction "31 - k" arbitrary: k)
  case 0
  then have "\<not> sint (mask k :: int32) < sint u" using sint_bounds [of u] by (simp add: sint_mask)
  then show ?case using 0 by (intro exI [of _ k]) (subst Mask_loop.simps, simp)
next
  case (Suc n)
  have step: "push_bit 1 (mask k) OR 1 = (mask (Suc k) :: int32)"
    by (simp add: mask_Suc_double or.commute mult.commute)
  show ?case
  proof (cases "sint (mask k :: int32) < sint u")
    case True
    have "n = 31 - Suc k" "Suc k \<le> 31" using Suc.hyps(2) by auto
    from Suc.hyps(1) [OF this] obtain k' where "k' \<le> 31" "Suc k \<le> k'" "Mask_loop u (mask (Suc k)) = Some (mask k')" "sint u \<le> sint (mask k' :: int32)"
      by auto
    moreover from True have "Mask_loop u (mask k) = Mask_loop u (mask (Suc k))"
      by (subst Mask_loop.simps) (simp only: step if_True)
    ultimately show ?thesis by (intro exI [of _ k']) simp
  next
    case False
    then show ?thesis using Suc.prems by (intro exI [of _ k]) (simp add: Mask_loop.simps [of u "mask k"])
  qed
qed

text \<open>The bits of a mask that is not negative bound the integers below it.\<close>

lemma and_mask_below:
  fixes x :: int32
  assumes a: "0 \<le> sint x" "sint x \<le> sint (mask k :: int32)" "k \<le> 31"
  shows "x AND mask k = x"
proof -
  have "sint (x AND mask k) = take_bit k (sint x)"
    using a(3) by (simp only: signed_and_eq sint_mask_mask take_bit_eq_mask)
  also have "\<dots> = sint x"
    using a by (simp add: sint_mask take_bit_int_eq_self_iff)
  finally show ?thesis by (rule sint_eqI)
qed

lemma Mask_covers:
  assumes "Includes (sint x) r" shows "\<exists>m. Mask r = Some m \<and> x AND m = x"
proof (cases "range_lower r \<noteq> range_upper r \<and> 0 \<le> lower r")
  case True
  obtain k where k: "k \<le> 31" "Mask_loop (range_upper r) (mask 1) = Some (mask k)" "upper r \<le> sint (mask k :: int32)"
    using Mask_loop_mask [of 1 "range_upper r"] by auto
  from assms have "0 \<le> sint x" "sint x \<le> upper r" using True by (auto simp: Includes_def)
  with k have "x AND mask k = x" by (intro and_mask_below) auto
  with k True show ?thesis by (simp add: Mask_def mask_Suc_double)
next
  case False
  have "x AND 0xFFFFFFFF = x"
  proof -
    have "(0xFFFFFFFF :: int32) = - 1" by simp
    then show ?thesis by (simp only: and.right_neutral)
  qed
  moreover have "range_lower r = range_upper r \<Longrightarrow> x = range_upper r"
    using assms by (intro sint_eqI) (auto simp: Includes_def)
  ultimately show ?thesis using False by (auto simp: Mask_def)
qed

lemma Mask_returns: "\<exists>m. Mask r = Some m"
  using Mask_loop_mask [of 1 "range_upper r"] by (auto simp: Mask_def)

lemma sint_and_le: "0 \<le> sint m \<Longrightarrow> 0 \<le> sint (x AND m) \<and> sint (x AND m) \<le> sint m" for x m :: int32
  by (simp add: signed_and_eq AND_upper2)

section \<open>Shifts\<close>

lemma sint_signed_drop_bit: "sint (signed_drop_bit n w) = sint w div 2 ^ n" for w :: int32
  by (simp add: sint_signed_drop_bit_eq drop_bit_eq_div)

lemma Sar_bounds: "lower (Sar v r) = lower r div 2 ^ shift_bits v" "upper (Sar v r) = upper r div 2 ^ shift_bits v"
    "can_be_minus_zero (Sar v r) = False"
  by (simp_all add: Sar_def range_defs sint_signed_drop_bit)

lemma sar_in_range: "Includes i r \<Longrightarrow> Includes (i div 2 ^ shift_bits v) (Sar v r)"
  by (auto simp: Includes_def Sar_bounds zdiv_mono1)

text \<open>A bound that comes back from the shift by shifting right was not cut.\<close>

lemma shift_back:
  fixes w :: int32
  assumes "signed_drop_bit n (push_bit n w) = w" "n < 32"
  shows "sint (push_bit n w) = sint w * 2 ^ n"
proof -
  have "sint (push_bit n w) = signed_take_bit 31 (push_bit n (sint w))"
    by (simp add: signed_push_bit_eq)
  then have "take_bit n (sint (push_bit n w)) = 0"
    using assms(2) by (simp add: take_bit_signed_take_bit take_bit_push_bit)
  then have "sint (push_bit n w) = sint (push_bit n w) div 2 ^ n * 2 ^ n"
    by (simp add: take_bit_eq_mod mod_0_imp_dvd)
  moreover have "sint (push_bit n w) div 2 ^ n = sint w"
    using arg_cong [OF assms(1), of sint] by (simp only: sint_signed_drop_bit)
  ultimately show ?thesis by simp
qed

end
