(* ===== verification/RangeInference.thy ===== *)
theory RangeInference
  imports Ranges
begin

text \<open>
  The inference of the range of an instruction from the ranges of its operands
  (\<^verbatim>\<open>InferRange\<close> of the classes of \<^verbatim>\<open>src/hydrogen-instructions.cc\<close>), and the flags it clears on the
  way: an instruction whose flag \<^verbatim>\<open>kCanOverflow\<close> or \<^verbatim>\<open>kCanBeDivByZero\<close> is cleared is compiled without the
  check. The theorems say that the number an instruction computes is in the range inferred for it, and that a
  check is dropped only where it cannot fail.
\<close>

unbundle bit_operations_syntax

section \<open>Flags of a value\<close>

text \<open>What \<^verbatim>\<open>InferRange\<close> reads of the instruction itself. An operand is given by its range, \<open>None\<close> standing for a
  null pointer where the code tests for one.\<close>

record range_instruction =
  instr_representation :: Representation
  instr_type_is_smi :: bool
  instr_changes_new_space_promotion :: bool
  instr_flags :: int32

abbreviation kCanOverflow :: nat where "kCanOverflow \<equiv> 4"
abbreviation kCanBeDivByZero :: nat where "kCanBeDivByZero \<equiv> 6"
abbreviation kLeftCanBeMinInt :: nat where "kLeftCanBeMinInt \<equiv> 7"
abbreviation kLeftCanBeNegative :: nat where "kLeftCanBeNegative \<equiv> 8"
abbreviation kLeftCanBePositive :: nat where "kLeftCanBePositive \<equiv> 9"
abbreviation kAllUsesTruncatingToInt32 :: nat where "kAllUsesTruncatingToInt32 \<equiv> 13"
abbreviation kAllUsesTruncatingToSmi :: nat where "kAllUsesTruncatingToSmi \<equiv> 15"
abbreviation kUint32 :: nat where "kUint32 \<equiv> 17"

definition HValue_CheckFlag :: "nat \<Rightarrow> range_instruction \<Rightarrow> bool" where
  "HValue_CheckFlag f v \<longleftrightarrow> instr_flags v AND push_bit f 1 \<noteq> 0"

definition HValue_SetFlag :: "nat \<Rightarrow> range_instruction \<Rightarrow> range_instruction" where
  "HValue_SetFlag f v = v\<lparr>instr_flags := instr_flags v OR push_bit f 1\<rparr>"

definition HValue_ClearFlag :: "nat \<Rightarrow> range_instruction \<Rightarrow> range_instruction" where
  "HValue_ClearFlag f v = v\<lparr>instr_flags := instr_flags v AND NOT (push_bit f 1)\<rparr>"

definition clear_if :: "bool \<Rightarrow> nat \<Rightarrow> range_instruction \<Rightarrow> range_instruction" where
  "clear_if b f v = (if b then HValue_ClearFlag f v else v)"

definition truncating :: "range_instruction \<Rightarrow> bool" where
  "truncating v \<longleftrightarrow> instr_representation v = kInteger32 \<and> HValue_CheckFlag kAllUsesTruncatingToInt32 v \<or>
                  instr_representation v = kSmi \<and> HValue_CheckFlag kAllUsesTruncatingToSmi v"

definition minus_zero_matters :: "range_instruction \<Rightarrow> bool" where
  "minus_zero_matters v \<longleftrightarrow>
     \<not> HValue_CheckFlag kAllUsesTruncatingToSmi v \<and> \<not> HValue_CheckFlag kAllUsesTruncatingToInt32 v"

section \<open>Inference\<close>

definition HValue_InferRange :: "range_instruction \<Rightarrow> Range" where
  "HValue_InferRange v =
     (if instr_representation v = kSmi \<or> instr_type_is_smi v
      then set_can_be_minus_zero False (new_Range Smi_kMinValue Smi_kMaxValue)
      else set_can_be_minus_zero (\<not> HValue_CheckFlag kAllUsesTruncatingToInt32 v) full_Range)"

definition HConstant_InferRange :: "range_instruction \<Rightarrow> int32 option \<Rightarrow> Range" where
  "HConstant_InferRange v int32_value =
     (case int32_value of
        Some c \<Rightarrow> set_can_be_minus_zero False (new_Range c c)
      | None \<Rightarrow> HValue_InferRange v)"

text \<open>The range of a phi in a loop header cannot use the operand that comes from the loop, which has no
  range yet. A phi has at least one operand.\<close>

definition HPhi_InferRange :: "range_instruction \<Rightarrow> bool \<Rightarrow> Range list \<Rightarrow> Range" where
  "HPhi_InferRange v is_loop_header operands =
     (if IsSmiOrInteger32 (instr_representation v)
      then if is_loop_header
           then if instr_representation v = kSmi then new_Range Smi_kMinValue Smi_kMaxValue else new_Range kMinInt kMaxInt
           else foldl Range_Union (Copy (hd operands)) (tl operands)
      else HValue_InferRange v)"

definition HAdd_InferRange :: "range_instruction \<Rightarrow> Range \<Rightarrow> Range \<Rightarrow> Range \<times> range_instruction" where
  "HAdd_InferRange v a b =
     (if IsSmiOrInteger32 (instr_representation v)
      then let (res, overflow) = AddAndCheckOverflow (instr_representation v) (Copy a) b;
               v = clear_if (\<not> overflow \<or> truncating v) kCanOverflow v
           in (set_can_be_minus_zero (minus_zero_matters v \<and> CanBeMinusZero a \<and> CanBeMinusZero b) res, v)
      else (HValue_InferRange v, v))"

definition HSub_InferRange :: "range_instruction \<Rightarrow> Range \<Rightarrow> Range \<Rightarrow> Range \<times> range_instruction" where
  "HSub_InferRange v a b =
     (if IsSmiOrInteger32 (instr_representation v)
      then let (res, overflow) = SubAndCheckOverflow (instr_representation v) (Copy a) b;
               v = clear_if (\<not> overflow \<or> truncating v) kCanOverflow v
           in (set_can_be_minus_zero (minus_zero_matters v \<and> CanBeMinusZero a \<and> CanBeZero b) res, v)
      else (HValue_InferRange v, v))"

text \<open>The constants of the operands, where they are integer constants.\<close>

definition MulMinusOne :: "int32 option \<Rightarrow> int32 option \<Rightarrow> bool" where
  "MulMinusOne left right \<longleftrightarrow> left = Some (-1) \<or> right = Some (-1)"

definition HMul_InferRange ::
  "range_instruction \<Rightarrow> int32 option \<Rightarrow> int32 option \<Rightarrow> Range \<Rightarrow> Range \<Rightarrow> Range \<times> range_instruction" where
  "HMul_InferRange v left right a b =
     (if IsSmiOrInteger32 (instr_representation v)
      then let (res, overflow) = MulAndCheckOverflow (instr_representation v) (Copy a) b;
               v = clear_if (\<not> overflow \<or> truncating v \<and> MulMinusOne left right) kCanOverflow v
           in (set_can_be_minus_zero
                 (minus_zero_matters v \<and> (CanBeZero a \<and> CanBeNegative b \<or> CanBeNegative a \<and> CanBeZero b)) res, v)
      else (HValue_InferRange v, v))"

definition HDiv_InferRange :: "range_instruction \<Rightarrow> Range \<Rightarrow> Range \<Rightarrow> Range \<times> range_instruction" where
  "HDiv_InferRange v a b =
     (if instr_representation v = kInteger32
      then let result = set_can_be_minus_zero
                 (\<not> HValue_CheckFlag kAllUsesTruncatingToInt32 v \<and> (CanBeMinusZero a \<or> CanBeZero a \<and> CanBeNegative b)) full_Range;
               v = clear_if (\<not> Includes (sint kMinInt) a \<or> \<not> Includes (-1) b) kCanOverflow v;
               v = clear_if (\<not> CanBeZero b) kCanBeDivByZero v
           in (result, v)
      else (HValue_InferRange v, v))"

definition HMathFloorOfDiv_InferRange :: "range_instruction \<Rightarrow> Range \<Rightarrow> Range \<Rightarrow> Range \<times> range_instruction" where
  "HMathFloorOfDiv_InferRange v a b =
     (if instr_representation v = kInteger32
      then let result = set_can_be_minus_zero
                 (\<not> HValue_CheckFlag kAllUsesTruncatingToInt32 v \<and> (CanBeMinusZero a \<or> CanBeZero a \<and> CanBeNegative b)) full_Range;
               v = clear_if (\<not> Includes (sint kMinInt) a) kLeftCanBeMinInt v;
               v = clear_if (\<not> CanBeNegative a) kLeftCanBeNegative v;
               v = clear_if (\<not> CanBePositive a) kLeftCanBePositive v;
               v = clear_if (\<not> Includes (sint kMinInt) a \<or> \<not> Includes (-1) b) kCanOverflow v;
               v = clear_if (\<not> CanBeZero b) kCanBeDivByZero v
           in (result, v)
      else (HValue_InferRange v, v))"

definition AbsMinus1 :: "int32 \<Rightarrow> int32" where
  "AbsMinus1 a = (if sint a < 0 then - (a + 1) else a - 1)"

definition HMod_InferRange :: "range_instruction \<Rightarrow> Range \<Rightarrow> Range \<Rightarrow> Range \<times> range_instruction" where
  "HMod_InferRange v a b =
     (if instr_representation v = kInteger32
      then let positive_bound = smax (AbsMinus1 (range_lower b)) (AbsMinus1 (range_upper b));
               left_can_be_negative = (CanBeMinusZero a \<or> CanBeNegative a);
               result = new_Range (if left_can_be_negative then - positive_bound else 0)
                          (if CanBePositive a then positive_bound else 0);
               result = set_can_be_minus_zero
                          (\<not> HValue_CheckFlag kAllUsesTruncatingToInt32 v \<and> left_can_be_negative) result;
               v = clear_if (\<not> CanBeNegative a) kLeftCanBeNegative v;
               v = clear_if (\<not> Includes (sint kMinInt) a \<or> \<not> Includes (-1) b) kCanOverflow v;
               v = clear_if (\<not> CanBeZero b) kCanBeDivByZero v
           in (result, v)
      else (HValue_InferRange v, v))"

datatype math_min_max = kMathMin | kMathMax

definition HMathMinMax_InferRange :: "math_min_max \<Rightarrow> range_instruction \<Rightarrow> Range \<Rightarrow> Range \<Rightarrow> Range" where
  "HMathMinMax_InferRange operation v a b =
     (if IsSmiOrInteger32 (instr_representation v)
      then if operation = kMathMax then CombinedMax (Copy a) b else CombinedMin (Copy a) b
      else HValue_InferRange v)"

text \<open>\<^verbatim>\<open>MostSignificantBit\<close> of \<^verbatim>\<open>src/utils.h\<close> halves the word three times and looks the rest up.\<close>

definition MostSignificantBit :: "uint32 \<Rightarrow> nat" where
  "MostSignificantBit x =
     (let msb4 = [0, 1, 2, 2, 3, 3, 3, 3, 4, 4, 4, 4, 4, 4, 4, 4];
          (nibble, x) = (if x AND 0xFFFF0000 \<noteq> 0 then (16, drop_bit 16 x) else (0, x));
          (nibble, x) = (if x AND 0xFF00 \<noteq> 0 then (nibble + 8, drop_bit 8 x) else (nibble, x));
          (nibble, x) = (if x AND 0xF0 \<noteq> 0 then (nibble + 4, drop_bit 4 x) else (nibble, x))
      in nibble + msb4 ! unat x)"

datatype bitwise_op = BIT_OR | BIT_XOR | BIT_AND

definition magnitude :: "int \<Rightarrow> int" where
  "magnitude x = (if x < 0 then NOT x else x)"

definition HBitwise_InferRange :: "bitwise_op \<Rightarrow> range_instruction \<Rightarrow> Range option \<Rightarrow> Range option \<Rightarrow> Range option" where
  "HBitwise_InferRange op v left right =
     (let default = set_can_be_minus_zero False (HValue_InferRange v)
      in if op = BIT_XOR
         then case (left, right) of
                (Some left, Some right) \<Rightarrow>
                  (let high = MostSignificantBit (word_of_int
                         (magnitude (upper left) OR magnitude (lower left) OR magnitude (upper right) OR magnitude (lower right)));
                       limit = push_bit high (1 :: int);
                       min = (if CanBeNegative left \<or> CanBeNegative right then word_of_int (- limit) else 0)
                   in Some (new_Range min (word_of_int (limit - 1))))
              | _ \<Rightarrow> Some default
         else do {
           left_mask \<leftarrow> (case left of Some r \<Rightarrow> Mask r | None \<Rightarrow> Some 0xFFFFFFFF);
           right_mask \<leftarrow> (case right of Some r \<Rightarrow> Mask r | None \<Rightarrow> Some 0xFFFFFFFF);
           let result_mask = (if op = BIT_AND then left_mask AND right_mask else left_mask OR right_mask);
           Some (if 0 \<le> sint result_mask then new_Range 0 result_mask else default)
         })"

text \<open>The count of a shift counts where it is an integer constant.\<close>

definition HSar_InferRange :: "range_instruction \<Rightarrow> Range option \<Rightarrow> int32 option \<Rightarrow> Range" where
  "HSar_InferRange v left right =
     (case right of
        Some c \<Rightarrow> Sar c (case left of Some r \<Rightarrow> Copy r | None \<Rightarrow> full_Range)
      | None \<Rightarrow> HValue_InferRange v)"

definition HShl_InferRange :: "range_instruction \<Rightarrow> Range option \<Rightarrow> int32 option \<Rightarrow> Range" where
  "HShl_InferRange v left right =
     (case right of
        Some c \<Rightarrow> Shl c (case left of Some r \<Rightarrow> Copy r | None \<Rightarrow> full_Range)
      | None \<Rightarrow> HValue_InferRange v)"

text \<open>\<^verbatim>\<open>HShr\<close> asks the range of its left operand before it tests for a null pointer: the operand has a range.\<close>

definition HShr_InferRange :: "range_instruction \<Rightarrow> Range \<Rightarrow> int32 option \<Rightarrow> Range" where
  "HShr_InferRange v left right =
     (case right of
        Some c \<Rightarrow>
          if CanBeNegative left
          then if 1 \<le> shift_bits c then new_Range 0 (drop_bit (shift_bits c) 0xFFFFFFFF) else full_Range
          else Sar c (Copy left)
      | None \<Rightarrow> HValue_InferRange v)"

definition HLoadNamedField_InferRange :: "range_instruction \<Rightarrow> Representation \<Rightarrow> Portion \<Rightarrow> Range" where
  "HLoadNamedField_InferRange v representation portion =
     (if representation = kInteger8 then new_Range (-128) 127
      else if representation = kUInteger8 then new_Range 0 255
      else if representation = kInteger16 then new_Range (-32768) 32767
      else if representation = kUInteger16 then new_Range 0 65535
      else if portion = kStringLengths then new_Range 0 (2 ^ 28 - 16)
      else HValue_InferRange v)"

fun HLoadKeyed_InferRange :: "range_instruction \<Rightarrow> ElementsKind \<Rightarrow> Range" where
  "HLoadKeyed_InferRange v EXTERNAL_INT8_ELEMENTS = new_Range (-128) 127"
| "HLoadKeyed_InferRange v EXTERNAL_UINT8_ELEMENTS = new_Range 0 255"
| "HLoadKeyed_InferRange v EXTERNAL_UINT8_CLAMPED_ELEMENTS = new_Range 0 255"
| "HLoadKeyed_InferRange v EXTERNAL_INT16_ELEMENTS = new_Range (-32768) 32767"
| "HLoadKeyed_InferRange v EXTERNAL_UINT16_ELEMENTS = new_Range 0 65535"
| "HLoadKeyed_InferRange v _ = HValue_InferRange v"

definition HBoundsCheck_InferRange :: "range_instruction \<Rightarrow> bool \<Rightarrow> Range option \<Rightarrow> Range option \<Rightarrow> Range" where
  "HBoundsCheck_InferRange v allow_equality index array_length =
     (case array_length of
        Some l \<Rightarrow>
          if IsSmiOrInteger32 (instr_representation v)
          then let upper = range_upper l - (if allow_equality then 0 else 1);
                   result = new_Range 0 upper;
                   result = (case index of Some index \<Rightarrow> Range_Intersect result index | None \<Rightarrow> result)
               in if instr_representation v = kSmi then ClampToSmi result else result
          else HValue_InferRange v
      | None \<Rightarrow> HValue_InferRange v)"

datatype math_op = MathAbs | MathClz32 | MathOther

definition abs_int32 :: "int32 \<Rightarrow> int32" where
  "abs_int32 x = (if x = kMinInt then kMaxInt else if sint x < 0 then - x else x)"

definition HUnaryMathOperation_InferRange :: "math_op \<Rightarrow> range_instruction \<Rightarrow> Range option \<Rightarrow> Range" where
  "HUnaryMathOperation_InferRange op v operand =
     (if op = MathClz32 then new_Range 0 32
      else case operand of
             Some r \<Rightarrow>
               if IsSmiOrInteger32 (instr_representation v) \<and> op = MathAbs
               then let abs_upper = abs_int32 (range_upper r); abs_lower = abs_int32 (range_lower r);
                        result = new_Range (if CanBeZero r then 0 else smin abs_lower abs_upper) (smax abs_lower abs_upper)
                    in if instr_representation v = kSmi then ClampToSmi result else result
               else HValue_InferRange v
           | None \<Rightarrow> HValue_InferRange v)"

text \<open>A change of representation to \<^verbatim>\<open>v\<close>'s from that of its operand. Beside the flag it also notes that the
  value is a Smi, which takes no new object.\<close>

definition HChange_InferRange ::
  "range_instruction \<Rightarrow> Representation \<Rightarrow> bool \<Rightarrow> Range option \<Rightarrow> Range \<times> range_instruction" where
  "HChange_InferRange v from operand_is_uint32 input_range =
     (let to = instr_representation v;
          input_in_smi_range = (case input_range of Some r \<Rightarrow> IsInSmiRange r | None \<Rightarrow> False);
          v = (if from = kInteger32 \<and> \<not> operand_is_uint32 \<and> (to = kSmi \<or> to = kTagged \<and> input_in_smi_range)
               then v\<lparr>instr_type_is_smi := True, instr_changes_new_space_promotion := False\<rparr> else v);
          v = clear_if (IsSmiOrTagged to \<and> input_in_smi_range \<and>
                        (\<not> operand_is_uint32 \<or> (case input_range of Some r \<Rightarrow> range_upper r \<noteq> kMaxInt | None \<Rightarrow> False)))
                kCanOverflow v;
          result = (case input_range of Some r \<Rightarrow> Copy r | None \<Rightarrow> HValue_InferRange v);
          result = set_can_be_minus_zero
            (\<not> IsSmiOrInteger32 to \<or>
             \<not> (HValue_CheckFlag kAllUsesTruncatingToInt32 v \<or> HValue_CheckFlag kAllUsesTruncatingToSmi v)) result
      in (if to = kSmi then ClampToSmi result else result, v))"

section \<open>The stack of ranges of a value\<close>

text \<open>\<open>infer\<close> stands for the virtual \<^verbatim>\<open>InferRange\<close> of the value, which returns a range.\<close>

definition AddNewRange :: "Range \<Rightarrow> Range \<Rightarrow> Range option \<Rightarrow> Range option" where
  "AddNewRange infer r old = Some (StackUpon r (case old of Some o' \<Rightarrow> o' | None \<Rightarrow> infer))"

definition RemoveLastAddedRange :: "Range option \<Rightarrow> Range option" where
  "RemoveLastAddedRange r = Option.bind r range_next"

section \<open>Numbers\<close>

text \<open>The operations of JavaScript on integers and minus zero. The sum of two numbers is minus zero when both
  are, and a product or remainder that is zero has the sign of its factors or of its dividend.\<close>

fun js_add :: "number \<Rightarrow> number \<Rightarrow> number" where
  "js_add MinusZero MinusZero = MinusZero"
| "js_add x y = Integer (number_value x + number_value y)"

fun js_sub :: "number \<Rightarrow> number \<Rightarrow> number" where
  "js_sub MinusZero (Integer y) = (if y = 0 then MinusZero else Integer (- y))"
| "js_sub x y = Integer (number_value x - number_value y)"

definition js_mul :: "int \<Rightarrow> int \<Rightarrow> number" where
  "js_mul x y = (if x * y = 0 \<and> (x < 0 \<or> y < 0) then MinusZero else Integer (x * y))"

definition js_mod :: "number \<Rightarrow> int \<Rightarrow> number" where
  "js_mod x y =
     (let m = (number_value x) smod y
      in if m = 0 \<and> (x = MinusZero \<or> number_value x < 0) then MinusZero else Integer m)"

text \<open>The range that an instruction has describes a number: it is between the bounds, and if it is minus zero
  then either no use of the instruction can tell, or the range says so.\<close>

definition describes :: "range_instruction \<Rightarrow> Range \<Rightarrow> number \<Rightarrow> bool" where
  "describes v r z \<longleftrightarrow>
     Includes (number_value z) r \<and> (z = MinusZero \<longrightarrow> minus_zero_matters v \<longrightarrow> CanBeMinusZero r)"

section \<open>Flags\<close>

lemma CheckFlag_bit: "HValue_CheckFlag f v \<longleftrightarrow> bit (instr_flags v) f"
  by (simp add: HValue_CheckFlag_def push_bit_of_1 and_exp_eq_0_iff_not_bit)

lemma CheckFlag_ClearFlag [simp]: "HValue_CheckFlag f (HValue_ClearFlag g v) \<longleftrightarrow> f \<noteq> g \<and> HValue_CheckFlag f v"
  by (auto simp: CheckFlag_bit HValue_ClearFlag_def bit_simps push_bit_of_1 dest: bit_imp_le_length)

lemma CheckFlag_clear_if [simp]: "HValue_CheckFlag f (clear_if b g v) \<longleftrightarrow> \<not> (b \<and> f = g) \<and> HValue_CheckFlag f v"
  by (simp add: clear_if_def)

lemma clear_if_representation [simp]: "instr_representation (clear_if b g v) = instr_representation v"
  by (simp add: clear_if_def HValue_ClearFlag_def)

section \<open>Arithmetic\<close>

lemma clip_min: "clip (min i j) = min (clip i) (clip j)"
  using clip_mono [of i j] clip_mono [of j i] by (auto simp: min_def)

lemma clip_max: "clip (max i j) = max (clip i) (clip j)"
  using clip_mono [of i j] clip_mono [of j i] by (auto simp: max_def)

lemma bounds_simps [simp]:
  "lower (set_can_be_minus_zero m r) = lower r" "upper (set_can_be_minus_zero m r) = upper r"
  "can_be_minus_zero (set_can_be_minus_zero m r) = m"
  "lower (Copy r) = lower r" "upper (Copy r) = upper r"
  "lower (new_Range l u) = sint l" "upper (new_Range l u) = sint u"
  by (simp_all add: range_defs)

lemma describes_set:
  "describes v (set_can_be_minus_zero m r) z \<longleftrightarrow>
     Includes (number_value z) r \<and> (z = MinusZero \<longrightarrow> minus_zero_matters v \<longrightarrow> m)"
  by (auto simp: describes_def Includes_def CanBeMinusZero_def CanBeZero_def)

lemma add_includes:
  assumes "Includes x a" "Includes y b" "is_int32 (x + y)"
  shows "Includes (x + y) (fst (AddAndCheckOverflow rep (Copy a) b))"
proof -
  have "clip (lower a + lower b) \<le> clip (x + y)" "clip (x + y) \<le> clip (upper a + upper b)"
    by (rule clip_mono, use assms(1, 2) in \<open>simp add: Includes_def\<close>)+
  with assms(3) show ?thesis by (simp add: Includes_def AddAndCheckOverflow_bounds)
qed

lemma sub_includes:
  assumes "Includes x a" "Includes y b" "is_int32 (x - y)"
  shows "Includes (x - y) (fst (SubAndCheckOverflow rep (Copy a) b))"
proof -
  have "clip (lower a - upper b) \<le> clip (x - y)" "clip (x - y) \<le> clip (upper a - lower b)"
    by (rule clip_mono, use assms(1, 2) in \<open>simp add: Includes_def\<close>)+
  with assms(3) show ?thesis by (simp add: Includes_def SubAndCheckOverflow_bounds)
qed

lemma mul_includes:
  assumes "Includes x a" "Includes y b" "is_int32 (x * y)"
  shows "Includes (x * y) (fst (MulAndCheckOverflow rep (Copy a) b))"
proof -
  note between = assms(1, 2) [unfolded Includes_def]
  have "clip (x * y) \<le> clip (max (max (lower a * lower b) (lower a * upper b)) (max (upper a * lower b) (upper a * upper b)))"
    "clip (min (min (lower a * lower b) (lower a * upper b)) (min (upper a * lower b) (upper a * upper b))) \<le> clip (x * y)"
    using between by (auto intro!: clip_mono product_upper product_lower)
  with assms(3) show ?thesis by (simp only: Includes_def MulAndCheckOverflow_bounds bounds_simps clip_max clip_min clip_id)
qed

lemma in_range_Includes: "in_range z r \<Longrightarrow> Includes (number_value z) r"
  by (cases z) (auto simp: range_defs)

text \<open>The result of an addition, subtraction or multiplication that fits into 32 bits is in the range
  inferred for it. A multiplication has no minus zero for a factor: the factors are checked for it whenever
  the product is (\<^verbatim>\<open>PropagateMinusZeroChecks\<close> of \<^verbatim>\<open>src/hydrogen-range-analysis.cc\<close>).\<close>

lemma minus_zero_add: "js_add x y = MinusZero \<Longrightarrow> x = MinusZero \<and> y = MinusZero"
  by (cases x; cases y) auto

lemma minus_zero_sub: "js_sub x y = MinusZero \<Longrightarrow> x = MinusZero \<and> y = Integer 0"
  by (cases x; cases y) (auto split: if_splits)

lemma value_js [simp]:
  "number_value (js_add x y) = number_value x + number_value y"
  "number_value (js_sub x y) = number_value x - number_value y"
  "number_value (js_mul i j) = i * j"
  by (cases x; cases y; simp)+ (simp add: js_mul_def)

lemma CanBeZero_Includes: "CanBeZero r \<longleftrightarrow> Includes 0 r"
  by (auto simp: CanBeZero_def Includes_def)

lemma HAdd_describes:
  assumes "IsSmiOrInteger32 (instr_representation v)" "in_range x a" "in_range y b" "is_int32 (number_value x + number_value y)"
  shows "describes v (fst (HAdd_InferRange v a b)) (js_add x y)"
  using assms in_range_Includes [OF assms(2)] in_range_Includes [OF assms(3)]
  by (auto simp: HAdd_InferRange_def Let_def case_prod_unfold describes_set minus_zero_matters_def
      intro!: add_includes dest!: minus_zero_add)

lemma HSub_describes:
  assumes "IsSmiOrInteger32 (instr_representation v)" "in_range x a" "in_range y b" "is_int32 (number_value x - number_value y)"
  shows "describes v (fst (HSub_InferRange v a b)) (js_sub x y)"
  using assms in_range_Includes [OF assms(2)] in_range_Includes [OF assms(3)]
  by (auto simp: HSub_InferRange_def Let_def case_prod_unfold describes_set minus_zero_matters_def CanBeZero_Includes
      intro!: sub_includes dest!: minus_zero_sub)

lemma HMul_describes:
  assumes "IsSmiOrInteger32 (instr_representation v)" "Includes i a" "Includes j b" "is_int32 (i * j)"
  shows "describes v (fst (HMul_InferRange v left right a b)) (js_mul i j)"
proof -
  have "js_mul i j = MinusZero \<Longrightarrow> CanBeZero a \<and> CanBeNegative b \<or> CanBeNegative a \<and> CanBeZero b"
    using assms(2, 3) by (auto simp: js_mul_def CanBeZero_def CanBeNegative_def Includes_def split: if_splits)
  then show ?thesis
    using assms by (auto simp: HMul_InferRange_def Let_def case_prod_unfold describes_set minus_zero_matters_def intro!: mul_includes)
qed



section \<open>Checks that are dropped\<close>

lemma HAdd_no_overflow:
  assumes "IsSmiOrInteger32 (instr_representation v)" "Includes x a" "Includes y b"
    "HValue_CheckFlag kCanOverflow v" "\<not> HValue_CheckFlag kCanOverflow (snd (HAdd_InferRange v a b))" "\<not> truncating v"
  shows "is_int32 (x + y)"
  using assms
  by (auto simp: HAdd_InferRange_def Let_def case_prod_unfold AddAndCheckOverflow_bounds Includes_def
      intro: is_int32_between [of "lower a + lower b" "upper a + upper b"])

lemma HSub_no_overflow:
  assumes "IsSmiOrInteger32 (instr_representation v)" "Includes x a" "Includes y b"
    "HValue_CheckFlag kCanOverflow v" "\<not> HValue_CheckFlag kCanOverflow (snd (HSub_InferRange v a b))" "\<not> truncating v"
  shows "is_int32 (x - y)"
  using assms
  by (auto simp: HSub_InferRange_def Let_def case_prod_unfold SubAndCheckOverflow_bounds Includes_def
      intro: is_int32_between [of "lower a - upper b" "upper a - lower b"])

lemma HMul_no_overflow:
  assumes "IsSmiOrInteger32 (instr_representation v)" "Includes x a" "Includes y b"
    "HValue_CheckFlag kCanOverflow v" "\<not> HValue_CheckFlag kCanOverflow (snd (HMul_InferRange v left right a b))"
    "\<not> (truncating v \<and> MulMinusOne left right)"
  shows "is_int32 (x * y)"
proof -
  have "is_int32 (lower a * lower b)" "is_int32 (lower a * upper b)" "is_int32 (upper a * lower b)" "is_int32 (upper a * upper b)"
    using assms by (auto simp: HMul_InferRange_def Let_def case_prod_unfold MulAndCheckOverflow_bounds)
  then have "is_int32 (max (max (lower a * lower b) (lower a * upper b)) (max (upper a * lower b) (upper a * upper b)))"
    "is_int32 (min (min (lower a * lower b) (lower a * upper b)) (min (upper a * lower b) (upper a * upper b)))"
    by (auto simp: max_def min_def)
  then show ?thesis
    using assms(2, 3) unfolding Includes_def by (blast intro: is_int32_between product_lower product_upper)
qed

text \<open>C30 An addition, subtraction or multiplication whose flag \<^verbatim>\<open>kCanOverflow\<close> the inference clears, and whose
  uses do not all cut their result to 32 bits, cannot overflow: its check may be left out.\<close>
theorem overflow_check_dropped:
  assumes "IsSmiOrInteger32 (instr_representation v)" "Includes x a" "Includes y b"
    "HValue_CheckFlag kCanOverflow v" "\<not> truncating v"
  shows "(\<not> HValue_CheckFlag kCanOverflow (snd (HAdd_InferRange v a b)) \<longrightarrow> is_int32 (x + y)) \<and>
    (\<not> HValue_CheckFlag kCanOverflow (snd (HSub_InferRange v a b)) \<longrightarrow> is_int32 (x - y)) \<and>
    (\<not> HValue_CheckFlag kCanOverflow (snd (HMul_InferRange v left right a b)) \<longrightarrow> is_int32 (x * y))"
  using assms HAdd_no_overflow HSub_no_overflow HMul_no_overflow by blast

lemma overflow_check_dropped_witness:
  "let v = \<lparr>instr_representation = kSmi, instr_type_is_smi = False, instr_changes_new_space_promotion = False,
             instr_flags = 16\<rparr>
   in \<not> HValue_CheckFlag kCanOverflow (snd (HMul_InferRange v None None (new_Range (-3) 5) (new_Range 0 7))) \<and>
      is_int32 (-3 * 7)"
proof -
  define v where "v = \<lparr>instr_representation = kSmi, instr_type_is_smi = False,
    instr_changes_new_space_promotion = False, instr_flags = 16\<rparr>"
  have "\<not> HValue_CheckFlag kCanOverflow (snd (HMul_InferRange v None None (new_Range (-3) 5) (new_Range 0 7)))"
    "IsSmiOrInteger32 (instr_representation v)" "Includes (-3) (new_Range (-3) 5)" "Includes 7 (new_Range 0 7)"
    "HValue_CheckFlag kCanOverflow v" "\<not> truncating v"
    unfolding v_def by code_simp+
  then show ?thesis
    using overflow_check_dropped [of v "-3" "new_Range (-3) 5" 7 "new_Range 0 7" None None]
    unfolding v_def [symmetric] Let_def by blast
qed

section \<open>Bitwise operations\<close>

lemma unat_below_mask:
  fixes w :: uint32
  assumes "unat w < 2 ^ m" "w AND (mask m AND NOT (mask k)) = 0" shows "unat w < 2 ^ k"
proof -
  have m: "take_bit m w = w"
    by (simp add: word_unat_eq_iff unsigned_take_bit_eq take_bit_nat_eq_self [OF assms(1)])
  have "take_bit k w = w"
  proof (rule bit_eqI)
    fix n
    have "bit w n \<Longrightarrow> n < m" using m by (metis bit_take_bit_iff)
    moreover have "\<not> bit (w AND (mask m AND NOT (mask k))) n" by (simp add: assms(2))
    ultimately show "bit (take_bit k w) n = bit w n"
      by (auto simp: bit_simps dest: bit_imp_le_length)
  qed
  then have "unat w = take_bit k (unat w)" by (metis unsigned_take_bit_eq)
  then show ?thesis by (metis take_bit_nat_less_exp)
qed

lemma unat_drop_bit: "unat (drop_bit k w) = unat w div 2 ^ k"
  by (metis drop_bit_eq_div take_bit_length_eq unsigned_drop_bit_eq unsigned_take_bit_eq)

text \<open>\<open>n\<close> is the number of the bits of \<open>w\<close> without leading zeros.\<close>

definition has_bits :: "uint32 \<Rightarrow> nat \<Rightarrow> bool" where
  "has_bits w n \<longleftrightarrow> unat w < 2 ^ n \<and> (w \<noteq> 0 \<longrightarrow> 2 ^ n \<le> 2 * unat w)"

lemma has_bits_drop:
  assumes "has_bits (drop_bit k w) n" "w AND NOT (mask k) AND m \<noteq> 0" shows "has_bits w (k + n)"
proof -
  have "drop_bit k w \<noteq> 0"
  proof
    assume 0: "drop_bit k w = 0"
    have "w AND NOT (mask k) AND m = 0"
    proof (rule bit_eqI)
      fix i
      have "\<not> bit (drop_bit k w) (i - k)" by (simp add: 0)
      then have "k \<le> i \<Longrightarrow> \<not> bit w i" by (simp add: bit_simps)
      then show "bit (w AND NOT (mask k) AND m) i = bit 0 i" by (auto simp: bit_simps)
    qed
    with assms(2) show False by simp
  qed
  with assms(1) have q: "unat w div 2 ^ k < 2 ^ n" "2 ^ n \<le> 2 * (unat w div 2 ^ k)"
    by (simp_all add: has_bits_def unat_drop_bit)
  have "2 ^ (k + n) \<le> 2 * unat w"
  proof -
    have "2 ^ (k + n) = 2 ^ k * (2 ^ n :: nat)" by (rule power_add)
    also have "\<dots> \<le> 2 ^ k * (2 * (unat w div 2 ^ k))" using q(2) by (rule mult_le_mono2)
    also have "\<dots> \<le> 2 * unat w" by simp
    finally show ?thesis .
  qed
  with q(1) show ?thesis
    by (simp add: has_bits_def div_less_iff_less_mult power_add mult.commute)
qed

lemma msb4_table:
  assumes "unat w < 16" shows "has_bits w ([0, 1, 2, 2, 3, 3, 3, 3, 4, 4, 4, 4, 4, 4, 4, 4] ! unat w)"
proof -
  let ?msb4 = "[0, 1, 2, 2, 3, 3, 3, 3, 4, 4, 4, 4, 4, 4, 4, 4] :: nat list"
  have "\<forall>n \<in> set [0..<16]. n < 2 ^ (?msb4 ! n) \<and> (0 < n \<longrightarrow> 2 ^ (?msb4 ! n) \<le> 2 * n)" by code_simp
  moreover have "unat w \<in> set [0..<16]" using assms by simp
  ultimately show ?thesis by (auto simp: has_bits_def unat_gt_0 simp del: set_upt)
qed

lemma MostSignificantBit_bits: "has_bits x (MostSignificantBit x)"
proof -
  define msb4 :: "nat list" where "msb4 = [0, 1, 2, 2, 3, 3, 3, 3, 4, 4, 4, 4, 4, 4, 4, 4]"
  define msb8 where "msb8 = (\<lambda>x :: uint32. if x AND 0xF0 \<noteq> 0 then 4 + msb4 ! unat (drop_bit 4 x) else msb4 ! unat x)"
  define msb16 where "msb16 = (\<lambda>x :: uint32. if x AND 0xFF00 \<noteq> 0 then 8 + msb8 (drop_bit 8 x) else msb8 x)"
  have masks: "(0xF0 :: uint32) = mask 8 AND NOT (mask 4)" "(0xFF00 :: uint32) = mask 16 AND NOT (mask 8)"
    "(0xFFFF0000 :: uint32) = mask 32 AND NOT (mask 16)"
    by code_simp+
  have drop: "unat (drop_bit k y) < 2 ^ m" if "unat y < 2 ^ (k + m)" for y :: uint32 and k m
    using that unfolding unat_drop_bit by (simp add: div_less_iff_less_mult power_add mult.commute)
  have step: "has_bits y (if y AND msk \<noteq> 0 then k + f (drop_bit k y) else f y)"
    if "msk = mask (k + k) AND NOT (mask k)" "\<And>z. unat z < 2 ^ k \<Longrightarrow> has_bits z (f z)" "unat y < 2 ^ (k + k)" for y msk k f
  proof (cases "y AND msk = 0")
    case True
    then show ?thesis using that unat_below_mask [of y "k + k" k] by simp
  next
    case False
    have "has_bits (drop_bit k y) (f (drop_bit k y))" using that(2) drop [OF that(3)] by blast
    then have "has_bits y (k + f (drop_bit k y))"
      by (rule has_bits_drop [of _ _ _ "mask (k + k)"]) (use False that(1) in \<open>simp add: ac_simps\<close>)
    then show ?thesis using False by simp
  qed
  have 4: "has_bits y (msb4 ! unat y)" if "unat y < 2 ^ 4" for y :: uint32
    using that msb4_table [of y] by (simp add: msb4_def)
  have 8: "has_bits y (msb8 y)" if "unat y < 2 ^ 8" for y :: uint32
    using step [of "0xF0" 4 "\<lambda>y. msb4 ! unat y" y] 4 that masks(1) by (simp add: msb8_def)
  have 16: "has_bits y (msb16 y)" if "unat y < 2 ^ 16" for y :: uint32
    using step [of "0xFF00" 8 msb8 y] 8 that masks(2) by (simp add: msb16_def)
  have "MostSignificantBit x = (if x AND 0xFFFF0000 \<noteq> 0 then 16 + msb16 (drop_bit 16 x) else msb16 x)"
    by (simp add: MostSignificantBit_def msb16_def msb8_def msb4_def Let_def)
  moreover have "unat x < 2 ^ 32" using unsigned_less [of x, where 'a = nat] by simp
  ultimately show ?thesis
    using step [of "0xFFFF0000" 16 msb16 x] 16 masks(3) by simp
qed

primrec bitwise :: "bitwise_op \<Rightarrow> int32 \<Rightarrow> int32 \<Rightarrow> int32" where
  "bitwise BIT_OR x y = x OR y"
| "bitwise BIT_XOR x y = x XOR y"
| "bitwise BIT_AND x y = x AND y"

lemma Includes_default: "Includes (sint x) (set_can_be_minus_zero b (HValue_InferRange v))" for x :: int32
  using sint_bounds [of x] by (auto simp: HValue_InferRange_def range_defs)

lemma and_or_covered:
  fixes x y l m :: int32
  assumes "x AND l = x" "y AND m = y"
  shows "(x AND y) AND (l AND m) = x AND y" "(x OR y) AND (l OR m) = x OR y"
proof -
  have x: "bit x n \<Longrightarrow> bit l n" for n using assms(1) by (metis bit_and_iff)
  have y: "bit y n \<Longrightarrow> bit m n" for n using assms(2) by (metis bit_and_iff)
  show "(x AND y) AND (l AND m) = x AND y" "(x OR y) AND (l OR m) = x OR y"
    by (rule bit_eqI, use x y in \<open>auto simp: bit_simps\<close>)+
qed

text \<open>An operand with a range has the bits of its mask.\<close>

lemma operand_mask:
  assumes "\<And>r. operand = Some r \<Longrightarrow> Includes (sint x) r"
  obtains m where "(case operand of Some r \<Rightarrow> Mask r | None \<Rightarrow> Some 0xFFFFFFFF) = Some m" "x AND m = x"
proof (cases operand)
  case None
  have "x AND 0xFFFFFFFF = x"
  proof -
    have "(0xFFFFFFFF :: int32) = - 1" by simp
    then show ?thesis by (simp only: and.right_neutral)
  qed
  with None that [of "0xFFFFFFFF"] show thesis by simp
next
  case (Some r)
  with Mask_covers [OF assms [OF Some]] that show thesis by auto
qed

lemma magnitude_range:
  assumes "l \<le> x" "x \<le> u" "magnitude l < 2 ^ n" "magnitude u < 2 ^ n"
  shows "- (2 ^ n) \<le> x \<and> x < 2 ^ n"
  using assms by (auto simp: magnitude_def not_int_def split: if_splits)

lemma magnitude_nonneg [simp]: "0 \<le> magnitude x"
  by (simp add: magnitude_def not_int_def)

lemma magnitude_sint: "magnitude (sint x) < 2 ^ 31" for x :: int32
  using sint_bounds [of x] by (simp add: magnitude_def not_int_def)

lemma or_four:
  fixes a b c d :: int
  assumes "0 \<le> a" "0 \<le> b" "0 \<le> c" "0 \<le> d" "a < 2 ^ 31" "b < 2 ^ 31" "c < 2 ^ 31" "d < 2 ^ 31"
  shows "0 \<le> a OR b OR c OR d" "a OR b OR c OR d < 2 ^ 31"
    "a \<le> a OR b OR c OR d" "b \<le> a OR b OR c OR d" "c \<le> a OR b OR c OR d" "d \<le> a OR b OR c OR d"
proof -
  show "0 \<le> a OR b OR c OR d" using assms by simp
  show "a OR b OR c OR d < 2 ^ 31" using assms by (intro OR_upper) auto
  have le: "x \<le> x OR y" "x \<le> y OR x" if "0 \<le> y" for x y :: int
    using or_greater_eq [OF that, of x] by (simp_all add: or.commute)
  show "a \<le> a OR b OR c OR d" "b \<le> a OR b OR c OR d" "c \<le> a OR b OR c OR d" "d \<le> a OR b OR c OR d"
    using assms by (intro le order.trans [OF le(1) le(2)] order.trans [OF le(1) order.trans [OF le(2) le(2)]]
        order.trans [OF le(2) order.trans [OF le(2) le(2)]]; simp)+
qed

lemma signed_take_bit_XOR: "signed_take_bit n (x XOR y) = signed_take_bit n x XOR signed_take_bit n y" for x y :: int
  by (rule bit_eqI) (simp add: bit_simps)

lemma xor_range:
  fixes x y :: int
  assumes "- (2 ^ n) \<le> x \<and> x < 2 ^ n" "- (2 ^ n) \<le> y \<and> y < 2 ^ n"
  shows "- (2 ^ n) \<le> x XOR y \<and> x XOR y < 2 ^ n"
  using assms by (metis signed_take_bit_int_eq_self_iff signed_take_bit_XOR)

lemma xor_range_sound:
  fixes x y :: int32
  assumes l: "Includes (sint x) l" and r: "Includes (sint y) r"
    and res: "HBitwise_InferRange BIT_XOR v (Some l) (Some r) = Some res"
  shows "Includes (sint (x XOR y)) res"
proof -
  let ?or = "magnitude (upper l) OR magnitude (lower l) OR magnitude (upper r) OR magnitude (lower r)"
  define n where "n = MostSignificantBit (word_of_int ?or)"
  note or = or_four [of "magnitude (upper l)" "magnitude (lower l)" "magnitude (upper r)" "magnitude (lower r)",
      OF magnitude_nonneg magnitude_nonneg magnitude_nonneg magnitude_nonneg magnitude_sint magnitude_sint magnitude_sint magnitude_sint]
  have "take_bit 32 ?or = ?or" using or(1, 2) by (intro take_bit_int_eq_self) auto
  then have "uint (word_of_int ?or :: uint32) = ?or" by (simp only: unsigned_of_int) simp
  then have u: "int (unat (word_of_int ?or :: uint32)) = ?or" by (simp only: uint_nat)
  have bits: "has_bits (word_of_int ?or) n" unfolding n_def by (rule MostSignificantBit_bits)
  then have "int (unat (word_of_int ?or :: uint32)) < int (2 ^ n)" unfolding has_bits_def of_nat_less_iff by blast
  then have less: "?or < 2 ^ n" unfolding u by simp
  have "magnitude (upper l) < 2 ^ n" "magnitude (lower l) < 2 ^ n" "magnitude (upper r) < 2 ^ n" "magnitude (lower r) < 2 ^ n"
    by (rule le_less_trans [OF or(3) less] le_less_trans [OF or(4) less] le_less_trans [OF or(5) less] le_less_trans [OF or(6) less])+
  then have xy: "- (2 ^ n) \<le> sint x \<and> sint x < 2 ^ n" "- (2 ^ n) \<le> sint y \<and> sint y < 2 ^ n"
    using l r by (auto simp: Includes_def intro: magnitude_range [THEN conjunct1] magnitude_range [THEN conjunct2])
  have "n \<le> 31"
  proof (cases "(word_of_int ?or :: uint32) = 0")
    case True
    have "MostSignificantBit 0 = 0" by code_simp
    then show ?thesis by (simp add: n_def True)
  next
    case False
    with bits have "int (2 ^ n) \<le> int (2 * unat (word_of_int ?or :: uint32))" unfolding has_bits_def of_nat_le_iff by blast
    then have "2 ^ n \<le> 2 * ?or" using u by simp
    also have "\<dots> < 2 ^ 32" using or(2) by simp
    finally show ?thesis by (simp only: power_strict_increasing_iff)
  qed
  have xor: "sint (x XOR y) = sint x XOR sint y" by (rule signed_xor_eq)
  have "0 \<le> sint (x XOR y)" if "\<not> CanBeNegative l" "\<not> CanBeNegative r"
    using that l r unfolding xor by (auto simp: CanBeNegative_def Includes_def)
  moreover have "- (2 ^ n) \<le> sint (x XOR y)" "sint (x XOR y) < 2 ^ n"
    using xor_range [OF xy] unfolding xor by auto
  moreover have "sint (word_of_int (- (2 ^ n)) :: int32) = - (2 ^ n)" "sint (word_of_int (2 ^ n - 1) :: int32) = 2 ^ n - 1"
  proof -
    have "(0 :: int) < 2 ^ n" "(2 :: int) ^ n \<le> 2 ^ 31" using power_increasing [OF \<open>n \<le> 31\<close>, of "2 :: int"] by simp_all
    then have fits: "is_int32 (- (2 ^ n))" "is_int32 (2 ^ n - 1)" unfolding is_int32_def by linarith+
    show "sint (word_of_int (- (2 ^ n)) :: int32) = - (2 ^ n)" "sint (word_of_int (2 ^ n - 1) :: int32) = 2 ^ n - 1"
      by (rule sint_of_int32 [OF fits(1)], rule sint_of_int32 [OF fits(2)])
  qed
  ultimately show ?thesis
    using res by (auto simp: HBitwise_InferRange_def Let_def n_def [symmetric] Includes_def push_bit_eq_mult)
qed

text \<open>C31 The inference of a bitwise operation returns, and the operation on integers in the ranges of its operands
  gives an integer in the range inferred for it.\<close>
theorem HBitwise_range_sound:
  assumes "\<And>r. left = Some r \<Longrightarrow> Includes (sint x) r" "\<And>r. right = Some r \<Longrightarrow> Includes (sint y) r"
  shows "\<exists>res. HBitwise_InferRange op v left right = Some res \<and> Includes (sint (bitwise op x y)) res"
proof (cases "op = BIT_XOR")
  case True
  show ?thesis
  proof (cases "left = None \<or> right = None")
    case True
    with \<open>op = BIT_XOR\<close> show ?thesis
      by (cases left; cases right) (auto simp: HBitwise_InferRange_def Let_def Includes_default)
  next
    case False
    then obtain l r where "left = Some l" "right = Some r" by auto
    moreover from this True obtain res where "HBitwise_InferRange op v left right = Some res"
      by (auto simp: HBitwise_InferRange_def Let_def)
    ultimately show ?thesis using xor_range_sound assms True by auto
  qed
next
  case False
  obtain l where l: "(case left of Some r \<Rightarrow> Mask r | None \<Rightarrow> Some 0xFFFFFFFF) = Some l" "x AND l = x"
    using operand_mask [of left x] assms(1) by blast
  obtain m where m: "(case right of Some r \<Rightarrow> Mask r | None \<Rightarrow> Some 0xFFFFFFFF) = Some m" "y AND m = y"
    using operand_mask [of right y] assms(2) by blast
  define mask where "mask = (if op = BIT_AND then l AND m else l OR m)"
  have covered: "bitwise op x y AND mask = bitwise op x y"
    using and_or_covered [OF l(2) m(2)] False by (cases op) (simp_all add: mask_def)
  have "HBitwise_InferRange op v left right =
      Some (if 0 \<le> sint mask then new_Range 0 mask else set_can_be_minus_zero False (HValue_InferRange v))"
    using False by (simp add: HBitwise_InferRange_def Let_def l(1) m(1) mask_def)
  moreover have "0 \<le> sint mask \<Longrightarrow> 0 \<le> sint (bitwise op x y) \<and> sint (bitwise op x y) \<le> sint mask"
    using sint_and_le [of mask "bitwise op x y"] by (simp add: covered)
  ultimately show ?thesis
    by (cases "0 \<le> sint mask") (simp_all add: Includes_default, simp add: Includes_def)
qed

lemma HBitwise_range_sound_witness:
  "\<exists>res. HBitwise_InferRange BIT_AND \<lparr>instr_representation = kInteger32, instr_type_is_smi = False,
      instr_changes_new_space_promotion = False, instr_flags = 0\<rparr> None (Some (new_Range 0 5)) = Some res \<and> Includes 4 res"
proof -
  have s: "sint (bitwise BIT_AND (-4) 5) = 4" "sint (5 :: int32) = 5" by code_simp+
  show ?thesis
    using HBitwise_range_sound [of None "-4" "Some (new_Range 0 5)" 5 BIT_AND] unfolding s
    by (simp add: Includes_def)
qed

section \<open>Shifts\<close>

lemma shift_bits_less: "shift_bits c < 32"
proof -
  have "(0x1F :: int32) = mask 5" by code_simp
  then have "c AND 0x1F = take_bit 5 c" by (simp only: take_bit_eq_mask)
  then have "shift_bits c = take_bit 5 (unat c)" by (simp add: shift_bits_def unsigned_take_bit_eq)
  then show ?thesis using take_bit_nat_less_exp [of 5 "unat c"] by simp
qed

lemma Includes_Shl:
  fixes x :: int32
  assumes "Includes (sint x) r" shows "Includes (sint (push_bit (shift_bits c) x)) (Shl c r)"
proof (cases "range_lower r = signed_drop_bit (shift_bits c) (push_bit (shift_bits c) (range_lower r)) \<and>
    range_upper r = signed_drop_bit (shift_bits c) (push_bit (shift_bits c) (range_upper r))")
  case True
  let ?n = "shift_bits c"
  have l: "sint (push_bit ?n (range_lower r)) = lower r * 2 ^ ?n"
    using shift_back [of ?n "range_lower r"] True shift_bits_less [of c] by (simp del: sint_signed_drop_bit)
  have u: "sint (push_bit ?n (range_upper r)) = upper r * 2 ^ ?n"
    using shift_back [of ?n "range_upper r"] True shift_bits_less [of c] by (simp del: sint_signed_drop_bit)
  have between: "lower r * 2 ^ ?n \<le> sint x * 2 ^ ?n" "sint x * 2 ^ ?n \<le> upper r * 2 ^ ?n"
    using assms by (simp_all add: Includes_def)
  have "is_int32 (sint x * 2 ^ ?n)"
    by (rule is_int32_between [OF _ _ between]) (simp_all only: l [symmetric] u [symmetric] is_int32_sint)
  then have "sint (push_bit ?n x) = sint x * 2 ^ ?n"
    by (simp add: signed_push_bit_eq push_bit_eq_mult [of _ "sint x"] is_int32_def signed_take_bit_int_eq_self)
  then show ?thesis
    using True between by (simp add: Shl_def Let_def Includes_def with_bounds_def l u)
next
  case False
  then show ?thesis
    using sint_bounds [of "push_bit (shift_bits c) x"] by (auto simp: Shl_def Let_def range_defs)
qed

lemma Includes_full: "Includes (sint x) full_Range" for x :: int32
  using sint_bounds [of x] by (simp add: range_defs)

lemma Includes_HValue: "Includes (sint x) (HValue_InferRange v)" for x :: int32
  using Includes_default [of x False v] by (simp add: Includes_def)

lemma Includes_Copy [simp]: "Includes i (Copy r) = Includes i r"
  by (simp add: Includes_def)

lemma uint_drop_bit: "uint (drop_bit n x) = uint x div 2 ^ n" for x :: int32
  by (metis drop_bit_eq_div take_bit_length_eq unsigned_drop_bit_eq unsigned_take_bit_eq)

lemma Includes_Shr:
  fixes x :: int32
  assumes "Includes (sint x) l" "uint (drop_bit (shift_bits c) x) < 2 ^ 31"
  shows "Includes (uint (drop_bit (shift_bits c) x)) (HShr_InferRange v l (Some c))"
proof (cases "CanBeNegative l")
  case True
  have "Includes (uint (drop_bit n x)) (new_Range 0 (drop_bit n 0xFFFFFFFF))" if "1 \<le> n" "n < 32" for n
  proof -
    have "(0xFFFFFFFF :: int32) = mask 32" by code_simp
    moreover have "drop_bit n (mask 32 :: int32) = mask (32 - n)"
      by (rule bit_eqI) (auto simp: bit_simps)
    ultimately have "drop_bit n (0xFFFFFFFF :: int32) = mask (32 - n)" by (simp only:)
    then have "sint (drop_bit n (0xFFFFFFFF :: int32)) = 2 ^ (32 - n) - 1"
      using that by (simp add: sint_mask)
    moreover have "uint (drop_bit n x) < 2 ^ (32 - n)"
    proof -
      have "unat x < 2 ^ (32 - n) * 2 ^ n" using unsigned_less [of x, where 'a = nat] that by (simp flip: power_add)
      then have "unat x div 2 ^ n < 2 ^ (32 - n)" by (rule less_mult_imp_div_less)
      then have "int (unat (drop_bit n x)) < int (2 ^ (32 - n))" by (simp only: unat_drop_bit of_nat_less_iff)
      then show ?thesis by (simp only: uint_nat of_nat_power of_nat_numeral)
    qed
    ultimately show ?thesis by (simp add: Includes_def)
  qed
  moreover have "- (2 ^ 31) \<le> uint (drop_bit (shift_bits c) x)" by (rule order.trans [OF _ uint_ge_0]) simp
  ultimately show ?thesis using True assms(2) shift_bits_less [of c]
    by (auto simp: HShr_InferRange_def Includes_def full_Range_def)
next
  case False
  with assms(1) have "0 \<le> sint x" by (auto simp: CanBeNegative_def Includes_def)
  then have "uint x = sint x" using sint_bounds [of x] by (simp add: uint_sint take_bit_int_eq_self)
  then have "uint (drop_bit (shift_bits c) x) = sint x div 2 ^ shift_bits c" by (simp add: uint_drop_bit)
  then show ?thesis using False assms(1) by (simp add: HShr_InferRange_def sar_in_range)
qed

text \<open>C32 Shifts of an integer in the range of the left operand give integers in the range inferred for them. The
  logical right shift is taken as an unsigned integer, if it fits into 31 bits: if it does not, the instruction
  is marked or bails out.\<close>
theorem shift_range_sound:
  fixes x y :: int32
  assumes "\<And>r. left = Some r \<Longrightarrow> Includes (sint x) r" "\<And>c. right = Some c \<Longrightarrow> y = c"
  shows "Includes (sint (signed_drop_bit (shift_bits y) x)) (HSar_InferRange v left right) \<and>
    Includes (sint (push_bit (shift_bits y) x)) (HShl_InferRange v left right) \<and>
    (\<forall>l. left = Some l \<longrightarrow> uint (drop_bit (shift_bits y) x) < 2 ^ 31 \<longrightarrow>
       Includes (uint (drop_bit (shift_bits y) x)) (HShr_InferRange v l right))"
proof (cases right)
  case None
  have "i < 2 ^ 31 \<Longrightarrow> 0 \<le> i \<Longrightarrow> Includes i (HValue_InferRange v)" for i
    using Includes_HValue [of "word_of_int i" v] by (simp add: is_int32_def)
  then show ?thesis by (simp add: None HSar_InferRange_def HShl_InferRange_def HShr_InferRange_def Includes_HValue)
next
  case (Some c)
  then have y: "y = c" using assms(2) by simp
  define r where "r = (case left of Some r \<Rightarrow> Copy r | None \<Rightarrow> full_Range)"
  have "Includes (sint x) r" using assms(1) by (auto simp: r_def Includes_full split: option.splits)
  then have "Includes (sint (signed_drop_bit (shift_bits c) x)) (Sar c r)" "Includes (sint (push_bit (shift_bits c) x)) (Shl c r)"
    by (simp_all add: sint_signed_drop_bit sar_in_range Includes_Shl)
  then show ?thesis
    using Includes_Shr assms(1) by (auto simp: Some y HSar_InferRange_def HShl_InferRange_def r_def)
qed

lemma shift_range_sound_witness:
  "let v = \<lparr>instr_representation = kInteger32, instr_type_is_smi = False, instr_changes_new_space_promotion = False,
             instr_flags = 0\<rparr>
   in HShl_InferRange v (Some (new_Range (-3) 5)) (Some 33) = new_Range (-6) 10 \<and>
      Includes (-4) (HShl_InferRange v (Some (new_Range (-3) 5)) (Some 33))"
proof -
  have "sint (push_bit (shift_bits 33) (-2 :: int32)) = -4" "Includes (sint (-2 :: int32)) (new_Range (-3) 5)" by code_simp+
  moreover have "HShl_InferRange v (Some (new_Range (-3) 5)) (Some 33) = new_Range (-6) 10" for v
    by (simp add: HShl_InferRange_def) code_simp
  ultimately show ?thesis
    using shift_range_sound [of "Some (new_Range (-3) 5)" "-2" "Some 33" 33] unfolding Let_def by (metis option.inject)
qed

section \<open>Divisions and remainders\<close>

text \<open>The bound of a remainder is one below the divisor's magnitude, also for the least integer.\<close>

lemma sint_uminus: "sint b \<noteq> - (2 ^ 31) \<Longrightarrow> sint (- b) = - sint b" for b :: int32
  using sint_bounds [of b] by (simp add: sint_word_minus signed_take_bit_int_eq_self)

lemma sint_AbsMinus1: "sint (AbsMinus1 a) = \<bar>sint a\<bar> - 1"
proof (cases "sint a < 0")
  case True
  then have "sint (a + 1) = sint a + 1" using sint_bounds [of a] by (simp add: sint_word_add signed_take_bit_int_eq_self)
  then have "sint (- (a + 1)) = - (sint a + 1)"
    using sint_uminus [of "a + 1"] sint_bounds [of a] by simp
  then show ?thesis using True by (simp add: AbsMinus1_def)
next
  case False
  then have "sint (a - 1) = sint a - 1" using sint_bounds [of a] by (simp add: sint_word_diff signed_take_bit_int_eq_self)
  then show ?thesis using False by (simp add: AbsMinus1_def)
qed

lemma smod_bounds:
  fixes x y :: int
  assumes "y \<noteq> 0"
  shows "\<bar>x smod y\<bar> \<le> \<bar>y\<bar> - 1" "0 \<le> x \<Longrightarrow> 0 \<le> x smod y" "x \<le> 0 \<Longrightarrow> x smod y \<le> 0"
proof -
  have "\<bar>x\<bar> mod \<bar>y\<bar> < \<bar>y\<bar>" "0 \<le> \<bar>x\<bar> mod \<bar>y\<bar>" using assms by auto
  then show "\<bar>x smod y\<bar> \<le> \<bar>y\<bar> - 1" "0 \<le> x \<Longrightarrow> 0 \<le> x smod y" "x \<le> 0 \<Longrightarrow> x smod y \<le> 0"
    using assms by (auto simp: smod_int_alt_def sgn_if abs_mult)
qed

lemma HMod_describes:
  assumes rep: "instr_representation v = kInteger32" and x: "in_range x a" and y: "Includes y b" "y \<noteq> 0"
  shows "describes v (fst (HMod_InferRange v a b)) (js_mod x y)"
proof -
  let ?bound = "smax (AbsMinus1 (range_lower b)) (AbsMinus1 (range_upper b))"
  let ?m = "number_value x smod y"
  have bound: "\<bar>?m\<bar> \<le> sint ?bound"
    using smod_bounds(1) [OF y(2), of "number_value x"] y(1) by (auto simp: sint_AbsMinus1 Includes_def)
  have neg: "sint (- ?bound) = - sint ?bound"
    by (rule sint_uminus) (auto simp: sint_AbsMinus1)
  have xa: "lower a \<le> number_value x" "number_value x \<le> upper a" using number_value_in_range [OF x] by auto
  have left: "CanBeMinusZero a \<or> CanBeNegative a" if "x = MinusZero \<or> number_value x < 0"
    using that x xa by (cases x) (auto simp: CanBeNegative_def)
  have lo: "\<not> (CanBeMinusZero a \<or> CanBeNegative a) \<Longrightarrow> 0 \<le> ?m"
    using left smod_bounds(2) [OF y(2), of "number_value x"] by linarith
  have up: "\<not> CanBePositive a \<Longrightarrow> ?m \<le> 0"
    using xa smod_bounds(3) [OF y(2), of "number_value x"] by (auto simp: CanBePositive_def)
  have "Includes ?m (new_Range (if CanBeMinusZero a \<or> CanBeNegative a then - ?bound else 0) (if CanBePositive a then ?bound else 0))"
    using bound lo up by (auto simp: Includes_def neg)
  moreover have "number_value (js_mod x y) = ?m" "js_mod x y = MinusZero \<Longrightarrow> x = MinusZero \<or> number_value x < 0"
    by (auto simp: js_mod_def Let_def split: if_splits)
  ultimately show ?thesis
    using rep left by (auto simp: HMod_InferRange_def Let_def describes_set minus_zero_matters_def)
qed

text \<open>C33 The remainder of integers in the ranges of the operands is in the range inferred for it. Where the inference
  clears the flag of a division by zero, of an overflow, or of a sign of the left operand of a division, a
  remainder or a rounded division, the operands cannot be such: the checks may be left out.\<close>
theorem division_checks_dropped:
  assumes "instr_representation v = kInteger32" "in_range x a" "Includes y b"
    "w = snd (HMod_InferRange v a b) \<or> w = snd (HDiv_InferRange v a b) \<or> w = snd (HMathFloorOfDiv_InferRange v a b)"
  shows "(y \<noteq> 0 \<longrightarrow> describes v (fst (HMod_InferRange v a b)) (js_mod x y)) \<and>
    (HValue_CheckFlag kCanBeDivByZero v \<longrightarrow> \<not> HValue_CheckFlag kCanBeDivByZero w \<longrightarrow> y \<noteq> 0) \<and>
    (HValue_CheckFlag kCanOverflow v \<longrightarrow> \<not> HValue_CheckFlag kCanOverflow w \<longrightarrow>
       \<not> (number_value x = - (2 ^ 31) \<and> y = -1)) \<and>
    (HValue_CheckFlag kLeftCanBeMinInt v \<longrightarrow> \<not> HValue_CheckFlag kLeftCanBeMinInt w \<longrightarrow> number_value x \<noteq> - (2 ^ 31)) \<and>
    (HValue_CheckFlag kLeftCanBeNegative v \<longrightarrow> \<not> HValue_CheckFlag kLeftCanBeNegative w \<longrightarrow> 0 \<le> number_value x) \<and>
    (HValue_CheckFlag kLeftCanBePositive v \<longrightarrow> \<not> HValue_CheckFlag kLeftCanBePositive w \<longrightarrow> number_value x \<le> 0)"
proof -
  have "Includes (number_value x) a" by (rule in_range_Includes [OF assms(2)])
  then have "(HValue_CheckFlag kCanBeDivByZero v \<longrightarrow> \<not> HValue_CheckFlag kCanBeDivByZero w \<longrightarrow> y \<noteq> 0) \<and>
    (HValue_CheckFlag kCanOverflow v \<longrightarrow> \<not> HValue_CheckFlag kCanOverflow w \<longrightarrow>
       \<not> (number_value x = - (2 ^ 31) \<and> y = -1)) \<and>
    (HValue_CheckFlag kLeftCanBeMinInt v \<longrightarrow> \<not> HValue_CheckFlag kLeftCanBeMinInt w \<longrightarrow> number_value x \<noteq> - (2 ^ 31)) \<and>
    (HValue_CheckFlag kLeftCanBeNegative v \<longrightarrow> \<not> HValue_CheckFlag kLeftCanBeNegative w \<longrightarrow> 0 \<le> number_value x) \<and>
    (HValue_CheckFlag kLeftCanBePositive v \<longrightarrow> \<not> HValue_CheckFlag kLeftCanBePositive w \<longrightarrow> number_value x \<le> 0)"
    using assms(1, 3, 4)
    by (auto simp: HMod_InferRange_def HDiv_InferRange_def HMathFloorOfDiv_InferRange_def Let_def
        CanBeZero_Includes CanBeNegative_def CanBePositive_def, auto simp: Includes_def)
  then show ?thesis using HMod_describes [OF assms(1-3)] by blast
qed

lemma division_checks_dropped_witness:
  "let v = \<lparr>instr_representation = kInteger32, instr_type_is_smi = False, instr_changes_new_space_promotion = False,
             instr_flags = 0x7F0\<rparr>
   in describes v (fst (HMod_InferRange v (new_Range (-5) 9) (new_Range 2 4))) MinusZero \<and>
      \<not> HValue_CheckFlag kCanBeDivByZero (snd (HMod_InferRange v (new_Range (-5) 9) (new_Range 2 4)))"
proof -
  define v where "v = \<lparr>instr_representation = kInteger32, instr_type_is_smi = False,
    instr_changes_new_space_promotion = False, instr_flags = 0x7F0\<rparr>"
  have "instr_representation v = kInteger32" "in_range (Integer (-4)) (new_Range (-5) 9)" "Includes 2 (new_Range 2 4)"
    "js_mod (Integer (-4)) 2 = MinusZero" "(2 :: int) \<noteq> 0"
    "\<not> HValue_CheckFlag kCanBeDivByZero (snd (HMod_InferRange v (new_Range (-5) 9) (new_Range 2 4)))"
    unfolding v_def by code_simp+
  then show ?thesis
    using division_checks_dropped [of v "Integer (-4)" "new_Range (-5) 9" 2 "new_Range 2 4" "snd (HMod_InferRange v (new_Range (-5) 9) (new_Range 2 4))"]
    unfolding v_def [symmetric] Let_def by metis
qed

section \<open>Selections\<close>

text \<open>Minus zero is below zero for \<^verbatim>\<open>Math.min\<close> and \<^verbatim>\<open>Math.max\<close>.\<close>

definition js_less_eq :: "number \<Rightarrow> number \<Rightarrow> bool" where
  "js_less_eq x y \<longleftrightarrow> number_value x < number_value y \<or> number_value x = number_value y \<and> (x = MinusZero \<or> x = y)"

definition js_max :: "number \<Rightarrow> number \<Rightarrow> number" where "js_max x y = (if js_less_eq x y then y else x)"
definition js_min :: "number \<Rightarrow> number \<Rightarrow> number" where "js_min x y = (if js_less_eq x y then x else y)"

lemma HMathMinMax_in_range:
  assumes "IsSmiOrInteger32 (instr_representation v)" "in_range x a" "in_range y b"
  shows "in_range (js_max x y) (HMathMinMax_InferRange kMathMax v a b)"
    "in_range (js_min x y) (HMathMinMax_InferRange kMathMin v a b)"
  using assms
  by (cases x; cases y; auto simp: HMathMinMax_InferRange_def CombinedMax_def CombinedMin_def js_max_def js_min_def
      js_less_eq_def Let_def range_defs split: if_splits)+

lemma HPhi_in_range:
  assumes "IsSmiOrInteger32 (instr_representation v)" "x \<in> set xs" "list_all2 in_range xs operands"
    "is_loop_header \<Longrightarrow> x \<noteq> MinusZero" "is_loop_header \<Longrightarrow> is_int32 (number_value x)"
  shows "in_range x (HPhi_InferRange v is_loop_header operands)"
proof (cases is_loop_header)
  case True
  with assms show ?thesis by (cases x) (auto simp: HPhi_InferRange_def range_defs is_int32_def)
next
  case False
  have grows: "in_range x r \<Longrightarrow> in_range x (foldl Range_Union r rs)" for r rs
    by (induction rs arbitrary: r) (simp_all add: in_range_Union)
  have "list_all2 in_range ys rs \<Longrightarrow> x \<in> set ys \<Longrightarrow> in_range x (foldl Range_Union r rs)" for r ys rs
    by (induction ys rs arbitrary: r rule: list_all2_induct) (auto intro: grows in_range_Union)
  moreover obtain z zs r rs where "xs = z # zs" "operands = r # rs" "in_range z r" "list_all2 in_range zs rs"
    using assms(2, 3) by (cases xs; cases operands) auto
  ultimately show ?thesis
    using False assms(1, 2) grows [of "Copy r" rs] by (auto simp: HPhi_InferRange_def)
qed

lemma sint_abs_int32: "sint (abs_int32 x) = (if sint x = - (2 ^ 31) then 2 ^ 31 - 1 else \<bar>sint x\<bar>)"
proof (cases "x = kMinInt")
  case False
  then have "sint x \<noteq> - (2 ^ 31)" using sint_eqI [of x kMinInt] by auto
  with False show ?thesis using sint_uminus [of x] by (simp add: abs_int32_def)
qed (simp add: abs_int32_def)

lemma HMathAbs_Includes:
  assumes "Includes i r" "IsSmiOrInteger32 (instr_representation v)" "\<bar>i\<bar> < 2 ^ 31"
  shows "Includes \<bar>i\<bar> (HUnaryMathOperation_InferRange MathAbs v (Some r))"
  using assms by (auto simp: HUnaryMathOperation_InferRange_def Let_def Includes_def CanBeZero_def sint_abs_int32)

lemma HLoadNamedField_Includes:
  assumes "representation = kInteger8 \<and> - 128 \<le> i \<and> i < 128 \<or> representation = kUInteger8 \<and> 0 \<le> i \<and> i < 256 \<or>
    representation = kInteger16 \<and> - (2 ^ 15) \<le> i \<and> i < 2 ^ 15 \<or> representation = kUInteger16 \<and> 0 \<le> i \<and> i < 2 ^ 16"
  shows "Includes i (HLoadNamedField_InferRange v representation portion)"
proof -
  have "sint (-128 :: int32) = -128" "sint (127 :: int32) = 127" "sint (255 :: int32) = 255" "sint (-32768 :: int32) = -32768"
    "sint (32767 :: int32) = 32767" "sint (65535 :: int32) = 65535"
    by code_simp+
  with assms show ?thesis by (auto simp: HLoadNamedField_InferRange_def Includes_def)
qed

section \<open>Bounds checks\<close>

text \<open>C34 An index that a bounds check lets through is in the range inferred for the check.\<close>
theorem bounds_check_range_sound:
  assumes "\<And>r. index = Some r \<Longrightarrow> Includes i r" "\<And>r. array_length = Some r \<Longrightarrow> Includes n r"
    "0 \<le> i" "i < n \<or> allow_equality \<and> i = n" "is_int32 n"
  shows "Includes i (HBoundsCheck_InferRange v allow_equality index array_length)"
proof (cases "array_length = None \<or> \<not> IsSmiOrInteger32 (instr_representation v)")
  case True
  have "is_int32 i" using assms(3-5) by (auto simp: is_int32_def)
  then have "Includes i (HValue_InferRange v)" using Includes_HValue [of "word_of_int i" v] by simp
  with True show ?thesis by (cases array_length) (auto simp: HBoundsCheck_InferRange_def)
next
  case False
  then obtain l where l: "array_length = Some l" by auto
  let ?e = "if allow_equality then 0 else 1 :: int32"
  have "sint (range_upper l - ?e) = upper l - (if allow_equality then 0 else 1)"
    using assms(2) [OF l] assms(3, 4) sint_bounds [of "range_upper l"]
    by (auto simp: Includes_def sint_word_diff signed_take_bit_int_eq_self)
  then have "Includes i (new_Range 0 (range_upper l - ?e))"
    using assms(2) [OF l] assms(3, 4) by (auto simp: Includes_def)
  then show ?thesis
    using False l assms(1) in_range_Intersect [of "Integer i"]
    by (auto simp: HBoundsCheck_InferRange_def Let_def split: option.splits)
qed

lemma bounds_check_range_sound_witness:
  "Includes 3 (HBoundsCheck_InferRange \<lparr>instr_representation = kInteger32, instr_type_is_smi = False,
     instr_changes_new_space_promotion = False, instr_flags = 0\<rparr> False (Some (new_Range (-5) 9)) (Some (new_Range 4 8)))"
proof -
  have "Includes 3 (new_Range (-5) 9)" "Includes 4 (new_Range 4 8)" by code_simp+
  then show ?thesis by (intro bounds_check_range_sound [of _ _ _ 4]) (auto simp: is_int32_def)
qed

section \<open>Changes of representation\<close>

text \<open>An operand that is an unsigned integer has the greatest bound for an integer above it.\<close>

definition uint32_in_range :: "int \<Rightarrow> Range \<Rightarrow> bool" where
  "uint32_in_range i r \<longleftrightarrow> lower r \<le> i \<and> (i \<le> upper r \<or> range_upper r = kMaxInt)"

lemma CheckFlag_type [simp]:
  "HValue_CheckFlag f (v\<lparr>instr_type_is_smi := b, instr_changes_new_space_promotion := c\<rparr>) = HValue_CheckFlag f v"
  by (simp add: HValue_CheckFlag_def)

lemma HChange_in_range:
  assumes "in_range x r"
  shows "describes v (fst (HChange_InferRange v from is_uint32 (Some r))) x"
  using in_range_Includes [OF assms] by (auto simp: HChange_InferRange_def Let_def describes_set minus_zero_matters_def)

lemma HChange_no_overflow:
  assumes "if is_uint32 then uint32_in_range i r else Includes i r"
    "HValue_CheckFlag kCanOverflow v" "\<not> HValue_CheckFlag kCanOverflow (snd (HChange_InferRange v from is_uint32 (Some r)))"
  shows "is_int32 i"
  using assms sint_bounds [of "range_lower r"] sint_bounds [of "range_upper r"]
  by (auto simp: HChange_InferRange_def Let_def HValue_CheckFlag_def uint32_in_range_def Includes_def is_int32_def clear_if_def
      split: if_splits)

section \<open>The stack\<close>

text \<open>What is added can be taken back, and adding what is known of a number keeps the number in the range.\<close>

lemma RemoveLastAddedRange_AddNewRange: "RemoveLastAddedRange (AddNewRange infer r (Some old)) = Some old"
  by (simp add: RemoveLastAddedRange_def AddNewRange_def StackUpon_def split: Range.splits)

lemma AddNewRange_in_range:
  "in_range x r \<Longrightarrow> in_range x (case old of Some o' \<Rightarrow> o' | None \<Rightarrow> infer) \<Longrightarrow>
    \<exists>new. AddNewRange infer r old = Some new \<and> in_range x new"
  by (simp add: AddNewRange_def in_range_StackUpon)

end
