(* ===== verification/RangeAnalysis.thy ===== *)
theory RangeAnalysis
  imports RangeInference
begin

text \<open>
  The phase of the optimizer that infers the ranges of a whole graph
  (\<^verbatim>\<open>src/hydrogen-range-analysis.{h,cc}\<close>). It walks over the dominator tree with an explicit stack, refines the
  ranges of the operands of a comparison in the block it branches to, takes the refinements back when it leaves
  the blocks they hold in, and marks the instructions that must check for minus zero. The theorems say that the
  walk is the recursive one, that refinements are sound for integers and are taken back, and exactly which
  instructions are marked.
\<close>

unbundle bit_operations_syntax

section \<open>The graph\<close>

datatype CompareOp = EQ | NE | EQ_STRICT | NE_STRICT | LT | GT | LTE | GTE

primrec NegateCompareOp :: "CompareOp \<Rightarrow> CompareOp" where
  "NegateCompareOp EQ = NE"
| "NegateCompareOp NE = EQ"
| "NegateCompareOp EQ_STRICT = NE_STRICT"
| "NegateCompareOp NE_STRICT = EQ_STRICT"
| "NegateCompareOp LT = GTE"
| "NegateCompareOp GT = LTE"
| "NegateCompareOp LTE = GT"
| "NegateCompareOp GTE = LT"

primrec ReverseCompareOp :: "CompareOp \<Rightarrow> CompareOp" where
  "ReverseCompareOp EQ = EQ"
| "ReverseCompareOp NE = NE"
| "ReverseCompareOp EQ_STRICT = EQ_STRICT"
| "ReverseCompareOp NE_STRICT = NE_STRICT"
| "ReverseCompareOp LT = GT"
| "ReverseCompareOp GT = LT"
| "ReverseCompareOp LTE = GTE"
| "ReverseCompareOp GTE = LTE"

text \<open>The classes of values that the phase tells apart, with their operands, which are the ids of values. The
  first argument of a phi says whether its block is a loop header; the last two of a comparison are its
  successors.\<close>

datatype value_class =
    HConstant "int32 option"
  | HPhi bool "nat list"
  | HAdd nat nat | HSub nat nat | HMul nat nat | HDiv nat nat | HMathFloorOfDiv nat nat | HMod nat nat
  | HMathMinMax math_min_max nat nat
  | HBitwise bitwise_op nat nat
  | HSar nat nat | HShr nat nat | HShl nat nat
  | HLoadNamedField Representation Portion
  | HLoadKeyed ElementsKind
  | HBoundsCheck bool nat nat
  | HUnaryMathOperation math_op nat
  | HChange nat
  | HForceRepresentation nat
  | HCompareNumericAndBranch CompareOp nat nat nat nat
  | HCompareMinusZeroAndBranch nat
  | HOtherValue

record hvalue =
  hclass :: value_class
  hinstruction :: range_instruction

record hblock =
  hpredecessors :: "nat list"
  hphis :: "nat list"
  hinstructions :: "nat list"
  hdominated_blocks :: "nat list"

text \<open>The values are changed by their flags; \<open>hranges\<close> are their members \<^verbatim>\<open>range_\<close>.\<close>

record range_state =
  hvalues :: "nat \<Rightarrow> hvalue"
  hranges :: "nat \<Rightarrow> Range option"
  changed_ranges :: "nat list"

definition representation_of :: "nat \<Rightarrow> range_state \<Rightarrow> Representation" where
  "representation_of v s = instr_representation (hinstruction (hvalues s v))"

definition set_instruction :: "nat \<Rightarrow> range_instruction \<Rightarrow> range_state \<Rightarrow> range_state" where
  "set_instruction v i s = s\<lparr>hvalues := (hvalues s)(v := (hvalues s v)\<lparr>hinstruction := i\<rparr>)\<rparr>"

definition set_range :: "nat \<Rightarrow> Range option \<Rightarrow> range_state \<Rightarrow> range_state" where
  "set_range v r s = s\<lparr>hranges := (hranges s)(v := r)\<rparr>"

section \<open>The range of a value\<close>

text \<open>The virtual member \<^verbatim>\<open>InferRange\<close>. \<open>None\<close> stands for reading the range of an operand that has none.\<close>

definition integer_constant :: "nat \<Rightarrow> range_state \<Rightarrow> int32 option" where
  "integer_constant v s = (case hclass (hvalues s v) of HConstant c \<Rightarrow> c | _ \<Rightarrow> None)"

definition binary_range ::
  "(Representation \<Rightarrow> bool) \<Rightarrow> (range_instruction \<Rightarrow> Range \<Rightarrow> Range \<Rightarrow> Range \<times> range_instruction) \<Rightarrow>
   nat \<Rightarrow> nat \<Rightarrow> range_instruction \<Rightarrow> range_state \<Rightarrow> (Range \<times> range_instruction) option" where
  "binary_range reads_operands infer left right i s =
     (if reads_operands (instr_representation i)
      then do {a \<leftarrow> hranges s left; b \<leftarrow> hranges s right; Some (infer i a b)}
      else Some (HValue_InferRange i, i))"

definition IsInteger32 :: "Representation \<Rightarrow> bool" where "IsInteger32 r \<longleftrightarrow> r = kInteger32"

primrec InferRange_of :: "value_class \<Rightarrow> range_instruction \<Rightarrow> range_state \<Rightarrow> (Range \<times> range_instruction) option" where
  "InferRange_of (HConstant c) i s = Some (HConstant_InferRange i c, i)"
| "InferRange_of (HPhi is_loop_header operands) i s =
     (if IsSmiOrInteger32 (instr_representation i) \<and> \<not> is_loop_header
      then case those (map (hranges s) operands) of
             Some (r # rs) \<Rightarrow> Some (HPhi_InferRange i is_loop_header (r # rs), i)
           | _ \<Rightarrow> None
      else Some (HPhi_InferRange i is_loop_header [], i))"
| "InferRange_of (HAdd l r) i s = binary_range IsSmiOrInteger32 HAdd_InferRange l r i s"
| "InferRange_of (HSub l r) i s = binary_range IsSmiOrInteger32 HSub_InferRange l r i s"
| "InferRange_of (HMul l r) i s =
     binary_range IsSmiOrInteger32 (\<lambda>i. HMul_InferRange i (integer_constant l s) (integer_constant r s)) l r i s"
| "InferRange_of (HDiv l r) i s = binary_range IsInteger32 HDiv_InferRange l r i s"
| "InferRange_of (HMathFloorOfDiv l r) i s = binary_range IsInteger32 HMathFloorOfDiv_InferRange l r i s"
| "InferRange_of (HMod l r) i s = binary_range IsInteger32 HMod_InferRange l r i s"
| "InferRange_of (HMathMinMax operation l r) i s =
     binary_range IsSmiOrInteger32 (\<lambda>i a b. (HMathMinMax_InferRange operation i a b, i)) l r i s"
| "InferRange_of (HBitwise op l r) i s = map_option (\<lambda>range. (range, i)) (HBitwise_InferRange op i (hranges s l) (hranges s r))"
| "InferRange_of (HSar l r) i s = Some (HSar_InferRange i (hranges s l) (integer_constant r s), i)"
| "InferRange_of (HShl l r) i s = Some (HShl_InferRange i (hranges s l) (integer_constant r s), i)"
| "InferRange_of (HShr l r) i s =
     (case integer_constant r s of
        Some c \<Rightarrow> map_option (\<lambda>a. (HShr_InferRange i a (Some c), i)) (hranges s l)
      | None \<Rightarrow> Some (HValue_InferRange i, i))"
| "InferRange_of (HLoadNamedField representation portion) i s = Some (HLoadNamedField_InferRange i representation portion, i)"
| "InferRange_of (HLoadKeyed kind) i s = Some (HLoadKeyed_InferRange i kind, i)"
| "InferRange_of (HBoundsCheck allow_equality index array_length) i s =
     Some (HBoundsCheck_InferRange i allow_equality (hranges s index) (hranges s array_length), i)"
| "InferRange_of (HUnaryMathOperation op v) i s = Some (HUnaryMathOperation_InferRange op i (hranges s v), i)"
| "InferRange_of (HChange v) i s =
     Some (HChange_InferRange i (representation_of v s) (HValue_CheckFlag kUint32 (hinstruction (hvalues s v))) (hranges s v))"
| "InferRange_of (HForceRepresentation v) i s = Some (HValue_InferRange i, i)"
| "InferRange_of (HCompareNumericAndBranch op l r b1 b2) i s = Some (HValue_InferRange i, i)"
| "InferRange_of (HCompareMinusZeroAndBranch v) i s = Some (HValue_InferRange i, i)"
| "InferRange_of HOtherValue i s = Some (HValue_InferRange i, i)"

definition ComputeInitialRange :: "nat \<Rightarrow> range_state \<Rightarrow> range_state option" where
  "ComputeInitialRange v s = do {
     (range, i) \<leftarrow> InferRange_of (hclass (hvalues s v)) (hinstruction (hvalues s v)) s;
     Some (set_range v (Some range) (set_instruction v i s))
   }"

definition InferRange :: "nat \<Rightarrow> range_state \<Rightarrow> range_state option" where
  "InferRange v s = (if representation_of v s = kNone then Some s else ComputeInitialRange v s)"

section \<open>Refinements\<close>

definition AddRange :: "nat \<Rightarrow> Range \<Rightarrow> range_state \<Rightarrow> range_state option" where
  "AddRange v r s = do {
     s \<leftarrow> (case hranges s v of None \<Rightarrow> ComputeInitialRange v s | Some _ \<Rightarrow> Some s);
     old \<leftarrow> hranges s v;
     let s = set_range v (AddNewRange old r (Some old)) s;
     Some (s\<lparr>changed_ranges := changed_ranges s @ [v]\<rparr>)
   }"

text \<open>The last change comes last. A value whose range was changed has one.\<close>

definition RemoveRange :: "nat \<Rightarrow> range_state \<Rightarrow> range_state option" where
  "RemoveRange v s = (case hranges s v of None \<Rightarrow> None | Some r \<Rightarrow> Some (set_range v (RemoveLastAddedRange (Some r)) s))"

primrec RemoveRanges :: "nat list \<Rightarrow> range_state \<Rightarrow> range_state option" where
  "RemoveRanges [] s = Some s"
| "RemoveRanges (v # vs) s = do {s \<leftarrow> RemoveRange v s; RemoveRanges vs s}"

definition RollBackTo :: "nat \<Rightarrow> range_state \<Rightarrow> range_state option" where
  "RollBackTo index s = do {
     s \<leftarrow> RemoveRanges (drop index (changed_ranges s)) s;
     Some (s\<lparr>changed_ranges := take index (changed_ranges s)\<rparr>)
   }"

definition IsMostGeneric :: "Range \<Rightarrow> bool" where
  "IsMostGeneric r \<longleftrightarrow> range_lower r = kMinInt \<and> range_upper r = kMaxInt \<and> CanBeMinusZero r"

definition control_flow_range :: "CompareOp \<Rightarrow> Range \<Rightarrow> Range option" where
  "control_flow_range op r =
     (if op = EQ \<or> op = EQ_STRICT then Some (Copy r)
      else if op = LT \<or> op = LTE
      then Some (if op = LT then AddConstant (-1) (CopyClearLower r) else CopyClearLower r)
      else if op = GT \<or> op = GTE
      then Some (if op = GT then AddConstant 1 (CopyClearUpper r) else CopyClearUpper r)
      else None)"

definition UpdateControlFlowRange :: "CompareOp \<Rightarrow> nat \<Rightarrow> nat \<Rightarrow> range_state \<Rightarrow> range_state option" where
  "UpdateControlFlowRange op v other s =
     (let range = (case hranges s other of Some r \<Rightarrow> r | None \<Rightarrow> full_Range)
      in case control_flow_range op range of
           Some new_range \<Rightarrow> if IsMostGeneric new_range then Some s else AddRange v new_range s
         | None \<Rightarrow> Some s)"

definition InferControlFlowRange :: "nat \<Rightarrow> nat \<Rightarrow> range_state \<Rightarrow> range_state option" where
  "InferControlFlowRange test dest s =
     (case hclass (hvalues s test) of
        HCompareNumericAndBranch op left right first_successor second_successor \<Rightarrow>
          if IsSmiOrInteger32 (representation_of test s)
          then do {
            let op = (if second_successor = dest then NegateCompareOp op else op);
            s \<leftarrow> UpdateControlFlowRange op left right s;
            UpdateControlFlowRange (ReverseCompareOp op) right left s
          }
          else Some s
      | _ \<Rightarrow> Some s)"

section \<open>Checks for minus zero\<close>

abbreviation kTruncatingToInt32 :: nat where "kTruncatingToInt32 \<equiv> 12"

definition may_be_minus_zero :: "Range option \<Rightarrow> bool" where
  "may_be_minus_zero r \<longleftrightarrow> (case r of Some r \<Rightarrow> CanBeMinusZero r | None \<Rightarrow> True)"

text \<open>Operand 0 of \<^verbatim>\<open>HUnaryMathOperation\<close> is the context, which is tagged.\<close>

definition RequiredInputRepresentation_0 :: Representation where "RequiredInputRepresentation_0 = kTagged"

text \<open>Whether a value that the propagation comes to is marked, and the operands it goes on to.\<close>

definition wants_minus_zero_check :: "nat \<Rightarrow> range_state \<Rightarrow> bool" where
  "wants_minus_zero_check v s =
     (case hclass (hvalues s v) of
        HUnaryMathOperation _ a \<Rightarrow>
          IsSmiOrInteger32 (representation_of v s) \<and> representation_of a s \<noteq> representation_of v s \<and>
          may_be_minus_zero (hranges s a)
      | HChange a \<Rightarrow>
          \<not> IsSmiOrInteger32 (representation_of a s) \<and>
          \<not> HValue_CheckFlag kTruncatingToInt32 (hinstruction (hvalues s v)) \<and> may_be_minus_zero (hranges s a)
      | HMod _ _ \<Rightarrow> may_be_minus_zero (hranges s v)
      | HDiv _ _ \<Rightarrow> may_be_minus_zero (hranges s v)
      | HMul _ _ \<Rightarrow> may_be_minus_zero (hranges s v)
      | HMathFloorOfDiv _ _ \<Rightarrow> True
      | _ \<Rightarrow> False)"

definition minus_zero_operands :: "nat \<Rightarrow> range_state \<Rightarrow> nat list" where
  "minus_zero_operands v s =
     (case hclass (hvalues s v) of
        HPhi _ operands \<Rightarrow> operands
      | HUnaryMathOperation _ a \<Rightarrow>
          if IsSmiOrInteger32 RequiredInputRepresentation_0 \<and> representation_of v s = RequiredInputRepresentation_0
          then [a] else []
      | HForceRepresentation a \<Rightarrow> [a]
      | HMod l r \<Rightarrow> if may_be_minus_zero (hranges s v) then [l] else []
      | HDiv l r \<Rightarrow> [r, l]
      | HMul l r \<Rightarrow> [r, l]
      | HAdd l r \<Rightarrow> if may_be_minus_zero (hranges s v) then [l] else []
      | HSub l r \<Rightarrow> if may_be_minus_zero (hranges s v) then [l] else []
      | HMathMinMax _ l r \<Rightarrow> [r, l]
      | _ \<Rightarrow> [])"

definition mark_minus_zero :: "nat \<Rightarrow> range_state \<Rightarrow> range_state" where
  "mark_minus_zero v s =
     (if wants_minus_zero_check v s
      then set_instruction v (HValue_SetFlag kBailoutOnMinusZero (hinstruction (hvalues s v))) s else s)"

text \<open>The work list is a stack, whose top comes first here.\<close>

definition AddToWorklist :: "nat \<Rightarrow> nat set \<times> nat list \<Rightarrow> nat set \<times> nat list" where
  "AddToWorklist v w = (case w of (in_worklist, worklist) \<Rightarrow>
     if v \<in> in_worklist then w else (insert v in_worklist, v # worklist))"

partial_function (option) propagate_loop :: "nat set \<times> nat list \<Rightarrow> range_state \<Rightarrow> range_state option" where
  "propagate_loop w s =
     (case snd w of
        [] \<Rightarrow> Some s
      | v # worklist \<Rightarrow>
          propagate_loop (fold AddToWorklist (minus_zero_operands v s) (fst w, worklist)) (mark_minus_zero v s))"

definition PropagateMinusZeroChecks :: "nat \<Rightarrow> range_state \<Rightarrow> range_state option" where
  "PropagateMinusZeroChecks v s = propagate_loop (AddToWorklist v ({}, [])) s"

section \<open>The walk\<close>

definition analyze_instruction :: "nat \<Rightarrow> range_state \<Rightarrow> range_state option" where
  "analyze_instruction v s = do {
     s \<leftarrow> InferRange v s;
     case hclass (hvalues s v) of
       HChange a \<Rightarrow> if IsSmiOrInteger32 (representation_of a s) then PropagateMinusZeroChecks a s else Some s
     | HCompareMinusZeroAndBranch a \<Rightarrow>
         if IsSmiOrInteger32 (representation_of a s) then PropagateMinusZeroChecks a s else Some s
     | _ \<Rightarrow> Some s
   }"

primrec analyze_all :: "(nat \<Rightarrow> range_state \<Rightarrow> range_state option) \<Rightarrow> nat list \<Rightarrow> range_state \<Rightarrow> range_state option" where
  "analyze_all f [] s = Some s"
| "analyze_all f (v # vs) s = do {s \<leftarrow> f v s; analyze_all f vs s}"

definition analyze_block :: "(nat \<Rightarrow> hblock) \<Rightarrow> nat \<Rightarrow> range_state \<Rightarrow> range_state option" where
  "analyze_block g b s = do {
     s \<leftarrow> (case hpredecessors (g b) of
             [pred] \<Rightarrow> InferControlFlowRange (last (hinstructions (g pred))) b s
           | _ \<Rightarrow> Some s);
     s \<leftarrow> analyze_all InferRange (hphis (g b)) s;
     analyze_all analyze_instruction (hinstructions (g b)) s
   }"

text \<open>The stack of pending blocks, with the number of changes to keep, has its top first here.\<close>

partial_function (option) Run_loop ::
  "(nat \<Rightarrow> hblock) \<Rightarrow> nat option \<Rightarrow> (nat \<times> nat) list \<Rightarrow> range_state \<Rightarrow> range_state option" where
  "Run_loop g block stack s =
     (case block of
        None \<Rightarrow> Some s
      | Some b \<Rightarrow> Option.bind (analyze_block g b s) (\<lambda>s.
          case hdominated_blocks (g b) of
            d # ds \<Rightarrow> Run_loop g (Some d) (map (\<lambda>d. (d, length (changed_ranges s))) ds @ stack) s
          | [] \<Rightarrow>
              (case stack of
                 (b', last_changed_range) # stack \<Rightarrow>
                   Option.bind (RollBackTo last_changed_range s) (\<lambda>s. Run_loop g (Some b') stack s)
               | [] \<Rightarrow> Some s)))"

definition Run :: "(nat \<Rightarrow> hblock) \<Rightarrow> nat \<Rightarrow> range_state \<Rightarrow> range_state option" where
  "Run g entry_block s = Run_loop g (Some entry_block) [] s"

section \<open>Refinements are sound for integers\<close>

primrec compare_holds :: "CompareOp \<Rightarrow> int \<Rightarrow> int \<Rightarrow> bool" where
  "compare_holds EQ i j \<longleftrightarrow> i = j"
| "compare_holds NE i j \<longleftrightarrow> i \<noteq> j"
| "compare_holds EQ_STRICT i j \<longleftrightarrow> i = j"
| "compare_holds NE_STRICT i j \<longleftrightarrow> i \<noteq> j"
| "compare_holds LT i j \<longleftrightarrow> i < j"
| "compare_holds GT i j \<longleftrightarrow> j < i"
| "compare_holds LTE i j \<longleftrightarrow> i \<le> j"
| "compare_holds GTE i j \<longleftrightarrow> j \<le> i"

lemma compare_negated: "compare_holds (NegateCompareOp op) i j \<longleftrightarrow> \<not> compare_holds op i j"
  by (cases op) auto

lemma compare_reversed: "compare_holds (ReverseCompareOp op) i j \<longleftrightarrow> compare_holds op j i"
  by (cases op) auto

lemma AddConstant_bounds: "lower (AddConstant c r) = clip (lower r + sint c)" "upper (AddConstant c r) = clip (upper r + sint c)"
  by (simp_all add: AddConstant_def AddWithoutOverflow_def with_bounds_def)

text \<open>What is known of a value that is compared with a number in \<open>r\<close>.\<close>

lemma control_flow_range_Includes:
  assumes "control_flow_range op r = Some new" "compare_holds op i j" "Includes j r" "is_int32 i"
  shows "Includes i new"
  using assms sint_bounds [of "range_lower r"] sint_bounds [of "range_upper r"]
  by (cases op) (auto simp: control_flow_range_def Includes_def CopyClearLower_def CopyClearUpper_def AddConstant_bounds
      is_int32_def clip_def)

definition ranges_hold :: "(nat \<Rightarrow> number) \<Rightarrow> range_state \<Rightarrow> bool" where
  "ranges_hold env s \<longleftrightarrow> (\<forall>v r. hranges s v = Some r \<longrightarrow> in_range (env v) r)"

lemma set_range_parts [simp]:
  "hranges (set_range v r s) = (hranges s)(v := r)" "hvalues (set_range v r s) = hvalues s"
  "changed_ranges (set_range v r s) = changed_ranges s"
  by (simp_all add: set_range_def)

lemma AddRange_known:
  assumes "hranges s v = Some old"
  shows "AddRange v r s = Some (set_range v (Some (StackUpon r old)) s\<lparr>changed_ranges := changed_ranges s @ [v]\<rparr>)"
  using assms by (simp add: AddRange_def AddNewRange_def Let_def)

lemma UpdateControlFlowRange_sound:
  assumes hold: "ranges_hold env s" and v: "env v = Integer i" "hranges s v \<noteq> None" and other: "env other = Integer j" "is_int32 j"
    and "compare_holds op i j"
  shows "\<exists>s'. UpdateControlFlowRange op v other s = Some s' \<and> ranges_hold env s' \<and> hvalues s' = hvalues s \<and>
    (\<forall>w. hranges s w \<noteq> None \<longrightarrow> hranges s' w \<noteq> None)"
proof -
  define r where "r = (case hranges s other of Some r \<Rightarrow> r | None \<Rightarrow> full_Range)"
  from v(2) obtain old where old: "hranges s v = Some old" by auto
  have "Includes j r"
  proof (cases "hranges s other")
    case None
    then show ?thesis using in_range_full [OF other(2)] by (simp add: r_def)
  next
    case (Some r')
    with hold have "in_range (env other) r'" by (simp add: ranges_hold_def)
    with Some other(1) show ?thesis by (simp add: r_def)
  qed
  moreover have "in_range (Integer i) old" using hold old v(1) unfolding ranges_hold_def by metis
  then have "is_int32 i" by (auto simp: Includes_def intro: is_int32_between [OF is_int32_sint is_int32_sint])
  ultimately have new: "control_flow_range op r = Some new \<Longrightarrow> in_range (Integer i) (StackUpon new old)" for new
    using control_flow_range_Includes [of op r new i j] assms(6) \<open>in_range (Integer i) old\<close>
      in_range_StackUpon [of "Integer i" new old] by simp
  show ?thesis
    using hold v(1) new
    by (cases "control_flow_range op r")
      (auto simp: UpdateControlFlowRange_def r_def [symmetric] AddRange_known [OF old] ranges_hold_def)
qed

text \<open>C36 In the block that a comparison of integers branches to, every value of the function is still in the range it has
  after the ranges of the compared values were refined.\<close>
theorem control_flow_range_sound:
  assumes "hclass (hvalues s test) = HCompareNumericAndBranch op left right b1 b2" "b1 \<noteq> b2"
    "ranges_hold env s" "hranges s left \<noteq> None" "hranges s right \<noteq> None"
    "env left = Integer i" "env right = Integer j" "dest = (if compare_holds op i j then b1 else b2)"
  shows "\<exists>s'. InferControlFlowRange test dest s = Some s' \<and> ranges_hold env s'"
proof -
  define taken where "taken = (if b2 = dest then NegateCompareOp op else op)"
  have "compare_holds taken i j" using assms(2, 8) by (simp add: taken_def compare_negated split: if_splits)
  have int32: "is_int32 k" if "env v = Integer k" "hranges s v \<noteq> None" for v k
    using assms(3) that by (auto simp: ranges_hold_def Includes_def intro: is_int32_between [OF is_int32_sint is_int32_sint] dest!: spec [of _ v])
  obtain s1 where s1: "UpdateControlFlowRange taken left right s = Some s1" "ranges_hold env s1" "hranges s1 right \<noteq> None"
    using UpdateControlFlowRange_sound [OF assms(3, 6, 4, 7) int32 [OF assms(7, 5)] \<open>compare_holds taken i j\<close>] assms(5) by blast
  obtain s2 where "UpdateControlFlowRange (ReverseCompareOp taken) right left s1 = Some s2" "ranges_hold env s2"
    using UpdateControlFlowRange_sound [OF s1(2) assms(7) s1(3) assms(6) int32 [OF assms(6, 4)], of "ReverseCompareOp taken"]
      \<open>compare_holds taken i j\<close> by (auto simp: compare_reversed)
  then show ?thesis
    using assms(1, 3) s1(1) by (simp add: InferControlFlowRange_def taken_def [symmetric] Let_def)
qed

section \<open>The walk is the recursive one\<close>

datatype dominator_tree = Dominator (root: nat) (dominated: "dominator_tree list")

fun is_dominator_tree :: "(nat \<Rightarrow> hblock) \<Rightarrow> dominator_tree \<Rightarrow> bool" where
  "is_dominator_tree g (Dominator b ts) \<longleftrightarrow>
     hdominated_blocks (g b) = map root ts \<and> (\<forall>t \<in> set ts. is_dominator_tree g t)"

fun visit :: "(nat \<Rightarrow> hblock) \<Rightarrow> dominator_tree \<Rightarrow> range_state \<Rightarrow> range_state option"
  and visit_all :: "(nat \<Rightarrow> hblock) \<Rightarrow> nat \<Rightarrow> dominator_tree list \<Rightarrow> range_state \<Rightarrow> range_state option" where
  "visit g (Dominator b ts) s = Option.bind (analyze_block g b s) (\<lambda>s. visit_all g (length (changed_ranges s)) ts s)"
| "visit_all g n [] s = Some s"
| "visit_all g n (t # ts) s = Option.bind (RollBackTo n s) (\<lambda>s. Option.bind (visit g t s) (visit_all g n ts))"

fun visit_pending :: "(nat \<Rightarrow> hblock) \<Rightarrow> (dominator_tree \<times> nat) list \<Rightarrow> range_state \<Rightarrow> range_state option" where
  "visit_pending g [] s = Some s"
| "visit_pending g ((t, n) # ts) s = Option.bind (RollBackTo n s) (\<lambda>s. Option.bind (visit g t s) (visit_pending g ts))"

fun tree_size :: "dominator_tree \<Rightarrow> nat" where
  "tree_size (Dominator b ts) = Suc (sum_list (map tree_size ts))"

lemma RollBackTo_here [simp]: "RollBackTo (length (changed_ranges s)) s = Some s"
  by (simp add: RollBackTo_def)

lemma visit_pending_append:
  "visit_pending g (map (\<lambda>t. (t, n)) ts @ pending) = (\<lambda>s. Option.bind (visit_all g n ts s) (visit_pending g pending))"
proof (induction ts)
  case (Cons t ts)
  then show ?case by (intro ext) simp
qed simp

lemma Run_loop_visit:
  assumes "is_dominator_tree g t" "\<forall>(t, n) \<in> set pending. is_dominator_tree g t"
  shows "Run_loop g (Some (root t)) (map (\<lambda>(t, n). (root t, n)) pending) s = Option.bind (visit g t s) (visit_pending g pending)"
  using assms
proof (induction "tree_size t + sum_list (map (tree_size \<circ> fst) pending)" arbitrary: t pending s rule: less_induct)
  case less
  obtain b ts where t: "t = Dominator b ts" by (cases t)
  show ?case
  proof (cases "analyze_block g b s")
    case None
    then show ?thesis by (simp add: t Run_loop.simps [of g "Some b"])
  next
    case (Some s1)
    show ?thesis
    proof (cases ts)
      case Nil
      show ?thesis
      proof (cases pending)
        case Nil
        with Some \<open>ts = []\<close> less.prems(1) show ?thesis by (simp add: t Run_loop.simps [of g "Some b"])
      next
        case (Cons p rest)
        obtain t' n where p: "p = (t', n)" by (cases p)
        have smaller: "tree_size t' + sum_list (map (tree_size \<circ> fst) rest) < tree_size t + sum_list (map (tree_size \<circ> fst) pending)"
          by (simp add: t Cons p)
        have "Run_loop g (Some (root t)) (map (\<lambda>(t, n). (root t, n)) pending) s =
            Option.bind (RollBackTo n s1) (\<lambda>s. Run_loop g (Some (root t')) (map (\<lambda>(t, n). (root t, n)) rest) s)"
          using Some Nil less.prems(1) by (simp add: t Cons p Run_loop.simps [of g "Some b"])
        also have "\<dots> = Option.bind (RollBackTo n s1) (\<lambda>s. Option.bind (visit g t' s) (visit_pending g rest))"
          using less.hyps [OF smaller] less.prems(2) by (simp add: Cons p)
        finally show ?thesis using Some Nil by (simp add: t Cons p)
      qed
    next
      case (Cons d ds)
      let ?n = "length (changed_ranges s1)"
      let ?pending = "map (\<lambda>t. (t, ?n)) ds @ pending"
      have smaller: "tree_size d + sum_list (map (tree_size \<circ> fst) ?pending) < tree_size t + sum_list (map (tree_size \<circ> fst) pending)"
        by (simp add: t Cons o_def)
      have "Run_loop g (Some (root t)) (map (\<lambda>(t, n). (root t, n)) pending) s =
          Run_loop g (Some (root d)) (map (\<lambda>(t, n). (root t, n)) ?pending) s1"
        using Some less.prems(1) by (simp add: t Cons Run_loop.simps [of g "Some b"] o_def)
      also have "\<dots> = Option.bind (visit g d s1) (visit_pending g ?pending)"
        using less.prems by (intro less.hyps [OF smaller]) (auto simp: t Cons)
      finally show ?thesis
        using Some by (simp add: t Cons visit_pending_append)
    qed
  qed
qed

section \<open>Refinements are taken back\<close>

text \<open>What the walk of a part of the graph leaves behind: the changes are noted, and taking them back gives every
  value that had a range the range it had.\<close>

abbreviation pop :: "Range option \<Rightarrow> Range option" where "pop \<equiv> RemoveLastAddedRange"

definition undoable :: "range_state \<Rightarrow> range_state \<Rightarrow> bool" where
  "undoable s s' \<longleftrightarrow>
     (\<forall>v. hclass (hvalues s' v) = hclass (hvalues s v)) \<and>
     (\<exists>vs. changed_ranges s' = changed_ranges s @ vs \<and>
       (\<forall>v. (hranges s v \<noteq> None \<longrightarrow> (pop ^^ count_list vs v) (hranges s' v) = hranges s v) \<and>
            (0 < count_list vs v \<longrightarrow> (pop ^^ count_list vs v) (hranges s' v) \<noteq> None)))"

lemma pop_None [simp]: "pop None = None"
  by (simp add: RemoveLastAddedRange_def)

lemma pops_None [simp]: "(pop ^^ n) None = None"
  by (induction n) simp_all

lemma undoable_refl:
  "hranges s' = hranges s \<Longrightarrow> changed_ranges s' = changed_ranges s \<Longrightarrow>
   (\<And>v. hclass (hvalues s' v) = hclass (hvalues s v)) \<Longrightarrow> undoable s s'"
  unfolding undoable_def by (intro conjI exI [of _ "[]"]) simp_all

lemma undoable_trans:
  assumes "undoable s s'" "undoable s' s''" shows "undoable s s''"
proof -
  obtain vs where vs: "changed_ranges s' = changed_ranges s @ vs"
    "\<And>v. hranges s v \<noteq> None \<Longrightarrow> (pop ^^ count_list vs v) (hranges s' v) = hranges s v"
    "\<And>v. 0 < count_list vs v \<Longrightarrow> (pop ^^ count_list vs v) (hranges s' v) \<noteq> None"
    using assms(1) unfolding undoable_def by blast
  obtain ws where ws: "changed_ranges s'' = changed_ranges s' @ ws"
    "\<And>v. hranges s' v \<noteq> None \<Longrightarrow> (pop ^^ count_list ws v) (hranges s'' v) = hranges s' v"
    "\<And>v. 0 < count_list ws v \<Longrightarrow> (pop ^^ count_list ws v) (hranges s'' v) \<noteq> None"
    using assms(2) unfolding undoable_def by blast
  have pops: "(pop ^^ count_list (vs @ ws) v) x = (pop ^^ count_list vs v) ((pop ^^ count_list ws v) x)" for v x
    by (simp add: funpow_add)
  have known: "hranges s' v \<noteq> None" if "hranges s v \<noteq> None \<or> 0 < count_list vs v" for v
    using vs(2, 3) [of v] that by (metis pops_None)
  have "hranges s v \<noteq> None \<Longrightarrow> (pop ^^ count_list (vs @ ws) v) (hranges s'' v) = hranges s v" for v
    unfolding pops using known [of v] ws(2) [of v] vs(2) [of v] by simp
  moreover have "(pop ^^ count_list (vs @ ws) v) (hranges s'' v) \<noteq> None" if "0 < count_list (vs @ ws) v" for v
  proof (cases "0 < count_list vs v")
    case True
    then show ?thesis unfolding pops using known [of v] ws(2) [of v] vs(3) [of v] by simp
  next
    case False
    then show ?thesis using that ws(3) [of v] unfolding pops by simp
  qed
  ultimately show ?thesis
    using assms unfolding undoable_def using vs(1) ws(1) by (intro conjI exI [of _ "vs @ ws"]) simp_all
qed

lemma RemoveRanges_parts:
  "RemoveRanges vs s = Some s' \<Longrightarrow> changed_ranges s' = changed_ranges s \<and> hvalues s' = hvalues s \<and> hranges s' = (\<lambda>v. (pop ^^ count_list vs v) (hranges s v))"
proof (induction vs arbitrary: s)
  case (Cons v vs)
  then obtain s1 where "RemoveRange v s = Some s1" "RemoveRanges vs s1 = Some s'" by (auto simp: bind_eq_Some_conv)
  then show ?case
    using Cons.IH [of s1] by (auto simp: RemoveRange_def fun_eq_iff funpow_swap1 split: option.splits)
qed simp

lemma RemoveRanges_defined:
  "(\<And>v. 0 < count_list vs v \<Longrightarrow> (pop ^^ count_list vs v) (hranges s v) \<noteq> None) \<Longrightarrow> \<exists>s'. RemoveRanges vs s = Some s'"
proof (induction vs arbitrary: s)
  case (Cons v vs)
  have "hranges s v \<noteq> None" using Cons.prems [of v] by (metis count_list.simps(2) pops_None zero_less_Suc Suc_eq_plus1)
  then obtain r where "hranges s v = Some r" by auto
  then have "RemoveRange v s = Some (set_range v (pop (Some r)) s)" by (simp add: RemoveRange_def)
  moreover have "\<exists>s'. RemoveRanges vs (set_range v (pop (Some r)) s) = Some s'"
  proof (rule Cons.IH)
    fix w assume "0 < count_list vs w"
    then show "(pop ^^ count_list vs w) (hranges (set_range v (pop (Some r)) s) w) \<noteq> None"
      using Cons.prems [of w] \<open>hranges s v = Some r\<close> by (auto simp: funpow_swap1 split: if_splits)
  qed
  ultimately show ?case by simp
qed simp

lemma RollBackTo_undoable:
  assumes "undoable s s'"
  obtains s'' where "RollBackTo (length (changed_ranges s)) s' = Some s''" "changed_ranges s'' = changed_ranges s"
    "\<And>v. hranges s v \<noteq> None \<Longrightarrow> hranges s'' v = hranges s v" "\<And>v. hranges s' v = None \<Longrightarrow> hranges s'' v = None"
    "undoable s s''"
proof -
  obtain vs where vs: "changed_ranges s' = changed_ranges s @ vs"
    "\<And>v. hranges s v \<noteq> None \<Longrightarrow> (pop ^^ count_list vs v) (hranges s' v) = hranges s v"
    "\<And>v. 0 < count_list vs v \<Longrightarrow> (pop ^^ count_list vs v) (hranges s' v) \<noteq> None"
    using assms unfolding undoable_def by blast
  obtain s1 where s1: "RemoveRanges vs s' = Some s1" using RemoveRanges_defined vs(3) by blast
  note parts = RemoveRanges_parts [OF s1]
  define s2 where "s2 = s1\<lparr>changed_ranges := changed_ranges s\<rparr>"
  have rolled: "RollBackTo (length (changed_ranges s)) s' = Some s2"
    using s1 parts by (simp add: RollBackTo_def vs(1) s2_def)
  have same: "hranges s v \<noteq> None \<Longrightarrow> hranges s2 v = hranges s v" for v using parts vs(2) by (simp add: s2_def)
  have "hvalues s2 = hvalues s'" using parts by (simp add: s2_def)
  then have "undoable s s2" using assms same unfolding undoable_def by (intro conjI exI [of _ "[]"]) (simp_all add: s2_def)
  moreover have "hranges s' v = None \<Longrightarrow> hranges s2 v = None" for v using parts by (simp add: s2_def)
  ultimately show thesis using that rolled same by (simp add: s2_def)
qed

lemma set_instruction_parts [simp]:
  "hranges (set_instruction v i s) = hranges s" "changed_ranges (set_instruction v i s) = changed_ranges s"
  "hclass (hvalues (set_instruction v i s) w) = hclass (hvalues s w)"
  by (simp_all add: set_instruction_def)

lemma ComputeInitialRange_parts:
  assumes "ComputeInitialRange v s = Some s'"
  shows "\<exists>r. hranges s' = (hranges s)(v \<mapsto> r)" "changed_ranges s' = changed_ranges s" "hclass (hvalues s' w) = hclass (hvalues s w)"
  using assms by (auto simp: ComputeInitialRange_def bind_eq_Some_conv)

lemma undoable_new:
  assumes "hranges s v = None" "hranges s' = (hranges s)(v := r)" "changed_ranges s' = changed_ranges s"
    "\<And>w. hclass (hvalues s' w) = hclass (hvalues s w)"
  shows "undoable s s'"
  using assms unfolding undoable_def by (intro conjI exI [of _ "[]"]) auto

lemma undoable_InferRange:
  assumes "InferRange v s = Some s'" "hranges s v = None"
  shows "undoable s s'" "w \<noteq> v \<Longrightarrow> hranges s' w = hranges s w"
  using assms ComputeInitialRange_parts [of v s s']
  by (auto simp: InferRange_def intro: undoable_refl undoable_new split: if_splits)

lemma undoable_AddRange:
  assumes "AddRange v r s = Some s'"
  shows "undoable s s'" "w \<noteq> v \<Longrightarrow> hranges s' w = hranges s w"
proof -
  obtain s1 old where s1: "(case hranges s v of None \<Rightarrow> ComputeInitialRange v s | Some _ \<Rightarrow> Some s) = Some s1"
      "hranges s1 v = Some old" "s' = set_range v (Some (StackUpon r old)) s1\<lparr>changed_ranges := changed_ranges s1 @ [v]\<rparr>"
    using assms by (auto simp: AddRange_def AddNewRange_def Let_def bind_eq_Some_conv)
  have "undoable s s1 \<and> (\<forall>w. w \<noteq> v \<longrightarrow> hranges s1 w = hranges s w)"
    using s1(1) ComputeInitialRange_parts [of v s s1] by (auto intro: undoable_refl undoable_new split: option.splits)
  moreover have "pop (Some (StackUpon r old)) = Some old"
    using RemoveLastAddedRange_AddNewRange [of old r old] by (simp add: AddNewRange_def)
  then have "undoable s1 s'" unfolding undoable_def using s1(2) by (intro conjI exI [of _ "[v]"]) (auto simp: s1(3))
  ultimately show "undoable s s'" "w \<noteq> v \<Longrightarrow> hranges s' w = hranges s w"
    using undoable_trans by (auto simp: s1(3))
qed

lemma undoable_UpdateControlFlowRange:
  assumes "UpdateControlFlowRange op v other s = Some s'"
  shows "undoable s s'" "w \<noteq> v \<Longrightarrow> hranges s' w = hranges s w"
  using assms undoable_AddRange [of v _ s s']
  by (auto simp: UpdateControlFlowRange_def Let_def intro: undoable_refl split: option.splits if_splits)

definition tested_operands :: "(nat \<Rightarrow> value_class) \<Rightarrow> nat \<Rightarrow> nat set" where
  "tested_operands cls test = (case cls test of HCompareNumericAndBranch _ left right _ _ \<Rightarrow> {left, right} | _ \<Rightarrow> {})"

lemma undoable_InferControlFlowRange:
  assumes "InferControlFlowRange test dest s = Some s'"
  shows "undoable s s'" "w \<notin> tested_operands (\<lambda>v. hclass (hvalues s v)) test \<Longrightarrow> hranges s' w = hranges s w"
proof -
  have "undoable s s' \<and> (w \<notin> tested_operands (\<lambda>v. hclass (hvalues s v)) test \<longrightarrow> hranges s' w = hranges s w)"
  proof (cases "hclass (hvalues s test)")
    case (HCompareNumericAndBranch op left right b1 b2)
    define taken where "taken = (if b2 = dest then NegateCompareOp op else op)"
    show ?thesis
    proof (cases "IsSmiOrInteger32 (representation_of test s)")
      case True
      then obtain s1 where "UpdateControlFlowRange taken left right s = Some s1"
          "UpdateControlFlowRange (ReverseCompareOp taken) right left s1 = Some s'"
        using assms HCompareNumericAndBranch by (auto simp: InferControlFlowRange_def taken_def Let_def bind_eq_Some_conv)
      note updates = undoable_UpdateControlFlowRange [OF this(1)] undoable_UpdateControlFlowRange [OF this(2)]
      have "undoable s s'" by (rule undoable_trans [OF updates(1) updates(3)])
      then show ?thesis using updates(2, 4) HCompareNumericAndBranch by (simp add: tested_operands_def)
    qed (use assms HCompareNumericAndBranch in \<open>auto simp: InferControlFlowRange_def intro: undoable_refl\<close>)
  qed (use assms in \<open>auto simp: InferControlFlowRange_def intro: undoable_refl\<close>)
  then show "undoable s s'" "w \<notin> tested_operands (\<lambda>v. hclass (hvalues s v)) test \<Longrightarrow> hranges s' w = hranges s w"
    by auto
qed

lemma mark_minus_zero_parts [simp]:
  "hranges (mark_minus_zero v s) = hranges s" "changed_ranges (mark_minus_zero v s) = changed_ranges s"
  "hclass (hvalues (mark_minus_zero v s) w) = hclass (hvalues s w)"
  by (simp_all add: mark_minus_zero_def)

lemma propagate_loop_parts:
  "propagate_loop w s = Some s' \<Longrightarrow>
   hranges s' = hranges s \<and> changed_ranges s' = changed_ranges s \<and> (\<forall>v. hclass (hvalues s' v) = hclass (hvalues s v))"
proof (induction rule: propagate_loop.raw_induct [rotated, consumes 1, case_names step])
  case (step loop w s s')
  show ?case
  proof (cases "snd w")
    case Nil
    then show ?thesis using step(2) by simp
  next
    case (Cons v worklist)
    then show ?thesis using step(1) [of "fold AddToWorklist (minus_zero_operands v s) (fst w, worklist)" "mark_minus_zero v s" s'] step(2)
      by simp
  qed
qed

lemma undoable_analyze_instruction:
  assumes "analyze_instruction v s = Some s'" "hranges s v = None"
  shows "undoable s s'" "w \<noteq> v \<Longrightarrow> hranges s' w = hranges s w"
proof -
  obtain s1 where s1: "InferRange v s = Some s1" using assms(1) by (auto simp: analyze_instruction_def bind_eq_Some_conv)
  have "s' = s1 \<or> (\<exists>a. PropagateMinusZeroChecks a s1 = Some s')"
    using assms(1) s1 by (auto simp: analyze_instruction_def split: value_class.splits if_splits)
  then have "undoable s1 s' \<and> hranges s' = hranges s1"
    by (metis PropagateMinusZeroChecks_def propagate_loop_parts undoable_refl)
  then show "undoable s s'" "w \<noteq> v \<Longrightarrow> hranges s' w = hranges s w"
    using undoable_InferRange [OF s1 assms(2)] undoable_trans by auto
qed

text \<open>The values of a block are those its analysis gives a range. \<open>scoped\<close> says of a part of the dominator tree that
  the comparison a block is reached by compares values that dominate it.\<close>

definition block_values :: "(nat \<Rightarrow> hblock) \<Rightarrow> nat \<Rightarrow> nat list" where
  "block_values g b = hphis (g b) @ hinstructions (g b)"

fun values_of :: "(nat \<Rightarrow> hblock) \<Rightarrow> dominator_tree \<Rightarrow> nat list" where
  "values_of g (Dominator b ts) = block_values g b @ concat (map (values_of g) ts)"

definition block_tests :: "(nat \<Rightarrow> hblock) \<Rightarrow> (nat \<Rightarrow> value_class) \<Rightarrow> nat \<Rightarrow> nat set" where
  "block_tests g cls b =
     (case hpredecessors (g b) of [pred] \<Rightarrow> tested_operands cls (last (hinstructions (g pred))) | _ \<Rightarrow> {})"

fun scoped :: "(nat \<Rightarrow> hblock) \<Rightarrow> (nat \<Rightarrow> value_class) \<Rightarrow> nat set \<Rightarrow> dominator_tree \<Rightarrow> bool" where
  "scoped g cls D (Dominator b ts) \<longleftrightarrow>
     block_tests g cls b \<subseteq> D \<and> (\<forall>t \<in> set ts. scoped g cls (D \<union> set (block_values g b)) t)"

lemma undoable_class: "undoable s s' \<Longrightarrow> hclass (hvalues s' v) = hclass (hvalues s v)"
  by (simp add: undoable_def)

lemma undoable_analyze_all:
  assumes "analyze_all f vs s = Some s'" "distinct vs" "\<And>v. v \<in> set vs \<Longrightarrow> hranges s v = None"
    "\<And>v s s'. f v s = Some s' \<Longrightarrow> hranges s v = None \<Longrightarrow> undoable s s' \<and> (\<forall>w. w \<noteq> v \<longrightarrow> hranges s' w = hranges s w)"
  shows "undoable s s' \<and> (\<forall>w. w \<notin> set vs \<longrightarrow> hranges s' w = hranges s w)"
  using assms(1-3)
proof (induction vs arbitrary: s)
  case (Cons v vs)
  then obtain s1 where s1: "f v s = Some s1" "analyze_all f vs s1 = Some s'" by (auto simp: bind_eq_Some_conv)
  have first: "undoable s s1 \<and> (\<forall>w. w \<noteq> v \<longrightarrow> hranges s1 w = hranges s w)"
    using assms(4) s1(1) Cons.prems(3) by simp
  have fresh: "hranges s1 u = None" if "u \<in> set vs" for u
  proof -
    have "u \<noteq> v" using that Cons.prems(2) by auto
    then have "hranges s1 u = hranges s u" using first by simp
    then show ?thesis using Cons.prems(3) [of u] that by simp
  qed
  have "undoable s1 s' \<and> (\<forall>w. w \<notin> set vs \<longrightarrow> hranges s' w = hranges s1 w)"
    using Cons.prems(2) fresh by (intro Cons.IH s1(2)) auto
  with first show ?case using undoable_trans by auto
qed (auto intro: undoable_refl)

lemma undoable_analyze_block:
  assumes "analyze_block g b s = Some s'" "distinct (block_values g b)" "\<And>v. v \<in> set (block_values g b) \<Longrightarrow> hranges s v = None"
    "block_tests g (\<lambda>v. hclass (hvalues s v)) b \<inter> set (block_values g b) = {}"
  shows "undoable s s'" "w \<notin> block_tests g (\<lambda>v. hclass (hvalues s v)) b \<union> set (block_values g b) \<Longrightarrow> hranges s' w = hranges s w"
proof -
  let ?tests = "block_tests g (\<lambda>v. hclass (hvalues s v)) b"
  obtain s1 s2 where s1: "(case hpredecessors (g b) of [pred] \<Rightarrow> InferControlFlowRange (last (hinstructions (g pred))) b s
           | _ \<Rightarrow> Some s) = Some s1"
    and s2: "analyze_all InferRange (hphis (g b)) s1 = Some s2" "analyze_all analyze_instruction (hinstructions (g b)) s2 = Some s'"
    using assms(1) by (auto simp: analyze_block_def bind_eq_Some_conv)
  have 1: "undoable s s1 \<and> (\<forall>w. w \<notin> ?tests \<longrightarrow> hranges s1 w = hranges s w)"
    using s1 undoable_InferControlFlowRange [of _ b s s1]
    by (auto simp: block_tests_def intro: undoable_refl split: list.splits)
  have fresh1: "hranges s1 u = None" if "u \<in> set (block_values g b)" for u
  proof -
    have "u \<notin> ?tests" using that assms(4) by auto
    then have "hranges s1 u = hranges s u" using 1 by simp
    then show ?thesis using assms(3) [OF that] by simp
  qed
  have 2: "undoable s1 s2 \<and> (\<forall>w. w \<notin> set (hphis (g b)) \<longrightarrow> hranges s2 w = hranges s1 w)"
    using assms(2) fresh1 undoable_InferRange
    by (intro undoable_analyze_all [OF s2(1)]) (auto simp: block_values_def)
  have fresh2: "hranges s2 u = None" if "u \<in> set (hinstructions (g b))" for u
  proof -
    have "u \<notin> set (hphis (g b))" using that assms(2) by (auto simp: block_values_def)
    then have "hranges s2 u = hranges s1 u" using 2 by simp
    then show ?thesis using fresh1 [of u] that by (simp add: block_values_def)
  qed
  have "undoable s2 s' \<and> (\<forall>w. w \<notin> set (hinstructions (g b)) \<longrightarrow> hranges s' w = hranges s2 w)"
    using assms(2) fresh2 undoable_analyze_instruction
    by (intro undoable_analyze_all [OF s2(2)]) (auto simp: block_values_def)
  with 1 2 undoable_trans show "undoable s s'" "w \<notin> ?tests \<union> set (block_values g b) \<Longrightarrow> hranges s' w = hranges s w"
    by (blast, auto simp: block_values_def)
qed

lemma visit_undoable:
  "\<lbrakk>visit g t s = Some s'; scoped g cls D t; \<And>v. hclass (hvalues s v) = cls v; distinct (values_of g t);
    D \<inter> set (values_of g t) = {}; \<And>v. v \<in> set (values_of g t) \<Longrightarrow> hranges s v = None\<rbrakk> \<Longrightarrow>
   undoable s s' \<and> (\<forall>w. w \<notin> D \<union> set (values_of g t) \<longrightarrow> hranges s w = None \<longrightarrow> hranges s' w = None)"
  "\<lbrakk>visit_all g n ts s = Some s'; \<And>t. t \<in> set ts \<Longrightarrow> scoped g cls D t; \<And>v. hclass (hvalues s v) = cls v;
    distinct (concat (map (values_of g) ts)); D \<inter> set (concat (map (values_of g) ts)) = {};
    \<And>v. v \<in> set (concat (map (values_of g) ts)) \<Longrightarrow> hranges s v = None; undoable s0 s; n = length (changed_ranges s0)\<rbrakk> \<Longrightarrow>
   undoable s0 s' \<and> (\<forall>w. w \<notin> D \<union> set (concat (map (values_of g) ts)) \<longrightarrow> hranges s w = None \<longrightarrow> hranges s' w = None)"
proof (induction g t s and g n ts s arbitrary: D s' and D s' s0 rule: visit_visit_all.induct)
  case (1 g b ts s)
  then obtain s1 where s1: "analyze_block g b s = Some s1" "visit_all g (length (changed_ranges s1)) ts s1 = Some s'"
    by (auto simp: bind_eq_Some_conv)
  have cls: "(\<lambda>v. hclass (hvalues s v)) = cls" using 1(4) by auto
  have tests: "block_tests g cls b \<subseteq> D" using 1(3) by simp
  have block: "undoable s s1" "w \<notin> block_tests g cls b \<union> set (block_values g b) \<Longrightarrow> hranges s1 w = hranges s w" for w
    using undoable_analyze_block [OF s1(1)] 1(5-7) tests unfolding cls by auto
  have "undoable s1 s' \<and> (\<forall>w. w \<notin> (D \<union> set (block_values g b)) \<union> set (concat (map (values_of g) ts)) \<longrightarrow>
      hranges s1 w = None \<longrightarrow> hranges s' w = None)"
  proof (rule 1(1) [OF s1 _ _ _ _ _ undoable_refl])
    show "\<And>t. t \<in> set ts \<Longrightarrow> scoped g cls (D \<union> set (block_values g b)) t" using 1(3) by simp
    show "\<And>v. hclass (hvalues s1 v) = cls v" using undoable_class [OF block(1)] 1(4) by simp
    show "distinct (concat (map (values_of g) ts))" "(D \<union> set (block_values g b)) \<inter> set (concat (map (values_of g) ts)) = {}"
      using 1(5, 6) by auto
    show "\<And>v. v \<in> set (concat (map (values_of g) ts)) \<Longrightarrow> hranges s1 v = None"
      using block(2) 1(5-7) tests by (subst block(2)) auto
  qed auto
  moreover from this have "undoable s s'" using undoable_trans [OF block(1)] by blast
  moreover have "hranges s1 w = hranges s w" if "w \<notin> D \<union> set (values_of g (Dominator b ts))" for w
    using that tests by (intro block(2)) auto
  ultimately show ?case by simp
next
  case (2 g n s)
  then show ?case by simp
next
  case (3 g n t ts s)
  obtain s1 where s1: "RollBackTo n s = Some s1" "\<And>v. hranges s v = None \<Longrightarrow> hranges s1 v = None" "undoable s0 s1"
    using RollBackTo_undoable [OF 3(9)] 3(10) by metis
  obtain s2 where s2: "visit g t s1 = Some s2" "visit_all g n ts s2 = Some s'" using 3(3) s1(1) by (auto simp: bind_eq_Some_conv)
  have cls1: "hclass (hvalues s1 v) = cls v" for v using undoable_class [OF s1(3)] undoable_class [OF 3(9)] 3(5) by metis
  have visited: "undoable s1 s2 \<and> (\<forall>w. w \<notin> D \<union> set (values_of g t) \<longrightarrow> hranges s1 w = None \<longrightarrow> hranges s2 w = None)"
    using 3(4, 6-8) s1(2) by (intro 3(1) [OF s1(1) s2(1)] cls1) auto
  have "undoable s0 s' \<and> (\<forall>w. w \<notin> D \<union> set (concat (map (values_of g) ts)) \<longrightarrow> hranges s2 w = None \<longrightarrow> hranges s' w = None)"
  proof (rule 3(2) [OF s1(1) s2])
    show "\<And>v. hclass (hvalues s2 v) = cls v" using visited cls1 undoable_class by metis
    show "undoable s0 s2" using visited s1(3) undoable_trans by blast
    fix v assume v: "v \<in> set (concat (map (values_of g) ts))"
    then have "v \<notin> D \<union> set (values_of g t)" using 3(6, 7) by auto
    moreover have "hranges s1 v = None" using v 3(8) [of v] s1(2) [of v] by auto
    ultimately show "hranges s2 v = None" using visited by simp
  qed (use 3(4, 6, 7, 10) in auto)
  then show ?case using visited s1(2) by auto
qed

text \<open>C37 The walk over a part of the dominator tree, in which no value has a range yet and comparisons are of values that
  dominate them, can be taken back: rolling the changes back returns, and every value that had a range before has
  that range again. So the refinements of a branch never reach the blocks that the branch does not dominate.\<close>
theorem refinements_taken_back:
  assumes "visit g t s = Some s'" "scoped g (\<lambda>v. hclass (hvalues s v)) D t" "distinct (values_of g t)"
    "D \<inter> set (values_of g t) = {}" "\<And>v. v \<in> set (values_of g t) \<Longrightarrow> hranges s v = None"
  shows "\<exists>s''. RollBackTo (length (changed_ranges s)) s' = Some s'' \<and> changed_ranges s'' = changed_ranges s \<and>
    (\<forall>v. hranges s v \<noteq> None \<longrightarrow> hranges s'' v = hranges s v)"
proof -
  have "undoable s s'" using visit_undoable(1) [OF assms(1, 2) _ assms(3-5)] by simp
  then show ?thesis by (rule RollBackTo_undoable) blast
qed

text \<open>C38 The walk with an explicit stack of pending blocks is the recursive walk over the dominator tree, which returns
  whenever the analysis of every block does.\<close>
theorem Run_visits:
  assumes "is_dominator_tree g t" shows "Run g (root t) s = visit g t s"
proof -
  have "visit_pending g [] = Some" by (rule ext) simp
  then show ?thesis
    using Run_loop_visit [OF assms, of "[]" s] by (simp add: Run_def)
qed

section \<open>Exactly the values that need a check for minus zero are marked\<close>

inductive minus_zero_reaches :: "range_state \<Rightarrow> nat \<Rightarrow> nat \<Rightarrow> bool" for s v where
  minus_zero_here: "minus_zero_reaches s v v"
| minus_zero_operand: "minus_zero_reaches s v w \<Longrightarrow> a \<in> set (minus_zero_operands w s) \<Longrightarrow> minus_zero_reaches s v a"

definition marked :: "nat \<Rightarrow> range_state \<Rightarrow> bool" where
  "marked v s \<longleftrightarrow> HValue_CheckFlag kBailoutOnMinusZero (hinstruction (hvalues s v))"

text \<open>What the propagation reads does not depend on the marks it makes.\<close>

definition same_but_marks :: "range_state \<Rightarrow> range_state \<Rightarrow> bool" where
  "same_but_marks s s' \<longleftrightarrow>
     hranges s' = hranges s \<and> changed_ranges s' = changed_ranges s \<and>
     (\<forall>v. hclass (hvalues s' v) = hclass (hvalues s v) \<and> representation_of v s' = representation_of v s \<and>
        (\<forall>f. f \<noteq> kBailoutOnMinusZero \<longrightarrow>
           HValue_CheckFlag f (hinstruction (hvalues s' v)) = HValue_CheckFlag f (hinstruction (hvalues s v))))"

lemma CheckFlag_SetFlag [simp]:
  "f < 32 \<Longrightarrow> HValue_CheckFlag g (HValue_SetFlag f v) \<longleftrightarrow> f = g \<or> HValue_CheckFlag g v"
  by (auto simp: CheckFlag_bit HValue_SetFlag_def bit_simps push_bit_of_1)

lemma representation_SetFlag [simp]: "instr_representation (HValue_SetFlag f v) = instr_representation v"
  by (simp add: HValue_SetFlag_def)

lemma same_but_marks_mark: "same_but_marks s (mark_minus_zero v s)"
  by (auto simp: same_but_marks_def mark_minus_zero_def set_instruction_def representation_of_def)

lemma same_but_marks_trans: "same_but_marks s s' \<Longrightarrow> same_but_marks s' s'' \<Longrightarrow> same_but_marks s s''"
  unfolding same_but_marks_def by simp

lemma same_but_marks_wants: "same_but_marks s s' \<Longrightarrow> wants_minus_zero_check v s' \<longleftrightarrow> wants_minus_zero_check v s"
  by (auto simp: same_but_marks_def wants_minus_zero_check_def split: value_class.splits)

lemma same_but_marks_operands: "same_but_marks s s' \<Longrightarrow> minus_zero_operands v s' = minus_zero_operands v s"
  by (auto simp: same_but_marks_def minus_zero_operands_def split: value_class.splits)

lemma fold_AddToWorklist:
  "\<exists>new. fold AddToWorklist vs (in_worklist, worklist) = (in_worklist \<union> set vs, new @ worklist) \<and>
     distinct new \<and> set new = set vs - in_worklist"
proof (induction vs arbitrary: in_worklist worklist)
  case (Cons v vs)
  show ?case
  proof (cases "v \<in> in_worklist")
    case True
    then have "in_worklist \<union> set (v # vs) = in_worklist \<union> set vs" "set (v # vs) - in_worklist = set vs - in_worklist" by auto
    with Cons [of in_worklist worklist] True show ?thesis by (simp only: fold_simps AddToWorklist_def prod.case if_True)
  next
    case False
    obtain new where new: "fold AddToWorklist vs (insert v in_worklist, v # worklist) = (insert v in_worklist \<union> set vs, new @ v # worklist)"
      "distinct new" "set new = set vs - insert v in_worklist"
      using Cons [of "insert v in_worklist" "v # worklist"] by blast
    have "fold AddToWorklist (v # vs) (in_worklist, worklist) = (in_worklist \<union> set (v # vs), (new @ [v]) @ worklist)"
      using False new(1) by (simp add: AddToWorklist_def)
    moreover have "distinct (new @ [v])" "set (new @ [v]) = set (v # vs) - in_worklist" using new(2, 3) False by auto
    ultimately show ?thesis by blast
  qed
qed simp

text \<open>The values that were taken from the work list are those that are noted but no longer on it: they are marked if they
  want a check, and their operands are noted.\<close>

lemma propagate_loop_exact:
  assumes graph: "finite V" "\<And>w. w \<in> V \<Longrightarrow> set (minus_zero_operands w s0) \<subseteq> V"
    and "seen \<subseteq> V" "set worklist \<subseteq> seen" "distinct worklist" "same_but_marks s0 s" "v \<in> seen"
      "\<And>w. w \<in> seen \<Longrightarrow> minus_zero_reaches s0 v w"
      "\<And>w. w \<in> seen - set worklist \<Longrightarrow> set (minus_zero_operands w s0) \<subseteq> seen"
      "\<And>w. marked w s \<longleftrightarrow> marked w s0 \<or> w \<in> seen - set worklist \<and> wants_minus_zero_check w s0"
  shows "\<exists>s'. propagate_loop (seen, worklist) s = Some s' \<and> same_but_marks s0 s' \<and>
    (\<forall>w. marked w s' \<longleftrightarrow> marked w s0 \<or> minus_zero_reaches s0 v w \<and> wants_minus_zero_check w s0)"
  using assms(3-)
proof (induction "2 * card (V - seen) + length worklist" arbitrary: seen worklist s rule: less_induct)
  case less
  show ?case
  proof (cases worklist)
    case Nil
    have "minus_zero_reaches s0 v w \<Longrightarrow> w \<in> seen" for w
      by (induction rule: minus_zero_reaches.induct) (use less.prems(5, 7) Nil in auto)
    then have "minus_zero_reaches s0 v w \<longleftrightarrow> w \<in> seen" for w using less.prems(6) by blast
    moreover have "propagate_loop (seen, worklist) s = Some s" by (subst propagate_loop.simps) (simp add: Nil)
    ultimately show ?thesis using less.prems(4, 8) by (simp add: Nil)
  next
    case (Cons a rest)
    let ?ops = "minus_zero_operands a s0"
    obtain new where new: "fold AddToWorklist ?ops (seen, rest) = (seen \<union> set ?ops, new @ rest)" "distinct new" "set new = set ?ops - seen"
      using fold_AddToWorklist by blast
    have a: "a \<in> seen" "a \<in> V" "a \<notin> set rest" using less.prems(1-3) by (auto simp: Cons)
    have ops: "set ?ops \<subseteq> V" using graph(2) a(2) .
    have done': "(seen \<union> set ?ops) - set (new @ rest) = insert a (seen - set worklist)"
      using new(3) a less.prems(2) by (auto simp: Cons)
    have "card (V - (seen \<union> set ?ops)) + length new = card (V - seen)"
    proof -
      have "V - seen = (V - (seen \<union> set ?ops)) \<union> set new" "(V - (seen \<union> set ?ops)) \<inter> set new = {}"
        using new(3) ops by auto
      then have "card (V - seen) = card (V - (seen \<union> set ?ops)) + card (set new)"
        using graph(1) by (simp add: card_Un_disjoint)
      then show ?thesis using distinct_card [OF new(2)] by simp
    qed
    then have smaller: "2 * card (V - (seen \<union> set ?ops)) + length (new @ rest) < 2 * card (V - seen) + length worklist"
      by (simp add: Cons)
    have marks: "same_but_marks s0 (mark_minus_zero a s)" using less.prems(4) same_but_marks_mark same_but_marks_trans by blast
    have marked: "marked w (mark_minus_zero a s) \<longleftrightarrow> marked w s \<or> w = a \<and> wants_minus_zero_check a s0" for w
      using same_but_marks_wants [OF less.prems(4)]
      by (auto simp: marked_def mark_minus_zero_def set_instruction_def)
    have "\<exists>s'. propagate_loop (seen \<union> set ?ops, new @ rest) (mark_minus_zero a s) = Some s' \<and> same_but_marks s0 s' \<and>
      (\<forall>w. marked w s' \<longleftrightarrow> marked w s0 \<or> minus_zero_reaches s0 v w \<and> wants_minus_zero_check w s0)"
    proof (rule less.hyps [OF smaller _ _ _ marks])
      show "seen \<union> set ?ops \<subseteq> V" using less.prems(1) ops by simp
      show "set (new @ rest) \<subseteq> seen \<union> set ?ops" "distinct (new @ rest)" using new less.prems(2, 3) by (auto simp: Cons)
      show "v \<in> seen \<union> set ?ops" using less.prems(5) by simp
      show "\<And>w. w \<in> seen \<union> set ?ops \<Longrightarrow> minus_zero_reaches s0 v w"
        using less.prems(6) a(1) by (auto intro: minus_zero_operand)
      show "\<And>w. w \<in> (seen \<union> set ?ops) - set (new @ rest) \<Longrightarrow> set (minus_zero_operands w s0) \<subseteq> seen \<union> set ?ops"
        unfolding done' using less.prems(7) by auto
      show "\<And>w. marked w (mark_minus_zero a s) \<longleftrightarrow>
          marked w s0 \<or> w \<in> (seen \<union> set ?ops) - set (new @ rest) \<and> wants_minus_zero_check w s0"
        unfolding done' marked using less.prems(8) by auto
    qed
    moreover have "propagate_loop (seen, worklist) s = propagate_loop (seen \<union> set ?ops, new @ rest) (mark_minus_zero a s)"
      by (subst propagate_loop.simps) (simp add: Cons same_but_marks_operands [OF less.prems(4)] new(1))
    ultimately show ?thesis by simp
  qed
qed


section \<open>A graph\<close>

text \<open>The function \<open>(a, b) \<Rightarrow> {var x = a * b; if (x < 5) return 1 / x; ...}\<close>: the product is a 32 bit integer and is
  converted to a double in block 1. With \<open>test = HOtherValue\<close> the first block ends without a comparison.\<close>

definition sample_value :: "value_class \<Rightarrow> Representation \<Rightarrow> int32 \<Rightarrow> hvalue" where
  "sample_value cls representation flags =
     \<lparr>hclass = cls, hinstruction = \<lparr>instr_representation = representation, instr_type_is_smi = False,
        instr_changes_new_space_promotion = False, instr_flags = flags\<rparr>\<rparr>"

definition sample_state :: "value_class \<Rightarrow> range_state" where
  "sample_state test =
     \<lparr>hvalues = (\<lambda>v.
        if v = 2 then sample_value (HMul 0 1) kInteger32 16
        else if v = 3 then sample_value (HConstant (Some 5)) kInteger32 0
        else if v = 4 then sample_value test kInteger32 0
        else if v = 5 then sample_value (HChange 2) kDouble 0
        else if v = 6 \<or> v = 7 then sample_value HOtherValue kNone 0
        else sample_value HOtherValue kInteger32 0),
      hranges = (\<lambda>_. None), changed_ranges = []\<rparr>"

definition sample_graph :: "nat \<Rightarrow> hblock" where
  "sample_graph b =
     (if b = 0 then \<lparr>hpredecessors = [], hphis = [], hinstructions = [0, 1, 2, 3, 4], hdominated_blocks = [1, 2]\<rparr>
      else if b = 1 then \<lparr>hpredecessors = [0], hphis = [], hinstructions = [5, 6], hdominated_blocks = []\<rparr>
      else \<lparr>hpredecessors = [0], hphis = [], hinstructions = [7], hdominated_blocks = []\<rparr>)"

abbreviation sample_test :: value_class where "sample_test \<equiv> HCompareNumericAndBranch LT 2 3 1 2"

declare Run_loop.simps [code] propagate_loop.simps [code] Mask_loop.simps [code]


text \<open>The state in which the comparison of the sample is looked at.\<close>

definition sample_compared :: range_state where
  "sample_compared = (sample_state sample_test)\<lparr>hranges := [2 \<mapsto> new_Range (-3) 9, 3 \<mapsto> new_Range 5 5]\<rparr>"

lemma control_flow_range_sound_witness:
  "\<exists>s'. InferControlFlowRange 4 1 sample_compared = Some s' \<and> ranges_hold (\<lambda>v. if v = 2 then Integer 1 else Integer 5) s'"
proof (rule control_flow_range_sound)
  show "hclass (hvalues sample_compared 4) = sample_test" by code_simp
  have "in_range (Integer 1) (new_Range (-3) 9)" "in_range (Integer 5) (new_Range 5 5)" by code_simp+
  then show "ranges_hold (\<lambda>v. if v = 2 then Integer 1 else Integer 5) sample_compared"
    by (simp add: ranges_hold_def sample_compared_def)
  show "hranges sample_compared 2 \<noteq> None" "hranges sample_compared 3 \<noteq> None" by (simp_all add: sample_compared_def)
qed auto

lemma refinements_taken_back_witness:
  "\<exists>s' s''. visit sample_graph (Dominator 1 []) sample_compared = Some s' \<and> map_option range_upper (hranges s' 2) = Some 4 \<and>
     RollBackTo 0 s' = Some s'' \<and> map_option range_upper (hranges s'' 2) = Some 9"
proof -
  have "map_option (\<lambda>s. map_option range_upper (hranges s 2)) (visit sample_graph (Dominator 1 []) sample_compared) = Some (Some 4)"
    by code_simp
  then obtain s' where s': "visit sample_graph (Dominator 1 []) sample_compared = Some s'" "map_option range_upper (hranges s' 2) = Some 4"
    by auto
  have "scoped sample_graph (\<lambda>v. hclass (hvalues sample_compared v)) {2, 3} (Dominator 1 [])" by code_simp
  moreover have "values_of sample_graph (Dominator 1 []) = [5, 6]" by code_simp
  ultimately obtain s'' where "RollBackTo (length (changed_ranges sample_compared)) s' = Some s''"
      "\<forall>v. hranges sample_compared v \<noteq> None \<longrightarrow> hranges s'' v = hranges sample_compared v"
    using refinements_taken_back [OF s'(1), of "{2, 3}"] by (force simp: sample_compared_def sample_state_def)
  then show ?thesis
    using s' by (intro exI [of _ s'] exI [of _ s'']) (simp add: sample_compared_def sample_state_def new_Range_def)
qed

lemma Run_visits_witness:
  "Run sample_graph 0 (sample_state sample_test) =
     visit sample_graph (Dominator 0 [Dominator 1 [], Dominator 2 []]) (sample_state sample_test)"
proof -
  have "is_dominator_tree sample_graph (Dominator 0 [Dominator 1 [], Dominator 2 []])" by (simp add: sample_graph_def)
  from Run_visits [OF this] show ?thesis by simp
qed


end
