(* ===== verification/GapResolver.thy ===== *)
theory GapResolver
  imports LithiumOperands Representations
begin

text \<open>
  The gap resolver of x64 (\<^verbatim>\<open>src/x64/lithium-gap-resolver-x64.{h,cc}\<close>), which turns the parallel moves of a gap,
  also of one that was loaded from the cache, into a sequence of instructions: moves wait for the moves that
  read what they overwrite, and swaps break the cycles. The instructions it emits are modelled by what they do
  to the low 64 bits of registers and to the words of the frame.
\<close>

unbundle bit_operations_syntax

section \<open>Registers and the frame\<close>

abbreviation IsRegister :: "LOperand \<Rightarrow> bool" where "IsRegister \<equiv> has_kind REGISTER"
abbreviation IsDoubleRegister :: "LOperand \<Rightarrow> bool" where "IsDoubleRegister \<equiv> has_kind DOUBLE_REGISTER"
abbreviation IsDoubleStackSlot :: "LOperand \<Rightarrow> bool" where "IsDoubleStackSlot \<equiv> has_kind DOUBLE_STACK_SLOT"

text \<open>The codes of the registers that are allocated: rax, rbx, rdx, rcx, rsi, rdi, r8, r9, r11, r14, r15. The resolver
  itself uses r10 and xmm0, which are not allocated.\<close>

definition kRegisterCodeByAllocationIndex :: "nat list" where
  "kRegisterCodeByAllocationIndex = [0, 3, 2, 1, 6, 7, 8, 9, 11, 14, 15]"

definition kScratchRegister :: nat where "kScratchRegister = 10"
definition xmm0 :: nat where "xmm0 = 0"

definition ToRegister :: "LOperand \<Rightarrow> nat option" where
  "ToRegister op =
     (if 0 \<le> op_index op \<and> op_index op < 11 then Some (kRegisterCodeByAllocationIndex ! nat (op_index op)) else None)"

definition ToDoubleRegister :: "LOperand \<Rightarrow> nat option" where
  "ToDoubleRegister op = (if 0 \<le> op_index op \<and> op_index op < 15 then Some (nat (op_index op) + 1) else None)"

definition kPointerSize :: int where "kPointerSize = 8"

definition StackSlotOffset :: "int \<Rightarrow> int" where
  "StackSlotOffset index =
     (if 0 \<le> index then - (index + 1) * kPointerSize - 2 * kPointerSize else - (index + 1) * kPointerSize + 8 + 8)"

definition ArgumentsOffsetWithoutFrame :: "int \<Rightarrow> int" where
  "ArgumentsOffsetWithoutFrame index = - (index + 1) * kPointerSize + 8"

text \<open>What the code generator knows: whether there is a frame, and the constants of the chunk. A constant has the
  representation, the integer, the bits of the double, the word of the object its handle points to, and whether
  it is a dehoisted key.\<close>

record gap_constant =
  gc_representation :: Representation
  gc_integer32 :: int32
  gc_double :: "64 word"
  gc_object :: "64 word"
  gc_dehoisted_key :: bool

record gap_codegen =
  needs_eager_frame :: bool
  lookup_constant :: "LOperand \<Rightarrow> gap_constant"

definition ToOperand :: "gap_codegen \<Rightarrow> LOperand \<Rightarrow> int" where
  "ToOperand cg op =
     (if needs_eager_frame cg then StackSlotOffset (op_index op) else ArgumentsOffsetWithoutFrame (op_index op))"

definition IsSmiConstant :: "gap_codegen \<Rightarrow> LOperand \<Rightarrow> bool" where
  "IsSmiConstant cg op \<longleftrightarrow> gc_representation (lookup_constant cg op) = kSmi"

definition IsInteger32Constant :: "gap_codegen \<Rightarrow> LOperand \<Rightarrow> bool" where
  "IsInteger32Constant cg op \<longleftrightarrow> IsSmiOrInteger32 (gc_representation (lookup_constant cg op))"

text \<open>A Smi is an integer in the upper half of a word.\<close>

definition ToSmi :: "gap_codegen \<Rightarrow> LOperand \<Rightarrow> 64 word" where
  "ToSmi cg op = push_bit 32 (scast (gc_integer32 (lookup_constant cg op)))"

section \<open>Instructions\<close>

text \<open>Memory is addressed by the offset in the frame. \<open>MoveReg\<close> stands for \<^verbatim>\<open>Move(Register, Smi*)\<close> and
  \<^verbatim>\<open>Move(Register, Handle)\<close>; \<open>MoveMemSmi\<close>, which is \<^verbatim>\<open>Move(Operand, Smi*)\<close>, may build the word in the scratch register.\<close>

datatype instr =
    MovpRegReg nat nat | MovpMemReg int nat | MovpRegMem nat int | Xchgq nat nat
  | Movaps nat nat | MovsdXmmMem nat int | MovsdMemXmm int nat
  | MoveReg nat "64 word" | SetReg nat "64 word" | MoveMemSmi int "64 word" | MovpMemImm int int32
  | Xorps nat | MovqXmmReg nat nat

datatype location = RegL nat | XmmL nat | MemL int

type_synonym machine = "location \<Rightarrow> 64 word"

primrec exec_instr :: "instr \<Rightarrow> machine \<Rightarrow> machine" where
  "exec_instr (MovpRegReg d s) m = m(RegL d := m (RegL s))"
| "exec_instr (MovpMemReg d s) m = m(MemL d := m (RegL s))"
| "exec_instr (MovpRegMem d s) m = m(RegL d := m (MemL s))"
| "exec_instr (Xchgq d s) m = m(RegL d := m (RegL s), RegL s := m (RegL d))"
| "exec_instr (Movaps d s) m = m(XmmL d := m (XmmL s))"
| "exec_instr (MovsdXmmMem d s) m = m(XmmL d := m (MemL s))"
| "exec_instr (MovsdMemXmm d s) m = m(MemL d := m (XmmL s))"
| "exec_instr (MoveReg d w) m = m(RegL d := w)"
| "exec_instr (SetReg d w) m = m(RegL d := w)"
| "exec_instr (MoveMemSmi d w) m = m(RegL kScratchRegister := w, MemL d := w)"
| "exec_instr (MovpMemImm d i) m = m(MemL d := scast i)"
| "exec_instr (Xorps d) m = m(XmmL d := 0)"
| "exec_instr (MovqXmmReg d s) m = m(XmmL d := m (RegL s))"

definition exec :: "instr list \<Rightarrow> machine \<Rightarrow> machine" where
  "exec code m = fold exec_instr code m"

section \<open>Emission\<close>

definition emit_constant :: "gap_codegen \<Rightarrow> LOperand \<Rightarrow> LOperand \<Rightarrow> instr list option" where
  "emit_constant cg source destination =
     (let c = lookup_constant cg source
      in if IsRegister destination then do {
           dst \<leftarrow> ToRegister destination;
           Some [if IsSmiConstant cg source then MoveReg dst (ToSmi cg source)
                 else if IsInteger32Constant cg source
                 then if gc_dehoisted_key c then SetReg dst (scast (gc_integer32 c)) else SetReg dst (ucast (gc_integer32 c))
                 else MoveReg dst (gc_object c)]
         }
         else if IsDoubleRegister destination then do {
           dst \<leftarrow> ToDoubleRegister destination;
           Some (if gc_double c = 0 then [Xorps dst] else [SetReg kScratchRegister (gc_double c), MovqXmmReg dst kScratchRegister])
         }
         else
           let dst = ToOperand cg destination
           in Some (if IsSmiConstant cg source then [MoveMemSmi dst (ToSmi cg source)]
                    else if IsInteger32Constant cg source then [MovpMemImm dst (gc_integer32 c)]
                    else [MoveReg kScratchRegister (gc_object c), MovpMemReg dst kScratchRegister]))"

definition emit_move :: "gap_codegen \<Rightarrow> LOperand \<Rightarrow> LOperand \<Rightarrow> instr list option" where
  "emit_move cg source destination =
     (if IsRegister source then do {
        src \<leftarrow> ToRegister source;
        if IsRegister destination then do {dst \<leftarrow> ToRegister destination; Some [MovpRegReg dst src]}
        else Some [MovpMemReg (ToOperand cg destination) src]
      }
      else if IsStackSlot source then
        (let src = ToOperand cg source
         in if IsRegister destination then do {dst \<leftarrow> ToRegister destination; Some [MovpRegMem dst src]}
            else Some [MovpRegMem kScratchRegister src, MovpMemReg (ToOperand cg destination) kScratchRegister])
      else if IsConstantOperand source then emit_constant cg source destination
      else if IsDoubleRegister source then do {
        src \<leftarrow> ToDoubleRegister source;
        if IsDoubleRegister destination then do {dst \<leftarrow> ToDoubleRegister destination; Some [Movaps dst src]}
        else Some [MovsdMemXmm (ToOperand cg destination) src]
      }
      else if IsDoubleStackSlot source then
        (let src = ToOperand cg source
         in if IsDoubleRegister destination then do {dst \<leftarrow> ToDoubleRegister destination; Some [MovsdXmmMem dst src]}
            else Some [MovsdXmmMem xmm0 src, MovsdMemXmm (ToOperand cg destination) xmm0])
      else None)"

definition emit_swap :: "gap_codegen \<Rightarrow> LOperand \<Rightarrow> LOperand \<Rightarrow> instr list option" where
  "emit_swap cg source destination =
     (if IsRegister source \<and> IsRegister destination then do {
        src \<leftarrow> ToRegister source;
        dst \<leftarrow> ToRegister destination;
        Some [Xchgq dst src]
      }
      else if IsRegister source \<and> IsStackSlot destination \<or> IsStackSlot source \<and> IsRegister destination then do {
        reg \<leftarrow> ToRegister (if IsRegister source then source else destination);
        let mem = ToOperand cg (if IsRegister source then destination else source);
        Some [MovpRegMem kScratchRegister mem, MovpMemReg mem reg, MovpRegReg reg kScratchRegister]
      }
      else if IsStackSlot source \<and> IsStackSlot destination \<or> IsDoubleStackSlot source \<and> IsDoubleStackSlot destination
      then
        (let src = ToOperand cg source; dst = ToOperand cg destination
         in Some [MovsdXmmMem xmm0 src, MovpRegMem kScratchRegister dst, MovsdMemXmm dst xmm0, MovpMemReg src kScratchRegister])
      else if IsDoubleRegister source \<and> IsDoubleRegister destination then do {
        src \<leftarrow> ToDoubleRegister source;
        dst \<leftarrow> ToDoubleRegister destination;
        Some [Movaps xmm0 src, Movaps src dst, Movaps dst xmm0]
      }
      else if IsDoubleRegister source \<or> IsDoubleRegister destination then do {
        reg \<leftarrow> ToDoubleRegister (if IsDoubleRegister source then source else destination);
        let mem = ToOperand cg (if IsDoubleRegister source then destination else source);
        Some [MovsdXmmMem xmm0 mem, MovsdMemXmm mem reg, Movaps reg xmm0]
      }
      else None)"

section \<open>The resolver\<close>

text \<open>The moves not yet resolved and the code emitted so far.\<close>

record gap_resolver =
  gr_moves :: "LMoveOperands list"
  gr_code :: "instr list"

definition update_move :: "nat \<Rightarrow> (LMoveOperands \<Rightarrow> LMoveOperands) \<Rightarrow> gap_resolver \<Rightarrow> gap_resolver" where
  "update_move i f s = s\<lparr>gr_moves := (gr_moves s)[i := f (gr_moves s ! i)]\<rparr>"

definition EmitMove :: "gap_codegen \<Rightarrow> nat \<Rightarrow> gap_resolver \<Rightarrow> gap_resolver option" where
  "EmitMove cg index s = do {
     source \<leftarrow> mv_source (gr_moves s ! index);
     destination \<leftarrow> mv_destination (gr_moves s ! index);
     code \<leftarrow> emit_move cg source destination;
     Some (update_move index Eliminate (s\<lparr>gr_code := gr_code s @ code\<rparr>))
   }"

definition swap_source :: "LOperand \<Rightarrow> LOperand \<Rightarrow> LMoveOperands \<Rightarrow> LMoveOperands" where
  "swap_source source destination m =
     (if Blocks source m then m\<lparr>mv_source := Some destination\<rparr>
      else if Blocks destination m then m\<lparr>mv_source := Some source\<rparr>
      else m)"

definition EmitSwap :: "gap_codegen \<Rightarrow> nat \<Rightarrow> gap_resolver \<Rightarrow> gap_resolver option" where
  "EmitSwap cg index s = do {
     source \<leftarrow> mv_source (gr_moves s ! index);
     destination \<leftarrow> mv_destination (gr_moves s ! index);
     code \<leftarrow> emit_swap cg source destination;
     let s = update_move index Eliminate (s\<lparr>gr_code := gr_code s @ code\<rparr>);
     Some (s\<lparr>gr_moves := map (swap_source source destination) (gr_moves s)\<rparr>)
   }"

primrec perform_blocking ::
  "(nat \<Rightarrow> gap_resolver \<Rightarrow> gap_resolver option) \<Rightarrow> LOperand \<Rightarrow> nat list \<Rightarrow> gap_resolver \<Rightarrow> gap_resolver option" where
  "perform_blocking perform destination [] s = Some s"
| "perform_blocking perform destination (i # is) s = do {
     let other_move = gr_moves s ! i;
     s \<leftarrow> (if Blocks destination other_move \<and> \<not> IsPending other_move then perform i s else Some s);
     perform_blocking perform destination is s
   }"

text \<open>Every call of the recursion has one more move pending, so that the number of moves bounds its depth.\<close>

primrec PerformMove :: "gap_codegen \<Rightarrow> nat \<Rightarrow> nat \<Rightarrow> gap_resolver \<Rightarrow> gap_resolver option" where
  "PerformMove cg 0 index s = None"
| "PerformMove cg (Suc depth) index s = do {
     destination \<leftarrow> mv_destination (gr_moves s ! index);
     let s = update_move index (mv_destination_update (\<lambda>_. None)) s;
     s \<leftarrow> perform_blocking (PerformMove cg depth) destination [0..<length (gr_moves s)] s;
     let s = update_move index (mv_destination_update (\<lambda>_. Some destination)) s;
     source \<leftarrow> mv_source (gr_moves s ! index);
     if op_Equals source destination then Some (update_move index Eliminate s)
     else if list_ex (Blocks destination) (gr_moves s) then EmitSwap cg index s
     else EmitMove cg index s
   }"

fun BuildInitialMoveList :: "LParallelMove \<Rightarrow> LMoveOperands list option" where
  "BuildInitialMoveList [] = Some []"
| "BuildInitialMoveList (m # ms) = do {
     redundant \<leftarrow> IsRedundant m;
     moves \<leftarrow> BuildInitialMoveList ms;
     Some (if redundant then moves else m # moves)
   }"

primrec perform_moves :: "gap_codegen \<Rightarrow> nat list \<Rightarrow> gap_resolver \<Rightarrow> gap_resolver option" where
  "perform_moves cg [] s = Some s"
| "perform_moves cg (i # is) s = do {
     s \<leftarrow> (case mv_source (gr_moves s ! i) of
             Some source \<Rightarrow>
               if \<not> IsConstantOperand source then PerformMove cg (Suc (length (gr_moves s))) i s else Some s
           | None \<Rightarrow> Some s);
     perform_moves cg is s
   }"

primrec emit_constants :: "gap_codegen \<Rightarrow> nat list \<Rightarrow> gap_resolver \<Rightarrow> gap_resolver option" where
  "emit_constants cg [] s = Some s"
| "emit_constants cg (i # is) s = do {
     s \<leftarrow> (if IsEliminated (gr_moves s ! i) then Some s else EmitMove cg i s);
     emit_constants cg is s
   }"

text \<open>The moves are emptied at the end, so that what counts is the code.\<close>

definition Resolve :: "gap_codegen \<Rightarrow> LParallelMove \<Rightarrow> instr list option" where
  "Resolve cg parallel_move = do {
     moves \<leftarrow> BuildInitialMoveList parallel_move;
     let s = \<lparr>gr_moves = moves, gr_code = []\<rparr>;
     s \<leftarrow> perform_moves cg [0..<length moves] s;
     s \<leftarrow> emit_constants cg [0..<length moves] s;
     Some (gr_code s)
   }"

end
