(* ===== verification/GapResolverCorrect.thy ===== *)
theory GapResolverCorrect
  imports GapResolver
begin

text \<open>
  The gap resolver is correct: the code it emits for a parallel move gives every destination the value that its
  source had before the gap, and changes nothing else but the scratch registers. In particular it returns, and
  its recursion is no deeper than the number of moves.
\<close>

section \<open>Locations\<close>

definition location_of :: "gap_codegen \<Rightarrow> LOperand \<Rightarrow> location" where
  "location_of cg op =
     (if IsRegister op then RegL (kRegisterCodeByAllocationIndex ! nat (op_index op))
      else if IsDoubleRegister op then XmmL (nat (op_index op) + 1)
      else MemL (ToOperand cg op))"

definition general :: "LOperand \<Rightarrow> bool" where
  "general op \<longleftrightarrow> IsRegister op \<or> IsStackSlot op"

definition movable :: "LOperand \<Rightarrow> bool" where
  "movable op \<longleftrightarrow>
     IsRegister op \<and> 0 \<le> op_index op \<and> op_index op < 11 \<or> IsDoubleRegister op \<and> 0 \<le> op_index op \<and> op_index op < 15 \<or>
     IsStackSlot op \<or> IsDoubleStackSlot op"

definition scratch :: "location set" where
  "scratch = {RegL kScratchRegister, XmmL xmm0}"

definition agree :: "machine \<Rightarrow> machine \<Rightarrow> bool" where
  "agree m m' \<longleftrightarrow> (\<forall>l. l \<notin> scratch \<longrightarrow> m l = m' l)"

lemma has_kind_unique: "has_kind k op \<Longrightarrow> has_kind k' op \<longleftrightarrow> k' = k"
  by (auto simp: has_kind_def kind_code_inject)

lemma register_codes:
  assumes "0 \<le> i" "i < 11"
  shows "kRegisterCodeByAllocationIndex ! nat i \<in> {0, 3, 2, 1, 6, 7, 8, 9, 11, 14, 15}"
proof -
  have "kRegisterCodeByAllocationIndex ! nat i \<in> set kRegisterCodeByAllocationIndex"
    using assms by (intro nth_mem) (simp add: kRegisterCodeByAllocationIndex_def)
  then show ?thesis by (simp add: kRegisterCodeByAllocationIndex_def)
qed

lemma location_not_scratch: "movable op \<Longrightarrow> location_of cg op \<notin> scratch"
  using register_codes [of "op_index op"]
  by (auto simp: movable_def location_of_def scratch_def kScratchRegister_def xmm0_def has_kind_unique)

lemma exec_simps [simp]: "exec [] m = m" "exec (i # is) m = exec is (exec_instr i m)"
  by (simp_all add: exec_def)

lemma exec_append [simp]: "exec (xs @ ys) m = exec ys (exec xs m)"
  by (simp add: exec_def)

lemma movable_cases:
  assumes "movable op"
  obtains "IsRegister op" "ToRegister op = Some (kRegisterCodeByAllocationIndex ! nat (op_index op))"
      "location_of cg op = RegL (kRegisterCodeByAllocationIndex ! nat (op_index op))" "general op"
      "kRegisterCodeByAllocationIndex ! nat (op_index op) \<noteq> kScratchRegister"
    | "IsDoubleRegister op" "ToDoubleRegister op = Some (nat (op_index op) + 1)" "location_of cg op = XmmL (nat (op_index op) + 1)"
      "\<not> general op"
    | "IsStackSlot op" "location_of cg op = MemL (ToOperand cg op)" "general op"
    | "IsDoubleStackSlot op" "location_of cg op = MemL (ToOperand cg op)" "\<not> general op"
  using assms that register_codes [of "op_index op"]
  by (auto simp: movable_def ToRegister_def ToDoubleRegister_def location_of_def general_def has_kind_unique kScratchRegister_def)

section \<open>Single moves and swaps\<close>

lemma emit_move_effect:
  assumes "movable source" "movable destination" "general source = general destination"
  shows "\<exists>code. emit_move cg source destination = Some code \<and>
    (\<forall>m. agree (exec code m) (m(location_of cg destination := m (location_of cg source))))"
  using assms(1)
proof (cases source rule: movable_cases [where cg = cg])
  case 1
  from assms(2) show ?thesis
    by (cases destination rule: movable_cases [where cg = cg])
      (use 1 assms(3) in \<open>auto simp: emit_move_def has_kind_unique agree_def scratch_def\<close>)
next
  case 2
  from assms(2) show ?thesis
    by (cases destination rule: movable_cases [where cg = cg])
      (use 2 assms(3) in \<open>auto simp: emit_move_def has_kind_unique agree_def scratch_def\<close>)
next
  case 3
  from assms(2) show ?thesis
    by (cases destination rule: movable_cases [where cg = cg])
      (use 3 assms(3) in \<open>auto simp: emit_move_def has_kind_unique agree_def scratch_def\<close>)
next
  case 4
  from assms(2) show ?thesis
    by (cases destination rule: movable_cases [where cg = cg])
      (use 4 assms(3) in \<open>auto simp: emit_move_def has_kind_unique agree_def scratch_def\<close>)
qed

lemma emit_swap_effect:
  assumes "movable source" "movable destination" "general source = general destination"
  shows "\<exists>code. emit_swap cg source destination = Some code \<and>
    (\<forall>m. agree (exec code m)
      (m(location_of cg destination := m (location_of cg source), location_of cg source := m (location_of cg destination))))"
  using assms(1)
proof (cases source rule: movable_cases [where cg = cg])
  case 1
  from assms(2) show ?thesis
    by (cases destination rule: movable_cases [where cg = cg])
      (use 1 assms(3) in \<open>auto simp: emit_swap_def Let_def has_kind_unique agree_def scratch_def\<close>)
next
  case 2
  from assms(2) show ?thesis
    by (cases destination rule: movable_cases [where cg = cg])
      (use 2 assms(3) in \<open>auto simp: emit_swap_def Let_def has_kind_unique agree_def scratch_def xmm0_def\<close>)
next
  case 3
  from assms(2) show ?thesis
    by (cases destination rule: movable_cases [where cg = cg])
      (use 3 assms(3) in \<open>auto simp: emit_swap_def Let_def has_kind_unique agree_def scratch_def\<close>)
next
  case 4
  from assms(2) show ?thesis
    by (cases destination rule: movable_cases [where cg = cg])
      (use 4 assms(3) in \<open>auto simp: emit_swap_def Let_def has_kind_unique agree_def scratch_def xmm0_def\<close>)
qed

text \<open>The word a constant has depends on where it goes: an integer is extended by zeros in a register, unless it is a
  dehoisted key, and by its sign in the frame.\<close>

definition constant_word :: "gap_codegen \<Rightarrow> LOperand \<Rightarrow> LOperand \<Rightarrow> 64 word" where
  "constant_word cg source destination =
     (let c = lookup_constant cg source
      in if IsDoubleRegister destination then gc_double c
         else if gc_representation c = kSmi then push_bit 32 (scast (gc_integer32 c))
         else if gc_representation c = kInteger32
         then if IsRegister destination \<and> \<not> gc_dehoisted_key c then ucast (gc_integer32 c) else scast (gc_integer32 c)
         else gc_object c)"

lemma emit_constant_effect:
  assumes "IsConstantOperand source" "movable destination"
  shows "\<exists>code. emit_move cg source destination = Some code \<and>
    (\<forall>m. agree (exec code m) (m(location_of cg destination := constant_word cg source destination)))"
  using assms(2)
proof (cases destination rule: movable_cases [where cg = cg])
qed (use assms(1) in \<open>auto simp: emit_move_def emit_constant_def Let_def has_kind_unique agree_def scratch_def constant_word_def
      IsSmiConstant_def IsInteger32Constant_def IsSmiOrInteger32_def ToSmi_def\<close>)


section \<open>States of the resolution\<close>

text \<open>A state of the resolver is described by the moves \<open>F\<close> with all destinations, and by the stack \<open>P\<close> of the moves
  that are pending, the one performed last first. The resolver has the moves \<open>hide P F\<close>.\<close>

abbreviation source_at :: "LMoveOperands list \<Rightarrow> nat \<Rightarrow> LOperand option" where
  "source_at F j \<equiv> mv_source (F ! j)"

abbreviation destination_at :: "LMoveOperands list \<Rightarrow> nat \<Rightarrow> LOperand option" where
  "destination_at F j \<equiv> mv_destination (F ! j)"

definition hide :: "nat list \<Rightarrow> LMoveOperands list \<Rightarrow> LMoveOperands list" where
  "hide P F = map (\<lambda>j. if j \<in> set P then mv_destination_update (\<lambda>_. None) (F ! j) else F ! j) [0..<length F]"

definition operand_set :: "gap_codegen \<Rightarrow> LOperand set \<Rightarrow> bool" where
  "operand_set cg ops \<longleftrightarrow> (\<forall>op\<in>ops. movable op) \<and> inj_on (location_of cg) ops"

definition well_formed :: "LOperand set \<Rightarrow> LMoveOperands list \<Rightarrow> bool" where
  "well_formed ops F \<longleftrightarrow>
     (\<forall>j<length F. source_at F j = None \<and> destination_at F j = None \<or>
       (\<exists>s d. source_at F j = Some s \<and> destination_at F j = Some d \<and> d \<in> ops \<and>
          (IsConstantOperand s \<or> s \<in> ops \<and> general s = general d))) \<and>
     (\<forall>i<length F. \<forall>j<length F. i \<noteq> j \<longrightarrow> destination_at F i \<noteq> None \<longrightarrow> destination_at F i \<noteq> destination_at F j)"

text \<open>A pending move reads what the move below it on the stack overwrites.\<close>

fun stacked :: "LMoveOperands list \<Rightarrow> nat list \<Rightarrow> bool" where
  "stacked F (p # q # P) \<longleftrightarrow> source_at F p = destination_at F q \<and> stacked F (q # P)"
| "stacked F P \<longleftrightarrow> True"

definition pending_stack :: "LMoveOperands list \<Rightarrow> nat list \<Rightarrow> bool" where
  "pending_stack F P \<longleftrightarrow> distinct P \<and> (\<forall>p\<in>set P. p < length F \<and> source_at F p \<noteq> None) \<and> stacked F P"

text \<open>What performing moves above the stack \<open>P\<close> leaves: moves disappear; the pending ones stay, and only the source of
  the one at the bottom may change; a move that is not pending keeps its source or has one that nothing overwrites.\<close>

definition steps :: "nat list \<Rightarrow> LMoveOperands list \<Rightarrow> LMoveOperands list \<Rightarrow> bool" where
  "steps P F F' \<longleftrightarrow>
     length F' = length F \<and>
     (\<forall>j<length F. source_at F j = None \<longrightarrow> source_at F' j = None) \<and>
     (\<forall>j<length F. destination_at F' j = None \<or> destination_at F' j = destination_at F j) \<and>
     (\<forall>j\<in>set P. source_at F' j \<noteq> None) \<and>
     (\<forall>j\<in>set (butlast P). source_at F' j = source_at F j) \<and>
     (\<forall>j<length F. j \<notin> set P \<longrightarrow> source_at F' j = None \<or> source_at F' j = source_at F j \<or>
       (\<forall>k<length F. destination_at F' k \<noteq> source_at F' j)) \<and>
     (\<forall>j<length F. \<forall>s s'. source_at F j = Some s \<longrightarrow> source_at F' j = Some s' \<longrightarrow>
       IsConstantOperand s \<or> IsConstantOperand s' \<longrightarrow> s = s')"

text \<open>What the moves still have to do: \<open>T\<close> is the state of the machine in which the resolution ends.\<close>

definition operand_value :: "gap_codegen \<Rightarrow> LOperand \<Rightarrow> LOperand \<Rightarrow> machine \<Rightarrow> 64 word" where
  "operand_value cg source destination m =
     (if IsConstantOperand source then constant_word cg source destination else m (location_of cg source))"

definition leads_to :: "gap_codegen \<Rightarrow> LMoveOperands list \<Rightarrow> machine \<Rightarrow> machine \<Rightarrow> bool" where
  "leads_to cg F T m \<longleftrightarrow>
     (\<forall>j<length F. \<forall>s d. source_at F j = Some s \<longrightarrow> destination_at F j = Some d \<longrightarrow>
       T (location_of cg d) = operand_value cg s d m) \<and>
     (\<forall>l. l \<notin> scratch \<longrightarrow> (\<forall>j<length F. \<forall>d. destination_at F j = Some d \<longrightarrow> location_of cg d \<noteq> l) \<longrightarrow> T l = m l)"

definition performed ::
  "gap_codegen \<Rightarrow> LOperand set \<Rightarrow> nat list \<Rightarrow> LMoveOperands list \<Rightarrow> gap_resolver \<Rightarrow> LMoveOperands list \<Rightarrow> gap_resolver \<Rightarrow> bool"
where
  "performed cg ops P F s F' s' \<longleftrightarrow>
     gr_moves s' = hide P F' \<and> well_formed ops F' \<and> steps P F F' \<and>
     (\<exists>code. gr_code s' = gr_code s @ code \<and> (\<forall>T m. leads_to cg F T m \<longrightarrow> leads_to cg F' T (exec code m)))"

lemma length_hide [simp]: "length (hide P F) = length F"
  by (simp add: hide_def)

lemma nth_hide: "j < length F \<Longrightarrow> hide P F ! j = (if j \<in> set P then mv_destination_update (\<lambda>_. None) (F ! j) else F ! j)"
  by (simp add: hide_def)

lemma source_hide [simp]: "j < length F \<Longrightarrow> source_at (hide P F) j = source_at F j"
  by (simp add: nth_hide)

lemma hide_Nil [simp]: "hide [] F = F"
  by (rule nth_equalityI) (simp_all add: nth_hide)

lemma well_formedD:
  assumes "well_formed ops F" "j < length F" "source_at F j = Some s"
  obtains d where "destination_at F j = Some d" "d \<in> ops" "IsConstantOperand s \<or> s \<in> ops \<and> general s = general d"
proof -
  from assms(1,2) have "source_at F j = None \<and> destination_at F j = None \<or>
       (\<exists>s d. source_at F j = Some s \<and> destination_at F j = Some d \<and> d \<in> ops \<and>
          (IsConstantOperand s \<or> s \<in> ops \<and> general s = general d))"
    unfolding well_formed_def by blast
  with assms(3) that show thesis by auto
qed

lemma well_formed_active:
  "well_formed ops F \<Longrightarrow> j < length F \<Longrightarrow> (destination_at F j = None) = (source_at F j = None)"
  unfolding well_formed_def by fastforce

lemma well_formed_destinations:
  "well_formed ops F \<Longrightarrow> i < length F \<Longrightarrow> j < length F \<Longrightarrow> destination_at F i = Some d \<Longrightarrow> destination_at F j = Some d \<Longrightarrow> i = j"
  unfolding well_formed_def by (metis option.discI)

lemma stacked_below:
  "stacked F P \<Longrightarrow> j \<in> set (butlast P) \<Longrightarrow> \<exists>q\<in>set (tl P). source_at F j = destination_at F q"
  by (induction F P rule: stacked.induct) (auto split: if_splits)

lemma stacked_cong:
  assumes "stacked F P" "\<forall>j\<in>set (butlast P). source_at F' j = source_at F j" "\<forall>j\<in>set P. destination_at F' j = destination_at F j"
  shows "stacked F' P"
  using assms by (induction F P rule: stacked.induct) auto

lemma steps_refl: "\<forall>j\<in>set P. source_at F j \<noteq> None \<Longrightarrow> steps P F F"
  by (simp add: steps_def)

lemma steps_destination:
  assumes "steps P F F'" "well_formed ops F'" "j \<in> set P" "j < length F"
  shows "destination_at F' j = destination_at F j" "destination_at F' j \<noteq> None"
proof -
  have "length F' = length F" "source_at F' j \<noteq> None"
    using assms(1,3) by (simp_all add: steps_def)
  then show "destination_at F' j \<noteq> None"
    using assms(2,4) well_formed_active [of ops F' j] by metis
  then show "destination_at F' j = destination_at F j"
    using assms(1,4) unfolding steps_def by metis
qed

lemma stepsD:
  assumes "steps P F F'" "j < length F"
  shows "length F' = length F" "source_at F j = None \<Longrightarrow> source_at F' j = None"
    "destination_at F' j = None \<or> destination_at F' j = destination_at F j"
    "j \<in> set P \<Longrightarrow> source_at F' j \<noteq> None" "j \<in> set (butlast P) \<Longrightarrow> source_at F' j = source_at F j"
    "j \<notin> set P \<Longrightarrow> source_at F' j = None \<or> source_at F' j = source_at F j \<or>
       (\<forall>k<length F. destination_at F' k \<noteq> source_at F' j)"
    "source_at F j = Some s \<Longrightarrow> source_at F' j = Some s' \<Longrightarrow> IsConstantOperand s \<or> IsConstantOperand s' \<Longrightarrow> s = s'"
  using assms unfolding steps_def by blast+

lemma stepsI:
  assumes "length F' = length F"
    and "\<And>j. j < length F \<Longrightarrow> source_at F j = None \<Longrightarrow> source_at F' j = None"
    and "\<And>j. j < length F \<Longrightarrow> destination_at F' j = None \<or> destination_at F' j = destination_at F j"
    and "\<And>j. j \<in> set P \<Longrightarrow> source_at F' j \<noteq> None"
    and "\<And>j. j \<in> set (butlast P) \<Longrightarrow> source_at F' j = source_at F j"
    and "\<And>j. j < length F \<Longrightarrow> j \<notin> set P \<Longrightarrow> source_at F' j = None \<or> source_at F' j = source_at F j \<or>
       (\<forall>k<length F. destination_at F' k \<noteq> source_at F' j)"
    and "\<And>j s s'. j < length F \<Longrightarrow> source_at F j = Some s \<Longrightarrow> source_at F' j = Some s' \<Longrightarrow>
       IsConstantOperand s \<or> IsConstantOperand s' \<Longrightarrow> s = s'"
  shows "steps P F F'"
  using assms unfolding steps_def by blast

lemma steps_trans:
  assumes "steps P F F1" "steps P F1 F2" "set P \<subseteq> {..<length F}"
  shows "steps P F F2"
proof (rule stepsI)
  have l: "length F1 = length F" "length F2 = length F" using assms by (simp_all add: steps_def)
  show "length F2 = length F" by fact
  fix j
  show "source_at F2 j = source_at F j" if "j \<in> set (butlast P)"
    using assms(1,2) that unfolding steps_def by metis
  show "source_at F2 j \<noteq> None" if "j \<in> set P"
    using assms(2) that unfolding steps_def by blast
  assume j: "j < length F"
  note 1 = stepsD [OF assms(1) j]
  have j1: "j < length F1" using j l by simp
  note 2 = stepsD [OF assms(2) j1]
  show "source_at F2 j = None" if "source_at F j = None" using 1(2) 2(2) that by blast
  show "destination_at F2 j = None \<or> destination_at F2 j = destination_at F j" using 1(3) 2(3) by metis
  show "source_at F2 j = None \<or> source_at F2 j = source_at F j \<or> (\<forall>k<length F. destination_at F2 k \<noteq> source_at F2 j)"
    if "j \<notin> set P"
  proof (cases "source_at F1 j = None \<or> source_at F2 j = None")
    case True
    then show ?thesis using 2(2) by blast
  next
    case False
    have "\<forall>k<length F. destination_at F2 k = None \<or> destination_at F2 k = destination_at F1 k"
      using stepsD(3) [OF assms(2)] l by simp
    then show ?thesis using 1(6) [OF that] 2(6) [OF that] False l by metis
  qed
  show "s = s'" if s: "source_at F j = Some s" "source_at F2 j = Some s'" "IsConstantOperand s \<or> IsConstantOperand s'" for s s'
  proof -
    obtain t where "source_at F1 j = Some t" using s(2) 2(2) by fastforce
    then show ?thesis using 1(7) [OF s(1)] 2(7) [OF _ s(2)] s(3) by blast
  qed
qed

lemma pending_stack_steps:
  assumes "pending_stack F P" "steps P F F'" "well_formed ops F'"
  shows "pending_stack F' P"
proof -
  have "\<forall>j\<in>set P. destination_at F' j = destination_at F j"
    using assms steps_destination [OF assms(2,3)] by (simp add: pending_stack_def)
  then have "stacked F' P"
    using assms by (intro stacked_cong [of F P F']) (auto simp: pending_stack_def steps_def)
  then show ?thesis using assms by (auto simp: pending_stack_def steps_def)
qed

lemma performed_refl:
  "gr_moves s = hide P F \<Longrightarrow> well_formed ops F \<Longrightarrow> pending_stack F P \<Longrightarrow> performed cg ops P F s F s"
  by (auto simp: performed_def pending_stack_def intro!: steps_refl exI [of _ "[]"])

lemma performed_trans:
  assumes "performed cg ops P F s F1 s1" "performed cg ops P F1 s1 F2 s2" "set P \<subseteq> {..<length F}"
  shows "performed cg ops P F s F2 s2"
proof -
  obtain c1 c2 where "gr_code s1 = gr_code s @ c1" "\<forall>T m. leads_to cg F T m \<longrightarrow> leads_to cg F1 T (exec c1 m)"
    "gr_code s2 = gr_code s1 @ c2" "\<forall>T m. leads_to cg F1 T m \<longrightarrow> leads_to cg F2 T (exec c2 m)"
    using assms unfolding performed_def by blast
  then have "gr_code s2 = gr_code s @ (c1 @ c2) \<and> (\<forall>T m. leads_to cg F T m \<longrightarrow> leads_to cg F2 T (exec (c1 @ c2) m))"
    by simp
  then show ?thesis
    using assms steps_trans unfolding performed_def by blast
qed

lemma leads_to_agree:
  assumes "leads_to cg F T m" "agree m m'" "well_formed ops F" "operand_set cg ops"
  shows "leads_to cg F T m'"
proof -
  have "operand_value cg s d m' = operand_value cg s d m" if "j < length F" "source_at F j = Some s" for j s d
  proof (cases "IsConstantOperand s")
    case False
    then have "s \<in> ops" using that assms(3) by (auto elim: well_formedD)
    then have "location_of cg s \<notin> scratch"
      using assms(4) by (auto simp: operand_set_def location_not_scratch)
    then show ?thesis using assms(2) False by (simp add: operand_value_def agree_def)
  qed (simp add: operand_value_def)
  then show ?thesis
    using assms(1,2) unfolding leads_to_def agree_def by metis
qed

section \<open>The end of a move\<close>

abbreviation drop_move :: "nat \<Rightarrow> LMoveOperands list \<Rightarrow> LMoveOperands list" where
  "drop_move i F \<equiv> F[i := Eliminate (F ! i)]"

lemma hide_pending:
  "i < length F \<Longrightarrow> (hide P F)[i := mv_destination_update (\<lambda>_. None) (hide P F ! i)] = hide (i # P) F"
  by (rule nth_equalityI) (auto simp: nth_hide nth_list_update)

lemma hide_restore:
  assumes "i < length F" "i \<notin> set P" "destination_at F i = Some d"
  shows "(hide (i # P) F)[i := mv_destination_update (\<lambda>_. Some d) (hide (i # P) F ! i)] = hide P F"
  using assms by (intro nth_equalityI) (auto simp: nth_hide nth_list_update)

lemma hide_Eliminate:
  "i < length F \<Longrightarrow> (hide P F)[i := Eliminate (hide P F ! i)] = hide P (drop_move i F)"
  by (rule nth_equalityI) (auto simp: nth_hide nth_list_update Eliminate_def)

lemma hide_swap: "map (swap_source s d) (hide P F) = hide P (map (swap_source s d) F)"
  by (rule nth_equalityI) (auto simp: nth_hide swap_source_def Blocks_def split: option.splits)

lemma Blocks_source: "Blocks d m \<longleftrightarrow> mv_source m = Some d"
  by (auto simp: Blocks_def op_Equals_def split: option.splits)

lemma well_formed_drop: "well_formed ops F \<Longrightarrow> well_formed ops (drop_move i F)"
  by (cases "i < length F") (auto simp: well_formed_def nth_list_update Eliminate_def)

lemma steps_drop:
  assumes "steps (i # P) F F1" "i < length F" "i \<notin> set P"
  shows "steps P F (drop_move i F1)"
proof (rule stepsI)
  have l: "length F1 = length F" using assms by (simp add: steps_def)
  show "length (drop_move i F1) = length F" using l by simp
  fix j
  show "source_at (drop_move i F1) j = source_at F j" if "j \<in> set (butlast P)"
  proof -
    have "j \<in> set (butlast (i # P))" "j \<noteq> i" using that assms(3) by (auto dest: in_set_butlastD)
    then show ?thesis using assms(1) unfolding steps_def by simp
  qed
  show "source_at (drop_move i F1) j \<noteq> None" if "j \<in> set P"
  proof -
    have "j \<in> set (i # P)" "j \<noteq> i" using that assms(3) by auto
    then show ?thesis using assms(1) unfolding steps_def by simp
  qed
  assume j: "j < length F"
  note 1 = stepsD [OF assms(1) j]
  show "source_at (drop_move i F1) j = None" if "source_at F j = None"
    using 1(2) [OF that] assms(2) l by (cases "j = i") (simp_all add: Eliminate_def)
  show "destination_at (drop_move i F1) j = None \<or> destination_at (drop_move i F1) j = destination_at F j"
    using 1(3) assms(2) l by (cases "j = i") (simp_all add: Eliminate_def)
  show "source_at (drop_move i F1) j = None \<or> source_at (drop_move i F1) j = source_at F j \<or>
      (\<forall>k<length F. destination_at (drop_move i F1) k \<noteq> source_at (drop_move i F1) j)" if "j \<notin> set P"
  proof (cases "j = i \<or> source_at F1 j = None")
    case True
    then show ?thesis using assms(2) l j by (auto simp: Eliminate_def nth_list_update)
  next
    case False
    then have "j \<notin> set (i # P)" using that by simp
    from 1(6) [OF this] False
    have "source_at F1 j = source_at F j \<or> (\<forall>k<length F. destination_at F1 k \<noteq> source_at F1 j)" by blast
    then show ?thesis using False assms(2) l by (auto simp: Eliminate_def nth_list_update)
  qed
  show "s = s'" if "source_at F j = Some s" "source_at (drop_move i F1) j = Some s'" "IsConstantOperand s \<or> IsConstantOperand s'"
    for s s'
    using that 1(7) assms(2) l by (cases "j = i") (auto simp: Eliminate_def)
qed

text \<open>One rule for the three ways in which a move ends.\<close>

lemma leads_to_performed:
  assumes "leads_to cg F T m" "i < length F" "source_at F i = Some s" "destination_at F i = Some d"
    and F': "length F' = length F" "source_at F' i = None" "destination_at F' i = None"
      "\<And>j. j < length F \<Longrightarrow> j \<noteq> i \<Longrightarrow> destination_at F' j = destination_at F j"
    and others: "\<And>j t e. j < length F \<Longrightarrow> j \<noteq> i \<Longrightarrow> source_at F' j = Some t \<Longrightarrow> destination_at F j = Some e \<Longrightarrow>
      \<exists>u. source_at F j = Some u \<and> operand_value cg t e m' = operand_value cg u e m"
    and this_one: "m' (location_of cg d) = operand_value cg s d m"
    and frame: "\<And>l. l \<notin> scratch \<Longrightarrow> (\<forall>j<length F. \<forall>e. destination_at F j = Some e \<longrightarrow> location_of cg e \<noteq> l) \<Longrightarrow> m' l = m l"
  shows "leads_to cg F' T m'"
  unfolding leads_to_def
proof (intro conjI allI impI)
  fix j t e
  assume j: "j < length F'" "source_at F' j = Some t" "destination_at F' j = Some e"
  then have "j \<noteq> i" "j < length F" using F' by auto
  with j F'(4) others obtain u where "source_at F j = Some u" "destination_at F j = Some e"
    "operand_value cg t e m' = operand_value cg u e m" by metis
  with assms(1) \<open>j < length F\<close> show "T (location_of cg e) = operand_value cg t e m'"
    by (simp add: leads_to_def)
next
  fix l
  assume l: "l \<notin> scratch" "\<forall>j<length F'. \<forall>e. destination_at F' j = Some e \<longrightarrow> location_of cg e \<noteq> l"
  show "T l = m' l"
  proof (cases "l = location_of cg d")
    case True
    then show ?thesis using assms(1-4) this_one by (simp add: leads_to_def)
  next
    case False
    have "\<forall>j<length F. \<forall>e. destination_at F j = Some e \<longrightarrow> location_of cg e \<noteq> l"
    proof (intro allI impI)
      fix j e
      assume "j < length F" "destination_at F j = Some e"
      then show "location_of cg e \<noteq> l"
        using False l(2) F' assms(4) by (cases "j = i") auto
    qed
    then show ?thesis using assms(1) frame l(1) by (simp add: leads_to_def)
  qed
qed

text \<open>Which operands an active move has.\<close>

lemma active_operands:
  assumes "well_formed ops F" "operand_set cg ops" "i < length F" "source_at F i = Some s" "\<not> IsConstantOperand s"
    "destination_at F i = Some d"
  shows "s \<in> ops" "d \<in> ops" "movable s" "movable d" "general s = general d" "location_of cg d \<notin> scratch"
    "location_of cg s \<notin> scratch"
proof -
  obtain e where "destination_at F i = Some e" "e \<in> ops" "IsConstantOperand s \<or> s \<in> ops \<and> general s = general e"
    using assms(1,3,4) by (rule well_formedD)
  with assms(5,6) show "s \<in> ops" "d \<in> ops" "general s = general d" by simp_all
  with assms(2) show "movable s" "movable d" "location_of cg d \<notin> scratch" "location_of cg s \<notin> scratch"
    by (simp_all add: operand_set_def location_not_scratch)
qed

lemma location_eq:
  "operand_set cg ops \<Longrightarrow> a \<in> ops \<Longrightarrow> b \<in> ops \<Longrightarrow> location_of cg a = location_of cg b \<longleftrightarrow> a = b"
  by (auto simp: operand_set_def inj_on_def)

lemma source_in_ops:
  "well_formed ops F \<Longrightarrow> j < length F \<Longrightarrow> source_at F j = Some s \<Longrightarrow> \<not> IsConstantOperand s \<Longrightarrow> s \<in> ops"
  by (auto elim: well_formedD)

lemma destination_in_ops:
  "well_formed ops F \<Longrightarrow> j < length F \<Longrightarrow> destination_at F j = Some d \<Longrightarrow> d \<in> ops"
  unfolding well_formed_def by fastforce

lemma not_constant_in_ops: "operand_set cg ops \<Longrightarrow> s \<in> ops \<Longrightarrow> \<not> IsConstantOperand s"
  by (auto simp: operand_set_def movable_def has_kind_unique)

lemma leads_to_move:
  assumes "leads_to cg F T m" "well_formed ops F" "operand_set cg ops" "i < length F" "source_at F i = Some s"
    "destination_at F i = Some d" "\<forall>j<length F. source_at F j \<noteq> Some d"
  shows "leads_to cg (drop_move i F) T (m(location_of cg d := operand_value cg s d m))"
proof (rule leads_to_performed [OF assms(1,4-6)])
  have d: "d \<in> ops" using assms by (blast intro: destination_in_ops)
  fix j t e
  assume j: "j < length F" "j \<noteq> i" "source_at (drop_move i F) j = Some t"
  then have t: "source_at F j = Some t" by simp
  have "location_of cg t \<noteq> location_of cg d" if "\<not> IsConstantOperand t"
    using that source_in_ops [OF assms(2) j(1) t] location_eq [OF assms(3) _ d] assms(7) j(1) t by blast
  then show "\<exists>u. source_at F j = Some u \<and>
      operand_value cg t e (m(location_of cg d := operand_value cg s d m)) = operand_value cg u e m"
    using t by (auto simp: operand_value_def)
qed (use assms in \<open>auto simp: Eliminate_def\<close>)

lemma leads_to_eliminate:
  assumes "leads_to cg F T m" "i < length F" "source_at F i = Some d" "destination_at F i = Some d" "\<not> IsConstantOperand d"
  shows "leads_to cg (drop_move i F) T m"
  by (rule leads_to_performed [OF assms(1-4)]) (use assms in \<open>auto simp: Eliminate_def operand_value_def\<close>)


lemma swap_source_cases:
  "mv_source (swap_source s d m) =
     (if mv_source m = Some s then Some d else if mv_source m = Some d then Some s else mv_source m)"
  by (simp add: swap_source_def Blocks_source)

lemma swap_destination [simp]: "mv_destination (swap_source s d m) = mv_destination m"
  by (simp add: swap_source_def)

lemma leads_to_swap:
  assumes "leads_to cg F T m" "well_formed ops F" "operand_set cg ops" "i < length F" "source_at F i = Some s"
    "destination_at F i = Some d" "s \<in> ops" "q < length F" "destination_at F q = Some s"
  shows "leads_to cg (map (swap_source s d) (drop_move i F)) T
    (m(location_of cg d := m (location_of cg s), location_of cg s := m (location_of cg d)))" (is "leads_to cg ?F T ?m")
proof (rule leads_to_performed [OF assms(1,4-6)])
  have d: "d \<in> ops" using assms by (blast intro: destination_in_ops)
  note not_constant = not_constant_in_ops [OF assms(3)]
  fix j t e
  assume j: "j < length F" "j \<noteq> i" "source_at ?F j = Some t"
  then have t: "Some t = (if source_at F j = Some s then Some d else if source_at F j = Some d then Some s else source_at F j)"
    by (simp add: swap_source_cases)
  show "\<exists>u. source_at F j = Some u \<and> operand_value cg t e ?m = operand_value cg u e m"
  proof (cases "source_at F j = Some s \<or> source_at F j = Some d")
    case True
    then show ?thesis
      using t not_constant [OF assms(7)] not_constant [OF d] by (auto simp: operand_value_def split: if_splits)
  next
    case False
    then have "source_at F j = Some t" "t \<noteq> s" "t \<noteq> d" using t by auto
    moreover have "location_of cg t \<noteq> location_of cg s \<and> location_of cg t \<noteq> location_of cg d" if "\<not> IsConstantOperand t"
      using that calculation source_in_ops [OF assms(2) j(1)] location_eq [OF assms(3)] assms(7) d by blast
    ultimately show ?thesis by (auto simp: operand_value_def)
  qed
next
  fix l
  assume "\<forall>j<length F. \<forall>e. destination_at F j = Some e \<longrightarrow> location_of cg e \<noteq> l"
  with assms(4,6,8,9) have "location_of cg d \<noteq> l" "location_of cg s \<noteq> l" by blast+
  then show "?m l = m l" by simp
qed (use assms not_constant_in_ops [OF assms(3,7)] in \<open>auto simp: Eliminate_def swap_source_cases operand_value_def\<close>)

lemma well_formedI:
  assumes "\<And>j. j < length F \<Longrightarrow> source_at F j = None \<Longrightarrow> destination_at F j = None"
    and "\<And>j s. j < length F \<Longrightarrow> source_at F j = Some s \<Longrightarrow>
      \<exists>d. destination_at F j = Some d \<and> d \<in> ops \<and> (IsConstantOperand s \<or> s \<in> ops \<and> general s = general d)"
    and "\<And>i j d. i < length F \<Longrightarrow> j < length F \<Longrightarrow> destination_at F i = Some d \<Longrightarrow> destination_at F j = Some d \<Longrightarrow> i = j"
  shows "well_formed ops F"
  unfolding well_formed_def
proof (intro conjI allI impI)
  fix j assume "j < length F"
  then show "source_at F j = None \<and> destination_at F j = None \<or>
      (\<exists>s d. source_at F j = Some s \<and> destination_at F j = Some d \<and> d \<in> ops \<and>
         (IsConstantOperand s \<or> s \<in> ops \<and> general s = general d))"
    using assms(1,2) by (cases "source_at F j") auto
next
  fix i j assume "i < length F" "j < length F" "i \<noteq> j" "destination_at F i \<noteq> None"
  then show "destination_at F i \<noteq> destination_at F j" using assms(3) [of i j] by auto
qed

lemma well_formed_swap:
  assumes "well_formed ops F" "s \<in> ops" "d \<in> ops" "general s = general d" "operand_set cg ops"
  shows "well_formed ops (map (swap_source s d) F)" (is "well_formed ops ?F")
proof (rule well_formedI)
  have not_constant: "\<not> IsConstantOperand s" "\<not> IsConstantOperand d"
    using not_constant_in_ops [OF assms(5)] assms(2,3) by simp_all
  fix j assume j: "j < length ?F"
  then have l: "j < length F" by simp
  have source: "source_at ?F j = (if source_at F j = Some s then Some d else if source_at F j = Some d then Some s else source_at F j)"
    and destination: "destination_at ?F j = destination_at F j"
    using l by (simp_all add: swap_source_cases)
  show "destination_at ?F j = None" if "source_at ?F j = None"
    using that source destination well_formed_active [OF assms(1) l] by (simp split: if_splits)
  show "\<exists>e. destination_at ?F j = Some e \<and> e \<in> ops \<and> (IsConstantOperand t \<or> t \<in> ops \<and> general t = general e)"
    if t: "source_at ?F j = Some t" for t
  proof -
    obtain u where u: "source_at F j = Some u"
      using t source by (cases "source_at F j") auto
    from assms(1) l u obtain e where
      e: "destination_at F j = Some e" "e \<in> ops" "IsConstantOperand u \<or> u \<in> ops \<and> general u = general e"
      by (rule well_formedD)
    have t_u: "t = (if u = s then d else if u = d then s else u)"
      using trans [OF t [symmetric] source] unfolding u by (simp split: if_splits)
    then have "IsConstantOperand t = IsConstantOperand u" "t \<in> ops \<or> t = u" "general t = general u"
      using assms(2-4) not_constant by presburger+
    then show ?thesis using e destination by (metis (no_types))
  qed
  show "i = j" if "i < length ?F" "destination_at ?F i = Some e" "destination_at ?F j = Some e" for i e
    using that l destination well_formed_destinations [OF assms(1), of i j e] by simp
qed

lemma steps_swap:
  assumes F: "well_formed ops F" "operand_set cg ops" "pending_stack F (i # P)" "i < length F" "source_at F i = Some s"
      "destination_at F i = Some d" "s \<in> ops" "d \<in> ops" "s \<noteq> d"
    and blocked: "P \<noteq> []" "\<forall>j<length F. source_at F j = Some d \<longrightarrow> j \<in> set P"
  shows "steps P (drop_move i F) (map (swap_source s d) (drop_move i F))" (is "steps P ?F ?F'")
proof (rule stepsI)
  show "length ?F' = length ?F" by simp
  have P: "i \<notin> set P" "distinct P" "\<forall>p\<in>set P. p < length F \<and> source_at F p \<noteq> None" "stacked F P"
    and s: "Some s = destination_at F (hd P)"
    using F(3,5) blocked(1) by (cases P; simp add: pending_stack_def)+
  fix j
  show "source_at ?F' j = source_at ?F j" if j: "j \<in> set (butlast P)"
  proof -
    obtain q where q: "q \<in> set (tl P)" "source_at F j = destination_at F q"
      using stacked_below [OF P(4) j] by blast
    from q(1) P have "q \<noteq> hd P" "q \<noteq> i" "q < length F" "hd P < length F"
      using blocked(1) by (cases P; auto)+
    then have "source_at F j \<noteq> Some s" "source_at F j \<noteq> Some d"
      using q(2) s F(4,6) well_formed_destinations [OF F(1)] by metis+
    moreover have "j < length F" "j \<noteq> i" using P j by (auto dest: in_set_butlastD)
    ultimately show ?thesis by (simp add: swap_source_cases)
  qed
  show "source_at ?F' j \<noteq> None" if "j \<in> set P"
  proof -
    have "j \<noteq> i" "j < length F" "source_at F j \<noteq> None" using that P by blast+
    then show ?thesis by (simp add: swap_source_cases)
  qed
  assume j: "j < length ?F"
  show "source_at ?F' j = None" if "source_at ?F j = None" using that j by (simp add: swap_source_cases)
  show "destination_at ?F' j = None \<or> destination_at ?F' j = destination_at ?F j" using j by simp
  show "source_at ?F' j = None \<or> source_at ?F' j = source_at ?F j \<or> (\<forall>k<length ?F. destination_at ?F' k \<noteq> source_at ?F' j)"
    if "j \<notin> set P"
  proof (cases "j \<noteq> i \<and> source_at F j = Some s")
    case True
    then have "source_at ?F' j = Some d" using j by (simp add: swap_source_cases)
    moreover have "destination_at ?F' k \<noteq> Some d" if "k < length F" for k
      using that F(4,6) well_formed_destinations [OF F(1) that F(4)] by (cases "k = i") (auto simp: Eliminate_def)
    ultimately show ?thesis using j by simp
  next
    case False
    then have "j = i \<or> source_at F j \<noteq> Some s \<and> source_at F j \<noteq> Some d" using that blocked(2) j by auto
    then have "source_at ?F j \<noteq> Some s" "source_at ?F j \<noteq> Some d"
      using F(4) by (cases "j = i"; simp add: Eliminate_def)+
    then show ?thesis using j by (simp add: swap_source_cases)
  qed
  show "u = u'" if "source_at ?F j = Some u" "source_at ?F' j = Some u'" "IsConstantOperand u \<or> IsConstantOperand u'" for u u'
    using that j not_constant_in_ops [OF F(2) F(7)] not_constant_in_ops [OF F(2) F(8)]
    by (auto simp: swap_source_cases split: if_splits)
qed


section \<open>Performing moves\<close>

definition performs :: "gap_codegen \<Rightarrow> LOperand set \<Rightarrow> nat \<Rightarrow> bool" where
  "performs cg ops depth \<longleftrightarrow>
     (\<forall>i P F s. gr_moves s = hide P F \<longrightarrow> well_formed ops F \<longrightarrow> pending_stack F (i # P) \<longrightarrow>
       \<not> IsConstantOperand (the (source_at F i)) \<longrightarrow> length F \<le> depth + length P \<longrightarrow>
       (\<exists>F' s'. PerformMove cg depth i s = Some s' \<and> performed cg ops P F s F' s' \<and> source_at F' i = None))"

lemma pending_stack_subset: "pending_stack F P \<Longrightarrow> set P \<subseteq> {..<length F}"
  by (auto simp: pending_stack_def)

lemma performed_length: "performed cg ops P F s F' s' \<Longrightarrow> length F' = length F"
  by (simp add: performed_def steps_def)

lemma performed_destination:
  "performed cg ops P F s F' s' \<Longrightarrow> j \<in> set P \<Longrightarrow> j < length F \<Longrightarrow> destination_at F' j = destination_at F j"
  using steps_destination(1) by (auto simp: performed_def)

lemma performed_pending_stack: "performed cg ops P F s F' s' \<Longrightarrow> pending_stack F P \<Longrightarrow> pending_stack F' P"
  by (auto simp: performed_def intro: pending_stack_steps)

lemma pending_stack_push:
  "pending_stack F (i # P) \<Longrightarrow> j < length F \<Longrightarrow> source_at F j = Some d \<Longrightarrow> destination_at F i = Some d \<Longrightarrow> j \<notin> set (i # P) \<Longrightarrow>
    pending_stack F (j # i # P)"
  by (simp add: pending_stack_def)

lemma perform_blocking_performed:
  assumes "performs cg ops depth" "operand_set cg ops"
  shows "gr_moves s = hide (i # P) F \<Longrightarrow> well_formed ops F \<Longrightarrow> pending_stack F (i # P) \<Longrightarrow> destination_at F i = Some d \<Longrightarrow>
    length F \<le> depth + length (i # P) \<Longrightarrow> set js \<subseteq> {..<length F} \<Longrightarrow>
    \<exists>F' s'. perform_blocking (PerformMove cg depth) d js s = Some s' \<and> performed cg ops (i # P) F s F' s' \<and>
      (\<forall>j\<in>set js. source_at F' j = Some d \<longrightarrow> j \<in> set (i # P))"
proof (induction js arbitrary: F s)
  case Nil
  then show ?case by (auto intro: performed_refl)
next
  case (Cons j js)
  have j: "j < length F" using Cons.prems by simp
  have i: "i < length F" using Cons.prems(3) by (simp add: pending_stack_def)
  let ?blocks = "Blocks d (gr_moves s ! j) \<and> \<not> IsPending (gr_moves s ! j)"
  have blocks: "?blocks \<longleftrightarrow> source_at F j = Some d \<and> j \<notin> set (i # P)"
    using Cons.prems(1) j well_formed_active [OF Cons.prems(2) j] by (auto simp: Blocks_source IsPending_def nth_hide)
  have "\<exists>F1 s1. (if ?blocks then PerformMove cg depth j s else Some s) = Some s1 \<and> performed cg ops (i # P) F s F1 s1 \<and>
      (source_at F1 j = Some d \<longrightarrow> j \<in> set (i # P))"
  proof (cases ?blocks)
    case True
    have "d \<in> ops" using destination_in_ops [OF Cons.prems(2) i Cons.prems(4)] .
    then have "\<not> IsConstantOperand (the (source_at F j))"
      using not_constant_in_ops [OF assms(2)] True blocks by simp
    moreover have "pending_stack F (j # i # P)"
      using pending_stack_push [OF Cons.prems(3) j _ Cons.prems(4)] True blocks by blast
    ultimately obtain F1 s1 where "PerformMove cg depth j s = Some s1" "performed cg ops (i # P) F s F1 s1" "source_at F1 j = None"
      using assms(1) Cons.prems(1,2,5) unfolding performs_def by meson
    then show ?thesis using True by (intro exI [of _ F1] exI [of _ s1]) simp
  next
    case False
    have "performed cg ops (i # P) F s F s" by (rule performed_refl [OF Cons.prems(1-3)])
    moreover have "source_at F j = Some d \<longrightarrow> j \<in> set (i # P)" using False blocks by blast
    ultimately show ?thesis using False by auto
  qed
  then obtain F1 s1 where 1: "(if ?blocks then PerformMove cg depth j s else Some s) = Some s1"
    "performed cg ops (i # P) F s F1 s1" "source_at F1 j = Some d \<longrightarrow> j \<in> set (i # P)" by blast
  have "destination_at F1 i = Some d" using performed_destination [OF 1(2) _ i] Cons.prems(4) by simp
  moreover have l: "length F1 = length F" using 1(2) by (rule performed_length)
  moreover have "gr_moves s1 = hide (i # P) F1" "well_formed ops F1" using 1(2) by (simp_all add: performed_def)
  moreover have "pending_stack F1 (i # P)" using 1(2) Cons.prems(3) by (rule performed_pending_stack)
  ultimately obtain F2 s2 where 2: "perform_blocking (PerformMove cg depth) d js s1 = Some s2"
    "performed cg ops (i # P) F1 s1 F2 s2" "\<forall>j\<in>set js. source_at F2 j = Some d \<longrightarrow> j \<in> set (i # P)"
    using Cons.IH [of s1 F1] Cons.prems by auto
  have "performed cg ops (i # P) F s F2 s2"
    using 1(2) 2(2) pending_stack_subset [OF Cons.prems(3)] by (rule performed_trans)
  moreover have "j \<in> set (i # P)" if "source_at F2 j = Some d"
  proof (rule ccontr)
    assume no: "j \<notin> set (i # P)"
    have "destination_at F2 i = Some d"
      using performed_destination [OF \<open>performed cg ops (i # P) F s F2 s2\<close> _ i] Cons.prems(4) by simp
    moreover have "steps (i # P) F1 F2" using 2(2) by (simp add: performed_def)
    ultimately show False using stepsD(6) [of "i # P" F1 F2 j] no that 1(3) i j l by auto
  qed
  ultimately show ?case using 1(1) 2(1,3) by auto
qed

text \<open>How a move ends once nothing but moves that are pending reads its destination.\<close>

lemma blocked_hide: "list_ex (Blocks d) (hide P F) \<longleftrightarrow> (\<exists>j<length F. source_at F j = Some d)"
  by (auto simp: list_ex_length Blocks_source)

lemma agree_sym: "agree m m' \<Longrightarrow> agree m' m"
  by (simp add: agree_def)

lemma finish_move:
  assumes loop: "performed cg ops (i # P) F s0 F1 s1" "pending_stack F1 (i # P)" "operand_set cg ops" "i \<notin> set P"
      "gr_code s0 = gr_code s"
    and i: "i < length F" "source_at F1 i = Some t" "\<not> IsConstantOperand t" "destination_at F1 i = Some d"
    and readers: "\<forall>j<length F. source_at F1 j = Some d \<longrightarrow> j \<in> set (i # P)"
    and s2: "s2 = s1\<lparr>gr_moves := hide P F1\<rparr>"
  shows "\<exists>F' s'. (if t = d then Some (update_move i Eliminate s2)
      else if list_ex (Blocks d) (gr_moves s2) then EmitSwap cg i s2 else EmitMove cg i s2) = Some s' \<and>
    performed cg ops P F s F' s' \<and> source_at F' i = None"
proof -
  let ?F = "drop_move i F1"
  from loop(1) obtain code where code: "gr_code s1 = gr_code s0 @ code"
      "\<And>T m. leads_to cg F T m \<Longrightarrow> leads_to cg F1 T (exec code m)"
    and wf: "well_formed ops F1" and steps: "steps (i # P) F F1" and moves: "gr_moves s1 = hide (i # P) F1"
    unfolding performed_def by blast
  have l: "length F1 = length F" using steps by (simp add: steps_def)
  have i1: "i < length F1" using i(1) l by simp
  note t_d = active_operands [OF wf loop(3) i1 i(2,3,4)]
  have dropped: "(hide P F1)[i := Eliminate (hide P F1 ! i)] = hide P ?F" by (rule hide_Eliminate [OF i1])
  have steps1: "steps P F ?F" using steps i(1) loop(4) by (rule steps_drop)
  have gone: "source_at ?F i = None" using i1 by (simp add: Eliminate_def)
  have done_: "performed cg ops P F s F' s'"
    if "gr_moves s' = hide P F'" "well_formed ops F'" "steps P F F'" "gr_code s' = gr_code s1 @ more"
      "\<And>T m. leads_to cg F1 T m \<Longrightarrow> leads_to cg F' T (exec more m)" for F' s' more
  proof -
    have "gr_code s' = gr_code s @ (code @ more) \<and> (\<forall>T m. leads_to cg F T m \<longrightarrow> leads_to cg F' T (exec (code @ more) m))"
      using that code loop(5) by simp
    then show ?thesis using that unfolding performed_def by blast
  qed
  have blocked: "list_ex (Blocks d) (gr_moves s2) \<longleftrightarrow> (\<exists>j<length F1. source_at F1 j = Some d)"
    by (simp add: s2 blocked_hide)
  consider (cycle_closed) "t = d" | (cycle) "t \<noteq> d" "list_ex (Blocks d) (gr_moves s2)"
    | (free) "t \<noteq> d" "\<not> list_ex (Blocks d) (gr_moves s2)" by blast
  then show ?thesis
  proof cases
    case cycle_closed
    let ?s = "update_move i Eliminate s2"
    have "performed cg ops P F s ?F ?s"
    proof (rule done_ [where more = "[]"])
      show "leads_to cg ?F T (exec [] m)" if "leads_to cg F1 T m" for T m
        using leads_to_eliminate [OF that i1, of d] i cycle_closed by simp
    qed (use dropped steps1 well_formed_drop [OF wf] in \<open>simp_all add: update_move_def s2\<close>)
    then show ?thesis using cycle_closed gone by auto
  next
    case free
    obtain c where c: "emit_move cg t d = Some c"
      "\<forall>m. agree (exec c m) (m(location_of cg d := m (location_of cg t)))"
      using emit_move_effect [OF t_d(3-5)] by blast
    let ?s = "update_move i Eliminate (s2\<lparr>gr_code := gr_code s2 @ c\<rparr>)"
    have "EmitMove cg i s2 = Some ?s"
      using c(1) i i1 loop(4) by (simp add: EmitMove_def s2 nth_hide)
    moreover have "performed cg ops P F s ?F ?s"
    proof (rule done_ [where more = c])
      fix T m
      assume "leads_to cg F1 T m"
      then have "leads_to cg ?F T (m(location_of cg d := operand_value cg t d m))"
        using leads_to_move [OF _ wf loop(3) i1 i(2,4)] free(2) blocked by blast
      then have "leads_to cg ?F T (m(location_of cg d := m (location_of cg t)))"
        using i(3) by (simp add: operand_value_def)
      then show "leads_to cg ?F T (exec c m)"
        using leads_to_agree [OF _ agree_sym [OF spec [OF c(2)]] well_formed_drop [OF wf] loop(3)] by blast
    qed (use dropped steps1 well_formed_drop [OF wf] in \<open>simp_all add: update_move_def s2\<close>)
    ultimately show ?thesis using free gone by auto
  next
    case cycle
    obtain c where c: "emit_swap cg t d = Some c"
      "\<forall>m. agree (exec c m) (m(location_of cg d := m (location_of cg t), location_of cg t := m (location_of cg d)))"
      using emit_swap_effect [OF t_d(3-5)] by blast
    let ?F' = "map (swap_source t d) ?F"
    let ?s = "let s = update_move i Eliminate (s2\<lparr>gr_code := gr_code s2 @ c\<rparr>)
      in s\<lparr>gr_moves := map (swap_source t d) (gr_moves s)\<rparr>"
    have only_pending: "\<forall>j<length F1. source_at F1 j = Some d \<longrightarrow> j \<in> set P"
      using readers i(2) cycle(1) l by auto
    then have P: "P \<noteq> []" using cycle(2) blocked by auto
    then have q: "hd P < length F1" "destination_at F1 (hd P) = Some t"
      using loop(2) i(2) by (cases P; simp add: pending_stack_def)+
    have "EmitSwap cg i s2 = Some ?s"
      using c(1) i i1 loop(4) by (simp add: EmitSwap_def s2 nth_hide Let_def)
    moreover have "performed cg ops P F s ?F' ?s"
    proof (rule done_ [where more = c])
      show "well_formed ops ?F'"
        using well_formed_swap [OF well_formed_drop [OF wf] t_d(1,2,5) loop(3)] .
      have "steps P ?F ?F'"
        using steps_swap [OF wf loop(3,2) i1 i(2,4) t_d(1,2) cycle(1) P only_pending] .
      then show "steps P F ?F'"
        using steps_trans [OF steps1] pending_stack_subset [OF loop(2)] l by simp
      fix T m
      assume "leads_to cg F1 T m"
      then have "leads_to cg ?F' T (m(location_of cg d := m (location_of cg t), location_of cg t := m (location_of cg d)))"
        using leads_to_swap [OF _ wf loop(3) i1 i(2,4) t_d(1) q] by blast
      then show "leads_to cg ?F' T (exec c m)"
        using leads_to_agree [OF _ agree_sym [OF spec [OF c(2)]] \<open>well_formed ops ?F'\<close> loop(3)] by blast
    qed (use dropped in \<open>simp_all add: update_move_def s2 hide_swap Let_def\<close>)
    moreover have "source_at ?F' i = None" using gone i1 by (simp add: swap_source_cases)
    ultimately show ?thesis using cycle by auto
  qed
qed

lemma PerformMove_performs:
  assumes "operand_set cg ops"
  shows "performs cg ops depth"
proof (induction depth)
  case 0
  have "\<not> length F \<le> length P" if "pending_stack F (i # P)" for F i P
  proof -
    have "card (set (i # P)) \<le> card {..<length F}"
      using pending_stack_subset [OF that] by (intro card_mono) simp_all
    moreover have "card (set (i # P)) = Suc (length P)"
      using that by (subst distinct_card) (simp_all add: pending_stack_def)
    ultimately show ?thesis by simp
  qed
  then show ?case unfolding performs_def by auto
next
  case (Suc depth)
  show ?case
    unfolding performs_def
  proof (intro allI impI)
    fix i P F and s :: gap_resolver
    assume moves: "gr_moves s = hide P F" and wf: "well_formed ops F" and stack: "pending_stack F (i # P)"
      and not_constant: "\<not> IsConstantOperand (the (source_at F i))" and fuel: "length F \<le> Suc depth + length P"
    have i: "i < length F" "i \<notin> set P" "source_at F i \<noteq> None" using stack by (auto simp: pending_stack_def)
    then obtain u d where u: "source_at F i = Some u" "destination_at F i = Some d"
      using well_formed_active [OF wf i(1)] by (metis option.exhaust)
    let ?s = "update_move i (mv_destination_update (\<lambda>_. None)) s"
    have s: "gr_moves ?s = hide (i # P) F" "gr_code ?s = gr_code s"
      using hide_pending [OF i(1), of P] moves by (simp_all add: update_move_def)
    have js: "set [0..<length F] \<subseteq> {..<length F}" by auto
    have fuel': "length F \<le> depth + length (i # P)" using fuel by simp
    obtain F1 s1 where loop: "perform_blocking (PerformMove cg depth) d [0..<length F] ?s = Some s1"
      "performed cg ops (i # P) F ?s F1 s1" "\<forall>j\<in>set [0..<length F]. source_at F1 j = Some d \<longrightarrow> j \<in> set (i # P)"
      using perform_blocking_performed [OF Suc assms s(1) wf stack u(2) fuel' js] by blast
    have l: "length F1 = length F" using loop(2) by (rule performed_length)
    have d: "destination_at F1 i = Some d" using performed_destination [OF loop(2) _ i(1)] u(2) by simp
    have steps: "steps (i # P) F F1" using loop(2) by (simp add: performed_def)
    then obtain t where t: "source_at F1 i = Some t" using stepsD(4) [OF _ i(1)] by fastforce
    have "\<not> IsConstantOperand t" using stepsD(7) [OF steps i(1) u(1) t] not_constant u(1) by auto
    define s2 where "s2 = s1\<lparr>gr_moves := hide P F1\<rparr>"
    have "gr_moves s1 = hide (i # P) F1" using loop(2) by (simp add: performed_def)
    then have s2: "update_move i (mv_destination_update (\<lambda>_. Some d)) s1 = s2"
      using hide_restore [of i F1 P d] i l d by (simp add: update_move_def s2_def)
    have "pending_stack F1 (i # P)" using loop(2) stack by (rule performed_pending_stack)
    then have "\<exists>F' s'. (if t = d then Some (update_move i Eliminate s2)
        else if list_ex (Blocks d) (gr_moves s2) then EmitSwap cg i s2 else EmitMove cg i s2) = Some s' \<and>
      performed cg ops P F s F' s' \<and> source_at F' i = None"
      using finish_move [OF loop(2) _ assms i(2) s(2) i(1) t \<open>\<not> IsConstantOperand t\<close> d _ s2_def] loop(3) by simp
    moreover have "PerformMove cg (Suc depth) i s = (if t = d then Some (update_move i Eliminate s2)
        else if list_ex (Blocks d) (gr_moves s2) then EmitSwap cg i s2 else EmitMove cg i s2)"
      using moves i u loop(1) t l
      by (simp add: nth_hide update_move_def [where s = s] flip: s2) (simp add: s2 s2_def op_Equals_def)
    ultimately show "\<exists>F' s'. PerformMove cg (Suc depth) i s = Some s' \<and> performed cg ops P F s F' s' \<and> source_at F' i = None"
      by simp
  qed
qed


section \<open>The whole gap\<close>

text \<open>Which moves can be resolved: operands that are allocated, no constant that goes to a slot for doubles (which
  \<^verbatim>\<open>EmitMove\<close> excludes by a DCHECK), each destination once, and no word of the frame used both as a slot for doubles
  and as one for other values.\<close>

definition move_operands :: "LMoveOperands \<Rightarrow> LOperand list" where
  "move_operands m =
     (case mv_source m of Some s \<Rightarrow> if IsConstantOperand s then [] else [s] | None \<Rightarrow> []) @
     (case mv_destination m of Some d \<Rightarrow> [d] | None \<Rightarrow> [])"

definition resolvable :: "LMoveOperands list \<Rightarrow> bool" where
  "resolvable moves \<longleftrightarrow>
     (\<forall>m\<in>set moves.
        case (mv_source m, mv_destination m) of
          (Some s, Some d) \<Rightarrow> movable d \<and> (IsConstantOperand s \<and> \<not> IsDoubleStackSlot d \<or> movable s \<and> general s = general d)
        | _ \<Rightarrow> False) \<and>
     distinct (map mv_destination moves) \<and>
     (\<forall>a\<in>set (concat (map move_operands moves)). \<forall>b\<in>set (concat (map move_operands moves)).
        IsStackSlot a \<longrightarrow> IsDoubleStackSlot b \<longrightarrow> op_index a \<noteq> op_index b)"

text \<open>What a parallel move means: every destination receives what its source had before.\<close>

definition assign :: "gap_codegen \<Rightarrow> machine \<Rightarrow> LMoveOperands \<Rightarrow> machine \<Rightarrow> machine" where
  "assign cg before move m =
     (case (mv_source move, mv_destination move) of
        (Some s, Some d) \<Rightarrow> m(location_of cg d := operand_value cg s d before)
      | _ \<Rightarrow> m)"

definition in_parallel :: "gap_codegen \<Rightarrow> LMoveOperands list \<Rightarrow> machine \<Rightarrow> machine" where
  "in_parallel cg moves m = fold (assign cg m) moves m"

lemma operand_eq:
  assumes "has_kind k a" "has_kind k b" "op_index a = op_index b"
  shows "a = b"
proof (rule bit_eqI)
  fix n assume n: "possible_bit TYPE(32 word) n"
  have kind: "KindField_decode a = KindField_decode b" using assms by (simp add: has_kind_def)
  have index: "signed_drop_bit kKindFieldWidth a = signed_drop_bit kKindFieldWidth b"
    using assms(3) by (simp add: op_index_def signed_word_eqI)
  show "bit a n = bit b n"
  proof (cases "n < 3")
    case True
    then show ?thesis
      using arg_cong [OF kind, of "\<lambda>w. bit w n"] n by (simp add: KindField_decode_def BitField_decode_bits kKindFieldWidth_def bit_simps)
  next
    case False
    have "n < 32" using n by simp
    with False have "\<not> 29 \<le> n - 3" "3 + (n - 3) = n" by arith+
    then show ?thesis
      using arg_cong [OF index, of "\<lambda>w. bit w (n - 3)"] n by (simp add: kKindFieldWidth_def bit_simps)
  qed
qed

lemma ToOperand_inject: "ToOperand cg a = ToOperand cg b \<longleftrightarrow> op_index a = op_index b"
  by (auto simp: ToOperand_def StackSlotOffset_def ArgumentsOffsetWithoutFrame_def kPointerSize_def split: if_splits)

lemma register_codes_inject:
  "0 \<le> i \<Longrightarrow> i < 11 \<Longrightarrow> 0 \<le> j \<Longrightarrow> j < 11 \<Longrightarrow>
    kRegisterCodeByAllocationIndex ! nat i = kRegisterCodeByAllocationIndex ! nat j \<longleftrightarrow> i = j"
  by (subst nth_eq_iff_index_eq) (auto simp: kRegisterCodeByAllocationIndex_def nat_eq_iff)

lemma location_of_inject:
  assumes "movable a" "movable b" "location_of cg a = location_of cg b"
    "\<not> (IsStackSlot a \<and> IsDoubleStackSlot b)" "\<not> (IsStackSlot b \<and> IsDoubleStackSlot a)"
  shows "a = b"
  using assms operand_eq [of _ a b] ToOperand_inject [of cg a b] register_codes_inject [of "op_index a" "op_index b"]
  by (auto simp: movable_def location_of_def has_kind_unique split: if_splits)


lemma performsD:
  "performs cg ops depth \<Longrightarrow> gr_moves s = hide P F \<Longrightarrow> well_formed ops F \<Longrightarrow> pending_stack F (i # P) \<Longrightarrow>
    \<not> IsConstantOperand (the (source_at F i)) \<Longrightarrow> length F \<le> depth + length P \<Longrightarrow>
    \<exists>F' s'. PerformMove cg depth i s = Some s' \<and> performed cg ops P F s F' s' \<and> source_at F' i = None"
  unfolding performs_def by blast

lemma fold_assign_other:
  assumes "\<forall>mv\<in>set moves. \<forall>d. mv_destination mv = Some d \<longrightarrow> location_of cg d \<noteq> l"
  shows "fold (assign cg before) moves m l = m l"
  using assms by (induction moves arbitrary: m) (auto simp: assign_def split: option.split)

lemma fold_assign_destination:
  assumes "distinct (map (\<lambda>mv. location_of cg (the (mv_destination mv))) moves)"
    "mv \<in> set moves" "mv_source mv = Some s" "mv_destination mv = Some d"
  shows "fold (assign cg before) moves m (location_of cg d) = operand_value cg s d before"
  using assms
proof (induction moves arbitrary: m)
  case (Cons a moves)
  show ?case
  proof (cases "mv \<in> set moves")
    case True
    then show ?thesis using Cons by simp
  next
    case False
    then have mv: "mv = a" using Cons.prems(2) by simp
    have "\<forall>n\<in>set moves. \<forall>f. mv_destination n = Some f \<longrightarrow> location_of cg f \<noteq> location_of cg d"
      using Cons.prems(1,4) mv by (force simp: image_iff)
    moreover have "assign cg before a m = m(location_of cg d := operand_value cg s d before)"
      using Cons.prems(3,4) mv by (simp add: assign_def)
    ultimately show ?thesis
      using fold_assign_other [of moves cg "location_of cg d" before] by simp
  qed
qed simp

lemma perform_moves_performed:
  assumes "operand_set cg ops"
  shows "gr_moves s = F \<Longrightarrow> well_formed ops F \<Longrightarrow> set js \<subseteq> {..<length F} \<Longrightarrow>
    \<exists>F' s'. perform_moves cg js s = Some s' \<and> performed cg ops [] F s F' s' \<and>
      (\<forall>j\<in>set js. \<forall>t. source_at F' j = Some t \<longrightarrow> IsConstantOperand t)"
proof (induction js arbitrary: F s)
  case Nil
  then have "performed cg ops [] F s F s" by (intro performed_refl) (simp_all add: pending_stack_def)
  then show ?case by auto
next
  case (Cons j js)
  have j: "j < length F" using Cons.prems by simp
  let ?step = "case mv_source (gr_moves s ! j) of
      Some source \<Rightarrow> if \<not> IsConstantOperand source then PerformMove cg (Suc (length (gr_moves s))) j s else Some s
    | None \<Rightarrow> Some s"
  have "\<exists>F1 s1. ?step = Some s1 \<and> performed cg ops [] F s F1 s1 \<and> (\<forall>t. source_at F1 j = Some t \<longrightarrow> IsConstantOperand t)"
  proof (cases "\<exists>t. source_at F j = Some t \<and> \<not> IsConstantOperand t")
    case True
    then obtain t where t: "source_at F j = Some t" "\<not> IsConstantOperand t" by blast
    have "gr_moves s = hide [] F" "pending_stack F [j]" "\<not> IsConstantOperand (the (source_at F j))"
      using Cons.prems t j by (simp_all add: pending_stack_def)
    then obtain F1 s1 where "PerformMove cg (Suc (length F)) j s = Some s1" "performed cg ops [] F s F1 s1" "source_at F1 j = None"
      using performsD [OF PerformMove_performs [OF assms] _ Cons.prems(2), of s "[]" j "Suc (length F)"] by auto
    then show ?thesis using t Cons.prems(1) by (intro exI [of _ F1] exI [of _ s1]) simp
  next
    case False
    have "performed cg ops [] F s F s" using Cons.prems by (intro performed_refl) (simp_all add: pending_stack_def)
    moreover have "?step = Some s" using False Cons.prems(1) by (auto split: option.split)
    ultimately show ?thesis using False by blast
  qed
  then obtain F1 s1 where 1: "?step = Some s1" "performed cg ops [] F s F1 s1"
    "\<forall>t. source_at F1 j = Some t \<longrightarrow> IsConstantOperand t" by blast
  have l: "length F1 = length F" using 1(2) by (rule performed_length)
  have "gr_moves s1 = F1" "well_formed ops F1" using 1(2) by (simp_all add: performed_def)
  then obtain F2 s2 where 2: "perform_moves cg js s1 = Some s2" "performed cg ops [] F1 s1 F2 s2"
    "\<forall>j\<in>set js. \<forall>t. source_at F2 j = Some t \<longrightarrow> IsConstantOperand t"
    using Cons.IH [of s1 F1] Cons.prems(3) l by auto
  have "performed cg ops [] F s F2 s2" using performed_trans [OF 1(2) 2(2)] by simp
  moreover have "IsConstantOperand t" if "source_at F2 j = Some t" for t
  proof -
    have steps: "steps [] F1 F2" using 2(2) by (simp add: performed_def)
    have j1: "j < length F1" using j l by simp
    obtain u where "source_at F1 j = Some u" using stepsD(2) [OF steps j1] \<open>source_at F2 j = Some t\<close> by (cases "source_at F1 j") simp_all
    then show ?thesis using stepsD(7) [OF steps j1 _ that] 1(3) by blast
  qed
  ultimately show ?case using 1(1) 2(1,3) by auto
qed

lemma emit_constants_performed:
  assumes "operand_set cg ops"
  shows "gr_moves s = F \<Longrightarrow> well_formed ops F \<Longrightarrow> set js \<subseteq> {..<length F} \<Longrightarrow>
    \<forall>j<length F. \<forall>t. source_at F j = Some t \<longrightarrow> IsConstantOperand t \<Longrightarrow>
    \<exists>F' s' code. emit_constants cg js s = Some s' \<and> length F' = length F \<and> gr_code s' = gr_code s @ code \<and>
      (\<forall>T m. leads_to cg F T m \<longrightarrow> leads_to cg F' T (exec code m)) \<and> well_formed ops F' \<and>
      (\<forall>j<length F. source_at F j = None \<or> j \<in> set js \<longrightarrow> source_at F' j = None)"
proof (induction js arbitrary: F s)
  case Nil
  then show ?case by (intro exI [of _ F] exI [of _ s] exI [of _ "[]"]) auto
next
  case (Cons j js)
  have j: "j < length F" using Cons.prems by simp
  let ?step = "if IsEliminated (gr_moves s ! j) then Some s else EmitMove cg j s"
  have "\<exists>F1 s1 code. ?step = Some s1 \<and> gr_moves s1 = F1 \<and> length F1 = length F \<and> gr_code s1 = gr_code s @ code \<and>
      (\<forall>T m. leads_to cg F T m \<longrightarrow> leads_to cg F1 T (exec code m)) \<and> well_formed ops F1 \<and>
      (\<forall>i<length F. source_at F1 i = (if i = j then None else source_at F i))"
  proof (cases "source_at F j")
    case None
    then show ?thesis using Cons.prems by (intro exI [of _ F] exI [of _ s] exI [of _ "[]"]) (auto simp: IsEliminated_def)
  next
    case (Some t)
    have t: "IsConstantOperand t" using Cons.prems(4) j Some by blast
    obtain d where d: "destination_at F j = Some d"
      using well_formed_active [OF Cons.prems(2) j] Some by (cases "destination_at F j") auto
    have "d \<in> ops" using destination_in_ops [OF Cons.prems(2) j d] .
    then have "movable d" "\<not> IsConstantOperand d" using assms not_constant_in_ops [OF assms] by (simp_all add: operand_set_def)
    from emit_constant_effect [OF t this(1)] obtain c where c: "emit_move cg t d = Some c"
      "\<forall>m. agree (exec c m) (m(location_of cg d := constant_word cg t d))" by blast
    let ?s = "update_move j Eliminate (s\<lparr>gr_code := gr_code s @ c\<rparr>)"
    have "?step = Some ?s" using c(1) Some d Cons.prems(1) by (simp add: IsEliminated_def EmitMove_def)
    moreover have "leads_to cg (drop_move j F) T (exec c m)" if "leads_to cg F T m" for T m
    proof -
      have "\<forall>i<length F. source_at F i \<noteq> Some d" using Cons.prems(4) \<open>\<not> IsConstantOperand d\<close> by blast
      from leads_to_move [OF that Cons.prems(2) assms j Some d this]
      have "leads_to cg (drop_move j F) T (m(location_of cg d := constant_word cg t d))"
        using t by (simp add: operand_value_def)
      then show ?thesis
        using leads_to_agree [OF _ agree_sym [OF spec [OF c(2)]] well_formed_drop [OF Cons.prems(2)] assms] by blast
    qed
    ultimately show ?thesis
      using well_formed_drop [OF Cons.prems(2)] Cons.prems(1) j
      by (intro exI [of _ "drop_move j F"] exI [of _ ?s] exI [of _ c])
        (auto simp: update_move_def nth_list_update Eliminate_def)
  qed
  then obtain F1 s1 c1 where 1: "?step = Some s1" "gr_moves s1 = F1" "length F1 = length F" "gr_code s1 = gr_code s @ c1"
    "\<forall>T m. leads_to cg F T m \<longrightarrow> leads_to cg F1 T (exec c1 m)" "well_formed ops F1"
    "\<forall>i<length F. source_at F1 i = (if i = j then None else source_at F i)" by blast
  have "\<forall>i<length F1. \<forall>t. source_at F1 i = Some t \<longrightarrow> IsConstantOperand t" using 1(3,7) Cons.prems(4) by auto
  then obtain F2 s2 c2 where 2: "emit_constants cg js s1 = Some s2" "length F2 = length F1" "gr_code s2 = gr_code s1 @ c2"
    "\<forall>T m. leads_to cg F1 T m \<longrightarrow> leads_to cg F2 T (exec c2 m)" "well_formed ops F2"
    "\<forall>i<length F1. source_at F1 i = None \<or> i \<in> set js \<longrightarrow> source_at F2 i = None"
    using Cons.IH [OF 1(2,6)] Cons.prems(3) 1(3) by auto
  show ?case
    using 1 2 by (intro exI [of _ F2] exI [of _ s2] exI [of _ "c1 @ c2"]) auto
qed

definition resolver_operands :: "LMoveOperands list \<Rightarrow> LOperand set" where
  "resolver_operands moves = set (concat (map move_operands moves))"

lemma resolvableD:
  assumes "resolvable moves" "mv \<in> set moves"
  obtains s d where "mv_source mv = Some s" "mv_destination mv = Some d" "movable d"
    "IsConstantOperand s \<or> movable s \<and> general s = general d"
proof -
  have "case (mv_source mv, mv_destination mv) of
      (Some s, Some d) \<Rightarrow> movable d \<and> (IsConstantOperand s \<and> \<not> IsDoubleStackSlot d \<or> movable s \<and> general s = general d) | _ \<Rightarrow> False"
    using assms unfolding resolvable_def by blast
  then show thesis using that by (auto split: option.splits)
qed

lemma resolvable_operand_set:
  assumes "resolvable moves"
  shows "operand_set cg (resolver_operands moves)"
  unfolding operand_set_def
proof
  show movable: "\<forall>op\<in>resolver_operands moves. movable op"
  proof
    fix op assume "op \<in> resolver_operands moves"
    then obtain mv where mv: "mv \<in> set moves" "op \<in> set (move_operands mv)"
      by (auto simp: resolver_operands_def)
    with assms show "movable op"
      by (auto elim!: resolvableD simp: move_operands_def split: if_splits)
  qed
  show "inj_on (location_of cg) (resolver_operands moves)"
  proof (rule inj_onI)
    fix a b
    assume ab: "a \<in> resolver_operands moves" "b \<in> resolver_operands moves" "location_of cg a = location_of cg b"
    have apart: "op_index a \<noteq> op_index b" if "a \<in> resolver_operands moves" "b \<in> resolver_operands moves"
      "IsStackSlot a" "IsDoubleStackSlot b" for a b
      using assms that unfolding resolvable_def resolver_operands_def by blast
    have index: "op_index a = op_index b" if "\<not> IsRegister a" "\<not> IsDoubleRegister a" "\<not> IsRegister b" "\<not> IsDoubleRegister b"
      using that ab(3) by (simp add: location_of_def ToOperand_inject)
    show "a = b"
    proof (rule location_of_inject [OF _ _ ab(3)])
      show "\<not> (IsStackSlot a \<and> IsDoubleStackSlot b)" "\<not> (IsStackSlot b \<and> IsDoubleStackSlot a)"
        using apart [OF ab(1,2)] apart [OF ab(2,1)] index by (auto simp: has_kind_unique)
    qed (use movable ab in blast)+
  qed
qed

lemma resolvable_well_formed:
  assumes "resolvable moves"
  shows "well_formed (resolver_operands moves) moves"
proof (rule well_formedI)
  fix j assume j: "j < length moves"
  then have mv: "moves ! j \<in> set moves" by simp
  show "destination_at moves j = None" if "source_at moves j = None"
    using assms mv that by (auto elim: resolvableD)
  show "\<exists>d. destination_at moves j = Some d \<and> d \<in> resolver_operands moves \<and>
      (IsConstantOperand s \<or> s \<in> resolver_operands moves \<and> general s = general d)" if s: "source_at moves j = Some s" for s
  proof -
    from assms mv obtain d where d: "destination_at moves j = Some d" "IsConstantOperand s \<or> movable s \<and> general s = general d"
      by (rule resolvableD) (use s in auto)
    have "set (move_operands (moves ! j)) \<subseteq> resolver_operands moves"
      using mv unfolding resolver_operands_def by auto
    then have "d \<in> resolver_operands moves" "\<not> IsConstantOperand s \<longrightarrow> s \<in> resolver_operands moves"
      using s d(1) by (auto simp: move_operands_def)
    then show ?thesis using d by auto
  qed
  show "i = j" if "i < length moves" "destination_at moves i = Some d" "destination_at moves j = Some d" for i d
    using assms that j nth_eq_iff_index_eq [of "map mv_destination moves" i j] by (simp add: resolvable_def)
qed

lemma leads_to_in_parallel:
  assumes "resolvable moves"
  shows "leads_to cg moves (in_parallel cg moves m) m"
proof -
  have active: "\<forall>mv\<in>set moves. mv_source mv \<noteq> None \<and> mv_destination mv \<noteq> None"
    using assms by (auto elim: resolvableD)
  have "distinct (map (\<lambda>mv. location_of cg (the (mv_destination mv))) moves)"
    unfolding distinct_conv_nth
  proof (intro allI impI)
    fix i j assume ij: "i < length (map (\<lambda>mv. location_of cg (the (mv_destination mv))) moves)"
      "j < length (map (\<lambda>mv. location_of cg (the (mv_destination mv))) moves)" "i \<noteq> j"
    then obtain d e where de: "destination_at moves i = Some d" "destination_at moves j = Some e"
      using active by (metis length_map nth_mem option.exhaust)
    have "d \<noteq> e" using well_formed_destinations [OF resolvable_well_formed [OF assms]] de ij by auto
    moreover have "d \<in> resolver_operands moves" "e \<in> resolver_operands moves"
      using destination_in_ops [OF resolvable_well_formed [OF assms]] de ij by auto
    ultimately show "map (\<lambda>mv. location_of cg (the (mv_destination mv))) moves ! i \<noteq>
        map (\<lambda>mv. location_of cg (the (mv_destination mv))) moves ! j"
      using location_eq [OF resolvable_operand_set [OF assms]] de ij by simp
  qed
  note assigned = fold_assign_destination [OF this]
  show ?thesis
    unfolding leads_to_def in_parallel_def
  proof (intro conjI allI impI)
    fix j s d
    assume "j < length moves" "source_at moves j = Some s" "destination_at moves j = Some d"
    then show "fold (assign cg m) moves m (location_of cg d) = operand_value cg s d m"
      using assigned [of "moves ! j"] by simp
  next
    fix l
    assume "\<forall>j<length moves. \<forall>d. destination_at moves j = Some d \<longrightarrow> location_of cg d \<noteq> l"
    then have "\<forall>mv\<in>set moves. \<forall>d. mv_destination mv = Some d \<longrightarrow> location_of cg d \<noteq> l"
      by (metis in_set_conv_nth)
    then show "fold (assign cg m) moves m l = m l" by (rule fold_assign_other)
  qed
qed

text \<open>C35 The gap resolver performs a parallel move: for moves whose operands are allocated, with every destination once and
  no word of the frame used as both kinds of slot, it returns, its recursion being no deeper than the number of moves,
  and the code it emits gives every destination the value its source had before, also when the moves form cycles,
  and changes nothing else but the scratch registers r10 and xmm0.\<close>
theorem Resolve_parallel:
  assumes "BuildInitialMoveList parallel_move = Some moves" "resolvable moves"
  shows "\<exists>code. Resolve cg parallel_move = Some code \<and> (\<forall>m. agree (exec code m) (in_parallel cg moves m))"
proof -
  note ops = resolvable_operand_set [OF assms(2), of cg]
  note wf = resolvable_well_formed [OF assms(2)]
  let ?s = "\<lparr>gr_moves = moves, gr_code = []\<rparr>"
  have all: "set [0..<length moves] \<subseteq> {..<length moves}" by auto
  obtain F1 s1 where 1: "perform_moves cg [0..<length moves] ?s = Some s1"
    "performed cg (resolver_operands moves) [] moves ?s F1 s1"
    "\<forall>j\<in>set [0..<length moves]. \<forall>t. source_at F1 j = Some t \<longrightarrow> IsConstantOperand t"
    using perform_moves_performed [OF ops _ wf all, of ?s] by auto
  then obtain c1 where c1: "gr_code s1 = c1" "\<forall>T m. leads_to cg moves T m \<longrightarrow> leads_to cg F1 T (exec c1 m)"
    unfolding performed_def by auto
  have F1: "gr_moves s1 = F1" "well_formed (resolver_operands moves) F1" "length F1 = length moves"
    using 1(2) performed_length [OF 1(2)] by (simp_all add: performed_def)
  have all1: "set [0..<length moves] \<subseteq> {..<length F1}" using F1 by auto
  have "\<forall>j<length F1. \<forall>t. source_at F1 j = Some t \<longrightarrow> IsConstantOperand t" using 1(3) F1(3) by simp
  from emit_constants_performed [OF ops F1(1,2) all1 this]
  obtain F2 s2 c2 where 2: "emit_constants cg [0..<length moves] s1 = Some s2" "gr_code s2 = c1 @ c2" "length F2 = length F1"
    "\<forall>T m. leads_to cg F1 T m \<longrightarrow> leads_to cg F2 T (exec c2 m)" "well_formed (resolver_operands moves) F2"
    "\<forall>j<length F1. source_at F1 j = None \<or> j \<in> set [0..<length moves] \<longrightarrow> source_at F2 j = None"
    using c1(1) by auto
  have "agree (exec (c1 @ c2) m) (in_parallel cg moves m)" for m
  proof -
    have "leads_to cg F2 (in_parallel cg moves m) (exec (c1 @ c2) m)"
      using leads_to_in_parallel [OF assms(2)] c1(2) 2(4) by simp
    moreover have "\<forall>j<length F2. destination_at F2 j = None"
      using 2(3,6) F1(3) well_formed_active [OF 2(5)] by simp
    ultimately show ?thesis by (simp add: leads_to_def agree_def)
  qed
  moreover have "Resolve cg parallel_move = Some (c1 @ c2)"
    using assms(1) 1(1) 2(1,2) by (simp add: Resolve_def)
  ultimately show ?thesis by blast
qed

definition move_of :: "LOperand \<Rightarrow> LOperand \<Rightarrow> LMoveOperands" where
  "move_of source destination = \<lparr>mv_source = Some source, mv_destination = Some destination\<rparr>"

definition sample_codegen :: gap_codegen where
  "sample_codegen = \<lparr>needs_eager_frame = True,
     lookup_constant = (\<lambda>_. \<lparr>gc_representation = kSmi, gc_integer32 = 42, gc_double = 0, gc_object = 0, gc_dehoisted_key = False\<rparr>)\<rparr>"

theorem Resolve_parallel_witness:
  "\<exists>code. Resolve sample_codegen [move_of (ConvertTo REGISTER 0) (ConvertTo REGISTER 1), move_of (ConvertTo REGISTER 1) (ConvertTo REGISTER 0),
       move_of (ConvertTo STACK_SLOT 2) (ConvertTo STACK_SLOT 2), move_of (ConvertTo CONSTANT_OPERAND 7) (ConvertTo STACK_SLOT (-1))] = Some code \<and>
     (\<forall>m. agree (exec code m)
       (in_parallel sample_codegen [move_of (ConvertTo REGISTER 0) (ConvertTo REGISTER 1), move_of (ConvertTo REGISTER 1) (ConvertTo REGISTER 0),
          move_of (ConvertTo CONSTANT_OPERAND 7) (ConvertTo STACK_SLOT (-1))] m))"
  by (rule Resolve_parallel) code_simp+

end
