(* ===== verification/Spec2Isabelle.thy ===== *)
theory Spec2Isabelle
  imports CodeBlockDatabase BitVector LithiumOperands Unicode Functions ObjectsProperties Environment HeapShims Doubles
    ShimsRoundtrip ExternalReferences Constants ConstantsRoundtrip Opcodes HydrogenShims HydrogenShimsRoundtrip Instructions InstructionSaveload InstructionClasses
    InstructionsRoundtrip ShimTypes Chunk ChunkSaveload ChunkRoundtrip EmptyBlocks RangeInference RangeAnalysis GapResolverCorrect
begin

text \<open>
  This library accompanies a fork of V8 in which code that Crankshaft has optimized is kept between runs: a compiled
  function is written to a database as a \<^emph>\<open>chunk\<close> of Lithium instructions, and a later process reads the chunk, rebuilds
  its instructions, constants and deoptimization environments over its own heap, and generates code from it. What the
  library states is mainly that what is loaded means the same as what was saved, and which inputs and objects the
  format does not carry. All paths are below \<^verbatim>\<open>src/src/\<close> of the repository.

  \<^bold>\<open>Parts of the program and how they interact.\<close> \<^verbatim>\<open>saveload.h\<close> writes and reads primitives in a list of bytes.
  \<^verbatim>\<open>lithium-saveload.{h,cc}\<close> has the bases of saver and loader, with a status that makes every later operation fail, and the
  saving of strings, functions, maps, heap objects, environments, operands and pointer maps. \<^verbatim>\<open>x64/lithium-saveload-x64.cc\<close>
  adds the instructions of x64, the constants and the chunk itself. \<^verbatim>\<open>hydrogen-shim.h\<close> and \<^verbatim>\<open>x64/hydrogen-shim-x64.h\<close> keep
  of a Hydrogen instruction what code generation asks for, so that a loaded instruction needs no Hydrogen graph.
  \<^verbatim>\<open>code-block-database.{h,cc}\<close> stores the chunks by the positions of their functions. Around them stand the parts of the
  compiler that make what is saved or use what is loaded: ranges of integers and their analysis, which decide which
  checks an instruction has; the jumps over empty blocks; and the resolver of the moves in gaps.

  \<^bold>\<open>Theories.\<close>

  \<^item> \<open>Prelude\<close>, \<open>Saveload\<close>, \<open>SaveloadBase\<close>: words as bytes in the order of x64; the free functions of \<^verbatim>\<open>saveload.h\<close>;
    \<^verbatim>\<open>LChunkSaverBase\<close> and \<^verbatim>\<open>LChunkLoaderBase\<close> as records of the bytes and the status. The locale \<open>codec\<close> is the contract of
    a saver and a loader: loading what was saved gives a related value and consumes what was written. It is interpreted on
    operands, pointer maps and bit vectors.
  \<^item> \<open>CodeBlockDatabase\<close> (\<^verbatim>\<open>code-block-database.{h,cc}\<close>, \<^verbatim>\<open>vector.h\<close>): the blocks, the file format and who owns which vector.
    A locale \<open>code_store\<close> gives the laws of the map it implements; a file that was written is read back; the destructor
    frees every managed vector once, while removing a block leaks its code.
  \<^item> \<open>BitVector\<close> (\<^verbatim>\<open>bit-vector.{h,cc}\<close>, \<^verbatim>\<open>base/bits.h\<close>): vectors of words with their iterator, and the growable ones; the
    locale \<open>index_set\<close> is interpreted on both, the operations refine those of sets.
  \<^item> \<open>LithiumOperands\<close> (\<^verbatim>\<open>lithium.{h,cc}\<close>, \<^verbatim>\<open>utils.h\<close>): operands and unallocated operands as packed words (locale
    \<open>bit_field\<close>), moves, pointer maps.
  \<^item> \<open>Unicode\<close>, \<open>Functions\<close>: UTF-8 and UTF-16 as V8 converts them, with the surrogates; names, symbols, contexts, and shared
    functions, which are found again by their path of indices from the outermost function of their script.
  \<^item> \<open>Objects\<close>, \<open>ObjectsRoundtrip\<close>, \<open>ObjectsProperties\<close>: \<^verbatim>\<open>SaveObject\<close>, \<^verbatim>\<open>LoadObject\<close>, the maps with their transitions and their
    deduplication. The relation \<open>reloads\<close> says which object comes back; the properties say when it is the same, and which
    objects crash the loader or lose something.
  \<^item> \<open>Environment\<close> (\<^verbatim>\<open>lithium.h\<close>, \<^verbatim>\<open>lithium-saveload.cc\<close>): deoptimization environments, the iterators over their operands.
  \<^item> \<open>Representations\<close> (\<^verbatim>\<open>property-details.h\<close>, \<^verbatim>\<open>hydrogen-types.h\<close>, \<^verbatim>\<open>elements-kind.{h,cc}\<close>): the lattices, with the locale
    \<open>generalization\<close>, and the packed words of details and of accesses to objects.
  \<^item> \<open>Doubles\<close> (\<^verbatim>\<open>double.h\<close>, \<^verbatim>\<open>diy-fp.{h,cc}\<close>, \<^verbatim>\<open>conversions-inl.h\<close>): doubles as words of 64 bits and their conversion to integers.
  \<^item> \<open>Shims\<close>, \<open>HeapShims\<close>, \<open>ShimsRoundtrip\<close>, \<open>Opcodes\<close>, \<open>HydrogenShims\<close>, \<open>HydrogenShimsRoundtrip\<close>, \<open>ShimTypes\<close>: the shims, which of
    them belongs to which instruction, what comes back of each, and the C++ type that code generation casts it to.
  \<^item> \<open>ExternalReferences\<close> (\<^verbatim>\<open>serialize.{h,cc}\<close>), \<open>Constants\<close>, \<open>ConstantsRoundtrip\<close>: \<^verbatim>\<open>HConstant\<close> and its shim; a constant is written
    by value, by the name by which the loading process finds it, or as a heap object.
  \<^item> \<open>Instructions\<close>, \<open>InstructionSaveload\<close>, \<open>InstructionClasses\<close>, \<open>InstructionsRoundtrip\<close> (\<^verbatim>\<open>x64/lithium-x64.{h,cc}\<close>,
    \<^verbatim>\<open>x64/lithium-saveload-x64.{h,cc}\<close>): the members of all classes of instructions, the functions that save and load each,
    one table that they all agree with, and the round trip of an instruction.
  \<^item> \<open>Chunk\<close>, \<open>ChunkSaveload\<close>, \<open>ChunkRoundtrip\<close>: \<^verbatim>\<open>LChunk\<close>, the constants that its code refers to, \<^verbatim>\<open>LChunkSaver::Save\<close>,
    \<^verbatim>\<open>LChunkLoader::Load\<close> and \<^verbatim>\<open>LSavedChunk\<close>, and what becomes of a whole chunk. \<open>EmptyBlocks\<close>: \<^verbatim>\<open>MarkEmptyBlocks\<close> and the labels
    that replace each other.
  \<^item> \<open>Ranges\<close>, \<open>RangeInference\<close>, \<open>RangeAnalysis\<close> (\<^verbatim>\<open>hydrogen-instructions.{h,cc}\<close>, \<^verbatim>\<open>hydrogen-range-analysis.{h,cc}\<close>): the class
    \<^verbatim>\<open>Range\<close>, the inference for every class of instruction, and the phase that walks over the dominator tree. The inferred
    ranges hold the values of the instructions, a check is dropped only where it cannot fail, and refinements by
    comparisons are taken back where they do not hold; one lemma shows the check for minus zero that the phase loses.
  \<^item> \<open>GapResolver\<close>, \<open>GapResolverCorrect\<close> (\<^verbatim>\<open>x64/lithium-gap-resolver-x64.{h,cc}\<close>, with the frame offsets of \<^verbatim>\<open>lithium.cc\<close> and
    \<^verbatim>\<open>x64/lithium-codegen-x64.cc\<close>): the code emitted for the moves of a gap performs them in parallel.

  \<^bold>\<open>How state and operations are modelled.\<close> An object of C++ is a record, a method a function from the old to the new record.
  A saver and a loader are state transformers: \<open>None\<close> is a run that does not go on, because it reads out of bounds or
  through a null pointer, fails a \<^verbatim>\<open>CHECK\<close>, or comes to a point declared \<^verbatim>\<open>UNREACHABLE\<close> (which is empty in a release build, so
  that what follows is undefined); an ordinary failure is the status of the saver or loader, as in the code. Debug assertions
  are no branches. Integers keep their width as words, an \<^verbatim>\<open>int\<close> that the code only counts with is an \<open>int\<close>.
  Heap objects are trees and maps are their chains of transitions; handles have no identity except where the code compares
  them. The isolate is a record of tables, whose lookups (properties of contexts, compiled functions, global cells, symbols)
  are parameters, as are the file system and, for constants, what the heap answers.

  \<^bold>\<open>Fuel and termination.\<close> \<^verbatim>\<open>LoadObject\<close> recurses as deep as the bytes tell it to. Each call reads at least one byte, so the
  number of bytes left is enough fuel, and the round trips show that it returns. A chain of environments is bounded in the
  same way. The iterator of bit vectors is given the number of bits, the recursion of the gap resolver the number of moves.
  Loops that the code does not bound are \<open>partial_function\<close>s of the option type: the path to the root of a function, the
  labels that replace each other, the mask of a bitwise operation, the walk over the dominator tree and the worklist of the
  checks for minus zero. That they return is part of what is proved of them, where they do. The other loops are structural
  or have a measure.

  \<^bold>\<open>Not modelled.\<close> Printing, tracing and debug checks. The printing of numbers, the tables of character classes, the list
  of external references and the serializer of the snapshot. Of Hydrogen only constants, ranges and the range analysis are
  modelled: the graph builder, the other phases, the constructors of shims from Hydrogen instructions and the building of
  Lithium from Hydrogen are large and stand before the cache. The register allocator and the emission of code other than
  that of gaps: what an emitted instruction means is up to the processor. The map dependencies of a chunk, which are the
  code cache's link to the deoptimizer. The heap and the garbage collector, the parser, the full code generator, the
  runtime, the API, the debugger and the other architectures, which the cache uses only through the tables above.
\<close>

end
